(* ===== verification/Prelude.thy ===== *)
theory Prelude
  imports Complex_Main
begin

text \<open>
  Shared vocabulary of the development.

  \<^item> A request handler of the API is a function from the database state to the state it
    leaves and either the exception it throws or the value it returns. A throw does not undo
    writes that were already made; only \<open>transaction\<close> (the code's \<open>$transaction\<close>) does.
  \<^item> A table is the list of its rows in insertion order. The query functions of the
    database client (\<open>findUnique\<close>, \<open>updateMany\<close>, \<open>count\<close>, \<open>aggregate\<close>, \<open>create\<close>)
    are ordinary functions on such lists.
  \<^item> \<open>row_table\<close> is the interface of one table of the database state. Its lemmas are what
    the components know about the conditional update
    \<open>updateMany({where: {id, status: old}})\<close>, the locking primitive of the whole program.
\<close>

named_theorems handler_simps \<open>unfolding rules of the handler combinators\<close>
named_theorems table_simps \<open>unfolding rules of the table operations\<close>
named_theorems ok_simps \<open>what a handler has done when it replies\<close>
named_theorems keeps_intros \<open>rules that propagate a state invariant through a handler\<close>

subsection \<open>Names for the base types\<close>

type_synonym ident = string
type_synonym msg = string
type_synonym cents = int
type_synonym millis = int

text \<open>The exceptions of the web framework the services throw; the argument is the message
  (the display texts of the program are given in English).\<close>

datatype api_error =
    BadRequest msg
  | NotFound msg
  | Forbidden msg
  | Conflict msg
  | Unauthorized msg
  | ServiceUnavailable msg
  | NotImplemented msg
  | BadGateway msg
  | InternalError msg

subsection \<open>Numbers\<close>

text \<open>\<open>Math.round\<close> rounds a half upwards, also for negative numbers.\<close>

definition js_round :: "rat \<Rightarrow> int" where
  "js_round x = \<lfloor>x + 1 / 2\<rfloor>"

lemma js_round_of_int [simp]: "js_round (of_int n) = n"
proof -
  have "\<lfloor>(of_int n :: rat) + 1 / 2\<rfloor> = n"
    by (rule floor_unique) simp_all
  then show ?thesis by (simp add: js_round_def)
qed

lemma js_round_mono: "x \<le> y \<Longrightarrow> js_round x \<le> js_round y"
  by (simp add: js_round_def floor_mono)

lemma js_round_nonneg: "0 \<le> x \<Longrightarrow> 0 \<le> js_round x"
  by (simp add: js_round_def)

lemma js_round_le_of_int: "x \<le> of_int n \<Longrightarrow> js_round x \<le> n"
  using js_round_mono [of x "of_int n"] by simp

subsection \<open>Sets of a list\<close>

text \<open>\<open>[...new Set(xs)]\<close>: the first occurrences, in order.\<close>

definition js_set :: "'a list \<Rightarrow> 'a list" where
  "js_set xs = rev (remdups (rev xs))"

lemma set_js_set [simp]: "set (js_set xs) = set xs"
  by (simp add: js_set_def)

lemma distinct_js_set [simp]: "distinct (js_set xs)"
  by (simp add: js_set_def)

lemma js_set_Nil [simp]: "js_set xs = [] \<longleftrightarrow> xs = []"
  by (simp add: js_set_def)

subsection \<open>Handlers\<close>

type_synonym ('s, 'r) handler = "'s \<Rightarrow> 's \<times> (api_error + 'r)"

definition reply :: "'r \<Rightarrow> ('s, 'r) handler" where
  "reply r s = (s, Inr r)"

definition reject :: "api_error \<Rightarrow> ('s, 'r) handler" where
  "reject e s = (s, Inl e)"

definition and_then :: "('s, 'a) handler \<Rightarrow> ('a \<Rightarrow> ('s, 'b) handler) \<Rightarrow> ('s, 'b) handler" where
  "and_then h k s = (case h s of (s', Inl e) \<Rightarrow> (s', Inl e) | (s', Inr r) \<Rightarrow> k r s')"

text \<open>\<open>if (c) throw e\<close> before the rest of the handler.\<close>

definition unless :: "bool \<Rightarrow> api_error \<Rightarrow> ('s, 'r) handler \<Rightarrow> ('s, 'r) handler" where
  "unless ok e h = (if ok then h else reject e)"

lemma unless_apply: "unless ok e h s = (if ok then h s else (s, Inl e))"
  by (simp add: unless_def reject_def)

lemma unless_cases: "(\<exists>e'. unless ok e h s = (s, Inl e')) \<or> ok \<and> unless ok e h s = h s"
  by (simp add: unless_def reject_def)

text \<open>A database transaction: an exception that leaves the callback restores the state.\<close>

definition transaction :: "('s, 'r) handler \<Rightarrow> ('s, 'r) handler" where
  "transaction h s = (case h s of (s', Inl e) \<Rightarrow> (s, Inl e) | (s', Inr r) \<Rightarrow> (s', Inr r))"

text \<open>A \<open>for ... of\<close> loop whose body may throw.\<close>

primrec for_each :: "('x \<Rightarrow> ('s, unit) handler) \<Rightarrow> 'x list \<Rightarrow> ('s, unit) handler" where
  "for_each f [] = reply ()"
| "for_each f (x # xs) = and_then (f x) (\<lambda>_. for_each f xs)"

lemmas handler_unfold [handler_simps] =
  reply_def reject_def and_then_def unless_def transaction_def

text \<open>An atomic handler changes nothing when it throws.\<close>

definition atomic :: "('s, 'r) handler \<Rightarrow> bool" where
  "atomic h \<longleftrightarrow> (\<forall>s s' e. h s = (s', Inl e) \<longrightarrow> s' = s)"

lemma atomicD: "atomic h \<Longrightarrow> h s = (s', Inl e) \<Longrightarrow> s' = s"
  by (auto simp: atomic_def)

lemma atomic_reply [simp, intro]: "atomic (reply r)"
  by (simp add: atomic_def reply_def)

lemma atomic_reject [simp, intro]: "atomic (reject e)"
  by (simp add: atomic_def reject_def)

lemma atomic_transaction [simp, intro]: "atomic (transaction h)"
  by (auto simp: atomic_def transaction_def split: prod.splits sum.splits)

lemma atomic_unless: "(ok \<Longrightarrow> atomic h) \<Longrightarrow> atomic (unless ok e h)"
  by (simp add: unless_def)

text \<open>A handler keeps a predicate on the state, whether it throws or not.\<close>

definition keeps :: "('s \<Rightarrow> bool) \<Rightarrow> ('s, 'r) handler \<Rightarrow> bool" where
  "keeps I h \<longleftrightarrow> (\<forall>s. I s \<longrightarrow> I (fst (h s)))"

lemma keepsI: "(\<And>s. I s \<Longrightarrow> I (fst (h s))) \<Longrightarrow> keeps I h"
  by (simp add: keeps_def)

lemma keepsD: "keeps I h \<Longrightarrow> I s \<Longrightarrow> I (fst (h s))"
  by (simp add: keeps_def)

lemma keeps_reply [keeps_intros]: "keeps I (reply r)"
  by (simp add: keeps_def reply_def)

lemma keeps_reject [keeps_intros]: "keeps I (reject e)"
  by (simp add: keeps_def reject_def)

lemma keeps_unless [keeps_intros]: "keeps I h \<Longrightarrow> keeps I (unless ok e h)"
  by (simp add: keeps_def unless_def reject_def)

lemma keeps_transaction [keeps_intros]: "keeps I h \<Longrightarrow> keeps I (transaction h)"
  by (fastforce simp: keeps_def transaction_def split: prod.splits sum.splits)

lemma keeps_and_then [keeps_intros]:
  assumes "keeps I h" and "\<And>r. keeps I (k r)"
  shows "keeps I (and_then h k)"
proof (rule keepsI)
  fix s assume "I s"
  then have "I (fst (h s))" using assms(1) by (rule keepsD [rotated])
  then show "I (fst (and_then h k s))"
    using assms(2) by (auto simp: and_then_def keeps_def split: prod.splits sum.splits)
qed

lemma keeps_for_each [keeps_intros]: "(\<And>x. keeps I (f x)) \<Longrightarrow> keeps I (for_each f xs)"
  by (induction xs) (auto intro: keeps_intros)

lemma keeps_if [keeps_intros]: "keeps I h \<Longrightarrow> keeps I g \<Longrightarrow> keeps I (if b then h else g)"
  by simp

subsection \<open>Tables\<close>

definition find_row :: "('r \<Rightarrow> ident) \<Rightarrow> ident \<Rightarrow> 'r list \<Rightarrow> 'r option" where
  "find_row key k rows = find (\<lambda>r. key r = k) rows"

definition update_where :: "('r \<Rightarrow> bool) \<Rightarrow> ('r \<Rightarrow> 'r) \<Rightarrow> 'r list \<Rightarrow> 'r list" where
  "update_where P f rows = map (\<lambda>r. if P r then f r else r) rows"

definition delete_where :: "('r \<Rightarrow> bool) \<Rightarrow> 'r list \<Rightarrow> 'r list" where
  "delete_where P rows = filter (\<lambda>r. \<not> P r) rows"

definition count_where :: "('r \<Rightarrow> bool) \<Rightarrow> 'r list \<Rightarrow> nat" where
  "count_where P rows = length (filter P rows)"

definition sum_where :: "('r \<Rightarrow> bool) \<Rightarrow> ('r \<Rightarrow> int) \<Rightarrow> 'r list \<Rightarrow> int" where
  "sum_where P g rows = sum_list (map g (filter P rows))"

lemmas table_unfold [table_simps] =
  find_row_def update_where_def delete_where_def count_where_def sum_where_def

lemma find_row_Nil [simp]: "find_row key k [] = None"
  by (simp add: find_row_def)

lemma find_row_Cons [simp]:
  "find_row key k (r # rows) = (if key r = k then Some r else find_row key k rows)"
  by (simp add: find_row_def)

lemma find_row_SomeD: "find_row key k rows = Some r \<Longrightarrow> r \<in> set rows \<and> key r = k"
  by (induction rows) (auto split: if_splits)

lemma find_row_None: "find_row key k rows = None \<longleftrightarrow> k \<notin> key ` set rows"
  by (induction rows) auto

lemma update_where_Nil [simp]: "update_where P f [] = []"
  by (simp add: update_where_def)

lemma update_where_Cons [simp]:
  "update_where P f (r # rows) = (if P r then f r else r) # update_where P f rows"
  by (simp add: update_where_def)

lemma length_update_where [simp]: "length (update_where P f rows) = length rows"
  by (simp add: update_where_def)

lemma set_update_where: "set (update_where P f rows) = (\<lambda>r. if P r then f r else r) ` set rows"
  by (simp add: update_where_def)

lemma update_whereD:
  "r \<in> set (update_where P f rows) \<Longrightarrow> (\<exists>r0 \<in> set rows. P r0 \<and> r = f r0) \<or> r \<in> set rows \<and> \<not> P r"
  by (auto simp: set_update_where split: if_splits)

lemma update_where_id: "\<forall>r \<in> set rows. \<not> P r \<Longrightarrow> update_where P f rows = rows"
  by (induction rows) auto

lemma find_row_update_where:
  assumes "\<And>r. key (f r) = key r"
  shows "find_row key k (update_where P f rows) =
    map_option (\<lambda>r. if P r then f r else r) (find_row key k rows)"
  by (induction rows) (auto simp: assms)

lemma map_key_update_where:
  assumes "\<And>r. key (f r) = key r"
  shows "map key (update_where P f rows) = map key rows"
  by (induction rows) (auto simp: assms)

lemma find_row_append:
  "find_row key k (xs @ ys) =
    (case find_row key k xs of None \<Rightarrow> find_row key k ys | Some r \<Rightarrow> Some r)"
  by (induction xs) auto

lemma count_where_Nil [simp]: "count_where P [] = 0"
  by (simp add: count_where_def)

lemma count_where_Cons [simp]:
  "count_where P (r # rows) = (if P r then 1 else 0) + count_where P rows"
  by (simp add: count_where_def)

lemma count_where_0: "count_where P rows = 0 \<longleftrightarrow> (\<forall>r \<in> set rows. \<not> P r)"
  by (simp add: count_where_def filter_empty_conv)

lemma count_where_gt0: "0 < count_where P rows \<longleftrightarrow> (\<exists>r \<in> set rows. P r)"
  by (simp add: count_where_def filter_empty_conv)

lemma sum_where_Nil [simp]: "sum_where P g [] = 0"
  by (simp add: sum_where_def)

lemma sum_where_Cons [simp]:
  "sum_where P g (r # rows) = (if P r then g r else 0) + sum_where P g rows"
  by (simp add: sum_where_def)

lemma sum_where_append [simp]:
  "sum_where P g (xs @ ys) = sum_where P g xs + sum_where P g ys"
  by (simp add: sum_where_def)

lemma sum_where_nonneg: "\<forall>r \<in> set rows. P r \<longrightarrow> 0 \<le> g r \<Longrightarrow> 0 \<le> sum_where P g rows"
  by (induction rows) auto

text \<open>Where the key is unique, a row lookup by key selects the only candidate.\<close>

lemma find_row_unique:
  assumes "distinct (map key rows)" and "r \<in> set rows"
  shows "find_row key (key r) rows = Some r"
  using assms by (induction rows) (auto simp: image_iff)

lemma unique_key: "distinct (map key rows) \<Longrightarrow> r \<in> set rows \<Longrightarrow> r' \<in> set rows \<Longrightarrow>
  key r = key r' \<Longrightarrow> r = r'"
  by (auto simp: distinct_map inj_on_def)

lemma count_where_key_le1:
  assumes "distinct (map key rows)"
  shows "count_where (\<lambda>r. key r = k \<and> P r) rows \<le> 1"
  using assms
proof (induction rows)
  case Nil
  then show ?case by simp
next
  case (Cons r rows)
  show ?case
  proof (cases "key r = k \<and> P r")
    case True
    with Cons.prems have "\<forall>r' \<in> set rows. \<not> (key r' = k \<and> P r')"
      by (auto simp: image_iff)
    then have "count_where (\<lambda>r. key r = k \<and> P r) rows = 0"
      unfolding count_where_0 .
    then show ?thesis by simp
  qed (use Cons in auto)
qed

subsection \<open>The conditional update\<close>

text \<open>\<open>updateMany({where, data})\<close> on one table of a state: the new state and the number
  of rows that matched.\<close>

definition update_many ::
  "('s \<Rightarrow> 'r list) \<Rightarrow> (('r list \<Rightarrow> 'r list) \<Rightarrow> 's \<Rightarrow> 's) \<Rightarrow> ('r \<Rightarrow> bool) \<Rightarrow> ('r \<Rightarrow> 'r) \<Rightarrow> 's \<Rightarrow> 's \<times> nat"
where
  "update_many sel upd P f s = (upd (update_where P f) s, count_where P (sel s))"

text \<open>\<open>const won = await tx.t.updateMany(...); if (!won.count) throw e\<close>.\<close>

definition claim_or ::
  "('s \<Rightarrow> 'r list) \<Rightarrow> (('r list \<Rightarrow> 'r list) \<Rightarrow> 's \<Rightarrow> 's) \<Rightarrow> ('r \<Rightarrow> bool) \<Rightarrow> ('r \<Rightarrow> 'r) \<Rightarrow> api_error
    \<Rightarrow> ('s, unit) handler"
where
  "claim_or sel upd P f e s =
    (case update_many sel upd P f s of (s', n) \<Rightarrow> if n = 0 then (s', Inl e) else (s', Inr ()))"

definition modify :: "('s \<Rightarrow> 's) \<Rightarrow> ('s, unit) handler" where
  "modify f s = (f s, Inr ())"

definition read :: "('s \<Rightarrow> 'a) \<Rightarrow> ('s, 'a) handler" where
  "read f s = (s, Inr (f s))"

lemmas effect_unfold [handler_simps] = claim_or_def update_many_def modify_def read_def

lemma keeps_modify [keeps_intros]: "(\<And>s. I s \<Longrightarrow> I (f s)) \<Longrightarrow> keeps I (modify f)"
  by (simp add: keeps_def modify_def)

lemma keeps_read [keeps_intros]: "keeps I (read f)"
  by (simp add: keeps_def read_def)

lemma keeps_claim_or [keeps_intros]:
  "(\<And>s. I s \<Longrightarrow> I (upd (update_where P f) s)) \<Longrightarrow> keeps I (claim_or sel upd P f e)"
  by (simp add: keeps_def claim_or_def update_many_def split: if_splits)

subsection \<open>Inversion of a successful run\<close>

lemma reply_ok [ok_simps]: "reply r s = (s', Inr r') \<longleftrightarrow> s' = s \<and> r' = r"
  by (auto simp: reply_def)

lemma reject_ok [ok_simps]: "reject e s = (s', Inr r) \<longleftrightarrow> False"
  by (simp add: reject_def)

lemma unless_ok [ok_simps]: "unless ok e h s = (s', Inr r) \<longleftrightarrow> ok \<and> h s = (s', Inr r)"
  by (simp add: unless_def reject_def)

lemma and_then_ok [ok_simps]:
  "and_then h k s = (s', Inr r) \<longleftrightarrow> (\<exists>s1 a. h s = (s1, Inr a) \<and> k a s1 = (s', Inr r))"
  by (auto simp: and_then_def split: prod.splits sum.splits)

lemma transaction_ok [ok_simps]: "transaction h s = (s', Inr r) \<longleftrightarrow> h s = (s', Inr r)"
  by (auto simp: transaction_def split: prod.splits sum.splits)

lemma modify_ok [ok_simps]: "modify f s = (s', Inr r) \<longleftrightarrow> s' = f s"
  by (auto simp: modify_def)

lemma read_ok [ok_simps]: "read f s = (s', Inr r) \<longleftrightarrow> s' = s \<and> r = f s"
  by (auto simp: read_def)

lemma claim_or_ok [ok_simps]:
  "claim_or sel upd P f e s = (s', Inr r) \<longleftrightarrow> s' = upd (update_where P f) s \<and> (\<exists>x \<in> set (sel s). P x)"
  by (auto simp: claim_or_def update_many_def count_where_0)

text \<open>Handlers that only read, and the handlers built on them that are atomic.\<close>

definition reads :: "('s, 'r) handler \<Rightarrow> bool" where
  "reads h \<longleftrightarrow> (\<forall>s. fst (h s) = s)"

lemma readsI: "(\<And>s. fst (h s) = s) \<Longrightarrow> reads h"
  by (simp add: reads_def)

lemma readsD: "reads h \<Longrightarrow> h s = (s', x) \<Longrightarrow> s' = s"
  by (metis fst_conv reads_def)

lemma reads_atomic: "reads h \<Longrightarrow> atomic h"
  by (auto simp: atomic_def dest: readsD)

lemma reads_reply [simp, intro]: "reads (reply r)"
  by (simp add: reads_def reply_def)

lemma reads_reject [simp, intro]: "reads (reject e)"
  by (simp add: reads_def reject_def)

lemma reads_read [simp, intro]: "reads (read f)"
  by (simp add: reads_def read_def)

lemma reads_unless: "reads h \<Longrightarrow> reads (unless ok e h)"
  by (simp add: unless_def)

lemma reads_and_then: "reads h \<Longrightarrow> (\<And>r. reads (k r)) \<Longrightarrow> reads (and_then h k)"
  by (rule readsI) (auto simp: and_then_def reads_def split: prod.splits sum.splits, (metis fst_conv)+)

lemma atomic_and_then:
  assumes "reads h" and "\<And>r. atomic (k r)"
  shows "atomic (and_then h k)"
  unfolding atomic_def
proof (intro allI impI)
  fix s s' e assume "and_then h k s = (s', Inl e)"
  then consider "h s = (s', Inl e)" | r where "h s = (s, Inr r)" "k r s = (s', Inl e)"
    using readsD [OF assms(1)] by (fastforce simp: and_then_def split: prod.splits sum.splits)
  then show "s' = s"
    by cases (use readsD [OF assms(1)] atomicD [OF assms(2)] in auto)
qed

lemma atomic_modify [simp, intro]: "atomic (modify f)"
  by (simp add: atomic_def modify_def)

lemma atomic_then_total:
  assumes "atomic h" and "\<And>r s. \<exists>s' x. k r s = (s', Inr x)"
  shows "atomic (and_then h k)"
  unfolding atomic_def
proof (intro allI impI)
  fix s s' e assume out: "and_then h k s = (s', Inl e)"
  show "s' = s"
  proof (cases "h s")
    case (Pair s1 x)
    then show ?thesis
      using out assms(2) [of _ s1] atomicD [OF assms(1)]
      by (cases x) (auto simp: and_then_def, metis Inl_Inr_False prod.inject)
  qed
qed

lemma reads_keeps: "reads h \<Longrightarrow> keeps I h"
  by (simp add: reads_def keeps_def)

subsection \<open>The interface of a table\<close>

text \<open>The interface of one table: \<open>sel\<close> reads its rows, \<open>upd\<close> rewrites them, \<open>key\<close> is the
  primary key.\<close>

locale row_table =
  fixes sel :: "'s \<Rightarrow> 'r list"
    and upd :: "('r list \<Rightarrow> 'r list) \<Rightarrow> 's \<Rightarrow> 's"
    and key :: "'r \<Rightarrow> ident"
  assumes sel_upd: "sel (upd f s) = f (sel s)"
    and upd_upd: "upd f (upd g s) = upd (f \<circ> g) s"
    and upd_same: "f (sel s) = sel s \<Longrightarrow> upd f s = s"
begin

lemma find_after_update:
  assumes "\<And>r. key (f r) = key r"
  shows "find_row key k (sel (fst (update_many sel upd P f s))) =
    map_option (\<lambda>r. if P r then f r else r) (find_row key k (sel s))"
  using find_row_update_where [of key f k P "sel s"] assms
  by (simp add: update_many_def sel_upd)

lemma count_after_update:
  assumes "\<And>r. P r \<Longrightarrow> \<not> Q (f r)" and "\<And>r. Q r \<Longrightarrow> P r"
  shows "count_where Q (sel (fst (update_many sel upd P f s))) = 0"
  using assms by (auto simp: update_many_def sel_upd count_where_0 set_update_where)

text \<open>The lock: two claims of the same guard, with any handlers between them that do not
  re-open the guard, cannot both succeed.\<close>

lemma claim_wins_iff: "(\<exists>s'. claim_or sel upd P f e s = (s', Inr ())) \<longleftrightarrow> (\<exists>r \<in> set (sel s). P r)"
  by (auto simp: claim_or_def update_many_def count_where_0)

lemma claim_exclusive:
  assumes "claim_or sel upd P f e s = (s', Inr ())" and "\<And>r. P r \<Longrightarrow> \<not> P (f r)"
  shows "claim_or sel upd P g e' s' = (s', Inl e')"
proof -
  from assms(1) have s': "s' = upd (update_where P f) s"
    by (auto simp: claim_or_def update_many_def split: if_splits)
  then have "\<forall>r \<in> set (sel s'). \<not> P r"
    using assms(2) by (auto simp: sel_upd set_update_where)
  then have "update_where P g (sel s') = sel s'" and "count_where P (sel s') = 0"
    by (auto simp: update_where_id count_where_0)
  then show ?thesis by (simp add: claim_or_def update_many_def upd_same)
qed

lemma claim_loses_unchanged:
  assumes "claim_or sel upd P f e s = (s', Inl e')"
  shows "s' = s \<and> e' = e"
proof -
  from assms have none: "\<forall>r \<in> set (sel s). \<not> P r"
    by (auto simp: claim_or_def update_many_def count_where_0 split: if_splits)
  then have "upd (update_where P f) s = s"
    by (simp add: upd_same update_where_id)
  with assms show ?thesis
    by (auto simp: claim_or_def update_many_def split: if_splits)
qed

lemma atomic_claim: "atomic (claim_or sel upd P f e)"
  unfolding atomic_def using claim_loses_unchanged by blast

end

end
