(* ===== verification/Order_State.thy ===== *)
theory Order_State
  imports Prelude
begin

text \<open>
  The order state machine's vocabulary: \<open>src/common/order-state.ts\<close> (the statuses, their
  texts and phases, the timeline and \<open>markTimelineStep\<close>) and the status sets of
  \<open>src/admin/refund-amount.ts\<close>.

  The status column is a string. The datatype has one constructor per string the code names
  (\<open>'after-sales'\<close> is written by the refund code but is not in \<open>ORDER_STATUSES\<close>) and
  \<open>OtherStatus\<close> for every other content of the column, so that the fallbacks of the code
  (\<open>?? 'done'\<close>, \<open>default\<close>) are branches of the model.
\<close>

subsection \<open>Statuses\<close>

datatype order_status =
    PendingPayment | Paid | Picking | WaitingFirstMile | Arrived | FirstMile
  | WaitingHandover | LastMile | Delivered | Completed | Cancelled | Exception | Refunded
  | AfterSales
  | OtherStatus string

definition ORDER_STATUSES :: "order_status list" where
  "ORDER_STATUSES =
    [PendingPayment, Paid, Picking, WaitingFirstMile, Arrived, FirstMile, WaitingHandover,
     LastMile, Delivered, Completed, Cancelled, Exception, Refunded]"

text \<open>\<open>ORDER_STATUS_TEXT\<close>; \<open>None\<close> is the \<open>undefined\<close> of a key the record does not have.\<close>

fun ORDER_STATUS_TEXT :: "order_status \<Rightarrow> msg option" where
  "ORDER_STATUS_TEXT PendingPayment = Some ''waiting for payment''"
| "ORDER_STATUS_TEXT Paid = Some ''warehouse is taking the order''"
| "ORDER_STATUS_TEXT Picking = Some ''warehouse is picking''"
| "ORDER_STATUS_TEXT WaitingFirstMile = Some ''left the warehouse, waiting for a rider''"
| "ORDER_STATUS_TEXT Arrived = Some ''rider has arrived at the store''"
| "ORDER_STATUS_TEXT FirstMile = Some ''in delivery, rider heading to the building''"
| "ORDER_STATUS_TEXT WaitingHandover = Some ''at the building, waiting for the manager''"
| "ORDER_STATUS_TEXT LastMile = Some ''manager is delivering to the room''"
| "ORDER_STATUS_TEXT Delivered = Some ''delivered to the room''"
| "ORDER_STATUS_TEXT Completed = Some ''receipt confirmed''"
| "ORDER_STATUS_TEXT Cancelled = Some ''order cancelled''"
| "ORDER_STATUS_TEXT Exception = Some ''delivery exception, support is on it''"
| "ORDER_STATUS_TEXT Refunded = Some ''refunded''"
| "ORDER_STATUS_TEXT _ = None"

text \<open>\<open>ORDER_STATUS_TEXT[s] ?? fallback\<close>.\<close>

definition status_text_or :: "order_status \<Rightarrow> msg \<Rightarrow> msg" where
  "status_text_or s fallback = (case ORDER_STATUS_TEXT s of Some t \<Rightarrow> t | None \<Rightarrow> fallback)"

text \<open>\<open>ORDER_STATUS_TEXT[s]\<close> where the code's types make it defined.\<close>

definition status_text :: "order_status \<Rightarrow> msg" where
  "status_text s = status_text_or s []"

datatype phase = PhasePayment | PhaseFulfillment | PhaseDone | PhaseException

fun statusPhase :: "order_status \<Rightarrow> phase" where
  "statusPhase PendingPayment = PhasePayment"
| "statusPhase Paid = PhaseFulfillment"
| "statusPhase Picking = PhaseFulfillment"
| "statusPhase WaitingFirstMile = PhaseFulfillment"
| "statusPhase Arrived = PhaseFulfillment"
| "statusPhase FirstMile = PhaseFulfillment"
| "statusPhase WaitingHandover = PhaseFulfillment"
| "statusPhase LastMile = PhaseFulfillment"
| "statusPhase Delivered = PhaseFulfillment"
| "statusPhase Completed = PhaseDone"
| "statusPhase Cancelled = PhaseDone"
| "statusPhase Refunded = PhaseDone"
| "statusPhase Exception = PhaseException"
| "statusPhase AfterSales = PhaseException"
| "statusPhase (OtherStatus _) = PhaseDone"

definition DELIVERING_STATUSES :: "order_status list" where
  "DELIVERING_STATUSES =
    [Paid, Picking, WaitingFirstMile, Arrived, FirstMile, WaitingHandover, LastMile, Delivered]"

lemma statusPhase_delivering:
  "statusPhase s = PhaseFulfillment \<longleftrightarrow> s \<in> set DELIVERING_STATUSES"
  by (cases s) (simp_all add: DELIVERING_STATUSES_def)

lemma status_text_defined: "ORDER_STATUS_TEXT s \<noteq> None \<longleftrightarrow> s \<in> set ORDER_STATUSES"
  by (cases s) (simp_all add: ORDER_STATUSES_def)

subsection \<open>Timeline\<close>

datatype step_key =
    KPaid | KPicking | KFirstMile | KWaitingHandover | KReadyToDeliver | KLastMile
  | KTransferred | OtherKey string

record timeline_step =
  ts_key :: step_key
  ts_title :: msg
  ts_description :: msg
  ts_done :: bool
  ts_time :: "millis option"

text \<open>\<open>stepKeyForStatus\<close>: the node that entering a status completes.\<close>

fun stepKeyForStatus :: "order_status \<Rightarrow> step_key option" where
  "stepKeyForStatus Paid = Some KPaid"
| "stepKeyForStatus Picking = Some KPicking"
| "stepKeyForStatus WaitingFirstMile = Some KPicking"
| "stepKeyForStatus Arrived = Some KPicking"
| "stepKeyForStatus FirstMile = Some KFirstMile"
| "stepKeyForStatus WaitingHandover = Some KWaitingHandover"
| "stepKeyForStatus LastMile = Some KReadyToDeliver"
| "stepKeyForStatus Delivered = Some KLastMile"
| "stepKeyForStatus _ = None"

definition new_step :: "step_key \<Rightarrow> msg \<Rightarrow> msg \<Rightarrow> timeline_step" where
  "new_step k t d = \<lparr>ts_key = k, ts_title = t, ts_description = d, ts_done = False, ts_time = None\<rparr>"

definition buildOrderTimeline :: "msg \<Rightarrow> timeline_step list" where
  "buildOrderTimeline buildingRoom =
    [new_step KPaid ''paid'' ''the order enters the campus warehouse'',
     new_step KPicking ''left the warehouse'' ''waiting for delivery after picking'',
     new_step KFirstMile ''heading to the building'' ''shown when the rider has the goods'',
     new_step KWaitingHandover ''waiting at the building'' ''rider is at the building'',
     new_step KReadyToDeliver ''ready for the room'' ''the manager has the goods'',
     new_step KLastMile ''delivered to the room'' buildingRoom]"

text \<open>\<open>step && !step.done\<close>: the first step with the key, and only that one, is written.\<close>

fun complete_first :: "step_key \<Rightarrow> millis \<Rightarrow> timeline_step list \<Rightarrow> timeline_step list" where
  "complete_first k now [] = []"
| "complete_first k now (x # xs) =
    (if ts_key x = k
     then (if ts_done x then x else x\<lparr>ts_done := True, ts_time := Some now\<rparr>) # xs
     else x # complete_first k now xs)"

text \<open>The fallback: where no step has the key, the last step gets the time, unless it has one.\<close>

fun stamp_last :: "millis \<Rightarrow> timeline_step list \<Rightarrow> timeline_step list" where
  "stamp_last now [] = []"
| "stamp_last now [x] = [if ts_time x = None then x\<lparr>ts_time := Some now\<rparr> else x]"
| "stamp_last now (x # y # xs) = x # stamp_last now (y # xs)"

definition has_step :: "step_key \<Rightarrow> timeline_step list \<Rightarrow> bool" where
  "has_step k steps \<longleftrightarrow> (\<exists>x \<in> set steps. ts_key x = k)"

definition markTimelineStep :: "millis \<Rightarrow> timeline_step list \<Rightarrow> order_status \<Rightarrow> timeline_step list" where
  "markTimelineStep now steps status =
    (case stepKeyForStatus status of
       Some k \<Rightarrow> if has_step k steps then complete_first k now steps else stamp_last now steps
     | None \<Rightarrow> stamp_last now steps)"

lemma length_complete_first [simp]: "length (complete_first k now xs) = length xs"
  by (induction xs) auto

lemma length_stamp_last [simp]: "length (stamp_last now xs) = length xs"
  by (induction now xs rule: stamp_last.induct) auto

lemma stamp_last_Nil_iff [simp]: "stamp_last now xs = [] \<longleftrightarrow> xs = []"
  by (metis length_0_conv length_stamp_last)

lemma length_markTimelineStep [simp]: "length (markTimelineStep now xs s) = length xs"
  by (simp add: markTimelineStep_def split: option.splits)

lemma keys_complete_first [simp]: "map ts_key (complete_first k now xs) = map ts_key xs"
  by (induction xs) auto

lemma keys_stamp_last [simp]: "map ts_key (stamp_last now xs) = map ts_key xs"
  by (induction now xs rule: stamp_last.induct) auto

lemma keys_markTimelineStep [simp]: "map ts_key (markTimelineStep now xs s) = map ts_key xs"
  by (simp add: markTimelineStep_def split: option.splits)

text \<open>What a later write may do to a step: nothing that was recorded is lost.\<close>

definition step_grows :: "timeline_step \<Rightarrow> timeline_step \<Rightarrow> bool" where
  "step_grows x y \<longleftrightarrow> ts_key y = ts_key x \<and> ts_title y = ts_title x \<and>
     ts_description y = ts_description x \<and> (ts_done x \<longrightarrow> y = x \<or> ts_done y \<and> ts_time x = None) \<and>
     (ts_done y \<longrightarrow> ts_done x \<or> ts_time y \<noteq> None)"

lemma step_grows_refl [simp, intro]: "step_grows x x"
  by (simp add: step_grows_def)

lemma complete_first_grows: "list_all2 step_grows xs (complete_first k now xs)"
  by (induction xs) (auto simp: list_all2_same step_grows_def)

lemma stamp_last_grows: "list_all2 step_grows xs (stamp_last now xs)"
  by (induction now xs rule: stamp_last.induct) (auto simp: step_grows_def)

lemma markTimelineStep_grows: "list_all2 step_grows xs (markTimelineStep now xs s)"
  by (simp add: markTimelineStep_def complete_first_grows stamp_last_grows split: option.splits)

lemma has_step_keys: "has_step k xs \<longleftrightarrow> k \<in> set (map ts_key xs)"
  by (auto simp: has_step_def)

lemma has_step_mark [simp]: "has_step k (markTimelineStep now xs s) = has_step k xs"
  by (simp only: has_step_keys keys_markTimelineStep)

lemma complete_first_twice [simp]:
  "complete_first k t (complete_first k now xs) = complete_first k now xs"
  by (induction xs) auto

lemma stamp_last_twice [simp]: "stamp_last t (stamp_last now xs) = stamp_last now xs"
proof (induction now xs rule: stamp_last.induct)
  case (3 now x y xs)
  then show ?case by (cases "stamp_last now (y # xs)") (use length_stamp_last [of now "y # xs"] in auto)
qed auto

lemma markTimelineStep_twice:
  "markTimelineStep t (markTimelineStep now xs s) s = markTimelineStep now xs s"
  using has_step_mark [of _ now xs s]
  by (auto simp: markTimelineStep_def split: option.splits if_splits)

text \<open>The last step that carries a time: \<open>steps.filter(s => s.time).at(-1)\<close> and
  \<open>timeline.at(-1).time\<close>.\<close>

definition last_stamped :: "timeline_step list \<Rightarrow> millis option" where
  "last_stamped steps =
    (case rev (filter (\<lambda>x. ts_time x \<noteq> None) steps) of [] \<Rightarrow> None | x # _ \<Rightarrow> ts_time x)"

definition last_step_time :: "timeline_step list \<Rightarrow> millis option" where
  "last_step_time steps = (if steps = [] then None else ts_time (last steps))"

lemma stamp_last_records: "xs \<noteq> [] \<Longrightarrow> last_step_time (stamp_last now xs) \<noteq> None"
proof (induction now xs rule: stamp_last.induct)
  case (3 now x y xs)
  then show ?case by (simp add: last_step_time_def)
qed (auto simp: last_step_time_def)

subsection \<open>Status sets of the refund rules (refund-amount.ts)\<close>

definition ARRIVED_STATUSES :: "order_status list" where
  "ARRIVED_STATUSES = [Arrived, FirstMile, WaitingHandover, LastMile, Delivered, Completed]"

definition orderArrived :: "order_status \<Rightarrow> bool" where
  "orderArrived s \<longleftrightarrow> s \<in> set ARRIVED_STATUSES \<or> s = AfterSales"

definition PRE_DELIVERY_REFUNDABLE_STATUSES :: "order_status list" where
  "PRE_DELIVERY_REFUNDABLE_STATUSES =
    [Paid, Picking, WaitingFirstMile, Arrived, FirstMile, WaitingHandover, LastMile]"

definition refundRestoreTarget :: "order_status \<Rightarrow> order_status" where
  "refundRestoreTarget before =
    (if before \<in> set PRE_DELIVERY_REFUNDABLE_STATUSES \<union> {Delivered, Completed}
     then before else Delivered)"

lemma refundRestoreTarget_fulfilling:
  "refundRestoreTarget s = s \<longleftrightarrow> s \<in> set DELIVERING_STATUSES \<union> {Completed}"
  by (cases s)
    (simp_all add: refundRestoreTarget_def PRE_DELIVERY_REFUNDABLE_STATUSES_def DELIVERING_STATUSES_def)

lemma refundRestoreTarget_idem [simp]:
  "refundRestoreTarget (refundRestoreTarget s) = refundRestoreTarget s"
  by (simp add: refundRestoreTarget_def)

lemma refundRestoreTarget_not_locked [simp]: "refundRestoreTarget s \<noteq> AfterSales"
  by (cases s) (simp_all add: refundRestoreTarget_def PRE_DELIVERY_REFUNDABLE_STATUSES_def)

end
