(* ===== verification/Clock.thy ===== *)
theory Clock
  imports Prelude
begin

text \<open>
  Instants and calendar dates. An instant is the number of milliseconds since the epoch
  (\<open>Date.now()\<close>); the offset \<open>tz\<close> of the server's local time is an argument (the program
  runs in a zone without daylight saving). \<open>civil\<close> gives year, month and day of a day
  number, which is what \<open>Date\<close> computes for \<open>toISOString\<close> and \<open>setDate\<close>.

  The windows of \<open>src/business/business.service.ts\<close> that depend on the clock are here:
  the start of a purchase-limit period and the closing hours of a campus.
\<close>

definition DAY_MS :: int where
  "DAY_MS = 86400000"

definition utc_day :: "millis \<Rightarrow> int" where
  "utc_day t = t div DAY_MS"

definition local_day :: "int \<Rightarrow> millis \<Rightarrow> int" where
  "local_day tz t = (t + tz) div DAY_MS"

text \<open>\<open>d.setHours(0, 0, 0, 0)\<close> on the local day.\<close>

definition day_start :: "int \<Rightarrow> int \<Rightarrow> millis" where
  "day_start tz d = d * DAY_MS - tz"

text \<open>\<open>getDay()\<close>: 0 is Sunday; the epoch was a Thursday.\<close>

definition week_day :: "int \<Rightarrow> int" where
  "week_day d = (d + 4) mod 7"

text \<open>Proleptic Gregorian calendar, days counted from 1970-01-01; years start in March inside
  the computation so that the leap day is the last one.\<close>

definition day_of_march_year :: "int \<Rightarrow> int" where
  "day_of_march_year d =
    (let doe = (d + 719468) mod 146097;
         yoe = (doe - doe div 1460 + doe div 36524 - doe div 146096) div 365
     in doe - (365 * yoe + yoe div 4 - yoe div 100))"

definition march_year :: "int \<Rightarrow> int" where
  "march_year d =
    (let doe = (d + 719468) mod 146097;
         yoe = (doe - doe div 1460 + doe div 36524 - doe div 146096) div 365
     in yoe + 400 * ((d + 719468) div 146097))"

definition march_month :: "int \<Rightarrow> int" where
  "march_month doy = (5 * doy + 2) div 153"

definition day_of_month :: "int \<Rightarrow> int" where
  "day_of_month d =
    (let doy = day_of_march_year d in doy - (153 * march_month doy + 2) div 5 + 1)"

definition month_of :: "int \<Rightarrow> int" where
  "month_of d = (let mp = march_month (day_of_march_year d) in if mp < 10 then mp + 3 else mp - 9)"

definition year_of :: "int \<Rightarrow> int" where
  "year_of d = march_year d + (if month_of d \<le> 2 then 1 else 0)"

type_synonym period = "int \<times> int"

text \<open>\<open>new Date(t).toISOString().slice(0, 7)\<close>, the settlement month of an instant.\<close>

definition period_of :: "millis \<Rightarrow> period" where
  "period_of t = (let d = utc_day t in (year_of d, month_of d))"

lemma day_of_month_bounds: "1 \<le> day_of_month d" "day_of_month d \<le> 31"
proof -
  define m where "m = march_month (day_of_march_year d)"
  have "153 * m \<le> 5 * day_of_march_year d + 2" and "5 * day_of_march_year d + 2 < 153 * m + 153"
    unfolding m_def march_month_def by linarith+
  moreover have "day_of_month d = day_of_march_year d - (153 * m + 2) div 5 + 1"
    by (simp add: day_of_month_def m_def Let_def)
  ultimately show "1 \<le> day_of_month d" and "day_of_month d \<le> 31" by linarith+
qed

lemma period_of_epoch: "period_of 0 = (1970, 1)"
  by code_simp

lemma period_of_new_year:
  "period_of (1767225600000 - 1) = (2025, 12) \<and> period_of 1767225600000 = (2026, 1)"
  by code_simp

lemma period_of_leap_day:
  "period_of 951782400000 = (2000, 2) \<and> period_of (951782400000 + 86400000) = (2000, 3)"
  by code_simp

subsection \<open>Windows of the purchase limits (limitWindowStart)\<close>

definition limitWindowStart :: "int \<Rightarrow> string \<Rightarrow> millis \<Rightarrow> millis" where
  "limitWindowStart tz kind now =
    (if kind = ''once'' then 0
     else let d = local_day tz now
          in if kind = ''weekly'' then day_start tz (d - (week_day d + 6) mod 7)
             else if kind = ''monthly'' then day_start tz (d - (day_of_month d - 1))
             else 0)"

lemma week_start_is_monday: "week_day (d - (week_day d + 6) mod 7) = 1"
  unfolding week_day_def by presburger

lemma day_start_le: "day_start tz (local_day tz now) \<le> now"
  unfolding day_start_def local_day_def DAY_MS_def by linarith

lemma day_start_mono: "d \<le> d' \<Longrightarrow> day_start tz d \<le> day_start tz d'"
  by (simp add: day_start_def DAY_MS_def)

lemma limitWindowStart_le:
  assumes "0 \<le> now"
  shows "limitWindowStart tz kind now \<le> now"
proof -
  have "day_start tz (local_day tz now - k) \<le> now" if "0 \<le> k" for k
    using that day_start_mono [of "local_day tz now - k" "local_day tz now" tz] day_start_le [of tz now]
    by linarith
  then show ?thesis
    using assms day_of_month_bounds(1) [of "local_day tz now"]
    by (simp add: limitWindowStart_def Let_def)
qed

lemma limitWindowStart_weekly:
  assumes "0 \<le> now"
  shows "now - 7 * DAY_MS < limitWindowStart tz ''weekly'' now"
proof -
  have "now < day_start tz (local_day tz now) + DAY_MS"
    unfolding day_start_def local_day_def DAY_MS_def by linarith
  moreover have "(week_day (local_day tz now) + 6) mod 7 \<le> 6" by simp
  ultimately show ?thesis
    by (simp add: limitWindowStart_def Let_def day_start_def DAY_MS_def algebra_simps)
qed

subsection \<open>Closing hours (beijingMinutes, isClosedNow, throwIfClosed)\<close>

definition beijingMinutes :: "millis \<Rightarrow> int" where
  "beijingMinutes now = ((now + 8 * 3600000) div 60000) mod 1440"

definition digit_value :: "char \<Rightarrow> int" where
  "digit_value c = int (of_char c :: nat) - 48"

definition is_digit :: "char \<Rightarrow> bool" where
  "is_digit c \<longleftrightarrow> 0 \<le> digit_value c \<and> digit_value c \<le> 9"

text \<open>\<open>Number(s) || 0\<close> for a string that is a run of decimal digits; any other content
  (\<open>NaN\<close>) counts as 0.\<close>

definition number_or_0 :: "string \<Rightarrow> int" where
  "number_or_0 s = (if s \<noteq> [] \<and> list_all is_digit s
     then foldl (\<lambda>n c. 10 * n + digit_value c) 0 s else 0)"

text \<open>\<open>s.split(':')\<close>.\<close>

fun split_on :: "char \<Rightarrow> string \<Rightarrow> string list" where
  "split_on c [] = [[]]"
| "split_on c (x # xs) =
    (if x = c then [] # split_on c xs
     else case split_on c xs of [] \<Rightarrow> [[x]] | w # ws \<Rightarrow> (x # w) # ws)"

definition toMin :: "string \<Rightarrow> int" where
  "toMin s = (case split_on (CHR '':'') s of
     [] \<Rightarrow> 0
   | [h] \<Rightarrow> number_or_0 h * 60
   | h # m # _ \<Rightarrow> number_or_0 h * 60 + number_or_0 m)"

datatype close_reason = ByHand | ByWindow

definition isClosedNow :: "millis \<Rightarrow> bool \<Rightarrow> string \<Rightarrow> string \<Rightarrow> close_reason option" where
  "isClosedNow clock manualClosed start until =
    (if manualClosed then Some ByHand
     else if start = [] \<or> until = [] \<or> start = until then None
     else let now = beijingMinutes clock; s = toMin start; e = toMin until;
              hit = (if s < e then s \<le> now \<and> now < e else s \<le> now \<or> now < e)
          in if hit then Some ByWindow else None)"

definition throwIfClosed ::
  "millis \<Rightarrow> bool \<Rightarrow> string \<Rightarrow> string \<Rightarrow> ('s, unit) handler" where
  "throwIfClosed clock manualClosed start until =
    (case isClosedNow clock manualClosed start until of
       Some ByHand \<Rightarrow> reject (BadRequest ''the shop is resting, no orders are taken'')
     | Some ByWindow \<Rightarrow> reject (BadRequest (''closed, orders are taken again from '' @ until))
     | None \<Rightarrow> reply ())"

lemma beijingMinutes_range: "0 \<le> beijingMinutes t \<and> beijingMinutes t < 1440"
  by (simp add: beijingMinutes_def)

text \<open>Two windows that swap their ends cover the day without overlap.\<close>

lemma window_complement:
  assumes "start \<noteq> []" and "until \<noteq> []" and "toMin start \<noteq> toMin until"
  shows "isClosedNow t False until start = None \<longleftrightarrow> isClosedNow t False start until = Some ByWindow"
  using assms by (auto simp: isClosedNow_def Let_def)

lemma toMin_example: "toMin ''22:30'' = 1350 \<and> toMin ''07:05'' = 425 \<and> toMin ''x:9'' = 9"
  by code_simp

end
