(* ===== verification/Pricing.thy ===== *)
theory Pricing
  imports Prelude
begin

text \<open>
  The program's pure arithmetic: unit conversion (\<open>src/common/product-units.ts\<close>), the amount
  and the ceiling of a refund (\<open>src/admin/refund-amount.ts\<close>), list pages
  (\<open>src/common/pagination.ts\<close>), the masking of an identity number
  (\<open>src/common/sensitive.ts\<close>) and the choice of the best commission rule
  (\<open>src/commission/commission.service.ts\<close>).

  Money is an integer number of fen. A JavaScript number that need not be an integer is a
  rational, so that \<open>Number.isInteger\<close>, \<open>Math.ceil\<close> and \<open>Math.floor\<close> are exact.
\<close>

subsection \<open>Units\<close>

definition isInteger :: "rat \<Rightarrow> bool" where
  "isInteger x \<longleftrightarrow> of_int \<lfloor>x\<rfloor> = x"

lemma isInteger_of_int [simp]: "isInteger (of_int n)"
  by (simp add: isInteger_def)

lemma isInteger_cases: "isInteger x \<Longrightarrow> (\<And>n. x = of_int n \<Longrightarrow> Q) \<Longrightarrow> Q"
  by (metis isInteger_def)

definition caseToRetailUnits :: "rat \<Rightarrow> rat \<Rightarrow> api_error + int" where
  "caseToRetailUnits unitsPerCase caseQty =
    (if \<not> isInteger unitsPerCase \<or> unitsPerCase < 1
     then Inl (InternalError ''units per case must be an integer of at least 1'')
     else if \<not> isInteger caseQty \<or> caseQty < 0
     then Inl (InternalError ''cases must be a non-negative integer'')
     else Inr \<lfloor>caseQty * unitsPerCase\<rfloor>)"

definition retailUnitsToCases :: "rat \<Rightarrow> rat \<Rightarrow> api_error + int" where
  "retailUnitsToCases unitsPerCase retailQty =
    (if \<not> isInteger unitsPerCase \<or> unitsPerCase < 1
     then Inl (InternalError ''units per case must be an integer of at least 1'')
     else if \<not> isInteger retailQty \<or> retailQty < 0
     then Inl (InternalError ''retail quantity must be a non-negative integer'')
     else Inr \<lceil>retailQty / unitsPerCase\<rceil>)"

definition perRetailUnitCostFen :: "rat \<Rightarrow> rat \<Rightarrow> api_error + int" where
  "perRetailUnitCostFen caseCostFen unitsPerCase =
    (if \<not> isInteger unitsPerCase \<or> unitsPerCase < 1
     then Inl (InternalError ''units per case must be an integer of at least 1'')
     else if \<not> isInteger caseCostFen \<or> caseCostFen < 0
     then Inl (InternalError ''cost must be an integer of at least 0 fen'')
     else Inr \<lfloor>caseCostFen / unitsPerCase\<rfloor>)"

lemma floor_of_int_mult: "\<lfloor>of_int a * of_int b :: rat\<rfloor> = a * b"
  by (metis floor_of_int of_int_mult)

lemma units_ok:
  assumes "1 \<le> u" and "0 \<le> q"
  shows "caseToRetailUnits (of_int u) (of_int q) = Inr (q * u)"
    and "retailUnitsToCases (of_int u) (of_int q) = Inr \<lceil>of_int q / of_int u :: rat\<rceil>"
    and "perRetailUnitCostFen (of_int q) (of_int u) = Inr (q div u)"
proof -
  have "\<not> (of_int u :: rat) < 1" and "\<not> (of_int q :: rat) < 0"
    using assms by (simp_all add: not_less)
  then show "caseToRetailUnits (of_int u) (of_int q) = Inr (q * u)"
    and "retailUnitsToCases (of_int u) (of_int q) = Inr \<lceil>of_int q / of_int u :: rat\<rceil>"
    and "perRetailUnitCostFen (of_int q) (of_int u) = Inr (q div u)"
    by (simp_all add: caseToRetailUnits_def retailUnitsToCases_def perRetailUnitCostFen_def
      floor_of_int_mult floor_divide_of_int_eq)
qed

text \<open>The cases that hold a quantity: enough, and no case more than needed.\<close>

lemma ceiling_quotient_bounds:
  assumes "1 \<le> u"
  shows "q \<le> \<lceil>of_int q / of_int u :: rat\<rceil> * u" and "\<lceil>of_int q / of_int u :: rat\<rceil> * u < q + u"
proof -
  let ?c = "\<lceil>of_int q / of_int u :: rat\<rceil>"
  have pos: "(0 :: rat) < of_int u" using assms by simp
  have "(of_int q :: rat) / of_int u \<le> of_int ?c" by (rule le_of_int_ceiling)
  then have "(of_int q :: rat) \<le> of_int ?c * of_int u" using pos by (subst (asm) pos_divide_le_eq)
  then show "q \<le> ?c * u" by (metis of_int_le_iff of_int_mult)
  have "(of_int ?c :: rat) - 1 < of_int q / of_int u"
    using ceiling_correct [of "of_int q / of_int u :: rat"] by simp
  then have "(of_int ?c - 1) * of_int u < (of_int q :: rat)" using pos by (subst (asm) pos_less_divide_eq)
  then have "of_int ((?c - 1) * u) < (of_int q :: rat)" by simp
  then show "?c * u < q + u" by (simp only: of_int_less_iff) (simp add: algebra_simps)
qed

subsection \<open>Refund amounts\<close>

datatype refund_source = PreDelivery | AfterSale | OtherSource string

definition approvedRefundAmount :: "refund_source \<Rightarrow> rat \<Rightarrow> rat list \<Rightarrow> api_error + cents" where
  "approvedRefundAmount source lockedAmount items =
    (case source of
       PreDelivery \<Rightarrow> Inr (js_round lockedAmount)
     | AfterSale \<Rightarrow>
         Inr (if items \<noteq> [] then foldl (\<lambda>sum amount. sum + js_round amount) 0 items
              else js_round lockedAmount)
     | OtherSource s \<Rightarrow> Inl (InternalError (''unknown refund source: '' @ s)))"

definition refundCeiling :: "rat \<Rightarrow> rat \<Rightarrow> bool \<Rightarrow> cents" where
  "refundCeiling payableAmount deliveryFee includeDeliveryFee =
    (if includeDeliveryFee then js_round payableAmount
     else js_round payableAmount - js_round deliveryFee)"

lemma foldl_add_map: "foldl (\<lambda>sum x. sum + f x) a xs = a + sum_list (map f xs)" for a :: int
  by (induction xs arbitrary: a) (auto simp: algebra_simps)

lemma refundCeiling_le: "0 \<le> fee \<Longrightarrow> refundCeiling pay fee b \<le> js_round pay"
  by (simp add: refundCeiling_def js_round_nonneg)

subsection \<open>Pages\<close>

definition DEFAULT_PAGE_SIZE :: int where
  "DEFAULT_PAGE_SIZE = 20"

definition MAX_PAGE_SIZE :: int where
  "MAX_PAGE_SIZE = 100"

text \<open>The arguments are \<open>Number(page)\<close> and \<open>Number(pageSize)\<close>, \<open>None\<close> for \<open>NaN\<close>;
  \<open>||\<close> also replaces a zero.\<close>

definition or_default :: "rat option \<Rightarrow> int \<Rightarrow> rat" where
  "or_default n d = (case n of None \<Rightarrow> of_int d | Some x \<Rightarrow> if x = 0 then of_int d else x)"

definition parsePagination :: "rat option \<Rightarrow> rat option \<Rightarrow> int \<times> int" where
  "parsePagination page pageSize =
    (let p = max 1 \<lfloor>or_default page 1\<rfloor>;
         size = min MAX_PAGE_SIZE (max 1 \<lfloor>or_default pageSize DEFAULT_PAGE_SIZE\<rfloor>)
     in (p, size))"

lemma parsePagination_bounds:
  "1 \<le> fst (parsePagination p s) \<and> 1 \<le> snd (parsePagination p s) \<and> snd (parsePagination p s) \<le> 100"
  by (simp add: parsePagination_def Let_def MAX_PAGE_SIZE_def)

record 'a paged_result =
  pr_items :: "'a list"
  pr_page :: int
  pr_pageSize :: int
  pr_total :: int

definition js_slice :: "int \<Rightarrow> int \<Rightarrow> 'a list \<Rightarrow> 'a list" where
  "js_slice from to xs = drop (nat from) (take (nat to) xs)"

definition paginate ::
  "('a \<Rightarrow> bool) \<Rightarrow> 'a list \<Rightarrow> rat option \<Rightarrow> rat option \<Rightarrow> 'a paged_result" where
  "paginate hit items page pageSize =
    (let (p, size) = parsePagination page pageSize; filtered = filter hit items
     in \<lparr>pr_items = js_slice ((p - 1) * size) (p * size) filtered, pr_page = p,
         pr_pageSize = size, pr_total = int (length filtered)\<rparr>)"

lemma slices_concat:
  "concat (map (\<lambda>i. drop (i * k) (take (Suc i * k) xs)) [0..<n]) = take (n * k) xs"
proof (induction n)
  case (Suc n)
  have "take (Suc n * k) xs = take (n * k) (take (Suc n * k) xs) @ drop (n * k) (take (Suc n * k) xs)"
    by (rule append_take_drop_id [symmetric])
  also have "take (n * k) (take (Suc n * k) xs) = take (n * k) xs"
    by (simp add: min_def)
  finally show ?case using Suc by simp
qed simp

subsection \<open>Identity numbers\<close>

definition is_space :: "char \<Rightarrow> bool" where
  "is_space c \<longleftrightarrow> (of_char c :: nat) \<in> {9, 10, 11, 12, 13, 32, 160}"

definition trim :: "string \<Rightarrow> string" where
  "trim s = rev (dropWhile is_space (rev (dropWhile is_space s)))"

definition maskIdCard :: "string option \<Rightarrow> string" where
  "maskIdCard no =
    (let s = trim (case no of Some x \<Rightarrow> x | None \<Rightarrow> [])
     in if s = [] then []
        else if length s \<le> 4 then ''****''
        else take 2 s @ replicate (length s - 4) (CHR ''*'') @ drop (length s - 2) s)"

subsection \<open>The commission rule for an order\<close>

record commission_dims =
  cd_buildingId :: "ident option"
  cd_buildingName :: "string option"
  cd_floor :: "int option"
  cd_weight :: "rat option"
  cd_mode :: "string option"

record commission_rule =
  cr_id :: ident
  cr_campusId :: ident
  cr_active :: bool
  cr_effectiveAt :: millis
  cr_buildingId :: "ident option"
  cr_floor :: "int option"
  cr_weightFrom :: "rat option"
  cr_weightTo :: "rat option"
  cr_mode :: "string option"
  cr_price :: cents
  cr_version :: int

definition rule_misses :: "commission_rule \<Rightarrow> commission_dims \<Rightarrow> bool" where
  "rule_misses r d \<longleftrightarrow>
     (cr_buildingId r \<noteq> None \<and> cr_buildingId r \<noteq> cd_buildingId d \<and> cr_buildingId r \<noteq> cd_buildingName d) \<or>
     (cr_floor r \<noteq> None \<and> cr_floor r \<noteq> cd_floor d) \<or>
     (case cr_weightFrom r of None \<Rightarrow> False
      | Some lo \<Rightarrow> case cd_weight d of None \<Rightarrow> True | Some w \<Rightarrow> w < lo) \<or>
     (case cr_weightTo r of None \<Rightarrow> False
      | Some hi \<Rightarrow> case cd_weight d of None \<Rightarrow> True | Some w \<Rightarrow> hi < w) \<or>
     (cr_mode r \<noteq> None \<and> cr_mode r \<noteq> cd_mode d)"

definition ruleSpecificity :: "commission_rule \<Rightarrow> commission_dims \<Rightarrow> int" where
  "ruleSpecificity r d =
    (if rule_misses r d then -1
     else int (length (filter (\<lambda>b. b)
       [cr_buildingId r \<noteq> None, cr_floor r \<noteq> None,
        cr_weightFrom r \<noteq> None \<or> cr_weightTo r \<noteq> None, cr_mode r \<noteq> None])))"

text \<open>The loop of \<open>bestMatch\<close>: the best rule so far and its score.\<close>

fun bestMatch_loop ::
  "commission_dims \<Rightarrow> commission_rule option \<Rightarrow> int \<Rightarrow> commission_rule list \<Rightarrow> commission_rule option"
where
  "bestMatch_loop d best bestScore [] = best"
| "bestMatch_loop d best bestScore (r # rs) =
    (let score = ruleSpecificity r d
     in if score < 0 then bestMatch_loop d best bestScore rs
        else if score > bestScore \<or>
          (score = bestScore \<and> (case best of None \<Rightarrow> False | Some b \<Rightarrow> cr_version r > cr_version b))
        then bestMatch_loop d (Some r) score rs
        else bestMatch_loop d best bestScore rs)"

definition bestMatch :: "commission_rule list \<Rightarrow> commission_dims \<Rightarrow> commission_rule option" where
  "bestMatch rules d = bestMatch_loop d None (-1) rules"

text \<open>The order the loop maximises: specificity first, then version.\<close>

definition rule_le :: "commission_dims \<Rightarrow> commission_rule \<Rightarrow> commission_rule \<Rightarrow> bool" where
  "rule_le d a b \<longleftrightarrow> ruleSpecificity a d < ruleSpecificity b d \<or>
     ruleSpecificity a d = ruleSpecificity b d \<and> cr_version a \<le> cr_version b"

lemma rule_le_trans: "rule_le d a b \<Longrightarrow> rule_le d b c \<Longrightarrow> rule_le d a c"
  by (auto simp: rule_le_def)

lemma rule_le_total: "rule_le d a b \<or> rule_le d b a"
  by (auto simp: rule_le_def)

definition score_of :: "commission_dims \<Rightarrow> commission_rule option \<Rightarrow> int" where
  "score_of d best = (case best of None \<Rightarrow> -1 | Some b \<Rightarrow> ruleSpecificity b d)"

lemma specificity_cases: "ruleSpecificity r d = -1 \<and> rule_misses r d \<or> 0 \<le> ruleSpecificity r d \<and> \<not> rule_misses r d"
  by (simp add: ruleSpecificity_def)

lemma bestMatch_loop_spec:
  assumes "score = score_of d best"
  shows "case bestMatch_loop d best score rs of
      None \<Rightarrow> best = None \<and> (\<forall>r \<in> set rs. rule_misses r d)
    | Some b \<Rightarrow> (best = Some b \<or> b \<in> set rs \<and> \<not> rule_misses b d) \<and>
        (\<forall>r \<in> set rs. \<not> rule_misses r d \<longrightarrow> rule_le d r b) \<and>
        (\<forall>r. best = Some r \<longrightarrow> rule_le d r b)"
  using assms
proof (induction d best score rs rule: bestMatch_loop.induct)
  case (1 d best bestScore)
  then show ?case by (cases best) (auto simp: rule_le_def)
next
  case (2 d best bestScore r rs)
  show ?case
  proof (cases "ruleSpecificity r d < 0")
    case True
    then have "rule_misses r d" using specificity_cases [of r d] by auto
    then show ?thesis
      using 2 True by (auto simp: Let_def split: option.splits)
  next
    case False
    then have hit: "\<not> rule_misses r d" using specificity_cases [of r d] by auto
    show ?thesis
    proof (cases "ruleSpecificity r d > bestScore \<or> ruleSpecificity r d = bestScore \<and>
        (case best of None \<Rightarrow> False | Some b \<Rightarrow> cr_version r > cr_version b)")
      case better: True
      then have le: "rule_le d b r" if "best = Some b" for b
        using that 2(4) by (auto simp: rule_le_def score_of_def)
      have "score_of d (Some r) = ruleSpecificity r d" by (simp add: score_of_def)
      note IH = 2(2) [OF refl False better this [symmetric]]
      show ?thesis
        using IH False better hit le
        by (auto simp: Let_def split: option.splits intro: rule_le_trans)
    next
      case worse: False
      then have "\<exists>b0. best = Some b0 \<and> rule_le d r b0"
        using 2(4) False by (cases best) (auto simp: rule_le_def score_of_def)
      then obtain b0 where b0: "best = Some b0" and "rule_le d r b0" by blast
      then show ?thesis
        using 2(3) [OF refl False worse 2(4)] False worse hit
        by (auto simp: Let_def split: option.splits intro: rule_le_trans)
    qed
  qed
qed

end
