(* ===== verification/Store.thy ===== *)
theory Store
  imports Order_State Clock Pricing
begin

text \<open>
  The database (\<open>prisma/schema.prisma\<close>): one record per model the services use, one list of
  rows per table, and the record \<open>db\<close> of the tables. Field names carry the model's prefix.
  A JSON column is the value the services store in it: the address, the items, the timeline
  and the package of an order are records, as the code's types \<open>OrderLine\<close>,
  \<open>ProductSnapshot\<close> and \<open>TimelineStep\<close> state them. Columns no modelled operation reads are
  left out.
\<close>

subsection \<open>JSON values\<close>

datatype json =
    JNull
  | JBool bool
  | JNum rat
  | JStr string
  | JArr "json list"
  | JObj "(string \<times> json) list"

subsection \<open>Organisations, campuses, people\<close>

record organization =
  g_id :: ident
  g_name :: string
  g_status :: string
  g_wxAppId :: "string option"
  g_deliveryWxAppId :: "string option"
  g_capabilities :: json
  g_deliveryMode :: string
  g_wxSecret :: "string option"
  g_mchId :: "string option"
  g_mchApiV3Key :: "string option"
  g_serialNo :: "string option"
  g_privateKey :: "string option"
  g_notifyDomain :: "string option"
  g_wxPayPublicKey :: "string option"

record campus =
  ca_id :: ident
  ca_type :: string
  ca_name :: string
  ca_status :: string
  ca_organizationId :: "ident option"
  ca_features :: json
  ca_deliveryFeeInstant :: cents
  ca_deliveryFeeScheduled :: cents
  ca_deliveryThreshold :: cents
  ca_closeStart :: string
  ca_closeEnd :: string
  ca_manualClosed :: bool
  ca_buildingManagerBaseSalary :: cents
  ca_managerCommissionMode :: string
  ca_managerCommissionRate :: int
  ca_noManagerTip :: string
  ca_refundDeliveryFeeBeforeArrive :: bool
  ca_autoOutboundEnabled :: bool
  ca_autoOutboundDelaySeconds :: int

record user =
  u_id :: ident
  u_campusId :: ident
  u_phone :: string
  u_openid :: "string option"

record building =
  b_id :: ident
  b_campusId :: ident
  b_name :: string
  b_status :: string

datatype staff_role = FulltimeRider | ParttimeRider | BuildingManager | InternBuildingManager | OtherRole string

definition MANAGER_ROLES :: "staff_role list" where
  "MANAGER_ROLES = [BuildingManager, InternBuildingManager]"

record staff =
  s_id :: ident
  s_campusId :: ident
  s_name :: string
  s_role :: staff_role
  s_roleText :: string
  s_staffNo :: string
  s_phone :: string
  s_buildingId :: "ident option"
  s_building :: string
  s_status :: string
  s_notifyQuota :: int
  s_notifyQuotaFailedAt :: "millis option"
  s_gzhOpenid :: "string option"

record address =
  a_id :: ident
  a_userId :: ident
  a_campusId :: ident
  a_campusName :: string
  a_buildingId :: ident
  a_buildingName :: string
  a_floor :: int
  a_room :: string
  a_contactName :: string
  a_phone :: string
  a_isDefault :: bool

subsection \<open>Catalogue, promotions, coupons, cart\<close>

datatype cost_source = HQ | LOCAL | LEGACY

record category =
  cat_id :: ident
  cat_campusId :: ident
  cat_name :: string
  cat_sort :: int
  cat_image :: string
  cat_hidden :: bool

record product =
  p_id :: ident
  p_campusId :: ident
  p_name :: string
  p_price :: cents
  p_originalPrice :: cents
  p_costPrice :: cents
  p_wholesalePrice :: cents
  p_procurementMode :: "string option"
  p_localPurchasePrice :: "cents option"
  p_purchaseLimit :: string
  p_purchaseLimitQty :: int
  p_stock :: int
  p_lockedStock :: int
  p_sales :: int
  p_weight :: rat
  p_status :: string
  p_unitsPerCase :: int
  p_sourceProductId :: "ident option"
  p_organizationId :: "ident option"
  p_barcode :: "string option"
  p_catalogScope :: string
  p_orgCatalogId :: "ident option"
  p_supplyMode :: "string option"
  p_categoryId :: ident
  p_subtitle :: string
  p_tag :: string
  p_image :: string
  p_images :: "string list option"
  p_description :: "string option"
  p_location :: string
  p_locationCode :: string
  p_retailUnit :: string
  p_wholesaleUnit :: string
  p_featured :: bool
  p_featuredSort :: int

text \<open>Nothing of the modelled code writes purchase requests; they are counted.\<close>

record purchase_request =
  pq_productId :: ident
  pq_status :: string

record promotion =
  pm_id :: ident
  pm_productId :: ident
  pm_type :: string
  pm_price :: cents
  pm_startsAt :: millis
  pm_endsAt :: millis
  pm_status :: string
  pm_createdAt :: millis

record cart_item =
  ci_userId :: ident
  ci_productId :: ident
  ci_quantity :: int
  ci_asSeckill :: bool

record coupon =
  c_id :: ident
  c_campusId :: ident
  c_name :: string
  c_kind :: string
  c_trigger :: string
  c_remark :: string
  c_amount :: cents
  c_threshold :: cents
  c_total :: "int option"
  c_status :: string
  c_expiresAt :: "millis option"
  c_perUserLimit :: int
  c_targetedOnly :: bool
  c_featuredAfterPay :: bool
  c_issued :: int
  c_claimed :: int
  c_used :: int

datatype holding_status = HClaimed | HLocked | HUsed | HReleased

record user_coupon =
  uc_id :: ident
  uc_userId :: ident
  uc_couponId :: ident
  uc_status :: holding_status
  uc_claimedAt :: millis

record slot =
  sl_campusId :: ident
  sl_label :: string
  sl_available :: bool
  sl_capacity :: int

subsection \<open>Orders\<close>

text \<open>\<open>ProductSnapshot\<close>: the product as it was sold; the cost fields are written by the
  payment.\<close>

record product_snapshot =
  ps_id :: ident
  ps_name :: string
  ps_price :: cents
  ps_originalPrice :: cents
  ps_weight :: rat
  ps_promotionId :: "ident option"
  ps_unitWholesaleCost :: "cents option"
  ps_unitPurchaseCost :: "cents option"
  ps_unitGrossCost :: "cents option"
  ps_costSource :: "cost_source option"
  ps_unitsPerCase :: "int option"

record order_line =
  ol_product :: product_snapshot
  ol_quantity :: int
  ol_asSeckill :: bool

record proof_note =
  pf_images :: "string list"
  pf_location :: string
  pf_latitude :: "rat option"
  pf_longitude :: "rat option"
  pf_remark :: string
  pf_time :: millis

record handover_note =
  hn_images :: "string list"
  hn_time :: millis

record package =
  pk_id :: "string option"
  pk_status :: "string option"
  pk_lastMileMode :: "string option"
  pk_proof :: "proof_note option"
  pk_handoverProof :: "handover_note option"

record order_row =
  o_id :: ident
  o_orderNo :: string
  o_riderId :: "ident option"
  o_userId :: ident
  o_campusId :: ident
  o_status :: order_status
  o_statusText :: msg
  o_createdAt :: millis
  o_paidAt :: "millis option"
  o_address :: address
  o_deliveryMode :: string
  o_deliverySlot :: "string option"
  o_couponId :: "ident option"
  o_remark :: string
  o_items :: "order_line list"
  o_productAmount :: cents
  o_totalQuantity :: int
  o_deliveryThreshold :: cents
  o_deliveryFee :: cents
  o_discount :: cents
  o_payableAmount :: cents
  o_estimatedArrival :: string
  o_timeline :: "timeline_step list"
  o_package :: "package option"
  o_stockRestored :: bool

datatype refund_status =
  RPending | RApproved | RRefunding | RRefunded | RRejected | RFailed | RCancelled

text \<open>The statuses that reserve a part of the order's refundable amount.\<close>

definition ACTIVE_REFUNDS :: "refund_status list" where
  "ACTIVE_REFUNDS = [RPending, RApproved, RRefunding, RRefunded]"

record refund =
  r_id :: ident
  r_userId :: ident
  r_orderId :: ident
  r_source :: refund_source
  r_description :: string
  r_amount :: cents
  r_refundDeliveryFee :: bool
  r_beforeStatus :: order_status
  r_reason :: string
  r_status :: refund_status
  r_auditBy :: "ident option"
  r_auditAt :: "millis option"
  r_auditRemark :: string
  r_wxRefundId :: "string option"
  r_refundedAt :: "millis option"
  r_refundError :: string
  r_rejectCount :: int
  r_updatedAt :: millis

record refund_item =
  ri_id :: ident
  ri_refundId :: ident
  ri_productId :: ident
  ri_productName :: string
  ri_unitPrice :: cents
  ri_quantity :: int
  ri_amount :: cents

record after_sale =
  as_id :: ident
  as_userId :: ident

subsection \<open>Money of the staff, wheel, bookkeeping\<close>

datatype commission_kind = KCommission | KAdjustment
datatype commission_status = CPending | CSettled | CAdjusted

record commission =
  cm_staffId :: ident
  cm_orderId :: ident
  cm_campusId :: ident
  cm_amount :: cents
  cm_kind :: commission_kind
  cm_status :: commission_status
  cm_fallback :: bool
  cm_period :: period
  cm_remark :: string

datatype bill_status = PendingReview | Confirmed | PaidOut

record bm_bill =
  bb_id :: ident
  bb_staffId :: ident
  bb_campusId :: ident
  bb_period :: period
  bb_baseSalary :: cents
  bb_commissionTotal :: cents
  bb_adjustment :: cents
  bb_payable :: cents
  bb_status :: bill_status
  bb_confirmedAt :: "millis option"
  bb_paidAt :: "millis option"

record wheel_prize =
  wp_type :: string
  wp_couponId :: "ident option"
  wp_weight :: rat

record wheel =
  w_id :: ident
  w_campusId :: ident
  w_active :: bool
  w_prizes :: "wheel_prize list"

record lottery_draw =
  ld_id :: ident
  ld_userId :: ident
  ld_wheelId :: ident
  ld_drawDate :: int
  ld_prizeIndex :: int
  ld_prizeType :: string
  ld_userCouponId :: "ident option"

record notification =
  n_id :: ident
  n_userId :: ident
  n_type :: string
  n_title :: string
  n_read :: bool

record inventory_txn =
  it_productId :: ident
  it_type :: string
  it_delta :: int
  it_operator :: string

record transfer_log =
  tl_orderId :: ident
  tl_staffId :: ident
  tl_fromStatus :: msg

record audit_log =
  al_operator :: string
  al_action :: string
  al_entityId :: ident

record leave_request =
  lr_id :: ident
  lr_staffId :: ident
  lr_startAt :: millis
  lr_endAt :: millis
  lr_reason :: string
  lr_dispatchMode :: string
  lr_substituteStaffId :: "ident option"
  lr_substituteName :: "string option"
  lr_status :: string

record invitation =
  iv_id :: ident
  iv_staffId :: ident
  iv_building :: string
  iv_startAt :: millis
  iv_endAt :: millis
  iv_reward :: cents
  iv_status :: string

record recruit_application =
  ra_id :: ident
  ra_userId :: ident
  ra_campusId :: ident
  ra_buildingId :: ident
  ra_buildingName :: string
  ra_name :: string
  ra_phone :: string
  ra_note :: string
  ra_status :: string
  ra_rejectReason :: string
  ra_staffId :: "ident option"
  ra_auditBy :: string
  ra_auditByName :: string
  ra_auditedAt :: "millis option"
  ra_idCardNo :: string
  ra_idCardImages :: "string list option"
  ra_staffRemark :: string

subsection \<open>Ordering from the headquarters\<close>

record restock_batch =
  rb_id :: ident
  rb_name :: string
  rb_startAt :: millis
  rb_endAt :: millis
  rb_closedAt :: "millis option"
  rb_createdBy :: ident

text \<open>The lines of an order, of a shipment and of a purchase belong to one parent each and live
  in its row.\<close>

record restock_item =
  rx_productId :: ident
  rx_cases :: int
  rx_unitsPerCase :: int

datatype restock_status = Submitted | OrderConfirmed | Shipped | Received | OrderRejected

record restock_order =
  ro_id :: ident
  ro_batchId :: ident
  ro_campusId :: ident
  ro_status :: restock_status
  ro_submitBy :: ident
  ro_auditBy :: "ident option"
  ro_auditNote :: string
  ro_items :: "restock_item list"

record shipment_item =
  sx_productId :: ident
  sx_cases :: int
  sx_unitsPerCase :: int
  sx_costPerCase :: cents
  sx_wholesalePerCase :: cents

record shipment =
  sh_id :: ident
  sh_orderId :: ident
  sh_batchId :: ident
  sh_campusId :: ident
  sh_shippedBy :: ident
  sh_receivedBy :: "ident option"
  sh_receivedAt :: "millis option"
  sh_items :: "shipment_item list"

record purchase_line =
  pl_productId :: ident
  pl_requiredCases :: int
  pl_receivedCases :: int
  pl_badCases :: int
  pl_unitCost :: cents
  pl_unitsPerCase :: int

record purchase_order =
  po_id :: ident
  po_batchId :: ident
  po_supplierName :: string
  po_closedAt :: "millis option"
  po_closedNote :: string
  po_createdAt :: millis
  po_lines :: "purchase_line list"

subsection \<open>The database\<close>

record db =
  organizations :: "organization list"
  campuses :: "campus list"
  users :: "user list"
  buildings :: "building list"
  staffs :: "staff list"
  addresses :: "address list"
  categories :: "category list"
  products :: "product list"
  purchase_requests :: "purchase_request list"
  promotions :: "promotion list"
  cart_items :: "cart_item list"
  coupons :: "coupon list"
  user_coupons :: "user_coupon list"
  slots :: "slot list"
  orders :: "order_row list"
  refunds :: "refund list"
  refund_items :: "refund_item list"
  commissions :: "commission list"
  bills :: "bm_bill list"
  wheels :: "wheel list"
  draws :: "lottery_draw list"
  notifications :: "notification list"
  inventory_txns :: "inventory_txn list"
  transfer_logs :: "transfer_log list"
  audits :: "audit_log list"
  leaves :: "leave_request list"
  invitations :: "invitation list"
  recruits :: "recruit_application list"
  after_sales :: "after_sale list"
  restock_batches :: "restock_batch list"
  restock_orders :: "restock_order list"
  shipments :: "shipment list"
  purchase_orders :: "purchase_order list"

text \<open>Rewriting a table is storing the rewritten rows.\<close>

lemma table_updates:
  "orders_update f s = s\<lparr>orders := f (orders s)\<rparr>"
  "products_update g s = s\<lparr>products := g (products s)\<rparr>"
  "coupons_update h s = s\<lparr>coupons := h (coupons s)\<rparr>"
  "user_coupons_update k s = s\<lparr>user_coupons := k (user_coupons s)\<rparr>"
  "refunds_update m s = s\<lparr>refunds := m (refunds s)\<rparr>"
  "commissions_update n s = s\<lparr>commissions := n (commissions s)\<rparr>"
  "bills_update p s = s\<lparr>bills := p (bills s)\<rparr>"
  "staffs_update q s = s\<lparr>staffs := q (staffs s)\<rparr>"
  "recruits_update r s = s\<lparr>recruits := r (recruits s)\<rparr>"
  "invitations_update t s = s\<lparr>invitations := t (invitations s)\<rparr>"
  "refund_items_update u s = s\<lparr>refund_items := u (refund_items s)\<rparr>"
  "restock_orders_update v s = s\<lparr>restock_orders := v (restock_orders s)\<rparr>"
  "purchase_orders_update w s = s\<lparr>purchase_orders := w (purchase_orders s)\<rparr>"
  by (cases s, simp)+

end
