(* ===== verification/Capability.thy ===== *)
theory Capability
  imports Store
begin

text \<open>
  Tenancy: \<open>src/common/organization.ts\<close> (from a mini program or a campus to its
  organisation), \<open>src/common/capability.ts\<close> (the marketing switch) and the closing-hours
  gate of \<open>src/business/business.service.ts\<close>.
\<close>

subsection \<open>Organisations (organization.ts)\<close>

text \<open>\<open>findFirst({where: {wxAppId}})\<close>: the first row whose column has the value.\<close>

definition resolveOrganizationByAppId :: "db \<Rightarrow> string option \<Rightarrow> organization option" where
  "resolveOrganizationByAppId s appId =
    (let appid = (case appId of Some x \<Rightarrow> trim x | None \<Rightarrow> [])
     in if appid = [] then None
        else find (\<lambda>g. g_wxAppId g = Some appid) (organizations s))"

definition resolveOrganizationByDeliveryAppId :: "db \<Rightarrow> string option \<Rightarrow> organization option" where
  "resolveOrganizationByDeliveryAppId s appId =
    (let appid = (case appId of Some x \<Rightarrow> trim x | None \<Rightarrow> [])
     in if appid = [] then None
        else find (\<lambda>g. g_deliveryWxAppId g = Some appid) (organizations s))"

datatype mini_program_kind = UserProgram | DeliveryProgram

definition resolveMiniProgramOrganization ::
  "db \<Rightarrow> string option \<Rightarrow> mini_program_kind \<Rightarrow> organization option" where
  "resolveMiniProgramOrganization s appId kind =
    (if kind = DeliveryProgram then resolveOrganizationByDeliveryAppId s appId
     else resolveOrganizationByAppId s appId)"

definition campusOrganizationId :: "db \<Rightarrow> ident option \<Rightarrow> ident option" where
  "campusOrganizationId s campusId =
    (case campusId of
       None \<Rightarrow> None
     | Some cid \<Rightarrow>
         if cid = [] then None
         else case find_row ca_id cid (campuses s) of
           None \<Rightarrow> None | Some c \<Rightarrow> ca_organizationId c)"

definition campusStaffDelivery :: "db \<Rightarrow> ident option \<Rightarrow> bool" where
  "campusStaffDelivery s campusId =
    (case campusOrganizationId s campusId of
       None \<Rightarrow> False
     | Some oid \<Rightarrow>
         if oid = [] then False
         else case find_row g_id oid (organizations s) of
           None \<Rightarrow> False | Some g \<Rightarrow> g_deliveryMode g = ''staff_delivery'')"

subsection \<open>Capabilities (capability.ts)\<close>

fun json_string :: "json \<Rightarrow> string option" where
  "json_string (JStr t) = Some t"
| "json_string _ = None"

text \<open>\<open>allowlist\<close>: an array of strings is a white list, every other content counts as not
  configured.\<close>

fun allowlist :: "json \<Rightarrow> string list option" where
  "allowlist (JArr xs) =
    (if list_all (\<lambda>x. json_string x \<noteq> None) xs then Some (List.map_filter json_string xs) else None)"
| "allowlist _ = None"

definition marketingEnabled :: "db \<Rightarrow> ident option \<Rightarrow> bool" where
  "marketingEnabled s campusId =
    (case campusId of
       None \<Rightarrow> True
     | Some cid \<Rightarrow>
         if cid = [] then True
         else case campusOrganizationId s (Some cid) of
           None \<Rightarrow> True
         | Some oid \<Rightarrow>
             if oid = [] then True
             else case find_row g_id oid (organizations s) of
               None \<Rightarrow> True
             | Some g \<Rightarrow>
                 (case allowlist (g_capabilities g) of
                    Some caps \<Rightarrow> ''marketing'' \<in> set caps | None \<Rightarrow> True) \<and>
                 (case find_row ca_id cid (campuses s) of
                    None \<Rightarrow> True
                  | Some c \<Rightarrow>
                      (case allowlist (ca_features c) of
                         Some feats \<Rightarrow> ''marketing'' \<in> set feats | None \<Rightarrow> True)))"

definition assertMarketingEnabled :: "ident option \<Rightarrow> (db, unit) handler" where
  "assertMarketingEnabled campusId s =
    unless (marketingEnabled s campusId) (Forbidden ''marketing is not enabled'') (reply ()) s"

text \<open>The switch of the organisation is an upper bound: no campus setting opens what the
  organisation has not opened.\<close>

lemma marketing_needs_organization:
  assumes "campusOrganizationId s (Some cid) = Some oid" and "oid \<noteq> []"
    and "find_row g_id oid (organizations s) = Some g"
    and "allowlist (g_capabilities g) = Some caps" and "''marketing'' \<notin> set caps"
  shows "\<not> marketingEnabled s (Some cid)"
  using assms by (auto simp: marketingEnabled_def campusOrganizationId_def split: if_splits)

subsection \<open>Closing hours of a campus\<close>

definition throwIfCampusClosed :: "millis \<Rightarrow> ident \<Rightarrow> (db, unit) handler" where
  "throwIfCampusClosed now campusId s =
    (case find_row ca_id campusId (campuses s) of
       None \<Rightarrow> reply () s
     | Some c \<Rightarrow> throwIfClosed now (ca_manualClosed c) (ca_closeStart c) (ca_closeEnd c) s)"

lemma throwIfCampusClosed_state [simp]: "fst (throwIfCampusClosed now cid s) = s"
  by (simp add: throwIfCampusClosed_def throwIfClosed_def reply_def reject_def
    split: option.splits close_reason.splits)

lemma throwIfCampusClosed_cases:
  "throwIfCampusClosed now cid s = (s, Inr ()) \<or> (\<exists>m. throwIfCampusClosed now cid s = (s, Inl (BadRequest m)))"
  by (auto simp: throwIfCampusClosed_def throwIfClosed_def reply_def reject_def
    split: option.splits close_reason.splits)

end
