(* ===== verification/Catalog.thy ===== *)
theory Catalog
  imports Store
begin

text \<open>
  What a product costs a user and how many the user may buy: the time-limited prices
  (\<open>promotionMap\<close>, \<open>activeSeckillMap\<close>, \<open>productView\<close>) and the purchase limits
  (\<open>purchaseLimitBought\<close>, \<open>assertPurchaseLimit\<close>) of \<open>src/business/business.service.ts\<close>.
\<close>

subsection \<open>Promotions\<close>

definition promo_live :: "millis \<Rightarrow> promotion \<Rightarrow> bool" where
  "promo_live now pm \<longleftrightarrow> pm_status pm = ''active'' \<and> pm_startsAt pm \<le> now \<and> now < pm_endsAt pm"

text \<open>\<open>orderBy: [{ endsAt: 'asc' }, { createdAt: 'asc' }]\<close> as two stable sorts.\<close>

definition by_deadline :: "promotion list \<Rightarrow> promotion list" where
  "by_deadline rows = sort_key pm_endsAt (sort_key pm_createdAt rows)"

text \<open>The map that keeps the first row of every product.\<close>

definition first_of_product :: "promotion list \<Rightarrow> ident \<Rightarrow> promotion option" where
  "first_of_product rows pid = find (\<lambda>r. pm_productId r = pid) rows"

definition promotionMap ::
  "db \<Rightarrow> ident list \<Rightarrow> millis \<Rightarrow> bool \<Rightarrow> ident \<Rightarrow> promotion option" where
  "promotionMap s productIds now excludeSeckill =
    first_of_product (by_deadline (filter (\<lambda>r. pm_productId r \<in> set productIds \<and>
      (excludeSeckill \<longrightarrow> pm_type r \<noteq> ''seckill'') \<and> promo_live now r) (promotions s)))"

definition activeSeckillMap :: "db \<Rightarrow> ident list \<Rightarrow> millis \<Rightarrow> ident \<Rightarrow> promotion option" where
  "activeSeckillMap s productIds now =
    first_of_product (by_deadline (filter (\<lambda>r. pm_productId r \<in> set productIds \<and>
      pm_type r = ''seckill'' \<and> promo_live now r) (promotions s)))"

lemma set_by_deadline [simp]: "set (by_deadline rows) = set rows"
  by (simp add: by_deadline_def)

lemma sorted_by_deadline: "sorted (map pm_endsAt (by_deadline rows))"
  by (simp add: by_deadline_def)

lemma find_sorted_least:
  assumes "sorted (map f xs)" and "find P xs = Some x"
  shows "x \<in> set xs \<and> P x \<and> (\<forall>y \<in> set xs. P y \<longrightarrow> f x \<le> f y)"
  using assms by (induction xs) (auto split: if_splits)

lemma first_of_product_spec:
  assumes "first_of_product (by_deadline rows) pid = Some r"
  shows "r \<in> set rows \<and> pm_productId r = pid \<and>
    (\<forall>q \<in> set rows. pm_productId q = pid \<longrightarrow> pm_endsAt r \<le> pm_endsAt q)"
  using find_sorted_least [OF sorted_by_deadline assms [unfolded first_of_product_def]] by simp

lemma first_of_product_None:
  "first_of_product rows pid = None \<longleftrightarrow> (\<forall>r \<in> set rows. pm_productId r \<noteq> pid)"
  by (auto simp: first_of_product_def find_None_iff)

lemma activeSeckill_live:
  assumes "activeSeckillMap s pids now pid = Some r"
  shows "r \<in> set (promotions s) \<and> pm_productId r = pid \<and> pm_type r = ''seckill'' \<and> promo_live now r"
  using first_of_product_spec [OF assms [unfolded activeSeckillMap_def]] by auto

lemma promotionMap_live:
  assumes "promotionMap s pids now ex pid = Some r"
  shows "r \<in> set (promotions s) \<and> pm_productId r = pid \<and> promo_live now r \<and>
    (ex \<longrightarrow> pm_type r \<noteq> ''seckill'')"
  using first_of_product_spec [OF assms [unfolded promotionMap_def]] by auto

subsection \<open>The product as the user sees it\<close>

text \<open>\<open>productView\<close>: the promotion's price replaces the price, the price moves to the
  struck-out place. The internal prices of the row do not appear in the view.\<close>

definition productView :: "product \<Rightarrow> promotion option \<Rightarrow> product_snapshot" where
  "productView p promo =
    \<lparr>ps_id = p_id p, ps_name = p_name p,
     ps_price = (case promo of Some pm \<Rightarrow> pm_price pm | None \<Rightarrow> p_price p),
     ps_originalPrice = (case promo of Some _ \<Rightarrow> p_price p | None \<Rightarrow> p_originalPrice p),
     ps_weight = p_weight p,
     ps_promotionId = map_option pm_id promo,
     ps_unitWholesaleCost = None, ps_unitPurchaseCost = None, ps_unitGrossCost = None,
     ps_costSource = None, ps_unitsPerCase = Some (p_unitsPerCase p)\<rparr>"

lemma productView_simps [simp]:
  "ps_id (productView p promo) = p_id p"
  "ps_name (productView p promo) = p_name p"
  "ps_weight (productView p promo) = p_weight p"
  "ps_unitWholesaleCost (productView p promo) = None"
  "ps_unitPurchaseCost (productView p promo) = None"
  "ps_unitGrossCost (productView p promo) = None"
  by (simp_all add: productView_def)

subsection \<open>Purchase limits\<close>

text \<open>\<open>this.db.product.findMany({where: {id: {in}, purchaseLimit: {not: 'none'}}})\<close>.\<close>

definition limited_products :: "db \<Rightarrow> ident list \<Rightarrow> product list" where
  "limited_products s productIds =
    filter (\<lambda>p. p_id p \<in> set productIds \<and> p_purchaseLimit p \<noteq> ''none'') (products s)"

definition line_count :: "ident \<Rightarrow> order_line list \<Rightarrow> int" where
  "line_count pid lines = sum_list (map ol_quantity (filter (\<lambda>l. ps_id (ol_product l) = pid) lines))"

definition counts_as_bought :: "ident \<Rightarrow> millis \<Rightarrow> order_row \<Rightarrow> bool" where
  "counts_as_bought userId earliest o' \<longleftrightarrow> o_userId o' = userId \<and>
     (case o_paidAt o' of None \<Rightarrow> False | Some t \<Rightarrow> earliest \<le> t) \<and>
     o_status o' \<notin> {Refunded, Cancelled}"

definition purchaseLimitBought ::
  "db \<Rightarrow> int \<Rightarrow> millis \<Rightarrow> ident \<Rightarrow> ident list \<Rightarrow> ident \<Rightarrow> int" where
  "purchaseLimitBought s tz now userId productIds pid =
    (let kinds = limited_products s productIds;
         start = (\<lambda>k. limitWindowStart tz (p_purchaseLimit k) now)
     in case find_row p_id pid kinds of
          None \<Rightarrow> 0
        | Some k \<Rightarrow>
            sum_list (map (\<lambda>o'. if (case o_paidAt o' of None \<Rightarrow> False | Some t \<Rightarrow> start k \<le> t)
                then line_count pid (o_items o') else 0)
              (filter (counts_as_bought userId (Min (start ` set kinds))) (orders s))))"

definition limit_text :: "string \<Rightarrow> msg" where
  "limit_text kind =
    (if kind = ''once'' then '' one per person, already bought''
     else if kind = ''weekly'' then '' one per week, already bought this week''
     else if kind = ''monthly'' then '' one per month, already bought this month''
     else '' purchase limit reached'')"

text \<open>\<open>assertPurchaseLimit\<close>: the first product whose count has reached its limit throws.\<close>

definition limit_reached :: "db \<Rightarrow> int \<Rightarrow> millis \<Rightarrow> ident \<Rightarrow> ident list \<Rightarrow> product \<Rightarrow> bool" where
  "limit_reached s tz now userId productIds r \<longleftrightarrow>
     (if p_purchaseLimitQty r = 0 then 1 else p_purchaseLimitQty r)
       \<le> purchaseLimitBought s tz now userId productIds (p_id r)"

definition assertPurchaseLimit ::
  "int \<Rightarrow> millis \<Rightarrow> ident \<Rightarrow> ident list \<Rightarrow> (db, unit) handler" where
  "assertPurchaseLimit tz now userId productIds s =
    (let rows = limited_products s productIds
     in case find (limit_reached s tz now userId (map p_id rows)) rows of
          Some r \<Rightarrow> reject (BadRequest (p_name r @ limit_text (p_purchaseLimit r))) s
        | None \<Rightarrow> reply () s)"

lemma assertPurchaseLimit_state [simp]: "fst (assertPurchaseLimit tz now uid pids s) = s"
  by (simp add: assertPurchaseLimit_def Let_def reply_def reject_def split: option.splits)

lemma assertPurchaseLimit_cases:
  "assertPurchaseLimit tz now uid pids s = (s, Inr ()) \<or>
   (\<exists>m. assertPurchaseLimit tz now uid pids s = (s, Inl (BadRequest m)))"
  by (auto simp: assertPurchaseLimit_def Let_def reply_def reject_def split: option.splits)

lemma limited_products_again [simp]:
  "limited_products s (map p_id (limited_products s pids)) = limited_products s pids"
  unfolding limited_products_def by (rule filter_cong) auto

lemma assertPurchaseLimit_passes:
  "assertPurchaseLimit tz now uid pids s = (s, Inr ()) \<longleftrightarrow>
   (\<forall>r \<in> set (limited_products s pids). \<not> limit_reached s tz now uid pids r)"
proof -
  have "limit_reached s tz now uid (map p_id (limited_products s pids)) r =
      limit_reached s tz now uid pids r" for r
    by (simp only: limit_reached_def purchaseLimitBought_def limited_products_again)
  then show ?thesis
    by (auto simp: assertPurchaseLimit_def Let_def reply_def reject_def find_None_iff find_Some_iff
      split: option.splits)
qed

lemma no_limits_pass:
  "limited_products s pids = [] \<Longrightarrow> assertPurchaseLimit tz now uid pids s = (s, Inr ())"
  by (simp add: assertPurchaseLimit_def reply_def)

text \<open>Refunding or cancelling an order releases what it counted.\<close>

lemma counts_as_bought_status:
  "counts_as_bought uid t o' \<Longrightarrow> o_status o' \<noteq> Refunded \<and> o_status o' \<noteq> Cancelled"
  by (simp add: counts_as_bought_def)

end
