(* ===== verification/Cart.thy ===== *)
theory Cart
  imports Capability Catalog
begin

text \<open>
  The shopping cart of \<open>src/business/business.service.ts\<close>: \<open>cartData\<close>, \<open>updateCart\<close>,
  \<open>setCartItem\<close>, \<open>clearCart\<close>. A line of the cart has an identity: bought at the flash-sale
  price (\<open>asSeckill\<close>) or at the normal price.
\<close>

definition DELIVERY_THRESHOLD_CENTS :: cents where
  "DELIVERY_THRESHOLD_CENTS = 1000"

definition free_stock :: "product \<Rightarrow> int" where
  "free_stock p = p_stock p - p_lockedStock p"

subsection \<open>The cart as the user sees it\<close>

record cart =
  ct_items :: "order_line list"
  ct_productAmount :: cents
  ct_totalQuantity :: int
  ct_deliveryThreshold :: cents
  ct_seckillIdInCart :: "ident option"

definition cart_rows_of :: "db \<Rightarrow> ident \<Rightarrow> cart_item list" where
  "cart_rows_of s userId = filter (\<lambda>r. ci_userId r = userId \<and> 0 < ci_quantity r) (cart_items s)"

text \<open>One line: inside the window a flash-sale line has the flash-sale price, every other line
  the normal price, which ignores flash sales. The row's product exists by foreign key.\<close>

definition cart_line ::
  "db \<Rightarrow> (ident \<Rightarrow> promotion option) \<Rightarrow> (ident \<Rightarrow> promotion option) \<Rightarrow> cart_item \<Rightarrow> order_line option"
where
  "cart_line s seckillMap normalPromoMap row =
    map_option (\<lambda>p.
      \<lparr>ol_product = productView p
         (case (if ci_asSeckill row then seckillMap (ci_productId row) else None) of
            Some pm \<Rightarrow> Some pm | None \<Rightarrow> normalPromoMap (ci_productId row)),
       ol_quantity = ci_quantity row, ol_asSeckill = ci_asSeckill row\<rparr>)
    (find_row p_id (ci_productId row) (products s))"

definition lines_amount :: "order_line list \<Rightarrow> cents" where
  "lines_amount lines = sum_list (map (\<lambda>l. ps_price (ol_product l) * ol_quantity l) lines)"

definition lines_quantity :: "order_line list \<Rightarrow> int" where
  "lines_quantity lines = sum_list (map ol_quantity lines)"

definition cartData :: "db \<Rightarrow> millis \<Rightarrow> ident \<Rightarrow> cart" where
  "cartData s now userId =
    (let rows = cart_rows_of s userId;
         ids = map ci_productId rows;
         seckillMap = activeSeckillMap s ids now;
         normalPromoMap = promotionMap s ids now True;
         items = List.map_filter (cart_line s seckillMap normalPromoMap) rows;
         campus = (case find_row u_id userId (users s) of
             None \<Rightarrow> None | Some u \<Rightarrow> find_row ca_id (u_campusId u) (campuses s))
     in \<lparr>ct_items = items,
         ct_productAmount = lines_amount items,
         ct_totalQuantity = lines_quantity items,
         ct_deliveryThreshold = (case campus of Some c \<Rightarrow> ca_deliveryThreshold c
            | None \<Rightarrow> DELIVERY_THRESHOLD_CENTS),
         ct_seckillIdInCart = map_option ci_productId
            (find (\<lambda>r. ci_asSeckill r \<and> seckillMap (ci_productId r) \<noteq> None) rows)\<rparr>)"

subsection \<open>Saving the whole cart\<close>

record cart_line_dto =
  cl_productId :: ident
  cl_quantity :: int
  cl_asSeckill :: bool

text \<open>The loop over the lines of the request: the rows to store or the first exception.\<close>

fun cart_rows_loop ::
  "db \<Rightarrow> ident \<Rightarrow> (ident \<Rightarrow> int) \<Rightarrow> ident set \<Rightarrow> cart_item list \<Rightarrow> cart_line_dto list \<Rightarrow> api_error + cart_item list"
where
  "cart_rows_loop s userId oldQty seckillIds rows [] = Inr rows"
| "cart_rows_loop s userId oldQty seckillIds rows (line # ls) =
    (if cl_quantity line \<le> 0 then cart_rows_loop s userId oldQty seckillIds rows ls
     else case find_row p_id (cl_productId line) (products s) of
       None \<Rightarrow> cart_rows_loop s userId oldQty seckillIds rows ls
     | Some p \<Rightarrow>
         if p_status p \<noteq> ''on-sale'' then cart_rows_loop s userId oldQty seckillIds rows ls
         else if cl_asSeckill line \<and> cl_productId line \<notin> seckillIds
         then Inl (BadRequest (p_name p @ '': the flash sale is not running''))
         else if cl_productId line \<in> seckillIds \<and> cl_quantity line > 1
         then Inl (BadRequest (p_name p @ '': one flash-sale item per order''))
         else if cl_quantity line > oldQty (cl_productId line) \<and> cl_quantity line > free_stock p
         then Inl (BadRequest (p_name p @ '' is out of stock''))
         else cart_rows_loop s userId oldQty seckillIds
           (rows @ [\<lparr>ci_userId = userId, ci_productId = cl_productId line,
              ci_quantity = cl_quantity line, ci_asSeckill = cl_asSeckill line\<rparr>]) ls)"

definition old_quantity :: "db \<Rightarrow> ident \<Rightarrow> ident \<Rightarrow> int" where
  "old_quantity s userId pid =
    (case find (\<lambda>r. ci_userId r = userId \<and> ci_productId r = pid) (cart_items s) of
       Some r \<Rightarrow> ci_quantity r | None \<Rightarrow> 0)"

text \<open>\<open>createMany\<close> under the unique key (user, product).\<close>

definition replace_cart :: "ident \<Rightarrow> cart_item list \<Rightarrow> (db, unit) handler" where
  "replace_cart userId rows s =
    (let s' = s\<lparr>cart_items := delete_where (\<lambda>r. ci_userId r = userId) (cart_items s)\<rparr>
     in if distinct (map ci_productId rows) then (s'\<lparr>cart_items := cart_items s' @ rows\<rparr>, Inr ())
        else (s', Inl (InternalError ''unique constraint (userId, productId)'')))"

definition updateCart ::
  "int \<Rightarrow> millis \<Rightarrow> ident \<Rightarrow> cart_line_dto list \<Rightarrow> (db, cart) handler" where
  "updateCart tz now userId lines =
    and_then
      (\<lambda>s. case find_row u_id userId (users s) of
         None \<Rightarrow> reply () s
       | Some u \<Rightarrow> if u_campusId u = [] then reply () s else throwIfCampusClosed now (u_campusId u) s)
      (\<lambda>_. and_then
        (transaction (\<lambda>s.
          let seckillLines = filter (\<lambda>l. 0 < cl_quantity l \<and> cl_asSeckill l) lines;
              ids = map cl_productId seckillLines;
              seckillIds = {pid \<in> set ids. activeSeckillMap s ids now pid \<noteq> None}
          in and_then
            (assertPurchaseLimit tz now userId (map cl_productId (filter (\<lambda>l. 0 < cl_quantity l) lines)))
            (\<lambda>_. unless (length seckillLines \<le> 1) (BadRequest ''one flash-sale product per order'')
              (\<lambda>s. case cart_rows_loop s userId (old_quantity s userId) seckillIds [] lines of
                 Inl e \<Rightarrow> reject e s
               | Inr rows \<Rightarrow> replace_cart userId rows s)) s))
        (\<lambda>_ s. (s, Inr (cartData s now userId))))"

subsection \<open>One line\<close>

definition upsert_cart :: "cart_item \<Rightarrow> db \<Rightarrow> db" where
  "upsert_cart r s =
    (if \<exists>x \<in> set (cart_items s). ci_userId x = ci_userId r \<and> ci_productId x = ci_productId r
     then s\<lparr>cart_items := update_where (\<lambda>x. ci_userId x = ci_userId r \<and> ci_productId x = ci_productId r)
        (\<lambda>x. x\<lparr>ci_quantity := ci_quantity r, ci_asSeckill := ci_asSeckill r\<rparr>) (cart_items s)\<rparr>
     else s\<lparr>cart_items := cart_items s @ [r]\<rparr>)"

definition setCartItem ::
  "int \<Rightarrow> millis \<Rightarrow> ident \<Rightarrow> ident \<Rightarrow> int \<Rightarrow> bool \<Rightarrow> (db, cart) handler" where
  "setCartItem tz now userId productId quantity asSeckill s =
    (case find_row p_id productId (products s) of
       None \<Rightarrow> reject (NotFound ''no such product'') s
     | Some p \<Rightarrow>
         let existing = find (\<lambda>r. ci_userId r = userId \<and> ci_productId r = productId) (cart_items s)
         in and_then (if 0 < quantity then throwIfCampusClosed now (p_campusId p) else reply ())
         (\<lambda>_. and_then (if 0 < quantity then assertPurchaseLimit tz now userId [productId] else reply ())
         (\<lambda>_. unless (\<not> (0 < quantity \<and> (case existing of Some r \<Rightarrow> ci_asSeckill r \<noteq> asSeckill | None \<Rightarrow> False)))
            (BadRequest (if asSeckill then ''already in the cart at the normal price''
              else ''already in the cart at the flash-sale price''))
         (unless (\<not> (0 < quantity \<and> asSeckill \<and> activeSeckillMap s [productId] now productId = None))
            (BadRequest ''the flash sale is not running'')
         (unless (\<not> (0 < quantity \<and> asSeckill \<and> 1 < quantity))
            (BadRequest ''one flash-sale item per order'')
         (unless (\<not> (0 < quantity \<and> asSeckill \<and>
              (\<exists>r \<in> set (cart_items s). ci_userId r = userId \<and> 0 < ci_quantity r \<and> ci_asSeckill r \<and>
                 ci_productId r \<noteq> productId)))
            (BadRequest ''the cart already has a flash-sale product'')
         (unless (\<not> (quantity > (case existing of Some r \<Rightarrow> ci_quantity r | None \<Rightarrow> 0) \<and> quantity > free_stock p))
            (BadRequest (p_name p @ '' is out of stock''))
         (\<lambda>s. let s' = (if quantity = 0
                then s\<lparr>cart_items := delete_where (\<lambda>r. ci_userId r = userId \<and> ci_productId r = productId) (cart_items s)\<rparr>
                else upsert_cart \<lparr>ci_userId = userId, ci_productId = productId, ci_quantity = quantity,
                  ci_asSeckill = asSeckill\<rparr> s)
              in (s', Inr (cartData s' now userId))))))))) s)"

definition clearCart :: "millis \<Rightarrow> ident \<Rightarrow> (db, cart) handler" where
  "clearCart now userId s =
    (let s' = s\<lparr>cart_items := delete_where (\<lambda>r. ci_userId r = userId) (cart_items s)\<rparr>
     in (s', Inr (cartData s' now userId)))"

subsection \<open>What the operations keep\<close>

text \<open>The key of the table, and at most one flash-sale product per user.\<close>

definition cart_ok :: "db \<Rightarrow> bool" where
  "cart_ok s \<longleftrightarrow> distinct (map (\<lambda>r. (ci_userId r, ci_productId r)) (cart_items s)) \<and>
     (\<forall>r \<in> set (cart_items s). 0 < ci_quantity r) \<and>
     (\<forall>r \<in> set (cart_items s). \<forall>q \<in> set (cart_items s).
        ci_asSeckill r \<and> ci_asSeckill q \<and> ci_userId r = ci_userId q \<longrightarrow> ci_productId r = ci_productId q)"

lemma cart_okI:
  assumes "cart_items s = rows"
    and "distinct (map (\<lambda>r. (ci_userId r, ci_productId r)) rows)"
    and "\<And>r. r \<in> set rows \<Longrightarrow> 0 < ci_quantity r"
    and "\<And>r q. r \<in> set rows \<Longrightarrow> q \<in> set rows \<Longrightarrow> ci_asSeckill r \<and> ci_asSeckill q \<and> ci_userId r = ci_userId q \<Longrightarrow>
      ci_productId r = ci_productId q"
  shows "cart_ok s"
  unfolding cart_ok_def using assms by blast

lemma cart_ok_seckillD:
  "cart_ok s \<Longrightarrow> cart_items s = rows \<Longrightarrow> r \<in> set rows \<Longrightarrow> q \<in> set rows \<Longrightarrow>
    ci_asSeckill r \<and> ci_asSeckill q \<and> ci_userId r = ci_userId q \<Longrightarrow> ci_productId r = ci_productId q"
  unfolding cart_ok_def by blast

lemma cart_ok_delete:
  assumes "cart_ok s"
  shows "cart_ok (s\<lparr>cart_items := delete_where P (cart_items s)\<rparr>)"
  using assms by (auto simp: cart_ok_def delete_where_def distinct_map inj_on_def)

lemma cart_rows_loop_rows:
  assumes "cart_rows_loop s uid old ids rows lines = Inr rows'"
  shows "\<exists>more. rows' = rows @ more \<and>
    (\<forall>r \<in> set more. ci_userId r = uid \<and> 0 < ci_quantity r \<and>
       (\<exists>l \<in> set lines. cl_productId l = ci_productId r \<and> cl_quantity l = ci_quantity r \<and>
          cl_asSeckill l = ci_asSeckill r) \<and>
       (\<exists>p. find_row p_id (ci_productId r) (products s) = Some p \<and> p_status p = ''on-sale'' \<and>
          (ci_quantity r \<le> old (ci_productId r) \<or> ci_quantity r \<le> free_stock p)) \<and>
       (ci_asSeckill r \<longrightarrow> ci_productId r \<in> ids) \<and> (ci_productId r \<in> ids \<longrightarrow> ci_quantity r \<le> 1))"
  using assms
proof (induction s uid old ids rows lines arbitrary: rows' rule: cart_rows_loop.induct)
  case (1 s userId oldQty seckillIds rows)
  then show ?case by simp
next
  case (2 s userId oldQty seckillIds rows line ls)
  show ?case
  proof (cases "\<exists>p. 0 < cl_quantity line \<and> find_row p_id (cl_productId line) (products s) = Some p \<and>
      p_status p = ''on-sale''")
    case True
    then obtain p where p: "0 < cl_quantity line" "find_row p_id (cl_productId line) (products s) = Some p"
      "p_status p = ''on-sale''" by blast
    let ?r = "\<lparr>ci_userId = userId, ci_productId = cl_productId line, ci_quantity = cl_quantity line,
      ci_asSeckill = cl_asSeckill line\<rparr>"
    from 2(5) p have ok: "\<not> (cl_asSeckill line \<and> cl_productId line \<notin> seckillIds)"
      "\<not> (cl_productId line \<in> seckillIds \<and> cl_quantity line > 1)"
      "\<not> (cl_quantity line > oldQty (cl_productId line) \<and> cl_quantity line > free_stock p)"
      and rest: "cart_rows_loop s userId oldQty seckillIds (rows @ [?r]) ls = Inr rows'"
      by (auto split: if_splits)
    from 2(4) [OF _ p(2) _ ok rest] p obtain more where m: "rows' = (rows @ [?r]) @ more"
      and all: "\<forall>r \<in> set more. ci_userId r = userId \<and> 0 < ci_quantity r \<and>
       (\<exists>l \<in> set ls. cl_productId l = ci_productId r \<and> cl_quantity l = ci_quantity r \<and>
          cl_asSeckill l = ci_asSeckill r) \<and>
       (\<exists>p. find_row p_id (ci_productId r) (products s) = Some p \<and> p_status p = ''on-sale'' \<and>
          (ci_quantity r \<le> oldQty (ci_productId r) \<or> ci_quantity r \<le> free_stock p)) \<and>
       (ci_asSeckill r \<longrightarrow> ci_productId r \<in> seckillIds) \<and>
       (ci_productId r \<in> seckillIds \<longrightarrow> ci_quantity r \<le> 1)" by auto
    show ?thesis
      using p ok all by (intro exI [of _ "?r # more"]) (auto simp: m not_less)
  next
    case False
    then have rest: "cart_rows_loop s userId oldQty seckillIds rows ls = Inr rows'"
      using 2(5) by (auto split: if_splits option.splits)
    have "(cl_quantity line \<le> 0) \<or> (\<not> cl_quantity line \<le> 0 \<and> find_row p_id (cl_productId line) (products s) = None) \<or>
      (\<exists>p. \<not> cl_quantity line \<le> 0 \<and> find_row p_id (cl_productId line) (products s) = Some p \<and> p_status p \<noteq> ''on-sale'')"
      using False by (cases "find_row p_id (cl_productId line) (products s)") auto
    then show ?thesis
      using 2(1) [OF _ rest] 2(2) [OF _ _ rest] 2(3) [OF _ _ _ rest] by (elim disjE exE conjE) fastforce+
  qed
qed

text \<open>The write of \<open>updateCart\<close> as a handler of its own.\<close>

lemma replace_cart_keeps:
  assumes ok: "cart_ok s"
    and rows: "\<forall>r \<in> set rows. ci_userId r = uid \<and> 0 < ci_quantity r"
    and one: "\<forall>r \<in> set rows. \<forall>q \<in> set rows. ci_asSeckill r \<and> ci_asSeckill q \<longrightarrow> ci_productId r = ci_productId q"
  shows "cart_ok (fst (replace_cart uid rows s))"
proof -
  let ?del = "delete_where (\<lambda>r. ci_userId r = uid) (cart_items s)"
  have "cart_ok (s\<lparr>cart_items := ?del\<rparr>)" using ok by (rule cart_ok_delete)
  moreover have "cart_ok (s\<lparr>cart_items := ?del @ rows\<rparr>)" if "distinct (map ci_productId rows)"
  proof -
    have other: "ci_userId r \<noteq> uid" if "r \<in> set ?del" for r
      using that by (simp add: delete_where_def)
    have del: "cart_ok (s\<lparr>cart_items := ?del\<rparr>)" using ok by (rule cart_ok_delete)
    have seckill: "ci_productId r = ci_productId q"
      if "r \<in> set (?del @ rows)" "q \<in> set (?del @ rows)"
        and sec: "ci_asSeckill r \<and> ci_asSeckill q \<and> ci_userId r = ci_userId q" for r q
    proof (cases "ci_userId r = uid")
      case True
      then have "r \<in> set rows" "q \<in> set rows" using that other by auto
      then show ?thesis using one sec by blast
    next
      case False
      then have "r \<in> set ?del" "q \<in> set ?del" using that rows by auto
      then show ?thesis using cart_ok_seckillD [OF del _ _ _ sec] by simp
    qed
    have "distinct (map (\<lambda>r. (ci_userId r, ci_productId r)) rows)"
      using that by (auto simp: distinct_map inj_on_def)
    moreover have "distinct (map (\<lambda>r. (ci_userId r, ci_productId r)) ?del)"
      using del by (simp add: cart_ok_def)
    ultimately have key: "distinct (map (\<lambda>r. (ci_userId r, ci_productId r)) (?del @ rows))"
      using other rows by auto
    have pos: "0 < ci_quantity r" if "r \<in> set (?del @ rows)" for r
      using that rows del by (auto simp: cart_ok_def)
    show ?thesis
      by (rule cart_okI [OF _ key pos seckill]) simp_all
  qed
  ultimately show ?thesis by (simp add: replace_cart_def Let_def)
qed

lemma same_of_length_le1: "length xs \<le> 1 \<Longrightarrow> x \<in> set xs \<Longrightarrow> y \<in> set xs \<Longrightarrow> x = y"
  by (cases xs) auto

lemma updateCart_tx_keeps:
  assumes ok: "cart_ok s" and few: "length (filter (\<lambda>l. 0 < cl_quantity l \<and> cl_asSeckill l) lines) \<le> 1"
    and rows: "cart_rows_loop s uid old ids [] lines = Inr rows"
  shows "cart_ok (fst (replace_cart uid rows s))"
proof (rule replace_cart_keeps [OF ok])
  have all: "\<forall>r \<in> set rows. ci_userId r = uid \<and> 0 < ci_quantity r \<and>
      (\<exists>l \<in> set lines. cl_productId l = ci_productId r \<and> cl_quantity l = ci_quantity r \<and>
         cl_asSeckill l = ci_asSeckill r)"
    using cart_rows_loop_rows [OF rows] by auto
  then show "\<forall>r \<in> set rows. ci_userId r = uid \<and> 0 < ci_quantity r" by blast
  show "\<forall>r \<in> set rows. \<forall>q \<in> set rows. ci_asSeckill r \<and> ci_asSeckill q \<longrightarrow> ci_productId r = ci_productId q"
  proof (intro ballI impI)
    fix r q assume "r \<in> set rows" "q \<in> set rows" and sec: "ci_asSeckill r \<and> ci_asSeckill q"
    then obtain l m where "l \<in> set lines" "m \<in> set lines"
      "cl_productId l = ci_productId r" "cl_productId m = ci_productId q"
      "0 < cl_quantity l" "0 < cl_quantity m" "cl_asSeckill l" "cl_asSeckill m"
      using all by metis
    then show "ci_productId r = ci_productId q"
      using same_of_length_le1 [OF few, of l m] by simp
  qed
qed

lemma keeps_throwIfCampusClosed [keeps_intros]: "keeps I (throwIfCampusClosed now cid)"
  by (simp add: keeps_def)

lemma keeps_assertPurchaseLimit [keeps_intros]: "keeps I (assertPurchaseLimit tz now uid pids)"
  by (simp add: keeps_def)

lemma and_then_assertPurchaseLimit:
  "and_then (assertPurchaseLimit tz now uid pids) k s =
    (case snd (assertPurchaseLimit tz now uid pids s) of Inl e \<Rightarrow> (s, Inl e) | Inr _ \<Rightarrow> k () s)"
  using assertPurchaseLimit_cases [of tz now uid pids s] by (auto simp: and_then_def)

lemma keeps_updateCart: "keeps cart_ok (updateCart tz now uid lines)"
proof -
  have "keeps cart_ok (\<lambda>s.
      let seckillLines = filter (\<lambda>l. 0 < cl_quantity l \<and> cl_asSeckill l) lines;
          ids = map cl_productId seckillLines;
          seckillIds = {pid \<in> set ids. activeSeckillMap s ids now pid \<noteq> None}
      in and_then
        (assertPurchaseLimit tz now uid (map cl_productId (filter (\<lambda>l. 0 < cl_quantity l) lines)))
        (\<lambda>_. unless (length seckillLines \<le> 1) (BadRequest ''one flash-sale product per order'')
          (\<lambda>s. case cart_rows_loop s uid (old_quantity s uid) seckillIds [] lines of
             Inl e \<Rightarrow> reject e s
           | Inr rows \<Rightarrow> replace_cart uid rows s)) s)" (is "keeps cart_ok ?tx")
  proof (rule keepsI)
    fix s assume ok: "cart_ok s"
    show "cart_ok (fst (?tx s))"
      using ok updateCart_tx_keeps [OF ok]
      by (auto simp: Let_def and_then_assertPurchaseLimit unless_apply reject_def split: sum.splits)
  qed
  moreover have "keeps cart_ok (\<lambda>s. case find_row u_id uid (users s) of
         None \<Rightarrow> reply () s
       | Some u \<Rightarrow> if u_campusId u = [] then reply () s else throwIfCampusClosed now (u_campusId u) s)"
    by (simp add: keeps_def reply_def split: option.splits)
  moreover have "keeps cart_ok (\<lambda>s. (s, Inr (cartData s now uid)))"
    by (simp add: keeps_def)
  ultimately show ?thesis
    unfolding updateCart_def by (intro keeps_and_then keeps_transaction)
qed

lemma upsert_cart_keeps:
  assumes ok: "cart_ok s" and pos: "0 < ci_quantity r"
    and single: "ci_asSeckill r \<Longrightarrow> \<forall>x \<in> set (cart_items s). ci_userId x = ci_userId r \<and> ci_asSeckill x \<longrightarrow>
      ci_productId x = ci_productId r"
  shows "cart_ok (upsert_cart r s)"
proof (cases "\<exists>x \<in> set (cart_items s). ci_userId x = ci_userId r \<and> ci_productId x = ci_productId r")
  case True
  let ?u = "update_where (\<lambda>x. ci_userId x = ci_userId r \<and> ci_productId x = ci_productId r)
        (\<lambda>x. x\<lparr>ci_quantity := ci_quantity r, ci_asSeckill := ci_asSeckill r\<rparr>) (cart_items s)"
  have key: "map (\<lambda>r. (ci_userId r, ci_productId r)) ?u = map (\<lambda>r. (ci_userId r, ci_productId r)) (cart_items s)"
    by (simp add: update_where_def)
  have q: "0 < ci_quantity x" if "x \<in> set ?u" for x
    using that ok pos by (auto simp: set_update_where cart_ok_def)
  have sec: "ci_productId x = ci_productId y"
    if xy: "x \<in> set ?u" "y \<in> set ?u" and both: "ci_asSeckill x \<and> ci_asSeckill y \<and> ci_userId x = ci_userId y" for x y
  proof -
    let ?f = "\<lambda>x. if ci_userId x = ci_userId r \<and> ci_productId x = ci_productId r
      then x\<lparr>ci_quantity := ci_quantity r, ci_asSeckill := ci_asSeckill r\<rparr> else x"
    obtain x0 y0 where x0: "x0 \<in> set (cart_items s)" "x = ?f x0" and y0: "y0 \<in> set (cart_items s)" "y = ?f y0"
      using xy by (auto simp: set_update_where)
    have both_old: "ci_asSeckill x0 \<and> ci_asSeckill y0 \<Longrightarrow> ci_userId x0 = ci_userId y0 \<Longrightarrow>
        ci_productId x0 = ci_productId y0"
      using cart_ok_seckillD [OF ok refl x0(1) y0(1)] by blast
    have new: "ci_asSeckill r \<Longrightarrow> z \<in> set (cart_items s) \<Longrightarrow> ci_userId z = ci_userId r \<Longrightarrow>
        ci_asSeckill z \<Longrightarrow> ci_productId z = ci_productId r" for z
      using single by blast
    have same: "ci_userId x0 = ci_userId y0" using both x0 y0 by (auto split: if_splits)
    show ?thesis
    proof (cases "ci_productId x0 = ci_productId y0")
      case True
      then show ?thesis using x0 y0 by simp
    next
      case False
      then show ?thesis
        using both x0 y0 same both_old new [OF _ x0(1)] new [OF _ y0(1)] by (simp split: if_splits)
    qed
  qed
  have items: "cart_items (upsert_cart r s) = ?u"
    using True by (simp add: upsert_cart_def)
  have "distinct (map (\<lambda>r. (ci_userId r, ci_productId r)) ?u)"
    unfolding key using ok by (simp add: cart_ok_def)
  then show ?thesis by (rule cart_okI [OF items _ q sec]) simp_all
next
  case False
  then have items: "cart_items (upsert_cart r s) = cart_items s @ [r]"
    by (auto simp: upsert_cart_def)
  show ?thesis
  proof (rule cart_okI [OF items])
    show "distinct (map (\<lambda>r. (ci_userId r, ci_productId r)) (cart_items s @ [r]))"
      using ok False by (auto simp: cart_ok_def)
    show "0 < ci_quantity x" if "x \<in> set (cart_items s @ [r])" for x
      using that ok pos by (auto simp: cart_ok_def)
    show "ci_productId x = ci_productId y"
      if "x \<in> set (cart_items s @ [r])" "y \<in> set (cart_items s @ [r])"
        and both: "ci_asSeckill x \<and> ci_asSeckill y \<and> ci_userId x = ci_userId y" for x y
    proof -
      have "ci_productId x = ci_productId y" if "x \<in> set (cart_items s)" "y \<in> set (cart_items s)"
        using cart_ok_seckillD [OF ok refl that both] .
      moreover have "ci_productId z = ci_productId r"
        if "z \<in> set (cart_items s)" "ci_asSeckill r" "ci_asSeckill z" "ci_userId z = ci_userId r" for z
        using single that by blast
      ultimately show ?thesis using that(1,2) both by fastforce
    qed
  qed
qed

lemma setCartItem_cases:
  "(\<exists>e. setCartItem tz now uid pid n sec s = (s, Inl e)) \<or>
   (let s' = (if n = 0
        then s\<lparr>cart_items := delete_where (\<lambda>r. ci_userId r = uid \<and> ci_productId r = pid) (cart_items s)\<rparr>
        else upsert_cart \<lparr>ci_userId = uid, ci_productId = pid, ci_quantity = n, ci_asSeckill = sec\<rparr> s)
    in setCartItem tz now uid pid n sec s = (s', Inr (cartData s' now uid))) \<and>
   (0 < n \<and> sec \<longrightarrow> n = 1 \<and> activeSeckillMap s [pid] now pid \<noteq> None \<and>
      \<not> (\<exists>r \<in> set (cart_items s). ci_userId r = uid \<and> 0 < ci_quantity r \<and> ci_asSeckill r \<and> ci_productId r \<noteq> pid))"
proof (cases "find_row p_id pid (products s)")
  case None
  then show ?thesis by (simp add: setCartItem_def reject_def)
next
  case (Some p)
  have closed: "and_then (if 0 < n then throwIfCampusClosed now (p_campusId p) else reply ()) k s =
      (case snd ((if 0 < n then throwIfCampusClosed now (p_campusId p) else reply ()) s) of
         Inl e \<Rightarrow> (s, Inl e) | Inr _ \<Rightarrow> k () s)" for k :: "unit \<Rightarrow> (db, cart) handler"
    using throwIfCampusClosed_cases [of now "p_campusId p" s] by (auto simp: and_then_def reply_def)
  have limit: "and_then (if 0 < n then assertPurchaseLimit tz now uid [pid] else reply ()) k s =
      (case snd ((if 0 < n then assertPurchaseLimit tz now uid [pid] else reply ()) s) of
         Inl e \<Rightarrow> (s, Inl e) | Inr _ \<Rightarrow> k () s)" for k :: "unit \<Rightarrow> (db, cart) handler"
    using assertPurchaseLimit_cases [of tz now uid "[pid]" s] by (auto simp: and_then_def reply_def)
  define b1 where "b1 \<longleftrightarrow> \<not> (0 < n \<and> (case find (\<lambda>r. ci_userId r = uid \<and> ci_productId r = pid) (cart_items s) of
      Some r \<Rightarrow> ci_asSeckill r \<noteq> sec | None \<Rightarrow> False))"
  define b2 where "b2 \<longleftrightarrow> \<not> (0 < n \<and> sec \<and> activeSeckillMap s [pid] now pid = None)"
  define b3 where "b3 \<longleftrightarrow> \<not> (0 < n \<and> sec \<and> 1 < n)"
  define b4 where "b4 \<longleftrightarrow> \<not> (0 < n \<and> sec \<and>
      (\<exists>r \<in> set (cart_items s). ci_userId r = uid \<and> 0 < ci_quantity r \<and> ci_asSeckill r \<and> ci_productId r \<noteq> pid))"
  define b5 where "b5 \<longleftrightarrow> \<not> (n > (case find (\<lambda>r. ci_userId r = uid \<and> ci_productId r = pid) (cart_items s) of
      Some r \<Rightarrow> ci_quantity r | None \<Rightarrow> 0) \<and> n > free_stock p)"
  define stored :: "db \<Rightarrow> db" where "stored = (\<lambda>s. (if n = 0
        then s\<lparr>cart_items := delete_where (\<lambda>r. ci_userId r = uid \<and> ci_productId r = pid) (cart_items s)\<rparr>
        else upsert_cart \<lparr>ci_userId = uid, ci_productId = pid, ci_quantity = n, ci_asSeckill = sec\<rparr> s))"
  have stored: "(if n = 0
        then s\<lparr>cart_items := delete_where (\<lambda>r. ci_userId r = uid \<and> ci_productId r = pid) (cart_items s)\<rparr>
        else upsert_cart \<lparr>ci_userId = uid, ci_productId = pid, ci_quantity = n, ci_asSeckill = sec\<rparr> s) = stored s" for s
    by (simp add: stored_def)
  let ?r = "setCartItem tz now uid pid n sec s"
  have "(\<exists>e. ?r = (s, Inl e)) \<or> b1 \<and> b2 \<and> b3 \<and> b4 \<and> b5 \<and> ?r = (stored s, Inr (cartData (stored s) now uid))"
    unfolding setCartItem_def Some option.case closed limit Let_def
      b1_def [symmetric] b2_def [symmetric] b3_def [symmetric] b4_def [symmetric] b5_def [symmetric]
      stored
    by (cases b1; cases b2; cases b3; cases b4; cases b5) (simp_all add: unless_apply split: sum.split)
  then show ?thesis
    unfolding b2_def b3_def b4_def Let_def stored by auto
qed

lemma keeps_setCartItem:
  assumes "0 \<le> n"
  shows "keeps cart_ok (setCartItem tz now uid pid n sec)"
proof (rule keepsI)
  fix s assume ok: "cart_ok s"
  have upsert: "cart_ok (upsert_cart \<lparr>ci_userId = uid, ci_productId = pid, ci_quantity = n, ci_asSeckill = sec\<rparr> s)"
    if "n \<noteq> 0" and "0 < n \<and> sec \<longrightarrow>
      \<not> (\<exists>r \<in> set (cart_items s). ci_userId r = uid \<and> 0 < ci_quantity r \<and> ci_asSeckill r \<and> ci_productId r \<noteq> pid)"
  proof (rule upsert_cart_keeps [OF ok])
    have "\<forall>r \<in> set (cart_items s). 0 < ci_quantity r" using ok by (simp add: cart_ok_def)
    then show "\<forall>x \<in> set (cart_items s). ci_userId x = ci_userId \<lparr>ci_userId = uid, ci_productId = pid,
          ci_quantity = n, ci_asSeckill = sec\<rparr> \<and> ci_asSeckill x \<longrightarrow>
        ci_productId x = ci_productId \<lparr>ci_userId = uid, ci_productId = pid, ci_quantity = n, ci_asSeckill = sec\<rparr>"
      if "ci_asSeckill \<lparr>ci_userId = uid, ci_productId = pid, ci_quantity = n, ci_asSeckill = sec\<rparr>"
      using that \<open>n \<noteq> 0\<close> assms \<open>0 < n \<and> sec \<longrightarrow> _\<close> by auto
  qed (use that(1) assms in simp)
  have delete: "cart_ok (s\<lparr>cart_items := delete_where (\<lambda>r. ci_userId r = uid \<and> ci_productId r = pid) (cart_items s)\<rparr>)"
    using ok by (rule cart_ok_delete)
  show "cart_ok (fst (setCartItem tz now uid pid n sec s))"
    using setCartItem_cases [of tz now uid pid n sec s]
  proof (elim disjE exE conjE)
    assume out: "let s' = (if n = 0
        then s\<lparr>cart_items := delete_where (\<lambda>r. ci_userId r = uid \<and> ci_productId r = pid) (cart_items s)\<rparr>
        else upsert_cart \<lparr>ci_userId = uid, ci_productId = pid, ci_quantity = n, ci_asSeckill = sec\<rparr> s)
      in setCartItem tz now uid pid n sec s = (s', Inr (cartData s' now uid))"
      and alone: "0 < n \<and> sec \<longrightarrow> n = 1 \<and> activeSeckillMap s [pid] now pid \<noteq> None \<and>
      \<not> (\<exists>r \<in> set (cart_items s). ci_userId r = uid \<and> 0 < ci_quantity r \<and> ci_asSeckill r \<and> ci_productId r \<noteq> pid)"
    show ?thesis
    proof (cases "n = 0")
      case True
      then show ?thesis using out delete by (simp add: Let_def)
    next
      case False
      have "cart_ok (upsert_cart \<lparr>ci_userId = uid, ci_productId = pid, ci_quantity = n, ci_asSeckill = sec\<rparr> s)"
        using alone by (intro upsert [OF False]) blast
      then show ?thesis using out False by (simp add: Let_def)
    qed
  qed (use ok in simp)
qed

end
