(* ===== verification/Checkout.thy ===== *)
theory Checkout
  imports Cart Coupons
begin

text \<open>
  From the cart to an order waiting for its payment: delivery slots, \<open>validateQuote\<close>,
  \<open>deliveryFeeFor\<close>, \<open>hasManagerFor\<close>, \<open>managerTipFor\<close>, \<open>checkout\<close> and \<open>createOrder\<close> of
  \<open>src/business/business.service.ts\<close>.
\<close>

interpretation orders_tbl: row_table orders orders_update o_id
  by unfold_locales simp_all

subsection \<open>Delivery slots\<close>

definition digits_between :: "nat \<Rightarrow> nat \<Rightarrow> string \<Rightarrow> bool" where
  "digits_between lo hi w \<longleftrightarrow> lo \<le> length w \<and> length w \<le> hi \<and> list_all is_digit w"

text \<open>\<open>parseSlotLabel\<close>: the pattern \<open>H:mm-H:mm\<close> on the trimmed label, in minutes.\<close>

definition parseSlotLabel :: "string \<Rightarrow> (int \<times> int) option" where
  "parseSlotLabel label =
    (case split_on (CHR ''-'') (trim label) of
       [from_part, to_part] \<Rightarrow>
         (case (split_on (CHR '':'') from_part, split_on (CHR '':'') to_part) of
            ([h1, m1], [h2, m2]) \<Rightarrow>
              if digits_between 1 2 h1 \<and> digits_between 2 2 m1 \<and> digits_between 1 2 h2 \<and> digits_between 2 2 m2
              then Some (number_or_0 h1 * 60 + number_or_0 m1, number_or_0 h2 * 60 + number_or_0 m2)
              else None
          | _ \<Rightarrow> None)
     | _ \<Rightarrow> None)"

definition slotExpiredToday :: "string \<Rightarrow> millis \<Rightarrow> bool" where
  "slotExpiredToday label now =
    (case parseSlotLabel label of
       None \<Rightarrow> False
     | Some (start, stop) \<Rightarrow>
         let nowMin = beijingMinutes now
         in if stop \<le> start then start \<le> nowMin \<or> nowMin < stop \<or> start \<le> nowMin + 30
            else start \<le> nowMin + 30)"

definition two_digits :: "int \<Rightarrow> string" where
  "two_digits n = [char_of (48 + nat n div 10), char_of (48 + nat n mod 10 :: nat)]"

definition slotDayPrefix :: "string \<Rightarrow> millis \<Rightarrow> string" where
  "slotDayPrefix label now =
    (case parseSlotLabel label of
       None \<Rightarrow> []
     | Some (start, stop) \<Rightarrow>
         let nowMin = beijingMinutes now;
             isTomorrow = (if stop \<le> start then stop \<le> nowMin else start \<le> nowMin)
         in if \<not> isTomorrow then ''today ''
            else let d = utc_day (now + 8 * 3600000 + 24 * 3600000)
                 in ''tomorrow ('' @ two_digits (month_of d) @ ''.'' @ two_digits (day_of_month d) @ '') '')"

text \<open>The buffer is counted from the start of a slot.\<close>

lemma slot_open_before_start:
  assumes "parseSlotLabel label = Some (start, stop)" and "start < stop"
  shows "slotExpiredToday label now \<longleftrightarrow> start - 30 \<le> beijingMinutes now"
  using assms by (auto simp: slotExpiredToday_def Let_def)

subsection \<open>Fees and managers\<close>

definition deliveryFeeFor :: "db \<Rightarrow> ident \<Rightarrow> string \<Rightarrow> cents" where
  "deliveryFeeFor s campusId mode =
    (case find_row ca_id campusId (campuses s) of
       Some c \<Rightarrow> if mode = ''instant'' then ca_deliveryFeeInstant c else ca_deliveryFeeScheduled c
     | None \<Rightarrow> if mode = ''instant'' then 400 else 200)"

definition hasManagerFor :: "db \<Rightarrow> address \<Rightarrow> bool" where
  "hasManagerFor s a \<longleftrightarrow> a_buildingId a \<noteq> [] \<and>
     (\<exists>x \<in> set (staffs s). s_buildingId x = Some (a_buildingId a) \<and> s_role x \<in> set MANAGER_ROLES \<and>
        s_status x \<noteq> ''deleted'')"

definition DEFAULT_NO_MANAGER_TIP :: msg where
  "DEFAULT_NO_MANAGER_TIP = ''this building has no manager yet, please pick up downstairs''"

definition managerTipFor :: "db \<Rightarrow> address \<Rightarrow> msg option" where
  "managerTipFor s a =
    (if a_buildingId a = [] then None
     else if hasManagerFor s a then None
     else Some (case (if a_campusId a = [] then None else find_row ca_id (a_campusId a) (campuses s)) of
         Some c \<Rightarrow> if ca_noManagerTip c = [] then DEFAULT_NO_MANAGER_TIP else ca_noManagerTip c
       | None \<Rightarrow> DEFAULT_NO_MANAGER_TIP))"

subsection \<open>The quote\<close>

record create_order_dto =
  dt_addressId :: ident
  dt_couponId :: "ident option"
  dt_deliveryMode :: string
  dt_deliverySlot :: "string option"
  dt_remark :: string

text \<open>An optional string counts as absent when it is empty.\<close>

definition truthy :: "string option \<Rightarrow> string option" where
  "truthy x = (case x of Some (c # cs) \<Rightarrow> Some (c # cs) | _ \<Rightarrow> None)"

fun first_short_line :: "db \<Rightarrow> order_line list \<Rightarrow> order_line option" where
  "first_short_line s [] = None"
| "first_short_line s (l # ls) =
    (case find_row p_id (ps_id (ol_product l)) (products s) of
       None \<Rightarrow> Some l
     | Some p \<Rightarrow> if free_stock p < ol_quantity l then Some l else first_short_line s ls)"

definition cart_seckill_ids :: "db \<Rightarrow> millis \<Rightarrow> order_line list \<Rightarrow> ident set" where
  "cart_seckill_ids s now items =
    (let ids = map (\<lambda>l. ps_id (ol_product l)) (filter ol_asSeckill items)
     in {pid \<in> set ids. activeSeckillMap s ids now pid \<noteq> None})"

definition check_slot :: "millis \<Rightarrow> ident \<Rightarrow> create_order_dto \<Rightarrow> (db, unit) handler" where
  "check_slot now campusId dto s =
    (if dt_deliveryMode dto \<noteq> ''scheduled'' then reply () s
     else case truthy (dt_deliverySlot dto) of
       None \<Rightarrow> reject (BadRequest ''please choose a delivery slot'') s
     | Some label \<Rightarrow>
         unless (\<exists>x \<in> set (slots s). sl_campusId x = campusId \<and> sl_label x = label \<and>
             sl_available x \<and> 0 < sl_capacity x) (BadRequest ''please choose an available slot'')
         (unless (\<not> slotExpiredToday label now) (BadRequest ''the slot is over for today'') (reply ())) s)"

definition validateQuote ::
  "int \<Rightarrow> millis \<Rightarrow> ident \<Rightarrow> ident \<Rightarrow> create_order_dto \<Rightarrow> (db, cart \<times> address) handler" where
  "validateQuote tz now userId campusId dto =
    and_then (throwIfCampusClosed now campusId) (\<lambda>_ s.
      let ct = cartData s now userId;
          found = find (\<lambda>a. a_id a = dt_addressId dto \<and> a_userId a = userId) (addresses s)
      in unless (ct_items ct \<noteq> []) (BadRequest ''the cart is empty'')
         (unless (ct_deliveryThreshold ct \<le> ct_productAmount ct) (BadRequest ''below the delivery threshold'')
         (case found of
            None \<Rightarrow> reject (BadRequest ''no such address or not yours'')
          | Some a \<Rightarrow>
              unless (a_campusId a = campusId) (BadRequest ''choose an address of the current campus'')
              (case first_short_line s (ct_items ct) of
                 Some l \<Rightarrow> reject (BadRequest (ps_name (ol_product l) @ '' is out of stock''))
               | None \<Rightarrow>
                   and_then (assertPurchaseLimit tz now userId
                       (map (\<lambda>l. ps_id (ol_product l)) (filter (\<lambda>l. 0 < ol_quantity l) (ct_items ct))))
                     (\<lambda>_. unless (card (cart_seckill_ids s now (ct_items ct)) \<le> 1)
                        (BadRequest ''an order has at most one flash-sale product'')
                     (and_then (check_slot now (a_campusId a) dto) (\<lambda>_. reply (ct, a))))))) s)"

subsection \<open>Checkout\<close>

record settlement =
  st_items :: "order_line list"
  st_productAmount :: cents
  st_totalQuantity :: int
  st_deliveryThreshold :: cents
  st_deliveryFee :: cents
  st_discount :: cents
  st_payableAmount :: cents
  st_estimatedArrival :: string
  st_managerTip :: "msg option"

definition settle ::
  "db \<Rightarrow> millis \<Rightarrow> create_order_dto \<Rightarrow> cart \<Rightarrow> address \<Rightarrow> cents \<Rightarrow> cents \<Rightarrow> settlement" where
  "settle s now dto ct a fee discount =
    \<lparr>st_items = ct_items ct, st_productAmount = ct_productAmount ct,
     st_totalQuantity = ct_totalQuantity ct, st_deliveryThreshold = ct_deliveryThreshold ct,
     st_deliveryFee = fee, st_discount = discount,
     st_payableAmount = max 0 (ct_productAmount ct + fee - discount),
     st_estimatedArrival =
       (if dt_deliveryMode dto = ''instant'' then ''in about 30-60 minutes''
        else slotDayPrefix (case dt_deliverySlot dto of Some l \<Rightarrow> l | None \<Rightarrow> []) now @
          (case dt_deliverySlot dto of Some l \<Rightarrow> l | None \<Rightarrow> ''undefined'') @ '' delivery''),
     st_managerTip = managerTipFor s a\<rparr>"

definition checkout ::
  "int \<Rightarrow> millis \<Rightarrow> ident \<Rightarrow> ident \<Rightarrow> create_order_dto \<Rightarrow> (db, settlement) handler" where
  "checkout tz now userId campusId dto =
    and_then (validateQuote tz now userId campusId dto) (\<lambda>(ct, a) s.
      let fee = deliveryFeeFor s campusId (dt_deliveryMode dto)
      in and_then
        (case truthy (dt_couponId dto) of
           None \<Rightarrow> reply None
         | Some k \<Rightarrow> and_then (validateUserCoupon now userId k campusId) (\<lambda>uc. reply (Some uc)))
        (\<lambda>userCoupon.
          let discount = (case userCoupon of Some (_, c) \<Rightarrow> c_amount c | None \<Rightarrow> 0)
          in unless (case userCoupon of Some (_, c) \<Rightarrow> c_threshold c \<le> ct_productAmount ct | None \<Rightarrow> True)
               (BadRequest ''below the threshold of the coupon'')
             (unless (userCoupon = None \<or> discount \<le> ct_productAmount ct + fee)
               (BadRequest ''the coupon does not fit this order'')
             (read (\<lambda>s. settle s now dto ct a fee discount)))) s)"

subsection \<open>Placing the order\<close>

definition new_order ::
  "ident \<Rightarrow> string \<Rightarrow> millis \<Rightarrow> ident \<Rightarrow> address \<Rightarrow> create_order_dto \<Rightarrow> settlement \<Rightarrow> order_row" where
  "new_order newId orderNo now userId a dto st =
    \<lparr>o_id = newId, o_orderNo = orderNo, o_riderId = None, o_userId = userId,
     o_campusId = a_campusId a, o_status = PendingPayment, o_statusText = ''waiting for payment'',
     o_createdAt = now, o_paidAt = None, o_address = a, o_deliveryMode = dt_deliveryMode dto,
     o_deliverySlot = dt_deliverySlot dto, o_couponId = dt_couponId dto, o_remark = dt_remark dto,
     o_items = st_items st, o_productAmount = st_productAmount st,
     o_totalQuantity = st_totalQuantity st, o_deliveryThreshold = st_deliveryThreshold st,
     o_deliveryFee = st_deliveryFee st, o_discount = st_discount st,
     o_payableAmount = st_payableAmount st, o_estimatedArrival = st_estimatedArrival st,
     o_timeline = buildOrderTimeline (a_buildingName a @ '' '' @ a_room a), o_package = None,
     o_stockRestored = False\<rparr>"

text \<open>The lock of the coupon: \<open>claimed\<close> or \<open>released\<close> becomes \<open>locked\<close>, for its owner only.\<close>

definition lock_coupon :: "ident \<Rightarrow> ident option \<Rightarrow> (db, unit) handler" where
  "lock_coupon userId couponId =
    (case truthy couponId of
       None \<Rightarrow> reply ()
     | Some k \<Rightarrow>
         claim_or user_coupons user_coupons_update
           (\<lambda>u. uc_id u = k \<and> uc_userId u = userId \<and> uc_status u \<in> {HClaimed, HReleased})
           (\<lambda>u. u\<lparr>uc_status := HLocked\<rparr>)
           (BadRequest ''the coupon is not usable or already locked''))"

definition createOrder ::
  "int \<Rightarrow> millis \<Rightarrow> ident \<Rightarrow> string \<Rightarrow> ident \<Rightarrow> ident \<Rightarrow> create_order_dto \<Rightarrow> (db, order_row \<times> msg option) handler"
where
  "createOrder tz now newId orderNo userId campusId dto =
    and_then (validateQuote tz now userId campusId dto) (\<lambda>(_, a).
    and_then (checkout tz now userId campusId dto) (\<lambda>st.
      let o' = new_order newId orderNo now userId a dto st
      in and_then
        (transaction (and_then (lock_coupon userId (dt_couponId dto))
          (\<lambda>_. modify (\<lambda>s. s\<lparr>orders := orders s @ [o']\<rparr>))))
        (\<lambda>_. read (\<lambda>s. (o', managerTipFor s a)))))"

subsection \<open>Lemmas\<close>

lemma reads_throwIfCampusClosed [intro]: "reads (throwIfCampusClosed now cid)"
  by (rule readsI) simp

lemma reads_assertPurchaseLimit [intro]: "reads (assertPurchaseLimit tz now uid pids)"
  by (rule readsI) simp

lemma reads_validateUserCoupon [intro]: "reads (validateUserCoupon now uid k cid)"
  by (rule readsI) simp

lemma reads_check_slot [intro]: "reads (check_slot now cid dto)"
  by (rule readsI) (simp add: check_slot_def reply_def reject_def unless_def split: option.splits)

lemma reads_then: "reads h \<Longrightarrow> (\<And>r s. fst (k r s) = s) \<Longrightarrow> fst (and_then h k s) = s"
  using reads_and_then [of h k] by (simp add: reads_def)

lemma reads_validateQuote [intro]: "reads (validateQuote tz now uid cid dto)"
  unfolding validateQuote_def
  by (rule readsI, rule reads_then)
    (auto simp: Let_def unless_apply reject_def reply_def split: option.split intro!: reads_then)

lemma reads_checkout [intro]: "reads (checkout tz now uid cid dto)"
  unfolding checkout_def
  by (rule readsI, rule reads_then)
    (auto simp: Let_def unless_apply reject_def reply_def read_def split: option.split prod.split
      intro!: reads_then reads_and_then)

lemma atomic_createOrder: "atomic (createOrder tz now newId no uid cid dto)"
proof -
  have "atomic (let o' = new_order newId no now uid a dto st
      in and_then
        (transaction (and_then (lock_coupon uid (dt_couponId dto))
          (\<lambda>_. modify (\<lambda>s. s\<lparr>orders := orders s @ [o']\<rparr>))))
        (\<lambda>_. read (\<lambda>s. (o', managerTipFor s a))))" for a st
    unfolding Let_def by (rule atomic_then_total) (auto simp: read_def)
  then show ?thesis
    unfolding createOrder_def by (auto intro!: atomic_and_then split: prod.split)
qed

lemma reads_then_ok:
  "reads h \<Longrightarrow> and_then h k s = (s', Inr r) \<longleftrightarrow> (\<exists>x. h s = (s, Inr x) \<and> k x s = (s', Inr r))"
  by (auto simp: and_then_ok dest: readsD)

lemmas guard_ok = reads_then_ok [OF reads_throwIfCampusClosed] reads_then_ok [OF reads_assertPurchaseLimit]
  reads_then_ok [OF reads_check_slot] reads_then_ok [OF reads_validateUserCoupon]
  reads_then_ok [OF reads_validateQuote] reads_then_ok [OF reads_checkout]

lemma validateQuote_ok:
  assumes "validateQuote tz now uid cid dto s = (s', Inr (ct, a))"
  shows "s' = s" and "ct = cartData s now uid" and "ct_items ct \<noteq> []"
    and "ct_deliveryThreshold ct \<le> ct_productAmount ct"
    and "find (\<lambda>a. a_id a = dt_addressId dto \<and> a_userId a = uid) (addresses s) = Some a"
    and "a_campusId a = cid" and "first_short_line s (ct_items ct) = None"
    and "card (cart_seckill_ids s now (ct_items ct)) \<le> 1"
    and "throwIfCampusClosed now cid s = (s, Inr ())"
    and "check_slot now cid dto s = (s, Inr ())"
    and "assertPurchaseLimit tz now uid
      (map (\<lambda>l. ps_id (ol_product l)) (filter (\<lambda>l. 0 < ol_quantity l) (ct_items ct))) s = (s, Inr ())"
proof -
  let ?f = "find (\<lambda>a. a_id a = dt_addressId dto \<and> a_userId a = uid) (addresses s)"
  let ?sh = "first_short_line s (ct_items (cartData s now uid))"
  note open_ok = assms [unfolded validateQuote_def guard_ok Let_def unless_ok]
  obtain a0 where f: "?f = Some a0"
    using open_ok by (cases ?f) (auto simp: reject_ok)
  have sh: "?sh = None"
    using open_ok unfolding f by (cases ?sh) (auto simp: ok_simps)
  from open_ok [unfolded f sh option.case guard_ok unless_ok reply_ok]
  show "s' = s" and "ct = cartData s now uid" and "ct_items ct \<noteq> []"
    and "ct_deliveryThreshold ct \<le> ct_productAmount ct" and "?f = Some a"
    and "a_campusId a = cid" and "first_short_line s (ct_items ct) = None"
    and "card (cart_seckill_ids s now (ct_items ct)) \<le> 1"
    and "throwIfCampusClosed now cid s = (s, Inr ())"
    and "check_slot now cid dto s = (s, Inr ())"
    and "assertPurchaseLimit tz now uid
      (map (\<lambda>l. ps_id (ol_product l)) (filter (\<lambda>l. 0 < ol_quantity l) (ct_items ct))) s = (s, Inr ())"
    using f sh by auto
qed

lemma validateUserCoupon_ok:
  assumes "validateUserCoupon now uid k cid s = (s', Inr (u, c))"
  shows "find_row uc_id k (user_coupons s) = Some u \<and> uc_userId u = uid \<and>
    find_row c_id (uc_couponId u) (coupons s) = Some c \<and> c_campusId c = cid \<and>
    uc_status u \<in> {HClaimed, HReleased} \<and> c_kind c \<noteq> ''partner'' \<and> unexpired now c"
  using assms by (auto simp: validateUserCoupon_def ok_simps split: option.splits)

lemma checkout_ok:
  assumes "checkout tz now uid cid dto s = (s', Inr st)"
  shows "\<exists>ct a discount. validateQuote tz now uid cid dto s = (s, Inr (ct, a)) \<and>
    st = settle s now dto ct a (deliveryFeeFor s cid (dt_deliveryMode dto)) discount \<and>
    (case truthy (dt_couponId dto) of
       None \<Rightarrow> discount = 0
     | Some k \<Rightarrow> \<exists>u c. validateUserCoupon now uid k cid s = (s, Inr (u, c)) \<and> discount = c_amount c \<and>
         c_threshold c \<le> ct_productAmount ct \<and>
         discount \<le> ct_productAmount ct + deliveryFeeFor s cid (dt_deliveryMode dto))"
proof -
  obtain ct a where q: "validateQuote tz now uid cid dto s = (s, Inr (ct, a))"
    and rest: "and_then
        (case truthy (dt_couponId dto) of
           None \<Rightarrow> reply None
         | Some k \<Rightarrow> and_then (validateUserCoupon now uid k cid) (\<lambda>uc. reply (Some uc)))
        (\<lambda>userCoupon.
          let discount = (case userCoupon of Some (_, c) \<Rightarrow> c_amount c | None \<Rightarrow> 0)
          in unless (case userCoupon of Some (_, c) \<Rightarrow> c_threshold c \<le> ct_productAmount ct | None \<Rightarrow> True)
               (BadRequest ''below the threshold of the coupon'')
             (unless (userCoupon = None \<or> discount \<le> ct_productAmount ct + deliveryFeeFor s cid (dt_deliveryMode dto))
               (BadRequest ''the coupon does not fit this order'')
             (read (\<lambda>s'. settle s' now dto ct a (deliveryFeeFor s cid (dt_deliveryMode dto)) discount)))) s
      = (s', Inr st)"
    using assms unfolding checkout_def guard_ok by (auto simp: Let_def)
  show ?thesis
  proof (cases "truthy (dt_couponId dto)")
    case None
    then show ?thesis using q rest by (auto simp: ok_simps Let_def)
  next
    case (Some k)
    then obtain u c where v: "validateUserCoupon now uid k cid s = (s, Inr (u, c))"
      using rest by (auto simp: ok_simps dest: readsD [OF reads_validateUserCoupon])
    then show ?thesis using q rest Some by (auto simp: ok_simps Let_def)
  qed
qed

end
