(* ===== verification/Orders.thy ===== *)
theory Orders
  imports Checkout
begin

text \<open>
  The life of an order on the user's and the warehouse's side, from
  \<open>src/business/business.service.ts\<close>: \<open>closeStalePendingOrders\<close> and the two callers of it,
  \<open>pay\<close>, \<open>advance\<close>, \<open>outbound\<close>, \<open>confirmReceipt\<close> and \<open>cancel\<close>.

  Every write of a status is a conditional update on the status that was read. A handler that
  reads and then writes is split at that point, so that what happens when two requests run
  on the same snapshot is a statement about its second half (\<open>pay_commit\<close>,
  \<open>advance_commit\<close>, ...).
\<close>

definition PAYMENT_TIMEOUT_MS :: millis where
  "PAYMENT_TIMEOUT_MS = 15 * 60 * 1000"

definition find_own_order :: "db \<Rightarrow> ident \<Rightarrow> ident \<Rightarrow> order_row option" where
  "find_own_order s orderId userId = find (\<lambda>o'. o_id o' = orderId \<and> o_userId o' = userId) (orders s)"

text \<open>\<open>tx.order.updateMany({where: {id, status}, data})\<close> and the throw on a count of 0.\<close>

definition claim_order ::
  "ident \<Rightarrow> order_status \<Rightarrow> (order_row \<Rightarrow> order_row) \<Rightarrow> api_error \<Rightarrow> (db, unit) handler" where
  "claim_order orderId st f e =
    claim_or orders orders_update (\<lambda>o'. o_id o' = orderId \<and> o_status o' = st) f e"

definition set_holding :: "ident \<Rightarrow> holding_status list \<Rightarrow> holding_status \<Rightarrow> db \<Rightarrow> db" where
  "set_holding k old new s =
    s\<lparr>user_coupons := update_where (\<lambda>u. uc_id u = k \<and> uc_status u \<in> set old)
       (\<lambda>u. u\<lparr>uc_status := new\<rparr>) (user_coupons s)\<rparr>"

definition notify :: "ident \<Rightarrow> ident \<Rightarrow> string \<Rightarrow> msg \<Rightarrow> db \<Rightarrow> db" where
  "notify newId userId kind title s =
    s\<lparr>notifications := notifications s @ [\<lparr>n_id = newId, n_userId = userId, n_type = kind,
        n_title = title, n_read = False\<rparr>]\<rparr>"

subsection \<open>Closing unpaid orders\<close>

definition close_one :: "ident \<times> ident option \<Rightarrow> db \<Rightarrow> db" where
  "close_one oc s =
    (let P = (\<lambda>o'. o_id o' = fst oc \<and> o_status o' = PendingPayment);
         s' = s\<lparr>orders := update_where P
            (\<lambda>o'. o'\<lparr>o_status := Cancelled, o_statusText := ''payment timed out, closed''\<rparr>) (orders s)\<rparr>
     in if 0 < count_where P (orders s)
        then (case truthy (snd oc) of Some k \<Rightarrow> set_holding k [HLocked] HReleased s' | None \<Rightarrow> s')
        else s')"

definition closeStalePendingOrders :: "(ident \<times> ident option) list \<Rightarrow> db \<Rightarrow> db" where
  "closeStalePendingOrders stale s = fold close_one stale s"

definition is_stale :: "millis \<Rightarrow> order_row \<Rightarrow> bool" where
  "is_stale now o' \<longleftrightarrow> o_status o' = PendingPayment \<and> o_createdAt o' < now - PAYMENT_TIMEOUT_MS"

definition expirePendingOrders :: "millis \<Rightarrow> ident \<Rightarrow> db \<Rightarrow> db" where
  "expirePendingOrders now userId s =
    closeStalePendingOrders (map (\<lambda>o'. (o_id o', o_couponId o'))
      (filter (\<lambda>o'. o_userId o' = userId \<and> is_stale now o') (orders s))) s"

definition expireAllPendingOrders :: "millis \<Rightarrow> (db, int) handler" where
  "expireAllPendingOrders now s =
    (let stale = map (\<lambda>o'. (o_id o', o_couponId o')) (filter (is_stale now) (orders s))
     in (closeStalePendingOrders stale s, Inr (int (length stale))))"

subsection \<open>Payment\<close>

text \<open>The cost snapshot of one line, from the product row at the moment of payment.\<close>

definition gross_cost :: "product \<Rightarrow> api_error + cents option" where
  "gross_cost p =
    (if p_procurementMode p = Some ''LOCAL'' then Inr (p_localPurchasePrice p)
     else if p_procurementMode p = Some ''HQ'' then Inr (Some (p_wholesalePrice p))
     else map_sum (\<lambda>e. e) Some
       (perRetailUnitCostFen (of_int (p_wholesalePrice p)) (of_int (p_unitsPerCase p))))"

definition cost_source_of :: "product \<Rightarrow> cost_source" where
  "cost_source_of p =
    (if p_procurementMode p = Some ''HQ'' then HQ
     else if p_procurementMode p = Some ''LOCAL'' then LOCAL else LEGACY)"

definition price_line :: "product \<Rightarrow> order_line \<Rightarrow> api_error + order_line" where
  "price_line p l =
    (case gross_cost p of
       Inl e \<Rightarrow> Inl e
     | Inr None \<Rightarrow> Inl (BadRequest (ps_name (ol_product l) @ '' has no local purchase price''))
     | Inr (Some g) \<Rightarrow>
         (case perRetailUnitCostFen (of_int (p_costPrice p)) (of_int (p_unitsPerCase p)) of
            Inl e \<Rightarrow> Inl e
          | Inr pc \<Rightarrow>
              Inr (l\<lparr>ol_product := (ol_product l)\<lparr>ps_unitGrossCost := Some g,
                 ps_costSource := Some (cost_source_of p), ps_unitWholesaleCost := Some g,
                 ps_unitPurchaseCost := Some pc, ps_unitsPerCase := Some (p_unitsPerCase p)\<rparr>\<rparr>)))"

fun price_lines :: "db \<Rightarrow> order_line list \<Rightarrow> api_error + order_line list" where
  "price_lines s [] = Inr []"
| "price_lines s (l # ls) =
    (case find_row p_id (ps_id (ol_product l)) (products s) of
       None \<Rightarrow> Inl (BadRequest (ps_name (ol_product l) @ '' is out of stock''))
     | Some p \<Rightarrow>
         if free_stock p < ol_quantity l
         then Inl (BadRequest (ps_name (ol_product l) @ '' is out of stock''))
         else (case price_line p l of
             Inl e \<Rightarrow> Inl e
           | Inr l' \<Rightarrow> (case price_lines s ls of Inl e \<Rightarrow> Inl e | Inr ls' \<Rightarrow> Inr (l' # ls'))))"

text \<open>\<open>timeline[0] = { ...timeline[0], done: true, time }\<close>.\<close>

definition mark_paid :: "millis \<Rightarrow> timeline_step list \<Rightarrow> timeline_step list" where
  "mark_paid now steps =
    (case steps of [] \<Rightarrow> [] | x # xs \<Rightarrow> x\<lparr>ts_done := True, ts_time := Some now\<rparr> # xs)"

text \<open>\<open>UPDATE "Product" SET stock = stock - n, sales = sales + n WHERE id = ... AND
  stock - "lockedStock" >= n\<close>.\<close>

definition sell :: "order_line \<Rightarrow> (db, unit) handler" where
  "sell l =
    claim_or products products_update
      (\<lambda>p. p_id p = ps_id (ol_product l) \<and> ol_quantity l \<le> free_stock p)
      (\<lambda>p. p\<lparr>p_stock := p_stock p - ol_quantity l, p_sales := p_sales p + ol_quantity l\<rparr>)
      (BadRequest (ps_name (ol_product l) @ '' is out of stock''))"

text \<open>The paid coupon: \<open>locked\<close> becomes \<open>used\<close>, and its coupon counts one use.\<close>

definition use_coupon :: "ident option \<Rightarrow> db \<Rightarrow> db" where
  "use_coupon couponId s =
    (case truthy couponId of
       None \<Rightarrow> s
     | Some k \<Rightarrow>
         (let s' = set_holding k [HLocked] HUsed s
          in if 0 < count_where (\<lambda>u. uc_id u = k \<and> uc_status u = HLocked) (user_coupons s)
             then (case find_row uc_id k (user_coupons s') of
                 None \<Rightarrow> s'
               | Some h \<Rightarrow> s'\<lparr>coupons := update_where (\<lambda>c. c_id c = uc_couponId h)
                   (\<lambda>c. c\<lparr>c_used := c_used c + 1\<rparr>) (coupons s')\<rparr>)
             else s'))"

text \<open>The coupon promised for a scheduled order; \<open>bonusId\<close> is the environment variable
  \<open>SCHEDULED_BONUS_COUPON_ID\<close>.\<close>

definition grant_bonus ::
  "ident option \<Rightarrow> millis \<Rightarrow> ident \<Rightarrow> ident \<Rightarrow> order_row \<Rightarrow> db \<Rightarrow> db" where
  "grant_bonus bonusId now holdingId noteId raw s =
    (case truthy bonusId of
       None \<Rightarrow> s
     | Some b \<Rightarrow>
         if o_deliveryMode raw \<noteq> ''scheduled'' then s
         else (case find_row c_id b (coupons s) of
             None \<Rightarrow> s
           | Some c \<Rightarrow>
               if \<not> unexpired now c then s
               else (case take_room b (c_total c) 1 s of (s', n) \<Rightarrow>
                   if n = 0 then s'
                   else notify noteId (o_userId raw) ''coupon'' ''bonus coupon''
                     (add_holdings [new_holding holdingId (o_userId raw) b now] s'))))"

text \<open>The order row after the payment.\<close>

definition paid_row :: "millis \<Rightarrow> string \<Rightarrow> order_row \<Rightarrow> order_line list \<Rightarrow> order_row \<Rightarrow> order_row" where
  "paid_row now packageId raw items o' =
    o'\<lparr>o_status := Paid, o_statusText := ''warehouse is taking the order'',
       o_paidAt := Some now, o_items := items, o_timeline := mark_paid now (o_timeline raw),
       o_package := Some \<lparr>pk_id = Some packageId, pk_status = Some ''waiting-pick'',
         pk_lastMileMode = None, pk_proof = None, pk_handoverProof = None\<rparr>\<rparr>"

text \<open>The writing half of \<open>pay\<close> for an order \<open>raw\<close> that was read as waiting for payment.\<close>

definition pay_commit ::
  "ident option \<Rightarrow> millis \<Rightarrow> (nat \<Rightarrow> ident) \<Rightarrow> string \<Rightarrow> order_row \<Rightarrow> order_line list \<Rightarrow> (db, order_row option) handler"
where
  "pay_commit bonusId now ids packageId raw items =
    and_then
      (claim_order (o_id raw) PendingPayment (paid_row now packageId raw items)
        (BadRequest ''the order status has changed''))
    (\<lambda>_. and_then (for_each sell items)
    (\<lambda>_. and_then (modify (use_coupon (o_couponId raw)))
    (\<lambda>_. and_then
      (modify (\<lambda>s. s\<lparr>cart_items := delete_where (\<lambda>r. ci_userId r = o_userId raw) (cart_items s)\<rparr>))
    (\<lambda>_. and_then (modify (grant_bonus bonusId now (ids 0) (ids 1) raw))
    (\<lambda>_. and_then (modify (notify (ids 2) (o_userId raw) ''order'' ''paid''))
    (\<lambda>_. read (\<lambda>s. find_row o_id (o_id raw) (orders s))))))))"

text \<open>The writes of the timeout branch of \<open>pay\<close>; the throw follows in the same transaction.\<close>

definition timeout_writes :: "order_row \<Rightarrow> db \<Rightarrow> db" where
  "timeout_writes raw s =
    (let s' = s\<lparr>orders := update_where (\<lambda>o'. o_id o' = o_id raw \<and> o_status o' = PendingPayment)
            (\<lambda>o'. o'\<lparr>o_status := Cancelled, o_statusText := ''payment timed out, closed''\<rparr>) (orders s)\<rparr>
     in case truthy (o_couponId raw) of
          Some k \<Rightarrow> set_holding k [HLocked] HReleased s' | None \<Rightarrow> s')"

definition pay ::
  "int \<Rightarrow> ident option \<Rightarrow> millis \<Rightarrow> (nat \<Rightarrow> ident) \<Rightarrow> string \<Rightarrow> ident \<Rightarrow> ident \<Rightarrow> (db, order_row option) handler"
where
  "pay tz bonusId now ids packageId userId orderId =
    transaction (\<lambda>s.
      case find_own_order s orderId userId of
        None \<Rightarrow> reject (NotFound ''no such order'') s
      | Some raw \<Rightarrow>
          if o_status raw = Paid then reply (Some raw) s
          else if PAYMENT_TIMEOUT_MS \<le> now - o_createdAt raw
          then and_then (modify (timeout_writes raw))
            (\<lambda>_. reject (BadRequest ''the payment has timed out'')) s
          else unless (o_status raw = PendingPayment) (BadRequest ''the order cannot be paid now'')
            (case price_lines s (o_items raw) of
               Inl e \<Rightarrow> reject e
             | Inr items \<Rightarrow>
                 let limitProducts = js_set (map (\<lambda>l. ps_id (ol_product l)) items)
                 in and_then
                   (if limited_products s limitProducts \<noteq> []
                    then assertPurchaseLimit tz now userId limitProducts else reply ())
                   (\<lambda>_. pay_commit bonusId now ids packageId raw items)) s)"

subsection \<open>Moving an order forward\<close>

fun ADVANCE_MAP :: "order_status \<Rightarrow> (order_status \<times> msg) option" where
  "ADVANCE_MAP Paid = Some (Picking, ''warehouse is picking'')"
| "ADVANCE_MAP Picking = Some (WaitingFirstMile, ''left the warehouse, waiting for a rider'')"
| "ADVANCE_MAP WaitingFirstMile = Some (FirstMile, ''in delivery, rider heading to the building'')"
| "ADVANCE_MAP FirstMile = Some (WaitingHandover, ''at the building, waiting for the manager'')"
| "ADVANCE_MAP WaitingHandover = Some (LastMile, ''manager is delivering to the room'')"
| "ADVANCE_MAP _ = None"

definition advance_commit ::
  "millis \<Rightarrow> ident \<Rightarrow> order_row \<Rightarrow> order_status \<Rightarrow> msg \<Rightarrow> (db, order_row option) handler" where
  "advance_commit now noteId raw status statusText =
    and_then
      (claim_order (o_id raw) (o_status raw)
        (\<lambda>o'. o'\<lparr>o_status := status, o_statusText := statusText,
           o_timeline := markTimelineStep now (o_timeline raw) status\<rparr>)
        (BadRequest ''the order status has changed''))
    (\<lambda>_. and_then (modify (notify noteId (o_userId raw) ''delivery'' statusText))
    (\<lambda>_. read (\<lambda>s. find_row o_id (o_id raw) (orders s))))"

definition advance :: "millis \<Rightarrow> ident \<Rightarrow> ident \<Rightarrow> ident \<Rightarrow> (db, order_row option) handler" where
  "advance now noteId userId orderId s =
    (case find_own_order s orderId userId of
       None \<Rightarrow> reject (NotFound ''no such order'') s
     | Some raw \<Rightarrow>
         (case ADVANCE_MAP (o_status raw) of
            None \<Rightarrow> reject (BadRequest ''the order cannot move forward now'') s
          | Some (status, statusText) \<Rightarrow> advance_commit now noteId raw status statusText s))"

text \<open>The timeline of an order whose building has no manager keeps only the steps that
  happen.\<close>

definition pickup_timeline :: "timeline_step list \<Rightarrow> timeline_step list" where
  "pickup_timeline steps =
    map (\<lambda>x. if ts_key x = KLastMile
        then x\<lparr>ts_title := ''pick up downstairs'',
          ts_description := ''the rider waits downstairs for your confirmation''\<rparr> else x)
      (filter (\<lambda>x. ts_key x \<notin> {KWaitingHandover, KReadyToDeliver}) steps)"

definition empty_package :: package where
  "empty_package = \<lparr>pk_id = None, pk_status = None, pk_lastMileMode = None, pk_proof = None,
     pk_handoverProof = None\<rparr>"

definition package_of :: "order_row \<Rightarrow> package" where
  "package_of o' = (case o_package o' of Some k \<Rightarrow> k | None \<Rightarrow> empty_package)"

definition out_txns :: "db \<Rightarrow> order_row \<Rightarrow> string \<Rightarrow> inventory_txn list" where
  "out_txns s raw operator =
    map (\<lambda>l. \<lparr>it_productId = ps_id (ol_product l), it_type = ''out'', it_delta = - ol_quantity l,
         it_operator = operator\<rparr>)
      (filter (\<lambda>l. ps_id (ol_product l) \<in> p_id ` set (products s)) (o_items raw))"

definition outbound_commit ::
  "millis \<Rightarrow> ident \<Rightarrow> string \<Rightarrow> string \<Rightarrow> order_row \<Rightarrow> (db, order_row option) handler" where
  "outbound_commit now noteId operator lastMileMode raw =
    (let timeline = (if lastMileMode = ''customer-pickup'' then pickup_timeline (o_timeline raw)
           else o_timeline raw)
     in and_then
       (transaction (and_then
         (claim_order (o_id raw) (o_status raw)
           (\<lambda>o'. o'\<lparr>o_status := WaitingFirstMile,
              o_statusText := ''left the warehouse, waiting for a rider'',
              o_timeline := markTimelineStep now timeline WaitingFirstMile,
              o_package := Some ((package_of raw)\<lparr>pk_lastMileMode := Some lastMileMode\<rparr>)\<rparr>)
           (BadRequest ''the order status has changed''))
         (\<lambda>_. modify (\<lambda>s. s\<lparr>inventory_txns := inventory_txns s @ out_txns s raw operator\<rparr>))))
     (\<lambda>_. and_then (modify (notify noteId (o_userId raw) ''delivery'' ''left the warehouse''))
     (\<lambda>_. read (\<lambda>s. find_row o_id (o_id raw) (orders s)))))"

definition outbound ::
  "millis \<Rightarrow> ident \<Rightarrow> ident \<Rightarrow> string \<Rightarrow> (db, order_row option) handler" where
  "outbound now noteId orderId operator s =
    (case find_row o_id orderId (orders s) of
       None \<Rightarrow> reject (NotFound ''no such order'') s
     | Some raw \<Rightarrow>
         unless (o_status raw \<in> {Paid, Picking})
           (BadRequest (if o_status raw = WaitingFirstMile then ''the order has already left''
              else ''the order cannot leave the warehouse now''))
           (outbound_commit now noteId operator
             (if hasManagerFor s (o_address raw) then ''building-manager'' else ''customer-pickup'') raw) s)"

definition receipt_commit :: "millis \<Rightarrow> order_row \<Rightarrow> (db, order_row option) handler" where
  "receipt_commit now raw =
    and_then
      (claim_order (o_id raw) Delivered
        (\<lambda>o'. o'\<lparr>o_status := Completed, o_statusText := ''receipt confirmed'',
           o_timeline := markTimelineStep now (o_timeline raw) Completed\<rparr>)
        (BadRequest ''the order status has changed''))
    (\<lambda>_. read (\<lambda>s. find_row o_id (o_id raw) (orders s)))"

definition confirmReceipt :: "millis \<Rightarrow> ident \<Rightarrow> ident \<Rightarrow> (db, order_row option) handler" where
  "confirmReceipt now userId orderId s =
    (case find_own_order s orderId userId of
       None \<Rightarrow> reject (NotFound ''no such order'') s
     | Some raw \<Rightarrow>
         unless (o_status raw \<in> {Delivered, Completed}) (BadRequest ''receipt cannot be confirmed now'')
           (if o_status raw = Completed then reply (Some raw) else receipt_commit now raw) s)"

definition cancel_commit :: "order_row \<Rightarrow> (db, order_row option) handler" where
  "cancel_commit raw =
    and_then
      (claim_order (o_id raw) (o_status raw)
        (\<lambda>o'. o'\<lparr>o_status := Cancelled, o_statusText := ''order cancelled''\<rparr>)
        (BadRequest ''the order status has changed''))
    (\<lambda>_. and_then
      (modify (case truthy (o_couponId raw) of
         Some k \<Rightarrow> set_holding k [HLocked, HUsed] HReleased | None \<Rightarrow> (\<lambda>s. s)))
    (\<lambda>_. read (\<lambda>s. find_row o_id (o_id raw) (orders s))))"

definition cancel :: "ident \<Rightarrow> ident \<Rightarrow> (db, order_row option) handler" where
  "cancel userId orderId =
    transaction (\<lambda>s.
      case find_own_order s orderId userId of
        None \<Rightarrow> reject (NotFound ''no such order'') s
      | Some raw \<Rightarrow>
          unless (o_status raw \<noteq> Paid) (BadRequest ''the order is paid, please contact support'')
          (unless (o_status raw = PendingPayment) (BadRequest ''the order cannot be cancelled now'')
          (cancel_commit raw)) s)"

subsection \<open>Locks\<close>

text \<open>Whoever claims an order in a status first wins; a second claim on the same snapshot
  fails and leaves the state unchanged.\<close>

lemma claim_order_exclusive:
  assumes "claim_order k st f e s = (s', Inr ())"
    and "\<And>o'. o_status (f o') \<noteq> st" and "\<And>o'. o_id (f o') = o_id o'"
  shows "claim_order k st g e' s' = (s', Inl e')"
  unfolding claim_order_def
  by (rule orders_tbl.claim_exclusive [OF assms(1) [unfolded claim_order_def]]) (use assms in auto)

lemma claim_order_atomic [simp, intro]: "atomic (claim_order k st f e)"
  unfolding claim_order_def by (rule orders_tbl.atomic_claim)

lemma claim_order_ok:
  "claim_order k st f e s = (s', Inr r) \<longleftrightarrow>
    s' = s\<lparr>orders := update_where (\<lambda>o'. o_id o' = k \<and> o_status o' = st) f (orders s)\<rparr> \<and>
    (\<exists>o' \<in> set (orders s). o_id o' = k \<and> o_status o' = st)"
  unfolding claim_order_def claim_or_ok by (subst table_updates(1)) (rule refl)

declare claim_order_ok [ok_simps]

lemma claim_order_state:
  "fst (claim_order k st f e s) =
    s\<lparr>orders := update_where (\<lambda>o'. o_id o' = k \<and> o_status o' = st) f (orders s)\<rparr>"
  unfolding claim_order_def claim_or_def update_many_def
  by (subst table_updates(1)) simp

lemma claim_order_fails:
  "(\<forall>o' \<in> set (orders s). \<not> (o_id o' = k \<and> o_status o' = st)) \<Longrightarrow> claim_order k st f e s = (s, Inl e)"
  unfolding claim_order_def
  by (simp add: claim_or_def update_many_def count_where_0) (rule orders_tbl.upd_same, rule update_where_id, blast)

subsection \<open>What the steps of a payment touch\<close>

lemma notify_frame [simp]:
  "orders (notify k u t m s) = orders s" "products (notify k u t m s) = products s"
  "cart_items (notify k u t m s) = cart_items s" "coupons (notify k u t m s) = coupons s"
  "user_coupons (notify k u t m s) = user_coupons s" "refunds (notify k u t m s) = refunds s"
  "coupon_books (notify k u t m s) = coupon_books s"
  by (simp_all add: notify_def)

lemma set_holding_frame [simp]:
  "orders (set_holding k old new s) = orders s" "products (set_holding k old new s) = products s"
  "cart_items (set_holding k old new s) = cart_items s" "coupons (set_holding k old new s) = coupons s"
  "refunds (set_holding k old new s) = refunds s"
  by (simp_all add: set_holding_def)

lemma take_room_frame [simp]:
  "orders (fst (take_room k t n s)) = orders s" "products (fst (take_room k t n s)) = products s"
  "cart_items (fst (take_room k t n s)) = cart_items s"
  "user_coupons (fst (take_room k t n s)) = user_coupons s"
  by (simp_all add: take_room_def update_many_def)

lemma take_room_frameD:
  "take_room k t n s = (s', m) \<Longrightarrow> orders s' = orders s \<and> products s' = products s \<and>
    cart_items s' = cart_items s \<and> user_coupons s' = user_coupons s"
  by (metis fst_conv take_room_frame)

lemma add_holdings_frame [simp]:
  "orders (add_holdings hs s) = orders s" "products (add_holdings hs s) = products s"
  "cart_items (add_holdings hs s) = cart_items s" "coupons (add_holdings hs s) = coupons s"
  by (simp_all add: add_holdings_def)

lemma use_coupon_frame [simp]:
  "orders (use_coupon k s) = orders s" "products (use_coupon k s) = products s"
  "cart_items (use_coupon k s) = cart_items s"
  by (simp_all add: use_coupon_def Let_def split: option.split)

lemma grant_bonus_frame [simp]:
  "orders (grant_bonus b now h n raw s) = orders s"
  "products (grant_bonus b now h n raw s) = products s"
  "cart_items (grant_bonus b now h n raw s) = cart_items s"
  by (auto simp: grant_bonus_def split: option.split prod.split dest: take_room_frameD)

lemma books_set_holding [simp]: "coupon_books (set_holding k old new s) = coupon_books s"
  by (rule books_cong) (simp_all add: set_holding_def update_where_def)

lemma books_use_coupon:
  assumes "coupon_books s"
  shows "coupon_books (use_coupon k s)"
proof -
  have "coupon_books (s'\<lparr>coupons := update_where (\<lambda>c. c_id c = cid) (\<lambda>c. c\<lparr>c_used := c_used c + 1\<rparr>) (coupons s')\<rparr>)"
    if "coupon_books s'" for s' cid
  proof (rule books_update [OF that])
    fix c t assume "c \<in> set (coupons s')" "c_total (c\<lparr>c_used := c_used c + 1\<rparr>) = Some t"
    then show "c_claimed c \<le> t"
      using that by (auto simp: coupon_books_def split: option.splits)
  qed simp_all
  from this [of "set_holding j [HLocked] HUsed s" for j] show ?thesis
    using assms by (simp add: use_coupon_def Let_def split: option.split)
qed

subsection \<open>Stock\<close>

text \<open>What a sale takes off the shelf: as many as the lines of the product say.\<close>

definition take_off :: "order_line list \<Rightarrow> product \<Rightarrow> product" where
  "take_off ls p = p\<lparr>p_stock := p_stock p - line_count (p_id p) ls,
     p_sales := p_sales p + line_count (p_id p) ls\<rparr>"

definition stock_ok :: "db \<Rightarrow> bool" where
  "stock_ok s \<longleftrightarrow> distinct (map p_id (products s)) \<and> (\<forall>p \<in> set (products s). 0 \<le> free_stock p)"

definition quantities_ok :: "order_line list \<Rightarrow> bool" where
  "quantities_ok ls \<longleftrightarrow> (\<forall>l \<in> set ls. 0 \<le> ol_quantity l)"

lemma take_off_simps [simp]:
  "p_id (take_off ls p) = p_id p" "p_lockedStock (take_off ls p) = p_lockedStock p"
  "p_stock (take_off ls p) = p_stock p - line_count (p_id p) ls"
  "p_sales (take_off ls p) = p_sales p + line_count (p_id p) ls"
  by (simp_all add: take_off_def)

lemma take_off_Nil [simp]: "take_off [] p = p"
  by (simp add: take_off_def line_count_def)

lemma line_count_Cons [simp]:
  "line_count k (l # ls) = (if ps_id (ol_product l) = k then ol_quantity l else 0) + line_count k ls"
  by (simp add: line_count_def)

lemma line_count_Nil [simp]: "line_count k [] = 0"
  by (simp add: line_count_def)

lemma line_count_nonneg: "quantities_ok ls \<Longrightarrow> 0 \<le> line_count k ls"
  by (induction ls) (auto simp: quantities_ok_def)

lemma take_off_Cons: "take_off ls (take_off [l] p) = take_off (l # ls) p"
  by (simp add: take_off_def)

lemma sell_ok:
  assumes "distinct (map p_id (products s))" and "sell l s = (s', Inr ())"
  shows "s' = s\<lparr>products := map (take_off [l]) (products s)\<rparr> \<and>
    (\<exists>p \<in> set (products s). p_id p = ps_id (ol_product l) \<and> ol_quantity l \<le> free_stock p)"
proof -
  let ?P = "\<lambda>p. p_id p = ps_id (ol_product l) \<and> ol_quantity l \<le> free_stock p"
  let ?f = "\<lambda>p. p\<lparr>p_stock := p_stock p - ol_quantity l, p_sales := p_sales p + ol_quantity l\<rparr>"
  from assms(2) have s': "s' = products_update (update_where ?P ?f) s"
    and ex: "\<exists>p \<in> set (products s). ?P p"
    by (auto simp: sell_def claim_or_ok)
  then obtain p where p: "p \<in> set (products s)" "?P p" by blast
  have "update_where ?P ?f (products s) = map (take_off [l]) (products s)"
    unfolding update_where_def
  proof (rule map_cong [OF refl])
    fix q assume "q \<in> set (products s)"
    then have "p_id q = ps_id (ol_product l) \<Longrightarrow> q = p"
      using p unique_key [OF assms(1)] by auto
    then show "(if ?P q then ?f q else q) = take_off [l] q"
      using p by (auto simp: take_off_def)
  qed
  then show ?thesis using s' ex by (subst (asm) table_updates(2)) simp
qed

lemma sell_all:
  assumes "distinct (map p_id (products s))" and "for_each sell ls s = (s', Inr ())"
  shows "s' = s\<lparr>products := map (take_off ls) (products s)\<rparr>"
  using assms
proof (induction ls arbitrary: s)
  case Nil
  then show ?case by (simp add: reply_ok)
next
  case (Cons l ls)
  from Cons.prems(2) obtain s1 where one: "sell l s = (s1, Inr ())" and rest: "for_each sell ls s1 = (s', Inr ())"
    by (auto simp: and_then_ok)
  have s1: "s1 = s\<lparr>products := map (take_off [l]) (products s)\<rparr>"
    using sell_ok [OF Cons.prems(1) one] by blast
  have "map p_id (products s1) = map p_id (products s)" by (simp add: s1)
  then have "s' = s1\<lparr>products := map (take_off ls) (products s1)\<rparr>"
    using Cons.IH [OF _ rest] Cons.prems(1) by simp
  then show ?case by (simp add: s1 take_off_Cons comp_def)
qed

lemma sell_keeps_stock: "stock_ok s \<Longrightarrow> sell l s = (s', Inr ()) \<Longrightarrow> 0 \<le> ol_quantity l \<Longrightarrow> stock_ok s'"
proof -
  assume ok: "stock_ok s" and sold: "sell l s = (s', Inr ())" and q: "0 \<le> ol_quantity l"
  have d: "distinct (map p_id (products s))" using ok by (simp add: stock_ok_def)
  from sell_ok [OF this sold] obtain p where s': "s' = s\<lparr>products := map (take_off [l]) (products s)\<rparr>"
    and p: "p \<in> set (products s)" "p_id p = ps_id (ol_product l)" "ol_quantity l \<le> free_stock p" by blast
  have "0 \<le> free_stock (take_off [l] r)" if "r \<in> set (products s)" for r
  proof (cases "p_id r = ps_id (ol_product l)")
    case True
    then have "r = p" using p that unique_key [OF d] by auto
    then show ?thesis using p by (simp add: free_stock_def)
  next
    case False
    then show ?thesis using ok that by (simp add: stock_ok_def free_stock_def)
  qed
  then show "stock_ok s'" using d by (simp add: stock_ok_def s' comp_def)
qed

lemma sell_all_keeps_stock:
  "stock_ok s \<Longrightarrow> for_each sell ls s = (s', Inr ()) \<Longrightarrow> quantities_ok ls \<Longrightarrow> stock_ok s'"
  by (induction ls arbitrary: s) (auto simp: reply_ok and_then_ok quantities_ok_def dest: sell_keeps_stock)

text \<open>The priced lines are the ordered lines with their costs filled in.\<close>

lemma price_lines_same:
  "price_lines s ls = Inr ls' \<Longrightarrow>
    map (\<lambda>l. (ps_id (ol_product l), ol_quantity l, ps_price (ol_product l))) ls' =
    map (\<lambda>l. (ps_id (ol_product l), ol_quantity l, ps_price (ol_product l))) ls \<and>
    (\<forall>l \<in> set ls'. ps_unitGrossCost (ol_product l) \<noteq> None)"
  by (induction ls arbitrary: ls') (auto simp: price_line_def split: option.splits if_splits sum.splits)

lemma line_count_as_sum:
  "line_count k ls = sum_list (map (\<lambda>(i, q, c). if i = k then q else 0)
     (map (\<lambda>l. (ps_id (ol_product l), ol_quantity l, ps_price (ol_product l))) ls))"
  by (induction ls) auto

lemma line_count_priced: "price_lines s ls = Inr ls' \<Longrightarrow> line_count k ls' = line_count k ls"
  unfolding line_count_as_sum by (drule price_lines_same) simp

lemma take_off_priced: "price_lines s ls = Inr ls' \<Longrightarrow> take_off ls' = take_off ls"
  by (simp add: fun_eq_iff take_off_def line_count_priced)

subsection \<open>The payment as a whole\<close>

lemma paid_row_simps [simp]:
  "o_id (paid_row now k raw items o') = o_id o'" "o_status (paid_row now k raw items o') = Paid"
  "o_items (paid_row now k raw items o') = items" "o_paidAt (paid_row now k raw items o') = Some now"
  "o_userId (paid_row now k raw items o') = o_userId o'"
  "o_payableAmount (paid_row now k raw items o') = o_payableAmount o'"
  "o_couponId (paid_row now k raw items o') = o_couponId o'"
  by (simp_all add: paid_row_def)

text \<open>What a successful second half of \<open>pay\<close> has done.\<close>

lemma pay_commit_ok:
  assumes "distinct (map p_id (products s))"
    and "pay_commit bonusId now ids k raw items s = (s', Inr r)"
  shows "orders s' = update_where (\<lambda>o'. o_id o' = o_id raw \<and> o_status o' = PendingPayment)
      (paid_row now k raw items) (orders s)"
    and "\<exists>o' \<in> set (orders s). o_id o' = o_id raw \<and> o_status o' = PendingPayment"
    and "products s' = map (take_off items) (products s)"
    and "cart_items s' = delete_where (\<lambda>c. ci_userId c = o_userId raw) (cart_items s)"
    and "r = find_row o_id (o_id raw) (orders s')"
    and "\<exists>s1. for_each sell items (s\<lparr>orders := orders s'\<rparr>) = (s1, Inr ())"
proof -
  let ?P = "\<lambda>o'. o_id o' = o_id raw \<and> o_status o' = PendingPayment"
  let ?s1 = "s\<lparr>orders := update_where ?P (paid_row now k raw items) (orders s)\<rparr>"
  obtain s2 where ex: "\<exists>o' \<in> set (orders s). ?P o'" and sold: "for_each sell items ?s1 = (s2, Inr ())"
    and rest: "s' = notify (ids 2) (o_userId raw) ''order'' ''paid''
      (grant_bonus bonusId now (ids 0) (ids 1) raw
        ((use_coupon (o_couponId raw) s2)\<lparr>cart_items :=
           delete_where (\<lambda>c. ci_userId c = o_userId raw) (cart_items (use_coupon (o_couponId raw) s2))\<rparr>))"
    and r: "r = find_row o_id (o_id raw) (orders s')"
    using assms(2) by (auto simp: pay_commit_def ok_simps)
  have s2: "s2 = ?s1\<lparr>products := map (take_off items) (products s)\<rparr>"
    using sell_all [OF _ sold] assms(1) by simp
  show orders: "orders s' = update_where ?P (paid_row now k raw items) (orders s)"
    by (simp add: rest s2)
  show "\<exists>o' \<in> set (orders s). ?P o'" by (rule ex)
  show "products s' = map (take_off items) (products s)" by (simp add: rest s2)
  show "cart_items s' = delete_where (\<lambda>c. ci_userId c = o_userId raw) (cart_items s)"
    by (simp add: rest s2)
  show "r = find_row o_id (o_id raw) (orders s')" by (rule r)
  show "\<exists>s1. for_each sell items (s\<lparr>orders := orders s'\<rparr>) = (s1, Inr ())"
    using sold by (auto simp: orders)
qed

lemma books_grant_bonus: "coupon_books s \<Longrightarrow> coupon_books (grant_bonus b now h n raw s)"
proof -
  assume books: "coupon_books s"
  show ?thesis
  proof (cases "truthy b")
    case k: (Some k)
    show ?thesis
    proof (cases "find_row c_id k (coupons s)")
      case (Some c)
      obtain s' m where t: "take_room k (c_total c) 1 s = (s', m)" by force
      have "coupon_books (add_holdings [new_holding h (o_userId raw) k now] s')" if "m \<noteq> 0"
        using take_room_found [OF books_distinct [OF books] Some t] that
          booking_books [OF books, of c k "[new_holding h (o_userId raw) k now]"] find_row_SomeD [OF Some]
        by (auto simp: booking_def new_holding_def split: if_splits)
      moreover have "m = 0 \<Longrightarrow> s' = s"
        using take_room_found [OF books_distinct [OF books] Some t] by (auto split: if_splits)
      ultimately show ?thesis
        using books k Some t by (auto simp: grant_bonus_def)
    qed (use books k in \<open>simp add: grant_bonus_def\<close>)
  qed (use books in \<open>simp add: grant_bonus_def\<close>)
qed

lemma for_each_sell_coupons:
  "for_each sell ls s = (s', x) \<Longrightarrow> coupons s' = coupons s \<and> user_coupons s' = user_coupons s"
proof (induction ls arbitrary: s)
  case (Cons l ls)
  have one: "coupons (fst (sell l s)) = coupons s \<and> user_coupons (fst (sell l s)) = user_coupons s" for s
    by (simp add: sell_def claim_or_def update_many_def Let_def)
  obtain s1 y where sl: "sell l s = (s1, y)" by force
  then have "coupons s1 = coupons s \<and> user_coupons s1 = user_coupons s" using one [of s] by simp
  then show ?case
    using Cons sl by (cases y) (auto simp: and_then_def)
qed (auto simp: reply_def)

lemma keeps_pay_commit: "keeps coupon_books (pay_commit b now ids k raw items)"
proof -
  have "keeps coupon_books (claim_order i st f e)" for i st f e
    by (simp add: keeps_def claim_order_state)
  moreover have "keeps coupon_books (for_each sell items)"
    using for_each_sell_coupons books_cong by (metis (no_types, lifting) keepsI prod.collapse)
  ultimately show ?thesis
    unfolding pay_commit_def
    by (auto intro!: keeps_intros books_use_coupon books_grant_bonus)
qed

lemma pay_cases:
  assumes "pay tz b now ids k uid oid s = (s', Inr r)"
  shows "\<exists>raw. find_own_order s oid uid = Some raw \<and>
    (o_status raw = Paid \<and> s' = s \<and> r = Some raw \<or>
     (\<exists>items. o_status raw = PendingPayment \<and> now - o_createdAt raw < PAYMENT_TIMEOUT_MS \<and>
        price_lines s (o_items raw) = Inr items \<and>
        (limited_products s (js_set (map (\<lambda>l. ps_id (ol_product l)) items)) \<noteq> [] \<longrightarrow>
          assertPurchaseLimit tz now uid (js_set (map (\<lambda>l. ps_id (ol_product l)) items)) s = (s, Inr ())) \<and>
        pay_commit b now ids k raw items s = (s', Inr r)))"
proof (cases "find_own_order s oid uid")
  case None
  then show ?thesis using assms by (simp add: pay_def ok_simps)
next
  case (Some raw)
  note run = assms [unfolded pay_def transaction_ok Some option.case]
  show ?thesis
  proof (cases "o_status raw = Paid \<or> PAYMENT_TIMEOUT_MS \<le> now - o_createdAt raw")
    case True
    then show ?thesis using run Some by (auto simp: ok_simps split: if_splits)
  next
    case False
    then obtain items where "o_status raw = PendingPayment" and i: "price_lines s (o_items raw) = Inr items"
      using run by (auto simp: ok_simps split: if_splits sum.splits)
    then show ?thesis
      using run False Some
      by (auto simp: ok_simps Let_def split: if_splits dest: readsD [OF reads_assertPurchaseLimit])
  qed
qed

lemma atomic_pay: "atomic (pay tz b now ids k uid oid)"
  unfolding pay_def by (rule atomic_transaction)

lemma keeps_pay: "keeps coupon_books (pay tz b now ids k uid oid)"
  unfolding keeps_def
proof (intro allI impI)
  fix s assume books: "coupon_books s"
  obtain s' x where out: "pay tz b now ids k uid oid s = (s', x)" by force
  show "coupon_books (fst (pay tz b now ids k uid oid s))"
  proof (cases x)
    case (Inl e)
    with out have "s' = s" using atomicD [OF atomic_pay] by blast
    then show ?thesis using out books by simp
  next
    case (Inr r)
    then have "s' = s \<or> (\<exists>raw items. pay_commit b now ids k raw items s = (s', Inr r))"
      using pay_cases out by blast
    then show ?thesis
      using out books keepsD [OF keeps_pay_commit books] by (metis fst_conv)
  qed
qed

end
