(* ===== verification/Samples.thy ===== *)
theory Samples
  imports Store
begin

text \<open>
  A small database on which the theorems are applied: one organisation with one campus, a user
  with a cart and an order, a rider, a building manager, two products and a coupon. The
  witnesses of the development start from it or from an update of it.
\<close>

definition org1 :: organization where
  "org1 = \<lparr>g_id = ''g1'', g_name = ''Org'', g_status = ''active'', g_wxAppId = Some ''wx1'',
     g_deliveryWxAppId = None, g_capabilities = JNull, g_deliveryMode = ''rider_delivery'',
     g_wxSecret = None, g_mchId = None, g_mchApiV3Key = None, g_serialNo = None, g_privateKey = None,
     g_notifyDomain = None, g_wxPayPublicKey = None\<rparr>"

definition campus1 :: campus where
  "campus1 = \<lparr>ca_id = ''ca1'', ca_type = ''campus'', ca_name = ''Campus'', ca_status = ''active'',
     ca_organizationId = Some ''g1'', ca_features = JNull, ca_deliveryFeeInstant = 400,
     ca_deliveryFeeScheduled = 200, ca_deliveryThreshold = 1000, ca_closeStart = ''00:00'',
     ca_closeEnd = ''00:00'', ca_manualClosed = False, ca_buildingManagerBaseSalary = 50000,
     ca_managerCommissionMode = ''per-order'', ca_managerCommissionRate = 500,
     ca_noManagerTip = [], ca_refundDeliveryFeeBeforeArrive = False,
     ca_autoOutboundEnabled = False, ca_autoOutboundDelaySeconds = 60\<rparr>"

definition user1 :: user where
  "user1 = \<lparr>u_id = ''u1'', u_campusId = ''ca1'', u_phone = ''13800000000'', u_openid = Some ''wx-u1''\<rparr>"

definition rider1 :: staff where
  "rider1 = \<lparr>s_id = ''s1'', s_campusId = ''ca1'', s_name = ''Rider'', s_role = FulltimeRider,
     s_roleText = ''full-time rider'',     s_staffNo = ''R-001'', s_phone = [], s_buildingId = None, s_building = [],
     s_status = ''online'', s_notifyQuota = 0, s_notifyQuotaFailedAt = None, s_gzhOpenid = None\<rparr>"

definition rider2 :: staff where
  "rider2 = rider1\<lparr>s_id := ''s2'', s_staffNo := ''R-002''\<rparr>"

definition manager1 :: staff where
  "manager1 = rider1\<lparr>s_id := ''s3'', s_role := BuildingManager, s_roleText := ''Building 1 manager'', s_staffNo := ''BM-001'',
     s_buildingId := Some ''b1'', s_building := ''Building 1''\<rparr>"

definition address1 :: address where
  "address1 = \<lparr>a_id = ''a1'', a_userId = ''u1'', a_campusId = ''ca1'', a_campusName = ''Campus'',
     a_buildingId = ''b1'', a_buildingName = ''Building 1'', a_floor = 3, a_room = ''301'',
     a_contactName = ''Li'', a_phone = ''13800000000'', a_isDefault = True\<rparr>"

definition product1 :: product where
  "product1 = \<lparr>p_id = ''p1'', p_campusId = ''ca1'', p_name = ''Cola'', p_price = 600,
     p_originalPrice = 700, p_costPrice = 7200, p_wholesalePrice = 300, p_procurementMode = Some ''HQ'',
     p_localPurchasePrice = None, p_purchaseLimit = ''none'', p_purchaseLimitQty = 1, p_stock = 10,
     p_lockedStock = 2, p_sales = 5, p_weight = 1, p_status = ''on-sale'', p_unitsPerCase = 24,
     p_sourceProductId = None, p_organizationId = None, p_barcode = None, p_catalogScope = ''campus'',
     p_orgCatalogId = None, p_supplyMode = None, p_categoryId = ''cat1'', p_subtitle = [], p_tag = [],
     p_image = [], p_images = None, p_description = None, p_location = [], p_locationCode = [],
     p_retailUnit = ''can'', p_wholesaleUnit = ''case'', p_featured = False, p_featuredSort = 0\<rparr>"

definition product2 :: product where
  "product2 = product1\<lparr>p_id := ''p2'', p_name := ''Tea'', p_price := 500, p_stock := 8, p_lockedStock := 0\<rparr>"

definition coupon1 :: coupon where
  "coupon1 = \<lparr>c_id = ''c1'', c_campusId = ''ca1'', c_name = ''Welcome'', c_kind = ''platform'',
     c_trigger = ''manual'', c_remark = [], c_amount = 300, c_threshold = 1000, c_total = Some 2,
     c_status = ''active'', c_expiresAt = None, c_perUserLimit = 1, c_targetedOnly = False,
     c_featuredAfterPay = False, c_issued = 1, c_claimed = 1, c_used = 0\<rparr>"

definition holding1 :: user_coupon where
  "holding1 = \<lparr>uc_id = ''h1'', uc_userId = ''u1'', uc_couponId = ''c1'', uc_status = HLocked,
     uc_claimedAt = 0\<rparr>"

definition line1 :: order_line where
  "line1 = \<lparr>ol_product = \<lparr>ps_id = ''p1'', ps_name = ''Cola'', ps_price = 600, ps_originalPrice = 700,
       ps_weight = 1, ps_promotionId = None, ps_unitWholesaleCost = None, ps_unitPurchaseCost = None,
       ps_unitGrossCost = None, ps_costSource = None, ps_unitsPerCase = Some 24\<rparr>,
     ol_quantity = 2, ol_asSeckill = False\<rparr>"

definition order1 :: order_row where
  "order1 = \<lparr>o_id = ''o1'', o_orderNo = ''BCQ1'', o_riderId = None, o_userId = ''u1'',
     o_campusId = ''ca1'', o_status = PendingPayment, o_statusText = ''waiting for payment'',
     o_createdAt = 1000, o_paidAt = None, o_address = address1, o_deliveryMode = ''instant'',
     o_deliverySlot = None, o_couponId = Some ''h1'', o_remark = [], o_items = [line1],
     o_productAmount = 1200, o_totalQuantity = 2, o_deliveryThreshold = 1000, o_deliveryFee = 400,
     o_discount = 300, o_payableAmount = 1300, o_estimatedArrival = ''soon'',
     o_timeline = buildOrderTimeline ''Building 1 301'', o_package = None, o_stockRestored = False\<rparr>"

definition db0 :: db where
  "db0 = \<lparr>organizations = [org1], campuses = [campus1], users = [user1],
     buildings = [\<lparr>b_id = ''b1'', b_campusId = ''ca1'', b_name = ''Building 1'', b_status = ''active''\<rparr>],
     staffs = [rider1, rider2, manager1], addresses = [address1],
     categories = [\<lparr>cat_id = ''cat1'', cat_campusId = ''ca1'', cat_name = ''Drinks'', cat_sort = 0, cat_image = [],
       cat_hidden = False\<rparr>],
     products = [product1, product2], purchase_requests = [],
     promotions = [],
     cart_items = [\<lparr>ci_userId = ''u1'', ci_productId = ''p1'', ci_quantity = 2, ci_asSeckill = False\<rparr>],
     coupons = [coupon1], user_coupons = [holding1], slots = [], orders = [order1], refunds = [],
     refund_items = [], commissions = [], bills = [], wheels = [], draws = [], notifications = [],
     inventory_txns = [], transfer_logs = [], audits = [], leaves = [], invitations = [], recruits = [], after_sales = [],
     restock_batches = [], restock_orders = [], shipments = [], purchase_orders = []\<rparr>"

text \<open>The sample with its order in another status.\<close>

definition db_at :: "order_status \<Rightarrow> ident option \<Rightarrow> db" where
  "db_at st rider = db0\<lparr>orders := [order1\<lparr>o_status := st, o_riderId := rider\<rparr>]\<rparr>"

definition sample_ids :: "nat \<Rightarrow> ident" where
  "sample_ids i = ''n'' @ replicate i (CHR ''i'')"

end
