(* ===== verification/Order_Theorems.thy ===== *)
theory Order_Theorems
  imports Orders Samples
begin

text \<open>
  The theorems about placing, paying, closing and cancelling an order.
\<close>

subsection \<open>Auxiliary facts\<close>

lemma find_own_order_row:
  assumes "distinct (map o_id (orders s))" and "find_own_order s oid uid = Some raw"
  shows "raw \<in> set (orders s)" and "o_id raw = oid" and "o_userId raw = uid"
    and "find_row o_id oid (orders s) = Some raw"
proof -
  show r: "raw \<in> set (orders s)" "o_id raw = oid" "o_userId raw = uid"
    using assms(2) by (auto simp: find_own_order_def find_Some_iff in_set_conv_nth)
  show "find_row o_id oid (orders s) = Some raw"
    using find_row_unique [OF assms(1) r(1)] r(2) by simp
qed

lemma find_own_order_of_row:
  assumes "find_row o_id oid (orders s) = Some q" and "o_userId q = uid"
    and "distinct (map o_id (orders s))"
  shows "find_own_order s oid uid = Some q"
proof -
  have q: "q \<in> set (orders s)" "o_id q = oid" using find_row_SomeD [OF assms(1)] by auto
  then have "find_own_order s oid uid \<noteq> None"
    using assms(2) by (auto simp: find_own_order_def find_None_iff)
  then obtain q' where q': "find_own_order s oid uid = Some q'" by blast
  from find_own_order_row(4) [OF assms(3) q'] assms(1) q' show ?thesis by simp
qed

lemma set_holding_done:
  assumes "u \<in> set (user_coupons (set_holding k old new s))" and "uc_id u = k" and "new \<notin> set old"
  shows "uc_status u \<notin> set old"
proof -
  have "u \<in> set (update_where (\<lambda>u. uc_id u = k \<and> uc_status u \<in> set old)
      (\<lambda>u. u\<lparr>uc_status := new\<rparr>) (user_coupons s))"
    using assms(1) by (simp add: set_holding_def)
  from update_whereD [OF this] show ?thesis
  proof
    assume "\<exists>r0 \<in> set (user_coupons s). (uc_id r0 = k \<and> uc_status r0 \<in> set old) \<and> u = r0\<lparr>uc_status := new\<rparr>"
    then have "uc_status u = new" by force
    then show ?thesis using assms(3) by simp
  next
    assume "u \<in> set (user_coupons s) \<and> \<not> (uc_id u = k \<and> uc_status u \<in> set old)"
    then show ?thesis using assms(2) by blast
  qed
qed

lemma stock_ok_cong: "products s' = products s \<Longrightarrow> stock_ok s' = stock_ok s"
  by (simp add: stock_ok_def)

subsection \<open>Payment\<close>

text \<open>C1. A payment that succeeds on an unpaid order is complete: the order is paid with the same
  lines (now carrying their cost snapshot), every product has lost exactly the ordered quantity
  of stock and gained it in sales, no product is oversold, the user's cart is empty, and the
  order was still within its payment window.\<close>

theorem pay_settles:
  assumes "stock_ok s" and "distinct (map o_id (orders s))"
    and "find_own_order s oid uid = Some raw" and "o_status raw \<noteq> Paid"
    and "quantities_ok (o_items raw)"
    and "pay tz b now ids k uid oid s = (s', Inr r)"
  shows "\<exists>items. r = Some (paid_row now k raw items raw) \<and> find_row o_id oid (orders s') = r \<and>
    map (\<lambda>l. (ps_id (ol_product l), ol_quantity l, ps_price (ol_product l))) items =
      map (\<lambda>l. (ps_id (ol_product l), ol_quantity l, ps_price (ol_product l))) (o_items raw) \<and>
    (\<forall>l \<in> set items. ps_unitGrossCost (ol_product l) \<noteq> None) \<and>
    products s' = map (take_off (o_items raw)) (products s) \<and> stock_ok s' \<and>
    (\<forall>c \<in> set (cart_items s'). ci_userId c \<noteq> uid) \<and>
    now < o_createdAt raw + PAYMENT_TIMEOUT_MS"
proof -
  note raw = find_own_order_row [OF assms(2,3)]
  obtain items where pending: "o_status raw = PendingPayment"
    and window: "now - o_createdAt raw < PAYMENT_TIMEOUT_MS"
    and priced: "price_lines s (o_items raw) = Inr items"
    and commit: "pay_commit b now ids k raw items s = (s', Inr r)"
    using pay_cases [OF assms(6)] assms(3,4) by auto
  have d: "distinct (map p_id (products s))" using assms(1) by (simp add: stock_ok_def)
  note paid = pay_commit_ok [OF d commit]
  have same: "map (\<lambda>l. (ps_id (ol_product l), ol_quantity l, ps_price (ol_product l))) items =
      map (\<lambda>l. (ps_id (ol_product l), ol_quantity l, ps_price (ol_product l))) (o_items raw)"
    and cost: "\<forall>l \<in> set items. ps_unitGrossCost (ol_product l) \<noteq> None"
    using price_lines_same [OF priced] by auto
  have "quantities_ok items"
  proof -
    have "map ol_quantity items = map ol_quantity (o_items raw)"
      using arg_cong [OF same, of "map (\<lambda>(i, q, c). q)"] by (simp add: comp_def)
    then show ?thesis using assms(5) unfolding quantities_ok_def by (metis (mono_tags) in_set_conv_nth
      length_map nth_map nth_mem)
  qed
  moreover obtain s1 where sold: "for_each sell items (s\<lparr>orders := orders s'\<rparr>) = (s1, Inr ())"
    using paid(6) by blast
  moreover have "stock_ok (s\<lparr>orders := orders s'\<rparr>)"
    using assms(1) by (simp add: stock_ok_def)
  ultimately have "stock_ok s1" using sell_all_keeps_stock by blast
  moreover have "products s1 = products s'"
    using sell_all [OF _ sold] d paid(3) by simp
  ultimately have stock: "stock_ok s'" by (metis stock_ok_cong)
  have "r = Some (paid_row now k raw items raw)"
    using paid(1,5) raw pending
      find_row_update_where [of o_id "paid_row now k raw items" oid
        "\<lambda>o'. o_id o' = o_id raw \<and> o_status o' = PendingPayment" "orders s"] by simp
  then show ?thesis
    using paid(3,4,5) same cost stock window raw take_off_priced [OF priced]
    by (intro exI [of _ items]) (auto simp: delete_where_def)
qed

theorem pay_settles_witness:
  "products (fst (pay 0 None 2000 sample_ids ''PKG-1'' ''u1'' ''o1'' db0)) =
    map (take_off [line1]) (products db0)"
proof -
  have "\<exists>items. pay 0 None 2000 sample_ids ''PKG-1'' ''u1'' ''o1'' db0 =
      (fst (pay 0 None 2000 sample_ids ''PKG-1'' ''u1'' ''o1'' db0), Inr items)"
    by (rule exI [of _ "projr (snd (pay 0 None 2000 sample_ids ''PKG-1'' ''u1'' ''o1'' db0))"]) code_simp
  then obtain r where run: "pay 0 None 2000 sample_ids ''PKG-1'' ''u1'' ''o1'' db0 =
      (fst (pay 0 None 2000 sample_ids ''PKG-1'' ''u1'' ''o1'' db0), Inr r)" by blast
  have "stock_ok db0" and "distinct (map o_id (orders db0))"
    and "find_own_order db0 ''o1'' ''u1'' = Some order1" and "o_status order1 \<noteq> Paid"
    and "quantities_ok (o_items order1)" and "o_items order1 = [line1]"
    by code_simp+
  from pay_settles [OF this(1-5) run] this(6) show ?thesis by auto
qed



text \<open>The timeout branch of \<open>pay\<close> has no effect: it closes the order and releases its coupon,
  and then throws inside the same transaction, which undoes both writes. The order stays
  unpaid and its coupon stays locked until somebody else closes it.\<close>

theorem pay_timeout_undone:
  assumes "distinct (map o_id (orders s))"
    and "find_own_order s oid uid = Some raw" and "o_status raw = PendingPayment"
    and "o_createdAt raw + PAYMENT_TIMEOUT_MS \<le> now"
  shows "pay tz b now ids k uid oid s = (s, Inl (BadRequest ''the payment has timed out'')) \<and>
    find_row o_id oid (orders s) = Some raw \<and>
    (\<exists>o'. find_row o_id oid (orders (timeout_writes raw s)) = Some o' \<and> o_status o' = Cancelled)"
proof -
  note raw = find_own_order_row [OF assms(1,2)]
  have "pay tz b now ids k uid oid s = (s, Inl (BadRequest ''the payment has timed out''))"
    using assms(2-4) by (simp add: pay_def transaction_def and_then_def modify_def reject_def)
  moreover have "orders (timeout_writes raw s) =
      update_where (\<lambda>o'. o_id o' = o_id raw \<and> o_status o' = PendingPayment)
        (\<lambda>o'. o'\<lparr>o_status := Cancelled, o_statusText := ''payment timed out, closed''\<rparr>) (orders s)"
    by (simp add: timeout_writes_def Let_def split: option.split)
  ultimately show ?thesis
    using raw assms(3) by (simp add: find_row_update_where)
qed

theorem pay_timeout_undone_witness:
  "pay 0 None 1000000 sample_ids ''PKG-1'' ''u1'' ''o1'' db0 =
    (db0, Inl (BadRequest ''the payment has timed out''))"
proof -
  have "distinct (map o_id (orders db0))" and "find_own_order db0 ''o1'' ''u1'' = Some order1"
    and "o_status order1 = PendingPayment" and "o_createdAt order1 + PAYMENT_TIMEOUT_MS \<le> 1000000"
    by code_simp+
  from pay_timeout_undone [OF this] show ?thesis by blast
qed

subsection \<open>Closing unpaid orders\<close>

definition closed_row :: "order_row \<Rightarrow> order_row" where
  "closed_row o' = o'\<lparr>o_status := Cancelled, o_statusText := ''payment timed out, closed''\<rparr>"

definition released_row :: "user_coupon \<Rightarrow> user_coupon" where
  "released_row u = u\<lparr>uc_status := HReleased\<rparr>"

lemma close_one_result:
  assumes "\<exists>o' \<in> set (orders s). o_id o' = fst oc \<and> o_status o' = PendingPayment"
  shows "orders (close_one oc s) =
      map (\<lambda>o'. if o_id o' = fst oc \<and> o_status o' = PendingPayment then closed_row o' else o') (orders s)"
    and "user_coupons (close_one oc s) =
      map (\<lambda>u. if uc_status u = HLocked \<and> truthy (snd oc) = Some (uc_id u) then released_row u else u)
        (user_coupons s)"
    and "products (close_one oc s) = products s"
proof -
  have pos: "0 < count_where (\<lambda>o'. o_id o' = fst oc \<and> o_status o' = PendingPayment) (orders s)"
    using assms by (simp add: count_where_gt0)
  show "orders (close_one oc s) =
      map (\<lambda>o'. if o_id o' = fst oc \<and> o_status o' = PendingPayment then closed_row o' else o') (orders s)"
    using pos by (simp add: close_one_def Let_def update_where_def closed_row_def split: option.split)
  show "user_coupons (close_one oc s) =
      map (\<lambda>u. if uc_status u = HLocked \<and> truthy (snd oc) = Some (uc_id u) then released_row u else u)
        (user_coupons s)"
    using pos
    by (auto simp: close_one_def Let_def set_holding_def update_where_def released_row_def
      intro!: map_cong split: option.split)
  show "products (close_one oc s) = products s"
    using pos by (simp add: close_one_def Let_def split: option.split)
qed

lemma close_fold:
  assumes "distinct (map fst xs)"
    and "\<forall>x \<in> set xs. \<exists>o' \<in> set (orders s). o_id o' = fst x \<and> o_status o' = PendingPayment"
  shows "orders (fold close_one xs s) =
      map (\<lambda>o'. if o_id o' \<in> fst ` set xs \<and> o_status o' = PendingPayment then closed_row o' else o') (orders s) \<and>
    user_coupons (fold close_one xs s) =
      map (\<lambda>u. if uc_status u = HLocked \<and> Some (uc_id u) \<in> (truthy \<circ> snd) ` set xs then released_row u else u)
        (user_coupons s) \<and>
    products (fold close_one xs s) = products s"
  using assms
proof (induction xs arbitrary: s)
  case (Cons x xs)
  note one = close_one_result [of s x]
  have open_x: "\<exists>o' \<in> set (orders s). o_id o' = fst x \<and> o_status o' = PendingPayment"
    using Cons.prems by simp
  have rest: "\<forall>y \<in> set xs. \<exists>o' \<in> set (orders (close_one x s)). o_id o' = fst y \<and> o_status o' = PendingPayment"
  proof
    fix y assume y: "y \<in> set xs"
    then have "fst y \<noteq> fst x" using Cons.prems(1) by (auto simp: image_iff)
    moreover obtain o' where "o' \<in> set (orders s)" "o_id o' = fst y" "o_status o' = PendingPayment"
      using y Cons.prems(2) by force
    ultimately show "\<exists>o' \<in> set (orders (close_one x s)). o_id o' = fst y \<and> o_status o' = PendingPayment"
      using one(1) [OF open_x] by force
  qed
  have IH: "orders (fold close_one xs (close_one x s)) = map (\<lambda>o'. if o_id o' \<in> fst ` set xs \<and>
        o_status o' = PendingPayment then closed_row o' else o') (orders (close_one x s))"
    "user_coupons (fold close_one xs (close_one x s)) =
      map (\<lambda>u. if uc_status u = HLocked \<and> Some (uc_id u) \<in> (truthy \<circ> snd) ` set xs then released_row u else u)
        (user_coupons (close_one x s))"
    "products (fold close_one xs (close_one x s)) = products (close_one x s)"
    using Cons.IH [OF _ rest] Cons.prems(1) by simp_all
  show ?case
    unfolding fold_Cons comp_apply IH one [OF open_x] map_map
    by (auto simp: closed_row_def released_row_def intro!: map_cong)
qed simp

text \<open>The payment-timeout job closes exactly the unpaid orders older than 15 minutes: each of
  them becomes \<open>cancelled\<close>, each coupon locked by one of them becomes usable again, every
  other order and coupon is untouched, no stock moves, and the reply is the number of closed
  orders.\<close>

theorem expire_closes_stale:
  assumes "distinct (map o_id (orders s))"
  shows "\<exists>s'. expireAllPendingOrders now s = (s', Inr (int (length (filter (is_stale now) (orders s))))) \<and>
    orders s' = map (\<lambda>o'. if is_stale now o' then closed_row o' else o') (orders s) \<and>
    user_coupons s' = map (\<lambda>u. if uc_status u = HLocked \<and>
        (\<exists>o' \<in> set (orders s). is_stale now o' \<and> truthy (o_couponId o') = Some (uc_id u))
      then released_row u else u) (user_coupons s) \<and>
    products s' = products s"
proof -
  let ?stale = "filter (is_stale now) (orders s)"
  let ?xs = "map (\<lambda>o'. (o_id o', o_couponId o')) ?stale"
  have "distinct (map fst ?xs)"
    using assms by (auto simp: comp_def distinct_map inj_on_def)
  moreover have "\<forall>x \<in> set ?xs. \<exists>o' \<in> set (orders s). o_id o' = fst x \<and> o_status o' = PendingPayment"
    by (auto simp: is_stale_def)
  ultimately have fold: "orders (fold close_one ?xs s) =
      map (\<lambda>o'. if o_id o' \<in> fst ` set ?xs \<and> o_status o' = PendingPayment then closed_row o' else o') (orders s)"
    "user_coupons (fold close_one ?xs s) =
      map (\<lambda>u. if uc_status u = HLocked \<and> Some (uc_id u) \<in> (truthy \<circ> snd) ` set ?xs then released_row u else u)
        (user_coupons s)"
    "products (fold close_one ?xs s) = products s"
    by (simp_all only: close_fold)
  have "(o_id o' \<in> fst ` set ?xs \<and> o_status o' = PendingPayment) = is_stale now o'" if "o' \<in> set (orders s)" for o'
    using that unique_key [OF assms] by (auto simp: is_stale_def image_iff)
  then have "orders (fold close_one ?xs s) = map (\<lambda>o'. if is_stale now o' then closed_row o' else o') (orders s)"
    unfolding fold(1) by (intro map_cong) auto
  moreover have "(Some (uc_id u) \<in> (truthy \<circ> snd) ` set ?xs) =
      (\<exists>o' \<in> set (orders s). is_stale now o' \<and> truthy (o_couponId o') = Some (uc_id u))" for u
    by (auto simp: image_iff)
  ultimately show ?thesis
    using fold(2,3) by (auto simp: expireAllPendingOrders_def closeStalePendingOrders_def Let_def)
qed

theorem expire_closes_stale_witness:
  "o_status (hd (orders (fst (expireAllPendingOrders 1000000 db0)))) = Cancelled"
proof -
  have "distinct (map o_id (orders db0))" and st: "map (is_stale 1000000) (orders db0) = [True]"
    and os: "orders db0 = [order1]"
    by code_simp+
  from expire_closes_stale [OF this(1), of 1000000] obtain s' where
    "expireAllPendingOrders 1000000 db0 = (s', Inr (int (length (filter (is_stale 1000000) (orders db0)))))"
    and "orders s' = map (\<lambda>o'. if is_stale 1000000 o' then closed_row o' else o') (orders db0)" by blast
  then show ?thesis using st by (simp add: os closed_row_def)
qed

subsection \<open>Placing an order\<close>

lemma first_short_line_None:
  "first_short_line s ls = None \<Longrightarrow>
    \<forall>l \<in> set ls. \<exists>p. find_row p_id (ps_id (ol_product l)) (products s) = Some p \<and> ol_quantity l \<le> free_stock p"
  by (induction ls) (auto split: option.splits if_splits)

lemma lock_coupon_ok:
  assumes "lock_coupon uid k s = (s', Inr ())"
  shows "case truthy k of
      None \<Rightarrow> s' = s
    | Some j \<Rightarrow> s' = s\<lparr>user_coupons := update_where
          (\<lambda>u. uc_id u = j \<and> uc_userId u = uid \<and> uc_status u \<in> {HClaimed, HReleased})
          (\<lambda>u. u\<lparr>uc_status := HLocked\<rparr>) (user_coupons s)\<rparr> \<and>
        (\<exists>u \<in> set (user_coupons s). uc_id u = j \<and> uc_userId u = uid \<and> uc_status u \<in> {HClaimed, HReleased})"
proof (cases "truthy k")
  case (Some j)
  from assms show ?thesis
    unfolding lock_coupon_def Some option.case claim_or_ok by (subst (asm) table_updates(4)) simp
qed (use assms in \<open>simp add: lock_coupon_def reply_ok\<close>)


definition dto0 :: create_order_dto where
  "dto0 = \<lparr>dt_addressId = ''a1'', dt_couponId = None, dt_deliveryMode = ''instant'',
     dt_deliverySlot = None, dt_remark = []\<rparr>"


subsection \<open>Cancelling\<close>

text \<open>Cancelling works on an unpaid order of the user only. It succeeds at most once, sets the
  order to \<open>cancelled\<close>, gives the coupon back and moves no stock; in every other status the
  request is refused and nothing changes.\<close>

theorem cancel_unpaid_only:
  assumes "distinct (map o_id (orders s))" and "find_own_order s oid uid = Some raw"
  shows "if o_status raw = PendingPayment
    then \<exists>s'. cancel uid oid s =
        (s', Inr (Some (raw\<lparr>o_status := Cancelled, o_statusText := ''order cancelled''\<rparr>))) \<and>
      products s' = products s \<and>
      (\<forall>u \<in> set (user_coupons s'). truthy (o_couponId raw) = Some (uc_id u) \<longrightarrow>
         uc_status u \<noteq> HLocked \<and> uc_status u \<noteq> HUsed) \<and>
      (\<exists>e. cancel uid oid s' = (s', Inl e))
    else \<exists>m. cancel uid oid s = (s, Inl (BadRequest m))"
proof -
  note raw = find_own_order_row [OF assms]
  let ?f = "\<lambda>o'. o'\<lparr>o_status := Cancelled, o_statusText := ''order cancelled''\<rparr>"
  let ?P = "\<lambda>o'. o_id o' = o_id raw \<and> o_status o' = o_status raw"
  let ?s1 = "s\<lparr>orders := update_where ?P ?f (orders s)\<rparr>"
  let ?s' = "(case truthy (o_couponId raw) of Some k \<Rightarrow> set_holding k [HLocked, HUsed] HReleased | None \<Rightarrow> (\<lambda>s. s)) ?s1"
  have orders': "orders ?s' = update_where ?P ?f (orders s)"
    by (simp split: option.split)
  have find': "find_row o_id oid (orders ?s') = Some (?f raw)"
    unfolding orders' using raw by (simp add: find_row_update_where)
  show ?thesis
  proof (cases "o_status raw = PendingPayment")
    case True
    have won: "claim_order (o_id raw) (o_status raw) ?f (BadRequest ''the order status has changed'') s = (?s1, Inr ())"
      using raw by (auto simp: claim_order_ok)
    have "cancel_commit raw s = (?s', Inr (find_row o_id (o_id raw) (orders ?s')))"
      by (simp add: cancel_commit_def and_then_def won modify_def read_def)
    moreover have "find_row o_id (o_id raw) (orders ?s') = Some (?f raw)"
      using find' raw(2) by simp
    ultimately have "cancel_commit raw s = (?s', Inr (Some (?f raw)))"
      by (simp only:)
    then have run: "cancel uid oid s = (?s', Inr (Some (?f raw)))"
      using True by (simp add: cancel_def transaction_def assms(2) unless_apply)
    have d: "distinct (map o_id (orders ?s'))"
      unfolding orders' using assms(1) map_key_update_where [of o_id ?f ?P "orders s"] by simp
    have again: "find_own_order ?s' oid uid = Some (?f raw)"
      by (rule find_own_order_of_row [OF find' _ d]) (use raw(3) in simp)
    have fails: "cancel uid oid ?s' = (?s', Inl (BadRequest ''the order cannot be cancelled now''))"
      by (simp only: cancel_def transaction_def again option.case) (simp add: unless_apply)
    have prod: "products ?s' = products s" by (simp split: option.split)
    have coup: "\<forall>u \<in> set (user_coupons ?s'). truthy (o_couponId raw) = Some (uc_id u) \<longrightarrow>
         uc_status u \<noteq> HLocked \<and> uc_status u \<noteq> HUsed"
    proof (cases "truthy (o_couponId raw)")
      case (Some k)
      show ?thesis
        unfolding Some option.case by (auto dest: set_holding_done)
    qed simp
    have "\<exists>s'. cancel uid oid s = (s', Inr (Some (?f raw))) \<and> products s' = products s \<and>
      (\<forall>u \<in> set (user_coupons s'). truthy (o_couponId raw) = Some (uc_id u) \<longrightarrow>
         uc_status u \<noteq> HLocked \<and> uc_status u \<noteq> HUsed) \<and>
      (\<exists>e. cancel uid oid s' = (s', Inl e))"
      by (rule exI [of _ ?s']) (intro conjI run prod coup exI [of _ "BadRequest ''the order cannot be cancelled now''"] fails)
    then show ?thesis by (simp only: True refl if_True)
  next
    case False
    then show ?thesis
      by (simp add: cancel_def transaction_def assms(2) unless_apply)
  qed
qed

theorem cancel_unpaid_only_witness:
  "\<exists>m. cancel ''u1'' ''o1'' (db_at Delivered None) = (db_at Delivered None, Inl (BadRequest m))"
proof -
  have "distinct (map o_id (orders (db_at Delivered None)))"
    and "find_own_order (db_at Delivered None) ''o1'' ''u1'' = Some (order1\<lparr>o_status := Delivered\<rparr>)"
    by code_simp+
  from cancel_unpaid_only [OF this] show ?thesis by simp
qed

end
