(* ===== verification/Commission.thy ===== *)
theory Commission
  imports Store
begin

text \<open>
  The money of the staff: \<open>src/commission/commission.service.ts\<close>. Delivering an order records
  one commission per person and order; a refund records one adjustment per person and order,
  which replaces the one before it. The identity columns of the retired rule table
  (\<open>ruleId\<close>, \<open>ruleVersion\<close>) are always null in the rows written here and are left out.
\<close>

definition COMMISSION_PER_ORDER :: cents where
  "COMMISSION_PER_ORDER = 300"

subsection \<open>The price of an order by rule (dimsOfOrder, loadRules, priceFor)\<close>

definition order_weight :: "order_line list \<Rightarrow> rat" where
  "order_weight items = sum_list (map (\<lambda>l. ps_weight (ol_product l) * of_int (ol_quantity l)) items)"

text \<open>\<open>Number(weight.toFixed(3))\<close> of a weight that is not negative.\<close>

definition to_fixed3 :: "rat \<Rightarrow> rat" where
  "to_fixed3 w = of_int (js_round (w * 1000)) / 1000"

definition non_empty :: "string \<Rightarrow> string option" where
  "non_empty t = (if t = [] then None else Some t)"

definition dimsOfOrder :: "order_row \<Rightarrow> commission_dims" where
  "dimsOfOrder o' =
    \<lparr>cd_buildingId = non_empty (a_buildingId (o_address o')),
     cd_buildingName = non_empty (a_buildingName (o_address o')),
     cd_floor = Some (a_floor (o_address o')),
     cd_weight = (if o_items o' = [] then None else Some (to_fixed3 (order_weight (o_items o')))),
     cd_mode = non_empty (o_deliveryMode o')\<rparr>"

text \<open>\<open>orderBy: { version: 'desc' }\<close>.\<close>

definition loadRules :: "commission_rule list \<Rightarrow> millis \<Rightarrow> ident \<Rightarrow> commission_rule list" where
  "loadRules rules now campusId =
    rev (sort_key cr_version (filter (\<lambda>r. cr_campusId r = campusId \<and> cr_active r \<and> cr_effectiveAt r \<le> now) rules))"

text \<open>\<open>priceFor\<close>: the amount, the rule and whether it is the fallback.\<close>

definition priceFor ::
  "commission_rule list \<Rightarrow> millis \<Rightarrow> order_row \<Rightarrow> cents \<times> commission_rule option \<times> bool" where
  "priceFor rules now o' =
    (case bestMatch (loadRules rules now (o_campusId o')) (dimsOfOrder o') of
       Some r \<Rightarrow> (cr_price r, Some r, False)
     | None \<Rightarrow> (COMMISSION_PER_ORDER, None, True))"

subsection \<open>Recording a delivery (recordForDelivered)\<close>

definition delivery_amount :: "db \<Rightarrow> order_row \<Rightarrow> cents" where
  "delivery_amount s o' =
    (case find_row ca_id (o_campusId o') (campuses s) of
       None \<Rightarrow> 0
     | Some c \<Rightarrow> if o_deliveryMode o' = ''scheduled'' then ca_deliveryFeeScheduled c
         else ca_deliveryFeeInstant c)"

definition rate_mode :: "db \<Rightarrow> order_row \<Rightarrow> bool" where
  "rate_mode s o' =
    (case find_row ca_id (o_campusId o') (campuses s) of
       None \<Rightarrow> False | Some c \<Rightarrow> ca_managerCommissionMode c = ''rate'')"

definition manager_amount :: "db \<Rightarrow> order_row \<Rightarrow> cents" where
  "manager_amount s o' =
    (if rate_mode s o'
     then js_round (of_int (max 0 (o_payableAmount o' - o_deliveryFee o') *
         (case find_row ca_id (o_campusId o') (campuses s) of
            None \<Rightarrow> 0 | Some c \<Rightarrow> ca_managerCommissionRate c)) / 10000)
     else delivery_amount s o')"

definition building_manager_of :: "db \<Rightarrow> order_row \<Rightarrow> staff option" where
  "building_manager_of s o' =
    (let bid = non_empty (a_buildingId (o_address o')); bname = non_empty (a_buildingName (o_address o'));
         name = (case bname of Some n \<Rightarrow> n | None \<Rightarrow> [])
     in if bid = None \<and> bname = None then None
        else find (\<lambda>x. s_campusId x = o_campusId o' \<and>
          (if rate_mode s o' then s_role x \<in> set MANAGER_ROLES else s_role x = BuildingManager) \<and>
          s_status x \<noteq> ''deleted'' \<and>
          (case bid of Some k \<Rightarrow> s_buildingId x = Some k \<or> s_building x = name | None \<Rightarrow> s_building x = name))
          (staffs s))"

definition commission_targets :: "db \<Rightarrow> order_row \<Rightarrow> ident list" where
  "commission_targets s o' =
    js_set ((case o_riderId o' of Some r \<Rightarrow> if r = [] then [] else [r] | None \<Rightarrow> []) @
      (case building_manager_of s o' of Some m \<Rightarrow> [s_id m] | None \<Rightarrow> []))"

definition commission_row :: "millis \<Rightarrow> db \<Rightarrow> order_row \<Rightarrow> ident \<Rightarrow> commission" where
  "commission_row now s o' staffId =
    (let isManager = (case building_manager_of s o' of Some m \<Rightarrow> staffId = s_id m | None \<Rightarrow> False)
     in \<lparr>cm_staffId = staffId, cm_orderId = o_id o', cm_campusId = o_campusId o',
         cm_amount = (if isManager then manager_amount s o' else delivery_amount s o'),
         cm_kind = KCommission, cm_status = CPending, cm_fallback = False,
         cm_period = period_of now,
         cm_remark = (if isManager \<and> rate_mode s o' then ''sales commission of a delivered order''
           else ''delivery fee of a delivered order'')\<rparr>)"

text \<open>\<open>upsert\<close> on the unique key (order, person, kind).\<close>

definition same_key :: "commission \<Rightarrow> commission \<Rightarrow> bool" where
  "same_key a b \<longleftrightarrow> cm_orderId a = cm_orderId b \<and> cm_staffId a = cm_staffId b \<and> cm_kind a = cm_kind b"

definition upsert_commission ::
  "commission \<Rightarrow> (commission \<Rightarrow> commission) \<Rightarrow> commission list \<Rightarrow> commission list" where
  "upsert_commission row f rows =
    (if \<exists>x \<in> set rows. same_key x row then update_where (\<lambda>x. same_key x row) f rows else rows @ [row])"

definition recordForDelivered :: "millis \<Rightarrow> order_row \<Rightarrow> db \<Rightarrow> db" where
  "recordForDelivered now o' s =
    s\<lparr>commissions := fold (\<lambda>staffId rows. upsert_commission (commission_row now s o' staffId) (\<lambda>x. x) rows)
      (commission_targets s o') (commissions s)\<rparr>"

subsection \<open>Adjusting after a refund (refundAdjust)\<close>

definition is_commission_of :: "ident \<Rightarrow> commission \<Rightarrow> bool" where
  "is_commission_of orderId c \<longleftrightarrow> cm_orderId c = orderId \<and> cm_kind c = KCommission"

definition is_adjustment_of :: "ident \<Rightarrow> ident \<Rightarrow> commission \<Rightarrow> bool" where
  "is_adjustment_of orderId staffId c \<longleftrightarrow>
     cm_orderId c = orderId \<and> cm_staffId c = staffId \<and> cm_kind c = KAdjustment"

definition original_amount :: "commission list \<Rightarrow> ident \<Rightarrow> cents" where
  "original_amount records staffId = sum_where (\<lambda>c. cm_staffId c = staffId) (\<lambda>c. \<bar>cm_amount c\<bar>) records"

definition adjust_one ::
  "period \<Rightarrow> ident \<Rightarrow> msg \<Rightarrow> rat \<Rightarrow> commission list \<Rightarrow> ident \<Rightarrow> commission list \<Rightarrow> commission list" where
  "adjust_one period orderId reason ratio records staffId rows =
    (let target = - js_round (of_int (original_amount records staffId) * ratio)
     in if target = 0 then delete_where (is_adjustment_of orderId staffId) rows
        else case find (\<lambda>c. cm_staffId c = staffId) records of
            None \<Rightarrow> rows
          | Some sample \<Rightarrow>
              upsert_commission
                \<lparr>cm_staffId = staffId, cm_orderId = orderId, cm_campusId = cm_campusId sample,
                 cm_amount = target, cm_kind = KAdjustment, cm_status = CAdjusted,
                 cm_fallback = cm_fallback sample, cm_period = period, cm_remark = reason\<rparr>
                (\<lambda>x. x\<lparr>cm_amount := target, cm_status := CAdjusted, cm_period := period, cm_remark := reason\<rparr>)
                rows)"

definition refundAdjust :: "millis \<Rightarrow> ident \<Rightarrow> msg \<Rightarrow> rat \<Rightarrow> db \<Rightarrow> db" where
  "refundAdjust now orderId reason ratio s =
    (let records = filter (is_commission_of orderId) (commissions s)
     in if records = [] then s
        else s\<lparr>commissions := fold (adjust_one (period_of now) orderId reason (max 0 (min 1 ratio)) records)
          (js_set (map cm_staffId records)) (commissions s)\<rparr>)"

text \<open>\<open>monthly\<close>: the rows of a person in a month, what they earned and what was taken back.\<close>

definition monthly :: "db \<Rightarrow> ident \<Rightarrow> period \<Rightarrow> commission list \<times> cents \<times> cents" where
  "monthly s staffId period =
    (let records = filter (\<lambda>c. cm_staffId c = staffId \<and> cm_period c = period) (commissions s)
     in (records, sum_where (\<lambda>c. 0 < cm_amount c) cm_amount records,
         sum_where (\<lambda>c. cm_amount c < 0) cm_amount records))"

subsection \<open>The unique key\<close>

definition commission_key :: "commission \<Rightarrow> ident \<times> ident \<times> commission_kind" where
  "commission_key c = (cm_orderId c, cm_staffId c, cm_kind c)"

definition commissions_ok :: "commission list \<Rightarrow> bool" where
  "commissions_ok rows \<longleftrightarrow> distinct (map commission_key rows)"

lemma same_key_iff: "same_key a b \<longleftrightarrow> commission_key a = commission_key b"
  by (auto simp: same_key_def commission_key_def)

lemma upsert_keeps_key:
  assumes "commissions_ok rows" and "\<And>x. commission_key (f x) = commission_key x"
  shows "commissions_ok (upsert_commission row f rows)"
proof (cases "\<exists>x \<in> set rows. same_key x row")
  case True
  have "map commission_key (update_where (\<lambda>x. same_key x row) f rows) = map commission_key rows"
    by (induction rows) (auto simp: assms(2))
  then show ?thesis using True assms(1) by (simp add: upsert_commission_def commissions_ok_def)
next
  case False
  then show ?thesis
    using assms(1) by (auto simp: upsert_commission_def commissions_ok_def same_key_iff)
qed

lemma update_where_same: "update_where P (\<lambda>x. x) rows = rows"
  by (induction rows) auto

lemma upsert_present:
  "\<exists>x \<in> set rows. same_key x row \<Longrightarrow> upsert_commission row (\<lambda>x. x) rows = rows"
  by (simp add: upsert_commission_def update_where_same)

lemma upsert_id_grows: "\<exists>more. upsert_commission row (\<lambda>x. x) rows = rows @ more"
  by (simp add: upsert_commission_def update_where_same)

lemma upsert_makes_present: "\<exists>x \<in> set (upsert_commission row (\<lambda>x. x) rows). same_key x row"
  by (auto simp: upsert_commission_def update_where_same same_key_iff)

lemma fold_upsert_present:
  assumes "\<forall>k \<in> set ks. \<exists>x \<in> set rows. same_key x (g k)"
  shows "fold (\<lambda>k rows. upsert_commission (g k) (\<lambda>x. x) rows) ks rows = rows"
  using assms by (induction ks) (auto simp: upsert_present)

lemma fold_upsert_grows: "\<exists>more. fold (\<lambda>k rows. upsert_commission (g k) (\<lambda>x. x) rows) ks rows = rows @ more"
proof (induction ks arbitrary: rows)
  case (Cons k ks)
  obtain m1 where m1: "upsert_commission (g k) (\<lambda>x. x) rows = rows @ m1" using upsert_id_grows by blast
  obtain m2 where "fold (\<lambda>k rows. upsert_commission (g k) (\<lambda>x. x) rows) ks (rows @ m1) = (rows @ m1) @ m2"
    using Cons by blast
  then show ?case by (simp add: m1)
qed simp

lemma fold_upsert_makes_present:
  "k \<in> set ks \<Longrightarrow> \<exists>x \<in> set (fold (\<lambda>k rows. upsert_commission (g k) (\<lambda>x. x) rows) ks rows). same_key x (g k)"
proof (induction ks arbitrary: rows)
  case (Cons k' ks)
  show ?case
  proof (cases "k \<in> set ks")
    case True
    then show ?thesis using Cons.IH by simp
  next
    case False
    then have "k = k'" using Cons.prems by simp
    obtain more where "fold (\<lambda>k rows. upsert_commission (g k) (\<lambda>x. x) rows) ks (upsert_commission (g k') (\<lambda>x. x) rows)
        = upsert_commission (g k') (\<lambda>x. x) rows @ more"
      using fold_upsert_grows by blast
    then show ?thesis
      using upsert_makes_present [of "g k'" rows] \<open>k = k'\<close> by auto
  qed
qed simp

lemma same_key_row: "same_key x (commission_row t s o' k) = same_key x (commission_row t' s' o' k)"
  by (simp add: same_key_def commission_row_def Let_def)

lemma targets_frame [simp]: "commission_targets (s\<lparr>commissions := cs\<rparr>) o' = commission_targets s o'"
  by (simp add: commission_targets_def building_manager_of_def rate_mode_def Let_def)

lemma recordForDelivered_present:
  assumes "k \<in> set (commission_targets s q)"
  shows "\<exists>c \<in> set (commissions (recordForDelivered now q s)). is_commission_of (o_id q) c \<and> cm_staffId c = k"
  using fold_upsert_makes_present [OF assms, of "commission_row now s q" "commissions s"]
  by (auto simp: recordForDelivered_def same_key_def commission_row_def is_commission_of_def Let_def)

end
