(* ===== verification/Fulfillment.thy ===== *)
theory Fulfillment
  imports Orders Commission Capability
begin

text \<open>
  The riders' and building managers' side: \<open>src/fulfillment/fulfillment.service.ts\<close>. A task
  is a view of an order for one viewer (\<open>toTask\<close>, with the offered actions); a task action
  (\<open>updateTask\<close>) is a transaction that checks who acts, in which status and with which
  evidence, and writes the order under the lock of the status that was read. After the
  transaction the handler looks the task up again, so it may answer "not found" for a change
  that has been committed. Pushes to the users and the managers are left out, and so are the
  campus warehouse's name and the buildings' gender badge of the task card.
\<close>

subsection \<open>Who is asking\<close>

fun role_text :: "staff_role \<Rightarrow> string" where
  "role_text FulltimeRider = ''fulltime-rider''"
| "role_text ParttimeRider = ''parttime-rider''"
| "role_text BuildingManager = ''building-manager''"
| "role_text InternBuildingManager = ''intern-building-manager''"
| "role_text (OtherRole t) = t"

definition is_manager :: "staff \<Rightarrow> bool" where
  "is_manager st \<longleftrightarrow> s_role st \<in> set MANAGER_ROLES"

definition profile :: "ident \<Rightarrow> (db, staff) handler" where
  "profile staffId s =
    (case find_row s_id staffId (staffs s) of
       None \<Rightarrow> reject (NotFound ''no such staff member'') s
     | Some st \<Rightarrow> reply st s)"

definition updateStatus :: "ident \<Rightarrow> string \<Rightarrow> (db, staff) handler" where
  "updateStatus staffId status =
    and_then (claim_or staffs staffs_update (\<lambda>x. s_id x = staffId) (\<lambda>x. x\<lparr>s_status := status\<rparr>)
      (InternalError ''record to update not found''))
    (\<lambda>_. profile staffId)"

definition updateProfile :: "ident \<Rightarrow> string option \<Rightarrow> (db, staff) handler" where
  "updateProfile staffId phone =
    and_then (case phone of
        None \<Rightarrow> reply ()
      | Some p \<Rightarrow> claim_or staffs staffs_update (\<lambda>x. s_id x = staffId) (\<lambda>x. x\<lparr>s_phone := p\<rparr>)
          (InternalError ''record to update not found''))
    (\<lambda>_. profile staffId)"

text \<open>\<open>isOwnBuilding\<close>. A snapshot without a building id has the empty id here; the name
  decides then.\<close>

definition isOwnBuilding :: "staff \<Rightarrow> address \<Rightarrow> bool" where
  "isOwnBuilding st a \<longleftrightarrow>
    (if a_buildingId a \<noteq> []
     then a_buildingId a = (case s_buildingId st of Some k \<Rightarrow> k | None \<Rightarrow> ''null'')
     else a_buildingName a = s_building st)"

definition attributedOrders :: "staff \<Rightarrow> order_row list \<Rightarrow> order_row list" where
  "attributedOrders st os = (if is_manager st then filter (\<lambda>o'. isOwnBuilding st (o_address o')) os else os)"

subsection \<open>The task card (toTask, actions)\<close>

datatype task_action =
    Grab | Accept | Depart | Arrive | Handover | Deliver | Receive | Absent | Refuse | Transfer
  | OtherAction string

definition handed_over :: "order_row \<Rightarrow> bool" where
  "handed_over o' \<longleftrightarrow> pk_handoverProof (package_of o') \<noteq> None"

definition customer_pickup :: "order_row \<Rightarrow> bool" where
  "customer_pickup o' \<longleftrightarrow> pk_lastMileMode (package_of o') = Some ''customer-pickup''"

definition has_rider :: "order_row \<Rightarrow> bool" where
  "has_rider o' \<longleftrightarrow> truthy (o_riderId o') \<noteq> None"

text \<open>\<open>actions\<close>: what the card offers. The viewer's id is never empty.\<close>

definition actions :: "staff_role \<Rightarrow> order_row \<Rightarrow> ident \<Rightarrow> task_action list" where
  "actions role o' viewer =
    (let mine = (o_riderId o' = Some viewer); st = o_status o' in
     if role \<in> set MANAGER_ROLES
     then (if st = WaitingHandover then [Receive] else if st = LastMile then [Deliver, Absent] else [])
     else if st = WaitingFirstMile
     then (if \<not> has_rider o' then [Accept] else if \<not> mine then [] else [Arrive, Transfer])
     else if st = Arrived then (if mine then [Depart] else [])
     else if st = FirstMile
     then (if \<not> mine then [] else if customer_pickup o' then [Deliver, Transfer] else [Arrive, Transfer])
     else if st = WaitingHandover
     then (if \<not> mine then [] else if handed_over o' then [] else [Handover, Transfer])
     else if st = LastMile then (if mine then [Handover] else [])
     else [])"

datatype task_bucket = TaskCompleted | TaskException | TaskDelivering | TaskWaiting | TaskIncoming | TaskAvailable

definition task_status :: "staff_role \<Rightarrow> order_row \<Rightarrow> task_bucket \<times> msg" where
  "task_status role o' =
    (let st = o_status o' in
     if st \<in> {Completed, Delivered}
     then (TaskCompleted, if st = Delivered
       then (if customer_pickup o' then ''downstairs, waiting for the user'' else ''delivered, waiting for the receipt'')
       else ''completed'')
     else if st \<in> {Exception, AfterSales} then (TaskException, ''exception is being handled'')
     else if role \<in> set MANAGER_ROLES
     then (if st = LastMile then (TaskDelivering, ''to be delivered to the room'')
       else if st = WaitingHandover then (TaskWaiting, ''to be received'')
       else (TaskIncoming, ''on its way to the building''))
     else if st = LastMile then (TaskWaiting, ''to be handed over'')
     else if st = WaitingHandover
     then (TaskWaiting, if handed_over o' then ''handed over, waiting for the manager'' else ''to be handed over'')
     else if st = FirstMile then (TaskDelivering, ''in delivery'')
     else if st = Arrived then (TaskDelivering, ''at the store, about to depart'')
     else if has_rider o' then (TaskDelivering, ''accepted, about to depart'')
     else (TaskAvailable, ''to be accepted''))"

record task =
  tk_id :: string
  tk_orderId :: ident
  tk_orderNo :: string
  tk_packageNo :: string
  tk_status :: task_bucket
  tk_statusText :: msg
  tk_building :: string
  tk_floor :: int
  tk_room :: string
  tk_recipientName :: string
  tk_recipientPhone :: string
  tk_itemCount :: int
  tk_weight :: rat
  tk_mode :: string
  tk_lastMileMode :: string
  tk_orderedAt :: millis
  tk_rider :: "(string \<times> string) option"
  tk_commission :: cents
  tk_items :: "(string \<times> int) list"
  tk_timeline :: "timeline_step list"
  tk_availableActions :: "task_action list"

definition task_id :: "staff_role \<Rightarrow> ident \<Rightarrow> string" where
  "task_id role orderId = ''task-'' @ role_text role @ ''-'' @ orderId"

definition to_fixed2 :: "rat \<Rightarrow> rat" where
  "to_fixed2 w = of_int (js_round (w * 100)) / 100"

text \<open>\<open>orderedAt\<close> is the instant whose minutes the card prints.\<close>

definition toTask ::
  "order_row \<Rightarrow> staff_role \<Rightarrow> ident \<Rightarrow> (ident \<rightharpoonup> cents) \<Rightarrow> cents \<times> cents \<Rightarrow> (ident \<rightharpoonup> string \<times> string) \<Rightarrow> task"
where
  "toTask o' role viewer commissionByOrder fees riderById =
    \<lparr>tk_id = task_id role (o_id o'), tk_orderId = o_id o', tk_orderNo = o_orderNo o',
     tk_packageNo = (case pk_id (package_of o') of Some k \<Rightarrow> k
       | None \<Rightarrow> ''PKG-'' @ drop (length (o_orderNo o') - 8) (o_orderNo o')),
     tk_status = fst (task_status role o'), tk_statusText = snd (task_status role o'),
     tk_building = a_buildingName (o_address o'), tk_floor = a_floor (o_address o'),
     tk_room = a_room (o_address o'), tk_recipientName = a_contactName (o_address o'),
     tk_recipientPhone = a_phone (o_address o'), tk_itemCount = o_totalQuantity o',
     tk_weight = to_fixed2 (order_weight (o_items o')), tk_mode = o_deliveryMode o',
     tk_lastMileMode = (if customer_pickup o' then ''customer-pickup'' else ''building-manager''),
     tk_orderedAt = (case o_paidAt o' of Some t \<Rightarrow> t | None \<Rightarrow> o_createdAt o') + 8 * 3600000,
     tk_rider = (case truthy (o_riderId o') of Some k \<Rightarrow> riderById k | None \<Rightarrow> None),
     tk_commission = (case commissionByOrder (o_id o') of Some c \<Rightarrow> c
       | None \<Rightarrow> if o_deliveryMode o' = ''scheduled'' then snd fees else fst fees),
     tk_items = map (\<lambda>l. (ps_name (ol_product l), ol_quantity l)) (o_items o'),
     tk_timeline = o_timeline o',
     tk_availableActions = actions role o' viewer\<rparr>"

subsection \<open>Task lists (tasks, task, availableTasks)\<close>

definition campus_fees :: "db \<Rightarrow> ident \<Rightarrow> cents \<times> cents" where
  "campus_fees s campusId =
    (case find_row ca_id campusId (campuses s) of
       Some c \<Rightarrow> (ca_deliveryFeeInstant c, ca_deliveryFeeScheduled c) | None \<Rightarrow> (0, 0))"

text \<open>\<open>new Map(records.map(r => [r.orderId, r.amount]))\<close>: the last record of an order wins, of
  whatever kind it is.\<close>

definition commission_map :: "db \<Rightarrow> ident \<Rightarrow> ident \<rightharpoonup> cents" where
  "commission_map s staffId =
    map_of (rev (map (\<lambda>c. (cm_orderId c, cm_amount c)) (filter (\<lambda>c. cm_staffId c = staffId) (commissions s))))"

definition rider_map :: "db \<Rightarrow> ident \<rightharpoonup> string \<times> string" where
  "rider_map s k = map_option (\<lambda>x. (s_name x, s_phone x)) (find_row s_id k (staffs s))"

text \<open>The orders a staff member's list is made of, newest first.\<close>

definition task_orders :: "db \<Rightarrow> staff \<Rightarrow> ident option \<Rightarrow> order_row list" where
  "task_orders s st buildingId =
    filter (\<lambda>o'. case truthy buildingId of None \<Rightarrow> True | Some b \<Rightarrow> a_buildingId (o_address o') = b)
      (filter (\<lambda>o'. \<not> is_manager st \<or> \<not> customer_pickup o')
        (attributedOrders st
          (rev (sort_key o_createdAt
            (filter (\<lambda>o'. o_campusId o' = s_campusId st \<and>
               o_status o' \<notin> {PendingPayment, Cancelled, Refunded} \<and>
               (is_manager st \<or> o_riderId o' = None \<or> o_riderId o' = Some (s_id st)))
              (orders s))))))"

definition tasks :: "ident \<Rightarrow> task_bucket option \<Rightarrow> ident option \<Rightarrow> (db, task list) handler" where
  "tasks staffId bucket buildingId =
    and_then (profile staffId)
    (\<lambda>st. read (\<lambda>s.
      if campusStaffDelivery s (Some (s_campusId st)) then []
      else filter (\<lambda>t. bucket = None \<or> Some (tk_status t) = bucket)
        (map (\<lambda>o'. toTask o' (s_role st) (s_id st) (commission_map s staffId)
            (campus_fees s (s_campusId st)) (rider_map s))
          (task_orders s st buildingId))))"

definition task_of :: "ident \<Rightarrow> string \<Rightarrow> (db, task) handler" where
  "task_of staffId taskId =
    and_then (tasks staffId None None)
    (\<lambda>ts. case find (\<lambda>t. tk_id t = taskId) ts of
       None \<Rightarrow> reject (NotFound ''no such task'') | Some t \<Rightarrow> reply t)"

definition availableTasks :: "ident \<Rightarrow> ident option \<Rightarrow> (db, task list) handler" where
  "availableTasks staffId buildingId =
    and_then (profile staffId)
    (\<lambda>st. read (\<lambda>s.
      if campusStaffDelivery s (Some (s_campusId st)) then []
      else map (\<lambda>o'. toTask o' (s_role st) (s_id st) (\<lambda>_. None) (campus_fees s (s_campusId st)) (\<lambda>_. None))
        (sort_key o_createdAt
          (filter (\<lambda>o'. o_campusId o' = s_campusId st \<and> o_status o' = WaitingFirstMile \<and> o_riderId o' = None \<and>
             (case truthy buildingId of None \<Rightarrow> True | Some b \<Rightarrow> a_buildingId (o_address o') = b))
            (orders s)))))"

end
