(* ===== verification/Task_Actions.thy ===== *)
theory Task_Actions
  imports Fulfillment
begin

text \<open>
  The writes of \<open>src/fulfillment/fulfillment.service.ts\<close>: the task actions, the arrival by
  scanning the receipt, the message quota, leave requests and dispatch invitations.
\<close>

subsection \<open>The action table\<close>

record task_payload =
  tp_images :: "string list"
  tp_location :: "string option"
  tp_latitude :: "rat option"
  tp_longitude :: "rat option"
  tp_reason :: "string option"

definition no_payload :: task_payload where
  "no_payload = \<lparr>tp_images = [], tp_location = None, tp_latitude = None, tp_longitude = None, tp_reason = None\<rparr>"

text \<open>\<open>maps[action]\<close> for the building managers and for the riders: the status entered, its
  text and the statuses it may be entered from.\<close>

fun manager_rule :: "task_action \<Rightarrow> (order_status \<times> msg \<times> order_status list) option" where
  "manager_rule Receive = Some (LastMile, ''received by the manager'', [WaitingHandover, FirstMile, LastMile])"
| "manager_rule Deliver = Some (Delivered, ''delivered to the room'', [LastMile])"
| "manager_rule Absent = Some (Exception, ''user absent, kept by the manager'', [LastMile])"
| "manager_rule Refuse = Some (Exception, ''user refused, back to the warehouse'', [LastMile])"
| "manager_rule _ = None"

fun rider_rule :: "bool \<Rightarrow> order_status \<Rightarrow> task_action \<Rightarrow> (order_status \<times> msg \<times> order_status list) option" where
  "rider_rule pickup st Accept = Some (st, ''accepted by a rider'', [WaitingFirstMile])"
| "rider_rule pickup st Depart = Some (FirstMile, ''in delivery, the rider has left'', [WaitingFirstMile, Arrived])"
| "rider_rule pickup st Arrive =
    (if st = WaitingFirstMile then Some (Arrived, status_text Arrived, [WaitingFirstMile])
     else Some (WaitingHandover, ''downstairs, waiting for the manager'', [FirstMile]))"
| "rider_rule pickup st Handover = Some (st, ''handed over to the manager'', [WaitingHandover, LastMile])"
| "rider_rule pickup st Deliver =
    (if pickup then Some (Delivered, ''downstairs, waiting for the user'', [FirstMile]) else None)"
| "rider_rule pickup st _ = None"

definition task_rule :: "staff \<Rightarrow> order_row \<Rightarrow> task_action \<Rightarrow> (order_status \<times> msg \<times> order_status list) option" where
  "task_rule st o' a =
    (if is_manager st then manager_rule a else rider_rule (customer_pickup o') (o_status o') a)"

subsection \<open>Transfer\<close>

definition released_timeline :: "millis \<Rightarrow> timeline_step list \<Rightarrow> timeline_step list" where
  "released_timeline now steps =
    map (\<lambda>x. if ts_key x \<in> {KFirstMile, KWaitingHandover, KReadyToDeliver, KLastMile}
        then x\<lparr>ts_done := False, ts_time := None\<rparr> else x) steps @
    [\<lparr>ts_key = KTransferred, ts_title = ''rider changed'',
      ts_description = ''another rider will continue the delivery'', ts_done = True, ts_time = Some now\<rparr>]"

definition transfer_commit :: "millis \<Rightarrow> ident \<Rightarrow> order_row \<Rightarrow> (db, unit) handler" where
  "transfer_commit now staffId raw =
    and_then
      (claim_or orders orders_update
        (\<lambda>o'. o_id o' = o_id raw \<and> o_status o' = o_status raw \<and> o_riderId o' = Some staffId)
        (\<lambda>o'. o'\<lparr>o_status := WaitingFirstMile, o_riderId := None,
           o_statusText := status_text WaitingFirstMile,
           o_timeline := released_timeline now (o_timeline raw)\<rparr>)
        (BadRequest ''the order status has changed''))
    (\<lambda>_. modify (\<lambda>s. s\<lparr>transfer_logs := transfer_logs s @
        [\<lparr>tl_orderId = o_id raw, tl_staffId = staffId, tl_fromStatus = o_statusText raw\<rparr>]\<rparr>))"

definition transfer :: "millis \<Rightarrow> staff \<Rightarrow> order_row \<Rightarrow> (db, unit) handler" where
  "transfer now st raw =
    unless (\<not> is_manager st) (BadRequest ''a manager cannot transfer a task'')
    (unless (o_riderId raw = Some (s_id st)) (BadRequest ''only your own task can be transferred'')
    (unless (o_status raw \<in> {WaitingFirstMile, FirstMile, WaitingHandover})
       (BadRequest (''cannot transfer in status '' @ o_statusText raw))
    (transfer_commit now (s_id st) raw)))"

subsection \<open>The other actions\<close>

definition accept_commit :: "ident \<Rightarrow> order_row \<Rightarrow> (db, unit) handler" where
  "accept_commit staffId raw =
    claim_or orders orders_update
      (\<lambda>o'. o_id o' = o_id raw \<and> o_riderId o' = None \<and> o_status o' = WaitingFirstMile)
      (\<lambda>o'. o'\<lparr>o_riderId := Some staffId, o_statusText := ''accepted by a rider''\<rparr>)
      (BadRequest ''another rider has accepted the task'')"

definition task_package :: "millis \<Rightarrow> task_action \<Rightarrow> task_payload \<Rightarrow> order_row \<Rightarrow> package option" where
  "task_package now a payload raw =
    (if a = Deliver
     then Some ((package_of raw)\<lparr>pk_status := Some ''delivered'',
       pk_proof := Some \<lparr>pf_images = tp_images payload,
         pf_location = (case tp_location payload of Some l \<Rightarrow> l | None \<Rightarrow> []),
         pf_latitude = tp_latitude payload, pf_longitude = tp_longitude payload,
         pf_remark = (case tp_reason payload of Some r \<Rightarrow> r | None \<Rightarrow> []), pf_time = now\<rparr>\<rparr>)
     else if a = Handover
     then Some ((package_of raw)\<lparr>pk_handoverProof :=
       Some \<lparr>hn_images = tp_images payload, hn_time = now\<rparr>\<rparr>)
     else o_package raw)"

text \<open>Where the action writes no package, the column keeps what the row has.\<close>

definition step_row ::
  "millis \<Rightarrow> task_action \<Rightarrow> task_payload \<Rightarrow> order_row \<Rightarrow> order_status \<Rightarrow> msg \<Rightarrow> order_row \<Rightarrow> order_row" where
  "step_row now a payload raw status statusText o' =
    o'\<lparr>o_status := status, o_statusText := statusText,
       o_timeline := markTimelineStep now (o_timeline raw) status,
       o_package := (if a \<in> {Deliver, Handover} then task_package now a payload raw else o_package o')\<rparr>"

definition step_commit ::
  "millis \<Rightarrow> staff \<Rightarrow> task_action \<Rightarrow> task_payload \<Rightarrow> order_row \<Rightarrow> order_status \<Rightarrow> msg \<Rightarrow> (db, unit) handler" where
  "step_commit now st a payload raw status statusText =
    and_then
      (claim_or orders orders_update
        (\<lambda>o'. o_id o' = o_id raw \<and> o_status o' = o_status raw \<and> (is_manager st \<or> o_riderId o' = Some (s_id st)))
        (step_row now a payload raw status statusText)
        (BadRequest ''the task status has changed''))
    (\<lambda>_. if a = Deliver then modify (recordForDelivered now (raw\<lparr>o_status := status\<rparr>)) else reply ())"

definition run_action :: "millis \<Rightarrow> staff \<Rightarrow> task_action \<Rightarrow> task_payload \<Rightarrow> order_row \<Rightarrow> (db, unit) handler" where
  "run_action now st a payload raw =
    (let refused = BadRequest (if o_status raw \<in> {Paid, Picking} then ''the order has not left the warehouse''
           else ''cannot do this in status '' @ o_statusText raw)
     in case task_rule st raw a of
          None \<Rightarrow> reject refused
        | Some (status, statusText, from) \<Rightarrow>
            unless (o_status raw \<in> set from) refused
            (unless (is_manager st \<or> \<not> has_rider raw \<or> o_riderId raw = Some (s_id st))
               (BadRequest ''another rider has accepted the task'')
            (unless (a \<noteq> Handover \<or> tp_images payload \<noteq> []) (BadRequest ''a photo of the handover is required'')
            (unless (a \<noteq> Deliver \<or> tp_images payload \<noteq> [] \<or> truthy (tp_reason payload) \<noteq> None)
               (BadRequest ''a proof or a remark is required'')
            (unless (a \<noteq> Deliver \<or> \<not> customer_pickup raw \<or> tp_images payload \<noteq> [])
               (BadRequest ''a photo is required for a pick-up downstairs'')
            (if a = Accept then accept_commit (s_id st) raw
             else step_commit now st a payload raw status statusText))))))"

definition find_campus_order :: "db \<Rightarrow> ident \<Rightarrow> ident \<Rightarrow> order_row option" where
  "find_campus_order s orderId campusId = find (\<lambda>o'. o_id o' = orderId \<and> o_campusId o' = campusId) (orders s)"

text \<open>The transaction of \<open>updateTask\<close>.\<close>

definition task_transaction ::
  "millis \<Rightarrow> staff \<Rightarrow> ident \<Rightarrow> task_action \<Rightarrow> task_payload \<Rightarrow> (db, unit) handler" where
  "task_transaction now st orderId a payload =
    transaction (\<lambda>s.
      case find_campus_order s orderId (s_campusId st) of
        None \<Rightarrow> reject (NotFound ''no such task'') s
      | Some raw \<Rightarrow>
          unless (\<not> is_manager st \<or> isOwnBuilding st (o_address raw))
            (Forbidden ''not an order of your building'')
            (if a = Transfer then transfer now st raw else run_action now st a payload raw) s)"

definition strip_prefix :: "string \<Rightarrow> string \<Rightarrow> string option" where
  "strip_prefix p t = (if take (length p) t = p then Some (drop (length p) t) else None)"

definition updateTask ::
  "millis \<Rightarrow> ident \<Rightarrow> string \<Rightarrow> task_action \<Rightarrow> task_payload \<Rightarrow> (db, task) handler" where
  "updateTask now staffId taskId rawAction payload =
    and_then (profile staffId)
    (\<lambda>st. and_then (read (\<lambda>s. campusStaffDelivery s (Some (s_campusId st))))
    (\<lambda>staffDelivery. unless (\<not> staffDelivery) (BadRequest ''the campus delivers by its own staff'')
    (case strip_prefix (task_id (s_role st) []) taskId of
       None \<Rightarrow> reject (NotFound ''no such task'')
     | Some orderId \<Rightarrow>
         and_then (task_transaction now st orderId (if rawAction = Grab then Accept else rawAction) payload)
         (\<lambda>_. task_of staffId taskId))))"

subsection \<open>Arrival by scanning the receipt (scanArrive)\<close>

text \<open>\<open>/[?&]no=([^&]+)/\<close>: the first place where the pattern matches.\<close>

fun no_param :: "string \<Rightarrow> string option" where
  "no_param (c # t) =
    (if c \<in> {CHR ''?'', CHR ''&''} \<and> take 3 t = ''no='' \<and> takeWhile (\<lambda>x. x \<noteq> CHR ''&'') (drop 3 t) \<noteq> []
     then Some (takeWhile (\<lambda>x. x \<noteq> CHR ''&'') (drop 3 t))
     else no_param t)"
| "no_param [] = None"

text \<open>\<open>decodeURIComponent\<close> is the argument \<open>decode\<close>.\<close>

definition parseScanOrderNo :: "(string \<Rightarrow> string) \<Rightarrow> string \<Rightarrow> string" where
  "parseScanOrderNo decode raw =
    (let t = trim raw in
     if t = [] \<or> CHR ''/'' \<notin> set t then t
     else case no_param t of Some k \<Rightarrow> decode k | None \<Rightarrow> t)"

definition scanArrive :: "(string \<Rightarrow> string) \<Rightarrow> millis \<Rightarrow> ident \<Rightarrow> string \<Rightarrow> (db, ident \<times> string) handler" where
  "scanArrive decode now staffId rawOrderNo =
    (let orderNo = parseScanOrderNo decode rawOrderNo in
     unless (orderNo \<noteq> []) (BadRequest ''the scan is empty'')
     (and_then (profile staffId)
     (\<lambda>st. and_then (read (\<lambda>s. campusStaffDelivery s (Some (s_campusId st))))
     (\<lambda>staffDelivery. unless (\<not> staffDelivery) (BadRequest ''the campus delivers by its own staff'')
     (and_then (read (\<lambda>s. find (\<lambda>o'. o_orderNo o' = orderNo \<and> o_campusId o' = s_campusId st) (orders s)))
     (\<lambda>found. case found of
        None \<Rightarrow> reject (NotFound ''no such order'')
      | Some raw \<Rightarrow>
          unless (o_riderId raw = Some staffId) (BadRequest ''accept the order before scanning'')
          (and_then
            (claim_or orders orders_update
              (\<lambda>o'. o_id o' = o_id raw \<and> o_status o' = WaitingFirstMile \<and> o_riderId o' = Some staffId)
              (\<lambda>o'. o'\<lparr>o_status := Arrived, o_statusText := status_text Arrived,
                 o_timeline := markTimelineStep now (o_timeline raw) Arrived\<rparr>)
              (Conflict (''cannot confirm the arrival in status '' @ o_statusText raw)))
          (\<lambda>_. reply (o_id raw, o_orderNo raw)))))))))"

subsection \<open>Message quota, leave, dispatch, income\<close>

record quota_view =
  qv_quota :: int
  qv_lowWater :: bool
  qv_failedToday :: bool
  qv_gzhBound :: bool

text \<open>\<open>Math.floor(Number(count) || 0)\<close> clamped to 0..10. The midnight is Beijing's, written
  as the code writes it: the day start of the shifted clock.\<close>

definition grantNotifyQuota :: "millis \<Rightarrow> ident \<Rightarrow> rat \<Rightarrow> (db, quota_view) handler" where
  "grantNotifyQuota now staffId count =
    (let safe = min 10 (max 0 \<lfloor>count\<rfloor>);
         cnMidnight = ((now + 8 * 3600000) div DAY_MS) * DAY_MS
     in and_then
       (if 0 < safe
        then claim_or staffs staffs_update (\<lambda>x. s_id x = staffId)
          (\<lambda>x. x\<lparr>s_notifyQuota := s_notifyQuota x + safe\<rparr>) (InternalError ''record to update not found'')
        else reply ())
     (\<lambda>_ s. case find_row s_id staffId (staffs s) of
        None \<Rightarrow> reject (InternalError ''no staff found'') s
      | Some x \<Rightarrow> reply \<lparr>qv_quota = s_notifyQuota x, qv_lowWater = s_notifyQuota x < 5,
          qv_failedToday = (case s_notifyQuotaFailedAt x of None \<Rightarrow> False | Some t \<Rightarrow> cnMidnight \<le> t),
          qv_gzhBound = (truthy (s_gzhOpenid x) \<noteq> None)\<rparr> s))"

record leave_body =
  lb_startAt :: millis
  lb_endAt :: millis
  lb_reason :: string
  lb_dispatchMode :: "string option"
  lb_substituteStaffId :: "ident option"

definition leave_mode :: "leave_body \<Rightarrow> string" where
  "leave_mode b = (case lb_dispatchMode b of Some m \<Rightarrow> m | None \<Rightarrow> ''platform'')"

text \<open>The substitute of a leave in mode \<open>self\<close>: a building manager of the same campus, not
  the applicant.\<close>

definition leave_substitute :: "db \<Rightarrow> ident \<Rightarrow> leave_body \<Rightarrow> api_error + (ident \<times> string) option" where
  "leave_substitute s staffId b =
    (if leave_mode b \<noteq> ''self'' then Inr None
     else case truthy (lb_substituteStaffId b) of
         None \<Rightarrow> Inl (BadRequest ''choose a substitute'')
       | Some k \<Rightarrow>
           (case find_row s_id k (staffs s) of
              None \<Rightarrow> Inl (BadRequest ''the substitute is not a building manager'')
            | Some c \<Rightarrow>
                if s_role c \<noteq> BuildingManager then Inl (BadRequest ''the substitute is not a building manager'')
                else if map_option s_campusId (find_row s_id staffId (staffs s)) \<noteq> Some (s_campusId c)
                then Inl (BadRequest ''the substitute must be of the same campus'')
                else if s_id c = staffId then Inl (BadRequest ''you cannot substitute yourself'')
                else Inr (Some (s_id c, s_name c))))"

definition createLeave :: "millis \<Rightarrow> ident \<Rightarrow> ident \<Rightarrow> leave_body \<Rightarrow> (db, leave_request) handler" where
  "createLeave now newId staffId b s =
    (if lb_startAt b \<le> now + 7200000 then reject (BadRequest ''a leave needs two hours notice'') s
     else case leave_substitute s staffId b of
         Inl e \<Rightarrow> reject e s
       | Inr sub \<Rightarrow>
           let row = \<lparr>lr_id = newId, lr_staffId = staffId, lr_startAt = lb_startAt b, lr_endAt = lb_endAt b,
                 lr_reason = lb_reason b, lr_dispatchMode = leave_mode b,
                 lr_substituteStaffId = map_option fst sub, lr_substituteName = map_option snd sub,
                 lr_status = ''pending''\<rparr>
           in (s\<lparr>leaves := leaves s @ [row]\<rparr>, Inr row))"

definition cancelLeave :: "ident \<Rightarrow> ident \<Rightarrow> (db, leave_request) handler" where
  "cancelLeave staffId k s =
    (case find (\<lambda>x. lr_id x = k \<and> lr_staffId x = staffId) (leaves s) of
       None \<Rightarrow> reject (NotFound ''no such leave request'') s
     | Some x \<Rightarrow>
         unless (lr_status x = ''pending'') (BadRequest ''only a pending leave can be withdrawn'')
         (and_then (modify (\<lambda>s. s\<lparr>leaves := update_where (\<lambda>y. lr_id y = k) (\<lambda>y. y\<lparr>lr_status := ''cancelled''\<rparr>) (leaves s)\<rparr>))
         (\<lambda>_. reply (x\<lparr>lr_status := ''cancelled''\<rparr>))) s)"

definition respondDispatch :: "ident \<Rightarrow> ident \<Rightarrow> bool \<Rightarrow> (db, invitation) handler" where
  "respondDispatch staffId k accepted s =
    (let answer = (if accepted then ''accepted'' else ''rejected'') in
     case find (\<lambda>x. iv_id x = k \<and> iv_staffId x = staffId) (invitations s) of
       None \<Rightarrow> reject (NotFound ''no such invitation'') s
     | Some x \<Rightarrow>
         unless (iv_status x = ''invited'') (BadRequest ''the invitation has been answered'')
         (and_then (modify (\<lambda>s. s\<lparr>invitations :=
              update_where (\<lambda>y. iv_id y = k) (\<lambda>y. y\<lparr>iv_status := answer\<rparr>) (invitations s)\<rparr>))
         (\<lambda>_. reply (x\<lparr>iv_status := answer\<rparr>))) s)"

record income_view =
  in_baseSalary :: cents
  in_deliveryIncome :: cents
  in_adjustment :: cents
  in_payable :: cents
  in_records :: "commission list"

definition income :: "ident \<Rightarrow> period \<Rightarrow> (db, income_view) handler" where
  "income staffId month =
    and_then (profile staffId)
    (\<lambda>st. read (\<lambda>s. case monthly s staffId month of (records, earned, adjustment) \<Rightarrow>
      let base = (if s_role st = BuildingManager
            then (case find_row ca_id (s_campusId st) (campuses s) of
              Some c \<Rightarrow> ca_buildingManagerBaseSalary c | None \<Rightarrow> 0) else 0)
      in \<lparr>in_baseSalary = base, in_deliveryIncome = earned, in_adjustment = adjustment,
          in_payable = base + earned + adjustment, in_records = records\<rparr>))"

lemma reads_profile [simp, intro]: "reads (profile k)"
  by (rule readsI) (simp add: profile_def reject_def reply_def split: option.split)

lemma reads_task_of [simp, intro]: "reads (task_of k tid)"
  unfolding task_of_def tasks_def
  by (intro reads_and_then reads_profile reads_read) (auto split: option.split)

end
