(* ===== verification/Task_Theorems.thy ===== *)
theory Task_Theorems
  imports Task_Actions Samples
begin

text \<open>
  Who may move an order, along which edges, and what the task list offers.
\<close>

subsection \<open>Shape of a task action\<close>

lemma claim_orders_ok:
  "claim_or orders orders_update P f e s = (s', Inr r) \<longleftrightarrow>
    s' = s\<lparr>orders := update_where P f (orders s)\<rparr> \<and> (\<exists>x \<in> set (orders s). P x)"
  unfolding claim_or_ok by (subst table_updates(1)) (rule refl)

lemma find_campus_orderD:
  assumes "find_campus_order s oid cid = Some raw"
  shows "raw \<in> set (orders s)" and "o_id raw = oid" and "o_campusId raw = cid"
  using assms by (auto simp: find_campus_order_def find_Some_iff in_set_conv_nth)

lemma find_campus_order_row:
  assumes "distinct (map o_id (orders s))" and "raw \<in> set (orders s)"
  shows "find_campus_order s (o_id raw) (o_campusId raw) = Some raw"
proof -
  have "find_campus_order s (o_id raw) (o_campusId raw) \<noteq> None"
    using assms(2) by (auto simp: find_campus_order_def find_None_iff)
  then obtain q where q: "find_campus_order s (o_id raw) (o_campusId raw) = Some q" by blast
  then have "q = raw"
    using find_campus_orderD [OF q] unique_key [OF assms(1)] assms(2) by blast
  then show ?thesis using q by simp
qed

text \<open>What the transaction of a task action has done when it commits.\<close>

definition task_run :: "millis \<Rightarrow> staff \<Rightarrow> task_action \<Rightarrow> task_payload \<Rightarrow> order_row \<Rightarrow> (db, unit) handler" where
  "task_run now st a p raw = (if a = Transfer then transfer now st raw else run_action now st a p raw)"

lemma task_transaction_ok:
  "task_transaction now st oid a p s = (s', Inr ()) \<longleftrightarrow>
    (\<exists>raw. find_campus_order s oid (s_campusId st) = Some raw \<and>
      (\<not> is_manager st \<or> isOwnBuilding st (o_address raw)) \<and> task_run now st a p raw s = (s', Inr ()))"
proof (cases "find_campus_order s oid (s_campusId st)")
  case None
  then show ?thesis by (simp add: task_transaction_def transaction_ok reject_def)
next
  case (Some raw)
  then show ?thesis by (simp add: task_transaction_def transaction_ok unless_ok task_run_def)
qed

lemma task_transaction_fails: "task_transaction now st oid a p s = (s', Inl e) \<Longrightarrow> s' = s"
  unfolding task_transaction_def by (rule atomicD [OF atomic_transaction])

lemma profile_cases:
  "profile k s = (case find_row s_id k (staffs s) of
      None \<Rightarrow> (s, Inl (NotFound ''no such staff member'')) | Some st \<Rightarrow> (s, Inr st))"
  by (simp add: profile_def reject_def reply_def split: option.split)

lemma strip_prefix_append [simp]: "strip_prefix p (p @ t) = Some t"
  by (simp add: strip_prefix_def)

lemma strip_prefix_Some: "strip_prefix p t = Some r \<longleftrightarrow> t = p @ r"
  by (auto simp: strip_prefix_def) (metis append_take_drop_id)

definition plain_action :: "task_action \<Rightarrow> task_action" where
  "plain_action a = (if a = Grab then Accept else a)"

text \<open>The state a task action leaves is the one it found, or the one its transaction committed.\<close>

lemma updateTask_state:
  "fst (updateTask now k tid a p s) = s \<or>
   (\<exists>st oid. find_row s_id k (staffs s) = Some st \<and> tid = task_id (s_role st) oid \<and>
      \<not> campusStaffDelivery s (Some (s_campusId st)) \<and>
      task_transaction now st oid (plain_action a) p s = (fst (updateTask now k tid a p s), Inr ()))"
proof (cases "find_row s_id k (staffs s)")
  case (Some st)
  show ?thesis
  proof (cases "campusStaffDelivery s (Some (s_campusId st)) \<or> strip_prefix (task_id (s_role st) []) tid = None")
    case True
    then show ?thesis
      using Some by (auto simp: updateTask_def and_then_def profile_cases read_def unless_def reject_def)
  next
    case False
    then obtain oid where oid: "strip_prefix (task_id (s_role st) []) tid = Some oid" by blast
    then have tid: "tid = task_id (s_role st) oid" by (auto simp: strip_prefix_Some task_id_def)
    have eq: "updateTask now k tid a p s =
        and_then (task_transaction now st oid (plain_action a) p) (\<lambda>_. task_of k tid) s"
      using Some False oid
      by (simp add: updateTask_def and_then_def [of "profile k"] and_then_def [of "read _"] profile_cases
          read_def unless_def plain_action_def)
    obtain s1 x where run: "task_transaction now st oid (plain_action a) p s = (s1, x)" by fastforce
    show ?thesis
    proof (cases x)
      case (Inl e)
      then have "s1 = s" using run task_transaction_fails by blast
      then show ?thesis using eq run Inl by (simp add: and_then_def)
    next
      case (Inr u)
      have "fst (task_of k tid s1) = s1" using reads_task_of unfolding reads_def by blast
      then have "fst (updateTask now k tid a p s) = s1" using eq run Inr by (simp add: and_then_def)
      then show ?thesis using Some tid False run Inr by auto
    qed
  qed
qed (simp add: updateTask_def and_then_def profile_cases)

subsection \<open>What an action writes\<close>

text \<open>The edges of the delivery.\<close>

inductive task_edge :: "order_status \<Rightarrow> order_status \<Rightarrow> bool" where
  at_store: "task_edge WaitingFirstMile Arrived"
| straight_away: "task_edge WaitingFirstMile FirstMile"
| leave_store: "task_edge Arrived FirstMile"
| downstairs: "task_edge FirstMile WaitingHandover"
| pickup_done: "task_edge FirstMile Delivered"
| received: "task_edge WaitingHandover LastMile"
| received_early: "task_edge FirstMile LastMile"
| in_room: "task_edge LastMile Delivered"
| room_failed: "task_edge LastMile Exception"
| release: "task_edge FirstMile WaitingFirstMile"
| release_downstairs: "task_edge WaitingHandover WaitingFirstMile"

code_pred task_edge .

inductive_simps task_edge_simps: "task_edge a b"

text \<open>Who may write an order, and what of it.\<close>

definition may_act :: "staff \<Rightarrow> order_row \<Rightarrow> bool" where
  "may_act st q \<longleftrightarrow> o_campusId q = s_campusId st \<and>
     (if is_manager st then isOwnBuilding st (o_address q) else o_riderId q = Some (s_id st))"

definition may_take :: "staff \<Rightarrow> order_row \<Rightarrow> bool" where
  "may_take st q \<longleftrightarrow> o_campusId q = s_campusId st \<and> \<not> is_manager st \<and> o_riderId q = None \<and>
     o_status q = WaitingFirstMile"

definition same_deal :: "order_row \<Rightarrow> order_row \<Rightarrow> bool" where
  "same_deal q q' \<longleftrightarrow> q' = q\<lparr>o_status := o_status q', o_statusText := o_statusText q', o_riderId := o_riderId q',
     o_timeline := o_timeline q', o_package := o_package q'\<rparr>"

definition task_change :: "staff \<Rightarrow> order_row \<Rightarrow> order_row \<Rightarrow> bool" where
  "task_change st q q' \<longleftrightarrow> same_deal q q' \<and>
     (may_act st q \<and> (o_status q' = o_status q \<or> task_edge (o_status q) (o_status q')) \<and>
        (o_riderId q' = o_riderId q \<or> o_riderId q' = None \<and> o_status q' = WaitingFirstMile) \<or>
      may_take st q \<and> o_status q' = o_status q \<and> o_riderId q' = Some (s_id st))"

lemma update_where_change:
  assumes "\<And>x. x \<in> set rows \<Longrightarrow> P x \<Longrightarrow> R x (f x)"
  shows "list_all2 (\<lambda>x y. y = x \<or> R x y) rows (update_where P f rows)"
  using assms by (induction rows) auto

lemma rule_edge:
  assumes "task_rule st raw a = Some (status, label, src)" and "o_status raw \<in> set src"
  shows "status = o_status raw \<or> task_edge (o_status raw) status"
proof (cases "is_manager st")
  case True
  with assms show ?thesis by (cases a) (auto simp: task_rule_def task_edge_simps)
next
  case False
  with assms show ?thesis by (cases a) (auto simp: task_rule_def task_edge_simps split: if_splits)
qed

lemma task_run_ok:
  assumes "task_run now st a p raw s = (s', Inr ())"
  obtains (freed) "a = Transfer" "\<not> is_manager st" "o_riderId raw = Some (s_id st)"
      "o_status raw \<in> {WaitingFirstMile, FirstMile, WaitingHandover}"
      "s' = s\<lparr>orders := update_where
          (\<lambda>q. o_id q = o_id raw \<and> o_status q = o_status raw \<and> o_riderId q = Some (s_id st))
          (\<lambda>q. q\<lparr>o_status := WaitingFirstMile, o_riderId := None, o_statusText := status_text WaitingFirstMile,
             o_timeline := released_timeline now (o_timeline raw)\<rparr>) (orders s),
        transfer_logs := transfer_logs s @ [\<lparr>tl_orderId = o_id raw, tl_staffId = s_id st,
          tl_fromStatus = o_statusText raw\<rparr>]\<rparr>"
    | (taken) "a = Accept" "\<not> is_manager st" "o_status raw = WaitingFirstMile"
      "\<exists>q \<in> set (orders s). o_id q = o_id raw \<and> o_riderId q = None \<and> o_status q = WaitingFirstMile"
      "s' = s\<lparr>orders := update_where
          (\<lambda>q. o_id q = o_id raw \<and> o_riderId q = None \<and> o_status q = WaitingFirstMile)
          (\<lambda>q. q\<lparr>o_riderId := Some (s_id st), o_statusText := ''accepted by a rider''\<rparr>) (orders s)\<rparr>"
    | (stepped) status label src where "a \<noteq> Transfer" "a \<noteq> Accept"
      "task_rule st raw a = Some (status, label, src)" "o_status raw \<in> set src"
      "a = Handover \<longrightarrow> tp_images p \<noteq> []"
      "a = Deliver \<longrightarrow> tp_images p \<noteq> [] \<or> truthy (tp_reason p) \<noteq> None"
      "a = Deliver \<longrightarrow> customer_pickup raw \<longrightarrow> tp_images p \<noteq> []"
      "\<exists>q \<in> set (orders s). o_id q = o_id raw \<and> o_status q = o_status raw \<and>
          (is_manager st \<or> o_riderId q = Some (s_id st))"
      "s' = (if a = Deliver then recordForDelivered now (raw\<lparr>o_status := status\<rparr>) else (\<lambda>s. s))
        (s\<lparr>orders := update_where
          (\<lambda>q. o_id q = o_id raw \<and> o_status q = o_status raw \<and> (is_manager st \<or> o_riderId q = Some (s_id st)))
          (step_row now a p raw status label) (orders s)\<rparr>)"
proof (cases "a = Transfer")
  case True
  with assms have "transfer now st raw s = (s', Inr ())" by (simp add: task_run_def)
  then show ?thesis
    using True by (intro freed) (auto simp: transfer_def transfer_commit_def ok_simps claim_orders_ok)
next
  case False
  with assms have run: "run_action now st a p raw s = (s', Inr ())" by (simp add: task_run_def)
  then obtain status label src where rule: "task_rule st raw a = Some (status, label, src)"
    by (cases "task_rule st raw a") (auto simp: run_action_def Let_def reject_def)
  note run = run [unfolded run_action_def Let_def rule option.case prod.case unless_ok]
  show ?thesis
  proof (cases "a = Accept")
    case True
    then have "\<not> is_manager st" using rule by (auto simp: task_rule_def)
    then show ?thesis
      using True run rule
      by (intro taken) (auto simp: accept_commit_def claim_orders_ok task_rule_def)
  next
    case False
    then have commit: "step_commit now st a p raw status label s = (s', Inr ())" using run by simp
    have out: "s' = (if a = Deliver then recordForDelivered now (raw\<lparr>o_status := status\<rparr>) else (\<lambda>s. s))
        (s\<lparr>orders := update_where
          (\<lambda>q. o_id q = o_id raw \<and> o_status q = o_status raw \<and> (is_manager st \<or> o_riderId q = Some (s_id st)))
          (step_row now a p raw status label) (orders s)\<rparr>) \<and>
      (\<exists>q \<in> set (orders s). o_id q = o_id raw \<and> o_status q = o_status raw \<and>
          (is_manager st \<or> o_riderId q = Some (s_id st)))"
      using commit unfolding step_commit_def and_then_ok claim_orders_ok
      by (cases "a = Deliver") (simp_all add: modify_ok reply_ok)
    show ?thesis
      by (rule stepped [OF \<open>a \<noteq> Transfer\<close> False rule]) (use run out in blast)+
  qed
qed

lemma recordForDelivered_frame [simp]:
  "orders (recordForDelivered now q s) = orders s" "products (recordForDelivered now q s) = products s"
  "user_coupons (recordForDelivered now q s) = user_coupons s" "coupons (recordForDelivered now q s) = coupons s"
  "transfer_logs (recordForDelivered now q s) = transfer_logs s"
  by (simp_all add: recordForDelivered_def)

lemma row_change:
  assumes "distinct (map o_id rows)" and "raw \<in> set rows" and "\<And>x. P x \<Longrightarrow> o_id x = o_id raw"
    and "P raw \<Longrightarrow> task_change st raw (f raw)"
  shows "list_all2 (\<lambda>q q'. q' = q \<or> o_id q = o_id raw \<and> task_change st q q') rows (update_where P f rows)"
proof (rule update_where_change)
  fix x assume x: "x \<in> set rows" "P x"
  then have "x = raw" using unique_key [OF assms(1) x(1) assms(2)] assms(3) by blast
  then show "o_id x = o_id raw \<and> task_change st x (f x)" using x assms(4) by blast
qed

lemma task_run_change:
  assumes "distinct (map o_id (orders s))" and "raw \<in> set (orders s)" and "o_campusId raw = s_campusId st"
    and "\<not> is_manager st \<or> isOwnBuilding st (o_address raw)"
    and run: "task_run now st a p raw s = (s', Inr ())"
  shows "list_all2 (\<lambda>q q'. q' = q \<or> o_id q = o_id raw \<and> task_change st q q') (orders s) (orders s') \<and>
    products s' = products s \<and> user_coupons s' = user_coupons s \<and> coupons s' = coupons s"
proof -
  note change = row_change [OF assms(1,2)]
  from run show ?thesis
  proof (cases rule: task_run_ok)
    case freed
    have "list_all2 (\<lambda>q q'. q' = q \<or> o_id q = o_id raw \<and> task_change st q q') (orders s) (orders s')"
      unfolding freed(5)
      by (simp, rule change, simp)
        (use assms(3) freed(2-4) in \<open>auto simp: task_change_def same_deal_def may_act_def task_edge_simps\<close>)
    then show ?thesis by (simp add: freed(5))
  next
    case taken
    have "list_all2 (\<lambda>q q'. q' = q \<or> o_id q = o_id raw \<and> task_change st q q') (orders s) (orders s')"
      unfolding taken(5)
      by (simp, rule change, simp)
        (use assms(3) taken(2,3) in \<open>auto simp: task_change_def same_deal_def may_take_def\<close>)
    then show ?thesis by (simp add: taken(5))
  next
    case (stepped status label src)
    note edge = rule_edge [OF stepped(3,4)]
    have os: "orders s' = update_where
          (\<lambda>q. o_id q = o_id raw \<and> o_status q = o_status raw \<and> (is_manager st \<or> o_riderId q = Some (s_id st)))
          (step_row now a p raw status label) (orders s)"
      using stepped(9) by (cases "a = Deliver") simp_all
    have "list_all2 (\<lambda>q q'. q' = q \<or> o_id q = o_id raw \<and> task_change st q q') (orders s) (orders s')"
      unfolding os
      by (rule change, simp)
        (use assms(3,4) edge in \<open>auto simp: task_change_def same_deal_def may_act_def step_row_def\<close>)
    then show ?thesis using stepped(9) by (simp split: if_splits)
  qed
qed

lemma updateTask_change:
  assumes "distinct (map o_id (orders s))"
  obtains (same) "fst (updateTask now k tid a p s) = s"
    | (changed) st oid where "find_row s_id k (staffs s) = Some st" "tid = task_id (s_role st) oid"
      "list_all2 (\<lambda>q q'. q' = q \<or> o_id q = oid \<and> task_change st q q') (orders s)
        (orders (fst (updateTask now k tid a p s)))"
      "products (fst (updateTask now k tid a p s)) = products s"
      "user_coupons (fst (updateTask now k tid a p s)) = user_coupons s"
      "coupons (fst (updateTask now k tid a p s)) = coupons s"
proof -
  let ?s' = "fst (updateTask now k tid a p s)"
  consider "?s' = s" | st oid where "find_row s_id k (staffs s) = Some st" "tid = task_id (s_role st) oid"
    "task_transaction now st oid (plain_action a) p s = (?s', Inr ())"
    using updateTask_state [of now k tid a p s] by blast
  then show thesis
  proof cases
    case (2 st oid)
    then obtain raw where raw: "find_campus_order s oid (s_campusId st) = Some raw"
      and own: "\<not> is_manager st \<or> isOwnBuilding st (o_address raw)"
      and run: "task_run now st (plain_action a) p raw s = (?s', Inr ())"
      unfolding task_transaction_ok by blast
    note row = find_campus_orderD [OF raw]
    from task_run_change [OF assms(1) row(1,3) own run] row(2) changed [OF 2(1,2)] show thesis by simp
  qed (rule same)
qed

subsection \<open>The rights and the edges\<close>

text \<open>C20. A task action changes at most the order it names, and of that order only the status, the
  rider, the timeline and the package. A building manager can only write orders of the own
  building, a rider only the orders that are the rider's, or an unassigned order waiting for a rider,
  which the rider then owns; the status moves along an edge of the delivery or stays, and the
  stock and the coupons are not touched. This holds whatever the handler answers.\<close>

theorem task_action_authorised:
  fixes now :: millis and k :: ident and tid :: string and a :: task_action and p :: task_payload
  assumes "distinct (map o_id (orders s))"
  defines "s' \<equiv> fst (updateTask now k tid a p s)"
  shows "s' = s \<or> (\<exists>st oid. find_row s_id k (staffs s) = Some st \<and> tid = task_id (s_role st) oid \<and>
      list_all2 (\<lambda>q q'. q' = q \<or> o_id q = oid \<and> task_change st q q') (orders s) (orders s') \<and>
      products s' = products s \<and> user_coupons s' = user_coupons s \<and> coupons s' = coupons s)"
  by (rule updateTask_change [OF assms(1), of now k tid a p]) (simp_all add: s'_def, blast)

theorem task_action_authorised_witness:
  "\<exists>st oid. find_row s_id ''s1'' (staffs (db_at Arrived (Some ''s1''))) = Some st \<and>
    ''task-fulltime-rider-o1'' = task_id (s_role st) oid \<and>
    list_all2 (\<lambda>q q'. q' = q \<or> o_id q = oid \<and> task_change st q q') (orders (db_at Arrived (Some ''s1'')))
      (orders (fst (updateTask 0 ''s1'' ''task-fulltime-rider-o1'' Depart no_payload (db_at Arrived (Some ''s1'')))))"
proof -
  have "distinct (map o_id (orders (db_at Arrived (Some ''s1''))))" by code_simp
  from task_action_authorised [OF this, of 0 "''s1''" "''task-fulltime-rider-o1''" Depart no_payload]
  have "fst (updateTask 0 ''s1'' ''task-fulltime-rider-o1'' Depart no_payload (db_at Arrived (Some ''s1''))) =
      db_at Arrived (Some ''s1'') \<or> ?thesis" by blast
  moreover have "map o_status (orders (fst (updateTask 0 ''s1'' ''task-fulltime-rider-o1'' Depart no_payload
      (db_at Arrived (Some ''s1''))))) \<noteq> map o_status (orders (db_at Arrived (Some ''s1'')))"
    by code_simp
  ultimately show ?thesis by (elim disjE) simp_all
qed



subsection \<open>What is offered can be done\<close>

definition with_photo :: task_payload where
  "with_photo = no_payload\<lparr>tp_images := [''photo'']\<rparr>"

lemma offered_rule:
  assumes "a \<in> set (actions (s_role st) raw (s_id st))" and "a \<noteq> Transfer"
  shows "\<exists>status label src. task_rule st raw a = Some (status, label, src) \<and> o_status raw \<in> set src \<and>
    (is_manager st \<or> \<not> has_rider raw \<and> a = Accept \<and> o_status raw = WaitingFirstMile \<or>
     a \<noteq> Accept \<and> o_riderId raw = Some (s_id st))"
  using assms
  by (auto simp: actions_def task_rule_def is_manager_def Let_def status_text_def split: if_splits)

text \<open>C36. The task card and the action handler agree: every action the card offers to a rider or
  manager of the campus is carried out when a photo is attached (an unassigned order has no rider
  recorded at all).\<close>

theorem offered_action_runs:
  assumes "distinct (map o_id (orders s))" and "raw \<in> set (orders s)"
    and "o_campusId raw = s_campusId st" and "is_manager st \<longrightarrow> isOwnBuilding st (o_address raw)"
    and "o_riderId raw \<noteq> Some []"
    and "a \<in> set (actions (s_role st) raw (s_id st))"
  shows "\<exists>s'. task_transaction now st (o_id raw) a with_photo s = (s', Inr ())"
proof -
  have found: "find_campus_order s (o_id raw) (s_campusId st) = Some raw"
    using find_campus_order_row [OF assms(1,2)] assms(3) by simp
  have rider: "\<not> has_rider raw \<longleftrightarrow> o_riderId raw = None"
    using assms(5) by (cases "o_riderId raw") (auto simp: has_rider_def truthy_def split: list.splits)
  have "\<exists>s'. task_run now st a with_photo raw s = (s', Inr ())"
  proof (cases "a = Transfer")
    case True
    then have "\<not> is_manager st \<and> o_riderId raw = Some (s_id st) \<and>
        o_status raw \<in> {WaitingFirstMile, FirstMile, WaitingHandover}"
      using assms(6) by (auto simp: actions_def is_manager_def Let_def split: if_splits)
    then show ?thesis
      using assms(2) True
      by (auto simp: task_run_def transfer_def transfer_commit_def unless_def and_then_ok claim_orders_ok modify_ok
          simp del: claim_or_ok)
  next
    case False
    from offered_rule [OF assms(6) False] obtain status label src where
      rule: "task_rule st raw a = Some (status, label, src)" "o_status raw \<in> set src"
      and who: "is_manager st \<or> \<not> has_rider raw \<and> a = Accept \<and> o_status raw = WaitingFirstMile \<or>
        a \<noteq> Accept \<and> o_riderId raw = Some (s_id st)" by blast
    have acc: "a = Accept \<longrightarrow> \<not> is_manager st" using rule(1) by (auto simp: task_rule_def)
    show ?thesis
    proof (cases "a = Accept")
      case True
      then have "\<exists>s'. accept_commit (s_id st) raw s = (s', Inr ())"
        using who acc rider assms(2) by (auto simp: accept_commit_def claim_orders_ok simp del: claim_or_ok)
      then show ?thesis
        using True who acc rule by (auto simp: task_run_def run_action_def unless_def)
    next
      case False
      then have "is_manager st \<or> o_riderId raw = Some (s_id st)" using who by blast
      then have "\<exists>s'. step_commit now st a with_photo raw status label s = (s', Inr ())"
        using assms(2) by (cases "a = Deliver")
          (auto simp: step_commit_def and_then_ok claim_orders_ok modify_ok reply_ok simp del: claim_or_ok)
      then show ?thesis
        using False \<open>a \<noteq> Transfer\<close> who rule
        by (auto simp: task_run_def run_action_def unless_def with_photo_def)
    qed
  qed
  then show ?thesis
    unfolding task_transaction_ok using found assms(4) by blast
qed

theorem offered_action_runs_witness:
  "\<exists>s'. task_transaction 0 rider1 ''o1'' Transfer with_photo (db_at FirstMile (Some ''s1'')) = (s', Inr ())"
proof -
  let ?q = "order1\<lparr>o_status := FirstMile, o_riderId := Some ''s1''\<rparr>"
  have 1: "distinct (map o_id (orders (db_at FirstMile (Some ''s1''))))" by code_simp
  have 2: "?q \<in> set (orders (db_at FirstMile (Some ''s1'')))" by (simp add: db_at_def)
  have 3: "o_campusId ?q = s_campusId rider1" by code_simp
  have 4: "is_manager rider1 \<longrightarrow> isOwnBuilding rider1 (o_address ?q)" by code_simp
  have 5: "o_riderId ?q \<noteq> Some []" by simp
  have 6: "Transfer \<in> set (actions (s_role rider1) ?q (s_id rider1))" by code_simp
  have "o_id ?q = ''o1''" by code_simp
  with offered_action_runs [OF 1 2 3 4 5 6] show ?thesis by metis
qed

text \<open>The other direction fails: a rider can leave with an order that never was at the store,
  although the card offers only the arrival there.\<close>

lemma depart_without_arrival:
  "Depart \<notin> set (actions (s_role rider1) (order1\<lparr>o_status := WaitingFirstMile, o_riderId := Some ''s1''\<rparr>) ''s1'') \<and>
   map o_status (orders (fst (updateTask 0 ''s1'' ''task-fulltime-rider-o1'' Depart no_payload
     (db_at WaitingFirstMile (Some ''s1''))))) = [FirstMile]"
  by code_simp

subsection \<open>Transfer\<close>

text \<open>A transfer gives the order back to the pool: it waits for a rider, belongs to nobody, its
  delivery steps are open again, the hand-back is logged, every rider of the campus sees it among
  the available tasks, and the first of them who accepts it gets it.\<close>

theorem transfer_returns_to_pool:
  assumes "distinct (map o_id (orders s))"
    and "task_transaction now st oid Transfer p s = (s', Inr ())"
    and "find_row s_id (s_id st2) (staffs s') = Some st2" and "\<not> is_manager st2" and "s_campusId st2 = s_campusId st"
    and "\<not> campusStaffDelivery s' (Some (s_campusId st2))"
  shows "(\<exists>raw q. raw \<in> set (orders s) \<and> o_id raw = oid \<and> find_row o_id oid (orders s') = Some q \<and>
      o_status q = WaitingFirstMile \<and> o_riderId q = None \<and>
      (\<forall>x \<in> set (o_timeline q). ts_key x \<in> {KFirstMile, KWaitingHandover, KReadyToDeliver, KLastMile} \<longrightarrow>
         \<not> ts_done x \<and> ts_time x = None) \<and>
      transfer_logs s' = transfer_logs s @ [\<lparr>tl_orderId = oid, tl_staffId = s_id st, tl_fromStatus = o_statusText raw\<rparr>]) \<and>
    (\<exists>ts. availableTasks (s_id st2) None s' = (s', Inr ts) \<and> oid \<in> tk_orderId ` set ts) \<and>
    (\<exists>s2 q2. task_transaction now2 st2 oid Accept p2 s' = (s2, Inr ()) \<and>
      find_row o_id oid (orders s2) = Some q2 \<and> o_riderId q2 = Some (s_id st2))"
proof -
  obtain raw where raw: "find_campus_order s oid (s_campusId st) = Some raw"
    and run: "task_run now st Transfer p raw s = (s', Inr ())"
    using assms(2) unfolding task_transaction_ok by blast
  note row = find_campus_orderD [OF raw]
  let ?P = "\<lambda>q. o_id q = o_id raw \<and> o_status q = o_status raw \<and> o_riderId q = Some (s_id st)"
  let ?f = "\<lambda>q::order_row. q\<lparr>o_status := WaitingFirstMile, o_riderId := None, o_statusText := status_text WaitingFirstMile,
    o_timeline := released_timeline now (o_timeline raw)\<rparr>"
  from run have rid: "o_riderId raw = Some (s_id st)"
    and s': "s' = s\<lparr>orders := update_where ?P ?f (orders s), transfer_logs := transfer_logs s @
      [\<lparr>tl_orderId = o_id raw, tl_staffId = s_id st, tl_fromStatus = o_statusText raw\<rparr>]\<rparr>"
    by (auto elim!: task_run_ok)
  have found: "find_row o_id oid (orders s) = Some raw"
    using find_row_unique [OF assms(1) row(1)] row(2) by simp
  define q where "q = ?f raw"
  have q: "find_row o_id oid (orders s') = Some q"
    using find_row_update_where [of o_id ?f oid ?P "orders s"] found rid by (simp add: s' q_def)
  then have q_in: "q \<in> set (orders s')" "o_id q = oid" using find_row_SomeD by fastforce+
  have q_simps: "o_status q = WaitingFirstMile" "o_riderId q = None" "o_campusId q = s_campusId st"
    using row(3) by (simp_all add: q_def)
  have steps: "\<forall>x \<in> set (o_timeline q). ts_key x \<in> {KFirstMile, KWaitingHandover, KReadyToDeliver, KLastMile} \<longrightarrow>
      \<not> ts_done x \<and> ts_time x = None"
    by (auto simp: q_def released_timeline_def)
  have avail: "\<exists>ts. availableTasks (s_id st2) None s' = (s', Inr ts) \<and> oid \<in> tk_orderId ` set ts"
  proof -
    let ?ts = "map (\<lambda>o'. toTask o' (s_role st2) (s_id st2) (\<lambda>_. None) (campus_fees s' (s_campusId st2)) (\<lambda>_. None))
        (sort_key o_createdAt
          (filter (\<lambda>o'. o_campusId o' = s_campusId st2 \<and> o_status o' = WaitingFirstMile \<and> o_riderId o' = None)
            (orders s')))"
    have "availableTasks (s_id st2) None s' = (s', Inr ?ts)"
      using assms(3,6) by (simp add: availableTasks_def and_then_def profile_cases read_def truthy_def)
    moreover have "q \<in> set (sort_key o_createdAt
          (filter (\<lambda>o'. o_campusId o' = s_campusId st2 \<and> o_status o' = WaitingFirstMile \<and> o_riderId o' = None)
            (orders s')))"
      using q_in(1) q_simps assms(5) by simp
    moreover have "tk_orderId (toTask q r v c f g) = oid" for r v c f g
      using q_in(2) by (simp add: toTask_def)
    ultimately show ?thesis by (metis (no_types, lifting) image_eqI image_set)
  qed
  have dist': "distinct (map o_id (orders s'))"
    using assms(1) map_key_update_where [of o_id ?f ?P "orders s"] by (simp add: s')
  have found': "find_campus_order s' oid (s_campusId st2) = Some q"
    using find_campus_order_row [OF dist' q_in(1)] q_in(2) q_simps(3) assms(5) by simp
  let ?g = "\<lambda>x::order_row. x\<lparr>o_riderId := Some (s_id st2), o_statusText := ''accepted by a rider''\<rparr>"
  let ?Q = "\<lambda>x. o_id x = o_id q \<and> o_riderId x = None \<and> o_status x = WaitingFirstMile"
  have "task_run now2 st2 Accept p2 q s' = (s'\<lparr>orders := update_where ?Q ?g (orders s')\<rparr>, Inr ())"
    using assms(4) q_in q_simps
    by (auto simp: task_run_def run_action_def task_rule_def unless_def accept_commit_def claim_orders_ok
        has_rider_def truthy_def simp del: claim_or_ok)
  then have "task_transaction now2 st2 oid Accept p2 s' = (s'\<lparr>orders := update_where ?Q ?g (orders s')\<rparr>, Inr ())"
    unfolding task_transaction_ok using found' assms(4) by blast
  moreover have "find_row o_id oid (orders (s'\<lparr>orders := update_where ?Q ?g (orders s')\<rparr>)) = Some (?g q)"
    using find_row_update_where [of o_id ?g oid ?Q "orders s'"] q q_in(2) q_simps by simp
  moreover have "o_riderId (?g q) = Some (s_id st2)" by simp
  ultimately have taken: "\<exists>s2 q2. task_transaction now2 st2 oid Accept p2 s' = (s2, Inr ()) \<and>
      find_row o_id oid (orders s2) = Some q2 \<and> o_riderId q2 = Some (s_id st2)" by blast
  have "transfer_logs s' = transfer_logs s @
      [\<lparr>tl_orderId = oid, tl_staffId = s_id st, tl_fromStatus = o_statusText raw\<rparr>]"
    using row(2) by (simp add: s')
  then show ?thesis using row(1,2) q q_simps(1,2) steps avail taken by blast
qed

theorem transfer_returns_to_pool_witness:
  "\<exists>s2 q2. task_transaction 5 rider2 ''o1'' Accept no_payload
      (fst (task_transaction 0 rider1 ''o1'' Transfer no_payload (db_at FirstMile (Some ''s1'')))) = (s2, Inr ()) \<and>
    find_row o_id ''o1'' (orders s2) = Some q2 \<and> o_riderId q2 = Some ''s2''"
proof -
  let ?s = "db_at FirstMile (Some ''s1'')"
  let ?s' = "fst (task_transaction 0 rider1 ''o1'' Transfer no_payload ?s)"
  have 1: "distinct (map o_id (orders ?s))" by code_simp
  have "snd (task_transaction 0 rider1 ''o1'' Transfer no_payload ?s) = Inr ()" by code_simp
  then have 2: "task_transaction 0 rider1 ''o1'' Transfer no_payload ?s = (?s', Inr ())"
    by (metis prod.collapse)
  have 3: "find_row s_id (s_id rider2) (staffs ?s') = Some rider2" by code_simp
  have 4: "\<not> is_manager rider2" by code_simp
  have 5: "s_campusId rider2 = s_campusId rider1" by code_simp
  have 6: "\<not> campusStaffDelivery ?s' (Some (s_campusId rider2))" by code_simp
  have 7: "s_id rider2 = ''s2''" by code_simp
  from transfer_returns_to_pool [OF 1 2 3 4 5 6, of 5 no_payload] show ?thesis unfolding 7 by blast
qed

subsection \<open>Delivery\<close>

lemma find_row_eqI: "distinct (map o_id rows) \<Longrightarrow> q \<in> set rows \<Longrightarrow> o_id q = k \<Longrightarrow> find_row o_id k rows = Some q"
  using find_row_unique by metis

text \<open>A delivery that commits leaves its evidence and pays: the order is delivered, its package keeps
  the photos and the remark and at least one of them is there (a photo, when the user picks up
  downstairs), and in the same transaction every person the order owes a commission has one.\<close>

theorem delivery_has_evidence:
  assumes "distinct (map o_id (orders s))"
    and "task_transaction now st oid Deliver p s = (s', Inr ())"
  shows "\<exists>raw q f. raw \<in> set (orders s) \<and> o_id raw = oid \<and> find_row o_id oid (orders s') = Some q \<and>
    o_status q = Delivered \<and> pk_proof (package_of q) = Some f \<and> pf_images f = tp_images p \<and>
    (pf_images f \<noteq> [] \<or> pf_remark f \<noteq> []) \<and> (customer_pickup raw \<longrightarrow> pf_images f \<noteq> []) \<and>
    (\<forall>k \<in> set (commission_targets s raw).
       \<exists>c \<in> set (commissions s'). is_commission_of oid c \<and> cm_staffId c = k)"
proof -
  obtain raw where raw: "find_campus_order s oid (s_campusId st) = Some raw"
    and run: "task_run now st Deliver p raw s = (s', Inr ())"
    using assms(2) unfolding task_transaction_ok by blast
  note row = find_campus_orderD [OF raw]
  from run show ?thesis
  proof (cases rule: task_run_ok)
    case (stepped status label src)
    let ?P = "\<lambda>q. o_id q = o_id raw \<and> o_status q = o_status raw \<and> (is_manager st \<or> o_riderId q = Some (s_id st))"
    let ?f = "step_row now Deliver p raw status label"
    let ?s1 = "s\<lparr>orders := update_where ?P ?f (orders s)\<rparr>"
    have s': "s' = recordForDelivered now (raw\<lparr>o_status := status\<rparr>) ?s1" using stepped(9) by simp
    have delivered: "status = Delivered"
      using stepped(3) by (auto simp: task_rule_def split: if_splits)
    obtain x where x: "x \<in> set (orders s)" "?P x" using stepped(8) by blast
    then have "x = raw" using unique_key [OF assms(1) x(1) row(1)] by blast
    then have P: "?P raw" using x(2) by blast
    have key: "o_id (?f r) = o_id r" for r by (simp add: step_row_def)
    have q: "find_row o_id oid (orders s') = Some (?f raw)"
      using find_row_update_where [of o_id ?f oid ?P "orders s", OF key] find_row_eqI [OF assms(1) row(1,2)] P
      by (simp add: s')
    obtain pk f where pk: "o_package (?f raw) = Some pk" "pk_proof pk = Some f" "pf_images f = tp_images p"
      "pf_remark f = (case tp_reason p of Some r \<Rightarrow> r | None \<Rightarrow> [])"
      by (simp add: step_row_def task_package_def)
    have evidence: "pf_images f \<noteq> [] \<or> pf_remark f \<noteq> []"
      using stepped(6) pk(3,4) by (auto simp: truthy_def split: option.splits list.splits)
    have targets: "commission_targets ?s1 (raw\<lparr>o_status := status\<rparr>) = commission_targets s raw"
      by (simp add: commission_targets_def building_manager_of_def rate_mode_def Let_def)
    have paid: "\<forall>k \<in> set (commission_targets s raw).
       \<exists>c \<in> set (commissions s'). is_commission_of oid c \<and> cm_staffId c = k"
    proof
      fix k assume "k \<in> set (commission_targets s raw)"
      then have "k \<in> set (commission_targets ?s1 (raw\<lparr>o_status := status\<rparr>))" by (simp only: targets)
      from recordForDelivered_present [OF this, of now] row(2)
      show "\<exists>c \<in> set (commissions s'). is_commission_of oid c \<and> cm_staffId c = k" by (simp add: s')
    qed
    show ?thesis
      using row q delivered pk evidence stepped(7) paid
      by (intro exI [of _ raw] exI [of _ "?f raw"] exI [of _ f])
        (simp add: package_of_def, simp add: step_row_def)
  qed simp_all
qed

theorem delivery_has_evidence_witness:
  "map o_status (orders (fst (task_transaction 0 manager1 ''o1'' Deliver with_photo (db_at LastMile (Some ''s1'')))))
    = [Delivered]"
proof -
  let ?s = "db_at LastMile (Some ''s1'')"
  let ?s' = "fst (task_transaction 0 manager1 ''o1'' Deliver with_photo ?s)"
  have 1: "distinct (map o_id (orders ?s))" by code_simp
  have "snd (task_transaction 0 manager1 ''o1'' Deliver with_photo ?s) = Inr ()" by code_simp
  then have 2: "task_transaction 0 manager1 ''o1'' Deliver with_photo ?s = (?s', Inr ())"
    by (metis prod.collapse)
  have 3: "map o_id (orders ?s') = [''o1'']" by code_simp
  from delivery_has_evidence [OF 1 2] obtain q where
    "find_row o_id ''o1'' (orders ?s') = Some q" "o_status q = Delivered" by blast
  then show ?thesis using 3 by (auto simp: Cons_eq_map_conv split: if_splits)
qed

subsection \<open>Arrival by scan\<close>

text \<open>Scanning the receipt and pressing the arrival button are the same operation: for a rider's own
  order that waits at the warehouse both leave the same database, and in every other status the
  scan changes nothing.\<close>

theorem scan_is_arrive:
  assumes "distinct (map o_id (orders s))" and "distinct (map o_orderNo (orders s))"
    and "raw \<in> set (orders s)" and "o_orderNo raw \<noteq> []" and "CHR ''/'' \<notin> set (o_orderNo raw)"
    and "trim (o_orderNo raw) = o_orderNo raw"
    and "find_row s_id k (staffs s) = Some st" and "\<not> is_manager st" and "o_campusId raw = s_campusId st"
    and "o_riderId raw = Some k" and "k \<noteq> []" and "\<not> campusStaffDelivery s (Some (s_campusId st))"
  shows "fst (scanArrive decode now k (o_orderNo raw) s) =
    (if o_status raw = WaitingFirstMile then fst (task_transaction now st (o_id raw) Arrive p s) else s)"
proof -
  let ?P = "\<lambda>q. o_id q = o_id raw \<and> o_status q = WaitingFirstMile \<and> o_riderId q = Some k"
  let ?f = "\<lambda>q::order_row. q\<lparr>o_status := Arrived, o_statusText := status_text Arrived,
    o_timeline := markTimelineStep now (o_timeline raw) Arrived\<rparr>"
  have k: "s_id st = k" using find_row_SomeD [OF assms(7)] by simp
  have "find (\<lambda>q. o_orderNo q = o_orderNo raw \<and> o_campusId q = s_campusId st) (orders s) \<noteq> None"
    using assms(3,9) by (auto simp: find_None_iff)
  then obtain q where q: "find (\<lambda>q. o_orderNo q = o_orderNo raw \<and> o_campusId q = s_campusId st) (orders s) = Some q"
    by blast
  then have "q \<in> set (orders s)" "o_orderNo q = o_orderNo raw" by (auto simp: find_Some_iff in_set_conv_nth)
  then have "q = raw" using unique_key [OF assms(2) _ assms(3)] by blast
  then have found: "find (\<lambda>q. o_orderNo q = o_orderNo raw \<and> o_campusId q = s_campusId st) (orders s) = Some raw"
    using q by simp
  have no: "parseScanOrderNo decode (o_orderNo raw) = o_orderNo raw"
    using assms(4-6) by (simp add: parseScanOrderNo_def Let_def)
  have scan: "fst (scanArrive decode now k (o_orderNo raw) s) = orders_update (update_where ?P ?f) s"
    unfolding scanArrive_def no Let_def
    using assms(4,7,10,12) found
    by (simp add: and_then_def profile_cases read_def unless_def claim_or_def update_many_def reply_def split: sum.split)
  show ?thesis
  proof (cases "o_status raw = WaitingFirstMile")
    case False
    have "\<not> ?P q" if "q \<in> set (orders s)" for q
      using False unique_key [OF assms(1) that assms(3)] by auto
    then have "update_where ?P ?f (orders s) = orders s" by (intro update_where_id ballI)
    then have "orders_update (update_where ?P ?f) s = s" by (rule orders_tbl.upd_same)
    then show ?thesis using False scan by simp
  next
    case True
    have "find_campus_order s (o_id raw) (s_campusId st) = Some raw"
      using find_campus_order_row [OF assms(1,3)] assms(9) by simp
    moreover have "task_run now st Arrive p raw s = (orders_update (update_where ?P ?f) s, Inr ())"
    proof -
      have row: "step_row now Arrive p raw Arrived (status_text Arrived) = ?f"
        by (rule ext) (simp add: step_row_def)
      have "count_where ?P (orders s) \<noteq> 0" using True assms(3,10) by (auto simp: count_where_0)
      then have "step_commit now st Arrive p raw Arrived (status_text Arrived) s =
          (orders_update (update_where ?P ?f) s, Inr ())"
        using True assms(8) k
        by (simp add: step_commit_def row and_then_def claim_or_def update_many_def reply_def)
      then show ?thesis
        using True assms(8,10) k by (simp add: task_run_def run_action_def task_rule_def unless_def)
    qed
    ultimately have "task_transaction now st (o_id raw) Arrive p s = (orders_update (update_where ?P ?f) s, Inr ())"
      unfolding task_transaction_ok using assms(8) by blast
    then show ?thesis using True scan by simp
  qed
qed

theorem scan_is_arrive_witness:
  "fst (scanArrive id 0 ''s1'' ''BCQ1'' (db_at WaitingFirstMile (Some ''s1''))) =
    fst (task_transaction 0 rider1 ''o1'' Arrive no_payload (db_at WaitingFirstMile (Some ''s1'')))"
proof -
  let ?s = "db_at WaitingFirstMile (Some ''s1'')" and ?q = "order1\<lparr>o_status := WaitingFirstMile, o_riderId := Some ''s1''\<rparr>"
  have no: "o_orderNo ?q = ''BCQ1''" "o_id ?q = ''o1''" "o_status ?q = WaitingFirstMile" by code_simp+
  have h: "distinct (map o_id (orders ?s))" "distinct (map o_orderNo (orders ?s))" "o_orderNo ?q \<noteq> []"
    "CHR ''/'' \<notin> set (o_orderNo ?q)" "trim (o_orderNo ?q) = o_orderNo ?q"
    "find_row s_id ''s1'' (staffs ?s) = Some rider1" "\<not> is_manager rider1" "o_campusId ?q = s_campusId rider1"
    "o_riderId ?q = Some ''s1''" "''s1'' \<noteq> []" "\<not> campusStaffDelivery ?s (Some (s_campusId rider1))"
    by code_simp+
  have "?q \<in> set (orders ?s)" by (simp add: db_at_def)
  from scan_is_arrive [OF h(1,2) this h(3-11)] no show ?thesis by (metis (no_types, lifting))
qed

subsection \<open>The message quota\<close>

text \<open>The quota report adds between 0 and 10 whatever is sent, and its "failed today" flag has no
  today before eight in the morning: the midnight it compares with is Beijing's date read as a
  UTC instant, so until 08:00 Beijing time a failure recorded at this very moment is not shown.\<close>

theorem quota_flag_blind_until_eight:
  assumes "(now + 8 * 3600000) mod DAY_MS < 8 * 3600000"
    and "\<And>x. find_row s_id k (staffs s) = Some x \<Longrightarrow> s_notifyQuotaFailedAt x \<in> {None, Some now}"
    and "grantNotifyQuota now k count s = (s', Inr v)"
  shows "\<not> qv_failedToday v \<and> (\<exists>x x' n. find_row s_id k (staffs s) = Some x \<and>
    find_row s_id k (staffs s') = Some x' \<and> s_notifyQuota x' = s_notifyQuota x + n \<and> 0 \<le> n \<and> n \<le> 10 \<and>
    qv_quota v = s_notifyQuota x')"
proof -
  let ?n = "min 10 (max 0 \<lfloor>count\<rfloor>)" and ?b = "((now + 8 * 3600000) div DAY_MS) * DAY_MS"
  have late: "now < ?b"
    using assms(1) div_mult_mod_eq [of "now + 8 * 3600000" DAY_MS] by linarith
  let ?f = "\<lambda>x::staff. x\<lparr>s_notifyQuota := s_notifyQuota x + ?n\<rparr>"
  let ?s1 = "if 0 < ?n then staffs_update (update_where (\<lambda>x. s_id x = k) ?f) s else s"
  obtain x1 where s': "s' = ?s1" and x1: "find_row s_id k (staffs ?s1) = Some x1"
    and v: "qv_quota v = s_notifyQuota x1"
      "qv_failedToday v = (case s_notifyQuotaFailedAt x1 of None \<Rightarrow> False | Some t \<Rightarrow> ?b \<le> t)"
    using assms(3)
    by (cases "0 < ?n")
      (auto simp: grantNotifyQuota_def Let_def and_then_def claim_or_def update_many_def reply_def reject_def
        split: option.splits sum.splits if_splits)
  have row: "find_row s_id k (staffs ?s1) = map_option (\<lambda>x. if 0 < ?n then ?f x else x) (find_row s_id k (staffs s))"
    using find_row_update_where [of s_id ?f k "\<lambda>x. s_id x = k" "staffs s"]
    by (auto simp: option.map_ident dest: find_row_SomeD intro!: map_option_cong)
  have "Some x1 = map_option (\<lambda>x. if 0 < ?n then ?f x else x) (find_row s_id k (staffs s))"
    by (rule trans [OF x1 [symmetric] row])
  then obtain x where x: "find_row s_id k (staffs s) = Some x" "x1 = (if 0 < ?n then ?f x else x)"
    by (cases "find_row s_id k (staffs s)") simp_all
  have "\<not> qv_failedToday v"
    using assms(2) [OF x(1)] x(2) v(2) late by auto
  then show ?thesis
    using x x1 s' v(1) by (intro conjI exI [of _ x] exI [of _ x1] exI [of _ ?n]) auto
qed

theorem quota_flag_blind_until_eight_witness:
  "map_sum (\<lambda>_. ()) qv_failedToday (snd (grantNotifyQuota 57600000 ''s1'' 3
    (db0\<lparr>staffs := [rider1\<lparr>s_notifyQuotaFailedAt := Some 57600000\<rparr>]\<rparr>))) = Inr False"
proof -
  let ?s = "db0\<lparr>staffs := [rider1\<lparr>s_notifyQuotaFailedAt := Some 57600000\<rparr>]\<rparr>"
  let ?r = "grantNotifyQuota 57600000 ''s1'' 3 ?s"
  have 1: "(57600000 + 8 * 3600000) mod DAY_MS < 8 * 3600000" by (simp add: DAY_MS_def)
  have 2: "s_notifyQuotaFailedAt x \<in> {None, Some 57600000}" if "find_row s_id ''s1'' (staffs ?s) = Some x" for x
    using that by (auto simp: rider1_def)
  have "(case snd ?r of Inr v \<Rightarrow> True | Inl _ \<Rightarrow> False)" by code_simp
  then obtain v where v: "snd ?r = Inr v" by (cases "snd ?r") simp_all
  then have "?r = (fst ?r, Inr v)" by (rule prod_eqI [OF fst_conv [symmetric], simplified])
  from quota_flag_blind_until_eight [OF 1 2 this] show ?thesis unfolding v by simp
qed

subsection \<open>The commission on the card\<close>

text \<open>The card of an order with a deduction shows the deduction as its commission: the lookup does not
  tell the two kinds of rows apart.\<close>

lemma card_shows_deduction:
  "commission_map (refundAdjust 0 ''o1'' ''refund'' (1 / 3)
    (recordForDelivered 0 (order1\<lparr>o_riderId := Some ''s1''\<rparr>) db0)) ''s1'' ''o1'' = Some (- 133)"
  by code_simp

end
