(* ===== verification/Commission_Theorems.thy ===== *)
theory Commission_Theorems
  imports Commission Samples
begin

text \<open>
  The theorems about commissions: one commission per person and order however often a delivery
  is recorded, and a refund takes back exactly its share.
\<close>

subsection \<open>Earned and taken back\<close>

definition earned :: "ident \<Rightarrow> ident \<Rightarrow> commission list \<Rightarrow> cents" where
  "earned orderId k rows = sum_where (\<lambda>c. is_commission_of orderId c \<and> cm_staffId c = k) cm_amount rows"

definition taken_back :: "ident \<Rightarrow> ident \<Rightarrow> commission list \<Rightarrow> cents" where
  "taken_back orderId k rows = sum_where (is_adjustment_of orderId k) cm_amount rows"

lemma sum_where_update_const:
  assumes "\<And>x. P x \<Longrightarrow> P (f x) \<and> g (f x) = t"
  shows "sum_where P g (update_where P f rows) = t * int (count_where P rows)"
  by (induction rows) (auto simp: assms algebra_simps)

lemma sum_where_update_other:
  assumes "\<And>x. Q x \<Longrightarrow> P x = P (f x) \<and> (P x \<longrightarrow> g (f x) = g x)"
  shows "sum_where P g (update_where Q f rows) = sum_where P g rows"
  by (induction rows) (auto simp: assms)

lemma sum_where_delete: "sum_where P g (delete_where P rows) = 0"
  by (induction rows) (auto simp: delete_where_def)

lemma sum_where_delete_other:
  "(\<And>x. Q x \<Longrightarrow> \<not> P x) \<Longrightarrow> sum_where P g (delete_where Q rows) = sum_where P g rows"
  by (induction rows) (auto simp: delete_where_def)

lemma adjustment_unique:
  assumes "commissions_ok rows"
  shows "count_where (is_adjustment_of orderId k) rows \<le> 1"
  using assms
proof (induction rows)
  case (Cons c rows)
  then show ?case
  proof (cases "is_adjustment_of orderId k c")
    case True
    have "\<forall>d \<in> set rows. \<not> is_adjustment_of orderId k d"
    proof
      fix d assume "d \<in> set rows"
      then have "commission_key d \<noteq> commission_key c"
        using Cons.prems by (auto simp: commissions_ok_def image_iff)
      then show "\<not> is_adjustment_of orderId k d"
        using True by (auto simp: is_adjustment_of_def commission_key_def)
    qed
    then have "count_where (is_adjustment_of orderId k) rows = 0"
      by (simp add: count_where_0)
    then show ?thesis by simp
  qed (use Cons in \<open>simp add: commissions_ok_def\<close>)
qed simp

text \<open>One adjustment: it is the person's only one for the order, and nothing else moves.\<close>

lemma adjust_one_effect:
  fixes ratio :: rat and orderId :: ident and per :: period and why :: msg and k :: ident
  assumes ok: "commissions_ok rows" and rec: "\<exists>c \<in> set records. cm_staffId c = k"
  defines "t \<equiv> - js_round (of_int (original_amount records k) * ratio)"
  defines "rows' \<equiv> adjust_one per orderId why ratio records k rows"
  shows "commissions_ok rows'" and "taken_back orderId k rows' = t"
    and "j \<noteq> k \<or> i \<noteq> orderId \<Longrightarrow> taken_back i j rows' = taken_back i j rows"
    and "earned i j rows' = earned i j rows"
proof -
  let ?P = "is_adjustment_of orderId k"
  have "commissions_ok rows' \<and> taken_back orderId k rows' = t \<and>
    (j \<noteq> k \<or> i \<noteq> orderId \<longrightarrow> taken_back i j rows' = taken_back i j rows) \<and>
    earned i j rows' = earned i j rows"
  proof (cases "t = 0")
    case True
    then have r: "rows' = delete_where ?P rows"
      by (simp add: rows'_def adjust_one_def t_def Let_def)
    have "commissions_ok rows'"
      using ok by (simp add: r commissions_ok_def delete_where_def distinct_map inj_on_def)
    moreover have "taken_back orderId k rows' = 0"
      by (simp add: taken_back_def r sum_where_delete)
    moreover have "taken_back i j rows' = taken_back i j rows" if "j \<noteq> k \<or> i \<noteq> orderId"
      unfolding taken_back_def r by (rule sum_where_delete_other) (use that in \<open>auto simp: is_adjustment_of_def\<close>)
    moreover have "earned i j rows' = earned i j rows"
      unfolding earned_def r
      by (rule sum_where_delete_other) (auto simp: is_adjustment_of_def is_commission_of_def)
    ultimately show ?thesis using True by simp
  next
    case False
    obtain sample where sample: "find (\<lambda>c. cm_staffId c = k) records = Some sample"
      using rec by (cases "find (\<lambda>c. cm_staffId c = k) records") (auto simp: find_None_iff)
    let ?f = "\<lambda>x. x\<lparr>cm_amount := t, cm_status := CAdjusted, cm_period := per, cm_remark := why\<rparr>"
    let ?row = "\<lparr>cm_staffId = k, cm_orderId = orderId, cm_campusId = cm_campusId sample, cm_amount = t,
      cm_kind = KAdjustment, cm_status = CAdjusted, cm_fallback = cm_fallback sample, cm_period = per,
      cm_remark = why\<rparr>"
    have r: "rows' = upsert_commission ?row ?f rows"
      using False sample by (simp add: rows'_def adjust_one_def t_def Let_def)
    have P: "same_key x ?row = ?P x" for x
      by (auto simp: same_key_def is_adjustment_of_def)
    have "commissions_ok rows'"
      unfolding r by (rule upsert_keeps_key [OF ok]) (simp add: commission_key_def)
    moreover have "taken_back orderId k rows' = t"
    proof (cases "\<exists>x \<in> set rows. ?P x")
      case True
      then have "0 < count_where ?P rows" by (simp add: count_where_gt0)
      then have "count_where ?P rows = 1" using adjustment_unique [OF ok, of orderId k] by simp
      moreover have "sum_where ?P cm_amount (update_where ?P ?f rows) = t * int (count_where ?P rows)"
        by (rule sum_where_update_const) (simp add: is_adjustment_of_def)
      ultimately show ?thesis using True by (simp add: r upsert_commission_def P taken_back_def)
    next
      case False
      then have "sum_where ?P cm_amount rows = 0"
        by (induction rows) auto
      moreover have "rows' = rows @ [?row]" using False by (simp add: r upsert_commission_def P)
      moreover have "?P ?row" by (simp add: is_adjustment_of_def)
      ultimately show ?thesis by (simp add: taken_back_def)
    qed
    moreover have "taken_back i j rows' = taken_back i j rows" if "j \<noteq> k \<or> i \<noteq> orderId"
    proof -
      have "sum_where (is_adjustment_of i j) cm_amount (update_where ?P ?f rows) =
          sum_where (is_adjustment_of i j) cm_amount rows"
        by (rule sum_where_update_other) (use that in \<open>auto simp: is_adjustment_of_def\<close>)
      moreover have "\<not> is_adjustment_of i j ?row" using that by (auto simp: is_adjustment_of_def)
      ultimately show ?thesis
        by (simp add: r upsert_commission_def P taken_back_def)
    qed
    moreover have "earned i j rows' = earned i j rows"
    proof -
      have "sum_where (\<lambda>c. is_commission_of i c \<and> cm_staffId c = j) cm_amount (update_where ?P ?f rows) =
          sum_where (\<lambda>c. is_commission_of i c \<and> cm_staffId c = j) cm_amount rows"
        by (rule sum_where_update_other) (auto simp: is_adjustment_of_def is_commission_of_def)
      then show ?thesis
        by (simp add: r upsert_commission_def P earned_def is_commission_of_def)
    qed
    ultimately show ?thesis by blast
  qed
  then show "commissions_ok rows'" and "taken_back orderId k rows' = t"
    and "j \<noteq> k \<or> i \<noteq> orderId \<Longrightarrow> taken_back i j rows' = taken_back i j rows"
    and "earned i j rows' = earned i j rows"
    by blast+
qed

lemma filter_update_other:
  "(\<And>x. Q x \<Longrightarrow> \<not> P x \<and> \<not> P (f x)) \<Longrightarrow> filter P (update_where Q f rows) = filter P rows"
  by (induction rows) auto

lemma adjust_one_records:
  "filter (is_commission_of i) (adjust_one per orderId why ratio records k rows) = filter (is_commission_of i) rows"
proof -
  have "filter (is_commission_of i) (upsert_commission row f rows) = filter (is_commission_of i) rows"
    if "cm_kind row = KAdjustment" "\<And>x. cm_kind (f x) = cm_kind x" for row f
    using that unfolding upsert_commission_def
    by (auto simp: is_commission_of_def same_key_def intro!: filter_update_other)
  moreover have "filter (is_commission_of i) (delete_where (is_adjustment_of orderId k) rows) =
      filter (is_commission_of i) rows"
    by (induction rows) (auto simp: delete_where_def is_commission_of_def is_adjustment_of_def)
  ultimately show ?thesis
    by (simp add: adjust_one_def Let_def split: option.split)
qed

lemma refundAdjust_records:
  "filter (is_commission_of i) (commissions (refundAdjust now orderId why ratio s)) =
    filter (is_commission_of i) (commissions s)"
proof -
  have "filter (is_commission_of i) (fold (adjust_one per orderId why r records) ks rows) =
      filter (is_commission_of i) rows" for per r records ks rows
    by (induction ks arbitrary: rows) (simp_all add: adjust_one_records)
  then show ?thesis by (simp add: refundAdjust_def Let_def)
qed

lemma adjust_fold_effect:
  fixes ratio :: rat and orderId :: ident and per :: period and why :: msg
  assumes "commissions_ok rows" and "distinct ks" and "\<forall>k \<in> set ks. \<exists>c \<in> set records. cm_staffId c = k"
  defines "rows' \<equiv> fold (adjust_one per orderId why ratio records) ks rows"
  shows "commissions_ok rows' \<and>
    (\<forall>k. taken_back orderId k rows' =
      (if k \<in> set ks then - js_round (of_int (original_amount records k) * ratio) else taken_back orderId k rows)) \<and>
    (\<forall>i j. i \<noteq> orderId \<longrightarrow> taken_back i j rows' = taken_back i j rows) \<and>
    (\<forall>i j. earned i j rows' = earned i j rows)"
  using assms(1-3) unfolding rows'_def
proof (induction ks arbitrary: rows)
  case (Cons k ks)
  let ?r = "adjust_one per orderId why ratio records k rows"
  have rec: "\<exists>c \<in> set records. cm_staffId c = k" using Cons.prems by simp
  note one = adjust_one_effect [OF Cons.prems(1) rec, where ratio = ratio and orderId = orderId
    and per = per and why = why]
  have "commissions_ok ?r" by (rule one(1))
  from Cons.IH [OF this] Cons.prems show ?case
    using one by simp
qed simp

subsection \<open>Delivering\<close>



subsection \<open>Refunding\<close>

text \<open>A refund takes back exactly its share of a commission: for every person paid for the order,
  the adjustment row holds minus the rounded share (the ratio clamped to 0..1), whatever earlier
  refunds of the order recorded; so the person keeps between nothing and all of the commission,
  the recorded commissions themselves are never altered, no other order is touched, and a
  second run of the same refund changes no balance.\<close>

theorem refund_takes_back_share:
  fixes ratio :: rat and orderId :: ident and why why2 :: msg and now now2 :: millis
  assumes "commissions_ok (commissions s)"
    and "c \<in> set (commissions s)" and "is_commission_of orderId c" and "0 \<le> cm_amount c"
  defines "s' \<equiv> refundAdjust now orderId why ratio s"
  defines "share \<equiv> js_round (of_int (cm_amount c) * max 0 (min 1 ratio))"
  shows "taken_back orderId (cm_staffId c) (commissions s') = - share \<and>
    earned orderId (cm_staffId c) (commissions s') = cm_amount c \<and>
    0 \<le> share \<and> share \<le> cm_amount c \<and>
    commissions_ok (commissions s') \<and>
    (\<forall>i k. i \<noteq> orderId \<longrightarrow> taken_back i k (commissions s') = taken_back i k (commissions s)) \<and>
    (\<forall>i k. earned i k (commissions s') = earned i k (commissions s)) \<and>
    (\<forall>k. taken_back orderId k (commissions (refundAdjust now2 orderId why2 ratio s')) =
       taken_back orderId k (commissions s'))"
proof -
  let ?b = "max 0 (min 1 ratio)"
  let ?rec = "\<lambda>s. filter (is_commission_of orderId) (commissions s)"
  have out: "commissions_ok (commissions (refundAdjust now orderId why ratio s)) \<and>
    (\<forall>k. taken_back orderId k (commissions (refundAdjust now orderId why ratio s)) =
      (if \<exists>d \<in> set (commissions s). is_commission_of orderId d \<and> cm_staffId d = k
       then - js_round (of_int (original_amount (?rec s) k) * ?b) else taken_back orderId k (commissions s))) \<and>
    (\<forall>i j. i \<noteq> orderId \<longrightarrow> taken_back i j (commissions (refundAdjust now orderId why ratio s)) =
      taken_back i j (commissions s)) \<and>
    (\<forall>i j. earned i j (commissions (refundAdjust now orderId why ratio s)) = earned i j (commissions s))"
    if "commissions_ok (commissions s)" for s now why
  proof -
    let ?ks = "js_set (map cm_staffId (?rec s))"
    have ex: "\<forall>k \<in> set ?ks. \<exists>c \<in> set (?rec s). cm_staffId c = k"
      by auto
    have mem: "k \<in> set ?ks \<longleftrightarrow> (\<exists>d \<in> set (commissions s). is_commission_of orderId d \<and> cm_staffId d = k)" for k
      by auto
    have "commissions (refundAdjust now orderId why ratio s) =
        fold (adjust_one (period_of now) orderId why ?b (?rec s)) ?ks (commissions s)"
      by (simp add: refundAdjust_def Let_def js_set_def)
    with adjust_fold_effect [OF that distinct_js_set ex, where ratio = ?b and orderId = orderId
        and per = "period_of now" and why = why]
    show ?thesis unfolding mem by simp
  qed
  let ?k = "cm_staffId c"
  have only: "d = c" if "d \<in> set (commissions s)" "is_commission_of orderId d" "cm_staffId d = ?k" for d
    using that assms(1-3) unfolding commissions_ok_def distinct_map inj_on_def
    by (auto simp: commission_key_def is_commission_of_def)
  have single: "sum_where (\<lambda>d. is_commission_of orderId d \<and> cm_staffId d = ?k) f rows = f c"
    if "distinct rows" "set rows \<subseteq> set (commissions s)" "c \<in> set rows" for f rows
    using that
  proof (induction rows)
    case (Cons d rows)
    show ?case
    proof (cases "d = c")
      case True
      then have "\<forall>x \<in> set rows. \<not> (is_commission_of orderId x \<and> cm_staffId x = ?k)"
        using Cons.prems only by auto
      then have "sum_where (\<lambda>d. is_commission_of orderId d \<and> cm_staffId d = ?k) f rows = 0"
        by (induction rows) auto
      then show ?thesis using True assms(3) by simp
    next
      case False
      then show ?thesis using Cons only [of d] by auto
    qed
  qed simp
  have dist: "distinct (commissions s)" using assms(1) by (auto simp: commissions_ok_def distinct_map)
  have earned_c: "earned orderId ?k (commissions s) = cm_amount c"
    unfolding earned_def by (rule single) (use dist assms(2) in auto)
  have "original_amount (?rec s) ?k = sum_where (\<lambda>d. is_commission_of orderId d \<and> cm_staffId d = ?k)
      (\<lambda>d. \<bar>cm_amount d\<bar>) (commissions s)"
    by (induction "commissions s") (auto simp: original_amount_def sum_where_def)
  also have "\<dots> = cm_amount c"
    using single [OF dist _ assms(2), of "\<lambda>d. \<bar>cm_amount d\<bar>"] assms(4) by simp
  finally have orig: "original_amount (?rec s) ?k = cm_amount c" .
  have s': "commissions_ok (commissions s')" using out [OF assms(1)] by (simp add: s'_def)
  have share: "taken_back orderId ?k (commissions s') = - share"
    using out [OF assms(1)] assms(2,3) by (auto simp: s'_def share_def orig)
  have "0 \<le> of_int (cm_amount c) * ?b" and "of_int (cm_amount c) * ?b \<le> of_int (cm_amount c)"
    using assms(4) by (auto simp: mult_left_le)
  then have bounds: "0 \<le> share" "share \<le> cm_amount c"
    unfolding share_def by (auto intro: js_round_nonneg js_round_le_of_int)
  have recs: "?rec s' = ?rec s" unfolding s'_def by (rule refundAdjust_records)
  have same: "(\<exists>d \<in> set (commissions s'). is_commission_of orderId d \<and> cm_staffId d = k) =
      (\<exists>d \<in> set (commissions s). is_commission_of orderId d \<and> cm_staffId d = k)" for k
  proof -
    have "set (?rec s') = set (?rec s)" using recs by simp
    then show ?thesis by auto
  qed
  have again: "taken_back orderId k (commissions (refundAdjust now2 orderId why2 ratio s')) =
      taken_back orderId k (commissions s')" for k
  proof -
    let ?p = "\<exists>d \<in> set (commissions s). is_commission_of orderId d \<and> cm_staffId d = k"
    let ?x = "- js_round (of_int (original_amount (?rec s) k) * ?b)"
    have "taken_back orderId k (commissions (refundAdjust now2 orderId why2 ratio s')) =
        (if ?p then ?x else taken_back orderId k (commissions s'))"
      using out [OF s', of now2 why2] unfolding same recs by blast
    moreover have "taken_back orderId k (commissions s') = (if ?p then ?x else taken_back orderId k (commissions s))"
      using out [OF assms(1), of now why] unfolding s'_def by blast
    ultimately show ?thesis by (cases ?p) simp_all
  qed
  have earned_same: "earned orderId ?k (commissions s') = cm_amount c"
    using out [OF assms(1), of now why] earned_c unfolding s'_def by simp
  show ?thesis
    using share earned_c bounds s' again out [OF assms(1), of now why] earned_same
    unfolding s'_def by blast
qed

theorem refund_takes_back_share_witness:
  "taken_back ''o1'' ''s1'' (commissions (refundAdjust 0 ''o1'' ''refund'' (1 / 3)
    (recordForDelivered 0 (order1\<lparr>o_riderId := Some ''s1''\<rparr>) db0))) = - 133"
proof -
  let ?s = "recordForDelivered 0 (order1\<lparr>o_riderId := Some ''s1''\<rparr>) db0"
  let ?c = "commission_row 0 db0 (order1\<lparr>o_riderId := Some ''s1''\<rparr>) ''s1''"
  have 1: "commissions_ok (commissions ?s)" by code_simp
  have 2: "?c \<in> set (commissions ?s)" by code_simp
  have 3: "is_commission_of ''o1'' ?c" by code_simp
  have 4: "0 \<le> cm_amount ?c" by code_simp
  have 5: "cm_staffId ?c = ''s1''" by code_simp
  have 6: "js_round (of_int (cm_amount ?c) * max 0 (min 1 (1 / 3))) = 133" by code_simp
  from refund_takes_back_share [OF 1 2 3 4, of 0 "''refund''" "1 / 3"] 5 6 show ?thesis by simp
qed

end
