(* ===== verification/Coupon_Admin.thy ===== *)
theory Coupon_Admin
  imports Coupons
begin

text \<open>
  The administration of coupons in \<open>src/admin/admin.service.ts\<close>: \<open>createCoupon\<close>,
  \<open>deleteCoupon\<close>, \<open>updateCoupon\<close>, \<open>issueCoupon\<close> and \<open>resolveCouponTargets\<close>. An optional field of
  a request body is an option; a field that may also be sent as \<open>null\<close> is an option of an
  option.
\<close>

definition audit :: "string \<Rightarrow> string \<Rightarrow> ident \<Rightarrow> (db, unit) handler" where
  "audit operator action entityId s =
    (s\<lparr>audits := audits s @ [\<lparr>al_operator = operator, al_action = action, al_entityId = entityId\<rparr>]\<rparr>, Inr ())"

lemma keeps_audit_books [keeps_intros]: "keeps coupon_books (audit operator action k)"
  by (simp add: keeps_def audit_def)

subsection \<open>Create and delete\<close>

record create_coupon_body =
  cc_name :: string
  cc_kind :: string
  cc_trigger :: string
  cc_remark :: string
  cc_amount :: cents
  cc_threshold :: cents
  cc_total :: "int option"
  cc_expiresAt :: "millis option option"
  cc_featuredAfterPay :: "bool option"
  cc_perUserLimit :: "int option"
  cc_targetedOnly :: "bool option"

definition coupon_of_body :: "ident \<Rightarrow> create_coupon_body \<Rightarrow> millis option \<Rightarrow> ident \<Rightarrow> coupon" where
  "coupon_of_body newId b expiresAt campusId =
    (let kind = (if cc_kind b = ''partner'' then ''partner'' else ''platform'')
     in \<lparr>c_id = newId, c_campusId = campusId, c_name = cc_name b, c_kind = kind,
         c_trigger = (if cc_trigger b \<in> {''manual'', ''lottery'', ''signup''} then cc_trigger b else ''manual''),
         c_remark = trim (cc_remark b),
         c_amount = (if kind = ''partner'' then 0 else cc_amount b),
         c_threshold = (if kind = ''partner'' then 0 else cc_threshold b),
         c_total = cc_total b, c_status = ''active'', c_expiresAt = expiresAt,
         c_perUserLimit = (case cc_perUserLimit b of Some n \<Rightarrow> n | None \<Rightarrow> 1),
         c_targetedOnly = (case cc_targetedOnly b of Some x \<Rightarrow> x | None \<Rightarrow> False),
         c_featuredAfterPay = (case cc_featuredAfterPay b of Some x \<Rightarrow> x | None \<Rightarrow> False),
         c_issued = 0, c_claimed = 0, c_used = 0\<rparr>)"

text \<open>\<open>cc_expiresAt = Some None\<close> is a date that does not parse.\<close>

definition createCoupon ::
  "millis \<Rightarrow> ident \<Rightarrow> create_coupon_body \<Rightarrow> string \<Rightarrow> ident \<Rightarrow> (db, coupon) handler" where
  "createCoupon now newId b operator campusId s =
    (let expiry = (case cc_expiresAt b of
           None \<Rightarrow> Inr None
         | Some None \<Rightarrow> Inl (BadRequest ''the expiry date is malformed'')
         | Some (Some t) \<Rightarrow> if t \<le> now then Inl (BadRequest ''the expiry date must be in the future'')
             else Inr (Some t))
     in case expiry of
          Inl e \<Rightarrow> reject e s
        | Inr expiresAt \<Rightarrow>
            unless (\<not> (cc_kind b = ''partner'' \<and> (cc_amount b \<noteq> 0 \<or> cc_threshold b \<noteq> 0)))
              (BadRequest ''a partner coupon has amount and threshold 0'')
            (unless (cc_kind b = ''partner'' \<or> 0 < cc_amount b)
              (BadRequest ''the amount of a money coupon must be positive'')
            (let c = coupon_of_body newId b expiresAt campusId
             in and_then (\<lambda>s. (s\<lparr>coupons := coupons s @ [c]\<rparr>, Inr ()))
               (\<lambda>_. and_then (audit operator ''coupon.create'' newId) (\<lambda>_. reply c)))) s)"

definition find_campus_coupon :: "ident \<Rightarrow> ident \<Rightarrow> db \<Rightarrow> coupon option" where
  "find_campus_coupon cid campusId s = find (\<lambda>c. c_id c = cid \<and> c_campusId c = campusId) (coupons s)"

definition deleteCoupon :: "ident \<Rightarrow> string \<Rightarrow> ident \<Rightarrow> (db, unit) handler" where
  "deleteCoupon cid operator campusId s =
    (case find_campus_coupon cid campusId s of
       None \<Rightarrow> reject (NotFound ''no such coupon'') s
     | Some c \<Rightarrow>
         unless (\<not> (0 < c_issued c \<or> 0 < c_claimed c)) (BadRequest ''the coupon has been given out'')
         (and_then (\<lambda>s. (s\<lparr>coupons := delete_where (\<lambda>c. c_id c = cid) (coupons s)\<rparr>, Inr ()))
           (\<lambda>_. audit operator ''coupon.delete'' cid)) s)"

subsection \<open>Update\<close>

record update_coupon_body =
  cu_status :: "string option"
  cu_name :: "string option"
  cu_remark :: "string option"
  cu_featuredAfterPay :: "bool option"
  cu_perUserLimit :: "int option"
  cu_targetedOnly :: "bool option"
  cu_amount :: "cents option"
  cu_threshold :: "cents option"
  cu_total :: "int option option"
  cu_expiresAt :: "millis option option"

definition apply_coupon_patch :: "update_coupon_body \<Rightarrow> coupon \<Rightarrow> coupon" where
  "apply_coupon_patch b c = c\<lparr>
     c_status := (case cu_status b of Some x \<Rightarrow> x | None \<Rightarrow> c_status c),
     c_name := (case cu_name b of Some x \<Rightarrow> x | None \<Rightarrow> c_name c),
     c_remark := (case cu_remark b of Some x \<Rightarrow> x | None \<Rightarrow> c_remark c),
     c_featuredAfterPay := (case cu_featuredAfterPay b of Some x \<Rightarrow> x | None \<Rightarrow> c_featuredAfterPay c),
     c_perUserLimit := (case cu_perUserLimit b of Some x \<Rightarrow> x | None \<Rightarrow> c_perUserLimit c),
     c_targetedOnly := (case cu_targetedOnly b of Some x \<Rightarrow> x | None \<Rightarrow> c_targetedOnly c),
     c_amount := (case cu_amount b of Some x \<Rightarrow> x | None \<Rightarrow> c_amount c),
     c_threshold := (case cu_threshold b of Some x \<Rightarrow> x | None \<Rightarrow> c_threshold c),
     c_total := (case cu_total b of Some x \<Rightarrow> x | None \<Rightarrow> c_total c),
     c_expiresAt := (case cu_expiresAt b of Some x \<Rightarrow> x | None \<Rightarrow> c_expiresAt c)\<rparr>"

lemma apply_coupon_patch_simps [simp]:
  "c_id (apply_coupon_patch b c) = c_id c"
  "c_campusId (apply_coupon_patch b c) = c_campusId c"
  "c_claimed (apply_coupon_patch b c) = c_claimed c"
  "c_total (apply_coupon_patch b c) = (case cu_total b of Some x \<Rightarrow> x | None \<Rightarrow> c_total c)"
  "c_amount (apply_coupon_patch b c) = (case cu_amount b of Some x \<Rightarrow> x | None \<Rightarrow> c_amount c)"
  by (simp_all add: apply_coupon_patch_def)

definition empty_coupon_patch :: "update_coupon_body \<Rightarrow> bool" where
  "empty_coupon_patch b \<longleftrightarrow> cu_status b = None \<and> cu_name b = None \<and> cu_remark b = None \<and>
     cu_featuredAfterPay b = None \<and> cu_perUserLimit b = None \<and> cu_targetedOnly b = None \<and>
     cu_amount b = None \<and> cu_threshold b = None \<and> cu_total b = None \<and> cu_expiresAt b = None"

definition updateCoupon ::
  "ident \<Rightarrow> update_coupon_body \<Rightarrow> string \<Rightarrow> ident \<Rightarrow> (db, coupon) handler" where
  "updateCoupon cid b operator campusId s =
    (case find_campus_coupon cid campusId s of
       None \<Rightarrow> reject (NotFound ''no such coupon'') s
     | Some before \<Rightarrow>
         unless (\<not> ((cu_amount b \<noteq> None \<or> cu_threshold b \<noteq> None) \<and> 0 < c_claimed before))
           (BadRequest ''amount and threshold are locked once given out'')
         (unless (\<not> (c_kind before = ''partner'' \<and> (cu_amount b \<noteq> None \<or> cu_threshold b \<noteq> None)))
           (BadRequest ''a partner coupon has amount and threshold 0'')
         (unless (case cu_total b of Some (Some t) \<Rightarrow> c_claimed before \<le> t | _ \<Rightarrow> True)
           (BadRequest ''the total is below the number given out'')
         (unless (case cu_amount b of Some a \<Rightarrow> \<not> (c_kind before = ''platform'' \<and> a \<le> 0) | None \<Rightarrow> True)
           (BadRequest ''the amount of a money coupon must be positive'')
         (unless (\<not> empty_coupon_patch b) (BadRequest ''nothing to change'')
         (and_then (\<lambda>s. (s\<lparr>coupons := update_where (\<lambda>c. c_id c = cid) (apply_coupon_patch b) (coupons s)\<rparr>, Inr ()))
           (\<lambda>_. and_then (audit operator ''coupon.update'' cid)
             (\<lambda>_. reply (apply_coupon_patch b before)))))))) s)"

subsection \<open>Issue to many\<close>

record issue_coupon_body =
  ic_userIds :: "ident list"
  ic_count :: "int option"
  ic_phones :: "string list"
  ic_buildingId :: ident
  ic_floor :: int
  ic_roomNos :: "string list"

definition resolveCouponTargets :: "db \<Rightarrow> issue_coupon_body \<Rightarrow> ident \<Rightarrow> ident list" where
  "resolveCouponTargets s b campusId =
    (if ic_phones b \<noteq> []
     then map u_id (filter (\<lambda>u. u_campusId u = campusId \<and> u_phone u \<in> set (ic_phones b)) (users s))
     else []) @
    (if ic_buildingId b \<noteq> []
     then map u_id (filter (\<lambda>u. u_campusId u = campusId \<and>
        (\<exists>a \<in> set (addresses s). a_userId a = u_id u \<and> a_buildingId a = ic_buildingId b \<and>
           (ic_floor b \<noteq> 0 \<longrightarrow> a_floor a = ic_floor b) \<and>
           (ic_roomNos b \<noteq> [] \<longrightarrow> a_room a \<in> set (ic_roomNos b)))) (users s))
     else [])"

definition unused_of :: "db \<Rightarrow> ident \<Rightarrow> ident \<Rightarrow> int" where
  "unused_of s cid userId =
    int (count_where (\<lambda>u. uc_couponId u = cid \<and> uc_userId u = userId \<and> uc_status u \<noteq> HUsed) (user_coupons s))"

definition grants_for :: "db \<Rightarrow> coupon \<Rightarrow> int option \<Rightarrow> ident list \<Rightarrow> (ident \<times> int) list" where
  "grants_for s c count userIds =
    (let limit = c_perUserLimit c;
         n = (case count of Some k \<Rightarrow> k | None \<Rightarrow> 1);
         wantCount = (if limit = 0 then n else min n limit)
     in filter (\<lambda>g. 0 < snd g)
          (map (\<lambda>u. (u, if limit = 0 then wantCount else min wantCount (max 0 (limit - unused_of s (c_id c) u))))
            userIds))"

definition holdings_for :: "(nat \<Rightarrow> ident) \<Rightarrow> ident \<Rightarrow> millis \<Rightarrow> (ident \<times> int) list \<Rightarrow> user_coupon list" where
  "holdings_for ids cid now grants =
    map (\<lambda>(i, u). new_holding (ids i) u cid now)
      (enumerate 0 (concat (map (\<lambda>(u, n). replicate (nat n) u) grants)))"

text \<open>The end of \<open>issueCoupon\<close>: the quota and the holdings in one transaction, then the audit.\<close>

definition issue_commit ::
  "millis \<Rightarrow> (nat \<Rightarrow> ident) \<Rightarrow> coupon \<Rightarrow> string \<Rightarrow> (ident \<times> int) list \<Rightarrow> (db, (ident \<times> int) list) handler"
where
  "issue_commit now ids c operator grants =
    and_then
      (transaction (\<lambda>s. case take_room (c_id c) (c_total c) (sum_list (map snd grants)) s of (s', n) \<Rightarrow>
         if n = 0 then (s', Inl (BadRequest ''more than the remaining quota''))
         else (add_holdings (holdings_for ids (c_id c) now grants) s', Inr ())))
      (\<lambda>_. and_then (audit operator ''coupon.issue'' (c_id c)) (\<lambda>_. reply grants))"

definition issueCoupon ::
  "millis \<Rightarrow> (nat \<Rightarrow> ident) \<Rightarrow> ident \<Rightarrow> issue_coupon_body \<Rightarrow> string \<Rightarrow> ident \<Rightarrow> (db, (ident \<times> int) list) handler"
where
  "issueCoupon now ids cid b operator campusId s =
    (case find_campus_coupon cid campusId s of
       None \<Rightarrow> reject (NotFound ''no such coupon'') s
     | Some c \<Rightarrow>
         unless (c_status c = ''active'') (BadRequest ''the coupon is off the shelf'')
         (unless (unexpired now c) (BadRequest ''the coupon has expired'')
         (let targeted = resolveCouponTargets s b campusId;
              known = filter (\<lambda>u. u_id u \<in> set (ic_userIds b) \<and> u_campusId u = campusId) (users s);
              userIds = js_set (ic_userIds b @ targeted);
              grants = grants_for s c (ic_count b) userIds
          in unless (ic_userIds b = [] \<or> length known = length (ic_userIds b))
               (BadRequest ''some users are unknown or of another campus'')
             (unless (userIds \<noteq> []) (BadRequest ''nobody to give the coupon to'')
             (unless (grants \<noteq> []) (BadRequest ''everybody has reached the limit per user'')
             (issue_commit now ids c operator grants))))) s)"

subsection \<open>The books are kept\<close>

lemma find_campus_coupon_row:
  assumes "coupon_books s" and "find_campus_coupon cid campus s = Some c"
  shows "c \<in> set (coupons s)" and "c_id c = cid" and "find_row c_id cid (coupons s) = Some c"
proof -
  show c: "c \<in> set (coupons s)" "c_id c = cid"
    using assms(2) by (auto simp: find_campus_coupon_def find_Some_iff in_set_conv_nth)
  then show "find_row c_id cid (coupons s) = Some c"
    using find_row_unique [OF books_distinct [OF assms(1)]] by auto
qed

lemma keeps_updateCoupon: "keeps coupon_books (updateCoupon cid b operator campus)"
proof (rule keepsI)
  fix s assume books: "coupon_books s"
  show "coupon_books (fst (updateCoupon cid b operator campus s))"
  proof (cases "find_campus_coupon cid campus s")
    case None
    then show ?thesis using books by (simp add: updateCoupon_def handler_simps)
  next
    case (Some before)
    note row = find_campus_coupon_row [OF books Some]
    have only: "c = before" if "c \<in> set (coupons s)" "c_id c = cid" for c
      using that row unique_key [OF books_distinct [OF books]] by auto
    have "coupon_books (s\<lparr>coupons := update_where (\<lambda>c. c_id c = cid) (apply_coupon_patch b) (coupons s)\<rparr>)"
      if "case cu_total b of Some (Some t) \<Rightarrow> c_claimed before \<le> t | _ \<Rightarrow> True"
    proof (rule books_update [OF books])
      fix c t assume c: "c \<in> set (coupons s)" "c_id c = cid" "c_total (apply_coupon_patch b c) = Some t"
      have "case c_total before of None \<Rightarrow> True | Some t \<Rightarrow> c_claimed before \<le> t"
        using books row(1) by (auto simp: coupon_books_def)
      then show "c_claimed c \<le> t"
        using that c only [OF c(1,2)] by (auto split: option.splits)
    qed simp_all
    then show ?thesis
      using books Some by (simp add: updateCoupon_def unless_apply and_then_def audit_def reply_def)
  qed
qed

lemma keeps_deleteCoupon: "keeps coupon_books (deleteCoupon cid operator campus)"
proof (rule keepsI)
  fix s assume books: "coupon_books s"
  show "coupon_books (fst (deleteCoupon cid operator campus s))"
  proof (cases "find_campus_coupon cid campus s")
    case None
    then show ?thesis using books by (simp add: deleteCoupon_def handler_simps)
  next
    case (Some c)
    note row = find_campus_coupon_row [OF books Some]
    have "coupon_books (s\<lparr>coupons := delete_where (\<lambda>c. c_id c = cid) (coupons s)\<rparr>)" if "\<not> 0 < c_claimed c"
    proof -
      have "c_claimed c = holdings_of s cid" using books row by (auto simp: coupon_books_def)
      then have "holdings_of s cid = 0" using that holdings_of_nonneg [of s cid] by linarith
      then have "\<forall>u \<in> set (user_coupons s). uc_couponId u \<noteq> cid"
        by (simp add: holdings_of_def count_where_0)
      moreover from this have "\<forall>u \<in> set (user_coupons s).
          uc_couponId u \<in> c_id ` set (delete_where (\<lambda>c. c_id c = cid) (coupons s))"
        using books by (fastforce simp: coupon_books_def delete_where_def)
      ultimately show ?thesis
        using books
        by (auto simp: coupon_books_def delete_where_def holdings_of_def distinct_map inj_on_def)
    qed
    then show ?thesis
      using books Some by (simp add: deleteCoupon_def handler_simps audit_def)
  qed
qed

lemma createCoupon_keeps_books:
  assumes books: "coupon_books s" and "newId \<notin> c_id ` set (coupons s)"
    and "\<And>t. cc_total b = Some t \<Longrightarrow> 0 \<le> t"
  shows "coupon_books (fst (createCoupon now newId b operator campus s))"
proof -
  have none: "holdings_of s newId = 0"
    using books assms(2) by (force simp: coupon_books_def holdings_of_def count_where_0)
  have "coupon_books (s\<lparr>coupons := coupons s @ [coupon_of_body newId b e campus]\<rparr>)" for e
    using books assms(2,3) none
    by (auto simp: coupon_books_def coupon_of_body_def Let_def holdings_of_def split: option.splits)
  then show ?thesis
    using books by (simp add: createCoupon_def handler_simps audit_def Let_def split: sum.splits)
qed

lemma length_holdings_for:
  assumes "\<forall>g \<in> set grants. 0 \<le> snd g"
  shows "int (length (holdings_for ids cid now grants)) = sum_list (map snd grants)"
  using assms by (induction grants) (auto simp: holdings_for_def)

lemma holdings_for_coupon: "\<forall>h \<in> set (holdings_for ids cid now grants). uc_couponId h = cid"
  by (auto simp: holdings_for_def new_holding_def)

lemma grants_for_pos: "\<forall>g \<in> set (grants_for s c n us). 0 < snd g"
  by (auto simp: grants_for_def Let_def)

lemma issue_commit_result:
  assumes "distinct (map c_id (coupons s))" and "c \<in> set (coupons s)"
    and "\<forall>g \<in> set grants. 0 < snd g"
  shows "issue_commit now ids c operator grants s =
    (if has_room (c_total c) (sum_list (map snd grants)) c
     then (fst (audit operator ''coupon.issue'' (c_id c)
        (booking (c_id c) (holdings_for ids (c_id c) now grants) s)), Inr grants)
     else (s, Inl (BadRequest ''more than the remaining quota'')))"
proof -
  let ?n = "sum_list (map snd grants)"
  obtain s' k where t: "take_room (c_id c) (c_total c) ?n s = (s', k)" by force
  have len: "int (length (holdings_for ids (c_id c) now grants)) = ?n"
    using assms(3) by (intro length_holdings_for) (auto simp: less_imp_le)
  show ?thesis
    using take_room_found [OF assms(1) find_row_unique [OF assms(1,2)] t] t
    by (auto simp: issue_commit_def handler_simps audit_def booking_def len split: if_splits)
qed

text \<open>The outcome of \<open>issueCoupon\<close>: an exception that leaves the state, or the booking of the
  computed grants.\<close>

lemma issueCoupon_cases:
  "(\<exists>e. issueCoupon now ids cid b operator campus s = (s, Inl e)) \<or>
   (\<exists>c us. find_campus_coupon cid campus s = Some c \<and> c_status c = ''active'' \<and> unexpired now c \<and>
      distinct us \<and> us = js_set (ic_userIds b @ resolveCouponTargets s b campus) \<and>
      issueCoupon now ids cid b operator campus s =
        issue_commit now ids c operator (grants_for s c (ic_count b) us) s)"
proof (cases "find_campus_coupon cid campus s")
  case None
  then show ?thesis by (simp add: issueCoupon_def reject_def)
next
  case (Some c)
  define us where "us = js_set (ic_userIds b @ resolveCouponTargets s b campus)"
  define g where "g = grants_for s c (ic_count b) us"
  define known where "known = filter (\<lambda>u. u_id u \<in> set (ic_userIds b) \<and> u_campusId u = campus) (users s)"
  have r: "issueCoupon now ids cid b operator campus s =
      unless (c_status c = ''active'') (BadRequest ''the coupon is off the shelf'')
     (unless (unexpired now c) (BadRequest ''the coupon has expired'')
     (unless (ic_userIds b = [] \<or> length known = length (ic_userIds b))
        (BadRequest ''some users are unknown or of another campus'')
     (unless (us \<noteq> []) (BadRequest ''nobody to give the coupon to'')
     (unless (g \<noteq> []) (BadRequest ''everybody has reached the limit per user'')
     (issue_commit now ids c operator g))))) s"
    by (simp only: issueCoupon_def Some option.case Let_def us_def g_def known_def)
  have us: "distinct us" by (simp add: us_def)
  have "(\<exists>e. issueCoupon now ids cid b operator campus s = (s, Inl e)) \<or>
      c_status c = ''active'' \<and> unexpired now c \<and>
      issueCoupon now ids cid b operator campus s = issue_commit now ids c operator g s"
    unfolding r by (simp add: unless_apply)
  then show ?thesis using Some us by (auto simp: us_def g_def)
qed

lemma issue_commit_keeps_books:
  assumes books: "coupon_books s" and c: "c \<in> set (coupons s)"
  shows "coupon_books (fst (issue_commit now ids c operator (grants_for s c n us) s))"
proof -
  let ?g = "grants_for s c n us"
  have len: "int (length (holdings_for ids (c_id c) now ?g)) = sum_list (map snd ?g)"
    using grants_for_pos [of s c n us] by (intro length_holdings_for) (auto simp: less_imp_le)
  have "has_room (c_total c) (sum_list (map snd ?g)) c \<Longrightarrow>
      coupon_books (booking (c_id c) (holdings_for ids (c_id c) now ?g) s)"
    using booking_books [OF books c refl, of "holdings_for ids (c_id c) now ?g"] len holdings_for_coupon
    by simp
  then show ?thesis
    using issue_commit_result [OF books_distinct [OF books] c grants_for_pos] books
      keepsD [OF keeps_audit_books] by simp
qed

lemma keeps_issueCoupon: "keeps coupon_books (issueCoupon now ids cid b operator campus)"
proof (rule keepsI)
  fix s assume books: "coupon_books s"
  then show "coupon_books (fst (issueCoupon now ids cid b operator campus s))"
    using issueCoupon_cases [of now ids cid b operator campus s]
      issue_commit_keeps_books find_campus_coupon_row(1) by fastforce
qed

subsection \<open>The limit per user\<close>

lemma users_of_holdings:
  "map uc_userId (holdings_for ids cid now grants) = concat (map (\<lambda>(u, n). replicate (nat n) u) grants)"
proof -
  have snd: "map (uc_userId \<circ> (\<lambda>(i, u). new_holding (ids i) u cid now)) ixs = map snd ixs" for ixs
    by (induction ixs) (auto simp: new_holding_def)
  show ?thesis unfolding holdings_for_def map_map snd by (rule map_snd_enumerate)
qed

lemma count_by_user:
  "count_where (\<lambda>h. uc_couponId h = cid \<and> uc_userId h = u \<and> uc_status h \<noteq> HUsed)
     (holdings_for ids cid now grants) = length (filter ((=) u) (map uc_userId (holdings_for ids cid now grants)))"
proof -
  have "\<forall>h \<in> set (holdings_for ids cid now grants). uc_couponId h = cid \<and> uc_status h = HClaimed"
    by (auto simp: holdings_for_def new_holding_def)
  then show ?thesis
    unfolding count_where_def filter_map length_map
    by (intro arg_cong [where f = length] filter_cong) auto
qed

lemma length_filter_replicates:
  "length (filter ((=) u) (concat (map (\<lambda>(u, n). replicate (nat n) u) grants))) =
   (\<Sum>(v, n)\<leftarrow>grants. if v = u then nat n else 0)"
  by (induction grants) auto

lemma grant_sum_le:
  assumes "distinct us" and "\<And>v. 0 \<le> f v"
  shows "int (\<Sum>(v, n)\<leftarrow>filter (\<lambda>g. 0 < snd g) (map (\<lambda>u. (u, f u)) us). if v = u then nat n else 0)
    = (if u \<in> set us then f u else 0)"
  using assms by (induction us) (auto simp: order.antisym not_less)

lemma issue_unused:
  assumes "distinct us" and "0 < c_perUserLimit c" and "case n of None \<Rightarrow> True | Some k \<Rightarrow> 0 \<le> k"
  shows "unused_of (booking (c_id c) (holdings_for ids (c_id c) now (grants_for s c n us)) s) (c_id c) u
    \<le> max (unused_of s (c_id c) u) (c_perUserLimit c)"
proof -
  let ?lim = "c_perUserLimit c" and ?n = "case n of Some k \<Rightarrow> k | None \<Rightarrow> 1"
  let ?f = "\<lambda>v. min (min ?n ?lim) (max 0 (?lim - unused_of s (c_id c) v))"
  have g: "grants_for s c n us = filter (\<lambda>g. 0 < snd g) (map (\<lambda>u. (u, ?f u)) us)"
    using assms(2) by (simp add: grants_for_def Let_def)
  have pos: "0 \<le> ?f v" for v using assms(2,3) by (auto split: option.splits)
  have "unused_of (booking (c_id c) (holdings_for ids (c_id c) now (grants_for s c n us)) s) (c_id c) u =
      unused_of s (c_id c) u +
      int (\<Sum>(v, n)\<leftarrow>grants_for s c n us. if v = u then nat n else 0)"
    by (simp add: unused_of_def booking_def add_holdings_def count_by_user users_of_holdings
      length_filter_replicates)
  also have "\<dots> = unused_of s (c_id c) u + (if u \<in> set us then ?f u else 0)"
    unfolding g using grant_sum_le [of us ?f u, OF assms(1) pos] by simp
  also have "\<dots> \<le> max (unused_of s (c_id c) u) ?lim"
    using assms(2) by auto
  finally show ?thesis .
qed

end
