(* ===== verification/Coupon_Theorems.thy ===== *)
theory Coupon_Theorems
  imports Orders Coupon_Admin Samples
begin

text \<open>
  The coupon books under every channel that touches a coupon or a holding, the wheel and the
  per-user limits.
\<close>

subsection \<open>Every channel keeps the books\<close>

lemma keeps_lock_coupon: "keeps coupon_books (lock_coupon uid k)"
proof (rule keepsI)
  fix s assume books: "coupon_books s"
  show "coupon_books (fst (lock_coupon uid k s))"
  proof (cases "truthy k")
    case None
    then show ?thesis using books by (simp add: lock_coupon_def reply_def)
  next
    case (Some c)
    let ?P = "\<lambda>u. uc_id u = c \<and> uc_userId u = uid \<and> uc_status u \<in> {HClaimed, HReleased}"
    let ?f = "\<lambda>u::user_coupon. u\<lparr>uc_status := HLocked\<rparr>"
    have "fst (lock_coupon uid k s) = user_coupons_update (update_where ?P ?f) s"
      using Some by (simp add: lock_coupon_def claim_or_def update_many_def)
    moreover have "map uc_couponId (update_where ?P ?f (user_coupons s)) = map uc_couponId (user_coupons s)"
      by (rule map_key_update_where) simp
    ultimately show ?thesis
      using books books_cong [of "user_coupons_update (update_where ?P ?f) s" s] by simp
  qed
qed

lemma keeps_createOrder: "keeps coupon_books (createOrder tz now newId no uid cid dto)"
proof -
  have "keeps coupon_books (let o' = new_order newId no now uid a dto st in
      and_then (transaction (and_then (lock_coupon uid (dt_couponId dto))
          (\<lambda>_. modify (\<lambda>s. s\<lparr>orders := orders s @ [o']\<rparr>))))
        (\<lambda>_. read (\<lambda>s. (o', managerTipFor s a))))" for a st
    unfolding Let_def by (intro keeps_intros keeps_lock_coupon) simp
  then show ?thesis
    unfolding createOrder_def
    by (intro keeps_and_then) (auto intro: reads_keeps intro!: keeps_and_then split: prod.split)
qed

lemma keeps_claim_order:
  "(\<And>s os. I s \<Longrightarrow> I (s\<lparr>orders := os\<rparr>)) \<Longrightarrow> keeps I (claim_order k st f e)"
  by (rule keepsI) (simp add: claim_order_state)

lemma keeps_cancel: "keeps coupon_books (cancel uid oid)"
proof -
  have "keeps coupon_books (cancel_commit raw)" for raw
    unfolding cancel_commit_def
    by (intro keeps_and_then keeps_claim_order keeps_modify keeps_read) (auto split: option.split)
  then show ?thesis
    unfolding cancel_def
    by (intro keeps_transaction keepsI)
      (auto simp: reject_def unless_def keeps_def split: option.split)
qed

lemma close_one_books: "coupon_books s \<Longrightarrow> coupon_books (close_one oc s)"
  by (simp add: close_one_def Let_def split: option.split)

lemma expireAll_books: "coupon_books s \<Longrightarrow> coupon_books (fst (expireAllPendingOrders now s))"
proof -
  have "coupon_books (fold close_one ocs s)" if "coupon_books s" for ocs s
    using that by (induction ocs arbitrary: s) (auto intro: close_one_books)
  then show "coupon_books s \<Longrightarrow> coupon_books (fst (expireAllPendingOrders now s))"
    by (simp add: expireAllPendingOrders_def closeStalePendingOrders_def Let_def)
qed

text \<open>One request to the program that may touch coupons or holdings, with all of its outcomes.\<close>

inductive coupon_step :: "db \<Rightarrow> db \<Rightarrow> bool" where
  claim: "coupon_step s (fst (claimCoupon now newId uid cid campus s))"
| signup: "coupon_step s (fst (grantSignupCoupons now ids uid campus s))"
| draw: "coupon_step s (fst (drawWheel now rnd did newId uid campus s))"
| create: "newId \<notin> c_id ` set (coupons s) \<Longrightarrow> (\<And>t. cc_total b = Some t \<Longrightarrow> 0 \<le> t) \<Longrightarrow>
    coupon_step s (fst (createCoupon now newId b operator campus s))"
| edit: "coupon_step s (fst (updateCoupon cid ub operator campus s))"
| remove: "coupon_step s (fst (deleteCoupon cid operator campus s))"
| issue: "coupon_step s (fst (issueCoupon now ids cid ib operator campus s))"
| order: "coupon_step s (fst (createOrder tz now newId no uid campus dto s))"
| payment: "coupon_step s (fst (pay tz bonus now ids k uid oid s))"
| timeout: "coupon_step s (fst (expireAllPendingOrders now s))"
| cancellation: "coupon_step s (fst (cancel uid oid s))"

lemma coupon_step_books: "coupon_step s s' \<Longrightarrow> coupon_books s \<Longrightarrow> coupon_books s'"
  by (induction rule: coupon_step.induct)
    (blast intro: keepsD keeps_claimCoupon keeps_grantSignupCoupons keeps_drawWheel createCoupon_keeps_books
      keeps_updateCoupon keeps_deleteCoupon keeps_issueCoupon keeps_createOrder keeps_pay expireAll_books
      keeps_cancel)+

text \<open>C6. No coupon is ever over-issued: in every state reached by any sequence of requests (claiming,
  sign-up grants, wheel draws, creating, editing, deleting and issuing coupons, placing, paying,
  expiring and cancelling orders) the counter of a coupon is the number of its holdings and is
  at most its total, and no holding has lost its coupon.\<close>

theorem coupons_never_overissued:
  assumes "coupon_books s" and "coupon_step\<^sup>*\<^sup>* s s'"
  shows "coupon_books s' \<and> (\<forall>c \<in> set (coupons s'). \<forall>t. c_total c = Some t \<longrightarrow> holdings_of s' (c_id c) \<le> t)"
proof -
  have books: "coupon_books s'"
    using assms(2,1) by (induction rule: rtranclp_induct) (auto intro: coupon_step_books)
  then show ?thesis by (fastforce simp: coupon_books_def)
qed

theorem coupons_never_overissued_witness:
  "coupon_books (fst (pay 0 None 2000 sample_ids ''PKG-1'' ''u1'' ''o1''
    (fst (claimCoupon 5 ''h2'' ''u2'' ''c1'' ''ca1'' db0)))) \<and> c_total coupon1 = Some 2 \<and>
   map c_claimed (coupons (fst (claimCoupon 5 ''h2'' ''u2'' ''c1'' ''ca1'' db0))) = [2]"
proof -
  let ?s = "fst (claimCoupon 5 ''h2'' ''u2'' ''c1'' ''ca1'' db0)"
  have 1: "coupon_books db0" by code_simp
  have "coupon_step db0 ?s" and "coupon_step ?s (fst (pay 0 None 2000 sample_ids ''PKG-1'' ''u1'' ''o1'' ?s))"
    by (rule coupon_step.claim, rule coupon_step.payment)
  then have 2: "coupon_step\<^sup>*\<^sup>* db0 (fst (pay 0 None 2000 sample_ids ''PKG-1'' ''u1'' ''o1'' ?s))"
    by (rule converse_rtranclp_into_rtranclp [OF _ r_into_rtranclp])
  have 3: "c_total coupon1 = Some 2" and 4: "map c_claimed (coupons ?s) = [2]" by code_simp+
  from coupons_never_overissued [OF 1 2] 3 4 show ?thesis by blast
qed

subsection \<open>Issuing by the administration\<close>

text \<open>Issuing respects the limit per user and the total: whatever users and count are asked for, nobody
  holds more unused coupons afterwards than the limit or than before, and the books stay right.\<close>

theorem issue_respects_limit:
  assumes "coupon_books s" and "find_campus_coupon cid campus s = Some c" and "0 < c_perUserLimit c"
    and "case ic_count b of None \<Rightarrow> True | Some k \<Rightarrow> 0 \<le> k"
  shows "coupon_books (fst (issueCoupon now ids cid b operator campus s)) \<and>
    unused_of (fst (issueCoupon now ids cid b operator campus s)) cid u \<le> max (unused_of s cid u) (c_perUserLimit c)"
proof
  show "coupon_books (fst (issueCoupon now ids cid b operator campus s))"
    using keeps_issueCoupon assms(1) by (rule keepsD)
  note row = find_campus_coupon_row [OF assms(1,2)]
  consider e where "issueCoupon now ids cid b operator campus s = (s, Inl e)"
    | us where "distinct us"
      "issueCoupon now ids cid b operator campus s =
        issue_commit now ids c operator (grants_for s c (ic_count b) us) s"
    using issueCoupon_cases [of now ids cid b operator campus s] assms(2) by fastforce
  then show "unused_of (fst (issueCoupon now ids cid b operator campus s)) cid u
      \<le> max (unused_of s cid u) (c_perUserLimit c)"
  proof cases
    case (2 us)
    let ?g = "grants_for s c (ic_count b) us"
    have "unused_of (fst (audit operator a k s0)) cid u = unused_of s0 cid u" for a k s0
      by (simp add: unused_of_def audit_def)
    then show ?thesis
      using 2(2) issue_commit_result [OF books_distinct [OF assms(1)] row(1) grants_for_pos [of s c "ic_count b" us], of now ids operator]
        issue_unused [OF 2(1) assms(3,4), of ids now s u] row(2) by auto
  qed simp
qed

theorem issue_respects_limit_witness:
  "unused_of (fst (issueCoupon 0 sample_ids ''c1'' \<lparr>ic_userIds = [''u1''], ic_count = Some 7, ic_phones = [],
     ic_buildingId = [], ic_floor = 0, ic_roomNos = []\<rparr> ''admin'' ''ca1'' (db0\<lparr>user_coupons := [], coupons := [coupon1\<lparr>c_claimed := 0\<rparr>]\<rparr>)))
     ''c1'' ''u1'' \<le> 1"
proof -
  let ?s = "db0\<lparr>user_coupons := [], coupons := [coupon1\<lparr>c_claimed := 0\<rparr>]\<rparr>"
  let ?b = "\<lparr>ic_userIds = [''u1''], ic_count = Some 7, ic_phones = [], ic_buildingId = [], ic_floor = 0, ic_roomNos = []\<rparr>"
  have 1: "coupon_books ?s" by code_simp
  have 2: "find_campus_coupon ''c1'' ''ca1'' ?s = Some (coupon1\<lparr>c_claimed := 0\<rparr>)" by code_simp
  have 3: "0 < c_perUserLimit (coupon1\<lparr>c_claimed := 0\<rparr>)" by code_simp
  have 4: "case ic_count ?b of None \<Rightarrow> True | Some k \<Rightarrow> 0 \<le> k" by simp
  have 5: "max (unused_of ?s ''c1'' ''u1'') (c_perUserLimit (coupon1\<lparr>c_claimed := 0\<rparr>)) = 1" by code_simp
  from issue_respects_limit [OF 1 2 3 4, of 0 sample_ids "''admin''" "''u1''"] 5 show ?thesis by simp
qed

subsection \<open>Claiming what the list offers\<close>

definition mine :: "db \<Rightarrow> ident \<Rightarrow> ident \<Rightarrow> user_coupon list" where
  "mine s uid cid = filter (\<lambda>u. uc_userId u = uid \<and> uc_couponId u = cid) (user_coupons s)"

text \<open>What happens to a click on a coupon the list offers: a new coupon is booked exactly when the user
  has no unused one and holds fewer than the limit, used ones included (or there is no limit); with
  an unused one that one is returned and nothing is booked; and a user who has used up the limit
  is refused, although the list, which counts only unused ones, still offers the coupon.\<close>

theorem listed_coupon_claim:
  assumes "coupon_books s" and "c \<in> set (claimable s now uid campus)"
  shows "claimCoupon now newId uid (c_id c) campus s =
    (if c_perUserLimit c = 0 \<or>
        (\<forall>u \<in> set (mine s uid (c_id c)). uc_status u = HUsed) \<and> int (length (mine s uid (c_id c))) < c_perUserLimit c
     then (booking (c_id c) [new_holding newId uid (c_id c) now] s, Inr (new_holding newId uid (c_id c) now))
     else case find (\<lambda>u. uc_status u \<noteq> HUsed) (mine s uid (c_id c)) of
         Some h \<Rightarrow> (s, Inr h)
       | None \<Rightarrow> (s, Inl (BadRequest ''coupon already used'')))"
proof -
  have on: "marketingEnabled s (Some campus)"
    and c: "c \<in> set (coupons s)" "c_campusId c = campus" "c_trigger c = ''manual''" "\<not> c_targetedOnly c"
      "c_status c = ''active''" "unexpired now c" "case c_total c of None \<Rightarrow> True | Some t \<Rightarrow> c_claimed c < t"
    using assms(2) by (auto simp: claimable_def split: if_splits)
  have d: "distinct (map c_id (coupons s))" using assms(1) by (rule books_distinct)
  have row: "find_row c_id (c_id c) (coupons s) = Some c" using find_row_unique [OF d c(1)] .
  let ?h = "new_holding newId uid (c_id c) now"
  have one: "claim_one c ?h s = (booking (c_id c) [?h] s, Inr ?h)"
    using claim_one_result [OF d row, of ?h] c(7)
    by (auto simp: new_holding_def has_room_def split: option.splits)
  have used: "find (\<lambda>u. uc_status u \<noteq> HUsed) (mine s uid (c_id c)) = None \<longleftrightarrow>
      (\<forall>u \<in> set (mine s uid (c_id c)). uc_status u = HUsed)"
    by (auto simp: find_None_iff)
  show ?thesis
    unfolding claimCoupon_def transaction_def
    using on c row one used
    by (auto simp: unless_def Let_def mine_def [symmetric] reply_def reject_def split: option.split)
qed

theorem listed_coupon_claim_witness:
  "claimCoupon 5 ''h2'' ''u1'' ''c1'' ''ca1'' (db0\<lparr>user_coupons := [holding1\<lparr>uc_status := HUsed\<rparr>]\<rparr>) =
    (db0\<lparr>user_coupons := [holding1\<lparr>uc_status := HUsed\<rparr>]\<rparr>, Inl (BadRequest ''coupon already used''))"
proof -
  let ?s = "db0\<lparr>user_coupons := [holding1\<lparr>uc_status := HUsed\<rparr>]\<rparr>"
  have 1: "coupon_books ?s" by code_simp
  have 2: "coupon1 \<in> set (claimable ?s 5 ''u1'' ''ca1'')" by code_simp
  have 3: "c_id coupon1 = ''c1''" "c_perUserLimit coupon1 = 1" "mine ?s ''u1'' ''c1'' = [holding1\<lparr>uc_status := HUsed\<rparr>]"
    by code_simp+
  from listed_coupon_claim [OF 1 2, of "''h2''"] show ?thesis by (simp add: 3)
qed

subsection \<open>The wheel\<close>

lemma pool_weight_sum:
  "pool_weight (prize_pool prizes) = sum_list (filter (\<lambda>w. 0 < w) (map wp_weight prizes))"
proof -
  have "pool_weight (filter (\<lambda>x. 0 < wp_weight (snd x)) (enumerate n xs)) =
      sum_list (filter (\<lambda>w. 0 < w) (map wp_weight xs))" for n xs
    by (induction xs arbitrary: n) (auto simp: pool_weight_def)
  then show ?thesis by (simp add: prize_pool_def)
qed

lemma pool_take_mono:
  assumes "a < b" and "b \<le> length prizes" and "0 < wp_weight (prizes ! a)"
  shows "pool_weight (prize_pool (take a prizes)) + wp_weight (prizes ! a) \<le> pool_weight (prize_pool (take b prizes))"
proof -
  have "take b prizes = take a prizes @ drop a (take b prizes)"
    using assms(1) append_take_drop_id [of a "take b prizes"] by (simp add: min_def)
  moreover have "drop a (take b prizes) = prizes ! a # drop (Suc a) (take b prizes)"
    using assms(1,2) Cons_nth_drop_Suc [of a "take b prizes"] by simp
  ultimately have "take b prizes = take a prizes @ prizes ! a # drop (Suc a) (take b prizes)" by simp
  then have "pool_weight (prize_pool (take b prizes)) = pool_weight (prize_pool (take a prizes)) + wp_weight (prizes ! a) +
      sum_list (filter (\<lambda>w. 0 < w) (map wp_weight (drop (Suc a) (take b prizes))))"
    using assms(3) unfolding pool_weight_sum by (metis (no_types, lifting) filter.simps(2) filter_append group_cancel.add1
      list.simps(9) map_append sum_list.Cons sum_list.append)
  moreover have "0 \<le> sum_list (filter (\<lambda>w. 0 < w) (map wp_weight (drop (Suc a) (take b prizes))))"
    by (rule sum_list_nonneg) auto
  ultimately show ?thesis by linarith
qed

text \<open>The wheel is fair: for a random number in [0, 1) the drawn prize is the one whose window of
  cumulated weights contains it, so a prize wins with probability weight / total, a prize without
  weight never wins, and a draw fails to pick only if no prize has weight.\<close>

theorem wheel_is_fair:
  assumes "0 \<le> rnd" and "rnd < 1"
  shows "pickPrize rnd prizes = Some (i, p) \<longleftrightarrow>
    i < length prizes \<and> prizes ! i = p \<and> 0 < wp_weight p \<and>
    pool_weight (prize_pool (take i prizes)) \<le> rnd * pool_weight (prize_pool prizes) \<and>
    rnd * pool_weight (prize_pool prizes) < pool_weight (prize_pool (take i prizes)) + wp_weight p"
    (is "?L \<longleftrightarrow> ?R i p")
proof
  assume ?L
  then show "?R i p" using pickPrize_spec [OF assms] by blast
next
  assume R: "?R i p"
  then have "\<exists>q \<in> set prizes. 0 < wp_weight q" using nth_mem by blast
  then have "pickPrize rnd prizes \<noteq> None" using pickPrize_None [of rnd prizes] by auto
  then obtain j q where jq: "pickPrize rnd prizes = Some (j, q)" by auto
  have Rj: "?R j q" using pickPrize_spec [OF assms jq] .
  have mono: "pool_weight (prize_pool (take a prizes)) + wp_weight (prizes ! a) \<le> pool_weight (prize_pool (take b prizes))"
    if "a < b" "b \<le> length prizes" "0 < wp_weight (prizes ! a)" for a b
    using pool_take_mono that by blast
  have "i = j"
  proof (rule ccontr)
    assume "i \<noteq> j"
    then consider "i < j" | "j < i" by linarith
    then show False
    proof cases
      case 1
      then show False using mono [of i j] R Rj by fastforce
    next
      case 2
      then show False using mono [of j i] R Rj by fastforce
    qed
  qed
  then show ?L using jq R Rj by simp
qed

theorem wheel_is_fair_witness:
  "pickPrize (1 / 2) [\<lparr>wp_type = ''none'', wp_couponId = None, wp_weight = 1\<rparr>,
     \<lparr>wp_type = ''coupon'', wp_couponId = Some ''c1'', wp_weight = 2\<rparr>] =
   Some (1, \<lparr>wp_type = ''coupon'', wp_couponId = Some ''c1'', wp_weight = 2\<rparr>)"
proof -
  have 1: "0 \<le> (1 / 2 :: rat)" and 2: "(1 / 2 :: rat) < 1" by simp_all
  show ?thesis unfolding wheel_is_fair [OF 1 2] by code_simp
qed

definition draw_key :: "lottery_draw \<Rightarrow> ident \<times> int" where
  "draw_key d = (ld_userId d, ld_drawDate d)"

lemma draws_issue_run: "issueWheelCoupon now newId uid campus k s = (s', x) \<Longrightarrow> draws s' = draws s"
  by (metis draws_issueWheelCoupon fst_conv)

lemma draw_commit_ok:
  assumes "draw_commit now did newId uid campus wid i p s = (s1, Inr r)"
  shows "(uid, beijing_day now) \<notin> draw_key ` set (draws s) \<and>
    map draw_key (draws s1) = map draw_key (draws s) @ [(uid, beijing_day now)]"
proof -
  let ?d = "draw_row did uid wid (beijing_day now) i (wp_type p)"
  obtain s2 where free: "\<not> (\<exists>x \<in> set (draws s). ld_userId x = uid \<and> ld_drawDate x = beijing_day now)"
    and s2: "s2 = s\<lparr>draws := draws s @ [?d]\<rparr>"
    and run: "(if wp_type p = ''coupon''
           then and_then (issueWheelCoupon now newId uid campus (wp_couponId p))
             (\<lambda>issued. case issued of
                Some (k, _) \<Rightarrow> reply (i, ''coupon'', Some k)
              | None \<Rightarrow> and_then (downgrade did) (\<lambda>_. reply (i, ''none'', None)))
           else if wp_type p = ''partner'' \<and> wp_couponId p \<noteq> None
           then and_then (issueWheelCoupon now newId uid campus (wp_couponId p))
             (\<lambda>issued. reply (i, ''partner'', map_option fst issued))
           else reply (i, wp_type p, None)) s2 = (s1, Inr r)"
    using assms unfolding draw_commit_def transaction_ok and_then_ok [of "occupy_day _"]
    by (auto simp: occupy_day_def draw_row_def split: if_splits)
  have keys: "map draw_key (draws s2) = map draw_key (draws s) @ [(uid, beijing_day now)]"
    by (simp add: s2 draw_key_def draw_row_def)
  have down: "map draw_key (update_where P (\<lambda>d. d\<lparr>ld_prizeType := t\<rparr>) ds) = map draw_key ds" for P t ds
    by (rule map_key_update_where) (simp add: draw_key_def)
  have "map draw_key (draws s1) = map draw_key (draws s2)"
    using run
    by (auto simp: ok_simps downgrade_def down draws_issue_run split: if_splits option.splits)
  then show ?thesis using keys free by (auto simp: draw_key_def)
qed

text \<open>One draw a day: a draw that succeeds is the first of the user on that Beijing day and is recorded,
  and until the day ends every other draw of the user (any campus, any wheel, any random number)
  is refused and changes nothing.\<close>

theorem wheel_one_draw_a_day:
  assumes "drawWheel now rnd did newId uid campus s = (s1, Inr r)"
    and "beijing_day now2 = beijing_day now"
  shows "(uid, beijing_day now) \<notin> draw_key ` set (draws s) \<and> (uid, beijing_day now) \<in> draw_key ` set (draws s1) \<and>
    (\<exists>e. drawWheel now2 rnd2 did2 newId2 uid campus2 s1 = (s1, Inl e))"
proof -
  obtain w :: wheel and i p where "draw_commit now did newId uid campus (w_id w) i p s = (s1, Inr r)"
    using drawWheel_cases [of now rnd did newId uid campus s] unfolding assms(1) by auto
  note first = draw_commit_ok [OF this]
  then have "set (map draw_key (draws s1)) = insert (uid, beijing_day now) (draw_key ` set (draws s))" by simp
  then have done1: "(uid, beijing_day now) \<in> draw_key ` set (draws s1)" by simp
  have "\<exists>e. draw_commit now2 did2 newId2 uid campus2 wid j q s1 = (s1, Inl e)" for wid j q
  proof (cases "draw_commit now2 did2 newId2 uid campus2 wid j q s1")
    case (Pair s2 x)
    have "atomic (draw_commit now2 did2 newId2 uid campus2 wid j q)"
      unfolding draw_commit_def by (rule atomic_transaction)
    then show ?thesis
      using Pair draw_commit_ok [of now2 did2 newId2 uid campus2 wid j q s1 s2] done1 assms(2)
      by (cases x) (auto dest: atomicD)
  qed
  then have "\<exists>e. drawWheel now2 rnd2 did2 newId2 uid campus2 s1 = (s1, Inl e)"
    using drawWheel_cases [of now2 rnd2 did2 newId2 uid campus2 s1] by metis
  then show ?thesis using first done1 by blast
qed

definition wheel1 :: wheel where
  "wheel1 = \<lparr>w_id = ''w1'', w_campusId = ''ca1'', w_active = True,
     w_prizes = replicate 8 \<lparr>wp_type = ''coupon'', wp_couponId = Some ''c1'', wp_weight = 1\<rparr>\<rparr>"

theorem wheel_one_draw_a_day_witness:
  "\<exists>e. drawWheel 9 (1 / 5) ''d2'' ''h9'' ''u1'' ''ca1'' (fst (drawWheel 5 (1 / 2) ''d1'' ''h8'' ''u1'' ''ca1'' (db0\<lparr>wheels := [wheel1]\<rparr>))) =
    (fst (drawWheel 5 (1 / 2) ''d1'' ''h8'' ''u1'' ''ca1'' (db0\<lparr>wheels := [wheel1]\<rparr>)), Inl e)"
proof -
  let ?r = "drawWheel 5 (1 / 2) ''d1'' ''h8'' ''u1'' ''ca1'' (db0\<lparr>wheels := [wheel1]\<rparr>)"
  have "snd ?r = Inr (4, ''coupon'', Some ''h8'')" by code_simp
  then have 1: "?r = (fst ?r, Inr (4, ''coupon'', Some ''h8''))" by (metis prod.collapse)
  have 2: "beijing_day 9 = beijing_day 5" by code_simp
  from wheel_one_draw_a_day [OF 1 2] show ?thesis by blast
qed

end
