(* ===== verification/Shop_Theorems.thy ===== *)
theory Shop_Theorems
  imports Cart Commission Orders Samples
begin

text \<open>
  Carts, promotions, purchase limits, units, pages and commission rules.
\<close>

subsection \<open>Carts\<close>

lemma keeps_clearCart: "keeps cart_ok (clearCart now uid)"
  by (rule keepsI) (auto simp: clearCart_def Let_def intro: cart_ok_delete)

text \<open>The quantity of a request is not negative (\<open>@Min(0)\<close> on the request bodies).\<close>

inductive cart_step :: "db \<Rightarrow> db \<Rightarrow> bool" where
  replace: "cart_step s (fst (updateCart tz now uid lines s))"
| put: "0 \<le> n \<Longrightarrow> cart_step s (fst (setCartItem tz now uid pid n sec s))"
| empty: "cart_step s (fst (clearCart now uid s))"

lemma cart_step_ok: "cart_step s s' \<Longrightarrow> cart_ok s \<Longrightarrow> cart_ok s'"
  by (induction rule: cart_step.induct)
    (blast intro: keepsD keeps_updateCart keeps_setCartItem keeps_clearCart)+

text \<open>C30. A cart stays well formed through any sequence of cart requests: a user has at most one row
  per product, no row has a quantity of zero or less, and at most one product is bought at a
  flash-sale price.\<close>

theorem carts_stay_ok:
  assumes "cart_ok s" and "cart_step\<^sup>*\<^sup>* s s'"
  shows "cart_ok s'"
  using assms(2,1) by (induction rule: rtranclp_induct) (auto intro: cart_step_ok)

theorem carts_stay_ok_witness:
  "cart_ok (fst (setCartItem 0 0 ''u1'' ''p2'' 3 False db0)) \<and>
   map ci_quantity (cart_items (fst (setCartItem 0 0 ''u1'' ''p2'' 3 False db0))) = [2, 3]"
proof -
  have 1: "cart_ok db0" by code_simp
  have "cart_step db0 (fst (setCartItem 0 0 ''u1'' ''p2'' 3 False db0))" by (rule cart_step.put) simp
  then have 2: "cart_step\<^sup>*\<^sup>* db0 (fst (setCartItem 0 0 ''u1'' ''p2'' 3 False db0))" by (rule r_into_rtranclp)
  have "map ci_quantity (cart_items (fst (setCartItem 0 0 ''u1'' ''p2'' 3 False db0))) = [2, 3]" by code_simp
  then show ?thesis using carts_stay_ok [OF 1 2] by blast
qed

subsection \<open>Prices\<close>

text \<open>The price of a cart line is determined by the promotions that are running now: a flash-sale row
  pays the price of the running flash sale of its product that ends first; every other row, and a
  flash-sale row whose sale is over, pays the price of the running non-flash promotion that ends
  first, and the shelf price without one.\<close>

theorem cart_line_price:
  fixes now :: millis
  assumes "r \<in> set (cart_rows_of s uid)" and "find_row p_id (ci_productId r) (products s) = Some p"
  defines "live \<equiv> \<lambda>flash. filter (\<lambda>m. pm_productId m = p_id p \<and> promo_live now m \<and>
      (pm_type m = ''seckill'') = flash) (promotions s)"
  shows "\<exists>l \<in> set (ct_items (cartData s now uid)). ps_id (ol_product l) = p_id p \<and> ol_quantity l = ci_quantity r \<and>
    (if ci_asSeckill r \<and> live True \<noteq> []
     then \<exists>m \<in> set (live True). ps_price (ol_product l) = pm_price m \<and> (\<forall>m' \<in> set (live True). pm_endsAt m \<le> pm_endsAt m')
     else if live False \<noteq> []
     then \<exists>m \<in> set (live False). ps_price (ol_product l) = pm_price m \<and> (\<forall>m' \<in> set (live False). pm_endsAt m \<le> pm_endsAt m')
     else ps_price (ol_product l) = p_price p)"
proof -
  let ?ids = "map ci_productId (cart_rows_of s uid)"
  let ?sk = "activeSeckillMap s ?ids now" and ?nm = "promotionMap s ?ids now True"
  have p: "p_id p = ci_productId r" using find_row_SomeD [OF assms(2)] by simp
  have mem: "p_id p \<in> set ?ids" using assms(1) p by simp
  obtain l where l: "cart_line s ?sk ?nm r = Some l" using assms(2) by (simp add: cart_line_def)
  have line: "l = \<lparr>ol_product = productView p
         (case (if ci_asSeckill r then ?sk (p_id p) else None) of Some pm \<Rightarrow> Some pm | None \<Rightarrow> ?nm (p_id p)),
       ol_quantity = ci_quantity r, ol_asSeckill = ci_asSeckill r\<rparr>"
    unfolding p using l assms(2) by (simp add: cart_line_def)
  have l_in: "l \<in> set (ct_items (cartData s now uid))"
    using l assms(1) by (force simp: cartData_def Let_def map_filter_def)
  have sk: "case ?sk (p_id p) of None \<Rightarrow> live True = []
      | Some m \<Rightarrow> m \<in> set (live True) \<and> (\<forall>m' \<in> set (live True). pm_endsAt m \<le> pm_endsAt m')"
    using mem
    by (auto simp: activeSeckillMap_def live_def first_of_product_None filter_empty_conv split: option.split
        dest!: first_of_product_spec)
  have nm: "case ?nm (p_id p) of None \<Rightarrow> live False = []
      | Some m \<Rightarrow> m \<in> set (live False) \<and> (\<forall>m' \<in> set (live False). pm_endsAt m \<le> pm_endsAt m')"
    using mem
    by (auto simp: promotionMap_def live_def first_of_product_None filter_empty_conv split: option.split
        dest!: first_of_product_spec)
  have price: "ps_price (ol_product l) = (case (if ci_asSeckill r then ?sk (p_id p) else None) of
      Some pm \<Rightarrow> pm_price pm | None \<Rightarrow> (case ?nm (p_id p) of Some pm \<Rightarrow> pm_price pm | None \<Rightarrow> p_price p))"
    unfolding line by (simp add: productView_def split: option.split)
  have "if ci_asSeckill r \<and> live True \<noteq> []
     then \<exists>m \<in> set (live True). ps_price (ol_product l) = pm_price m \<and> (\<forall>m' \<in> set (live True). pm_endsAt m \<le> pm_endsAt m')
     else if live False \<noteq> []
     then \<exists>m \<in> set (live False). ps_price (ol_product l) = pm_price m \<and> (\<forall>m' \<in> set (live False). pm_endsAt m \<le> pm_endsAt m')
     else ps_price (ol_product l) = p_price p"
    using sk nm unfolding price
    by (cases "?sk (p_id p)"; cases "?nm (p_id p)"; cases "ci_asSeckill r") auto
  then show ?thesis
    using l_in by (intro bexI [of _ l]) (simp_all add: line)
qed

theorem cart_line_price_witness:
  "\<exists>l \<in> set (ct_items (cartData db0 0 ''u1'')). ps_id (ol_product l) = ''p1'' \<and> ps_price (ol_product l) = 600"
proof -
  let ?r = "\<lparr>ci_userId = ''u1'', ci_productId = ''p1'', ci_quantity = 2, ci_asSeckill = False\<rparr>"
  have 1: "?r \<in> set (cart_rows_of db0 ''u1'')" by code_simp
  have 2: "find_row p_id (ci_productId ?r) (products db0) = Some product1" by code_simp
  have 3: "p_id product1 = ''p1''" "p_price product1 = 600" "promotions db0 = []" by code_simp+
  from cart_line_price [OF 1 2, of 0] show ?thesis by (simp add: 3) blast
qed

subsection \<open>Purchase limits\<close>

lemma nothing_bought:
  assumes "\<forall>o' \<in> set (orders s). o_userId o' \<noteq> uid \<or> o_paidAt o' = None"
  shows "purchaseLimitBought s tz now uid pids pid = 0"
proof -
  have "filter (counts_as_bought uid t) (orders s) = []" for t
    using assms by (auto simp: filter_empty_conv counts_as_bought_def)
  then show ?thesis by (simp add: purchaseLimitBought_def Let_def split: option.split)
qed

text \<open>The purchase limit does not look at the quantity that is being bought: for a user who has not yet
  paid for anything the check passes whatever the limits and whatever the products, so that the first
  order may contain any number of pieces of a product that is limited to one.\<close>

theorem purchase_limit_ignores_quantity:
  assumes "\<forall>o' \<in> set (orders s). o_userId o' \<noteq> uid \<or> o_paidAt o' = None"
    and "\<forall>p \<in> set (products s). 0 \<le> p_purchaseLimitQty p"
  shows "assertPurchaseLimit tz now uid pids s = (s, Inr ())"
  unfolding assertPurchaseLimit_passes
proof
  fix r assume "r \<in> set (limited_products s pids)"
  then have "0 \<le> p_purchaseLimitQty r" using assms(2) by (simp add: limited_products_def)
  then show "\<not> limit_reached s tz now uid pids r"
    using nothing_bought [OF assms(1)] by (auto simp: limit_reached_def)
qed

definition once_product :: product where
  "once_product = product2\<lparr>p_purchaseLimit := ''once'', p_purchaseLimitQty := 1, p_status := ''on-sale''\<rparr>"

text \<open>Eight pieces of a product limited to one per person go into the cart.\<close>

theorem purchase_limit_ignores_quantity_witness:
  "assertPurchaseLimit 0 0 ''u2'' [''p2''] (db0\<lparr>products := [once_product]\<rparr>) = (db0\<lparr>products := [once_product]\<rparr>, Inr ()) \<and>
   map ci_quantity (cart_items (fst (setCartItem 0 0 ''u2'' ''p2'' 8 False
     (db0\<lparr>products := [once_product], cart_items := []\<rparr>)))) = [8]"
proof -
  let ?s = "db0\<lparr>products := [once_product]\<rparr>"
  have 1: "\<forall>o' \<in> set (orders ?s). o_userId o' \<noteq> ''u2'' \<or> o_paidAt o' = None" by code_simp
  have 2: "\<forall>p \<in> set (products ?s). 0 \<le> p_purchaseLimitQty p" by code_simp
  have "map ci_quantity (cart_items (fst (setCartItem 0 0 ''u2'' ''p2'' 8 False
     (db0\<lparr>products := [once_product], cart_items := []\<rparr>)))) = [8]" by code_simp
  then show ?thesis using purchase_limit_ignores_quantity [OF 1 2] by blast
qed

subsection \<open>Units and pages\<close>

text \<open>The unit conversions fit together for every number of units per case: converting cases to retail
  units and back is the identity; the cases needed for a quantity hold it and one case less does
  not; the cost per unit times the units never exceeds the cost of the case and misses less than
  one fen per unit.\<close>

theorem units_roundtrip:
  fixes u q c :: int
  assumes "1 \<le> u" and "0 \<le> q" and "0 \<le> c"
  shows "\<exists>units cases unit. caseToRetailUnits (of_int u) (of_int q) = Inr units \<and>
    retailUnitsToCases (of_int u) (of_int units) = Inr q \<and>
    retailUnitsToCases (of_int u) (of_int q) = Inr cases \<and> q \<le> cases * u \<and> (cases - 1) * u < max 1 q \<and>
    perRetailUnitCostFen (of_int c) (of_int u) = Inr unit \<and> unit * u \<le> c \<and> c < (unit + 1) * u"
proof -
  let ?n = "\<lceil>of_int q / of_int u :: rat\<rceil>"
  have inverse: "\<lceil>of_int (q * u) / of_int u :: rat\<rceil> = q" using assms(1) by simp
  have pos: "0 \<le> q * u" using assms by simp
  have low: "(?n - 1) * u < max 1 q"
    using ceiling_quotient_bounds(2) [OF assms(1), of q] by (simp add: algebra_simps)
  have "c = u * (c div u) + c mod u" and "0 \<le> c mod u" and "c mod u < u"
    using assms(1) by simp_all
  then have cost: "c div u * u \<le> c" "c < (c div u + 1) * u"
    by (simp_all only: distrib_right distrib_left mult.commute [of _ u] mult_1_right)
  show ?thesis
    using units_ok [OF assms(1,2)] units_ok(2) [OF assms(1) pos] units_ok(3) [OF assms(1,3)] inverse
      ceiling_quotient_bounds(1) [OF assms(1), of q] low cost
    by (intro exI [of _ "q * u"] exI [of _ ?n] exI [of _ "c div u"]) simp
qed

theorem units_roundtrip_witness:
  "retailUnitsToCases 24 49 = Inr 3 \<and> (\<exists>units. caseToRetailUnits 24 49 = Inr units \<and> retailUnitsToCases 24 (of_int units) = Inr 49)"
proof -
  have "retailUnitsToCases 24 49 = Inr 3" by code_simp
  moreover have "1 \<le> (24::int)" "0 \<le> (49::int)" "0 \<le> (7::int)" by simp_all
  ultimately show ?thesis using units_roundtrip [of 24 49 7] by auto
qed

text \<open>Paging loses nothing: every page has between 0 and its size items, the sizes are between 1 and
  100 whatever is asked for, and the pages 1 to n, one after the other, are the first n * size
  items of the filtered list, so that enough pages give all of it, each item once.\<close>

theorem pages_partition:
  fixes hit :: "'a \<Rightarrow> bool" and items :: "'a list" and n :: nat and asked :: "rat option"
  defines "sz \<equiv> snd (parsePagination None asked)"
  shows "1 \<le> sz \<and> sz \<le> 100 \<and>
    concat (map (\<lambda>i. pr_items (paginate hit items (Some (of_nat (Suc i))) asked)) [0..<n]) =
      take (n * nat sz) (filter hit items) \<and>
    length (pr_items (paginate hit items page asked)) \<le> nat sz \<and>
    pr_total (paginate hit items page asked) = int (length (filter hit items))"
proof -
  have sz: "snd (parsePagination q asked) = sz" for q
    by (simp add: parsePagination_def sz_def Let_def)
  have bounds: "1 \<le> sz" "sz \<le> 100"
    using parsePagination_bounds [of None asked] by (simp_all add: sz_def)
  have fst_page: "fst (parsePagination (Some (of_nat (Suc i))) asked) = int (Suc i)" for i
    by (simp add: parsePagination_def Let_def or_default_def)
  have "pr_items (paginate hit items (Some (of_nat (Suc i))) asked) =
      drop (i * nat sz) (take (Suc i * nat sz) (filter hit items))" for i
  proof -
    have page: "parsePagination (Some (of_nat (Suc i))) asked = (int (Suc i), sz)"
      using fst_page [of i] sz [of "Some (of_nat (Suc i))"] by (metis prod.collapse)
    have "nat (int k * sz) = k * nat sz" for k
      using nat_mult_distrib [of "int k" sz] by (simp only: nat_int of_nat_0_le_iff)
    from this [of i] this [of "Suc i"]
    have "nat ((int (Suc i) - 1) * sz) = i * nat sz" and "nat (int (Suc i) * sz) = Suc i * nat sz"
      by (simp_all only: of_nat_Suc add_diff_cancel_left')
    then show ?thesis by (simp only: paginate_def page prod.case Let_def paged_result.simps js_slice_def)
  qed
  then have pages: "concat (map (\<lambda>i. pr_items (paginate hit items (Some (of_nat (Suc i))) asked)) [0..<n]) =
      take (n * nat sz) (filter hit items)"
    using slices_concat [of "nat sz" "filter hit items" n] by (simp only:)
  have "length (drop (nat ((p - 1) * sz)) (take (nat (p * sz)) xs)) \<le> nat sz" for p and xs :: "'a list"
  proof (cases "0 \<le> p - 1")
    case True
    have "nat (p * sz) - nat ((p - 1) * sz) = nat sz"
      using True bounds(1) by (simp add: nat_diff_distrib' [symmetric] algebra_simps)
    then show ?thesis by (simp add: min_def) linarith
  next
    case False
    then have "p * sz \<le> 0" using bounds(1) by (simp add: mult_le_0_iff)
    then show ?thesis by simp
  qed
  then have "length (pr_items (paginate hit items page asked)) \<le> nat sz"
  proof -
    obtain k where page: "parsePagination page asked = (k, sz)" using sz [of page] by (metis prod.collapse)
    show ?thesis
      using \<open>\<And>xs p. length (drop (nat ((p - 1) * sz)) (take (nat (p * sz)) xs)) \<le> nat sz\<close>
      by (simp only: paginate_def page prod.case Let_def paged_result.simps js_slice_def)
  qed
  then show ?thesis
    using bounds pages by (simp add: paginate_def Let_def split: prod.split)
qed

subsection \<open>Commission rules\<close>

text \<open>C40. The rule chosen for an order is the best one: it is a rule of the list that fits the order, no
  fitting rule is more specific, among equally specific ones none is newer, and no rule is chosen
  only if none fits. So the chosen specificity and version do not depend on the order of the list.\<close>

theorem bestMatch_optimal:
  shows "(bestMatch rules d = None \<longleftrightarrow> (\<forall>r \<in> set rules. rule_misses r d)) \<and>
    (\<forall>b. bestMatch rules d = Some b \<longrightarrow> b \<in> set rules \<and> \<not> rule_misses b d \<and>
       (\<forall>r \<in> set rules. \<not> rule_misses r d \<longrightarrow> rule_le d r b)) \<and>
    (\<forall>rules2 b b2. set rules2 = set rules \<longrightarrow> bestMatch rules d = Some b \<longrightarrow> bestMatch rules2 d = Some b2 \<longrightarrow>
       ruleSpecificity b2 d = ruleSpecificity b d \<and> cr_version b2 = cr_version b)"
proof -
  have spec: "case bestMatch rs d of None \<Rightarrow> \<forall>r \<in> set rs. rule_misses r d
      | Some b \<Rightarrow> b \<in> set rs \<and> \<not> rule_misses b d \<and> (\<forall>r \<in> set rs. \<not> rule_misses r d \<longrightarrow> rule_le d r b)" for rs
    using bestMatch_loop_spec [of "-1" d None rs]
    by (simp add: bestMatch_def score_of_def split: option.splits)
  have some: "b \<in> set rs \<and> \<not> rule_misses b d \<and> (\<forall>r \<in> set rs. \<not> rule_misses r d \<longrightarrow> rule_le d r b)"
    if "bestMatch rs d = Some b" for rs b
    using spec [of rs] that by simp
  have none: "bestMatch rules d = None \<longleftrightarrow> (\<forall>r \<in> set rules. rule_misses r d)"
    using spec [of rules] by (cases "bestMatch rules d") auto
  have "ruleSpecificity b2 d = ruleSpecificity b d \<and> cr_version b2 = cr_version b"
    if "set rules2 = set rules" "bestMatch rules d = Some b" "bestMatch rules2 d = Some b2" for rules2 b b2
  proof -
    have "rule_le d b b2" "rule_le d b2 b"
      using some [OF that(2)] some [OF that(3)] that(1) by auto
    then show ?thesis by (auto simp: rule_le_def)
  qed
  then show ?thesis using none some by blast
qed

definition any_rule :: commission_rule where
  "any_rule = \<lparr>cr_id = ''k1'', cr_campusId = ''ca1'', cr_active = True, cr_effectiveAt = 0, cr_buildingId = None,
     cr_floor = None, cr_weightFrom = None, cr_weightTo = None, cr_mode = None, cr_price = 300, cr_version = 2\<rparr>"

theorem bestMatch_optimal_witness:
  "ruleSpecificity (the (bestMatch [any_rule, any_rule\<lparr>cr_floor := Some 3, cr_version := 1\<rparr>] (dimsOfOrder order1))) (dimsOfOrder order1) =
   ruleSpecificity (the (bestMatch [any_rule\<lparr>cr_floor := Some 3, cr_version := 1\<rparr>, any_rule] (dimsOfOrder order1))) (dimsOfOrder order1)"
proof -
  let ?a = "any_rule" and ?b = "any_rule\<lparr>cr_floor := Some 3, cr_version := 1\<rparr>" and ?d = "dimsOfOrder order1"
  have 1: "set [?b, ?a] = set [?a, ?b]" by auto
  have 2: "bestMatch [?a, ?b] ?d = Some ?b" and 3: "bestMatch [?b, ?a] ?d = Some ?b" by code_simp+
  from bestMatch_optimal [of "[?a, ?b]" ?d] 1 2 3 show ?thesis by (metis option.sel)
qed

end
