(* ===== verification/Refunds.thy ===== *)
theory Refunds
  imports Orders Coupon_Admin Commission
begin

text \<open>
  Refunds. The user's side from \<open>src/business/business.service.ts\<close> (\<open>createAfterSales\<close>,
  \<open>parseRefundItems\<close>, \<open>createRefund\<close>, \<open>applyPreDeliveryRefund\<close>, \<open>cancelAfterSale\<close> and its
  \<open>restoreOrderFromRefund\<close>) and the back office's from \<open>src/admin/admin.service.ts\<close>
  (\<open>auditRefund\<close>, \<open>finishRefund\<close>, \<open>syncRefund\<close>, \<open>reconcileWechatRefundStatus\<close>,
  \<open>syncOutstandingRefunds\<close>, \<open>createUnshippedFullRefund\<close>, \<open>createAndApproveRefund\<close> and its
  own \<open>restoreOrderFromRefund\<close>).

  The payment service is an optional argument: \<open>None\<close> where it is not wired in, otherwise the
  function that answers a refund request. A callback of a database transaction that locks the
  order's key runs as one step of the model. Pushes to the user are left out.
\<close>

interpretation refunds_tbl: row_table refunds refunds_update r_id
  by unfold_locales simp_all

subsection \<open>Reserved money\<close>

definition reserved_of :: "db \<Rightarrow> ident \<Rightarrow> cents" where
  "reserved_of s orderId =
    sum_where (\<lambda>r. r_orderId r = orderId \<and> r_status r \<in> set ACTIVE_REFUNDS) r_amount (refunds s)"

definition reserved_by_others :: "db \<Rightarrow> ident \<Rightarrow> ident \<Rightarrow> cents" where
  "reserved_by_others s orderId refundId =
    sum_where (\<lambda>r. r_orderId r = orderId \<and> r_status r \<in> set ACTIVE_REFUNDS \<and> r_id r \<noteq> refundId)
      r_amount (refunds s)"

definition refundAmountFor :: "order_row \<Rightarrow> cents" where
  "refundAmountFor o' = max 0 (min (o_payableAmount o' - o_deliveryFee o') (o_payableAmount o'))"

subsection \<open>The user's requests\<close>

record parsed_item =
  pi_productId :: ident
  pi_productName :: string
  pi_unitPrice :: cents
  pi_quantity :: int
  pi_amount :: cents

definition parse_item :: "order_line \<Rightarrow> ident \<Rightarrow> parsed_item" where
  "parse_item l pid =
    \<lparr>pi_productId = pid, pi_productName = ps_name (ol_product l), pi_unitPrice = ps_price (ol_product l),
     pi_quantity = ol_quantity l,
     pi_amount = js_round (of_int (ps_price (ol_product l)) * of_int (ol_quantity l))\<rparr>"

fun parse_loop :: "order_line list \<Rightarrow> ident list \<Rightarrow> parsed_item list \<Rightarrow> api_error + parsed_item list" where
  "parse_loop lines [] picked = Inr picked"
| "parse_loop lines (pid # pids) picked =
    (case find (\<lambda>l. ps_id (ol_product l) = pid) lines of
       None \<Rightarrow> Inl (BadRequest ''the product is not part of the order'')
     | Some l \<Rightarrow>
         if \<exists>p \<in> set picked. pi_productId p = pid then Inl (BadRequest ''a product is listed twice'')
         else parse_loop lines pids (picked @ [parse_item l pid]))"

definition parseRefundItems :: "order_row \<Rightarrow> ident list \<Rightarrow> api_error + parsed_item list" where
  "parseRefundItems o' productIds =
    (if productIds = [] then Inr [] else parse_loop (o_items o') productIds [])"

definition item_row :: "ident \<Rightarrow> ident \<Rightarrow> parsed_item \<Rightarrow> refund_item" where
  "item_row newId refundId p =
    \<lparr>ri_id = newId, ri_refundId = refundId, ri_productId = pi_productId p,
     ri_productName = pi_productName p, ri_unitPrice = pi_unitPrice p, ri_quantity = pi_quantity p,
     ri_amount = pi_amount p\<rparr>"

text \<open>\<open>refund.create\<close> with its items: the identities are drawn from \<open>ids\<close>, the refund's first.\<close>

definition item_rows :: "(nat \<Rightarrow> ident) \<Rightarrow> parsed_item list \<Rightarrow> refund_item list" where
  "item_rows ids items = map (\<lambda>(i, p). item_row (ids (Suc i)) (ids 0) p) (enumerate 0 items)"

definition insert_refund :: "refund \<Rightarrow> refund_item list \<Rightarrow> db \<Rightarrow> db" where
  "insert_refund r items s =
    s\<lparr>refunds := refunds s @ [r], refund_items := refund_items s @ items\<rparr>"

definition new_refund ::
  "millis \<Rightarrow> ident \<Rightarrow> order_row \<Rightarrow> refund_source \<Rightarrow> string \<Rightarrow> string \<Rightarrow> cents \<Rightarrow> order_status \<Rightarrow> refund" where
  "new_refund now newId o' source description reason amount before =
    \<lparr>r_id = newId, r_userId = o_userId o', r_orderId = o_id o', r_source = source,
     r_description = description, r_amount = amount, r_refundDeliveryFee = False,
     r_beforeStatus = before, r_reason = reason, r_status = RPending, r_auditBy = None,
     r_auditAt = None, r_auditRemark = [], r_wxRefundId = None, r_refundedAt = None,
     r_refundError = [], r_rejectCount = 0, r_updatedAt = now\<rparr>"

record refund_input =
  in_source :: refund_source
  in_description :: string
  in_reason :: string
  in_statusText :: msg
  in_items :: "parsed_item list"

definition lock_order :: "order_row \<Rightarrow> msg \<Rightarrow> api_error \<Rightarrow> (db, unit) handler" where
  "lock_order o' statusText e =
    claim_order (o_id o') (o_status o') (\<lambda>x. x\<lparr>o_status := AfterSales, o_statusText := statusText\<rparr>) e"

definition createRefund_commit ::
  "millis \<Rightarrow> (nat \<Rightarrow> ident) \<Rightarrow> order_row \<Rightarrow> refund_input \<Rightarrow> cents \<Rightarrow> (db, refund) handler" where
  "createRefund_commit now ids o' i amount =
    transaction (and_then
      (lock_order o' (in_statusText i) (BadRequest ''the order has a refund request or has changed''))
      (\<lambda>_. and_then (read (\<lambda>s. refundAmountFor o' - reserved_of s (o_id o')))
      (\<lambda>available. unless (amount \<le> available) (BadRequest ''more than can be refunded'')
        (let r = new_refund now (ids 0) o' (in_source i) (in_description i) (in_reason i) amount (o_status o')
         in and_then (modify (insert_refund r (item_rows ids (in_items i)))) (\<lambda>_. reply r)))))"

definition createRefund ::
  "millis \<Rightarrow> (nat \<Rightarrow> ident) \<Rightarrow> order_row \<Rightarrow> refund_input \<Rightarrow> (db, refund) handler" where
  "createRefund now ids o' i =
    (let amount = (if in_items i \<noteq> [] then sum_list (map pi_amount (in_items i)) else refundAmountFor o')
     in unless (1 \<le> amount) (BadRequest ''nothing to refund'') (createRefund_commit now ids o' i amount))"

definition REFUND_WINDOW_MS :: millis where
  "REFUND_WINDOW_MS = 24 * 60 * 60 * 1000"

definition delivered_at :: "order_row \<Rightarrow> millis option" where
  "delivered_at o' =
    (case o_package o' of
       Some k \<Rightarrow> (case pk_proof k of
           Some pf \<Rightarrow> Some (pf_time pf)
         | None \<Rightarrow> (case last_step_time (o_timeline o') of Some t \<Rightarrow> Some t | None \<Rightarrow> o_paidAt o'))
     | None \<Rightarrow> (case last_step_time (o_timeline o') of Some t \<Rightarrow> Some t | None \<Rightarrow> o_paidAt o'))"

definition createAfterSales ::
  "millis \<Rightarrow> (nat \<Rightarrow> ident) \<Rightarrow> ident \<Rightarrow> ident \<Rightarrow> string \<Rightarrow> ident list option \<Rightarrow> (db, refund) handler" where
  "createAfterSales now ids userId orderId description productIds s =
    (case find_own_order s orderId userId of
       None \<Rightarrow> reject (NotFound ''no such order'') s
     | Some o' \<Rightarrow>
         unless (o_status o' \<in> {Delivered, Completed}) (BadRequest ''only after the delivery'')
         (unless (case delivered_at o' of Some t \<Rightarrow> now - t \<le> REFUND_WINDOW_MS | None \<Rightarrow> False)
           (BadRequest ''more than 24 hours after the delivery'')
         (case parseRefundItems o' (case productIds of Some ps \<Rightarrow> ps | None \<Rightarrow> []) of
            Inl e \<Rightarrow> reject e
          | Inr items \<Rightarrow> createRefund now ids o'
              \<lparr>in_source = AfterSale, in_description = description, in_reason = [],
               in_statusText = ''after-sales review'', in_items = items\<rparr>)) s)"

definition applyPreDeliveryRefund ::
  "millis \<Rightarrow> (nat \<Rightarrow> ident) \<Rightarrow> ident \<Rightarrow> ident \<Rightarrow> string \<Rightarrow> (db, refund) handler" where
  "applyPreDeliveryRefund now ids userId orderId rawReason s =
    (case find_own_order s orderId userId of
       None \<Rightarrow> reject (NotFound ''no such order'') s
     | Some o' \<Rightarrow>
         unless (o_status o' \<noteq> AfterSales) (BadRequest ''a refund request is under review'')
         (unless (o_status o' = Paid) (BadRequest ''the order has left, please contact support'')
         (let reason = trim rawReason
          in unless (reason \<noteq> []) (BadRequest ''a reason is required'')
            (createRefund now ids o'
              \<lparr>in_source = PreDelivery, in_description = [], in_reason = take 120 reason,
               in_statusText = ''refund review'', in_items = []\<rparr>))) s)"

subsection \<open>Restoring the order\<close>

text \<open>Each service has a \<open>restoreOrderFromRefund\<close> of its own; they differ in the statuses they
  restore.\<close>

definition user_restore_target :: "order_status \<Rightarrow> order_status" where
  "user_restore_target before = (if before \<in> {Paid, Delivered, Completed} then before else Delivered)"

definition restore_order :: "ident \<Rightarrow> order_status \<Rightarrow> msg \<Rightarrow> db \<Rightarrow> db" where
  "restore_order orderId target statusText s =
    s\<lparr>orders := update_where (\<lambda>o'. o_id o' = orderId \<and> o_status o' = AfterSales)
       (\<lambda>o'. o'\<lparr>o_status := target, o_statusText := statusText\<rparr>) (orders s)\<rparr>"

definition restoreOrderFromRefund_user :: "ident \<Rightarrow> order_status \<Rightarrow> db \<Rightarrow> db" where
  "restoreOrderFromRefund_user orderId before =
    (let target = user_restore_target before
     in restore_order orderId target
       (if target = Paid then ''warehouse is taking the order''
        else if target = Completed then ''receipt confirmed'' else ''delivered to the room''))"

definition restoreOrderFromRefund_admin :: "ident \<Rightarrow> order_status \<Rightarrow> db \<Rightarrow> db" where
  "restoreOrderFromRefund_admin orderId before =
    (let target = refundRestoreTarget before
     in restore_order orderId target (status_text_or target ''delivered to the room''))"

text \<open>\<open>refund.update({where: {id}, data})\<close>; every write stamps \<open>updatedAt\<close>.\<close>

definition set_refund :: "millis \<Rightarrow> ident \<Rightarrow> (refund \<Rightarrow> refund) \<Rightarrow> db \<Rightarrow> db" where
  "set_refund now k f s =
    s\<lparr>refunds := update_where (\<lambda>r. r_id r = k) (\<lambda>r. (f r)\<lparr>r_updatedAt := now\<rparr>) (refunds s)\<rparr>"

text \<open>The transaction of \<open>cancelAfterSale\<close> for a refund that was read as pending; it does not
  look at the status again.\<close>

definition cancelAfterSale_commit :: "millis \<Rightarrow> refund \<Rightarrow> (db, refund option) handler" where
  "cancelAfterSale_commit now r =
    transaction (and_then (modify (set_refund now (r_id r) (\<lambda>x. x\<lparr>r_status := RCancelled\<rparr>)))
      (\<lambda>_. and_then (modify (restoreOrderFromRefund_user (r_orderId r) (r_beforeStatus r)))
      (\<lambda>_. read (\<lambda>s. find_row r_id (r_id r) (refunds s)))))"

definition cancelAfterSale :: "millis \<Rightarrow> ident \<Rightarrow> ident \<Rightarrow> (db, refund option) handler" where
  "cancelAfterSale now userId refundId s =
    (case find (\<lambda>r. r_id r = refundId \<and> r_userId r = userId) (refunds s) of
       Some r \<Rightarrow>
         unless (r_status r = RPending) (BadRequest ''the refund cannot be cancelled now'')
           (cancelAfterSale_commit now r) s
     | None \<Rightarrow>
         if \<exists>a \<in> set (after_sales s). as_id a = refundId \<and> as_userId a = userId
         then reject (BadRequest ''old records are read only'') s
         else reject (NotFound ''no such after-sale'') s)"

end
