(* ===== verification/Refund_Admin.thy ===== *)
theory Refund_Admin
  imports Refunds
begin

text \<open>
  The back office's side of the refunds (\<open>src/admin/admin.service.ts\<close>) and the two calls it
  makes to the payment service (\<open>src/payments/payments.service.ts\<close>).
\<close>

subsection \<open>What the payment service answers\<close>

text \<open>The answer of the HTTP call, \<open>None\<close> for one that did not return: the status code and the
  fields of the body (a body that is not JSON counts as empty).\<close>

record wx_response =
  wx_code :: int
  wx_refund_id :: "string option"
  wx_status :: "string option"
  wx_message :: "string option"

record wx_request =
  wq_out_trade_no :: string
  wq_out_refund_no :: ident
  wq_reason :: string
  wq_refund :: cents
  wq_total :: cents

datatype wx_outcome =
    WxApplied string string
  | WxUnknown
  | WxRefused msg

text \<open>\<open>applyWechatRefund\<close>; \<open>creds\<close> says whether the order's organisation has credentials and
  \<open>send\<close> is the HTTP call.\<close>

definition wx_ok :: "wx_response \<Rightarrow> bool" where
  "wx_ok r \<longleftrightarrow> 200 \<le> wx_code r \<and> wx_code r < 300"

definition applyWechatRefund ::
  "(string \<Rightarrow> bool) \<Rightarrow> (wx_request \<Rightarrow> wx_response option) \<Rightarrow> string \<Rightarrow> cents \<Rightarrow> cents \<Rightarrow> ident \<Rightarrow> string \<Rightarrow> wx_outcome"
where
  "applyWechatRefund creds send orderNo totalFen refundFen refundNo reason =
    (if \<not> creds orderNo then WxRefused ''payments are not configured''
     else case send \<lparr>wq_out_trade_no = orderNo, wq_out_refund_no = refundNo,
            wq_reason = (if take 80 reason = [] then ''refund'' else take 80 reason),
            wq_refund = refundFen, wq_total = totalFen\<rparr> of
         None \<Rightarrow> WxUnknown
       | Some r \<Rightarrow>
           if 500 \<le> wx_code r then WxUnknown
           else if \<not> wx_ok r
           then WxRefused (''refund failed: '' @ (case wx_message r of Some m \<Rightarrow> m | None \<Rightarrow> []))
           else (case truthy (wx_refund_id r) of
               None \<Rightarrow> WxUnknown
             | Some k \<Rightarrow> WxApplied k (case wx_status r of Some st \<Rightarrow> st | None \<Rightarrow> ''PROCESSING'')))"

definition queryWechatRefund ::
  "(ident \<Rightarrow> bool) \<Rightarrow> (ident \<Rightarrow> wx_response option) \<Rightarrow> ident \<Rightarrow> api_error + (string \<times> string option)" where
  "queryWechatRefund creds fetch refundNo =
    (if \<not> creds refundNo then Inl (NotImplemented ''payments are not configured'')
     else case fetch refundNo of
         None \<Rightarrow> Inl (BadGateway ''the payment service is not available'')
       | Some r \<Rightarrow>
           if wx_code r = 404 then Inr (''ABNORMAL'', None)
           else if \<not> wx_ok r then Inl (BadGateway ''the refund query failed'')
           else Inr (case wx_status r of Some st \<Rightarrow> st | None \<Rightarrow> ''PROCESSING'', wx_refund_id r))"

type_synonym wx_apply = "string \<Rightarrow> cents \<Rightarrow> cents \<Rightarrow> ident \<Rightarrow> string \<Rightarrow> wx_outcome"

subsection \<open>The final booking (finishRefund)\<close>

text \<open>\<open>tx.product.update\<close> of the lines that may go back to the shelf: the product still exists
  and is still procured the way it was when the line was sold.\<close>

definition same_source :: "cost_source option \<Rightarrow> string option \<Rightarrow> bool" where
  "same_source soldAs mode \<longleftrightarrow>
     (case soldAs of
        None \<Rightarrow> True
      | Some LEGACY \<Rightarrow> True
      | Some HQ \<Rightarrow> mode = Some ''HQ''
      | Some LOCAL \<Rightarrow> mode = Some ''LOCAL'')"

definition put_back :: "order_line \<Rightarrow> product \<Rightarrow> product" where
  "put_back l p = p\<lparr>p_stock := p_stock p + ol_quantity l, p_sales := p_sales p - ol_quantity l\<rparr>"

definition restock_line :: "product list \<Rightarrow> order_line \<Rightarrow> product list \<Rightarrow> product list" where
  "restock_line existing l rows =
    (let pid = ps_id (ol_product l) in
     if pid = [] then rows
     else case find_row p_id pid existing of
         None \<Rightarrow> rows
       | Some p \<Rightarrow>
           if same_source (ps_costSource (ol_product l)) (p_procurementMode p)
           then update_where (\<lambda>p. p_id p = pid) (put_back l) rows else rows)"

definition restock :: "order_line list \<Rightarrow> product list \<Rightarrow> product list" where
  "restock ls existing = fold (restock_line existing) ls existing"

definition give_back_stock :: "order_row \<Rightarrow> order_row \<Rightarrow> db \<Rightarrow> db" where
  "give_back_stock o' current s =
    (if o_stockRestored current then s
     else s\<lparr>products := restock (o_items o') (products s),
            orders := update_where (\<lambda>x. o_id x = o_id o') (\<lambda>x. x\<lparr>o_stockRestored := True\<rparr>) (orders s)\<rparr>)"

definition give_back_coupon :: "order_row \<Rightarrow> db \<Rightarrow> db" where
  "give_back_coupon o' =
    (case truthy (o_couponId o') of Some k \<Rightarrow> set_holding k [HLocked, HUsed] HReleased | None \<Rightarrow> (\<lambda>s. s))"

record finish_result =
  fr_record :: refund
  fr_total :: cents
  fr_isFull :: bool
  fr_didFinish :: bool

definition refunded_of :: "db \<Rightarrow> ident \<Rightarrow> cents" where
  "refunded_of s orderId =
    sum_where (\<lambda>r. r_orderId r = orderId \<and> r_status r = RRefunded) r_amount (refunds s)"

text \<open>The ceiling that makes a refund a full one: the whole payment if any live refund of the
  order may contain the delivery fee.\<close>

definition full_ceiling :: "db \<Rightarrow> order_row \<Rightarrow> cents" where
  "full_ceiling s o' =
    (if 0 < count_where (\<lambda>r. r_orderId r = o_id o' \<and> r_refundDeliveryFee r \<and> r_status r \<in> set ACTIVE_REFUNDS)
          (refunds s)
     then o_payableAmount o' else o_payableAmount o' - o_deliveryFee o')"

definition finished_patch :: "bool \<Rightarrow> refund \<Rightarrow> order_row \<Rightarrow> order_row" where
  "finished_patch isFull r x =
    (if isFull then x\<lparr>o_status := Refunded, o_statusText := ''refunded''\<rparr>
     else x\<lparr>o_status := refundRestoreTarget (r_beforeStatus r),
            o_statusText := status_text_or (refundRestoreTarget (r_beforeStatus r)) ''delivered to the room''\<rparr>)"

definition refunded_patch :: "millis \<Rightarrow> string \<Rightarrow> refund \<Rightarrow> refund" where
  "refunded_patch now wxRefundId x =
    x\<lparr>r_status := RRefunded, r_wxRefundId := Some wxRefundId, r_refundedAt := Some now, r_refundError := []\<rparr>"

definition give_back :: "order_row \<Rightarrow> order_row \<Rightarrow> db \<Rightarrow> db" where
  "give_back o' current s = give_back_coupon o' (give_back_stock o' current s)"

definition finish_result_of :: "refund \<Rightarrow> cents \<Rightarrow> bool \<Rightarrow> bool \<Rightarrow> finish_result" where
  "finish_result_of r t f d = \<lparr>fr_record = r, fr_total = t, fr_isFull = f, fr_didFinish = d\<rparr>"

text \<open>The writes of a refund that is not booked yet.\<close>

definition finish_writes ::
  "millis \<Rightarrow> refund \<Rightarrow> order_row \<Rightarrow> string \<Rightarrow> refund \<Rightarrow> order_row \<Rightarrow> cents \<Rightarrow> bool \<Rightarrow> (db, finish_result) handler"
where
  "finish_writes now r o' wxRefundId currentRefund current totalRefunded isFull =
    and_then (claim_or orders orders_update
      (\<lambda>x. o_id x = o_id o' \<and> o_status x \<in> {AfterSales, o_status current})
      (finished_patch isFull r) (BadRequest ''the order status has changed''))
    (\<lambda>_. and_then (modify (set_refund now (r_id r) (refunded_patch now wxRefundId)))
    (\<lambda>_. and_then (modify (if r_source r = PreDelivery \<and> isFull then give_back o' current else (\<lambda>s. s)))
    (\<lambda>_. reply (finish_result_of ((refunded_patch now wxRefundId currentRefund)\<lparr>r_updatedAt := now\<rparr>)
        totalRefunded isFull True))))"

definition finish_commit ::
  "millis \<Rightarrow> refund \<Rightarrow> order_row \<Rightarrow> string \<Rightarrow> (db, finish_result) handler" where
  "finish_commit now r o' wxRefundId =
    transaction (\<lambda>s.
      case find_row r_id (r_id r) (refunds s) of
        None \<Rightarrow> reject (InternalError ''no such refund'') s
      | Some currentRefund \<Rightarrow>
          let ceiling = full_ceiling s o'; before = refunded_of s (o_id o')
          in if r_status currentRefund = RRefunded
             then reply (finish_result_of currentRefund before (ceiling \<le> before) False) s
             else let totalRefunded = before + r_amount currentRefund;
                 isFull = (r_source currentRefund = PreDelivery \<or> ceiling \<le> totalRefunded)
               in case find_row o_id (o_id o') (orders s) of
                    None \<Rightarrow> reject (InternalError ''no such order'') s
                  | Some current \<Rightarrow>
                      finish_writes now r o' wxRefundId currentRefund current totalRefunded isFull s)"

definition finish_tail ::
  "millis \<Rightarrow> refund \<Rightarrow> order_row \<Rightarrow> string \<Rightarrow> finish_result \<Rightarrow> (db, refund) handler" where
  "finish_tail now r o' operator res =
    (if \<not> fr_didFinish res then reply (fr_record res)
     else let goodsPaid = o_payableAmount o' - o_deliveryFee o'
       in and_then (if r_source r \<noteq> PreDelivery
            then modify (refundAdjust now (o_id o') (''refund after the delivery '' @ o_orderNo o')
              (if 0 < goodsPaid then of_int (fr_total res) / of_int goodsPaid else 1))
            else reply ())
          (\<lambda>_. and_then (audit operator ''refund.finish'' (r_id r)) (\<lambda>_. reply (fr_record res))))"

definition finishRefund ::
  "millis \<Rightarrow> refund \<Rightarrow> string \<Rightarrow> string \<Rightarrow> (db, refund) handler" where
  "finishRefund now r wxRefundId operator s =
    (case find_row o_id (r_orderId r) (orders s) of
       None \<Rightarrow> reject (InternalError ''no such order'') s
     | Some o' \<Rightarrow>
         if r_status r = RRefunded
         then (case find_row r_id (r_id r) (refunds s) of
             Some x \<Rightarrow> reply x s | None \<Rightarrow> reject (InternalError ''no such refund'') s)
         else and_then (finish_commit now r o' wxRefundId) (finish_tail now r o' operator) s)"

subsection \<open>The review (auditRefund)\<close>

record item_amount =
  ia_itemId :: ident
  ia_amount :: rat

definition owned_items :: "db \<Rightarrow> ident \<Rightarrow> refund_item list" where
  "owned_items s refundId = filter (\<lambda>i. ri_refundId i = refundId) (refund_items s)"

fun check_amounts :: "refund_item list \<Rightarrow> item_amount list \<Rightarrow> api_error option" where
  "check_amounts owned [] = None"
| "check_amounts owned (a # as) =
    (case find_row ri_id (ia_itemId a) owned of
       None \<Rightarrow> Some (BadRequest ''no such refund line'')
     | Some i \<Rightarrow>
         if ia_amount a < 0 \<or> of_int (ri_unitPrice i * ri_quantity i) < ia_amount a
         then Some (BadRequest (ri_productName i @ '' is above the limit of its line''))
         else check_amounts owned as)"

definition write_amount :: "item_amount \<Rightarrow> db \<Rightarrow> db" where
  "write_amount a s =
    s\<lparr>refund_items := update_where (\<lambda>i. ri_id i = ia_itemId a) (\<lambda>i. i\<lparr>ri_amount := js_round (ia_amount a)\<rparr>)
       (refund_items s)\<rparr>"

definition include_fee :: "db \<Rightarrow> order_row \<Rightarrow> bool option \<Rightarrow> bool" where
  "include_fee s o' flag =
    (case flag of
       Some b \<Rightarrow> b
     | None \<Rightarrow> orderArrived (o_status o') \<or>
         (case find_row ca_id (o_campusId o') (campuses s) of
            Some c \<Rightarrow> ca_refundDeliveryFeeBeforeArrive c | None \<Rightarrow> False))"

definition refundable_total :: "order_row \<Rightarrow> bool \<Rightarrow> cents" where
  "refundable_total o' withFee = refundCeiling (of_int (o_payableAmount o')) (of_int (o_deliveryFee o')) withFee"

definition reject_patch :: "millis \<Rightarrow> string \<Rightarrow> string \<Rightarrow> refund \<Rightarrow> refund" where
  "reject_patch now operator remark x =
    x\<lparr>r_status := RRejected, r_auditBy := Some operator, r_auditAt := Some now, r_auditRemark := remark,
      r_rejectCount := r_rejectCount x + 1\<rparr>"

definition approve_patch :: "millis \<Rightarrow> string \<Rightarrow> string \<Rightarrow> refund \<Rightarrow> refund" where
  "approve_patch now operator remark x =
    x\<lparr>r_status := RApproved, r_auditBy := Some operator, r_auditAt := Some now, r_auditRemark := remark\<rparr>"

definition reject_commit :: "millis \<Rightarrow> string \<Rightarrow> string \<Rightarrow> refund \<Rightarrow> (db, unit) handler" where
  "reject_commit now operator remark r =
    transaction (and_then (modify (set_refund now (r_id r) (reject_patch now operator remark)))
      (\<lambda>_. modify (restoreOrderFromRefund_admin (r_orderId r) (r_beforeStatus r))))"

definition row_of :: "ident \<Rightarrow> (db, refund) handler" where
  "row_of k s = (case find_row r_id k (refunds s) of
     Some r \<Rightarrow> reply r s | None \<Rightarrow> reject (InternalError ''no such refund'') s)"

text \<open>The final amount, from the lines as they are now, and the ceiling over all live refunds.\<close>

definition approve_amount :: "millis \<Rightarrow> bool \<Rightarrow> refund \<Rightarrow> order_row \<Rightarrow> (db, refund) handler" where
  "approve_amount now withFee r o' s =
    (case approvedRefundAmount (r_source r) (of_int (r_amount r))
        (map (\<lambda>i. of_int (ri_amount i)) (owned_items s (r_id r))) of
       Inl e \<Rightarrow> reject e s
     | Inr finalAmount \<Rightarrow>
         unless (1 \<le> finalAmount) (BadRequest ''a refund is at least one fen'')
         (unless (finalAmount + reserved_by_others s (r_orderId r) (r_id r) \<le> refundable_total o' withFee)
           (BadRequest ''more than can be refunded'')
         (and_then (modify (set_refund now (r_id r)
              (\<lambda>x. x\<lparr>r_amount := finalAmount, r_refundDeliveryFee := withFee\<rparr>)))
           (\<lambda>_. row_of (r_id r)))) s)"

text \<open>The transaction of an approval for a refund \<open>r\<close> of an order \<open>o'\<close> as they were read.\<close>

definition approve_commit ::
  "millis \<Rightarrow> string \<Rightarrow> string \<Rightarrow> item_amount list \<Rightarrow> bool \<Rightarrow> refund \<Rightarrow> order_row \<Rightarrow> (db, refund) handler"
where
  "approve_commit now operator remark amounts withFee r o' =
    transaction (and_then
      (claim_or refunds refunds_update (\<lambda>x. r_id x = r_id r \<and> r_status x = r_status r)
        (\<lambda>x. (approve_patch now operator remark x)\<lparr>r_updatedAt := now\<rparr>) (BadRequest ''the request has changed''))
      (\<lambda>_. and_then
        (if o_status o' \<noteq> AfterSales then lock_order o' ''refund in progress'' (BadRequest ''the order has changed'')
         else reply ())
      (\<lambda>_. and_then (modify (fold write_amount amounts)) (\<lambda>_. approve_amount now withFee r o'))))"

text \<open>What follows the approval: the request to the payment service and the booking of its
  answer. An exception of the framework marks the refund as failed, every other outcome that is
  not known leaves it in progress.\<close>

definition is_http :: "api_error \<Rightarrow> bool" where
  "is_http e = (case e of InternalError _ \<Rightarrow> False | _ \<Rightarrow> True)"

definition book_unknown :: "millis \<Rightarrow> string \<Rightarrow> ident \<Rightarrow> (db, refund) handler" where
  "book_unknown now operator k =
    and_then (modify (set_refund now k
      (\<lambda>x. x\<lparr>r_status := RRefunding, r_refundError := ''waiting for the payment service''\<rparr>)))
    (\<lambda>_. and_then (row_of k)
    (\<lambda>row. and_then (audit operator ''refund.approve.unknown'' k) (\<lambda>_. reply row)))"

definition book_refused :: "millis \<Rightarrow> string \<Rightarrow> refund \<Rightarrow> msg \<Rightarrow> (db, refund) handler" where
  "book_refused now operator r message =
    and_then (modify (set_refund now (r_id r) (\<lambda>x. x\<lparr>r_status := RFailed, r_refundError := message\<rparr>)))
    (\<lambda>_. and_then (modify (restoreOrderFromRefund_admin (r_orderId r)
        (if r_source r = PreDelivery \<and> r_beforeStatus r = OtherStatus [] then Paid else r_beforeStatus r)))
    (\<lambda>_. and_then (audit operator ''refund.approve.fail'' (r_id r))
    (\<lambda>_. reject (BadRequest (''the refund could not be started: '' @ message)))))"

definition error_message :: "api_error \<Rightarrow> msg" where
  "error_message e =
    (case e of BadRequest m \<Rightarrow> m | NotFound m \<Rightarrow> m | Forbidden m \<Rightarrow> m | Conflict m \<Rightarrow> m | Unauthorized m \<Rightarrow> m
     | ServiceUnavailable m \<Rightarrow> m | NotImplemented m \<Rightarrow> m | BadGateway m \<Rightarrow> m | InternalError m \<Rightarrow> m)"

definition book_outcome ::
  "millis \<Rightarrow> string \<Rightarrow> refund \<Rightarrow> refund \<Rightarrow> wx_outcome \<Rightarrow> (db, refund) handler" where
  "book_outcome now operator r finalRefund applied s =
    (case applied of
       WxUnknown \<Rightarrow> book_unknown now operator (r_id r) s
     | WxRefused m \<Rightarrow> book_refused now operator r m s
     | WxApplied wxId st \<Rightarrow>
         if st = ''SUCCESS''
         then (case finishRefund now finalRefund wxId operator s of
             (s', Inr row) \<Rightarrow> (s', Inr row)
           | (s', Inl e) \<Rightarrow> if is_http e then book_refused now operator r (error_message e) s'
               else book_unknown now operator (r_id r) s')
         else and_then (modify (set_refund now (r_id r)
                (\<lambda>x. x\<lparr>r_status := RRefunding, r_wxRefundId := Some wxId\<rparr>)))
           (\<lambda>_. and_then (row_of (r_id r))
           (\<lambda>row. and_then (audit operator ''refund.approve'' (r_id r)) (\<lambda>_. reply row))) s)"

definition refund_reason :: "string \<Rightarrow> refund \<Rightarrow> string" where
  "refund_reason remark r =
    (if remark \<noteq> [] then remark else if r_description r \<noteq> [] then r_description r
     else if r_reason r \<noteq> [] then r_reason r else ''order refund'')"

datatype audit_action = Approve | Reject

definition may_approve :: "refund \<Rightarrow> order_row \<Rightarrow> bool" where
  "may_approve r o' \<longleftrightarrow>
     r_source r = PreDelivery \<and> o_status o' \<in> set PRE_DELIVERY_REFUNDABLE_STATUSES \<or>
     o_status o' \<in> {AfterSales, Delivered, Completed}"

text \<open>The refund and its order, seen from a campus (\<open>None\<close>: the platform).\<close>

definition scoped_refund :: "db \<Rightarrow> ident \<Rightarrow> ident option \<Rightarrow> (refund \<times> order_row) option" where
  "scoped_refund s k scope =
    (case find_row r_id k (refunds s) of
       None \<Rightarrow> None
     | Some r \<Rightarrow>
         (case find_row o_id (r_orderId r) (orders s) of
            None \<Rightarrow> None
          | Some o' \<Rightarrow>
              if (case scope of Some c \<Rightarrow> o_campusId o' \<noteq> c | None \<Rightarrow> False) then None else Some (r, o')))"

definition reject_refund :: "millis \<Rightarrow> string \<Rightarrow> string \<Rightarrow> refund \<Rightarrow> (db, refund) handler" where
  "reject_refund now operator remark r =
    unless (r_status r \<in> {RPending, RFailed}) (BadRequest ''cannot be rejected now'')
      (and_then (reject_commit now operator remark r)
      (\<lambda>_. and_then (row_of (r_id r))
      (\<lambda>row. and_then (audit operator ''refund.reject'' (r_id r)) (\<lambda>_. reply row))))"

definition approve_refund ::
  "wx_apply option \<Rightarrow> millis \<Rightarrow> string \<Rightarrow> string \<Rightarrow> item_amount list \<Rightarrow> bool \<Rightarrow> refund \<Rightarrow> order_row \<Rightarrow> (db, refund) handler"
where
  "approve_refund payments now operator remark amounts withFee r o' s =
    unless (r_status r \<in> {RPending, RFailed}) (BadRequest ''cannot be approved now'')
    (unless (may_approve r o') (BadRequest ''the order has changed'')
    (case payments of
       None \<Rightarrow> reject (ServiceUnavailable ''the payment service is not ready'')
     | Some apply' \<Rightarrow>
         (case check_amounts (owned_items s (r_id r)) amounts of
            Some e \<Rightarrow> reject e
          | None \<Rightarrow>
              and_then (approve_commit now operator remark amounts withFee r o')
              (\<lambda>finalRefund. book_outcome now operator r finalRefund
                (apply' (o_orderNo o') (o_payableAmount o') (r_amount finalRefund) (r_id r) (refund_reason remark r)))))) s"

definition auditRefund ::
  "wx_apply option \<Rightarrow> millis \<Rightarrow> ident \<Rightarrow> audit_action \<Rightarrow> string \<Rightarrow> ident option \<Rightarrow> string \<Rightarrow>
    item_amount list option \<Rightarrow> bool option \<Rightarrow> (db, refund) handler"
where
  "auditRefund payments now k action operator scope remark amounts feeFlag s =
    (case scoped_refund s k scope of
       None \<Rightarrow> reject (NotFound ''no such refund'') s
     | Some (r, o') \<Rightarrow>
         (case action of
            Reject \<Rightarrow> reject_refund now operator remark r s
          | Approve \<Rightarrow> approve_refund payments now operator remark
              (case amounts of Some as \<Rightarrow> as | None \<Rightarrow> []) (include_fee s o' feeFlag) r o' s))"

subsection \<open>Synchronising with the payment service\<close>

definition wx_id_or :: "string option \<Rightarrow> string option \<Rightarrow> string option" where
  "wx_id_or new old = (case new of Some k \<Rightarrow> Some k | None \<Rightarrow> old)"

definition book_processing :: "millis \<Rightarrow> string option \<Rightarrow> refund \<Rightarrow> order_row \<Rightarrow> (db, refund) handler" where
  "book_processing now wxId r o' =
    transaction (and_then
      (modify (\<lambda>s. s\<lparr>orders := update_where (\<lambda>x. o_id x = r_orderId r \<and> o_status x \<in> {o_status o', AfterSales})
         (\<lambda>x. x\<lparr>o_status := AfterSales, o_statusText := ''refund in progress''\<rparr>) (orders s)\<rparr>))
      (\<lambda>_. and_then (modify (set_refund now (r_id r)
          (\<lambda>x. x\<lparr>r_status := RRefunding, r_wxRefundId := wx_id_or wxId (r_wxRefundId r), r_refundError := []\<rparr>)))
      (\<lambda>_. row_of (r_id r))))"

definition book_closed :: "millis \<Rightarrow> string \<Rightarrow> string option \<Rightarrow> refund \<Rightarrow> (db, refund) handler" where
  "book_closed now wxStatus wxId r =
    transaction (and_then (modify (set_refund now (r_id r)
        (\<lambda>x. x\<lparr>r_status := RFailed, r_wxRefundId := wx_id_or wxId (r_wxRefundId r),
           r_refundError := (if wxStatus = ''CLOSED'' then ''closed by the payment service''
             else ''not accepted by the payment service'')\<rparr>)))
      (\<lambda>_. and_then (row_of (r_id r))
      (\<lambda>failed. and_then (modify (restoreOrderFromRefund_admin (r_orderId r) (r_beforeStatus r)))
        (\<lambda>_. reply failed))))"

definition reconcileWechatRefundStatus ::
  "millis \<Rightarrow> ident \<Rightarrow> string \<Rightarrow> string option \<Rightarrow> string \<Rightarrow> ident option \<Rightarrow> (db, refund) handler" where
  "reconcileWechatRefundStatus now k wxStatus wxId operator scope s =
    (case scoped_refund s k scope of
       None \<Rightarrow> reject (NotFound ''no such refund'') s
     | Some (r, o') \<Rightarrow>
         and_then (audit operator ''refund.sync'' k)
         (\<lambda>_. if r_status r = RRefunded then reply r
           else if wxStatus = ''SUCCESS''
           then finishRefund now r (case wx_id_or wxId (r_wxRefundId r) of Some x \<Rightarrow> x | None \<Rightarrow> []) operator
           else if wxStatus = ''PROCESSING'' then book_processing now wxId r o'
           else if wxStatus \<in> {''CLOSED'', ''ABNORMAL''} then book_closed now wxStatus wxId r
           else reply r) s)"

type_synonym wx_query = "ident \<Rightarrow> api_error + (string \<times> string option)"

definition syncRefund ::
  "wx_query option \<Rightarrow> millis \<Rightarrow> ident \<Rightarrow> string \<Rightarrow> ident option \<Rightarrow> (db, refund) handler" where
  "syncRefund payments now k operator scope s =
    (case scoped_refund s k scope of
       None \<Rightarrow> reject (NotFound ''no such refund'') s
     | Some (r, o') \<Rightarrow>
         unless (r_status r \<in> {RRefunding, RApproved, RFailed}) (BadRequest ''nothing to synchronise'')
         (case payments of
            None \<Rightarrow> reject (ServiceUnavailable ''the payment service is not ready'')
          | Some query \<Rightarrow>
              (case query (r_id r) of
                 Inl e \<Rightarrow> reject e
               | Inr (st, wxId) \<Rightarrow> reconcileWechatRefundStatus now k st wxId operator scope)) s)"

text \<open>At most a hundred refunds, the longest untouched first; an exception is logged and the
  loop goes on.\<close>

definition outstanding :: "db \<Rightarrow> refund list" where
  "outstanding s =
    take 100 (sort_key r_updatedAt (filter (\<lambda>r. r_status r \<in> {RApproved, RRefunding, RFailed}) (refunds s)))"

definition syncOutstandingRefunds :: "wx_query option \<Rightarrow> millis \<Rightarrow> (db, int) handler" where
  "syncOutstandingRefunds payments now s =
    (let rows = outstanding s
     in (fold (\<lambda>r s. fst (syncRefund payments now (r_id r) ''system-refund-sync'' None s)) rows s,
         Inr (int (length rows))))"

subsection \<open>Refunds started by the back office\<close>

definition createUnshippedFullRefund ::
  "millis \<Rightarrow> ident \<Rightarrow> order_row \<Rightarrow> string option \<Rightarrow> string \<Rightarrow> (db, refund) handler" where
  "createUnshippedFullRefund now newId o' remark operator s =
    (let note = trim (case remark of Some t \<Rightarrow> t | None \<Rightarrow> []);
         amount = js_round (of_int (o_productAmount o'));
         r = new_refund now newId o' PreDelivery []
           (note @ '' (full refund by the back office, was: '' @ o_statusText o' @ '')'') amount (o_status o')
     in unless (note \<noteq> []) (BadRequest ''a reason is required'')
        (unless (\<not> (\<exists>x \<in> set (refunds s). r_orderId x = o_id o' \<and> r_status x \<in> {RPending, RApproved, RRefunding}))
          (BadRequest ''the order has a refund under way'')
        (unless (1 \<le> amount) (BadRequest ''the amount of the goods is not valid'')
        (and_then (modify (insert_refund r []))
          (\<lambda>_. and_then (audit operator ''refund.create-unshipped'' (o_id o')) (\<lambda>_. reply r))))) s)"

record product_amount =
  pa_productId :: ident
  pa_amount :: rat

text \<open>\<open>new Map(...)\<close> keeps the last entry of a key.\<close>

definition amount_for :: "product_amount list \<Rightarrow> ident \<Rightarrow> rat option" where
  "amount_for as pid =
    (case find (\<lambda>a. pa_productId a = pid) (rev as) of Some a \<Rightarrow> Some (pa_amount a) | None \<Rightarrow> None)"

fun fix_amounts :: "product_amount list \<Rightarrow> parsed_item list \<Rightarrow> api_error + parsed_item list" where
  "fix_amounts as [] = Inr []"
| "fix_amounts as (p # ps) =
    (case amount_for as (pi_productId p) of
       None \<Rightarrow> map_sum (\<lambda>e. e) (\<lambda>xs. p # xs) (fix_amounts as ps)
     | Some a \<Rightarrow>
         if a < 0 \<or> of_int (pi_unitPrice p * pi_quantity p) < a
         then Inl (BadRequest (pi_productName p @ '' is above the limit of its line''))
         else map_sum (\<lambda>e. e) (\<lambda>xs. p\<lparr>pi_amount := js_round a\<rparr> # xs) (fix_amounts as ps))"

definition createApproved_commit ::
  "millis \<Rightarrow> (nat \<Rightarrow> ident) \<Rightarrow> order_row \<Rightarrow> parsed_item list \<Rightarrow> cents \<Rightarrow> string \<Rightarrow> string \<Rightarrow> (db, refund) handler"
where
  "createApproved_commit now ids o' items amount remark operator =
    transaction (and_then (lock_order o' ''partial refund in progress'' (BadRequest ''the order has changed''))
      (\<lambda>_. and_then (read (\<lambda>s. reserved_of s (o_id o')))
      (\<lambda>already. unless (amount + already \<le> refundable_total o' True) (BadRequest ''more than can be refunded'')
        (let r = (new_refund now (ids 0) o' AfterSale [] (take 120 remark) amount
               (if o_status o' = AfterSales then OtherStatus [] else o_status o'))
             \<lparr>r_refundDeliveryFee := True, r_auditBy := Some operator, r_auditAt := Some now,
              r_auditRemark := take 200 remark\<rparr>
         in and_then (modify (insert_refund r (item_rows ids items))) (\<lambda>_. reply r)))))"

record create_refund_body =
  cr_productIds :: "ident list option"
  cr_amounts :: "product_amount list option"
  cr_remark :: "string option"

definition createAndApproveRefund ::
  "wx_apply option \<Rightarrow> millis \<Rightarrow> (nat \<Rightarrow> ident) \<Rightarrow> ident \<Rightarrow> create_refund_body \<Rightarrow> string \<Rightarrow> ident option \<Rightarrow>
    (db, refund) handler"
where
  "createAndApproveRefund payments now ids orderId b operator scope s =
    (case find_row o_id orderId (orders s) of
       None \<Rightarrow> reject (NotFound ''no such order'') s
     | Some o' \<Rightarrow>
         unless (case scope of Some c \<Rightarrow> o_campusId o' = c | None \<Rightarrow> True) (NotFound ''no such order'')
         (if o_status o' \<in> set PRE_DELIVERY_REFUNDABLE_STATUSES
          then createUnshippedFullRefund now (ids 0) o' (cr_remark b) operator
          else unless (o_status o' \<in> {Delivered, Completed, AfterSales}) (BadRequest ''only after the delivery'')
            (case cr_productIds b of
               None \<Rightarrow> reject (BadRequest ''no product chosen'')
             | Some pids \<Rightarrow>
                 unless (pids \<noteq> []) (BadRequest ''no product chosen'')
                 (case parseRefundItems o' pids of
                    Inl e \<Rightarrow> reject e
                  | Inr parsed \<Rightarrow>
                      (case fix_amounts (case cr_amounts b of Some as \<Rightarrow> as | None \<Rightarrow> []) parsed of
                         Inl e \<Rightarrow> reject e
                       | Inr items \<Rightarrow>
                           let amount = sum_list (map pi_amount items);
                               remark = (case cr_remark b of Some t \<Rightarrow> t | None \<Rightarrow> [])
                           in unless (1 \<le> amount) (BadRequest ''a refund is at least one fen'')
                              (unless (amount + reserved_of s orderId \<le> refundable_total o' True)
                                (BadRequest ''more than can be refunded'')
                              (unless (payments \<noteq> None) (ServiceUnavailable ''the payment service is not ready'')
                              (and_then (createApproved_commit now ids o' items amount remark operator)
                              (\<lambda>r. auditRefund payments now (r_id r) Approve operator scope (take 200 remark) None None)))))))) s)"

end
