(* ===== verification/Refund_Theorems.thy ===== *)
theory Refund_Theorems
  imports Refund_Admin Samples
begin

text \<open>
  What the refunds guarantee: the money that is on its way back never exceeds the payment, a
  request is approved at most once, a withdrawn request leaves the order as it was, a booked
  refund is booked once and gives back what the sale took; and where the code falls short of
  this.
\<close>

subsection \<open>Committed money\<close>

definition is_committed :: "refund \<Rightarrow> bool" where
  "is_committed r \<longleftrightarrow> r_status r \<in> {RApproved, RRefunding, RRefunded}"

definition committed_of :: "db \<Rightarrow> ident \<Rightarrow> cents" where
  "committed_of s orderId = sum_where (\<lambda>r. r_orderId r = orderId \<and> is_committed r) r_amount (refunds s)"

definition refund_books :: "db \<Rightarrow> bool" where
  "refund_books s \<longleftrightarrow> distinct (map r_id (refunds s)) \<and> distinct (map o_id (orders s)) \<and>
     (\<forall>r \<in> set (refunds s). 0 \<le> r_amount r) \<and>
     (\<forall>o' \<in> set (orders s). 0 \<le> o_deliveryFee o' \<and> committed_of s (o_id o') \<le> o_payableAmount o')"

text \<open>A quiet change keeps the money of the orders and commits no further refund.\<close>

definition money_view :: "order_row \<Rightarrow> ident \<times> cents \<times> cents" where
  "money_view o' = (o_id o', o_payableAmount o', o_deliveryFee o')"

definition calms :: "refund \<Rightarrow> refund \<Rightarrow> bool" where
  "calms r r' \<longleftrightarrow> r_id r' = r_id r \<and> r_orderId r' = r_orderId r \<and> r_amount r' = r_amount r \<and>
     (is_committed r' \<longrightarrow> is_committed r)"

definition quiet :: "db \<Rightarrow> db \<Rightarrow> bool" where
  "quiet s s' \<longleftrightarrow> map money_view (orders s') = map money_view (orders s) \<and>
     list_all2 calms (refunds s) (refunds s')"

lemma calms_refl [simp]: "calms r r"
  by (simp add: calms_def)

lemma quiet_refl [simp, intro]: "quiet s s"
  by (simp add: quiet_def list_all2_same)

lemma calms_trans: "calms a b \<Longrightarrow> calms b c \<Longrightarrow> calms a c"
  by (simp add: calms_def)

lemma quiet_trans: "quiet s t \<Longrightarrow> quiet t u \<Longrightarrow> quiet s u"
  unfolding quiet_def using list_all2_trans [of calms calms calms, OF calms_trans] by fastforce

lemma quiet_cong: "map money_view (orders t) = map money_view (orders s) \<Longrightarrow> refunds t = refunds s \<Longrightarrow> quiet s t"
  by (simp add: quiet_def list_all2_same)

lemma sum_where_mono_rel:
  assumes "list_all2 (\<lambda>x y. (Q y \<longrightarrow> P x \<and> g y = g x) \<and> 0 \<le> g x) xs ys"
  shows "sum_where Q g ys \<le> sum_where P g xs"
  using assms by (induction rule: list_all2_induct) auto

lemma calms_ids: "list_all2 calms xs ys \<Longrightarrow> map r_id ys = map r_id xs"
  by (induction rule: list_all2_induct) (auto simp: calms_def)

lemma quiet_committed:
  assumes "quiet s s'" and "\<forall>r \<in> set (refunds s). 0 \<le> r_amount r"
  shows "committed_of s' k \<le> committed_of s k"
proof -
  have "list_all2 (\<lambda>x y. calms x y \<and> 0 \<le> r_amount x) (refunds s) (refunds s')"
    using assms unfolding quiet_def list_all2_conv_all_nth by auto
  then have "list_all2 (\<lambda>x y. ((r_orderId y = k \<and> is_committed y) \<longrightarrow> (r_orderId x = k \<and> is_committed x) \<and>
      r_amount y = r_amount x) \<and> 0 \<le> r_amount x) (refunds s) (refunds s')"
    by (rule list_all2_mono) (auto simp: calms_def)
  then show ?thesis unfolding committed_of_def by (rule sum_where_mono_rel)
qed

lemma money_view_mem:
  assumes "map money_view xs = map money_view ys" and "x \<in> set xs"
  shows "\<exists>y \<in> set ys. o_id y = o_id x \<and> o_payableAmount y = o_payableAmount x \<and> o_deliveryFee y = o_deliveryFee x"
proof -
  have "money_view x \<in> money_view ` set ys" using assms by (metis image_eqI list.set_map)
  then show ?thesis by (auto simp: money_view_def)
qed

lemma money_view_ids: "map money_view xs = map money_view ys \<Longrightarrow> map o_id xs = map o_id ys"
  by (drule arg_cong [where f = "map fst"]) (simp add: comp_def money_view_def)

lemma quiet_books: "quiet s s' \<Longrightarrow> refund_books s \<Longrightarrow> refund_books s'"
proof -
  assume q: "quiet s s'" and b: "refund_books s"
  have r: "list_all2 calms (refunds s) (refunds s')" and m: "map money_view (orders s') = map money_view (orders s)"
    using q by (auto simp: quiet_def)
  have "\<forall>x \<in> set (refunds s'). 0 \<le> r_amount x"
    using r b unfolding list_all2_conv_all_nth refund_books_def calms_def
    by (metis in_set_conv_nth)
  moreover have "0 \<le> o_deliveryFee o' \<and> committed_of s' (o_id o') \<le> o_payableAmount o'"
    if "o' \<in> set (orders s')" for o'
    using money_view_mem [OF m that] b quiet_committed [OF q, of "o_id o'"]
    by (force simp: refund_books_def)
  ultimately show "refund_books s'"
    using b calms_ids [OF r] money_view_ids [OF m] by (simp add: refund_books_def)
qed

text \<open>The effects the refund handlers are made of.\<close>

lemma map_update_where: "(\<And>x. g (f x) = g x) \<Longrightarrow> map g (update_where P f xs) = map g xs"
  by (induction xs) auto

lemma quiet_orders:
  "(\<And>x. money_view (f x) = money_view x) \<Longrightarrow> quiet s (s\<lparr>orders := update_where P f (orders s)\<rparr>)"
  by (simp add: quiet_cong map_update_where)

lemma quiet_set_refund:
  assumes "\<And>r. r_id (f r) = r_id r \<and> r_orderId (f r) = r_orderId r \<and> r_amount (f r) = r_amount r"
    and "\<And>r. r \<in> set (refunds s) \<Longrightarrow> r_id r = k \<Longrightarrow> is_committed (f r) \<Longrightarrow> is_committed r"
  shows "quiet s (set_refund now k f s)"
proof -
  have "list_all2 calms xs (update_where (\<lambda>r. r_id r = k) (\<lambda>r. (f r)\<lparr>r_updatedAt := now\<rparr>) xs)"
    if "set xs \<subseteq> set (refunds s)" for xs
    using that by (induction xs) (auto simp: calms_def is_committed_def assms(1) dest: assms(2) [unfolded is_committed_def])
  then show ?thesis by (simp add: quiet_def set_refund_def)
qed

lemma quiet_restore [simp]: "quiet s (restore_order k t m s)"
  unfolding restore_order_def by (rule quiet_orders) (simp add: money_view_def)

lemma quiet_restore_user [simp]: "quiet s (restoreOrderFromRefund_user k b s)"
  by (simp add: restoreOrderFromRefund_user_def Let_def)

lemma quiet_restore_admin [simp]: "quiet s (restoreOrderFromRefund_admin k b s)"
  by (simp add: restoreOrderFromRefund_admin_def Let_def)

lemma quiet_audit [simp]: "quiet s (fst (audit u a k s))"
  by (simp add: audit_def quiet_cong)

lemma quiet_adjust [simp]: "quiet s (refundAdjust now k m q s)"
  by (simp add: refundAdjust_def Let_def quiet_cong)

lemma quiet_coupon [simp]: "quiet s (give_back_coupon o' s)"
  by (simp add: give_back_coupon_def set_holding_def quiet_cong split: option.split)

lemma quiet_stock [simp]: "quiet s (give_back_stock o' c s)"
  by (simp add: give_back_stock_def quiet_def list_all2_same map_update_where money_view_def)

lemma quiet_lock [simp]: "quiet s (fst (lock_order o' m e s))"
  unfolding lock_order_def claim_order_state by (rule quiet_orders) (simp add: money_view_def)

lemma quiet_write [simp]: "quiet s (write_amount a s)"
  by (simp add: write_amount_def quiet_cong)

lemma quiet_writes [simp]: "quiet s (fold write_amount as s)"
proof (induction as arbitrary: s)
  case (Cons a as)
  then show ?case using quiet_trans [OF quiet_write Cons.IH] by simp
qed simp

lemma row_of_state [simp]: "fst (row_of k s) = s"
  by (simp add: row_of_def reply_def reject_def split: option.split)

lemma keeps_quiet [keeps_intros]: "(\<And>s. quiet s (f s)) \<Longrightarrow> keeps (quiet s0) (modify f)"
  by (rule keeps_modify) (rule quiet_trans)

lemma keeps_quiet_audit [keeps_intros]: "keeps (quiet s0) (audit u a k)"
  by (rule keepsI) (rule quiet_trans [OF _ quiet_audit])

lemma keeps_quiet_lock [keeps_intros]: "keeps (quiet s0) (lock_order o' m e)"
  by (rule keepsI) (rule quiet_trans [OF _ quiet_lock])

lemma keeps_row_of [keeps_intros]: "keeps I (row_of k)"
  by (simp add: keeps_def)

lemma quiet_run: "(\<And>s0. keeps (quiet s0) h) \<Longrightarrow> quiet s (fst (h s))"
  by (rule keepsD [where I = "quiet s"]) simp_all

text \<open>The refund \<open>k\<close> is committed, and so it stays through a booking that does not fail it.\<close>

definition settled :: "ident \<Rightarrow> db \<Rightarrow> db \<Rightarrow> bool" where
  "settled k s0 s \<longleftrightarrow> quiet s0 s \<and> (\<forall>r \<in> set (refunds s). r_id r = k \<longrightarrow> is_committed r)"

lemma settled_quiet: "settled k s0 s \<Longrightarrow> quiet s0 s"
  by (simp add: settled_def)

lemma settled_set_refund:
  assumes "settled k s0 s" and "\<And>r. r_id (f r) = r_id r \<and> r_orderId (f r) = r_orderId r \<and> r_amount (f r) = r_amount r"
  shows "quiet s0 (set_refund now k f s)"
  using assms quiet_trans [OF settled_quiet quiet_set_refund [of f s k now]] by (simp add: settled_def)

lemma quiet_then_refunds:
  "quiet s0 s \<Longrightarrow> map money_view (orders t) = map money_view (orders s) \<Longrightarrow> refunds t = refunds s \<Longrightarrow> quiet s0 t"
  by (blast intro: quiet_trans quiet_cong)

lemma and_then_run: "h s = (s1, x) \<Longrightarrow>
    and_then h k s = (case x of Inl e \<Rightarrow> (s1, Inl e) | Inr r \<Rightarrow> k r s1)"
  by (simp add: and_then_def split: sum.split)

lemma after_modify: "and_then (modify f) k s = k () (f s)"
  by (simp add: and_then_def modify_def)

lemma book_unknown_quiet: "settled k s0 s \<Longrightarrow> quiet s0 (fst (book_unknown now u k s))"
  unfolding book_unknown_def
  by (subst after_modify, rule quiet_trans [OF settled_set_refund quiet_run]) (auto intro!: keeps_intros)

lemma book_refused_quiet: "settled (r_id r) s0 s \<Longrightarrow> quiet s0 (fst (book_refused now u r m s))"
  unfolding book_refused_def
  by (subst after_modify, rule quiet_trans [OF settled_set_refund quiet_run]) (auto intro!: keeps_intros)

lemma quiet_after_claim:
  "(\<And>x. money_view (f x) = money_view x) \<Longrightarrow> quiet s (fst (claim_or orders orders_update P f e s))"
  unfolding claim_or_def update_many_def
  by (subst table_updates(1)) (simp add: quiet_orders)

lemma quiet_give_back [simp]: "quiet s (give_back o' c s)"
  unfolding give_back_def by (rule quiet_trans [OF quiet_stock quiet_coupon])

lemma keeps_quiet_claim [keeps_intros]:
  "(\<And>x. money_view (f x) = money_view x) \<Longrightarrow> keeps (quiet s0) (claim_or orders orders_update P f e)"
  by (rule keepsI) (rule quiet_trans [OF _ quiet_after_claim])

lemma finish_tail_keeps: "keeps (quiet s0) (finish_tail now r o' u res)"
  by (auto simp: finish_tail_def Let_def intro!: keeps_intros)

text \<open>The refund's key is among the settled ones while the handlers before the booking run.\<close>

lemma settled_refl: "(\<And>r. r \<in> set (refunds s) \<Longrightarrow> r_id r = k \<Longrightarrow> is_committed r) \<Longrightarrow> settled k s s"
  by (simp add: settled_def)

lemma settled_same: "settled k s0 s \<Longrightarrow> quiet s t \<Longrightarrow> refunds t = refunds s \<Longrightarrow> settled k s0 t"
  by (auto simp: settled_def intro: quiet_trans)

lemma settled_claim:
  assumes "settled k s0 s" and "\<And>x. money_view (f x) = money_view x"
  shows "settled k s0 (fst (claim_or orders orders_update P f e s))"
proof (rule settled_same [OF assms(1) quiet_after_claim])
  show "refunds (fst (claim_or orders orders_update P f e s)) = refunds s"
    unfolding claim_or_def update_many_def by (subst table_updates(1)) simp
qed (rule assms(2))

lemma finished_patch_money [simp]: "money_view (finished_patch b r x) = money_view x"
  by (simp add: finished_patch_def money_view_def)

lemma finish_writes_quiet:
  assumes "settled (r_id r) s0 s"
  shows "quiet s0 (fst (finish_writes now r o' w cr cur t f s))"
proof -
  let ?claim = "claim_or orders orders_update (\<lambda>x. o_id x = o_id o' \<and> o_status x \<in> {AfterSales, o_status cur})
      (finished_patch f r) (BadRequest ''the order status has changed'')"
  let ?k = "\<lambda>_::unit. and_then (modify (if r_source r = PreDelivery \<and> f then give_back o' cur else (\<lambda>s. s)))
    (\<lambda>_. reply (finish_result_of ((refunded_patch now w cr)\<lparr>r_updatedAt := now\<rparr>) t f True))"
  obtain s1 x where c1: "?claim s = (s1, x)" by force
  have "settled (r_id r) s0 (fst (?claim s))" by (rule settled_claim [OF assms]) simp
  then have s1: "settled (r_id r) s0 s1" using c1 by simp
  have "quiet s0 (fst (and_then (modify (set_refund now (r_id r) (refunded_patch now w))) ?k s1))"
    by (subst after_modify, rule quiet_trans [OF settled_set_refund [OF s1] quiet_run])
      (auto simp: refunded_patch_def intro!: keeps_intros)
  then show ?thesis
    unfolding finish_writes_def and_then_run [where h = ?claim, OF c1]
    using settled_quiet [OF s1] by (cases x) auto
qed

lemma finish_commit_quiet:
  assumes "settled (r_id r) s0 s"
  shows "quiet s0 (fst (finish_commit now r o' w s))"
proof -
  have trans: "quiet s0 (fst (h s)) \<Longrightarrow> quiet s0 (fst (transaction h s))" for h :: "(db, finish_result) handler"
    using settled_quiet [OF assms] by (auto simp: transaction_def split: prod.splits sum.splits)
  show ?thesis
    unfolding finish_commit_def
    by (rule trans)
      (simp add: Let_def reply_def reject_def settled_quiet [OF assms] finish_writes_quiet [OF assms]
        split: option.split)
qed

text \<open>A finished refund is committed before and after, so a second booking is quiet, too.\<close>

lemma finishRefund_quiet:
  assumes "settled (r_id r) s0 s"
  shows "quiet s0 (fst (finishRefund now r w u s))"
proof (cases "find_row o_id (r_orderId r) (orders s)")
  case None
  then show ?thesis using assms by (simp add: finishRefund_def reject_def settled_quiet)
next
  case (Some o')
  obtain s1 x where c: "finish_commit now r o' w s = (s1, x)" by force
  have q: "quiet s0 s1" using finish_commit_quiet [OF assms, of now o' w] c by simp
  have "quiet s0 (fst (and_then (finish_commit now r o' w) (finish_tail now r o' u) s))"
    using c q quiet_trans [OF q quiet_run [OF finish_tail_keeps]] by (cases x) (simp_all add: and_then_def)
  then show ?thesis
    using Some assms by (auto simp: finishRefund_def reply_def reject_def settled_quiet split: option.split)
qed

text \<open>A failed booking leaves the refund committed: the booking is a transaction.\<close>

lemma finish_commit_fails: "finish_commit now r o' w s = (s', Inl e) \<Longrightarrow> s' = s"
  unfolding finish_commit_def by (rule atomicD [OF atomic_transaction])

lemma finish_tail_replies: "finish_tail now r o' u res s \<noteq> (s', Inl e)"
  by (simp add: finish_tail_def Let_def reply_def and_then_def modify_def audit_def)

lemma finishRefund_fails: "finishRefund now r w u s = (s', Inl e) \<Longrightarrow> s' = s"
proof (cases "find_row o_id (r_orderId r) (orders s)")
  case (Some o')
  assume run: "finishRefund now r w u s = (s', Inl e)"
  obtain s1 x where c: "finish_commit now r o' w s = (s1, x)" by force
  then show ?thesis
    using run Some finish_tail_replies finish_commit_fails
    by (cases x)
      (auto simp: finishRefund_def and_then_run [where h = "finish_commit now r o' w", OF c] reply_def reject_def split: option.splits if_splits)
qed (simp add: finishRefund_def reject_def)

lemma book_outcome_quiet:
  assumes "settled (r_id r) s0 s" and "r_id fin = r_id r"
  shows "quiet s0 (fst (book_outcome now u r fin applied s))"
proof (cases applied)
  case (WxApplied w st)
  show ?thesis
  proof (cases "st = ''SUCCESS''")
    case True
    obtain s1 x where f: "finishRefund now fin w u s = (s1, x)" by force
    have "quiet s0 s1" using finishRefund_quiet [of fin s0 s now w u] assms f by simp
    then show ?thesis
      using WxApplied True f assms(1) finishRefund_fails [of now fin w u s]
      by (cases x) (auto simp: book_outcome_def book_refused_quiet book_unknown_quiet)
  next
    case False
    have "quiet s0 (fst (and_then (modify (set_refund now (r_id r) (\<lambda>x. x\<lparr>r_status := RRefunding, r_wxRefundId := Some w\<rparr>)))
           (\<lambda>_. and_then (row_of (r_id r))
           (\<lambda>row. and_then (audit u ''refund.approve'' (r_id r)) (\<lambda>_. reply row))) s))"
      by (subst after_modify, rule quiet_trans [OF settled_set_refund [OF assms(1)] quiet_run])
        (auto intro!: keeps_intros)
    then show ?thesis by (simp add: book_outcome_def WxApplied False)
  qed
qed (use assms in \<open>simp_all add: book_outcome_def book_unknown_quiet book_refused_quiet\<close>)

subsection \<open>The approval\<close>

lemma lock_order_ok:
  "lock_order o' m e s = (s', Inr x) \<longleftrightarrow>
    s' = s\<lparr>orders := update_where (\<lambda>y. o_id y = o_id o' \<and> o_status y = o_status o')
      (\<lambda>y. y\<lparr>o_status := AfterSales, o_statusText := m\<rparr>) (orders s)\<rparr> \<and>
    (\<exists>y \<in> set (orders s). o_id y = o_id o' \<and> o_status y = o_status o')"
  unfolding lock_order_def by (rule claim_order_ok)

lemma claim_refunds_ok:
  "claim_or refunds refunds_update P f e s = (s', Inr x) \<longleftrightarrow>
    s' = s\<lparr>refunds := update_where P f (refunds s)\<rparr> \<and> (\<exists>y \<in> set (refunds s). P y)"
  unfolding claim_or_ok by (subst table_updates(5)) (rule refl)

lemma row_of_ok: "row_of k s = (s', Inr r) \<longleftrightarrow> s' = s \<and> find_row r_id k (refunds s) = Some r"
  by (auto simp: row_of_def reply_def reject_def split: option.split)

lemma writes_frame [simp]:
  "refunds (fold write_amount as s) = refunds s" "orders (fold write_amount as s) = orders s"
  by (induction as arbitrary: s) (simp_all add: write_amount_def)

lemma set_refund_frame [simp]:
  "orders (set_refund now k f s) = orders s" "refund_items (set_refund now k f s) = refund_items s"
  "products (set_refund now k f s) = products s" "user_coupons (set_refund now k f s) = user_coupons s"
  "coupons (set_refund now k f s) = coupons s" "commissions (set_refund now k f s) = commissions s"
  by (simp_all add: set_refund_def)

lemma others_frame:
  assumes "\<And>x. r_id (f x) = r_id x"
  shows "sum_where (\<lambda>x. P x \<and> r_id x \<noteq> k) g (update_where (\<lambda>x. r_id x = k \<and> Q x) f rows) =
    sum_where (\<lambda>x. P x \<and> r_id x \<noteq> k) g rows"
  by (induction rows) (auto simp: assms)

lemma sum_where_split:
  assumes "distinct (map r_id rows)" and "x \<in> set rows" and "r_id x = k"
  shows "sum_where P g rows = sum_where (\<lambda>y. P y \<and> r_id y \<noteq> k) g rows + (if P x then g x else 0)"
  using assms
proof (induction rows)
  case (Cons y rows)
  show ?case
  proof (cases "y = x")
    case True
    have "r_id y \<notin> r_id ` set rows" using Cons.prems(1) by simp
    then have "\<forall>z \<in> set rows. r_id z \<noteq> k" using True Cons.prems(3) by (metis image_eqI)
    then have "sum_where P g rows = sum_where (\<lambda>z. P z \<and> r_id z \<noteq> k) g rows"
      by (induction rows) auto
    then show ?thesis using True Cons.prems by simp
  next
    case False
    then show ?thesis using Cons by (auto simp: image_iff)
  qed
qed simp

definition approved_rows ::
  "millis \<Rightarrow> string \<Rightarrow> string \<Rightarrow> bool \<Rightarrow> refund \<Rightarrow> cents \<Rightarrow> refund list \<Rightarrow> refund list" where
  "approved_rows now u m fee r a rows =
    update_where (\<lambda>x. r_id x = r_id r) (\<lambda>x. x\<lparr>r_amount := a, r_refundDeliveryFee := fee, r_updatedAt := now\<rparr>)
      (update_where (\<lambda>x. r_id x = r_id r \<and> r_status x = r_status r)
        (\<lambda>x. (approve_patch now u m x)\<lparr>r_updatedAt := now\<rparr>) rows)"

lemma approve_patch_simps [simp]:
  "r_id (approve_patch now u m x) = r_id x" "r_orderId (approve_patch now u m x) = r_orderId x"
  "r_status (approve_patch now u m x) = RApproved" "r_amount (approve_patch now u m x) = r_amount x"
  by (simp_all add: approve_patch_def)

lemma approved_others:
  "sum_where (\<lambda>x. P x \<and> r_id x \<noteq> r_id r) g (approved_rows now u m fee r a rows) =
    sum_where (\<lambda>x. P x \<and> r_id x \<noteq> r_id r) g rows"
proof -
  let ?rows = "update_where (\<lambda>x. r_id x = r_id r \<and> r_status x = r_status r)
        (\<lambda>x. (approve_patch now u m x)\<lparr>r_updatedAt := now\<rparr>) rows"
  have "sum_where (\<lambda>x. P x \<and> r_id x \<noteq> r_id r) g (update_where (\<lambda>x. r_id x = r_id r \<and> True)
      (\<lambda>x. x\<lparr>r_amount := a, r_refundDeliveryFee := fee, r_updatedAt := now\<rparr>) ?rows) =
    sum_where (\<lambda>x. P x \<and> r_id x \<noteq> r_id r) g ?rows"
    by (rule others_frame) simp
  also have "\<dots> = sum_where (\<lambda>x. P x \<and> r_id x \<noteq> r_id r) g rows"
    by (rule others_frame) simp
  finally show ?thesis by (simp add: approved_rows_def)
qed

lemma approve_commit_ok:
  assumes "approve_commit now u m as fee r o' s = (s', Inr fin)"
  shows "\<exists>a. 1 \<le> a \<and> a + reserved_by_others s (r_orderId r) (r_id r) \<le> refundable_total o' fee \<and>
      refunds s' = approved_rows now u m fee r a (refunds s) \<and>
      find_row r_id (r_id r) (refunds s') = Some fin"
    and "map money_view (orders s') = map money_view (orders s)"
    and "o_status o' \<noteq> AfterSales \<Longrightarrow> \<exists>y \<in> set (orders s). o_id y = o_id o' \<and> o_status y = o_status o'"
    and "\<exists>x \<in> set (refunds s). r_id x = r_id r \<and> r_status x = r_status r"
proof -
  let ?s1 = "s\<lparr>refunds := update_where (\<lambda>x. r_id x = r_id r \<and> r_status x = r_status r)
      (\<lambda>x. (approve_patch now u m x)\<lparr>r_updatedAt := now\<rparr>) (refunds s)\<rparr>"
  let ?lock = "if o_status o' \<noteq> AfterSales then lock_order o' ''refund in progress'' (BadRequest ''the order has changed'')
         else reply ()"
  obtain s2 x where row: "\<exists>x \<in> set (refunds s). r_id x = r_id r \<and> r_status x = r_status r"
    and lock: "?lock ?s1 = (s2, Inr x)"
    and rest: "approve_amount now fee r o' (fold write_amount as s2) = (s', Inr fin)"
    using assms unfolding approve_commit_def transaction_ok and_then_ok claim_refunds_ok modify_ok by blast
  obtain a where a: "1 \<le> a" "a + reserved_by_others (fold write_amount as s2) (r_orderId r) (r_id r) \<le> refundable_total o' fee"
    and s': "s' = set_refund now (r_id r) (\<lambda>x. x\<lparr>r_amount := a, r_refundDeliveryFee := fee\<rparr>) (fold write_amount as s2)"
    and fin: "find_row r_id (r_id r) (refunds s') = Some fin"
    using rest by (auto simp: approve_amount_def ok_simps row_of_ok split: sum.split_asm)
  have s2: "refunds s2 = refunds ?s1" "map money_view (orders s2) = map money_view (orders s)"
    using lock by (auto simp: lock_order_ok reply_ok map_update_where money_view_def split: if_splits)
  have "reserved_by_others (fold write_amount as s2) (r_orderId r) (r_id r) = reserved_by_others s (r_orderId r) (r_id r)"
    by (simp add: reserved_by_others_def s2)
      (use others_frame [where P = "\<lambda>x. r_orderId x = r_orderId r \<and> r_status x \<in> set ACTIVE_REFUNDS"
          and f = "\<lambda>x. (approve_patch now u m x)\<lparr>r_updatedAt := now\<rparr>"] in simp)
  then show "\<exists>a. 1 \<le> a \<and> a + reserved_by_others s (r_orderId r) (r_id r) \<le> refundable_total o' fee \<and>
      refunds s' = approved_rows now u m fee r a (refunds s) \<and> find_row r_id (r_id r) (refunds s') = Some fin"
    using a fin by (auto simp: s' set_refund_def approved_rows_def s2)
  show "map money_view (orders s') = map money_view (orders s)" by (simp add: s' s2)
  show "o_status o' \<noteq> AfterSales \<Longrightarrow> \<exists>y \<in> set (orders s). o_id y = o_id o' \<and> o_status y = o_status o'"
    using lock by (auto simp: lock_order_ok)
  show "\<exists>x \<in> set (refunds s). r_id x = r_id r \<and> r_status x = r_status r" by (rule row)
qed

lemma refundable_total_le: "0 \<le> o_deliveryFee o' \<Longrightarrow> refundable_total o' b \<le> o_payableAmount o'"
  by (simp add: refundable_total_def refundCeiling_def)

lemma sum_where_le:
  "\<forall>r \<in> set rows. 0 \<le> g r \<Longrightarrow> (\<And>r. P r \<Longrightarrow> Q r) \<Longrightarrow> sum_where P g rows \<le> sum_where Q g rows"
  for g :: "'r \<Rightarrow> int"
  by (induction rows) fastforce+

lemma approved_rows_ids: "map r_id (approved_rows now u m fee r a rows) = map r_id rows"
  by (simp add: approved_rows_def map_update_where approve_patch_def)

lemma approved_rows_mem:
  assumes "distinct (map r_id rows)" and "r \<in> set rows" and "y \<in> set (approved_rows now u m fee r a rows)"
  shows "y \<in> set rows \<and> r_id y \<noteq> r_id r \<or> r_id y = r_id r \<and> r_orderId y = r_orderId r \<and> r_amount y = a \<and> is_committed y"
proof -
  obtain z where z: "z \<in> set rows" "y = (let z1 = (if r_id z = r_id r \<and> r_status z = r_status r
      then (approve_patch now u m z)\<lparr>r_updatedAt := now\<rparr> else z)
      in if r_id z1 = r_id r then z1\<lparr>r_amount := a, r_refundDeliveryFee := fee, r_updatedAt := now\<rparr> else z1)"
    using assms(3) by (auto simp: approved_rows_def set_update_where Let_def)
  have "r_id z = r_id r \<Longrightarrow> z = r" using unique_key [OF assms(1) z(1) assms(2)] by simp
  then show ?thesis using z by (auto simp: Let_def is_committed_def)
qed

lemma approved_row_present:
  "r \<in> set rows \<Longrightarrow> \<exists>y \<in> set (approved_rows now u m fee r a rows). r_id y = r_id r"
  using approved_rows_ids [of now u m fee r a rows] by (metis (no_types) image_iff image_set imageI)

lemma approve_books:
  assumes b: "refund_books s" and r: "r \<in> set (refunds s)" and o': "o' \<in> set (orders s)" "o_id o' = r_orderId r"
    and run: "approve_commit now u m as fee r o' s = (s', Inr fin)"
  shows "refund_books s'" and "settled (r_id r) s' s'" and "r_id fin = r_id r"
proof -
  obtain a where a: "1 \<le> a" "a + reserved_by_others s (r_orderId r) (r_id r) \<le> refundable_total o' fee"
    and rows: "refunds s' = approved_rows now u m fee r a (refunds s)"
    and fin: "find_row r_id (r_id r) (refunds s') = Some fin"
    using approve_commit_ok(1) [OF run] by blast
  have m: "map money_view (orders s') = map money_view (orders s)" by (rule approve_commit_ok(2) [OF run])
  have d: "distinct (map r_id (refunds s))" and pos: "\<forall>x \<in> set (refunds s). 0 \<le> r_amount x"
    using b by (simp_all add: refund_books_def)
  note mem = approved_rows_mem [OF d r, of _ now u m fee a, folded rows]
  show "r_id fin = r_id r" using find_row_SomeD [OF fin] by simp
  show "settled (r_id r) s' s'" using mem by (auto intro: settled_refl)
  have d': "distinct (map r_id (refunds s'))" by (simp add: rows approved_rows_ids d)
  obtain y where y: "y \<in> set (refunds s')" "r_id y = r_id r"
    using approved_row_present [OF r, of now u m fee a] by (auto simp: rows)
  then have y': "r_orderId y = r_orderId r" "r_amount y = a" "is_committed y" using mem by auto
  let ?others = "\<lambda>k. sum_where (\<lambda>x. (r_orderId x = k \<and> is_committed x) \<and> r_id x \<noteq> r_id r) r_amount (refunds s)"
  have com: "committed_of s' k = ?others k + (if r_orderId r = k then a else 0)" for k
    using sum_where_split [OF d' y, of "\<lambda>x. r_orderId x = k \<and> is_committed x" r_amount] y'
      approved_others [of "\<lambda>x. r_orderId x = k \<and> is_committed x" r r_amount now u m fee a "refunds s", folded rows]
    by (simp add: committed_of_def)
  have others: "?others k \<le> committed_of s k" for k
    unfolding committed_of_def using pos by (intro sum_where_le) auto
  have live: "?others (r_orderId r) \<le> reserved_by_others s (r_orderId r) (r_id r)"
    unfolding reserved_by_others_def
    using pos by (intro sum_where_le) (auto simp: is_committed_def ACTIVE_REFUNDS_def)
  have "0 \<le> o_deliveryFee p \<and> committed_of s' (o_id p) \<le> o_payableAmount p" if "p \<in> set (orders s')" for p
  proof -
    obtain q where q: "q \<in> set (orders s)" "o_id q = o_id p" "o_payableAmount q = o_payableAmount p"
        "o_deliveryFee q = o_deliveryFee p"
      using money_view_mem [OF m \<open>p \<in> set (orders s')\<close>] by blast
    then have fee: "0 \<le> o_deliveryFee p" and old: "committed_of s (o_id p) \<le> o_payableAmount p"
      using b by (auto simp: refund_books_def)
    have "r_orderId r = o_id p \<Longrightarrow> q = o'"
      using unique_key [of o_id "orders s" q o'] b q o' by (simp add: refund_books_def)
    then have "r_orderId r = o_id p \<Longrightarrow> refundable_total o' fee \<le> o_payableAmount p"
      using refundable_total_le [of o' fee] fee q by auto
    then show ?thesis using fee old com [of "o_id p"] others [of "o_id p"] live a by auto
  qed
  moreover have "\<forall>x \<in> set (refunds s'). 0 \<le> r_amount x" using mem pos a by fastforce
  ultimately show "refund_books s'"
    using d' money_view_ids [OF m] b by (simp add: refund_books_def)
qed

subsection \<open>The handlers keep the books\<close>

lemma books_insert:
  assumes "refund_books s" and "r_id r \<notin> r_id ` set (refunds s)" and "0 \<le> r_amount r" and "\<not> is_committed r"
  shows "refund_books (insert_refund r items s)"
  using assms by (auto simp: refund_books_def insert_refund_def committed_of_def)

lemma new_refund_simps [simp]:
  "r_id (new_refund now k o' src d m a b) = k" "r_amount (new_refund now k o' src d m a b) = a"
  "\<not> is_committed (new_refund now k o' src d m a b)" "r_status (new_refund now k o' src d m a b) = RPending"
  "r_orderId (new_refund now k o' src d m a b) = o_id o'" "r_beforeStatus (new_refund now k o' src d m a b) = b"
  "r_userId (new_refund now k o' src d m a b) = o_userId o'" "r_source (new_refund now k o' src d m a b) = src"
  by (simp_all add: new_refund_def is_committed_def)

lemma createRefund_commit_ok:
  assumes "createRefund_commit now ids o' i a s = (s', Inr r)"
  shows "r = new_refund now (ids 0) o' (in_source i) (in_description i) (in_reason i) a (o_status o') \<and>
    s' = insert_refund r (item_rows ids (in_items i)) (s\<lparr>orders := update_where
      (\<lambda>y. o_id y = o_id o' \<and> o_status y = o_status o')
      (\<lambda>y. y\<lparr>o_status := AfterSales, o_statusText := in_statusText i\<rparr>) (orders s)\<rparr>) \<and>
    a + reserved_of s (o_id o') \<le> refundAmountFor o' \<and>
    (\<exists>y \<in> set (orders s). o_id y = o_id o' \<and> o_status y = o_status o')"
  using assms by (auto simp: createRefund_commit_def lock_order_ok ok_simps Let_def reserved_of_def)

lemma atomic_createRefund: "atomic (createRefund now ids o' i)"
  unfolding createRefund_def createRefund_commit_def Let_def
  by (intro atomic_unless atomic_transaction)

lemma books_createRefund:
  assumes b: "refund_books s" and fresh: "ids 0 \<notin> r_id ` set (refunds s)"
  shows "refund_books (fst (createRefund now ids o' i s))"
proof (cases "createRefund now ids o' i s")
  case (Pair s' x)
  show ?thesis
  proof (cases x)
    case (Inl e)
    then show ?thesis using b Pair atomicD [OF atomic_createRefund] by fastforce
  next
    case (Inr r)
    then obtain a where a: "1 \<le> a" and c: "createRefund_commit now ids o' i a s = (s', Inr r)"
      using Pair by (auto simp: createRefund_def Let_def ok_simps)
    let ?s1 = "s\<lparr>orders := update_where (\<lambda>y. o_id y = o_id o' \<and> o_status y = o_status o')
      (\<lambda>y. y\<lparr>o_status := AfterSales, o_statusText := in_statusText i\<rparr>) (orders s)\<rparr>"
    have "refund_books ?s1"
      by (rule quiet_books [OF quiet_orders b]) (simp add: money_view_def)
    then have "refund_books (insert_refund r (item_rows ids (in_items i)) ?s1)"
      using createRefund_commit_ok [OF c] a fresh by (intro books_insert) auto
    then show ?thesis using createRefund_commit_ok [OF c] Pair by auto
  qed
qed

lemma books_createAfterSales:
  "refund_books s \<Longrightarrow> ids 0 \<notin> r_id ` set (refunds s) \<Longrightarrow> refund_books (fst (createAfterSales now ids u k d ps s))"
  by (auto simp: createAfterSales_def unless_apply reject_def books_createRefund split: option.split sum.split)

lemma books_applyPreDelivery:
  "refund_books s \<Longrightarrow> ids 0 \<notin> r_id ` set (refunds s) \<Longrightarrow> refund_books (fst (applyPreDeliveryRefund now ids u k m s))"
  by (auto simp: applyPreDeliveryRefund_def unless_apply reject_def Let_def books_createRefund split: option.split)

lemma quiet_withdraw [simp]:
  "quiet s (set_refund now k (r_status_update (\<lambda>_. RCancelled)) s)"
  "quiet s (set_refund now k (reject_patch now' u m) s)"
  by (rule quiet_set_refund; simp add: reject_patch_def is_committed_def)+

lemma quiet_cancel: "quiet s (fst (cancelAfterSale now u k s))"
proof -
  have "keeps (quiet s0) (cancelAfterSale_commit now r)" for s0 r
    unfolding cancelAfterSale_commit_def
    by (auto simp: is_committed_def intro!: keeps_intros)
  from quiet_run [OF this] show ?thesis
    by (auto simp: cancelAfterSale_def unless_apply reject_def split: option.split)
qed

lemma quiet_reject: "quiet s (fst (reject_refund now u m r s))"
proof -
  have "keeps (quiet s0) (reject_refund now u m r)" for s0
    unfolding reject_refund_def reject_commit_def
    by (auto simp: is_committed_def reject_patch_def intro!: keeps_intros)
  from quiet_run [OF this] show ?thesis .
qed

lemma scoped_refundD:
  assumes "scoped_refund s k scope = Some (r, o')"
  shows "find_row r_id k (refunds s) = Some r \<and> r \<in> set (refunds s) \<and> r_id r = k \<and>
    find_row o_id (r_orderId r) (orders s) = Some o' \<and> o' \<in> set (orders s) \<and> o_id o' = r_orderId r"
  using assms by (auto simp: scoped_refund_def split: option.splits if_splits dest: find_row_SomeD)

lemma books_audit:
  assumes b: "refund_books s"
  shows "refund_books (fst (auditRefund payments now k act u scope m amounts flag s))"
proof (cases "scoped_refund s k scope")
  case None
  then show ?thesis using b by (simp add: auditRefund_def reject_def)
next
  case (Some ro)
  obtain r o' where ro: "ro = (r, o')" by force
  note row = scoped_refundD [OF Some [unfolded ro]]
  show ?thesis
  proof (cases act)
    case Reject
    then show ?thesis using Some ro quiet_books [OF quiet_reject b] by (simp add: auditRefund_def)
  next
    case Approve
    have "refund_books (fst (approve_refund payments now u m as fee r o' s))" for as fee
    proof -
      have "refund_books (fst (and_then (approve_commit now u m as fee r o') (\<lambda>fin. book_outcome now u r fin (h fin)) s))"
        for h
      proof -
        obtain s1 x where c: "approve_commit now u m as fee r o' s = (s1, x)" by force
        show ?thesis
        proof (cases x)
          case (Inl e)
          then have "s1 = s" using c atomicD [OF atomic_transaction] by (simp add: approve_commit_def)
          then show ?thesis
            using b Inl by (simp add: and_then_run [where h = "approve_commit now u m as fee r o'", OF c])
        next
          case (Inr fin)
          have k: "refund_books s1" "settled (r_id r) s1 s1" "r_id fin = r_id r"
            using approve_books [OF b _ _ _ c [unfolded Inr]] row by auto
          show ?thesis
            using quiet_books [OF book_outcome_quiet [OF k(2,3)] k(1)]
            by (simp add: and_then_run [where h = "approve_commit now u m as fee r o'", OF c] Inr)
        qed
      qed
      then show ?thesis
        using b by (auto simp: approve_refund_def unless_apply reject_def split: option.split)
    qed
    then show ?thesis using Some ro Approve by (simp add: auditRefund_def)
  qed
qed

lemma books_sync:
  assumes b: "refund_books s" and live: "\<And>r. r \<in> set (refunds s) \<Longrightarrow> r_id r = k \<Longrightarrow> r_status r \<noteq> RFailed"
  shows "refund_books (fst (syncRefund payments now k u scope s))"
proof (cases "scoped_refund s k scope")
  case None
  then show ?thesis using b by (simp add: syncRefund_def reject_def)
next
  case (Some ro)
  obtain r o' where ro: "ro = (r, o')" by force
  note row = scoped_refundD [OF Some [unfolded ro]]
  have "quiet s (fst (reconcileWechatRefundStatus now k st w u scope s))"
    if st: "r_status r \<in> {RRefunding, RApproved}" for st w
  proof -
    let ?s1 = "fst (audit u ''refund.sync'' k s)"
    have "distinct (map r_id (refunds s))" using b by (simp add: refund_books_def)
    then have "settled k s s"
      using row st unique_key [of r_id "refunds s" _ r] by (intro settled_refl) (auto simp: is_committed_def)
    then have s1: "settled (r_id r) s ?s1"
      using row by (auto intro: settled_same simp: audit_def quiet_cong)
    have proc: "quiet s (fst (book_processing now w r o' ?s1))"
    proof -
      let ?f = "\<lambda>x. x\<lparr>o_status := AfterSales, o_statusText := ''refund in progress''\<rparr>"
      let ?g = "\<lambda>x. x\<lparr>r_status := RRefunding, r_wxRefundId := wx_id_or w (r_wxRefundId r), r_refundError := []\<rparr>"
      let ?P = "\<lambda>x. o_id x = r_orderId r \<and> o_status x \<in> {o_status o', AfterSales}"
      have "settled (r_id r) s (?s1\<lparr>orders := update_where ?P ?f (orders ?s1)\<rparr>)"
        by (rule settled_same [OF s1 quiet_orders]) (simp_all add: money_view_def)
      then have "quiet s (set_refund now (r_id r) ?g (?s1\<lparr>orders := update_where ?P ?f (orders ?s1)\<rparr>))"
        by (rule settled_set_refund) simp
      then show ?thesis
        using settled_quiet [OF s1]
        by (auto simp: book_processing_def transaction_def after_modify row_of_def reply_def reject_def split: option.split)
    qed
    have closed: "quiet s (fst (book_closed now st w r ?s1))"
    proof -
      let ?g = "\<lambda>x. x\<lparr>r_status := RFailed, r_wxRefundId := wx_id_or w (r_wxRefundId r),
           r_refundError := (if st = ''CLOSED'' then ''closed by the payment service''
             else ''not accepted by the payment service'')\<rparr>"
      have q: "quiet s (set_refund now (r_id r) ?g ?s1)" by (rule settled_set_refund [OF s1]) simp
      have "keeps (quiet s0) (and_then (row_of (r_id r))
        (\<lambda>failed. and_then (modify (restoreOrderFromRefund_admin (r_orderId r) (r_beforeStatus r)))
        (\<lambda>_. reply failed)))" for s0
        by (auto intro!: keeps_intros)
      note tail = quiet_trans [OF q quiet_run [OF this]]
      show ?thesis
        using settled_quiet [OF s1] tail
        by (simp add: book_closed_def transaction_def after_modify split: prod.split sum.split) fastforce
    qed
    show ?thesis
      using Some ro settled_quiet [OF s1] finishRefund_quiet [OF s1] proc closed
      by (simp add: reconcileWechatRefundStatus_def and_then_def audit_def reply_def split: option.split)
  qed
  then have "quiet s (fst (syncRefund payments now k u scope s))"
    using Some ro live row
    by (auto simp: syncRefund_def unless_apply reject_def split: option.split sum.split)
  then show ?thesis by (rule quiet_books [OF _ b])
qed

lemma books_createApproved:
  assumes b: "refund_books s" and fresh: "ids 0 \<notin> r_id ` set (refunds s)" and a: "1 \<le> a"
    and run: "createApproved_commit now ids o' items a m u s = (s', x)"
  shows "refund_books s'"
proof (cases x)
  case (Inl e)
  then show ?thesis using b run atomicD [OF atomic_transaction] by (fastforce simp: createApproved_commit_def)
next
  case (Inr r)
  let ?s1 = "s\<lparr>orders := update_where (\<lambda>y. o_id y = o_id o' \<and> o_status y = o_status o')
      (\<lambda>y. y\<lparr>o_status := AfterSales, o_statusText := ''partial refund in progress''\<rparr>) (orders s)\<rparr>"
  have q: "refund_books ?s1" by (rule quiet_books [OF quiet_orders b]) (simp add: money_view_def)
  have s': "s' = insert_refund r (item_rows ids items) ?s1" and r: "r_id r = ids 0" "r_amount r = a" "\<not> is_committed r"
    using run Inr by (auto simp: createApproved_commit_def lock_order_ok ok_simps Let_def is_committed_def)
  show ?thesis unfolding s' using q r fresh a by (intro books_insert) auto
qed

lemma books_createUnshipped:
  assumes b: "refund_books s" and fresh: "k \<notin> r_id ` set (refunds s)"
  shows "refund_books (fst (createUnshippedFullRefund now k o' m u s))"
proof -
  have "refund_books (insert_refund r [] s)" if "r_id r = k" "0 \<le> r_amount r" "\<not> is_committed r" for r
    using b fresh that by (intro books_insert) auto
  moreover have "refund_books (t\<lparr>audits := as\<rparr>)" if "refund_books t" for t as
    by (rule quiet_books [OF quiet_cong that]) simp_all
  ultimately show ?thesis
    using b by (simp add: createUnshippedFullRefund_def Let_def unless_apply and_then_def modify_def audit_def
        reply_def insert_refund_def)
qed

lemma books_createAndApprove:
  assumes b: "refund_books s" and fresh: "ids 0 \<notin> r_id ` set (refunds s)"
  shows "refund_books (fst (createAndApproveRefund payments now ids k body u scope s))"
proof -
  have "refund_books (fst (and_then (createApproved_commit now ids o' items a m u)
      (\<lambda>r. auditRefund payments now (r_id r) Approve u scope m' None None) s))" if "1 \<le> a" for o' items a m m'
  proof -
    obtain s1 x where c: "createApproved_commit now ids o' items a m u s = (s1, x)" by force
    have "refund_books s1" by (rule books_createApproved [OF b fresh that c])
    then show ?thesis
      by (cases x) (simp_all add: and_then_run [where h = "createApproved_commit now ids o' items a m u", OF c] books_audit)
  qed
  then show ?thesis
    using b books_createUnshipped [OF b fresh]
    by (auto simp: createAndApproveRefund_def unless_apply reject_def Let_def split: option.split sum.split)
qed

subsection \<open>The invariant\<close>

text \<open>The refund requests, and any other change that leaves the refunds and the money of the
  orders alone. A refund that is created gets a fresh identity. Asking the payment service about
  a refund that is marked as failed is left out (see \<open>failed_refund_revived\<close>).\<close>

inductive refund_step :: "db \<Rightarrow> db \<Rightarrow> bool" where
  after: "ids 0 \<notin> r_id ` set (refunds s) \<Longrightarrow> refund_step s (fst (createAfterSales now ids u k d ps s))"
| pre: "ids 0 \<notin> r_id ` set (refunds s) \<Longrightarrow> refund_step s (fst (applyPreDeliveryRefund now ids u k m s))"
| withdraw: "refund_step s (fst (cancelAfterSale now u k s))"
| review: "refund_step s (fst (auditRefund payments now k act op' scope m amounts flag s))"
| office: "ids 0 \<notin> r_id ` set (refunds s) \<Longrightarrow>
    refund_step s (fst (createAndApproveRefund payments now ids k body op' scope s))"
| sync: "(\<And>r. r \<in> set (refunds s) \<Longrightarrow> r_id r = k \<Longrightarrow> r_status r \<noteq> RFailed) \<Longrightarrow>
    refund_step s (fst (syncRefund query now k op' scope s))"
| other: "quiet s s' \<Longrightarrow> refund_step s s'"

lemma refund_step_books: "refund_step s s' \<Longrightarrow> refund_books s \<Longrightarrow> refund_books s'"
proof (induction rule: refund_step.induct)
  case (withdraw s now u k)
  then show ?case by (rule quiet_books [OF quiet_cancel])
next
  case (other s s')
  then show ?case by (rule quiet_books)
qed (blast intro: books_createAfterSales books_applyPreDelivery books_audit books_createAndApprove books_sync)+

text \<open>C5. The money on its way back never exceeds what was paid: in every state reached by any
  sequence of refund requests of the users and the back office (applying, withdrawing, approving
  with any answer of the payment service, rejecting, partial refunds, synchronising refunds that
  have not failed) the refunds of an order that are approved, in progress or paid out add up to
  at most its payment.\<close>

theorem refunds_within_payment:
  assumes "refund_books s" and "refund_step\<^sup>*\<^sup>* s s'"
  shows "refund_books s' \<and> (\<forall>o' \<in> set (orders s'). committed_of s' (o_id o') \<le> o_payableAmount o')"
proof -
  have "refund_books s'"
    using assms(2,1) by (induction rule: rtranclp_induct) (auto intro: refund_step_books)
  then show ?thesis by (simp add: refund_books_def)
qed

definition paid_db :: db where
  "paid_db = db_at Paid None"

definition applied_db :: db where
  "applied_db = fst (applyPreDeliveryRefund 5000 sample_ids ''u1'' ''o1'' ''changed my mind'' paid_db)"

definition wx_success :: wx_apply where
  "wx_success orderNo tot amount refundNo reason = WxApplied ''wx-1'' ''SUCCESS''"

lemma paid_db_books: "refund_books paid_db"
  by (simp add: refund_books_def paid_db_def db_at_def db0_def committed_of_def order1_def)

theorem refunds_within_payment_witness:
  "refund_books (fst (auditRefund (Some wx_success) 6000 ''n'' Approve ''adm'' None [] None None applied_db))"
proof -
  have "refund_step paid_db applied_db"
    unfolding applied_db_def by (rule refund_step.pre) (simp add: paid_db_def db_at_def db0_def)
  then have "refund_step\<^sup>*\<^sup>* paid_db
      (fst (auditRefund (Some wx_success) 6000 ''n'' Approve ''adm'' None [] None None applied_db))"
    by (meson refund_step.review rtranclp.rtrancl_into_rtrancl rtranclp.rtrancl_refl)
  from refunds_within_payment [OF paid_db_books this] show ?thesis by blast
qed

subsection \<open>One approval\<close>

lemma approved_rows_status:
  assumes "r_status r \<noteq> RApproved" and "y \<in> set (approved_rows now u m fee r a rows)" and "r_id y = r_id r"
  shows "r_status y \<noteq> r_status r"
  using assms by (auto simp: approved_rows_def set_update_where split: if_splits)

lemma claim_refunds_lost:
  assumes "\<forall>y \<in> set (refunds s). \<not> P y"
  shows "claim_or refunds refunds_update P f e s = (s, Inl e)"
proof -
  have "refunds_update (update_where P f) s = s"
    using assms by (intro refunds_tbl.upd_same) (rule update_where_id)
  then show ?thesis using assms by (simp add: claim_or_def update_many_def count_where_0)
qed

text \<open>C22. A refund is approved once: of two reviewers who have read the same open request, only the
  first one's approval is written; the other is refused, and the amount, the lines and the
  delivery-fee flag the first one settled stay as they are.\<close>

theorem approval_is_exclusive:
  assumes "approve_commit now u m as fee r o' s = (s1, Inr fin)"
    and "r_status r \<in> {RPending, RFailed}"
  shows "approve_commit now' u' m' as' fee' r o'' s1 = (s1, Inl (BadRequest ''the request has changed''))"
proof -
  obtain a where rows: "refunds s1 = approved_rows now u m fee r a (refunds s)"
    using approve_commit_ok(1) [OF assms(1)] by blast
  have "\<forall>y \<in> set (refunds s1). \<not> (r_id y = r_id r \<and> r_status y = r_status r)"
    using approved_rows_status [of r] assms(2) by (auto simp: rows)
  from claim_refunds_lost [OF this] show ?thesis
    by (simp add: approve_commit_def transaction_def and_then_def)
qed

definition open_refund :: refund where
  "open_refund = new_refund 5000 ''n'' order1 PreDelivery [] ''changed my mind'' 900 Paid"

definition locked_order :: order_row where
  "locked_order = order1\<lparr>o_status := AfterSales, o_statusText := ''refund review''\<rparr>"

definition open_db :: db where
  "open_db = db0\<lparr>orders := [locked_order], refunds := [open_refund]\<rparr>"

definition approved_run :: "db \<times> (api_error + refund)" where
  "approved_run = approve_commit 6000 ''adm'' [] [] False open_refund locked_order open_db"

lemma approved_run_ok: "\<exists>fin. snd approved_run = Inr fin"
proof -
  have "(case snd approved_run of Inr x \<Rightarrow> True | Inl y \<Rightarrow> False)" by code_simp
  then show ?thesis by (auto split: sum.splits)
qed

theorem approval_is_exclusive_witness:
  "snd (approve_commit 7000 ''other'' [] [] True open_refund locked_order (fst approved_run)) =
     Inl (BadRequest ''the request has changed'')"
proof -
  obtain fin where "approve_commit 6000 ''adm'' [] [] False open_refund locked_order open_db = (fst approved_run, Inr fin)"
    using approved_run_ok by (metis approved_run_def prod.collapse)
  from approval_is_exclusive [OF this] show ?thesis by (simp add: open_refund_def new_refund_def)
qed

subsection \<open>A withdrawn request\<close>

lemma find_update_order:
  assumes "\<And>x. o_id (f x) = o_id x"
  shows "find_row o_id k (update_where P f rows) = map_option (\<lambda>x. if P x then f x else x) (find_row o_id k rows)"
  by (rule find_row_update_where) (rule assms)

lemma find_appended:
  "r_id r \<notin> r_id ` set rows \<Longrightarrow> find (\<lambda>x. r_id x = r_id r \<and> r_userId x = u) (rows @ [r]) =
    (if r_userId r = u then Some r else None)"
  by (induction rows) auto

lemma find_row_appended: "r_id r \<notin> r_id ` set rows \<Longrightarrow> find_row r_id (r_id r) (rows @ [r]) = Some r"
  by (induction rows) auto

lemma reserved_withdrawn:
  assumes "r_id r \<notin> r_id ` set rows"
  shows "sum_where P g (update_where (\<lambda>x. r_id x = r_id r) f (rows @ [r])) = sum_where P g rows + (if P (f r) then g (f r) else 0)"
  using assms by (induction rows) auto

text \<open>C29. Withdrawing a request undoes it: a user who applies for a refund and withdraws the
  application has the order back in the status it had, with nothing of it reserved, and the
  application is kept as cancelled.\<close>

theorem withdrawn_refund_restores_order:
  assumes "find_row o_id oid (orders s) = Some o'" and "o_status o' \<in> {Paid, Delivered, Completed}"
    and "ids 0 \<notin> r_id ` set (refunds s)"
    and "createRefund now ids o' i s = (s1, Inr r)"
    and "cancelAfterSale later (o_userId o') (r_id r) s1 = (s2, x)"
  shows "x = Inr (Some (r\<lparr>r_status := RCancelled, r_updatedAt := later\<rparr>)) \<and>
    (\<exists>t. find_row o_id oid (orders s2) = Some (o'\<lparr>o_statusText := t\<rparr>)) \<and>
    reserved_of s2 oid = reserved_of s oid"
proof -
  obtain a where c: "createRefund_commit now ids o' i a s = (s1, Inr r)"
    using assms(4) by (auto simp: createRefund_def Let_def ok_simps)
  let ?lock = "\<lambda>y. y\<lparr>o_status := AfterSales, o_statusText := in_statusText i\<rparr>"
  have r: "r = new_refund now (ids 0) o' (in_source i) (in_description i) (in_reason i) a (o_status o')"
    and s1: "refunds s1 = refunds s @ [r]" "orders s1 = update_where
      (\<lambda>y. o_id y = o_id o' \<and> o_status y = o_status o') ?lock (orders s)"
    using createRefund_commit_ok [OF c] by (auto simp: insert_refund_def)
  have k: "r_id r = ids 0" "r_userId r = o_userId o'" "r_orderId r = o_id o'" "r_beforeStatus r = o_status o'"
      "r_status r = RPending" by (simp_all add: r)
  have fresh: "r_id r \<notin> r_id ` set (refunds s)" using assms(3) k by simp
  have oid: "o_id o' = oid" using find_row_SomeD [OF assms(1)] by simp
  have target: "user_restore_target (o_status o') = o_status o'"
    using assms(2) by (auto simp: user_restore_target_def)
  obtain t where t: "restoreOrderFromRefund_user (o_id o') (o_status o') = restore_order (o_id o') (o_status o') t"
    by (simp add: restoreOrderFromRefund_user_def target Let_def)
  let ?g = "\<lambda>x. x\<lparr>r_status := RCancelled, r_updatedAt := later\<rparr>"
  have run: "cancelAfterSale later (o_userId o') (r_id r) s1 = cancelAfterSale_commit later r s1"
    using find_appended [OF fresh, of "o_userId o'"] k by (simp add: cancelAfterSale_def s1 unless_def)
  have s2: "s2 = restore_order (o_id o') (o_status o') t (set_refund later (r_id r) (\<lambda>x. x\<lparr>r_status := RCancelled\<rparr>) s1)"
    and x: "x = Inr (find_row r_id (r_id r) (refunds s2))"
    using assms(5) unfolding run
    by (auto simp: cancelAfterSale_commit_def transaction_def and_then_def modify_def read_def k t)
  have refs: "refunds s2 = update_where (\<lambda>x. r_id x = r_id r) ?g (refunds s @ [r])"
    by (simp add: s2 restore_order_def set_refund_def s1)
  have "find_row r_id (r_id r) (refunds s2) = Some (?g r)"
    unfolding refs by (subst find_row_update_where) (simp_all add: find_row_appended [OF fresh])
  moreover have "find_row o_id oid (orders s2) = Some (o'\<lparr>o_statusText := t\<rparr>)"
    using assms(1) by (simp add: s2 restore_order_def s1 find_update_order oid)
  moreover have "reserved_of s2 oid = reserved_of s oid"
    using reserved_withdrawn [OF fresh, of "\<lambda>x. r_orderId x = oid \<and> r_status x \<in> set ACTIVE_REFUNDS" r_amount ?g]
    by (simp add: reserved_of_def refs ACTIVE_REFUNDS_def)
  ultimately show ?thesis using x by auto
qed

definition sample_input :: refund_input where
  "sample_input = \<lparr>in_source = PreDelivery, in_description = [], in_reason = ''changed my mind'',
     in_statusText = ''refund review'', in_items = []\<rparr>"

definition paid_order :: order_row where
  "paid_order = order1\<lparr>o_status := Paid, o_riderId := None\<rparr>"

theorem withdrawn_refund_restores_order_witness:
  "\<exists>s1 r. createRefund 5000 sample_ids paid_order sample_input paid_db = (s1, Inr r) \<and>
    (\<exists>t. find_row o_id ''o1'' (orders (fst (cancelAfterSale 6000 ''u1'' (r_id r) s1))) =
      Some (paid_order\<lparr>o_statusText := t\<rparr>))"
proof -
  have "(case snd (createRefund 5000 sample_ids paid_order sample_input paid_db) of Inr x \<Rightarrow> True | Inl y \<Rightarrow> False)"
    by code_simp
  then obtain s1 r where run: "createRefund 5000 sample_ids paid_order sample_input paid_db = (s1, Inr r)"
    by (cases "createRefund 5000 sample_ids paid_order sample_input paid_db") (auto split: sum.splits)
  have row: "find_row o_id ''o1'' (orders paid_db) = Some paid_order"
    by (simp add: paid_db_def db_at_def paid_order_def order1_def)
  have fresh: "sample_ids 0 \<notin> r_id ` set (refunds paid_db)"
    by (simp add: paid_db_def db_at_def db0_def)
  have st: "o_status paid_order \<in> {Paid, Delivered, Completed}" and u: "o_userId paid_order = ''u1''"
    by (simp_all add: paid_order_def order1_def)
  obtain s2 x where "cancelAfterSale 6000 (o_userId paid_order) (r_id r) s1 = (s2, x)" by force
  from withdrawn_refund_restores_order [OF row st fresh run this] this show ?thesis
    using run u by auto
qed

text \<open>The restoration of the user's side knows three statuses only; the back office's own
  version restores every status a refund can be applied for in.\<close>

lemma restore_targets_differ:
  "user_restore_target st \<noteq> refundRestoreTarget st \<longleftrightarrow>
     st \<in> {Picking, WaitingFirstMile, Arrived, FirstMile, WaitingHandover, LastMile}"
  by (cases st) (simp_all add: user_restore_target_def refundRestoreTarget_def PRE_DELIVERY_REFUNDABLE_STATUSES_def)

subsection \<open>A withdrawal that comes too late\<close>

lemma approved_rows_hit:
  assumes "find_row r_id (r_id r) rows = Some r"
  shows "find_row r_id (r_id r) (approved_rows now u m fee r a rows) =
    Some ((approve_patch now u m r)\<lparr>r_amount := a, r_refundDeliveryFee := fee, r_updatedAt := now\<rparr>)"
  unfolding approved_rows_def using assms
  by (simp add: find_row_update_where)

text \<open>A withdrawal does not look at the status again: if the user's request to withdraw was read
  before, and is written after, a reviewer's approval, it succeeds. The refund whose money has
  been ordered from the payment service ends as cancelled, and an order that the approval had
  locked goes back to its old status.\<close>

theorem late_withdrawal_overrides_approval:
  assumes "find_row r_id (r_id r) (refunds s) = Some r" and "r_status r = RPending"
    and "approve_commit now u m as fee r o' s = (s1, Inr fin)"
    and "cancelAfterSale_commit later r s1 = (s2, x)"
  shows "\<exists>y. x = Inr (Some y) \<and> r_status fin = RApproved \<and> y = fin\<lparr>r_status := RCancelled, r_updatedAt := later\<rparr> \<and>
    (\<forall>o'' \<in> set (orders s2). o_id o'' = r_orderId r \<longrightarrow> o_status o'' \<noteq> AfterSales)"
proof -
  obtain a where rows: "refunds s1 = approved_rows now u m fee r a (refunds s)"
    and fin: "find_row r_id (r_id r) (refunds s1) = Some fin"
    using approve_commit_ok(1) [OF assms(3)] by blast
  have "fin = (approve_patch now u m r)\<lparr>r_amount := a, r_refundDeliveryFee := fee, r_updatedAt := now\<rparr>"
    using fin approved_rows_hit [OF assms(1), of now u m fee a] by (simp add: rows)
  then have st: "r_status fin = RApproved" by (simp add: approve_patch_def)
  let ?s = "set_refund later (r_id r) (\<lambda>x. x\<lparr>r_status := RCancelled\<rparr>) s1"
  have s2: "s2 = restoreOrderFromRefund_user (r_orderId r) (r_beforeStatus r) ?s"
    and x: "x = Inr (find_row r_id (r_id r) (refunds s2))"
    using assms(4) by (auto simp: cancelAfterSale_commit_def transaction_def and_then_def modify_def read_def)
  have "find_row r_id (r_id r) (refunds s2) = Some (fin\<lparr>r_status := RCancelled, r_updatedAt := later\<rparr>)"
    using fin find_row_SomeD [OF fin]
    by (simp add: s2 restoreOrderFromRefund_user_def restore_order_def set_refund_def Let_def find_row_update_where)
  moreover have "user_restore_target st \<noteq> AfterSales" for st by (simp add: user_restore_target_def)
  then have "\<forall>o'' \<in> set (orders s2). o_id o'' = r_orderId r \<longrightarrow> o_status o'' \<noteq> AfterSales"
    by (auto simp: s2 restoreOrderFromRefund_user_def restore_order_def Let_def set_update_where)
  ultimately show ?thesis using st x by auto
qed

theorem late_withdrawal_overrides_approval_witness:
  "\<exists>y. snd (cancelAfterSale_commit 7000 open_refund (fst approved_run)) = Inr (Some y) \<and> r_status y = RCancelled"
proof -
  obtain fin where run: "approve_commit 6000 ''adm'' [] [] False open_refund locked_order open_db = (fst approved_run, Inr fin)"
    using approved_run_ok by (metis approved_run_def prod.collapse)
  have row: "find_row r_id (r_id open_refund) (refunds open_db) = Some open_refund" by (simp add: open_db_def)
  have st: "r_status open_refund = RPending" by (simp add: open_refund_def)
  obtain s2 x where "cancelAfterSale_commit 7000 open_refund (fst approved_run) = (s2, x)" by force
  from late_withdrawal_overrides_approval [OF row st run this] this show ?thesis by auto
qed

subsection \<open>A full refund of a discounted order\<close>

lemma reserved_by_others_nonneg:
  "\<forall>r \<in> set (refunds s). 0 \<le> r_amount r \<Longrightarrow> 0 \<le> reserved_by_others s k j"
  unfolding reserved_by_others_def by (intro sum_where_nonneg) auto

lemma approved_amount_locked:
  assumes "approve_commit now u m as fee r o' s = (s1, Inr fin)" and "r_source r = PreDelivery"
  shows "r_amount r + reserved_by_others s (r_orderId r) (r_id r) \<le> refundable_total o' fee"
proof -
  let ?lock = "if o_status o' \<noteq> AfterSales then lock_order o' ''refund in progress'' (BadRequest ''the order has changed'')
         else reply ()"
  let ?s1 = "s\<lparr>refunds := update_where (\<lambda>x. r_id x = r_id r \<and> r_status x = r_status r)
      (\<lambda>x. (approve_patch now u m x)\<lparr>r_updatedAt := now\<rparr>) (refunds s)\<rparr>"
  obtain s2 x where lock: "?lock ?s1 = (s2, Inr x)"
    and rest: "approve_amount now fee r o' (fold write_amount as s2) = (s1, Inr fin)"
    using assms(1) unfolding approve_commit_def transaction_ok and_then_ok claim_refunds_ok modify_ok by blast
  have "refunds s2 = refunds ?s1" using lock by (auto simp: lock_order_ok reply_ok split: if_splits)
  then have "reserved_by_others (fold write_amount as s2) (r_orderId r) (r_id r) = reserved_by_others s (r_orderId r) (r_id r)"
    by (simp add: reserved_by_others_def)
      (use others_frame [where P = "\<lambda>x. r_orderId x = r_orderId r \<and> r_status x \<in> set ACTIVE_REFUNDS"
          and f = "\<lambda>x. (approve_patch now u m x)\<lparr>r_updatedAt := now\<rparr>"] in simp)
  then show ?thesis
    using rest assms(2) by (auto simp: approve_amount_def approvedRefundAmount_def ok_simps split: sum.split_asm)
qed

text \<open>The full refund the back office starts for an order that is still under way asks for the
  price of the goods, without the coupon that paid a part of it. Once started it cannot be
  approved in any later state as long as the delivery fee is not released, if the coupon took
  anything off the price, and not at all if it took more than the delivery fee.\<close>

theorem discounted_full_refund_stuck:
  assumes "createUnshippedFullRefund now k o' m u s = (s1, Inr r)"
    and "o_payableAmount o' = o_productAmount o' + o_deliveryFee o' - o_discount o'" and "0 < o_discount o'"
    and "o_payableAmount later_order = o_payableAmount o'" and "o_deliveryFee later_order = o_deliveryFee o'"
    and "withFee \<Longrightarrow> o_deliveryFee o' < o_discount o'"
    and "\<forall>x \<in> set (refunds s2). 0 \<le> r_amount x"
  shows "approve_commit later u' m' as withFee r later_order s2 \<noteq> (s3, Inr fin)"
proof
  assume run: "approve_commit later u' m' as withFee r later_order s2 = (s3, Inr fin)"
  have r: "r_source r = PreDelivery" "r_amount r = o_productAmount o'"
    using assms(1) by (auto simp: createUnshippedFullRefund_def Let_def unless_apply after_modify and_then_def
        audit_def reply_def modify_def split: if_splits)
  have "r_amount r \<le> refundable_total later_order withFee"
    using approved_amount_locked [OF run r(1)] reserved_by_others_nonneg [OF assms(7), of "r_orderId r" "r_id r"]
    by linarith
  moreover have "refundable_total later_order withFee =
      (if withFee then o_payableAmount o' else o_payableAmount o' - o_deliveryFee o')"
    using assms(4,5) by (simp add: refundable_total_def refundCeiling_def)
  ultimately show False using r(2) assms(2,3,6) by (cases withFee) auto
qed

theorem discounted_full_refund_stuck_witness:
  "\<exists>s1 r. createUnshippedFullRefund 5000 ''n'' paid_order (Some ''broken'') ''adm'' paid_db = (s1, Inr r) \<and>
    (\<forall>s3 fin. approve_commit 6000 ''adm'' [] [] False r paid_order s1 \<noteq> (s3, Inr fin))"
proof -
  have "(case snd (createUnshippedFullRefund 5000 ''n'' paid_order (Some ''broken'') ''adm'' paid_db) of Inr x \<Rightarrow> True | Inl y \<Rightarrow> False)"
    by code_simp
  then obtain s1 r where run: "createUnshippedFullRefund 5000 ''n'' paid_order (Some ''broken'') ''adm'' paid_db = (s1, Inr r)"
    by (cases "createUnshippedFullRefund 5000 ''n'' paid_order (Some ''broken'') ''adm'' paid_db") (auto split: sum.splits)
  have "refund_books s1"
    using books_createUnshipped [OF paid_db_books, of "''n''" 5000 paid_order "Some ''broken''" "''adm''"] run
    by (simp add: paid_db_def db_at_def db0_def)
  then have "\<forall>x \<in> set (refunds s1). 0 \<le> r_amount x" by (simp add: refund_books_def)
  from discounted_full_refund_stuck [OF run _ _ refl refl _ this, of False] show ?thesis
    using run by (simp add: paid_order_def order1_def)
qed

subsection \<open>The booking\<close>

lemma claim_orders_done:
  "claim_or orders orders_update P f e s = (s', Inr x) \<longleftrightarrow>
    s' = s\<lparr>orders := update_where P f (orders s)\<rparr> \<and> (\<exists>y \<in> set (orders s). P y)"
  unfolding claim_or_ok by (subst table_updates(1)) (rule refl)

lemma give_back_frame [simp]: "refunds (give_back o' c s) = refunds s"
  by (simp add: give_back_def give_back_coupon_def give_back_stock_def set_holding_def split: option.split)

lemma finish_writes_ok:
  assumes "finish_writes now r o' w cr cur t f s = (s', Inr res)"
  shows "s' = (if r_source r = PreDelivery \<and> f then give_back o' cur else (\<lambda>s. s))
      (set_refund now (r_id r) (refunded_patch now w) (s\<lparr>orders := update_where
        (\<lambda>x. o_id x = o_id o' \<and> o_status x \<in> {AfterSales, o_status cur}) (finished_patch f r) (orders s)\<rparr>)) \<and>
    res = finish_result_of ((refunded_patch now w cr)\<lparr>r_updatedAt := now\<rparr>) t f True"
  using assms unfolding finish_writes_def and_then_ok claim_orders_done modify_ok reply_ok by blast

text \<open>What a booking that did something has done.\<close>

lemma finish_commit_ok:
  assumes "finish_commit now r o' w s = (s', Inr res)"
  obtains (old) cr where "find_row r_id (r_id r) (refunds s) = Some cr" "r_status cr = RRefunded" "s' = s"
      "fr_didFinish res = False" "fr_record res = cr"
  | (new) cr cur where "find_row r_id (r_id r) (refunds s) = Some cr" "r_status cr \<noteq> RRefunded"
      "find_row o_id (o_id o') (orders s) = Some cur" "fr_didFinish res"
      "fr_isFull res = (r_source cr = PreDelivery \<or> full_ceiling s o' \<le> refunded_of s (o_id o') + r_amount cr)"
      "finish_writes now r o' w cr cur (refunded_of s (o_id o') + r_amount cr) (fr_isFull res) s = (s', Inr res)"
proof (cases "find_row r_id (r_id r) (refunds s)")
  case None
  then show ?thesis using assms by (simp add: finish_commit_def transaction_ok reject_ok)
next
  case (Some cr)
  note run = assms [unfolded finish_commit_def transaction_ok Some option.case Let_def]
  show ?thesis
  proof (cases "r_status cr = RRefunded")
    case True
    then show ?thesis using run Some by (intro old) (auto simp: reply_ok finish_result_of_def)
  next
    case False
    let ?full = "r_source cr = PreDelivery \<or> full_ceiling s o' \<le> refunded_of s (o_id o') + r_amount cr"
    obtain cur where cur: "find_row o_id (o_id o') (orders s) = Some cur"
      and fw: "finish_writes now r o' w cr cur (refunded_of s (o_id o') + r_amount cr) ?full s = (s', Inr res)"
      using run False by (auto simp: reject_ok split: option.splits)
    have "res = finish_result_of ((refunded_patch now w cr)\<lparr>r_updatedAt := now\<rparr>)
        (refunded_of s (o_id o') + r_amount cr) ?full True"
      using finish_writes_ok [OF fw] by (rule conjunct2)
    then have "fr_didFinish res" "fr_isFull res = ?full" by (simp_all add: finish_result_of_def)
    then show ?thesis using new [OF Some False cur _ _] fw by simp
  qed
qed

lemma finish_tail_refunds: "finish_tail now r o' u res s = (s', x) \<Longrightarrow> refunds s' = refunds s \<and> orders s' = orders s"
  by (auto simp: finish_tail_def Let_def reply_def and_then_def modify_def audit_def refundAdjust_def split: if_splits)

lemma refunded_after:
  assumes "find_row r_id k (refunds s) = Some cr"
  shows "\<exists>y. find_row r_id k (refunds (set_refund now k (refunded_patch now w) s)) = Some y \<and> r_status y = RRefunded"
proof -
  have "find_row r_id k (refunds (set_refund now k (refunded_patch now w) s)) =
      Some (if r_id cr = k then (refunded_patch now w cr)\<lparr>r_updatedAt := now\<rparr> else cr)"
    unfolding set_refund_def using assms
    by (simp add: refunded_patch_def find_row_update_where)
  then show ?thesis using find_row_SomeD [OF assms] by (simp add: refunded_patch_def)
qed

text \<open>C27. A refund is booked once: whatever the payment service reports later, by a callback, by the
  synchronisation or by the reviewer's retry, and whichever old copy of the refund the handler
  has read, a booking of a refund that has been booked changes nothing.\<close>

theorem refund_booked_once:
  assumes "finish_commit now r o' w s = (s1, Inr res)" and "r_id r' = r_id r"
    and "find_row o_id (r_orderId r') (orders s1) = Some o''"
  shows "\<exists>row. finishRefund later r' w' u s1 = (s1, Inr row) \<and> find_row r_id (r_id r) (refunds s1) = Some row \<and>
    r_status row = RRefunded"
proof -
  obtain y where y: "find_row r_id (r_id r) (refunds s1) = Some y" "r_status y = RRefunded"
    using assms(1)
  proof (cases rule: finish_commit_ok)
    case (new cr cur)
    then show ?thesis
      using finish_writes_ok [OF new(6)] that
        refunded_after [of "r_id r" "s\<lparr>orders := update_where (\<lambda>x. o_id x = o_id o' \<and> o_status x \<in> {AfterSales, o_status cur})
          (finished_patch (fr_isFull res) r) (orders s)\<rparr>" cr now w]
      by (auto simp: if_distrib if_distribR split: if_splits)
  qed (use that in auto)
  have "finish_commit later r' o'' w' s1 = (s1, Inr (finish_result_of y (refunded_of s1 (o_id o''))
      (full_ceiling s1 o'' \<le> refunded_of s1 (o_id o'')) False))"
    by (simp add: finish_commit_def transaction_def assms(2) y Let_def reply_def)
  then show ?thesis
    using assms(2,3) y
    by (auto simp: finishRefund_def and_then_def finish_tail_def finish_result_of_def reply_def)
qed

definition booked_run :: "db \<times> (api_error + finish_result)" where
  "booked_run = finish_commit 6000 open_refund locked_order ''wx-1'' open_db"

lemma booked_run_ok: "\<exists>res. snd booked_run = Inr res"
proof -
  have "(case snd booked_run of Inr x \<Rightarrow> True | Inl y \<Rightarrow> False)" by code_simp
  then show ?thesis by (auto split: sum.splits)
qed

theorem refund_booked_once_witness:
  "fst (finishRefund 9000 open_refund ''wx-2'' ''adm'' (fst booked_run)) = fst booked_run"
proof -
  obtain res where run: "finish_commit 6000 open_refund locked_order ''wx-1'' open_db = (fst booked_run, Inr res)"
    using booked_run_ok by (metis booked_run_def prod.collapse)
  have "find_row o_id (r_orderId open_refund) (orders (fst booked_run)) \<noteq> None" by code_simp
  then obtain o'' where "find_row o_id (r_orderId open_refund) (orders (fst booked_run)) = Some o''" by blast
  from refund_booked_once [OF run refl this] show ?thesis by (metis fst_conv)
qed

subsection \<open>The sale undone\<close>

text \<open>What the lines put back on the shelf, all together.\<close>

definition put_back_all :: "order_line list \<Rightarrow> product \<Rightarrow> product" where
  "put_back_all ls p = p\<lparr>p_stock := p_stock p + line_count (p_id p) ls, p_sales := p_sales p - line_count (p_id p) ls\<rparr>"

definition returnable :: "product list \<Rightarrow> order_line \<Rightarrow> bool" where
  "returnable ps l \<longleftrightarrow> ps_id (ol_product l) \<noteq> [] \<and>
     (\<exists>p. find_row p_id (ps_id (ol_product l)) ps = Some p \<and>
       same_source (ps_costSource (ol_product l)) (p_procurementMode p))"

lemma restock_line_returnable:
  assumes "returnable ps l"
  shows "restock_line ps l rows = map (put_back_all [l]) rows"
  using assms by (auto simp: returnable_def restock_line_def Let_def update_where_def put_back_def put_back_all_def)

lemma put_back_all_Cons: "put_back_all ls (put_back_all [l] p) = put_back_all (l # ls) p"
  by (simp add: put_back_all_def)

lemma fold_restock:
  "\<forall>l \<in> set ls. returnable ps l \<Longrightarrow> fold (restock_line ps) ls rows = map (put_back_all ls) rows"
proof (induction ls arbitrary: rows)
  case Nil
  then show ?case by (simp add: put_back_all_def)
next
  case (Cons l ls)
  then show ?case by (simp add: restock_line_returnable comp_def put_back_all_Cons)
qed

lemma put_back_take_off [simp]: "put_back_all ls (take_off ls p) = p"
  by (simp add: put_back_all_def take_off_def)

lemma find_row_take_off:
  "find_row p_id k (map (take_off ls) ps) = map_option (take_off ls) (find_row p_id k ps)"
  by (induction ps) auto

lemma same_source_of [simp]: "same_source (Some (cost_source_of p)) (p_procurementMode p)"
  by (simp add: same_source_def cost_source_of_def)

text \<open>The lines a payment has priced can go back: their product exists and is procured the way the
  line says.\<close>

lemma priced_returnable:
  assumes "price_lines s ls = Inr ls'" and "\<forall>l \<in> set ls. ps_id (ol_product l) \<noteq> []"
  shows "\<forall>l \<in> set ls'. returnable (products s) l"
  using assms
proof (induction ls arbitrary: ls')
  case (Cons l ls)
  then obtain p l1 ls1 where p: "find_row p_id (ps_id (ol_product l)) (products s) = Some p"
    and l1: "price_line p l = Inr l1" and ls1: "price_lines s ls = Inr ls1" and ls': "ls' = l1 # ls1"
    by (auto split: option.splits if_splits sum.splits)
  have "ps_id (ol_product l1) = ps_id (ol_product l)" "ps_costSource (ol_product l1) = Some (cost_source_of p)"
    using l1 by (auto simp: price_line_def split: sum.splits option.splits)
  then have "returnable (products s) l1" using p Cons.prems(2) by (simp add: returnable_def)
  then show ?case using Cons ls1 ls' by simp
qed simp

lemma restock_undoes:
  assumes "\<forall>l \<in> set ls. returnable ps l"
  shows "restock ls (map (take_off ls) ps) = ps"
proof -
  have "\<forall>l \<in> set ls. returnable (map (take_off ls) ps) l"
    using assms by (auto simp: returnable_def find_row_take_off take_off_def)
  then show ?thesis by (simp add: restock_def fold_restock comp_def)
qed

lemma give_back_products:
  "\<not> o_stockRestored cur \<Longrightarrow> products (give_back o' cur s) = restock (o_items o') (products s)"
  by (simp add: give_back_def give_back_coupon_def give_back_stock_def set_holding_def split: option.split)

lemma give_back_orders:
  "\<not> o_stockRestored cur \<Longrightarrow> orders (give_back o' cur s) =
    update_where (\<lambda>x. o_id x = o_id o') (\<lambda>x. x\<lparr>o_stockRestored := True\<rparr>) (orders s)"
  by (simp add: give_back_def give_back_coupon_def give_back_stock_def set_holding_def split: option.split)

lemma released_holdings:
  "\<forall>h \<in> set (update_where (\<lambda>u. uc_id u = k \<and> uc_status u \<in> set [HLocked, HUsed])
      (\<lambda>u. u\<lparr>uc_status := HReleased\<rparr>) rows). k = uc_id h \<longrightarrow> uc_status h \<notin> {HLocked, HUsed}"
proof (intro ballI impI)
  fix h assume "h \<in> set (update_where (\<lambda>u. uc_id u = k \<and> uc_status u \<in> set [HLocked, HUsed])
      (\<lambda>u. u\<lparr>uc_status := HReleased\<rparr>) rows)" and "k = uc_id h"
  from update_whereD [OF this(1)] this(2) show "uc_status h \<notin> {HLocked, HUsed}"
    by (elim disjE bexE) simp_all
qed

lemma give_back_holdings:
  "\<forall>h \<in> set (user_coupons (give_back o' cur s)). truthy (o_couponId o') = Some (uc_id h) \<longrightarrow> uc_status h \<notin> {HLocked, HUsed}"
proof (cases "truthy (o_couponId o')")
  case (Some k)
  then have "user_coupons (give_back o' cur s) = update_where (\<lambda>u. uc_id u = k \<and> uc_status u \<in> set [HLocked, HUsed])
      (\<lambda>u. u\<lparr>uc_status := HReleased\<rparr>) (user_coupons (give_back_stock o' cur s))"
    by (simp add: give_back_def give_back_coupon_def set_holding_def)
  then show ?thesis using released_holdings [of k] Some by simp
qed simp

lemma finish_pre_delivery:
  assumes "finish_commit now r o' w s = (s', Inr res)" and "find_row r_id (r_id r) (refunds s) = Some r"
    and "r_source r = PreDelivery" and "r_status r \<noteq> RRefunded"
    and "find_row o_id (o_id o') (orders s) = Some cur" and "\<not> o_stockRestored cur"
  shows "products s' = restock (o_items o') (products s)"
    and "find_row o_id (o_id o') (orders s') = Some (cur\<lparr>o_status := Refunded, o_statusText := ''refunded'', o_stockRestored := True\<rparr>)"
    and "\<forall>h \<in> set (user_coupons s'). truthy (o_couponId o') = Some (uc_id h) \<longrightarrow> uc_status h \<notin> {HLocked, HUsed}"
proof -
  obtain t where fw: "finish_writes now r o' w r cur t True s = (s', Inr res)"
    using assms(1)
  proof (cases rule: finish_commit_ok)
    case (new cr cur')
    then show ?thesis using assms that by simp
  qed (use assms in simp)
  let ?s = "set_refund now (r_id r) (refunded_patch now w) (s\<lparr>orders := update_where
        (\<lambda>x. o_id x = o_id o' \<and> o_status x \<in> {AfterSales, o_status cur}) (finished_patch True r) (orders s)\<rparr>)"
  have s': "s' = give_back o' cur ?s" using finish_writes_ok [OF fw] assms(3) by simp
  show "products s' = restock (o_items o') (products s)"
    using assms(6) by (simp add: s' give_back_products)
  have "find_row o_id (o_id o') (orders ?s) = Some (finished_patch True r cur)"
    using assms(5) find_row_SomeD [OF assms(5)] by (simp add: find_update_order finished_patch_def)
  moreover have "orders s' = update_where (\<lambda>x. o_id x = o_id o') (\<lambda>x. x\<lparr>o_stockRestored := True\<rparr>) (orders ?s)"
    unfolding s' by (rule give_back_orders [OF assms(6)])
  ultimately show "find_row o_id (o_id o') (orders s') = Some (cur\<lparr>o_status := Refunded, o_statusText := ''refunded'', o_stockRestored := True\<rparr>)"
    using find_row_SomeD [OF assms(5)]
    by (simp only:) (subst find_update_order, simp_all add: finished_patch_def)
  show "\<forall>h \<in> set (user_coupons s'). truthy (o_couponId o') = Some (uc_id h) \<longrightarrow> uc_status h \<notin> {HLocked, HUsed}"
    unfolding s' by (rule give_back_holdings)
qed


definition sold_run :: "db \<times> (api_error + order_row option)" where
  "sold_run = pay 8 None 2000 sample_ids ''pkg'' ''u1'' ''o1'' db0"

definition sold_row :: order_row where
  "sold_row = (case snd sold_run of Inr (Some x) \<Rightarrow> x | _ \<Rightarrow> order1)"

definition sold_db :: db where
  "sold_db = (fst sold_run)\<lparr>refunds := [open_refund]\<rparr>"

definition unsold_run :: "db \<times> (api_error + finish_result)" where
  "unsold_run = finish_commit 9000 open_refund sold_row ''wx-1'' sold_db"


subsection \<open>What an approval asks for\<close>

lemma finish_commit_approved:
  assumes "find_row r_id (r_id r) (refunds s) = Some cr" and "r_status cr \<noteq> RRefunded"
    and "find_row o_id (o_id o') (orders s) = Some cur"
  shows "\<exists>s' res. finish_commit now r o' w s = (s', Inr res) \<and>
    fr_record res = (refunded_patch now w cr)\<lparr>r_updatedAt := now\<rparr>"
proof -
  have "\<exists>x \<in> set (orders s). o_id x = o_id o' \<and> o_status x \<in> {AfterSales, o_status cur}"
    using find_row_SomeD [OF assms(3)] by auto
  then have "\<exists>s' res. finish_writes now r o' w cr cur t f s = (s', Inr res)" for t f
    unfolding finish_writes_def and_then_ok claim_orders_done modify_ok reply_ok by blast
  then obtain s' res where fw: "finish_writes now r o' w cr cur (refunded_of s (o_id o') + r_amount cr)
      (r_source cr = PreDelivery \<or> full_ceiling s o' \<le> refunded_of s (o_id o') + r_amount cr) s = (s', Inr res)"
    by blast
  then show ?thesis
    using assms finish_writes_ok [OF fw]
    by (simp add: finish_commit_def transaction_def Let_def finish_result_of_def)
qed

lemma finish_tail_record: "finish_tail now r o' u res s = (s', x) \<Longrightarrow> x = Inr (fr_record res)"
  by (auto simp: finish_tail_def Let_def reply_def and_then_def modify_def audit_def split: if_splits)

lemma finishRefund_approved:
  assumes "find_row r_id (r_id r) (refunds s) = Some r" and "r_status r = RApproved"
    and "find_row o_id (r_orderId r) (orders s) = Some o'"
  shows "\<exists>s'. finishRefund now r w u s = (s', Inr ((refunded_patch now w r)\<lparr>r_updatedAt := now\<rparr>))"
proof -
  have k: "o_id o' = r_orderId r" using find_row_SomeD [OF assms(3)] by simp
  obtain s1 res where c: "finish_commit now r o' w s = (s1, Inr res)"
    and rec: "fr_record res = (refunded_patch now w r)\<lparr>r_updatedAt := now\<rparr>"
    using finish_commit_approved [OF assms(1), of o' o' now w] assms k by auto
  obtain s2 x where t: "finish_tail now r o' u res s1 = (s2, x)" by force
  then have "x = Inr (fr_record res)" by (rule finish_tail_record)
  then show ?thesis
    using assms rec t by (simp add: finishRefund_def and_then_run [where h = "finish_commit now r o' w", OF c])
qed

lemma approve_commit_order:
  assumes "approve_commit now u m as fee r o' s = (s', Inr fin)" and "find_row o_id k (orders s) = Some x"
  shows "\<exists>y. find_row o_id k (orders s') = Some y"
proof -
  have "map o_id (orders s') = map o_id (orders s)"
    by (rule money_view_ids [OF approve_commit_ok(2) [OF assms(1)]])
  then have "k \<in> o_id ` set (orders s')"
    using find_row_SomeD [OF assms(2)] by (metis image_eqI list.set_map)
  then show ?thesis by (metis find_row_None not_None_eq)
qed

definition outcome_row :: "wx_outcome \<Rightarrow> refund \<Rightarrow> bool" where
  "outcome_row applied row =
    (case applied of
       WxRefused m \<Rightarrow> False
     | WxUnknown \<Rightarrow> r_status row = RRefunding
     | WxApplied w st \<Rightarrow> r_wxRefundId row = Some w \<and>
         r_status row = (if st = ''SUCCESS'' then RRefunded else RRefunding))"

lemma row_after_set_refund:
  "find_row r_id k (refunds s) = Some x \<Longrightarrow> (\<And>r. r_id (f r) = r_id r) \<Longrightarrow>
    find_row r_id k (refunds (set_refund now k f s)) = Some ((f x)\<lparr>r_updatedAt := now\<rparr>)"
  using find_row_SomeD by (fastforce simp: set_refund_def find_row_update_where)

lemma book_outcome_row:
  assumes "find_row r_id (r_id r) (refunds s) = Some fin" and "r_status fin = RApproved"
    and "find_row o_id (r_orderId fin) (orders s) = Some o'"
    and "book_outcome now u r fin applied s = (s', Inr row)"
  shows "outcome_row applied row \<and> r_amount row = r_amount fin"
proof -
  have k: "r_id fin = r_id r" using find_row_SomeD [OF assms(1)] by simp
  show ?thesis
  proof (cases applied)
    case WxUnknown
    then show ?thesis
      using assms(4) row_after_set_refund [OF assms(1)]
      by (auto simp: book_outcome_def book_unknown_def ok_simps row_of_ok audit_def outcome_row_def)
  next
    case (WxRefused m)
    then show ?thesis using assms(4) by (auto simp: book_outcome_def book_refused_def ok_simps)
  next
    case (WxApplied w st)
    show ?thesis
    proof (cases "st = ''SUCCESS''")
      case True
      obtain s1 where "finishRefund now fin w u s = (s1, Inr ((refunded_patch now w fin)\<lparr>r_updatedAt := now\<rparr>))"
        using finishRefund_approved [of fin s o' now w u] assms k by auto
      then show ?thesis
        using assms(4) WxApplied True by (auto simp: book_outcome_def outcome_row_def refunded_patch_def)
    next
      case False
      then show ?thesis
        using assms(4) WxApplied row_after_set_refund [OF assms(1)]
        by (auto simp: book_outcome_def ok_simps row_of_ok audit_def outcome_row_def)
    qed
  qed
qed

text \<open>An approval that succeeds has asked the payment service for exactly the amount it has
  recorded; the amount is at least one fen and, with every other live refund of the order,
  within the ceiling the reviewer's delivery-fee switch gives; and the recorded status is the
  one the service answered (paid out, in progress, or in progress while its answer is not
  known). A refusal by the service is never reported as a success.\<close>

theorem approval_books_what_it_sent:
  assumes "auditRefund (Some apply') now k Approve u scope m amounts flag s = (s', Inr row)"
    and "distinct (map r_id (refunds s))"
  shows "\<exists>r o'. scoped_refund s k scope = Some (r, o') \<and> r_status r \<in> {RPending, RFailed} \<and>
    1 \<le> r_amount row \<and>
    r_amount row + reserved_by_others s (o_id o') k \<le> refundable_total o' (include_fee s o' flag) \<and>
    outcome_row (apply' (o_orderNo o') (o_payableAmount o') (r_amount row) k (refund_reason m r)) row"
proof -
  obtain r o' where sc: "scoped_refund s k scope = Some (r, o')"
    using assms(1) by (auto simp: auditRefund_def reject_ok split: option.splits)
  note row = scoped_refundD [OF sc]
  let ?fee = "include_fee s o' flag"
  let ?as = "case amounts of None \<Rightarrow> [] | Some as \<Rightarrow> as"
  obtain s1 fin where open': "r_status r \<in> {RPending, RFailed}"
    and c: "approve_commit now u m ?as ?fee r o' s = (s1, Inr fin)"
    and b: "book_outcome now u r fin
      (apply' (o_orderNo o') (o_payableAmount o') (r_amount fin) (r_id r) (refund_reason m r)) s1 = (s', Inr row)"
    using assms(1) sc
    by (auto simp: auditRefund_def approve_refund_def ok_simps split: option.splits)
  obtain a where a: "1 \<le> a" "a + reserved_by_others s (r_orderId r) (r_id r) \<le> refundable_total o' ?fee"
    and rows: "refunds s1 = approved_rows now u m ?fee r a (refunds s)"
    and fin: "find_row r_id (r_id r) (refunds s1) = Some fin"
    using approve_commit_ok(1) [OF c] by blast
  have fin_eq: "fin = (approve_patch now u m r)\<lparr>r_amount := a, r_refundDeliveryFee := ?fee, r_updatedAt := now\<rparr>"
    using fin approved_rows_hit [of r "refunds s" now u m ?fee a] row by (simp add: rows)
  then have st: "r_status fin = RApproved" "r_orderId fin = r_orderId r" "r_amount fin = a"
    by (simp_all add: approve_patch_def)
  obtain y where y: "find_row o_id (r_orderId fin) (orders s1) = Some y"
    using approve_commit_order [OF c] row st by metis
  have "outcome_row (apply' (o_orderNo o') (o_payableAmount o') (r_amount fin) (r_id r) (refund_reason m r)) row \<and>
      r_amount row = r_amount fin"
    by (rule book_outcome_row [OF fin st(1) y b])
  then show ?thesis using sc open' a row st by auto
qed

theorem approval_books_what_it_sent_witness:
  "\<exists>s' row. auditRefund (Some wx_success) 6000 ''n'' Approve ''adm'' None [] None None open_db = (s', Inr row) \<and>
    r_status row = RRefunded"
proof -
  let ?run = "auditRefund (Some wx_success) 6000 ''n'' Approve ''adm'' None [] None None open_db"
  have "(case snd ?run of Inr x \<Rightarrow> True | _ \<Rightarrow> False)" by code_simp
  then obtain s' row where run: "?run = (s', Inr row)" by (cases ?run) (auto split: sum.splits)
  have d: "distinct (map r_id (refunds open_db))" by (simp add: open_db_def)
  from approval_books_what_it_sent [OF run d] have "r_status row = RRefunded"
    by (auto simp: outcome_row_def wx_success_def)
  then show ?thesis using run by blast
qed

text \<open>The ceiling is not looked at again when the payment service reports a failed refund as paid
  out: the booking relies on the service, which refuses more than the payment.\<close>

lemma failed_refund_revived:
  assumes "find_row r_id (r_id r) (refunds s) = Some r" and "r_status r = RFailed"
    and "find_row o_id (r_orderId r) (orders s) = Some o'"
  shows "\<exists>s' res. finish_commit now r o' w s = (s', Inr res) \<and>
    fr_record res = (refunded_patch now w r)\<lparr>r_updatedAt := now\<rparr>"
  using finish_commit_approved [OF assms(1), of o' o' now w] assms find_row_SomeD [OF assms(3)] by simp

end
