(* ===== verification/Payments.thy ===== *)
theory Payments
  imports Refund_Admin Capability
begin

text \<open>
  The payment service: \<open>src/payments/payments.service.ts\<close>, its credentials
  (\<open>src/common/wechat-org.ts\<close>), the routes that receive the callbacks
  (\<open>src/payments/payments.controller.ts\<close>) and the two timed jobs. The HTTP calls, the
  cryptography and the parser of the decrypted event are arguments.
\<close>

subsection \<open>Credentials\<close>

text \<open>\<open>replaceAll\<close> of the two characters backslash and n by a line break.\<close>

fun normalize_lines :: "string \<Rightarrow> string" where
  "normalize_lines (CHR 0x5C # c # cs) =
    (if c = CHR ''n'' then CHR 0x0A # normalize_lines cs else CHR 0x5C # normalize_lines (c # cs))"
| "normalize_lines (c # cs) = c # normalize_lines cs"
| "normalize_lines [] = []"

definition normalizePem :: "string \<Rightarrow> string" where
  "normalizePem pem = normalize_lines pem"

definition orgNotifyUrl :: "string \<Rightarrow> string" where
  "orgNotifyUrl notifyDomain =
    rev (dropWhile (\<lambda>c. c = CHR ''/'') (rev (trim notifyDomain))) @ ''/api/v1/payments/wechat/notify''"

record wx_creds =
  wc_appId :: string
  wc_mchId :: string
  wc_apiV3Key :: string
  wc_serialNo :: string
  wc_privateKey :: string
  wc_notifyUrl :: string
  wc_organizationId :: "ident option"

text \<open>A column that is set and not blank.\<close>

definition filled :: "string option \<Rightarrow> bool" where
  "filled x = (case x of Some t \<Rightarrow> trim t \<noteq> [] | None \<Rightarrow> False)"

definition trimmed :: "string option \<Rightarrow> string" where
  "trimmed x = (case x of Some t \<Rightarrow> trim t | None \<Rightarrow> [])"

definition orgConfigReady :: "organization \<Rightarrow> bool" where
  "orgConfigReady g \<longleftrightarrow> filled (g_wxAppId g) \<and> filled (g_wxSecret g) \<and> filled (g_mchId g) \<and>
     filled (g_mchApiV3Key g) \<and> filled (g_serialNo g) \<and> filled (g_privateKey g) \<and> filled (g_notifyDomain g)"

definition orgWechatConfig :: "db \<Rightarrow> ident option \<Rightarrow> wx_creds option" where
  "orgWechatConfig s organizationId =
    (let k = trimmed organizationId in
     if k = [] then None
     else case find_row g_id k (organizations s) of
         None \<Rightarrow> None
       | Some g \<Rightarrow>
           if orgConfigReady g
           then Some \<lparr>wc_appId = trimmed (g_wxAppId g), wc_mchId = trimmed (g_mchId g),
             wc_apiV3Key = trimmed (g_mchApiV3Key g), wc_serialNo = trimmed (g_serialNo g),
             wc_privateKey = normalizePem (case g_privateKey g of Some t \<Rightarrow> t | None \<Rightarrow> []),
             wc_notifyUrl = orgNotifyUrl (case g_notifyDomain g of Some t \<Rightarrow> t | None \<Rightarrow> []),
             wc_organizationId = Some (g_id g)\<rparr>
           else None)"

definition campusWechatConfig :: "db \<Rightarrow> ident option \<Rightarrow> wx_creds option" where
  "campusWechatConfig s campusId = orgWechatConfig s (campusOrganizationId s campusId)"

text \<open>\<open>env\<close>: the credentials of the process environment, \<open>None\<close> where they are incomplete.\<close>

definition campusCreds :: "wx_creds option \<Rightarrow> db \<Rightarrow> ident option \<Rightarrow> wx_creds option" where
  "campusCreds env s campusId =
    (case campusWechatConfig s campusId of Some c \<Rightarrow> Some c | None \<Rightarrow> env)"

definition find_by_number :: "db \<Rightarrow> string \<Rightarrow> order_row option" where
  "find_by_number s orderNo = find (\<lambda>o'. o_orderNo o' = orderNo) (orders s)"

definition orderCreds :: "wx_creds option \<Rightarrow> db \<Rightarrow> string \<Rightarrow> wx_creds option" where
  "orderCreds env s orderNo = campusCreds env s (map_option o_campusId (find_by_number s orderNo))"

definition refundCreds :: "wx_creds option \<Rightarrow> db \<Rightarrow> ident \<Rightarrow> wx_creds option" where
  "refundCreds env s refundNo =
    campusCreds env s
      (case find_row r_id refundNo (refunds s) of
         None \<Rightarrow> None
       | Some r \<Rightarrow> map_option o_campusId (find_row o_id (r_orderId r) (orders s)))"

subsection \<open>Starting a payment\<close>

record prepay_request =
  pp_appid :: string
  pp_mchid :: string
  pp_out_trade_no :: string
  pp_notify_url :: string
  pp_total :: cents
  pp_openid :: string

text \<open>The answer of the HTTP call (\<open>None\<close>: it did not return): whether its status is a success,
  the prepay id and the message.\<close>

type_synonym prepay_answer = "(bool \<times> string option \<times> string option) option"

definition prepay ::
  "wx_creds option \<Rightarrow> (prepay_request \<Rightarrow> prepay_answer) \<Rightarrow> ident \<Rightarrow> ident \<Rightarrow> (db, cents \<times> string) handler"
where
  "prepay env send userId orderId s =
    (case find_own_order s orderId userId of
       None \<Rightarrow> reject (NotFound ''no such order'') s
     | Some o' \<Rightarrow>
         unless (o_status o' = PendingPayment) (BadRequest ''the order cannot be paid now'')
         (case campusCreds env s (Some (o_campusId o')) of
            None \<Rightarrow> reject (NotImplemented ''payments are not configured'')
          | Some c \<Rightarrow>
              (case find_row u_id userId (users s) of
                 None \<Rightarrow> reject (InternalError ''no such user'')
               | Some u \<Rightarrow>
                   (case truthy (u_openid u) of
                      None \<Rightarrow> reject (BadRequest ''the user has no openid'')
                    | Some openid \<Rightarrow>
                        (case send \<lparr>pp_appid = wc_appId c, pp_mchid = wc_mchId c, pp_out_trade_no = o_orderNo o',
                            pp_notify_url = wc_notifyUrl c, pp_total = o_payableAmount o', pp_openid = openid\<rparr> of
                           None \<Rightarrow> reject (BadGateway ''the payment service is not available'')
                         | Some (ok, prepayId, message) \<Rightarrow>
                             (case truthy prepayId of
                                Some k \<Rightarrow> if ok then reply (o_payableAmount o', k)
                                  else reject (BadGateway (''the payment could not be started: '' @
                                    (case message of Some m \<Rightarrow> m | None \<Rightarrow> [])))
                              | None \<Rightarrow> reject (BadGateway (''the payment could not be started: '' @
                                    (case message of Some m \<Rightarrow> m | None \<Rightarrow> []))))))))  s)"

subsection \<open>Booking a payment (applyPayment)\<close>

definition freeze_order :: "ident \<Rightarrow> order_row \<Rightarrow> db \<Rightarrow> db" where
  "freeze_order noteId o' s =
    (let P = (\<lambda>x. o_id x = o_id o' \<and> o_status x \<in> {PendingPayment, Cancelled});
         s' = s\<lparr>orders := update_where P
            (\<lambda>x. x\<lparr>o_status := Exception, o_statusText := ''paid, but the order needs support''\<rparr>) (orders s)\<rparr>
     in if 0 < count_where P (orders s)
        then notify noteId (o_userId o') ''order'' ''the order needs attention'' s' else s')"

definition applyPayment ::
  "int \<Rightarrow> ident option \<Rightarrow> millis \<Rightarrow> (nat \<Rightarrow> ident) \<Rightarrow> string \<Rightarrow> ident \<Rightarrow> order_row \<Rightarrow> db \<Rightarrow> db" where
  "applyPayment tz bonusId now ids packageId noteId o' s =
    (case pay tz bonusId now ids packageId (o_userId o') (o_id o') s of
       (s', Inr r) \<Rightarrow> s'
     | (s', Inl e) \<Rightarrow> freeze_order noteId o' s')"

definition QUERY_AFTER_MS :: millis where
  "QUERY_AFTER_MS = 30000"

text \<open>\<open>status\<close>: the reply is the order row it shows; \<open>trade\<close> is the state the payment service
  reports, \<open>None\<close> where the query throws.\<close>

definition payment_status ::
  "int \<Rightarrow> ident option \<Rightarrow> millis \<Rightarrow> (nat \<Rightarrow> ident) \<Rightarrow> string \<Rightarrow> ident \<Rightarrow> (string \<Rightarrow> string option) \<Rightarrow>
    ident \<Rightarrow> ident \<Rightarrow> (db, order_row) handler"
where
  "payment_status tz bonusId now ids packageId noteId trade userId orderId s =
    (case find_own_order s orderId userId of
       None \<Rightarrow> reject (NotFound ''no such order'') s
     | Some o' \<Rightarrow>
         if o_status o' = PendingPayment \<and> QUERY_AFTER_MS < now - o_createdAt o' \<and>
            trade (o_orderNo o') = Some ''SUCCESS''
         then (let s' = applyPayment tz bonusId now ids packageId noteId o' s
               in case find_row o_id (o_id o') (orders s') of
                    Some row \<Rightarrow> reply row s' | None \<Rightarrow> reply o' s')
         else reply o' s)"

subsection \<open>Callbacks\<close>

text \<open>\<open>nh_seconds\<close> is \<open>Number(timestamp)\<close>, \<open>None\<close> for \<open>NaN\<close>, which no comparison rejects.\<close>

record notify_headers =
  nh_signature :: "string option"
  nh_timestamp :: "string option"
  nh_seconds :: "rat option"
  nh_nonce :: "string option"
  nh_serial :: "string option"

record notify_resource =
  nr_ciphertext :: string
  nr_nonce :: string
  nr_associated :: string

text \<open>\<open>verify key message signature\<close>; a key that cannot be parsed verifies nothing.\<close>

record wx_crypto =
  wk_verify :: "string \<Rightarrow> string \<Rightarrow> string \<Rightarrow> bool"
  wk_decrypt :: "string \<Rightarrow> notify_resource \<Rightarrow> string option"

definition starts_with :: "string \<Rightarrow> string \<Rightarrow> bool" where
  "starts_with p t \<longleftrightarrow> take (length p) t = p"

fun contains :: "string \<Rightarrow> string \<Rightarrow> bool" where
  "contains p [] = (p = [])"
| "contains p (c # cs) = (starts_with p (c # cs) \<or> contains p cs)"

definition cleanWxPayPublicKey :: "string option \<Rightarrow> string option" where
  "cleanWxPayPublicKey raw =
    (case truthy raw of
       None \<Rightarrow> None
     | Some t \<Rightarrow>
         let k1 = trim t;
             k2 = (if starts_with [CHR 0x22] k1 \<and> starts_with [CHR 0x22] (rev k1)
                   then butlast (tl k1) else k1);
             k3 = trim (normalize_lines k2)
         in if contains ''BEGIN PUBLIC KEY'' k3 then Some k3 else None)"

definition notifyVerifyKeys ::
  "string option \<Rightarrow> (string \<Rightarrow> api_error + string) \<Rightarrow> db \<Rightarrow> string \<Rightarrow> api_error + string list" where
  "notifyVerifyKeys envKey platformCert s serial =
    (if \<not> starts_with ''PUB_KEY_ID_'' serial
     then map_sum (\<lambda>e. e) (\<lambda>c. [c]) (platformCert serial)
     else Inr (List.map_filter (\<lambda>g. if g_wxPayPublicKey g = None then None else cleanWxPayPublicKey (g_wxPayPublicKey g))
         (organizations s) @
       (case cleanWxPayPublicKey envKey of Some k \<Rightarrow> [k] | None \<Rightarrow> [])))"

definition signed_text :: "string \<Rightarrow> string \<Rightarrow> string \<Rightarrow> string" where
  "signed_text timestamp nonce rawBody = timestamp @ [CHR 0x0A] @ nonce @ [CHR 0x0A] @ rawBody @ [CHR 0x0A]"

definition verifyNotifySignature ::
  "wx_crypto \<Rightarrow> string option \<Rightarrow> (string \<Rightarrow> api_error + string) \<Rightarrow> millis \<Rightarrow> notify_headers \<Rightarrow> string \<Rightarrow> (db, unit) handler"
where
  "verifyNotifySignature crypto envKey platformCert now h rawBody s =
    (case (truthy (nh_signature h), truthy (nh_timestamp h), truthy (nh_nonce h), truthy (nh_serial h)) of
       (Some signature, Some timestamp, Some nonce, Some serial) \<Rightarrow>
         unless (case nh_seconds h of Some n \<Rightarrow> \<bar>of_int (now div 1000) - n\<bar> \<le> 300 | None \<Rightarrow> True)
           (Unauthorized ''the time stamp is out of tolerance'')
         (case notifyVerifyKeys envKey platformCert s serial of
            Inl e \<Rightarrow> reject e
          | Inr keys \<Rightarrow>
              unless (\<exists>k \<in> set keys. wk_verify crypto k (signed_text timestamp nonce rawBody) signature)
                (Unauthorized ''the signature does not verify'') (reply ())) s
     | _ \<Rightarrow> reject (Unauthorized ''a signature header is missing'') s)"

text \<open>The first candidate key that opens the resource: the environment's, then the
  organisations'.\<close>

definition decryptEventResource ::
  "wx_crypto \<Rightarrow> string option \<Rightarrow> db \<Rightarrow> notify_resource \<Rightarrow> api_error + string" where
  "decryptEventResource crypto envV3 s res =
    (case List.map_filter (\<lambda>k. case truthy k of Some key \<Rightarrow> wk_decrypt crypto key res | None \<Rightarrow> None)
        (envV3 # filter (\<lambda>k. k \<noteq> None) (map g_mchApiV3Key (organizations s))) of
       plain # _ \<Rightarrow> Inr plain
     | [] \<Rightarrow> Inl (Unauthorized ''the callback cannot be decrypted''))"

record trade_event =
  te_out_trade_no :: "string option"
  te_trade_state :: "string option"

record notify_env =
  ne_configured :: bool
  ne_crypto :: wx_crypto
  ne_publicKey :: "string option"
  ne_platformCert :: "string \<Rightarrow> api_error + string"
  ne_v3 :: "string option"
  ne_tz :: int
  ne_bonusId :: "ident option"

text \<open>\<open>notify\<close>; \<open>parse\<close> is \<open>JSON.parse\<close> of the decrypted event, \<open>None\<close> where it throws. The reply
  says whether a payment was booked.\<close>

definition notify_payment ::
  "notify_env \<Rightarrow> (string \<Rightarrow> trade_event option) \<Rightarrow> millis \<Rightarrow> (nat \<Rightarrow> ident) \<Rightarrow> string \<Rightarrow> ident \<Rightarrow>
    notify_headers \<Rightarrow> string \<Rightarrow> notify_resource option \<Rightarrow> (db, bool) handler"
where
  "notify_payment env parse now ids packageId noteId h rawBody resource =
    unless (ne_configured env) (NotImplemented ''payments are not configured'')
    (and_then (verifyNotifySignature (ne_crypto env) (ne_publicKey env) (ne_platformCert env) now h rawBody)
    (\<lambda>_. case resource of
       None \<Rightarrow> reject (BadRequest ''no encrypted resource'')
     | Some res \<Rightarrow>
         unless (nr_ciphertext res \<noteq> [] \<and> nr_nonce res \<noteq> []) (BadRequest ''no encrypted resource'')
         (\<lambda>s. case decryptEventResource (ne_crypto env) (ne_v3 env) s res of
            Inl e \<Rightarrow> reject e s
          | Inr plain \<Rightarrow>
              (case parse plain of
                 None \<Rightarrow> reject (InternalError ''not a JSON text'') s
               | Some ev \<Rightarrow>
                   if te_trade_state ev \<noteq> Some ''SUCCESS'' then reply False s
                   else (case find_by_number s (case te_out_trade_no ev of Some n \<Rightarrow> n | None \<Rightarrow> []) of
                       None \<Rightarrow> reply False s
                     | Some o' \<Rightarrow>
                         (applyPayment (ne_tz env) (ne_bonusId env) now ids packageId noteId o' s, Inr True))))))"

record refund_event =
  re_out_refund_no :: "string option"
  re_refund_id :: "string option"
  re_refund_status :: "string option"

text \<open>\<open>refundNotify\<close> and the route that hands its result to the back office.\<close>

definition notify_refund ::
  "notify_env \<Rightarrow> (string \<Rightarrow> refund_event option) \<Rightarrow> millis \<Rightarrow> notify_headers \<Rightarrow> string \<Rightarrow> notify_resource option \<Rightarrow>
    (db, refund) handler"
where
  "notify_refund env parse now h rawBody resource =
    and_then (verifyNotifySignature (ne_crypto env) (ne_publicKey env) (ne_platformCert env) now h rawBody)
    (\<lambda>_. case resource of
       None \<Rightarrow> reject (BadRequest ''no encrypted resource'')
     | Some res \<Rightarrow>
         unless (nr_ciphertext res \<noteq> [] \<and> nr_nonce res \<noteq> []) (BadRequest ''no encrypted resource'')
         (\<lambda>s. case decryptEventResource (ne_crypto env) (ne_v3 env) s res of
            Inl e \<Rightarrow> reject e s
          | Inr plain \<Rightarrow>
              (case parse plain of
                 None \<Rightarrow> reject (InternalError ''not a JSON text'') s
               | Some ev \<Rightarrow>
                   (case (truthy (re_out_refund_no ev), truthy (re_refund_status ev)) of
                      (Some k, Some st) \<Rightarrow>
                        reconcileWechatRefundStatus now k st (re_refund_id ev) ''wechat-refund-notify'' None s
                    | _ \<Rightarrow> reject (BadRequest ''no refund number or status'') s))))"

subsection \<open>Timed jobs\<close>

definition closeExpiredPendingOrders :: "millis \<Rightarrow> db \<Rightarrow> db" where
  "closeExpiredPendingOrders now s = fst (expireAllPendingOrders now s)"

definition reconcile_job :: "wx_query option \<Rightarrow> millis \<Rightarrow> db \<Rightarrow> db" where
  "reconcile_job payments now s = fst (syncOutstandingRefunds payments now s)"

end
