(* ===== verification/Payment_Theorems.thy ===== *)
theory Payment_Theorems
  imports Payments Order_Theorems
begin

text \<open>
  What a reported payment does to its order, how often, and which callbacks are believed.
\<close>

subsection \<open>A payment that was received\<close>

lemma freeze_row:
  assumes "find_row o_id (o_id o') (orders s) = Some x"
  shows "find_row o_id (o_id o') (orders (freeze_order noteId o' s)) =
    Some (if o_status x \<in> {PendingPayment, Cancelled}
      then x\<lparr>o_status := Exception, o_statusText := ''paid, but the order needs support''\<rparr> else x)"
  using assms find_row_SomeD [OF assms]
  by (simp add: freeze_order_def Let_def find_row_update_where)

lemma freeze_nothing:
  assumes "find_row o_id (o_id o') (orders s) = Some x" and "distinct (map o_id (orders s))"
    and "o_status x \<notin> {PendingPayment, Cancelled}"
  shows "freeze_order noteId o' s = s"
proof -
  have none: "\<forall>y \<in> set (orders s). \<not> (o_id y = o_id o' \<and> o_status y \<in> {PendingPayment, Cancelled})"
  proof (intro ballI notI)
    fix y assume y: "y \<in> set (orders s)" "o_id y = o_id o' \<and> o_status y \<in> {PendingPayment, Cancelled}"
    have "y = x" using find_row_SomeD [OF assms(1)] unique_key [OF assms(2) y(1), of x] y(2) by simp
    then show False using y assms(3) by simp
  qed
  then have "update_where (\<lambda>y. o_id y = o_id o' \<and> o_status y \<in> {PendingPayment, Cancelled}) f (orders s) = orders s"
    and "count_where (\<lambda>y. o_id y = o_id o' \<and> o_status y \<in> {PendingPayment, Cancelled}) (orders s) = 0" for f
    by (simp_all add: update_where_id count_where_0)
  then show ?thesis by (simp add: freeze_order_def Let_def)
qed

text \<open>After a reported payment the order is paid, or it was neither unpaid nor cancelled before.\<close>

lemma applyPayment_cases:
  assumes d: "distinct (map o_id (orders s))" and p: "distinct (map p_id (products s))" and o': "o' \<in> set (orders s)"
    and run: "applyPayment tz b now ids k nid o' s = s'"
  obtains (booked) x where "find_row o_id (o_id o') (orders s') = Some x" "o_status x = Paid" "o_userId x = o_userId o'"
  | (kept) e where "s' = freeze_order nid o' s" "pay tz b now ids k (o_userId o') (o_id o') s = (s, Inl e)"
      "o_status o' \<noteq> Paid"
proof -
  have own: "find_own_order s (o_id o') (o_userId o') = Some o'"
    by (rule find_own_order_of_row [OF find_row_unique [OF d o'] refl d])
  obtain s1 x where pay: "pay tz b now ids k (o_userId o') (o_id o') s = (s1, x)" by force
  show ?thesis
  proof (cases x)
    case (Inl e)
    then have "s1 = s" using atomicD [OF atomic_pay] pay by blast
    moreover have "o_status o' \<noteq> Paid"
      using pay own Inl by (auto simp: pay_def transaction_def reply_def)
    ultimately show ?thesis using kept pay Inl run by (simp add: applyPayment_def)
  next
    case (Inr r)
    then consider "o_status o' = Paid" "s1 = s"
      | items where "o_status o' = PendingPayment" "pay_commit b now ids k o' items s = (s1, Inr r)"
      using pay_cases pay own by (metis option.inject)
    then show ?thesis
    proof cases
      case 1
      then show ?thesis
        using booked find_row_unique [OF d o'] pay Inr run by (simp add: applyPayment_def)
    next
      case 2
      have "find_row o_id (o_id o') (orders s1) = Some (paid_row now k o' items o')"
        using pay_commit_ok(1) [OF p 2(2)] find_row_unique [OF d o'] 2(1)
        by (simp add: find_row_update_where)
      then show ?thesis using booked pay Inr run by (simp add: applyPayment_def)
    qed
  qed
qed

lemma received_row:
  assumes "distinct (map o_id (orders s))" and "distinct (map p_id (products s))" and "o' \<in> set (orders s)"
  shows "\<exists>x. find_row o_id (o_id o') (orders (applyPayment tz b now ids k nid o' s)) = Some x \<and>
    o_status x \<notin> {PendingPayment, Cancelled} \<and>
    (o_status o' \<in> {PendingPayment, Cancelled} \<longrightarrow> o_status x \<in> {Paid, Exception})"
proof (rule applyPayment_cases [OF assms refl, of tz b now ids k nid])
  let ?s = "applyPayment tz b now ids k nid o' s"
  fix x assume "find_row o_id (o_id o') (orders ?s) = Some x" "o_status x = Paid"
  then show ?thesis by auto
next
  fix e assume "applyPayment tz b now ids k nid o' s = freeze_order nid o' s"
  then show ?thesis using freeze_row [OF find_row_unique [OF assms(1,3)], of nid] by simp
qed

text \<open>C8. A payment that was received is never lost: once the payment service has reported it, the
  order is neither waiting for payment nor cancelled, so that no timer closes it. It is paid, or
  it is kept for support, or it had gone further before.\<close>

theorem received_payment_kept:
  assumes "distinct (map o_id (orders s))" and "distinct (map p_id (products s))" and "o' \<in> set (orders s)"
  shows "\<exists>x. find_row o_id (o_id o') (orders (applyPayment tz b now ids k nid o' s)) = Some x \<and>
    o_status x \<notin> {PendingPayment, Cancelled} \<and>
    (o_status o' \<in> {PendingPayment, Cancelled} \<longrightarrow> o_status x \<in> {Paid, Exception})"
  by (rule received_row [OF assms])

theorem received_payment_kept_witness:
  "\<exists>x. find_row o_id ''o1'' (orders (applyPayment 8 None 99999999 sample_ids ''pkg'' ''n1'' order1 db0)) = Some x \<and>
    o_status x = Exception"
proof -
  have "distinct (map o_id (orders db0))" "distinct (map p_id (products db0))" "order1 \<in> set (orders db0)"
    by (simp_all add: db0_def product1_def product2_def)
  from received_payment_kept [OF this, of 8 None 99999999 sample_ids "''pkg''" "''n1''"]
  have "\<exists>x. find_row o_id ''o1'' (orders (applyPayment 8 None 99999999 sample_ids ''pkg'' ''n1'' order1 db0)) = Some x \<and>
      o_status x \<notin> {PendingPayment, Cancelled}"
    by (auto simp: order1_def)
  moreover have "(case find_row o_id ''o1'' (orders (applyPayment 8 None 99999999 sample_ids ''pkg'' ''n1'' order1 db0)) of
      Some x \<Rightarrow> o_status x = Exception | None \<Rightarrow> False)" by code_simp
  ultimately show ?thesis by auto
qed

text \<open>The payment service repeats its reports. A second report of a payment changes nothing: no
  stock is taken twice, no coupon is used or given twice, and support is told once.\<close>

theorem payment_report_idempotent:
  assumes "distinct (map o_id (orders s))" and "distinct (map p_id (products s))" and "o' \<in> set (orders s)"
    and "s1 = applyPayment tz b now ids k nid o' s"
    and "distinct (map o_id (orders s1))" and "o'' \<in> set (orders s1)" and "o_id o'' = o_id o'"
  shows "applyPayment tz' b' now' ids' k' nid' o'' s1 = s1"
proof -
  have row: "find_row o_id (o_id o') (orders s1) = Some o''"
    using find_row_unique [OF assms(5,6)] assms(7) by simp
  have own: "find_own_order s1 (o_id o'') (o_userId o'') = Some o''"
    by (rule find_own_order_of_row [OF find_row_unique [OF assms(5,6)] refl assms(5)])
  have st: "o_status o'' \<notin> {PendingPayment, Cancelled}"
    using received_row [OF assms(1-3), of tz b now ids k nid] row assms(4) by simp
  show ?thesis
  proof (cases "o_status o'' = Paid")
    case True
    then have "pay tz' b' now' ids' k' (o_userId o'') (o_id o'') s1 = (s1, Inr (Some o''))"
      using own by (simp add: pay_def transaction_def reply_def)
    then show ?thesis by (simp add: applyPayment_def)
  next
    case False
    obtain s2 x where pay: "pay tz' b' now' ids' k' (o_userId o'') (o_id o'') s1 = (s2, x)" by force
    have "\<nexists>r. x = Inr r"
    proof
      assume "\<exists>r. x = Inr r"
      then obtain r where "pay tz' b' now' ids' k' (o_userId o'') (o_id o'') s1 = (s2, Inr r)" using pay by blast
      from pay_cases [OF this] own False st show False by auto
    qed
    then obtain e where "x = Inl e" by (cases x) auto
    then have "s2 = s1" using atomicD [OF atomic_pay] pay by blast
    then show ?thesis
      using freeze_nothing [of o'' s1 o'' nid'] row assms(5,7) st pay \<open>x = Inl e\<close> by (simp add: applyPayment_def)
  qed
qed

theorem payment_report_idempotent_witness:
  "applyPayment 8 None 3000 sample_ids ''pkg'' ''n2'' (the (find_row o_id ''o1'' (orders (applyPayment 8 None 2000 sample_ids ''pkg'' ''n1'' order1 db0))))
      (applyPayment 8 None 2000 sample_ids ''pkg'' ''n1'' order1 db0) =
    applyPayment 8 None 2000 sample_ids ''pkg'' ''n1'' order1 db0"
proof -
  let ?s = "applyPayment 8 None 2000 sample_ids ''pkg'' ''n1'' order1 db0"
  have base: "distinct (map o_id (orders db0))" "distinct (map p_id (products db0))" "order1 \<in> set (orders db0)"
    by (simp_all add: db0_def product1_def product2_def)
  have d: "distinct (map o_id (orders ?s))" by code_simp
  have "(case find_row o_id ''o1'' (orders ?s) of Some x \<Rightarrow> True | None \<Rightarrow> False)" by code_simp
  then obtain x where x: "find_row o_id ''o1'' (orders ?s) = Some x" by (auto split: option.splits)
  have "x \<in> set (orders ?s)" "o_id x = o_id order1" using find_row_SomeD [OF x] by (simp_all add: order1_def)
  from payment_report_idempotent [OF base refl d this] show ?thesis by (simp add: x)
qed

subsection \<open>Who is believed\<close>

text \<open>All signature headers are there, the time stamp is fresh (or is not a number), and one of the
  candidate keys verifies the signature of exactly this body.\<close>

definition authentic :: "notify_env \<Rightarrow> millis \<Rightarrow> notify_headers \<Rightarrow> string \<Rightarrow> db \<Rightarrow> bool" where
  "authentic env now h rawBody s \<longleftrightarrow>
     (\<exists>sig ts nonce serial keys key. nh_signature h = Some sig \<and> nh_timestamp h = Some ts \<and>
       nh_nonce h = Some nonce \<and> nh_serial h = Some serial \<and>
       (case nh_seconds h of Some n \<Rightarrow> \<bar>of_int (now div 1000) - n\<bar> \<le> 300 | None \<Rightarrow> True) \<and>
       notifyVerifyKeys (ne_publicKey env) (ne_platformCert env) s serial = Inr keys \<and> key \<in> set keys \<and>
       wk_verify (ne_crypto env) key (signed_text ts nonce rawBody) sig)"

lemma truthy_Some: "truthy x = Some y \<Longrightarrow> x = Some y"
  by (auto simp: truthy_def split: option.splits list.splits)

lemma reads_verify: "reads (verifyNotifySignature c pk pc now h body)"
  by (rule readsI) (simp add: verifyNotifySignature_def unless_apply reject_def reply_def split: option.split sum.split)

lemma verify_ok:
  assumes "verifyNotifySignature (ne_crypto env) (ne_publicKey env) (ne_platformCert env) now h body s = (s', Inr r)"
  shows "authentic env now h body s"
proof -
  obtain sig ts nonce serial where hs: "truthy (nh_signature h) = Some sig" "truthy (nh_timestamp h) = Some ts"
      "truthy (nh_nonce h) = Some nonce" "truthy (nh_serial h) = Some serial"
    using assms by (auto simp: verifyNotifySignature_def reject_ok split: option.splits)
  note run = assms [unfolded verifyNotifySignature_def hs prod.case option.case]
  obtain keys where "(case nh_seconds h of Some n \<Rightarrow> \<bar>of_int (now div 1000) - n\<bar> \<le> 300 | None \<Rightarrow> True)"
      "notifyVerifyKeys (ne_publicKey env) (ne_platformCert env) s serial = Inr keys"
      "\<exists>k \<in> set keys. wk_verify (ne_crypto env) k (signed_text ts nonce body) sig"
    using run by (auto simp: unless_ok reject_ok split: sum.splits)
  then show ?thesis using hs [THEN truthy_Some] unfolding authentic_def by blast
qed

lemma after_verify:
  assumes "fst (and_then (verifyNotifySignature (ne_crypto env) (ne_publicKey env) (ne_platformCert env) now h body) k s) \<noteq> s"
  shows "authentic env now h body s"
proof -
  let ?v = "verifyNotifySignature (ne_crypto env) (ne_publicKey env) (ne_platformCert env) now h body"
  obtain s1 x where v: "?v s = (s1, x)" by force
  then have "s1 = s" using readsD [OF reads_verify] by blast
  then show ?thesis using assms v verify_ok by (cases x) (auto simp: and_then_def)
qed

text \<open>C26. Only the payment service is believed: a callback, of a payment or of a refund, that changes
  anything carried a signature of its body that one of the configured keys verifies, with a time
  stamp within five minutes of now (if it is a number at all).\<close>

theorem callback_needs_signature:
  assumes "fst (notify_payment env parse now ids k nid h body res s) \<noteq> s \<or>
    fst (notify_refund env parse' now h body res s) \<noteq> s"
  shows "authentic env now h body s"
  using assms
proof
  assume "fst (notify_payment env parse now ids k nid h body res s) \<noteq> s"
  then show ?thesis
    by (auto simp: notify_payment_def unless_apply split: if_splits intro: after_verify)
next
  assume "fst (notify_refund env parse' now h body res s) \<noteq> s"
  then show ?thesis unfolding notify_refund_def by (rule after_verify)
qed

definition sample_env :: notify_env where
  "sample_env = \<lparr>ne_configured = True,
     ne_crypto = \<lparr>wk_verify = (\<lambda>key t sig. key = ''cert'' \<and> sig = ''good''), wk_decrypt = (\<lambda>key res. Some (nr_ciphertext res))\<rparr>,
     ne_publicKey = None, ne_platformCert = (\<lambda>serial. Inr ''cert''), ne_v3 = Some ''v3'', ne_tz = 8, ne_bonusId = None\<rparr>"

definition sample_headers :: notify_headers where
  "sample_headers = \<lparr>nh_signature = Some ''good'', nh_timestamp = Some ''2'', nh_seconds = Some 2,
     nh_nonce = Some ''x'', nh_serial = Some ''AB''\<rparr>"

definition sample_event :: "string \<Rightarrow> trade_event option" where
  "sample_event t = Some \<lparr>te_out_trade_no = Some t, te_trade_state = Some ''SUCCESS''\<rparr>"

definition sample_callback :: "db \<times> (api_error + bool)" where
  "sample_callback = notify_payment sample_env sample_event 2000 sample_ids ''pkg'' ''n1'' sample_headers ''{}''
     (Some \<lparr>nr_ciphertext = ''BCQ1'', nr_nonce = ''n'', nr_associated = []\<rparr>) db0"

theorem callback_needs_signature_witness: "authentic sample_env 2000 sample_headers ''{}'' db0"
proof -
  have "map o_status (orders (fst sample_callback)) \<noteq> map o_status (orders db0)" by code_simp
  then have "fst sample_callback \<noteq> db0" by metis
  then show ?thesis
    using callback_needs_signature [of sample_env sample_event 2000 sample_ids "''pkg''" "''n1''" sample_headers "''{}''"
      "Some \<lparr>nr_ciphertext = ''BCQ1'', nr_nonce = ''n'', nr_associated = []\<rparr>" db0]
    by (simp add: sample_callback_def)
qed

end
