(* ===== verification/Supply.thy ===== *)
theory Supply
  imports Coupon_Admin
begin

text \<open>
  Stock and its replenishment, from \<open>src/admin/admin.service.ts\<close>: the manual stock movements
  (\<open>stockIn\<close>, \<open>adjustStock\<close>, \<open>stocktake\<close>), the ordering rounds and orders of the campuses
  (\<open>createRestockBatch\<close> to \<open>auditRestockOrder\<close>), the purchases of the headquarters
  (\<open>createPurchaseOrder\<close>, \<open>receivePurchaseOrder\<close>, \<open>closePurchaseOrder\<close>,
  \<open>reopenPurchaseOrder\<close>), the shipment to the campus and its receipt.

  The goods of one product of the official catalogue are rows of the product table: the row of
  the headquarters' warehouse and one row per campus, each with the official row as its source.
  A handler that reads and then writes is split there, as in \<open>Orders\<close>. Names of operators, free
  text and the descriptive columns that are copied are left out.
\<close>

definition OFFICIAL_CAMPUS_ID :: ident where
  "OFFICIAL_CAMPUS_ID = ''campus-official''"

definition HQ_CAMPUS_ID :: ident where
  "HQ_CAMPUS_ID = ''campus-hq''"

interpretation products_tbl: row_table products products_update p_id
  by unfold_locales simp_all

interpretation restock_orders_tbl: row_table restock_orders restock_orders_update ro_id
  by unfold_locales simp_all

interpretation purchase_orders_tbl: row_table purchase_orders purchase_orders_update po_id
  by unfold_locales simp_all

subsection \<open>Manual movements\<close>

definition add_txn :: "ident \<Rightarrow> string \<Rightarrow> int \<Rightarrow> string \<Rightarrow> db \<Rightarrow> db" where
  "add_txn productId kind delta operator s =
    s\<lparr>inventory_txns := inventory_txns s @
      [\<lparr>it_productId = productId, it_type = kind, it_delta = delta, it_operator = operator\<rparr>]\<rparr>"

definition find_campus_product :: "db \<Rightarrow> ident \<Rightarrow> ident \<Rightarrow> product option" where
  "find_campus_product s productId campusId =
    find (\<lambda>p. p_id p = productId \<and> p_campusId p = campusId) (products s)"

definition add_stock :: "int \<Rightarrow> product \<Rightarrow> product" where
  "add_stock n p = p\<lparr>p_stock := p_stock p + n\<rparr>"

text \<open>\<open>updateMany\<close> whose count must be exactly one.\<close>

definition update_one ::
  "(product \<Rightarrow> bool) \<Rightarrow> (product \<Rightarrow> product) \<Rightarrow> api_error \<Rightarrow> (db, unit) handler" where
  "update_one P f e s =
    (if count_where P (products s) = 1 then (s\<lparr>products := update_where P f (products s)\<rparr>, Inr ())
     else (s\<lparr>products := update_where P f (products s)\<rparr>, Inl e))"

definition stockIn :: "ident \<Rightarrow> int \<Rightarrow> string \<Rightarrow> ident \<Rightarrow> (db, unit) handler" where
  "stockIn productId quantity operator campusId s =
    (case find_campus_product s productId campusId of
       None \<Rightarrow> reject (NotFound ''no such product'') s
     | Some p \<Rightarrow>
         unless (campusId = OFFICIAL_CAMPUS_ID \<or> p_procurementMode p = Some ''LOCAL'')
           (BadRequest ''only goods bought locally are stocked by hand'')
         (and_then (transaction
           (and_then (modify (add_txn productId ''stock-in'' quantity operator))
             (\<lambda>_. update_one (\<lambda>x. p_id x = productId \<and>
                 (campusId = OFFICIAL_CAMPUS_ID \<or> p_procurementMode x = Some ''LOCAL''))
               (add_stock quantity) (BadRequest ''the procurement has changed''))))
           (\<lambda>_. audit operator ''inventory.stock-in'' productId)) s)"

definition adjustStock :: "ident \<Rightarrow> int \<Rightarrow> string \<Rightarrow> ident \<Rightarrow> (db, unit) handler" where
  "adjustStock productId delta operator campusId s =
    unless (delta \<noteq> 0) (BadRequest ''the adjustment is zero'')
    (case find_campus_product s productId campusId of
       None \<Rightarrow> reject (NotFound ''no such product'')
     | Some p \<Rightarrow>
         and_then (transaction (\<lambda>s.
           case find_row p_id productId (products s) of
             None \<Rightarrow> reject (InternalError ''no such product'') s
           | Some current \<Rightarrow>
               unless (0 \<le> p_stock current + delta) (BadRequest ''the stock would be negative'')
               (and_then (modify (add_txn productId ''adjust'' delta operator))
                 (\<lambda>_. modify (\<lambda>s. s\<lparr>products := update_where (\<lambda>x. p_id x = productId) (add_stock delta) (products s)\<rparr>))) s))
           (\<lambda>_. audit operator ''inventory.adjust'' productId)) s"

text \<open>The transaction of a stock take for a product that was read with \<open>stock\<close> on the books.\<close>

definition stocktake_commit :: "product \<Rightarrow> int \<Rightarrow> string \<Rightarrow> (db, unit) handler" where
  "stocktake_commit p countedQty operator =
    transaction (and_then (modify (add_txn (p_id p) ''adjust'' (countedQty - p_stock p) operator))
      (\<lambda>_. modify (\<lambda>s. s\<lparr>products := update_where (\<lambda>x. p_id x = p_id p) (\<lambda>x. x\<lparr>p_stock := countedQty\<rparr>) (products s)\<rparr>)))"

definition stocktake :: "ident \<Rightarrow> int \<Rightarrow> string \<Rightarrow> ident \<Rightarrow> (db, int \<times> bool) handler" where
  "stocktake productId countedQty operator campusId s =
    (case find_campus_product s productId campusId of
       None \<Rightarrow> reject (NotFound ''no such product'') s
     | Some p \<Rightarrow>
         let delta = countedQty - p_stock p
         in if delta = 0 then reply (0, False) s
            else unless (0 \<le> countedQty) (BadRequest ''a count cannot be negative'')
              (and_then (stocktake_commit p countedQty operator)
              (\<lambda>_. and_then (audit operator ''inventory.stocktake'' productId)
              (\<lambda>_. reply (delta, True)))) s)"

subsection \<open>Ordering rounds\<close>

datatype restock_phase = BatchClosed | Upcoming | Ended | Open

definition restockPhase :: "millis \<Rightarrow> restock_batch \<Rightarrow> restock_phase" where
  "restockPhase now b =
    (if rb_closedAt b \<noteq> None then BatchClosed
     else if now < rb_startAt b then Upcoming
     else if rb_endAt b < now then Ended else Open)"

definition createRestockBatch ::
  "ident \<Rightarrow> string \<Rightarrow> millis \<Rightarrow> millis \<Rightarrow> ident \<Rightarrow> (db, restock_batch) handler" where
  "createRestockBatch newId name startAt endAt operator =
    unless (startAt < endAt) (BadRequest ''the end must be after the start'')
    (let b = \<lparr>rb_id = newId, rb_name = trim name, rb_startAt = startAt, rb_endAt = endAt,
        rb_closedAt = None, rb_createdBy = operator\<rparr>
     in and_then (modify (\<lambda>s. s\<lparr>restock_batches := restock_batches s @ [b]\<rparr>))
       (\<lambda>_. and_then (audit operator ''restock.batch-create'' newId) (\<lambda>_. reply b)))"

definition set_batch :: "ident \<Rightarrow> (restock_batch \<Rightarrow> restock_batch) \<Rightarrow> db \<Rightarrow> db" where
  "set_batch k f s = s\<lparr>restock_batches := update_where (\<lambda>b. rb_id b = k) f (restock_batches s)\<rparr>"

definition updateRestockBatch ::
  "millis \<Rightarrow> ident \<Rightarrow> string option \<Rightarrow> millis option \<Rightarrow> millis option \<Rightarrow> ident \<Rightarrow> (db, unit) handler" where
  "updateRestockBatch now k name newStart newEnd operator s =
    (case find_row rb_id k (restock_batches s) of
       None \<Rightarrow> reject (NotFound ''no such round'') s
     | Some b \<Rightarrow>
         let startAt = (case newStart of Some t \<Rightarrow> t | None \<Rightarrow> rb_startAt b);
             endAt = (case newEnd of Some t \<Rightarrow> t | None \<Rightarrow> rb_endAt b)
         in unless (restockPhase now b \<notin> {Ended, BatchClosed}) (BadRequest ''the round is over'')
           (unless (startAt < endAt) (BadRequest ''the end must be after the start'')
           (and_then (modify (set_batch k (\<lambda>x. x\<lparr>rb_name := (case name of Some t \<Rightarrow> trim t | None \<Rightarrow> rb_name b),
                rb_startAt := startAt, rb_endAt := endAt\<rparr>)))
             (\<lambda>_. audit operator ''restock.batch-update'' k))) s)"

definition closeRestockBatch :: "millis \<Rightarrow> ident \<Rightarrow> ident \<Rightarrow> (db, unit) handler" where
  "closeRestockBatch now k operator s =
    (case find_row rb_id k (restock_batches s) of
       None \<Rightarrow> reject (NotFound ''no such round'') s
     | Some b \<Rightarrow>
         if rb_closedAt b \<noteq> None then reply () s
         else and_then (modify (set_batch k (\<lambda>x. x\<lparr>rb_closedAt := Some now\<rparr>)))
           (\<lambda>_. audit operator ''restock.batch-close'' k) s)"

subsection \<open>Orders of the campuses\<close>

text \<open>\<open>body.items\<close>: the product and the number of cases; a repeated product is dropped.\<close>

fun dedupe_items :: "ident list \<Rightarrow> (ident \<times> int) list \<Rightarrow> (ident \<times> int) list" where
  "dedupe_items seen [] = []"
| "dedupe_items seen ((k, n) # rest) =
    (if k \<in> set seen then dedupe_items seen rest else (k, n) # dedupe_items (k # seen) rest)"

definition orderable :: "product \<Rightarrow> bool" where
  "orderable p \<longleftrightarrow> p_campusId p = OFFICIAL_CAMPUS_ID \<and> p_status p = ''on-sale'' \<and> p_organizationId p = None"

definition units_of :: "db \<Rightarrow> ident \<Rightarrow> int" where
  "units_of s k = (case find_row p_id k (products s) of Some p \<Rightarrow> p_unitsPerCase p | None \<Rightarrow> 1)"

definition saveRestockOrder ::
  "millis \<Rightarrow> ident \<Rightarrow> ident \<Rightarrow> (ident \<times> int) list \<Rightarrow> ident \<Rightarrow> ident \<Rightarrow> (db, restock_order) handler" where
  "saveRestockOrder now newId batchId body operator campusId s =
    (case find_row rb_id batchId (restock_batches s) of
       None \<Rightarrow> reject (NotFound ''no such round'') s
     | Some b \<Rightarrow>
         let items = dedupe_items [] body;
             o' = \<lparr>ro_id = newId, ro_batchId = batchId, ro_campusId = campusId, ro_status = Submitted,
               ro_submitBy = operator, ro_auditBy = None, ro_auditNote = [],
               ro_items = map (\<lambda>(k, n). \<lparr>rx_productId = k, rx_cases = n, rx_unitsPerCase = units_of s k\<rparr>) items\<rparr>
         in unless (restockPhase now b = Open)
             (BadRequest (if restockPhase now b = Upcoming then ''the round has not started'' else ''the round is over''))
           (unless (body \<noteq> []) (BadRequest ''nothing ordered'')
           (unless (length (filter (\<lambda>p. p_id p \<in> fst ` set items \<and> orderable p) (products s)) = length items)
             (BadRequest ''some goods cannot be ordered'')
           (and_then (modify (\<lambda>s. s\<lparr>restock_orders := restock_orders s @ [o']\<rparr>))
             (\<lambda>_. and_then (audit operator ''restock.order-submit'' newId) (\<lambda>_. reply o'))))) s)"

definition deleteRestockOrder :: "ident \<Rightarrow> ident \<Rightarrow> ident \<Rightarrow> (db, unit) handler" where
  "deleteRestockOrder orderId operator campusId s =
    (case find_row ro_id orderId (restock_orders s) of
       None \<Rightarrow> reject (NotFound ''no such order'') s
     | Some o' \<Rightarrow>
         unless (ro_campusId o' = campusId) (NotFound ''no such order'')
         (unless (ro_status o' = Submitted) (BadRequest ''only an order under review can be deleted'')
         (and_then (modify (\<lambda>s. s\<lparr>restock_orders := delete_where (\<lambda>x. ro_id x = orderId) (restock_orders s)\<rparr>))
           (\<lambda>_. audit operator ''restock.order-delete'' orderId))) s)"

datatype restock_audit = ConfirmOrder | RejectOrder | RevokeOrder

definition set_restock_order :: "ident \<Rightarrow> (restock_order \<Rightarrow> restock_order) \<Rightarrow> db \<Rightarrow> db" where
  "set_restock_order k f s =
    s\<lparr>restock_orders := update_where (\<lambda>x. ro_id x = k) f (restock_orders s)\<rparr>"

definition audited :: "ident \<Rightarrow> string \<Rightarrow> restock_status \<Rightarrow> restock_order \<Rightarrow> restock_order" where
  "audited operator note st x = x\<lparr>ro_status := st, ro_auditBy := Some operator, ro_auditNote := note\<rparr>"

definition auditRestockOrder ::
  "ident \<Rightarrow> restock_audit \<Rightarrow> string option \<Rightarrow> ident \<Rightarrow> (db, restock_status) handler" where
  "auditRestockOrder orderId action rawNote operator s =
    (case find_row ro_id orderId (restock_orders s) of
       None \<Rightarrow> reject (NotFound ''no such order'') s
     | Some o' \<Rightarrow>
         let note = (case rawNote of Some t \<Rightarrow> trim t | None \<Rightarrow> [])
         in (case action of
               ConfirmOrder \<Rightarrow>
                 unless (ro_status o' = Submitted) (BadRequest ''only a submitted order can be confirmed'')
                 (and_then (modify (set_restock_order orderId (audited operator note OrderConfirmed)))
                   (\<lambda>_. and_then (audit operator ''restock.order-confirm'' orderId) (\<lambda>_. reply OrderConfirmed)))
             | RejectOrder \<Rightarrow>
                 unless (ro_status o' = Submitted) (BadRequest ''only a submitted order can be rejected'')
                 (and_then (modify (set_restock_order orderId (audited operator note OrderRejected)))
                   (\<lambda>_. and_then (audit operator ''restock.order-reject'' orderId) (\<lambda>_. reply OrderRejected)))
             | RevokeOrder \<Rightarrow>
                 unless (ro_status o' = OrderConfirmed) (BadRequest ''only a confirmed order can be revoked'')
                 (unless (\<not> (\<exists>p \<in> set (purchase_orders s). po_batchId p = ro_batchId o'))
                   (BadRequest ''the round has been purchased'')
                 (and_then (modify (set_restock_order orderId (audited operator note Submitted)))
                   (\<lambda>_. and_then (audit operator ''restock.order-revoke'' orderId) (\<lambda>_. reply Submitted))))) s)"

subsection \<open>Purchases of the headquarters\<close>

datatype purchase_phase = PurchaseClosed | PurchasePending | PurchasePartial | PurchaseCompleted

definition purchasePhase :: "purchase_order \<Rightarrow> purchase_phase" where
  "purchasePhase po =
    (let required = sum_list (map pl_requiredCases (po_lines po));
         received = sum_list (map pl_receivedCases (po_lines po))
     in if po_closedAt po \<noteq> None then PurchaseClosed
        else if received = 0 then PurchasePending
        else if required \<le> received then PurchaseCompleted else PurchasePartial)"

text \<open>The cases and the case size per product over the confirmed orders of a round; the last line
  gives the case size.\<close>

definition confirmed_items :: "db \<Rightarrow> ident \<Rightarrow> restock_item list" where
  "confirmed_items s batchId =
    concat (map ro_items (filter (\<lambda>x. ro_batchId x = batchId \<and> ro_status x = OrderConfirmed) (restock_orders s)))"

definition required_cases :: "restock_item list \<Rightarrow> ident \<Rightarrow> int" where
  "required_cases items k = sum_list (map rx_cases (filter (\<lambda>i. rx_productId i = k) items))"

definition case_size :: "restock_item list \<Rightarrow> ident \<Rightarrow> int" where
  "case_size items k =
    (case find (\<lambda>i. rx_productId i = k) (rev items) of Some i \<Rightarrow> rx_unitsPerCase i | None \<Rightarrow> 1)"

definition createPurchaseOrder ::
  "millis \<Rightarrow> ident \<Rightarrow> ident \<Rightarrow> string \<Rightarrow> (ident \<times> cents) list \<Rightarrow> ident \<Rightarrow> (db, purchase_order) handler" where
  "createPurchaseOrder now newId batchId supplierName lines operator s =
    (case find_row rb_id batchId (restock_batches s) of
       None \<Rightarrow> reject (NotFound ''no such round'') s
     | Some b \<Rightarrow>
         let items = confirmed_items s batchId;
             po = \<lparr>po_id = newId, po_batchId = batchId, po_supplierName = trim supplierName, po_closedAt = None,
               po_closedNote = [], po_createdAt = now,
               po_lines = map (\<lambda>(k, cost). \<lparr>pl_productId = k, pl_requiredCases = required_cases items k,
                 pl_receivedCases = 0, pl_badCases = 0, pl_unitCost = cost, pl_unitsPerCase = case_size items k\<rparr>) lines\<rparr>
         in unless (\<not> (\<exists>p \<in> set (purchase_orders s). po_batchId p = batchId \<and> po_closedAt p = None))
             (BadRequest ''the round has an open purchase'')
           (unless (items \<noteq> []) (BadRequest ''nothing is confirmed'')
           (unless (\<forall>l \<in> set lines. fst l \<in> rx_productId ` set items) (BadRequest ''a line is not part of the round'')
           (unless (distinct (map fst lines)) (BadRequest ''a product is listed twice'')
           (and_then (modify (\<lambda>s. s\<lparr>purchase_orders := purchase_orders s @ [po]\<rparr>))
             (\<lambda>_. and_then (audit operator ''purchase.generate'' newId) (\<lambda>_. reply po)))))) s)"

record receive_line =
  rl_productId :: ident
  rl_receiveCases :: int
  rl_badCases :: int

text \<open>The lines that bring something, each with the purchase line as it was read.\<close>

fun receive_lines ::
  "purchase_line list \<Rightarrow> ident list \<Rightarrow> receive_line list \<Rightarrow> api_error + (purchase_line \<times> int \<times> int) list" where
  "receive_lines pls seen [] = Inr []"
| "receive_lines pls seen (l # ls) =
    (if rl_productId l \<in> set seen then receive_lines pls seen ls
     else case find (\<lambda>x. pl_productId x = rl_productId l) (rev pls) of
         None \<Rightarrow> Inl (BadRequest ''a line is not part of the purchase'')
       | Some i \<Rightarrow>
           if pl_requiredCases i - pl_receivedCases i < rl_receiveCases l
           then Inl (BadRequest (pl_productId i @ '' exceeds what is missing''))
           else if rl_receiveCases l < rl_badCases l then Inl (BadRequest ''more bad than received'')
           else let rest = receive_lines pls (rl_productId l # seen) ls
             in if 0 < rl_receiveCases l
                then map_sum (\<lambda>e. e) (\<lambda>xs. (i, rl_receiveCases l, rl_badCases l) # xs) rest
                else if 0 < rl_badCases l then Inl (BadRequest ''bad goods without a delivery'')
                else rest)"

text \<open>\<open>new Map(rows.map(r => [r.sourceProductId, r]))\<close>: the last row of a source.\<close>

definition row_by_source :: "db \<Rightarrow> ident \<Rightarrow> ident \<Rightarrow> product option" where
  "row_by_source s campusId source =
    find (\<lambda>p. p_campusId p = campusId \<and> p_sourceProductId p = Some source) (rev (products s))"

text \<open>The row that is created from the official one where the goods arrive for the first time.\<close>

definition copy_official :: "ident \<Rightarrow> ident \<Rightarrow> int \<Rightarrow> product \<Rightarrow> product" where
  "copy_official newId campusId stock p =
    \<lparr>p_id = newId, p_campusId = campusId, p_name = p_name p, p_price = p_price p,
     p_originalPrice = p_originalPrice p, p_costPrice = p_costPrice p, p_wholesalePrice = p_price p,
     p_procurementMode = Some ''HQ'', p_localPurchasePrice = None, p_purchaseLimit = ''none'',
     p_purchaseLimitQty = 1, p_stock = stock, p_lockedStock = 0, p_sales = 0, p_weight = p_weight p,
     p_status = ''off-sale'', p_unitsPerCase = p_unitsPerCase p, p_sourceProductId = Some (p_id p),
     p_organizationId = None, p_barcode = None, p_catalogScope = ''campus'', p_orgCatalogId = None,
     p_supplyMode = None, p_categoryId = p_categoryId p, p_subtitle = p_subtitle p, p_tag = p_tag p,
     p_image = p_image p, p_images = p_images p, p_description = p_description p, p_location = [],
     p_locationCode = [], p_retailUnit = p_retailUnit p, p_wholesaleUnit = p_wholesaleUnit p,
     p_featured = False, p_featuredSort = 0\<rparr>"

text \<open>The row of the headquarters for a product: the one that was read before the transaction, or
  a new one.\<close>

definition hq_row :: "ident \<Rightarrow> product option \<Rightarrow> ident \<Rightarrow> (db, ident) handler" where
  "hq_row newId known source s =
    (case known of
       Some p \<Rightarrow> reply (p_id p) s
     | None \<Rightarrow>
         (case find_row p_id source (products s) of
            None \<Rightarrow> reject (BadRequest (''no such product: '' @ source)) s
          | Some official \<Rightarrow>
              (s\<lparr>products := products s @ [copy_official newId HQ_CAMPUS_ID 0 official]\<rparr>, Inr newId)))"

definition move_stock :: "ident \<Rightarrow> int \<Rightarrow> db \<Rightarrow> db" where
  "move_stock k n s = s\<lparr>products := update_where (\<lambda>p. p_id p = k) (add_stock n) (products s)\<rparr>"

definition txn_if :: "bool \<Rightarrow> ident \<Rightarrow> string \<Rightarrow> int \<Rightarrow> string \<Rightarrow> db \<Rightarrow> db" where
  "txn_if b k kind n operator = (if b then add_txn k kind n operator else (\<lambda>s. s))"

definition book_line :: "ident \<Rightarrow> purchase_line \<Rightarrow> int \<Rightarrow> int \<Rightarrow> db \<Rightarrow> db" where
  "book_line poId i receive bad s =
    s\<lparr>purchase_orders := update_where (\<lambda>p. po_id p = poId)
       (\<lambda>p. p\<lparr>po_lines := update_where (\<lambda>x. pl_productId x = pl_productId i)
          (\<lambda>x. x\<lparr>pl_receivedCases := pl_receivedCases x + receive, pl_badCases := pl_badCases x + bad\<rparr>)
          (po_lines p)\<rparr>) (purchase_orders s)\<rparr>"

definition receive_one ::
  "(ident \<Rightarrow> product option) \<Rightarrow> ident \<Rightarrow> string \<Rightarrow> ident \<times> purchase_line \<times> int \<times> int \<Rightarrow> (db, unit) handler" where
  "receive_one known poId operator = (\<lambda>(newId, i, receive, bad).
    let units = receive * pl_unitsPerCase i; badUnits = bad * pl_unitsPerCase i
    in and_then (hq_row newId (known (pl_productId i)) (pl_productId i))
      (\<lambda>k. modify (\<lambda>s. book_line poId i receive bad
         (txn_if (badUnits \<noteq> 0) k ''purchase-bad'' (- badUnits) operator
         (txn_if (units \<noteq> 0) k ''purchase-receive'' units operator
         (move_stock k (units - badUnits) s))))))"

definition with_ids :: "(nat \<Rightarrow> ident) \<Rightarrow> 'a list \<Rightarrow> (ident \<times> 'a) list" where
  "with_ids ids xs = map (\<lambda>(n, x). (ids n, x)) (enumerate 0 xs)"

text \<open>The transaction of a receipt, for lines and rows that were read before it.\<close>

definition receive_commit ::
  "(nat \<Rightarrow> ident) \<Rightarrow> (ident \<Rightarrow> product option) \<Rightarrow> ident \<Rightarrow> string \<Rightarrow> (purchase_line \<times> int \<times> int) list \<Rightarrow> (db, unit) handler"
where
  "receive_commit ids known poId operator lines =
    transaction (for_each (receive_one known poId operator) (with_ids ids lines))"

definition receivePurchaseOrder ::
  "(nat \<Rightarrow> ident) \<Rightarrow> ident \<Rightarrow> receive_line list \<Rightarrow> string \<Rightarrow> (db, purchase_phase) handler" where
  "receivePurchaseOrder ids poId body operator s =
    (case find_row po_id poId (purchase_orders s) of
       None \<Rightarrow> reject (NotFound ''no such purchase'') s
     | Some po \<Rightarrow>
         unless (po_closedAt po = None) (BadRequest ''the purchase is closed'')
         (case receive_lines (po_lines po) [] body of
            Inl e \<Rightarrow> reject e
          | Inr lines \<Rightarrow>
              unless (lines \<noteq> []) (BadRequest ''nothing received'')
              (and_then (receive_commit ids (row_by_source s HQ_CAMPUS_ID) poId operator lines)
              (\<lambda>_. and_then (audit operator ''purchase.receive'' poId)
              (\<lambda>_. read (\<lambda>s. case find_row po_id poId (purchase_orders s) of
                  Some p \<Rightarrow> purchasePhase p | None \<Rightarrow> PurchasePending))))) s)"

definition set_purchase :: "ident \<Rightarrow> (purchase_order \<Rightarrow> purchase_order) \<Rightarrow> db \<Rightarrow> db" where
  "set_purchase k f s = s\<lparr>purchase_orders := update_where (\<lambda>p. po_id p = k) f (purchase_orders s)\<rparr>"

definition closePurchaseOrder :: "millis \<Rightarrow> ident \<Rightarrow> string option \<Rightarrow> string \<Rightarrow> (db, unit) handler" where
  "closePurchaseOrder now k note operator s =
    (case find_row po_id k (purchase_orders s) of
       None \<Rightarrow> reject (NotFound ''no such purchase'') s
     | Some po \<Rightarrow>
         unless (po_closedAt po = None) (BadRequest ''the purchase is closed'')
         (and_then (modify (set_purchase k (\<lambda>p. p\<lparr>po_closedAt := Some now,
              po_closedNote := (case note of Some t \<Rightarrow> trim t | None \<Rightarrow> [])\<rparr>)))
           (\<lambda>_. audit operator ''purchase.close'' k)) s)"

definition reopenPurchaseOrder :: "ident \<Rightarrow> string \<Rightarrow> (db, unit) handler" where
  "reopenPurchaseOrder k operator s =
    (case find_row po_id k (purchase_orders s) of
       None \<Rightarrow> reject (NotFound ''no such purchase'') s
     | Some po \<Rightarrow>
         unless (po_closedAt po \<noteq> None) (BadRequest ''the purchase is open'')
         (unless (\<not> (\<exists>p \<in> set (purchase_orders s). po_batchId p = po_batchId po \<and> po_closedAt p = None \<and> po_id p \<noteq> k))
           (BadRequest ''the round has another open purchase'')
         (and_then (modify (set_purchase k (\<lambda>p. p\<lparr>po_closedAt := None, po_closedNote := []\<rparr>)))
           (\<lambda>_. audit operator ''purchase.reopen'' k))) s)"

subsection \<open>Shipment to the campus\<close>

text \<open>The price paid for a product in the round: the newest purchase that has a price, and the
  official cost where there is none. Prices are per retail unit.\<close>

definition purchase_cost :: "db \<Rightarrow> ident \<Rightarrow> ident \<Rightarrow> cents option" where
  "purchase_cost s batchId k =
    (case filter (\<lambda>c. 0 < c) (concat (map (\<lambda>p. map pl_unitCost (filter (\<lambda>l. pl_productId l = k) (po_lines p)))
        (rev (sort_key po_createdAt (filter (\<lambda>p. po_batchId p = batchId) (purchase_orders s)))))) of
       c # _ \<Rightarrow> Some c | [] \<Rightarrow> None)"

definition cost_of :: "db \<Rightarrow> ident \<Rightarrow> ident \<Rightarrow> cents" where
  "cost_of s batchId k =
    (case purchase_cost s batchId k of
       Some c \<Rightarrow> c
     | None \<Rightarrow> (case find_row p_id k (products s) of Some p \<Rightarrow> p_costPrice p | None \<Rightarrow> 0))"

definition shipment_item_of :: "db \<Rightarrow> ident \<Rightarrow> restock_item \<Rightarrow> shipment_item" where
  "shipment_item_of s batchId i =
    \<lparr>sx_productId = rx_productId i, sx_cases = rx_cases i, sx_unitsPerCase = rx_unitsPerCase i,
     sx_costPerCase = cost_of s batchId (rx_productId i) * rx_unitsPerCase i,
     sx_wholesalePerCase = (case find_row p_id (rx_productId i) (products s) of Some p \<Rightarrow> p_price p | None \<Rightarrow> 0) *
       rx_unitsPerCase i\<rparr>"

text \<open>\<open>orderId\<close> is unique among the shipments: a second insertion throws.\<close>

definition insert_shipment :: "shipment \<Rightarrow> (db, unit) handler" where
  "insert_shipment sh s =
    unless (\<not> (\<exists>x \<in> set (shipments s). sh_orderId x = sh_orderId sh)) (InternalError ''unique constraint'')
      (modify (\<lambda>s. s\<lparr>shipments := shipments s @ [sh]\<rparr>)) s"

definition item_units :: "restock_item \<Rightarrow> int" where
  "item_units i = rx_cases i * rx_unitsPerCase i"

definition ship_one :: "(ident \<Rightarrow> product option) \<Rightarrow> string \<Rightarrow> ident \<times> restock_item \<Rightarrow> (db, unit) handler" where
  "ship_one known operator = (\<lambda>(newId, i).
    and_then (hq_row newId (known (rx_productId i)) (rx_productId i))
    (\<lambda>k. and_then (modify (move_stock k (- item_units i)))
    (\<lambda>_. modify (add_txn k ''restock-out'' (- item_units i) operator))))"

definition ship_commit ::
  "(nat \<Rightarrow> ident) \<Rightarrow> (ident \<Rightarrow> product option) \<Rightarrow> shipment \<Rightarrow> restock_order \<Rightarrow> string \<Rightarrow> (db, unit) handler" where
  "ship_commit ids known sh o' operator =
    transaction (and_then (insert_shipment sh)
      (\<lambda>_. and_then (for_each (ship_one known operator) (with_ids ids (ro_items o')))
      (\<lambda>_. modify (set_restock_order (ro_id o') (\<lambda>x. x\<lparr>ro_status := Shipped\<rparr>)))))"

definition shipRestockOrder :: "(nat \<Rightarrow> ident) \<Rightarrow> ident \<Rightarrow> ident \<Rightarrow> string \<Rightarrow> (db, unit) handler" where
  "shipRestockOrder ids shipmentId orderId operator s =
    (case find_row ro_id orderId (restock_orders s) of
       None \<Rightarrow> reject (NotFound ''no such order'') s
     | Some o' \<Rightarrow>
         let sh = \<lparr>sh_id = shipmentId, sh_orderId = ro_id o', sh_batchId = ro_batchId o', sh_campusId = ro_campusId o',
             sh_shippedBy = operator, sh_receivedBy = None, sh_receivedAt = None,
             sh_items = map (shipment_item_of s (ro_batchId o')) (ro_items o')\<rparr>
         in unless (ro_status o' = OrderConfirmed) (BadRequest ''only a confirmed order can be shipped'')
           (unless (\<not> (\<exists>x \<in> set (shipments s). sh_orderId x = orderId)) (BadRequest ''the order has been shipped'')
           (and_then (ship_commit ids (row_by_source s HQ_CAMPUS_ID) sh o' operator)
             (\<lambda>_. audit operator ''restock.ship'' orderId))) s)"

subsection \<open>Receipt at the campus\<close>

definition accept_hq :: "int \<Rightarrow> product \<Rightarrow> product" where
  "accept_hq n p = p\<lparr>p_stock := p_stock p + n, p_procurementMode := Some ''HQ''\<rparr>"

text \<open>The row made where the goods arrive first keeps the bar code unless the campus uses it already.\<close>

definition arrived :: "db \<Rightarrow> ident \<Rightarrow> ident \<Rightarrow> int \<Rightarrow> product \<Rightarrow> product" where
  "arrived s newId campusId stock official =
    (copy_official newId campusId stock official)\<lparr>p_barcode :=
      (if p_barcode official \<notin> {None, Some []} \<and>
          (\<exists>x \<in> set (products s). p_campusId x = campusId \<and> p_barcode x = p_barcode official)
       then None else p_barcode official)\<rparr>"

text \<open>\<open>officials\<close> and \<open>known\<close> are the rows that were read before the transaction: the official ones
  and those of the campus.\<close>

definition arrive_one ::
  "(ident \<Rightarrow> product option) \<Rightarrow> (ident \<Rightarrow> product option) \<Rightarrow> ident \<Rightarrow> string \<Rightarrow> ident \<times> restock_item \<Rightarrow> (db, unit) handler"
where
  "arrive_one officials known campusId operator = (\<lambda>(newId, i).
    case officials (rx_productId i) of
      None \<Rightarrow> reject (BadRequest (''no official row: '' @ rx_productId i))
    | Some official \<Rightarrow>
        (case known (rx_productId i) of
           Some row \<Rightarrow>
             unless (p_procurementMode row \<noteq> Some ''LOCAL'') (BadRequest (p_name official @ '' is bought locally''))
             (and_then (update_one (\<lambda>p. p_id p = p_id row \<and> p_procurementMode p \<in> {None, Some ''HQ''})
                 (accept_hq (item_units i)) (BadRequest (p_name official @ '': the procurement has changed'')))
               (\<lambda>_. modify (add_txn (p_id row) ''restock-in'' (item_units i) operator)))
         | None \<Rightarrow>
             and_then (modify (\<lambda>s. s\<lparr>products := products s @ [arrived s newId campusId (item_units i) official]\<rparr>))
               (\<lambda>_. modify (add_txn newId ''restock-in'' (item_units i) operator))))"

definition receipt_commit_restock ::
  "millis \<Rightarrow> (nat \<Rightarrow> ident) \<Rightarrow> (ident \<Rightarrow> product option) \<Rightarrow> (ident \<Rightarrow> product option) \<Rightarrow> shipment \<Rightarrow> restock_order \<Rightarrow> string \<Rightarrow>
    (db, unit) handler"
where
  "receipt_commit_restock now ids officials known sh o' operator =
    transaction (and_then (for_each (arrive_one officials known (ro_campusId o') operator) (with_ids ids (ro_items o')))
      (\<lambda>_. and_then (modify (\<lambda>s. s\<lparr>shipments := update_where (\<lambda>x. sh_id x = sh_id sh)
           (\<lambda>x. x\<lparr>sh_receivedBy := Some operator, sh_receivedAt := Some now\<rparr>) (shipments s)\<rparr>))
      (\<lambda>_. modify (set_restock_order (ro_id o') (\<lambda>x. x\<lparr>ro_status := Received\<rparr>)))))"

definition confirmRestockReceipt ::
  "millis \<Rightarrow> (nat \<Rightarrow> ident) \<Rightarrow> ident \<Rightarrow> string \<Rightarrow> ident \<Rightarrow> (db, unit) handler" where
  "confirmRestockReceipt now ids orderId operator campusId s =
    (case find_row ro_id orderId (restock_orders s) of
       None \<Rightarrow> reject (NotFound ''no such order'') s
     | Some o' \<Rightarrow>
         unless (campusId \<noteq> [] \<and> ro_campusId o' = campusId) (Forbidden ''only the receiving campus confirms'')
         (case find (\<lambda>x. sh_orderId x = orderId) (shipments s) of
            None \<Rightarrow> reject (BadRequest ''the order has not been shipped'')
          | Some sh \<Rightarrow>
              unless (ro_status o' = Shipped) (BadRequest ''the order has not been shipped'')
              (and_then (receipt_commit_restock now ids (\<lambda>k. find_row p_id k (products s))
                  (row_by_source s (ro_campusId o')) sh o' operator)
                (\<lambda>_. audit operator ''restock.receipt'' (sh_id sh)))) s)"

end
