(* ===== verification/Supply_Theorems.thy ===== *)
theory Supply_Theorems
  imports Supply Samples
begin

text \<open>
  What the supply chain guarantees: goods are neither made nor lost on their way from a supplier
  to the campus, no purchase receives more than it asked for, a round has one open purchase at a
  time; and what happens when two receipts of the same shipment overlap.
\<close>

subsection \<open>Goods\<close>

text \<open>The stock of an official product over all its rows, the units under way to a campus, and
  both together.\<close>

definition shelf :: "ident \<Rightarrow> db \<Rightarrow> int" where
  "shelf pid s = sum_where (\<lambda>p. p_sourceProductId p = Some pid) p_stock (products s)"

definition order_units :: "restock_order \<Rightarrow> ident \<Rightarrow> int" where
  "order_units o' pid = sum_list (map (\<lambda>i. if rx_productId i = pid then item_units i else 0) (ro_items o'))"

definition transit :: "ident \<Rightarrow> db \<Rightarrow> int" where
  "transit pid s = sum_where (\<lambda>x. ro_status x = Shipped) (\<lambda>x. order_units x pid) (restock_orders s)"

definition goods :: "ident \<Rightarrow> db \<Rightarrow> int" where
  "goods pid s = shelf pid s + transit pid s"

lemma for_each_sum:
  fixes m :: "'s \<Rightarrow> int"
  assumes "for_each f xs s = (s', Inr ())" and "I xs s"
    and "\<And>x xs s s'. f x s = (s', Inr ()) \<Longrightarrow> I (x # xs) s \<Longrightarrow> I xs s' \<and> m s' = m s + w x"
  shows "m s' = m s + sum_list (map w xs) \<and> I [] s'"
  using assms(1,2)
proof (induction xs arbitrary: s)
  case Nil
  then show ?case by (simp add: reply_ok)
next
  case (Cons x xs)
  from Cons.prems(1) obtain s1 where one: "f x s = (s1, Inr ())" and rest: "for_each f xs s1 = (s', Inr ())"
    by (auto simp: and_then_ok)
  have "I xs s1" "m s1 = m s + w x" using assms(3) [OF one Cons.prems(2)] by auto
  then show ?case using Cons.IH [OF rest] by simp
qed

lemma sum_where_update:
  assumes "distinct (map key rows)" and "q \<in> set rows" and "key q = k"
  shows "sum_where P g (update_where (\<lambda>r. key r = k) f rows) =
    sum_where P g rows - (if P q then g q else 0) + (if P (f q) then g (f q) else (0::int))"
  using assms
proof (induction rows)
  case (Cons r rows)
  show ?case
  proof (cases "r = q")
    case True
    then have "key q \<notin> key ` set rows" using Cons.prems(1) by simp
    then have "\<forall>x \<in> set rows. key x \<noteq> k" using Cons.prems(3) by (metis image_eqI)
    then have "update_where (\<lambda>r. key r = k) f rows = rows" by (rule update_where_id)
    then show ?thesis using True Cons.prems by simp
  next
    case False
    then have "key r \<noteq> k" using Cons.prems by (metis distinct.simps(2) image_eqI list.set_map list.simps(9) set_ConsD)
    then show ?thesis using Cons False by simp
  qed
qed simp

subsection \<open>The loops over the lines\<close>

definition known_rows :: "(ident \<Rightarrow> product option) \<Rightarrow> db \<Rightarrow> bool" where
  "known_rows known s \<longleftrightarrow>
     (\<forall>k p. known k = Some p \<longrightarrow> (\<exists>q \<in> set (products s). p_id q = p_id p \<and> p_sourceProductId q = Some k))"

text \<open>What holds before each line: the keys are unique, the identities left for new rows are
  fresh, and the rows that were read before are still there.\<close>

definition line_inv ::
  "(ident \<Rightarrow> product option) \<Rightarrow> restock_order list \<Rightarrow> (ident \<times> 'x) list \<Rightarrow> db \<Rightarrow> bool" where
  "line_inv known orders' xs s \<longleftrightarrow> distinct (map p_id (products s)) \<and> known_rows known s \<and>
     distinct (map fst xs) \<and> fst ` set xs \<inter> p_id ` set (products s) = {} \<and> restock_orders s = orders'"

definition source_view :: "product \<Rightarrow> ident \<times> ident option" where
  "source_view p = (p_id p, p_sourceProductId p)"

lemma known_rows_view:
  assumes "known_rows known s" and "set (map source_view (products s)) \<subseteq> set (map source_view (products s'))"
  shows "known_rows known s'"
  unfolding known_rows_def
proof (intro allI impI)
  fix k p assume "known k = Some p"
  then obtain q where "q \<in> set (products s)" "source_view q = (p_id p, Some k)"
    using assms(1) by (fastforce simp: known_rows_def source_view_def)
  then have "(p_id p, Some k) \<in> set (map source_view (products s'))" using assms(2) by (metis image_eqI list.set_map subsetD)
  then show "\<exists>q \<in> set (products s'). p_id q = p_id p \<and> p_sourceProductId q = Some k"
    by (auto simp: source_view_def)
qed

lemma ids_of_view: "map p_id ps = map fst (map source_view ps)"
  by (simp add: source_view_def)

lemma line_inv_drop:
  assumes "line_inv known R (x # xs) s" and "map source_view (products s') = map source_view (products s)"
    and "restock_orders s' = restock_orders s"
  shows "line_inv known R xs s'"
proof -
  have ids: "map p_id (products s') = map p_id (products s)" by (simp only: ids_of_view assms(2))
  then have "p_id ` set (products s') = p_id ` set (products s)" by (metis list.set_map)
  moreover have "known_rows known s'" using assms(1,2) by (auto simp: line_inv_def intro: known_rows_view)
  ultimately show ?thesis using assms ids by (auto simp: line_inv_def)
qed

lemma line_inv_append:
  assumes "line_inv known R ((k, y) # xs) s" and "p_id q = k"
    and "map source_view (products s') = map source_view (products s @ [q])" and "restock_orders s' = restock_orders s"
  shows "line_inv known R xs s'"
proof -
  have ids: "map p_id (products s') = map p_id (products s) @ [k]" by (simp only: ids_of_view assms(3)) (simp add: assms(2) source_view_def)
  then have set: "p_id ` set (products s') = insert k (p_id ` set (products s))" by (metis list.set_map set_append sup_commute insert_is_Un list.set(1) list.set(2))
  have "known_rows known s'" using assms(1,3) by (auto simp: line_inv_def intro: known_rows_view)
  then show ?thesis using assms(1,4) ids set by (auto simp: line_inv_def)
qed

lemma view_add_stock [simp]: "source_view (add_stock n p) = source_view p"
  by (simp add: add_stock_def source_view_def)

lemma view_move_stock [simp]: "map source_view (products (move_stock k n s)) = map source_view (products s)"
  by (simp add: move_stock_def) (induction "products s" arbitrary: s; simp add: update_where_def)

lemma shelf_move:
  assumes "distinct (map p_id (products s))" and "q \<in> set (products s)" and "p_id q = k"
  shows "shelf pid (move_stock k n s) = shelf pid s + (if p_sourceProductId q = Some pid then n else 0)"
  unfolding shelf_def move_stock_def
  using sum_where_update [OF assms, where f = "add_stock n" and P = "\<lambda>p. p_sourceProductId p = Some pid"
      and g = p_stock]
  by (simp add: add_stock_def)

lemma shelf_append:
  "products s' = products s @ [q] \<Longrightarrow>
    shelf pid s' = shelf pid s + (if p_sourceProductId q = Some pid then p_stock q else 0)"
  by (simp add: shelf_def)

lemma shelf_cong: "products s' = products s \<Longrightarrow> shelf pid s' = shelf pid s"
  by (simp add: shelf_def)

lemma copy_official_simps [simp]:
  "p_id (copy_official k c n p) = k" "p_sourceProductId (copy_official k c n p) = Some (p_id p)"
  "p_stock (copy_official k c n p) = n" "p_procurementMode (copy_official k c n p) = Some ''HQ''"
  by (simp_all add: copy_official_def)

lemma arrived_simps [simp]:
  "p_id (arrived s k c n p) = k" "p_sourceProductId (arrived s k c n p) = Some (p_id p)"
  "p_stock (arrived s k c n p) = n" "p_procurementMode (arrived s k c n p) = Some ''HQ''"
  by (simp_all add: arrived_def)

lemma txn_frame [simp]:
  "products (add_txn k t n u s) = products s" "restock_orders (add_txn k t n u s) = restock_orders s"
  "purchase_orders (add_txn k t n u s) = purchase_orders s"
  "products (txn_if b k t n u s) = products s" "restock_orders (txn_if b k t n u s) = restock_orders s"
  by (simp_all add: add_txn_def txn_if_def)

lemma move_frame [simp]:
  "restock_orders (move_stock k n s) = restock_orders s" "purchase_orders (move_stock k n s) = purchase_orders s"
  by (simp_all add: move_stock_def)

lemma book_frame [simp]:
  "products (book_line k i a b s) = products s" "restock_orders (book_line k i a b s) = restock_orders s"
  by (simp_all add: book_line_def)

lemma hq_row_ok:
  assumes "line_inv known R ((k, y) # xs) s" and "hq_row k (known src) src s = (s1, Inr k1)"
  shows "line_inv known R xs s1 \<and> shelf pid s1 = shelf pid s \<and> distinct (map p_id (products s1)) \<and>
    (\<exists>q \<in> set (products s1). p_id q = k1 \<and> p_sourceProductId q = Some src)"
proof (cases "known src")
  case (Some p)
  then have "s1 = s" "k1 = p_id p" using assms(2) by (simp_all add: hq_row_def reply_ok)
  moreover have "\<exists>q \<in> set (products s). p_id q = p_id p \<and> p_sourceProductId q = Some src"
    using assms(1) Some by (simp add: line_inv_def known_rows_def)
  moreover have "distinct (map p_id (products s))" using assms(1) by (simp add: line_inv_def)
  ultimately show ?thesis using line_inv_drop [OF assms(1) refl refl] by simp
next
  case None
  then have e: "(case find_row p_id src (products s) of
      None \<Rightarrow> reject (BadRequest (''no such product: '' @ src)) s
    | Some official \<Rightarrow>
        (s\<lparr>products := products s @ [copy_official k HQ_CAMPUS_ID 0 official]\<rparr>, Inr k)) = (s1, Inr k1)"
    using assms(2) unfolding hq_row_def by simp
  then obtain official where o': "find_row p_id src (products s) = Some official"
    by (cases "find_row p_id src (products s)") (simp_all add: reject_def)
  have s1: "s1 = s\<lparr>products := products s @ [copy_official k HQ_CAMPUS_ID 0 official]\<rparr>" and k1: "k1 = k"
    using e by (auto simp: o')
  have inv: "line_inv known R xs s1"
    by (rule line_inv_append [OF assms(1), of "copy_official k HQ_CAMPUS_ID 0 official"]) (simp_all add: s1)
  have "p_id official = src" using find_row_SomeD [OF o'] by simp
  then have "\<exists>q \<in> set (products s1). p_id q = k1 \<and> p_sourceProductId q = Some src"
    by (intro bexI [of _ "copy_official k HQ_CAMPUS_ID 0 official"]) (simp_all add: s1 k1)
  moreover have "distinct (map p_id (products s1))" using assms(1) by (simp add: s1 line_inv_def)
  moreover have "shelf pid s1 = shelf pid s"
    using shelf_append [of s1 s "copy_official k HQ_CAMPUS_ID 0 official" pid] by (simp add: s1)
  ultimately show ?thesis using inv by simp
qed

lemma ship_one_ok:
  assumes "ship_one known u x s = (s', Inr ())" and "line_inv known R (x # xs) s"
  shows "line_inv known R xs s' \<and>
    shelf pid s' = shelf pid s + (if rx_productId (snd x) = pid then - item_units (snd x) else 0)"
proof -
  obtain k i where x: "x = (k, i)" by force
  obtain s1 k1 where h: "hq_row k (known (rx_productId i)) (rx_productId i) s = (s1, Inr k1)"
    and s': "s' = add_txn k1 ''restock-out'' (- item_units i) u (move_stock k1 (- item_units i) s1)"
    using assms(1) by (auto simp: ship_one_def x ok_simps)
  have h1: "line_inv known R xs s1" "shelf pid s1 = shelf pid s" "distinct (map p_id (products s1))"
    "\<exists>q \<in> set (products s1). p_id q = k1 \<and> p_sourceProductId q = Some (rx_productId i)"
    using hq_row_ok [OF assms(2) [unfolded x] h, of pid] by auto
  then obtain q where q: "q \<in> set (products s1)" "p_id q = k1" "p_sourceProductId q = Some (rx_productId i)" by blast
  have "shelf pid s' = shelf pid s1 + (if rx_productId i = pid then - item_units i else 0)"
    using shelf_move [OF h1(3) q(1,2), of pid "- item_units i"] q(3) shelf_cong [of s' "move_stock k1 (- item_units i) s1"]
    by (simp add: s')
  moreover have "line_inv known R xs s'"
  proof -
    have v: "map source_view (products s') = map source_view (products s1)" by (simp add: s')
    have ids: "map p_id (products s') = map p_id (products s1)" by (simp only: ids_of_view v)
    then have "p_id ` set (products s') = p_id ` set (products s1)" by (metis list.set_map)
    then show ?thesis
      using h1(1) ids v known_rows_view [of known s1 s'] by (simp add: line_inv_def s')
  qed
  ultimately show ?thesis using h1(2) x by simp
qed

lemma with_ids_simps:
  "map fst (with_ids ids xs) = map ids [0..<length xs]" "map snd (with_ids ids xs) = xs"
proof -
  have "map fst (with_ids ids xs) = map ids (map fst (enumerate 0 xs))"
    by (simp only: with_ids_def map_map comp_def split_def fst_conv)
  then show "map fst (with_ids ids xs) = map ids [0..<length xs]"
    by (simp only: map_fst_enumerate) simp
  have "map snd (with_ids ids xs) = map snd (enumerate 0 xs)"
    by (simp only: with_ids_def map_map comp_def split_def snd_conv)
  then show "map snd (with_ids ids xs) = xs" by simp
qed

lemma sum_snd: "sum_list (map (\<lambda>x. g (snd x)) ys) = sum_list (map g (map snd ys))"
  by (simp add: comp_def)

text \<open>Identities that are fresh for the state.\<close>

definition fresh_ids :: "(nat \<Rightarrow> ident) \<Rightarrow> db \<Rightarrow> bool" where
  "fresh_ids ids s \<longleftrightarrow> inj ids \<and> range ids \<inter> p_id ` set (products s) = {}"

lemma line_inv_start:
  assumes "distinct (map p_id (products s))" and "fresh_ids ids s" and "known_rows known s"
  shows "line_inv known (restock_orders s) (with_ids ids xs) s"
proof -
  have "fst ` set (with_ids ids xs) = set (map ids [0..<length xs])"
    by (metis list.set_map with_ids_simps(1))
  also have "\<dots> \<subseteq> range ids" by auto
  finally have "fst ` set (with_ids ids xs) \<inter> p_id ` set (products s) = {}"
    using assms(2) unfolding fresh_ids_def by blast
  moreover have "distinct (map ids [0..<length xs])"
    using assms(2) by (simp add: fresh_ids_def distinct_map inj_on_def)
  ultimately show ?thesis
    using assms(1,3) unfolding line_inv_def with_ids_simps(1) by simp
qed

lemma known_by_source: "known_rows (row_by_source s c) s"
  by (auto simp: known_rows_def row_by_source_def find_Some_iff) (metis length_rev nth_mem set_rev)

subsection \<open>Shipment and receipt\<close>

lemma sum_with_ids: "sum_list (map (\<lambda>x. g (snd x)) (with_ids ids xs)) = sum_list (map g xs)"
  unfolding sum_snd with_ids_simps(2) ..

lemma sum_list_uminus: "sum_list (map (\<lambda>i. - g i) xs) = - sum_list (map g xs)" for g :: "'x \<Rightarrow> int"
  by (induction xs) simp_all

lemma insert_shipment_ok:
  "insert_shipment sh s = (s', Inr r) \<Longrightarrow> products s' = products s \<and> restock_orders s' = restock_orders s"
  by (simp add: insert_shipment_def ok_simps)

text \<open>What a change of status does to the goods that are under way.\<close>

lemma transit_set:
  assumes "distinct (map ro_id (restock_orders s))" and "o' \<in> set (restock_orders s)"
  shows "transit pid (set_restock_order (ro_id o') (\<lambda>x. x\<lparr>ro_status := st\<rparr>) s) =
    transit pid s - (if ro_status o' = Shipped then order_units o' pid else 0)
      + (if st = Shipped then order_units o' pid else 0)"
  using sum_where_update [OF assms refl, where P = "\<lambda>x. ro_status x = Shipped" and g = "\<lambda>x. order_units x pid"
      and f = "\<lambda>x. x\<lparr>ro_status := st\<rparr>"]
  by (simp add: transit_def set_restock_order_def order_units_def)

lemma shelf_set_restock_order [simp]: "shelf pid (set_restock_order k f s) = shelf pid s"
  by (simp add: shelf_def set_restock_order_def)

lemma transit_cong: "restock_orders s' = restock_orders s \<Longrightarrow> transit pid s' = transit pid s"
  by (simp add: transit_def)

lemma ship_commit_goods:
  assumes "ship_commit ids known sh o' operator s = (s', Inr ())" and "o' \<in> set (restock_orders s)"
    and "distinct (map p_id (products s))" and "distinct (map ro_id (restock_orders s))" and "fresh_ids ids s"
    and "known_rows known s" and "ro_status o' \<noteq> Shipped"
  shows "goods pid s' = goods pid s"
proof -
  obtain s1 s2 where i: "insert_shipment sh s = (s1, Inr ())"
    and l: "for_each (ship_one known operator) (with_ids ids (ro_items o')) s1 = (s2, Inr ())"
    and s': "s' = set_restock_order (ro_id o') (\<lambda>x. x\<lparr>ro_status := Shipped\<rparr>) s2"
    using assms(1) by (auto simp: ship_commit_def transaction_ok and_then_ok modify_ok)
  have e: "products s1 = products s" "restock_orders s1 = restock_orders s" using insert_shipment_ok [OF i] by auto
  then have inv: "line_inv known (restock_orders s) (with_ids ids (ro_items o')) s1"
    using line_inv_start [OF assms(3,5,6), of "ro_items o'"] by (simp add: line_inv_def known_rows_def)
  have f: "shelf pid s2 = shelf pid s1 + sum_list (map (\<lambda>x. if rx_productId (snd x) = pid then - item_units (snd x) else 0)
      (with_ids ids (ro_items o'))) \<and> line_inv known (restock_orders s) ([] :: (ident \<times> restock_item) list) s2"
    by (rule for_each_sum [where I = "line_inv known (restock_orders s)" and m = "shelf pid"
          and w = "\<lambda>x. if rx_productId (snd x) = pid then - item_units (snd x) else 0", OF l inv]) (rule ship_one_ok)
  have "sum_list (map (\<lambda>x. if rx_productId (snd x) = pid then - item_units (snd x) else 0) (with_ids ids (ro_items o')))
      = - order_units o' pid"
    unfolding order_units_def sum_list_uminus [symmetric]
    by (subst sum_with_ids [symmetric, where ids = ids]) (rule arg_cong [where f = sum_list], simp)
  moreover have r: "restock_orders s2 = restock_orders s" using f by (simp add: line_inv_def)
  then have "transit pid s' = transit pid s + order_units o' pid"
    using transit_set [of s2 o' pid Shipped] assms(2,4,7) transit_cong [OF r] by (simp add: s')
  ultimately show ?thesis using f shelf_cong [OF e(1), of pid] by (simp add: goods_def s')
qed

lemma arrive_known:
  assumes "line_inv known R (x # xs) s" and "known (rx_productId (snd x)) = Some row"
    and "s' = add_txn (p_id row) kind u operator (s\<lparr>products := update_where
        (\<lambda>p. p_id p = p_id row \<and> p_procurementMode p \<in> {None, Some ''HQ''}) (accept_hq u) (products s)\<rparr>)"
    and "count_where (\<lambda>p. p_id p = p_id row \<and> p_procurementMode p \<in> {None, Some ''HQ''}) (products s) = 1"
  shows "line_inv known R xs s' \<and> shelf pid s' = shelf pid s + (if rx_productId (snd x) = pid then u else 0)"
proof -
  obtain q where q: "q \<in> set (products s)" "p_id q = p_id row" "p_sourceProductId q = Some (rx_productId (snd x))"
    using assms(1,2) unfolding line_inv_def known_rows_def by blast
  have d: "distinct (map p_id (products s))" using assms(1) by (simp add: line_inv_def)
  obtain q' where "q' \<in> set (products s)" "p_id q' = p_id row" "p_procurementMode q' \<in> {None, Some ''HQ''}"
    using count_where_gt0 [of "\<lambda>p. p_id p = p_id row \<and> p_procurementMode p \<in> {None, Some ''HQ''}" "products s"]
    unfolding assms(4) by fastforce
  then have m: "p_procurementMode q \<in> {None, Some ''HQ''}" using unique_key [OF d _ q(1)] q(2) by metis
  have u: "update_where (\<lambda>p. p_id p = p_id row \<and> p_procurementMode p \<in> {None, Some ''HQ''}) (accept_hq u) (products s)
      = update_where (\<lambda>p. p_id p = p_id row) (accept_hq u) (products s)"
    unfolding update_where_def
  proof (rule map_cong [OF refl])
    fix p assume "p \<in> set (products s)"
    then have "p_id p = p_id row \<Longrightarrow> p = q" using unique_key [OF d _ q(1)] q(2) by metis
    then show "(if p_id p = p_id row \<and> p_procurementMode p \<in> {None, Some ''HQ''} then accept_hq u p else p) =
        (if p_id p = p_id row then accept_hq u p else p)" using m by auto
  qed
  have p: "products s' = update_where (\<lambda>p. p_id p = p_id row) (accept_hq u) (products s)"
    by (subst u [symmetric]) (simp add: assms(3))
  have "shelf pid s' = shelf pid s + (if rx_productId (snd x) = pid then u else 0)"
    unfolding shelf_def p sum_where_update [OF d q(1,2)] using q(3) by (simp add: accept_hq_def)
  moreover have "map source_view (products s') = map source_view (products s)"
    by (simp add: p update_where_def source_view_def accept_hq_def)
  then have "line_inv known R xs s'" by (rule line_inv_drop [OF assms(1)]) (simp add: assms(3))
  ultimately show ?thesis by simp
qed

lemma arrive_one_ok:
  assumes "arrive_one officials known campusId operator x s = (s', Inr ())" and "line_inv known R (x # xs) s"
    and "\<And>k p. officials k = Some p \<Longrightarrow> p_id p = k"
  shows "line_inv known R xs s' \<and>
    shelf pid s' = shelf pid s + (if rx_productId (snd x) = pid then item_units (snd x) else 0)"
proof -
  obtain k i where x: "x = (k, i)" by force
  obtain official where o': "officials (rx_productId i) = Some official"
    using assms(1) by (cases "officials (rx_productId i)") (simp_all add: arrive_one_def x reject_def)
  show ?thesis
  proof (cases "known (rx_productId i)")
    case (Some row)
    have "and_then (update_one (\<lambda>p. p_id p = p_id row \<and> p_procurementMode p \<in> {None, Some ''HQ''})
           (accept_hq (item_units i)) (BadRequest (p_name official @ '': the procurement has changed'')))
         (\<lambda>_. modify (add_txn (p_id row) ''restock-in'' (item_units i) operator)) s = (s', Inr ())"
      using assms(1) by (simp add: arrive_one_def x o' Some unless_ok)
    then have "count_where (\<lambda>p. p_id p = p_id row \<and> p_procurementMode p \<in> {None, Some ''HQ''}) (products s) = 1"
      and "s' = add_txn (p_id row) ''restock-in'' (item_units i) operator (s\<lparr>products := update_where
        (\<lambda>p. p_id p = p_id row \<and> p_procurementMode p \<in> {None, Some ''HQ''}) (accept_hq (item_units i)) (products s)\<rparr>)"
      by (auto simp: and_then_ok modify_ok update_one_def split: if_splits)
    then show ?thesis using arrive_known [OF assms(2), of row s' "''restock-in''" "item_units i" operator pid] Some
      by (simp add: x)
  next
    case None
    define q where "q = arrived s k campusId (item_units i) official"
    have s': "s' = add_txn k ''restock-in'' (item_units i) operator (s\<lparr>products := products s @ [q]\<rparr>)"
      using assms(1) by (simp add: arrive_one_def x o' None q_def and_then_ok modify_ok)
    have "line_inv known R xs s'"
      by (rule line_inv_append [OF assms(2) [unfolded x], of q]) (simp_all add: s' q_def)
    moreover have "shelf pid s' = shelf pid s + (if rx_productId i = pid then item_units i else 0)"
      using shelf_append [of s' s q pid] assms(3) [OF o'] by (simp add: s' q_def)
    ultimately show ?thesis by (simp add: x)
  qed
qed

lemma receipt_commit_goods:
  assumes "receipt_commit_restock now ids officials known sh o' operator s = (s', Inr ())"
    and "distinct (map p_id (products s))" and "fresh_ids ids s"
    and "known_rows known s" and "\<And>k p. officials k = Some p \<Longrightarrow> p_id p = k"
  shows "shelf pid s' = shelf pid s + order_units o' pid"
    and "distinct (map p_id (products s'))" and "known_rows known s'"
    and "restock_orders s' = update_where (\<lambda>x. ro_id x = ro_id o') (\<lambda>x. x\<lparr>ro_status := Received\<rparr>) (restock_orders s)"
proof -
  define w where "w = (\<lambda>i. if rx_productId i = pid then item_units i else 0)"
  obtain s1 where l: "for_each (arrive_one officials known (ro_campusId o') operator) (with_ids ids (ro_items o')) s = (s1, Inr ())"
    and s': "s' = set_restock_order (ro_id o') (\<lambda>x. x\<lparr>ro_status := Received\<rparr>) (s1\<lparr>shipments :=
      update_where (\<lambda>x. sh_id x = sh_id sh) (\<lambda>x. x\<lparr>sh_receivedBy := Some operator, sh_receivedAt := Some now\<rparr>) (shipments s1)\<rparr>)"
    using assms(1) by (auto simp: receipt_commit_restock_def transaction_ok and_then_ok modify_ok)
  have step: "\<And>x xs t t'. arrive_one officials known (ro_campusId o') operator x t = (t', Inr ()) \<Longrightarrow>
      line_inv known (restock_orders s) (x # xs) t \<Longrightarrow>
      line_inv known (restock_orders s) xs t' \<and> shelf pid t' = shelf pid t + w (snd x)"
    unfolding w_def by (rule arrive_one_ok) (use assms(5) in auto)
  have f: "shelf pid s1 = shelf pid s + sum_list (map (\<lambda>x. w (snd x)) (with_ids ids (ro_items o'))) \<and>
      line_inv known (restock_orders s) ([] :: (ident \<times> restock_item) list) s1"
    by (rule for_each_sum [where I = "line_inv known (restock_orders s)" and m = "shelf pid"
          and w = "\<lambda>x. w (snd x)", OF l line_inv_start [OF assms(2,3,4)]]) (rule step)
  have u: "sum_list (map (\<lambda>x. w (snd x)) (with_ids ids (ro_items o'))) = order_units o' pid"
    unfolding sum_with_ids by (simp add: order_units_def w_def)
  have p: "products s' = products s1" by (simp add: s' set_restock_order_def)
  show "shelf pid s' = shelf pid s + order_units o' pid" using f u shelf_cong [OF p, of pid] by simp
  show "distinct (map p_id (products s'))" "known_rows known s'"
    using f by (simp_all add: p line_inv_def known_rows_def)
  show "restock_orders s' = update_where (\<lambda>x. ro_id x = ro_id o') (\<lambda>x. x\<lparr>ro_status := Received\<rparr>) (restock_orders s)"
    using f by (simp add: s' set_restock_order_def line_inv_def)
qed

text \<open>C7. Goods under way. Sending an order of a campus and confirming its receipt never make or lose
  goods: for every product of the official catalogue, the stock over all warehouse rows together
  with what is under way is the same before and after.\<close>

theorem goods_conserved:
  assumes "distinct (map p_id (products s))" and "distinct (map ro_id (restock_orders s))" and "fresh_ids ids s"
    and "shipRestockOrder ids shipmentId orderId operator s = (s', Inr ()) \<or>
      confirmRestockReceipt now ids orderId operator campusId s = (s', Inr ())"
  shows "goods pid s' = goods pid s"
  using assms(4)
proof
  assume "shipRestockOrder ids shipmentId orderId operator s = (s', Inr ())"
  then obtain o' sh s1 where o': "find_row ro_id orderId (restock_orders s) = Some o'" "ro_status o' = OrderConfirmed"
    and c: "ship_commit ids (row_by_source s HQ_CAMPUS_ID) sh o' operator s = (s1, Inr ())"
    and s': "audit operator ''restock.ship'' orderId s1 = (s', Inr ())"
    by (auto simp: shipRestockOrder_def Let_def reject_ok unless_ok and_then_ok split: option.split_asm)
  have "goods pid s1 = goods pid s"
    using ship_commit_goods [OF c _ assms(1,2,3) known_by_source] find_row_SomeD [OF o'(1)] o'(2) by simp
  then show ?thesis using s' by (auto simp: audit_def modify_ok goods_def shelf_def transit_def)
next
  assume "confirmRestockReceipt now ids orderId operator campusId s = (s', Inr ())"
  then obtain o' sh s1 where o': "find_row ro_id orderId (restock_orders s) = Some o'" "ro_status o' = Shipped"
    and c: "receipt_commit_restock now ids (\<lambda>k. find_row p_id k (products s))
      (row_by_source s (ro_campusId o')) sh o' operator s = (s1, Inr ())"
    and s': "audit operator ''restock.receipt'' (sh_id sh) s1 = (s', Inr ())"
    by (auto simp: confirmRestockReceipt_def reject_ok unless_ok and_then_ok split: option.split_asm)
  have "\<And>k p. find_row p_id k (products s) = Some p \<Longrightarrow> p_id p = k" using find_row_SomeD by metis
  note g = receipt_commit_goods [OF c assms(1,3) known_by_source this]
  have m: "o' \<in> set (restock_orders s)" using find_row_SomeD [OF o'(1)] by simp
  have "transit pid s1 = transit pid (set_restock_order (ro_id o') (\<lambda>x. x\<lparr>ro_status := Received\<rparr>) s)"
    by (rule transit_cong) (simp add: g(4) set_restock_order_def)
  then have "goods pid s1 = goods pid s"
    using g(1) [of pid] transit_set [OF assms(2) m, of pid Received] o'(2) by (simp add: goods_def)
  then show ?thesis using s' by (auto simp: audit_def modify_ok goods_def shelf_def transit_def)
qed

text \<open>The sample with an official product and an order of it that has been confirmed.\<close>

definition official1 :: product where
  "official1 = product1\<lparr>p_id := ''of1'', p_campusId := OFFICIAL_CAMPUS_ID, p_procurementMode := None\<rparr>"

definition hq1 :: product where
  "hq1 = copy_official ''hq1'' HQ_CAMPUS_ID 240 official1"

definition restock1 :: restock_order where
  "restock1 = \<lparr>ro_id = ''ro1'', ro_batchId = ''rb1'', ro_campusId = ''ca1'', ro_status = OrderConfirmed,
     ro_submitBy = ''buyer'', ro_auditBy = Some ''chief'', ro_auditNote = [],
     ro_items = [\<lparr>rx_productId = ''of1'', rx_cases = 2, rx_unitsPerCase = 24\<rparr>]\<rparr>"

definition batch1 :: restock_batch where
  "batch1 = \<lparr>rb_id = ''rb1'', rb_name = ''March'', rb_startAt = 0, rb_endAt = 1000, rb_closedAt = None,
     rb_createdBy = ''chief''\<rparr>"

definition supply_db :: db where
  "supply_db = db0\<lparr>products := [official1, hq1], restock_batches := [batch1], restock_orders := [restock1]\<rparr>"

definition shipped_db :: db where
  "shipped_db = fst (shipRestockOrder sample_ids ''sh1'' ''ro1'' ''boss'' supply_db)"

lemmas supply_samples = supply_db_def official1_def hq1_def restock1_def batch1_def

text \<open>Identities that start with a prefix no product has are fresh.\<close>

lemma sample_fresh:
  assumes "list_all (\<lambda>k. take (Suc (length pre)) k \<noteq> pre @ ''n'') (map p_id (products s))"
  shows "fresh_ids (\<lambda>i. pre @ sample_ids i) s"
proof -
  have "length (pre @ sample_ids i) = length pre + Suc i" for i by (simp add: sample_ids_def)
  then have "inj (\<lambda>i. pre @ sample_ids i)" by (intro injI) (metis add_left_cancel nat.inject)
  moreover have t: "take (Suc (length pre)) (pre @ sample_ids i) = pre @ ''n''" for i by (simp add: sample_ids_def)
  have "pre @ sample_ids i \<notin> set (map p_id (products s))" for i
    using assms t [of i] unfolding list_all_iff by blast
  then have "range (\<lambda>i. pre @ sample_ids i) \<inter> p_id ` set (products s) = {}" by auto
  ultimately show ?thesis by (simp add: fresh_ids_def)
qed

lemma supply_fresh: "fresh_ids sample_ids supply_db"
proof -
  have "map p_id (products supply_db) = [''of1'', ''hq1'']" by code_simp
  then show ?thesis using sample_fresh [of "[]" supply_db] by simp
qed

lemma supply_run:
  "snd (shipRestockOrder sample_ids ''sh1'' ''ro1'' ''boss'' supply_db) = Inr ()"
  "shelf ''of1'' supply_db = 240" "shelf ''of1'' shipped_db = 192" "transit ''of1'' shipped_db = 48"
  "distinct (map p_id (products supply_db))" "distinct (map ro_id (restock_orders supply_db))"
  by code_simp+

theorem goods_conserved_witness:
  "goods ''of1'' (fst (shipRestockOrder sample_ids ''sh1'' ''ro1'' ''boss'' supply_db)) = goods ''of1'' supply_db"
  by (rule goods_conserved [OF supply_run(5,6) supply_fresh disjI1])
    (rule prod_eqI, simp, simp only: supply_run(1) snd_conv)

text \<open>Overlapping receipts. The status of an order is read before the transaction of its receipt and
  not looked at again inside it. When two confirmations of the same shipment read before either
  commits, both succeed, the goods of the order are booked into the campus twice, and the warehouse
  holds more than was ever sent.\<close>

theorem receipt_counted_twice:
  assumes "distinct (map p_id (products s))" and "distinct (map ro_id (restock_orders s))"
    and "find_row ro_id orderId (restock_orders s) = Some o'" and "ro_status o' = Shipped"
    and "fresh_ids ids1 s" and "fresh_ids ids2 s1"
    and "receipt_commit_restock now1 ids1 (\<lambda>k. find_row p_id k (products s)) (row_by_source s (ro_campusId o')) sh o' u1 s
      = (s1, Inr ())"
    and "receipt_commit_restock now2 ids2 (\<lambda>k. find_row p_id k (products s)) (row_by_source s (ro_campusId o')) sh o' u2 s1
      = (s2, Inr ())"
  shows "shelf pid s2 = shelf pid s + 2 * order_units o' pid \<and> goods pid s2 = goods pid s + order_units o' pid"
proof -
  have off: "\<And>k p. find_row p_id k (products s) = Some p \<Longrightarrow> p_id p = k" using find_row_SomeD by metis
  note g1 = receipt_commit_goods [OF assms(7,1,5) known_by_source off]
  note g2 = receipt_commit_goods [OF assms(8) g1(2) assms(6) g1(3) off]
  have m: "o' \<in> set (restock_orders s)" using find_row_SomeD [OF assms(3)] by simp
  have "restock_orders s2 = restock_orders (set_restock_order (ro_id o') (\<lambda>x. x\<lparr>ro_status := Received\<rparr>) s)"
    by (simp add: g2(4) g1(4) set_restock_order_def update_where_def)
  then have "transit pid s2 = transit pid s - order_units o' pid"
    using transit_set [OF assms(2) m, of pid Received] assms(4) transit_cong [of s2 _ pid] by simp
  then show ?thesis using g1(1) [of pid] g2(1) [of pid] by (simp add: goods_def)
qed

definition receipt_sample :: "string \<Rightarrow> (db, unit) handler" where
  "receipt_sample operator = receipt_commit_restock 5 (\<lambda>i. operator @ sample_ids i)
     (\<lambda>k. find_row p_id k (products shipped_db)) (row_by_source shipped_db (ro_campusId (hd (restock_orders shipped_db))))
     (hd (shipments shipped_db)) (hd (restock_orders shipped_db)) operator"

lemma shipped_run:
  "find_row ro_id ''ro1'' (restock_orders shipped_db) = Some (hd (restock_orders shipped_db))"
  "ro_status (hd (restock_orders shipped_db)) = Shipped" "ro_campusId (hd (restock_orders shipped_db)) = ''ca1''"
  "distinct (map p_id (products shipped_db))" "distinct (map ro_id (restock_orders shipped_db))"
  "snd (receipt_sample ''a'' shipped_db) = Inr ()"
  "snd (receipt_sample ''b'' (fst (receipt_sample ''a'' shipped_db))) = Inr ()"
  "map p_id (products shipped_db) = [''of1'', ''hq1'']"
  "map p_id (products (fst (receipt_sample ''a'' shipped_db))) = [''of1'', ''hq1'', ''an'']"
  "order_units (hd (restock_orders shipped_db)) ''of1'' = 48"
  by code_simp+

theorem receipt_counted_twice_witness:
  "shelf ''of1'' (fst (receipt_sample ''b'' (fst (receipt_sample ''a'' shipped_db)))) = shelf ''of1'' shipped_db + 96"
proof -
  obtain s1 where r1: "receipt_sample ''a'' shipped_db = (s1, Inr ())" using shipped_run(6) by (metis prod.collapse)
  then obtain s2 where r2: "receipt_sample ''b'' s1 = (s2, Inr ())" using shipped_run(7) by (metis prod.collapse fst_conv)
  have f: "fresh_ids (\<lambda>i. ''a'' @ sample_ids i) shipped_db" "fresh_ids (\<lambda>i. ''b'' @ sample_ids i) s1"
    by (rule sample_fresh, use shipped_run(8,9) r1 in simp)+
  have "shelf ''of1'' s2 = shelf ''of1'' shipped_db + 2 * order_units (hd (restock_orders shipped_db)) ''of1''"
    using receipt_counted_twice [OF shipped_run(4,5,1,2) f r1 [unfolded receipt_sample_def] r2 [unfolded receipt_sample_def]] by blast
  then show ?thesis by (simp add: r1 r2 shipped_run(10))
qed

subsection \<open>Purchases\<close>

lemma move_line_inv:
  assumes "line_inv known R xs s1" and "products s2 = products (move_stock k n s1)" and "restock_orders s2 = restock_orders s1"
  shows "line_inv known R xs s2"
proof -
  have v: "map source_view (products s2) = map source_view (products s1)" by (simp add: assms(2))
  have ids: "map p_id (products s2) = map p_id (products s1)" by (simp only: ids_of_view v)
  then have "p_id ` set (products s2) = p_id ` set (products s1)" by (metis list.set_map)
  then show ?thesis
    using assms(1,3) ids v known_rows_view [of known s1 s2] by (simp add: line_inv_def)
qed

lemma receive_one_ok:
  assumes "receive_one known poId operator x s = (s', Inr ())" and "line_inv known R (x # xs) s"
    and "snd x = (i, r, b)"
  shows "line_inv known R xs s' \<and>
    shelf pid s' = shelf pid s + (if pl_productId i = pid then (r - b) * pl_unitsPerCase i else 0)"
proof -
  obtain k where x: "x = (k, i, r, b)" using assms(3) by (cases x) simp
  obtain s1 k1 where h: "hq_row k (known (pl_productId i)) (pl_productId i) s = (s1, Inr k1)"
    and s': "products s' = products (move_stock k1 (r * pl_unitsPerCase i - b * pl_unitsPerCase i) s1)"
      "restock_orders s' = restock_orders s1"
    using assms(1) by (auto simp: receive_one_def x Let_def and_then_ok modify_ok)
  have h1: "line_inv known R xs s1" "shelf pid s1 = shelf pid s" "distinct (map p_id (products s1))"
    "\<exists>q \<in> set (products s1). p_id q = k1 \<and> p_sourceProductId q = Some (pl_productId i)"
    using hq_row_ok [OF assms(2) [unfolded x] h, of pid] by auto
  then obtain q where q: "q \<in> set (products s1)" "p_id q = k1" "p_sourceProductId q = Some (pl_productId i)" by blast
  show ?thesis
    using shelf_move [OF h1(3) q(1,2), of pid "r * pl_unitsPerCase i - b * pl_unitsPerCase i"] q(3) shelf_cong [OF s'(1), of pid]
      move_line_inv [OF h1(1) s'] h1(2)
    by (simp add: left_diff_distrib)
qed

definition accepted_units :: "(purchase_line \<times> int \<times> int) list \<Rightarrow> ident \<Rightarrow> int" where
  "accepted_units lines pid =
    sum_list (map (\<lambda>(i, r, b). if pl_productId i = pid then (r - b) * pl_unitsPerCase i else 0) lines)"

lemma receive_commit_goods:
  assumes "receive_commit ids known poId operator lines s = (s', Inr ())"
    and "distinct (map p_id (products s))" and "fresh_ids ids s" and "known_rows known s"
  shows "shelf pid s' = shelf pid s + accepted_units lines pid"
proof -
  define w where "w = (\<lambda>(i :: purchase_line, r, b). if pl_productId i = pid then (r - b) * pl_unitsPerCase i else 0)"
  have l: "for_each (receive_one known poId operator) (with_ids ids lines) s = (s', Inr ())"
    using assms(1) by (simp add: receive_commit_def transaction_ok)
  have step: "\<And>x xs t t'. receive_one known poId operator x t = (t', Inr ()) \<Longrightarrow>
      line_inv known (restock_orders s) (x # xs) t \<Longrightarrow>
      line_inv known (restock_orders s) xs t' \<and> shelf pid t' = shelf pid t + w (snd x)"
    unfolding w_def split_def by (rule receive_one_ok) simp_all
  have "shelf pid s' = shelf pid s + sum_list (map (\<lambda>x. w (snd x)) (with_ids ids lines)) \<and>
      line_inv known (restock_orders s) ([] :: (ident \<times> purchase_line \<times> int \<times> int) list) s'"
    by (rule for_each_sum [where I = "line_inv known (restock_orders s)" and m = "shelf pid"
          and w = "\<lambda>x. w (snd x)", OF l line_inv_start [OF assms(2,3,4)]]) (rule step)
  then show ?thesis unfolding sum_with_ids accepted_units_def w_def by simp
qed

lemma receive_lines_ok:
  "receive_lines pls seen ls = Inr xs \<Longrightarrow>
    (\<forall>(i, r, b) \<in> set xs. i \<in> set pls \<and> 0 < r \<and> b \<le> r \<and> pl_receivedCases i + r \<le> pl_requiredCases i \<and>
      pl_productId i \<notin> set seen \<and> (\<exists>l \<in> set ls. b = rl_badCases l)) \<and>
    distinct (map (\<lambda>x. pl_productId (fst x)) xs)"
proof (induction pls seen ls arbitrary: xs rule: receive_lines.induct)
  case (2 pls seen l ls)
  show ?case
  proof (cases "rl_productId l \<in> set seen")
    case True
    then show ?thesis using 2 by fastforce
  next
    case False
    then obtain i where i: "find (\<lambda>x. pl_productId x = rl_productId l) (rev pls) = Some i"
      using 2(3) by (auto split: option.splits)
    then have im: "i \<in> set pls" "pl_productId i = rl_productId l"
      by (auto simp: find_Some_iff) (metis length_rev nth_mem set_rev)
    obtain ys where ys: "receive_lines pls (rl_productId l # seen) ls = Inr ys"
      using 2(3) False i by (cases "receive_lines pls (rl_productId l # seen) ls") (auto split: if_splits simp: Let_def)
    have IH: "(\<forall>(i, r, b) \<in> set ys. i \<in> set pls \<and> 0 < r \<and> b \<le> r \<and> pl_receivedCases i + r \<le> pl_requiredCases i \<and>
        pl_productId i \<notin> set (rl_productId l # seen) \<and> (\<exists>l \<in> set ls. b = rl_badCases l)) \<and>
        distinct (map (\<lambda>x. pl_productId (fst x)) ys)"
      using 2 False i ys by (auto split: if_splits simp: Let_def)
    then show ?thesis
      using 2(3) False i im ys by (fastforce split: if_splits simp: Let_def)
  qed
qed simp

text \<open>The books of the purchases: no product twice in one purchase, never more bad than received nor
  more received than required, at most one open purchase per round, and no negative order.\<close>

definition line_ok :: "purchase_line \<Rightarrow> bool" where
  "line_ok l \<longleftrightarrow> 0 \<le> pl_badCases l \<and> pl_badCases l \<le> pl_receivedCases l \<and> pl_receivedCases l \<le> pl_requiredCases l"

definition purchase_ok :: "purchase_order \<Rightarrow> bool" where
  "purchase_ok po \<longleftrightarrow> distinct (map pl_productId (po_lines po)) \<and> (\<forall>l \<in> set (po_lines po). line_ok l)"

definition open_in :: "ident \<Rightarrow> purchase_order \<Rightarrow> bool" where
  "open_in b po \<longleftrightarrow> po_batchId po = b \<and> po_closedAt po = None"

definition purchases_ok :: "db \<Rightarrow> bool" where
  "purchases_ok s \<longleftrightarrow> distinct (map po_id (purchase_orders s)) \<and> (\<forall>po \<in> set (purchase_orders s). purchase_ok po) \<and>
     (\<forall>b. count_where (open_in b) (purchase_orders s) \<le> 1) \<and>
     (\<forall>x \<in> set (restock_orders s). \<forall>i \<in> set (ro_items x). 0 \<le> rx_cases i)"

lemma purchases_ok_frame [simp]:
  "purchases_ok (s\<lparr>products := a\<rparr>) = purchases_ok s" "purchases_ok (s\<lparr>shipments := b\<rparr>) = purchases_ok s"
  "purchases_ok (s\<lparr>audits := c\<rparr>) = purchases_ok s" "purchases_ok (s\<lparr>inventory_txns := d\<rparr>) = purchases_ok s"
  "purchases_ok (move_stock k n s) = purchases_ok s" "purchases_ok (add_txn k t n u s) = purchases_ok s"
  by (simp_all add: purchases_ok_def move_stock_def add_txn_def)

lemma purchases_set_restock_order:
  assumes "\<And>x. ro_items (f x) = ro_items x"
  shows "purchases_ok s \<Longrightarrow> purchases_ok (set_restock_order k f s)"
  using assms by (auto simp: purchases_ok_def set_restock_order_def dest!: update_whereD)

lemma keeps_purchases_audit [keeps_intros]: "keeps purchases_ok (audit u a k)"
  by (simp add: keeps_def audit_def)

lemma keeps_hq_row [keeps_intros]: "keeps purchases_ok (hq_row k known src)"
  by (auto simp: keeps_def hq_row_def reply_def reject_def split: option.split)

lemma keeps_update_one [keeps_intros]: "keeps purchases_ok (update_one P f e)"
  by (simp add: keeps_def update_one_def)

lemma keeps_ship_one [keeps_intros]: "keeps purchases_ok (ship_one known u x)"
  unfolding ship_one_def split_def by (intro keeps_intros) simp_all

lemma keeps_insert_shipment [keeps_intros]: "keeps purchases_ok (insert_shipment sh)"
  by (simp add: keeps_def insert_shipment_def unless_apply modify_def)

lemma keeps_ship_commit [keeps_intros]: "keeps purchases_ok (ship_commit ids known sh o' u)"
  unfolding ship_commit_def by (intro keeps_intros purchases_set_restock_order) simp_all

lemma keeps_ship: "keeps purchases_ok (shipRestockOrder ids k orderId u)"
proof (rule keepsI)
  fix s assume inv: "purchases_ok s"
  have "keeps purchases_ok (and_then (ship_commit ids known sh o' u) (\<lambda>_. audit u a orderId))" for known sh o' a
    by (intro keeps_intros)
  from keepsD [OF this inv] show "purchases_ok (fst (shipRestockOrder ids k orderId u s))"
    by (cases "find_row ro_id orderId (restock_orders s)")
      (simp_all add: shipRestockOrder_def Let_def inv unless_apply reject_def)
qed

lemma keeps_arrive_one [keeps_intros]: "keeps purchases_ok (arrive_one officials known c u x)"
  unfolding arrive_one_def split_def by (auto split: option.split intro!: keeps_intros)

lemma keeps_receipt_commit [keeps_intros]:
  "keeps purchases_ok (receipt_commit_restock now ids officials known sh o' u)"
  unfolding receipt_commit_restock_def
  by (intro keeps_intros purchases_set_restock_order) simp_all

lemma keeps_receipt: "keeps purchases_ok (confirmRestockReceipt now ids orderId u c)"
proof (rule keepsI)
  fix s assume inv: "purchases_ok s"
  have "keeps purchases_ok (and_then (receipt_commit_restock now ids officials known sh o' u) (\<lambda>_. audit u a (sh_id sh)))"
    for officials known sh o' a by (intro keeps_intros)
  from keepsD [OF this inv] show "purchases_ok (fst (confirmRestockReceipt now ids orderId u c s))"
    by (cases "find_row ro_id orderId (restock_orders s)"; cases "find (\<lambda>x. sh_orderId x = orderId) (shipments s)")
      (simp_all add: confirmRestockReceipt_def inv unless_apply reject_def)
qed

lemma keeps_audit_restock: "keeps purchases_ok (auditRestockOrder orderId action note u)"
proof (rule keepsI)
  fix s assume inv: "purchases_ok s"
  have "keeps purchases_ok (and_then (modify (set_restock_order orderId (audited u n st))) (\<lambda>_. and_then (audit u a orderId) (\<lambda>_. reply st)))"
    for n st a by (intro keeps_intros purchases_set_restock_order) (simp_all add: audited_def)
  from keepsD [OF this inv] show "purchases_ok (fst (auditRestockOrder orderId action note u s))"
    by (cases "find_row ro_id orderId (restock_orders s)"; cases action)
      (simp_all add: auditRestockOrder_def Let_def inv unless_apply reject_def)
qed

lemma keeps_delete_restock: "keeps purchases_ok (deleteRestockOrder orderId u c)"
proof (rule keepsI)
  fix s assume inv: "purchases_ok s"
  have "keeps purchases_ok (and_then (modify (\<lambda>s. s\<lparr>restock_orders := delete_where (\<lambda>x. ro_id x = orderId) (restock_orders s)\<rparr>))
      (\<lambda>_. audit u a orderId))" for a
    by (intro keeps_intros) (auto simp: purchases_ok_def delete_where_def)
  from keepsD [OF this inv] show "purchases_ok (fst (deleteRestockOrder orderId u c s))"
    by (cases "find_row ro_id orderId (restock_orders s)")
      (simp_all add: deleteRestockOrder_def inv unless_apply reject_def)
qed

lemma dedupe_subset: "x \<in> set (dedupe_items seen xs) \<Longrightarrow> x \<in> set xs"
  by (induction seen xs rule: dedupe_items.induct) (auto split: if_splits)

lemma keeps_save_restock:
  assumes "\<forall>x \<in> set body. 0 \<le> snd x"
  shows "keeps purchases_ok (saveRestockOrder now newId b body u c)"
proof (rule keepsI)
  fix s assume inv: "purchases_ok s"
  have "\<forall>x \<in> set (dedupe_items [] body). 0 \<le> snd x" using assms dedupe_subset by blast
  then have k: "keeps purchases_ok (and_then (modify (\<lambda>t. t\<lparr>restock_orders := restock_orders t @
      [\<lparr>ro_id = newId, ro_batchId = b, ro_campusId = c, ro_status = Submitted, ro_submitBy = u, ro_auditBy = None,
        ro_auditNote = [],
        ro_items = map (\<lambda>(k, n). \<lparr>rx_productId = k, rx_cases = n, rx_unitsPerCase = units_of s k\<rparr>) (dedupe_items [] body)\<rparr>]\<rparr>))
      (\<lambda>_. and_then (audit u a newId) (\<lambda>_. reply (r :: restock_order))))" for a r
    by (intro keeps_intros) (auto simp: purchases_ok_def split_def)
  show "purchases_ok (fst (saveRestockOrder now newId b body u c s))"
    by (cases "find_row rb_id b (restock_batches s)")
      (simp_all add: saveRestockOrder_def Let_def inv unless_apply reject_def keepsD [OF k inv])
qed

text \<open>The purchases themselves.\<close>

lemma keeps_create_purchase:
  assumes "newId \<notin> po_id ` set (purchase_orders s)" and inv: "purchases_ok s"
  shows "purchases_ok (fst (createPurchaseOrder now newId b name lines u s))"
proof (cases "find_row rb_id b (restock_batches s)")
  case None
  then show ?thesis by (simp add: createPurchaseOrder_def inv reject_def)
next
  case (Some batch)
  have "0 \<le> rx_cases i" if "i \<in> set (confirmed_items s b)" for i
    using that inv by (auto simp: confirmed_items_def purchases_ok_def)
  then have nonneg: "0 \<le> required_cases (confirmed_items s b) k" for k
    unfolding required_cases_def by (intro sum_list_nonneg) auto
  have "purchases_ok (s\<lparr>purchase_orders := purchase_orders s @ [po]\<rparr>)"
    if "\<not> (\<exists>p \<in> set (purchase_orders s). po_batchId p = b \<and> po_closedAt p = None)" "purchase_ok po"
      "po_id po = newId" "po_batchId po = b" for po
  proof -
    have "count_where (open_in b) (purchase_orders s) = 0" using that(1) by (auto simp: count_where_0 open_in_def)
    moreover have "count_where P (rows @ [r]) = count_where P rows + (if P r then 1 else 0)" for P and r :: purchase_order and rows
      by (simp add: count_where_def)
    ultimately show ?thesis using that assms by (auto simp: purchases_ok_def open_in_def)
  qed
  moreover have "purchase_ok \<lparr>po_id = newId, po_batchId = b, po_supplierName = trim name, po_closedAt = None,
      po_closedNote = [], po_createdAt = now,
      po_lines = map (\<lambda>(k, cost). \<lparr>pl_productId = k, pl_requiredCases = required_cases (confirmed_items s b) k,
        pl_receivedCases = 0, pl_badCases = 0, pl_unitCost = cost, pl_unitsPerCase = case_size (confirmed_items s b) k\<rparr>) lines\<rparr>"
    if "distinct (map fst lines)"
    using that nonneg by (auto simp: purchase_ok_def line_ok_def split_def comp_def)
  ultimately show ?thesis
    by (simp add: createPurchaseOrder_def Some Let_def inv unless_apply reject_def and_then_def modify_def audit_def reply_def)
qed

lemma set_purchase_ok:
  assumes inv: "purchases_ok s" and "\<And>p. po_id (f p) = po_id p \<and> po_lines (f p) = po_lines p \<and> po_batchId (f p) = po_batchId p"
    and "\<And>b. count_where (open_in b) (update_where (\<lambda>p. po_id p = k) f (purchase_orders s)) \<le> 1"
  shows "purchases_ok (set_purchase k f s)"
  using inv assms(2,3) map_key_update_where [of po_id f]
  by (auto simp: purchases_ok_def set_purchase_def purchase_ok_def dest!: update_whereD)

lemma count_where_update:
  "(\<And>r. Q (f r) = Q r) \<Longrightarrow> count_where Q (update_where P f rows) = count_where Q rows"
  by (induction rows) auto

lemma count_where_le: "\<forall>r \<in> set rows. P (g r) \<longrightarrow> Q r \<Longrightarrow> count_where P (map g rows) \<le> count_where Q rows"
  by (induction rows) auto

lemma keeps_close_purchase: "purchases_ok s \<Longrightarrow> purchases_ok (fst (closePurchaseOrder now k n u s))"
proof -
  assume inv: "purchases_ok s"
  have "purchases_ok (set_purchase k (\<lambda>p. p\<lparr>po_closedAt := Some now, po_closedNote := t\<rparr>) s)" for t
  proof (rule set_purchase_ok [OF inv])
    fix b
    have "count_where (open_in b) (update_where (\<lambda>p. po_id p = k) (\<lambda>p. p\<lparr>po_closedAt := Some now, po_closedNote := t\<rparr>)
        (purchase_orders s)) \<le> count_where (open_in b) (purchase_orders s)"
      unfolding update_where_def by (rule count_where_le) (auto simp: open_in_def)
    also have "\<dots> \<le> 1" using inv by (simp add: purchases_ok_def)
    finally show "count_where (open_in b) (update_where (\<lambda>p. po_id p = k) (\<lambda>p. p\<lparr>po_closedAt := Some now, po_closedNote := t\<rparr>)
        (purchase_orders s)) \<le> 1" .
  qed simp
  then show ?thesis
    by (cases "find_row po_id k (purchase_orders s)")
      (simp_all add: closePurchaseOrder_def inv unless_apply reject_def and_then_def modify_def audit_def)
qed

lemma keeps_reopen_purchase: "purchases_ok s \<Longrightarrow> purchases_ok (fst (reopenPurchaseOrder k u s))"
proof (cases "find_row po_id k (purchase_orders s)")
  case None
  then show "purchases_ok s \<Longrightarrow> ?thesis" by (simp add: reopenPurchaseOrder_def reject_def)
next
  case (Some po)
  assume inv: "purchases_ok s"
  have po: "po \<in> set (purchase_orders s)" "po_id po = k" using find_row_SomeD [OF Some] by auto
  have d: "distinct (map po_id (purchase_orders s))" using inv by (simp add: purchases_ok_def)
  have "purchases_ok (set_purchase k (\<lambda>p. p\<lparr>po_closedAt := None, po_closedNote := []\<rparr>) s)"
    if none: "\<not> (\<exists>p \<in> set (purchase_orders s). po_batchId p = po_batchId po \<and> po_closedAt p = None \<and> po_id p \<noteq> k)"
  proof (rule set_purchase_ok [OF inv])
    fix b
    let ?f = "\<lambda>r :: purchase_order. if po_id r = k then r\<lparr>po_closedAt := None, po_closedNote := []\<rparr> else r"
    have eq: "p = po" if "p \<in> set (purchase_orders s)" "po_id p = k" for p
      using that po unique_key [OF d] by auto
    have "count_where (open_in b) (map ?f (purchase_orders s)) \<le> 1"
    proof (cases "po_batchId po = b")
      case True
      have "count_where (open_in b) (map ?f (purchase_orders s)) \<le> count_where (\<lambda>p. po_id p = k \<and> True) (purchase_orders s)"
        by (rule count_where_le) (use none True in \<open>auto simp: open_in_def split: if_splits\<close>)
      also have "\<dots> \<le> 1" by (rule count_where_key_le1 [OF d])
      finally show ?thesis .
    next
      case False
      have "count_where (open_in b) (map ?f (purchase_orders s)) \<le> count_where (open_in b) (purchase_orders s)"
        by (rule count_where_le) (use False eq in \<open>auto simp: open_in_def split: if_splits\<close>)
      also have "\<dots> \<le> 1" using inv by (simp add: purchases_ok_def)
      finally show ?thesis .
    qed
    then show "count_where (open_in b) (update_where (\<lambda>p. po_id p = k)
        (\<lambda>p. p\<lparr>po_closedAt := None, po_closedNote := []\<rparr>) (purchase_orders s)) \<le> 1"
      by (simp add: update_where_def)
  qed simp
  then show ?thesis
    by (simp add: reopenPurchaseOrder_def Some inv unless_apply reject_def and_then_def modify_def audit_def)
qed

text \<open>A receipt, line by line: the lines that are still to be booked are as they were read.\<close>

definition receipt_inv ::
  "ident \<Rightarrow> (ident \<times> purchase_line \<times> int \<times> int) list \<Rightarrow> db \<Rightarrow> bool" where
  "receipt_inv poId xs s \<longleftrightarrow> purchases_ok s \<and> distinct (map (\<lambda>x. pl_productId (fst (snd x))) xs) \<and>
     (\<forall>(k, i, r, b) \<in> set xs. 0 \<le> b \<and> b \<le> r \<and> (\<forall>po \<in> set (purchase_orders s). po_id po = poId \<longrightarrow>
        (\<forall>l \<in> set (po_lines po). pl_productId l = pl_productId i \<longrightarrow> pl_receivedCases l + r \<le> pl_requiredCases l)))"

lemma book_line_ok:
  assumes "receipt_inv poId ((k, i, r, b) # xs) s"
  shows "receipt_inv poId xs (book_line poId i r b s)"
proof -
  let ?g = "\<lambda>x. x\<lparr>pl_receivedCases := pl_receivedCases x + r, pl_badCases := pl_badCases x + b\<rparr>"
  let ?f = "\<lambda>p. p\<lparr>po_lines := update_where (\<lambda>x. pl_productId x = pl_productId i) ?g (po_lines p)\<rparr>"
  have po: "purchase_orders (book_line poId i r b s) = update_where (\<lambda>p. po_id p = poId) ?f (purchase_orders s)"
    and ro: "restock_orders (book_line poId i r b s) = restock_orders s" by (simp_all add: book_line_def)
  have inv: "purchases_ok s" and rb: "0 \<le> b" "b \<le> r"
    and fit: "\<And>p l. p \<in> set (purchase_orders s) \<Longrightarrow> po_id p = poId \<Longrightarrow> l \<in> set (po_lines p) \<Longrightarrow>
      pl_productId l = pl_productId i \<Longrightarrow> pl_receivedCases l + r \<le> pl_requiredCases l"
    using assms by (auto simp: receipt_inv_def)
  have "purchase_ok (?f p)" if "p \<in> set (purchase_orders s)" "po_id p = poId" for p
  proof -
    have "purchase_ok p" using inv that by (simp add: purchases_ok_def)
    moreover have "map pl_productId (update_where (\<lambda>x. pl_productId x = pl_productId i) ?g (po_lines p)) = map pl_productId (po_lines p)"
      by (rule map_key_update_where) simp
    ultimately show ?thesis using fit [OF that] rb
      by (auto simp: purchase_ok_def line_ok_def dest!: update_whereD)
  qed
  moreover have "map po_id (purchase_orders (book_line poId i r b s)) = map po_id (purchase_orders s)"
    unfolding po by (rule map_key_update_where) simp
  moreover have "count_where (open_in c) (purchase_orders (book_line poId i r b s)) = count_where (open_in c) (purchase_orders s)" for c
    unfolding po by (rule count_where_update) (simp add: open_in_def)
  ultimately have "purchases_ok (book_line poId i r b s)"
    using inv by (auto simp: purchases_ok_def ro) (auto simp: po dest!: update_whereD)
  moreover have "pl_receivedCases l + r' \<le> pl_requiredCases l"
    if asm: "(k', i', r', b') \<in> set xs" "p \<in> set (purchase_orders (book_line poId i r b s))" "po_id p = poId"
      "l \<in> set (po_lines p)" "pl_productId l = pl_productId i'" for k' i' r' b' p l
  proof -
    obtain p0 where p0: "p0 \<in> set (purchase_orders s)" "po_id p0 = poId" "p = ?f p0"
      using asm(2,3) unfolding po by (auto dest!: update_whereD)
    have "pl_productId i' \<noteq> pl_productId i" using assms asm(1) by (force simp: receipt_inv_def)
    then have "l \<in> set (po_lines p0)" using asm(4,5) p0(3) by (auto dest!: update_whereD)
    then show ?thesis using assms asm(1,5) p0 by (fastforce simp: receipt_inv_def)
  qed
  ultimately show ?thesis using assms by (fastforce simp: receipt_inv_def)
qed

lemma receipt_inv_frame:
  assumes "receipt_inv poId xs s" and "purchase_orders s' = purchase_orders s" and "restock_orders s' = restock_orders s"
  shows "receipt_inv poId xs s'"
  using assms by (simp add: receipt_inv_def purchases_ok_def)

lemma receive_one_inv:
  assumes "receive_one known poId u x s = (s', Inr ())" and "receipt_inv poId (x # xs) s"
  shows "receipt_inv poId xs s'"
proof -
  obtain k i r b where x: "x = (k, i, r, b)" by (cases x)
  obtain s1 k1 where h: "hq_row k (known (pl_productId i)) (pl_productId i) s = (s1, Inr k1)"
    and s': "s' = book_line poId i r b (txn_if (b * pl_unitsPerCase i \<noteq> 0) k1 ''purchase-bad'' (- (b * pl_unitsPerCase i)) u
         (txn_if (r * pl_unitsPerCase i \<noteq> 0) k1 ''purchase-receive'' (r * pl_unitsPerCase i) u
         (move_stock k1 (r * pl_unitsPerCase i - b * pl_unitsPerCase i) s1)))" (is "_ = book_line poId i r b ?t")
    using assms(1) by (auto simp: receive_one_def x Let_def and_then_ok modify_ok)
  have "purchase_orders s1 = purchase_orders s" "restock_orders s1 = restock_orders s"
    using h by (auto simp: hq_row_def reply_def reject_def split: option.splits)
  then have "receipt_inv poId ((k, i, r, b) # xs) ?t"
    by (intro receipt_inv_frame [OF assms(2) [unfolded x]]) (simp_all add: txn_if_def)
  then show ?thesis unfolding s' by (rule book_line_ok)
qed

lemma receive_inv_start:
  assumes inv: "purchases_ok s" and po: "find_row po_id poId (purchase_orders s) = Some po"
    and lines: "receive_lines (po_lines po) [] body = Inr lines" and "\<forall>l \<in> set body. 0 \<le> rl_badCases l"
  shows "receipt_inv poId (with_ids ids lines) s"
proof -
  have p: "po \<in> set (purchase_orders s)" "po_id po = poId" using find_row_SomeD [OF po] by auto
  have d: "distinct (map po_id (purchase_orders s))" and ok: "purchase_ok po"
    using inv p by (auto simp: purchases_ok_def)
  have only: "q = po" if "q \<in> set (purchase_orders s)" "po_id q = poId" for q
    using unique_key [OF d that(1) p(1)] that p by simp
  note rl = receive_lines_ok [OF lines]
  have "map (\<lambda>x. pl_productId (fst (snd x))) (with_ids ids lines) = map (\<lambda>x. pl_productId (fst x)) (map snd (with_ids ids lines))"
    by (simp add: comp_def)
  then have "distinct (map (\<lambda>x. pl_productId (fst (snd x))) (with_ids ids lines))"
    using rl by (simp only: with_ids_simps(2))
  moreover have "0 \<le> b \<and> b \<le> r \<and> (\<forall>q \<in> set (purchase_orders s). po_id q = poId \<longrightarrow>
        (\<forall>l \<in> set (po_lines q). pl_productId l = pl_productId i \<longrightarrow> pl_receivedCases l + r \<le> pl_requiredCases l))"
    if "(k, i, r, b) \<in> set (with_ids ids lines)" for k i r b
  proof -
    have "(i, r, b) \<in> set lines" using that with_ids_simps(2) [of ids lines] by (metis image_eqI list.set_map snd_conv)
    then have i: "i \<in> set (po_lines po)" "b \<le> r" "pl_receivedCases i + r \<le> pl_requiredCases i" "0 \<le> b"
      using rl assms(4) by fastforce+
    have "distinct (map pl_productId (po_lines po))" using ok by (simp add: purchase_ok_def)
    then have "l = i" if "l \<in> set (po_lines po)" "pl_productId l = pl_productId i" for l
      using unique_key [OF _ that(1) i(1)] that(2) by blast
    then show ?thesis using i only by auto
  qed
  ultimately show ?thesis using inv by (auto simp: receipt_inv_def)
qed

lemma for_each_inv:
  assumes "for_each f xs s = (s', Inr ())" and "I xs s"
    and "\<And>x xs s s'. f x s = (s', Inr ()) \<Longrightarrow> I (x # xs) s \<Longrightarrow> I xs s'"
  shows "I [] s'"
  by (rule conjunct2 [OF for_each_sum [where m = "\<lambda>_. 0" and w = "\<lambda>_. 0" and I = I, OF assms(1,2)]])
    (use assms(3) in auto)

lemma receive_commit_inv:
  assumes "receive_commit ids known poId u lines s = (s', x)" and "receipt_inv poId (with_ids ids lines) s"
  shows "purchases_ok s'"
proof (cases x)
  case (Inl e)
  then have "s' = s" using assms(1) by (auto simp: receive_commit_def transaction_def split: prod.splits sum.splits)
  then show ?thesis using assms(2) by (simp add: receipt_inv_def)
next
  case (Inr r)
  then have "for_each (receive_one known poId u) (with_ids ids lines) s = (s', Inr ())"
    using assms(1) by (simp add: receive_commit_def transaction_ok)
  then have "receipt_inv poId [] s'"
    by (rule for_each_inv [where I = "receipt_inv poId", OF _ assms(2)]) (rule receive_one_inv)
  then show ?thesis by (simp add: receipt_inv_def)
qed

lemma keeps_receive:
  assumes inv: "purchases_ok s" and "\<forall>l \<in> set body. 0 \<le> rl_badCases l"
  shows "purchases_ok (fst (receivePurchaseOrder ids poId body u s))"
proof (cases "find_row po_id poId (purchase_orders s)")
  case None
  then show ?thesis by (simp add: receivePurchaseOrder_def inv reject_def)
next
  case (Some po)
  show ?thesis
  proof (cases "receive_lines (po_lines po) [] body")
    case (Inl e)
    then show ?thesis by (simp add: receivePurchaseOrder_def Some inv unless_apply reject_def)
  next
    case (Inr lines)
    obtain s1 x where c: "receive_commit ids (row_by_source s HQ_CAMPUS_ID) poId u lines s = (s1, x)" by force
    have "purchases_ok s1"
      by (rule receive_commit_inv [OF c receive_inv_start [OF inv Some Inr assms(2)]])
    then show ?thesis
      by (simp add: receivePurchaseOrder_def Some Inr inv unless_apply and_then_def c audit_def read_def split: sum.split)
  qed
qed

text \<open>The operations on rounds, orders and purchases, as clients call them with validated bodies.\<close>

inductive supply_step :: "db \<Rightarrow> db \<Rightarrow> bool" where
  Submit: "\<forall>x \<in> set body. 0 \<le> snd x \<Longrightarrow> supply_step s (fst (saveRestockOrder now newId b body u c s))"
| Delete: "supply_step s (fst (deleteRestockOrder orderId u c s))"
| Audit: "supply_step s (fst (auditRestockOrder orderId action n u s))"
| Purchase: "newId \<notin> po_id ` set (purchase_orders s) \<Longrightarrow>
    supply_step s (fst (createPurchaseOrder now newId b name lines u s))"
| Receive: "\<forall>l \<in> set body. 0 \<le> rl_badCases l \<Longrightarrow> supply_step s (fst (receivePurchaseOrder ids poId body u s))"
| Close: "supply_step s (fst (closePurchaseOrder now poId t u s))"
| Reopen: "supply_step s (fst (reopenPurchaseOrder poId u s))"
| Ship: "supply_step s (fst (shipRestockOrder ids k orderId u s))"
| Arrive: "supply_step s (fst (confirmRestockReceipt now ids orderId u c s))"

lemma purchases_step: "supply_step s s' \<Longrightarrow> purchases_ok s \<Longrightarrow> purchases_ok s'"
  by (induction rule: supply_step.induct)
    (simp_all add: keeps_create_purchase keeps_receive keeps_close_purchase keeps_reopen_purchase
      keepsD [OF keeps_save_restock] keepsD [OF keeps_delete_restock] keepsD [OF keeps_audit_restock]
      keepsD [OF keeps_ship] keepsD [OF keeps_receipt])

text \<open>C25. Purchases stay in bounds. Whatever sequence of orders, audits, purchases, receipts, closings,
  reopenings and shipments runs, no purchase line counts more bad cases than it received or more
  received than were required, and a round never has two open purchases.\<close>

theorem purchases_stay_in_bounds:
  assumes "supply_step\<^sup>*\<^sup>* s s'" and "purchases_ok s"
  shows "purchases_ok s'"
  using assms by (induction rule: rtranclp_induct) (auto intro: purchases_step)

text \<open>What a receipt books. A receipt of a purchase counts every product once, takes at most what the
  line still misses and at most as many bad cases as arrived, and puts exactly the good ones, in
  retail units, on the shelves of the product.\<close>

theorem receipt_books_accepted:
  assumes "receivePurchaseOrder ids poId body u s = (s', Inr phase)"
    and "distinct (map p_id (products s))" and "fresh_ids ids s"
  shows "\<exists>po lines. find_row po_id poId (purchase_orders s) = Some po \<and> po_closedAt po = None \<and>
    receive_lines (po_lines po) [] body = Inr lines \<and> lines \<noteq> [] \<and>
    (\<forall>(i, r, b) \<in> set lines. i \<in> set (po_lines po) \<and> 0 < r \<and> b \<le> r \<and> pl_receivedCases i + r \<le> pl_requiredCases i) \<and>
    (\<forall>pid. shelf pid s' = shelf pid s + accepted_units lines pid)"
proof -
  obtain po lines s1 where po: "find_row po_id poId (purchase_orders s) = Some po" "po_closedAt po = None"
    and l: "receive_lines (po_lines po) [] body = Inr lines" "lines \<noteq> []"
    and c: "receive_commit ids (row_by_source s HQ_CAMPUS_ID) poId u lines s = (s1, Inr ())"
    and s': "products s' = products s1"
    using assms(1)
    by (auto simp: receivePurchaseOrder_def reject_ok unless_ok and_then_ok read_ok audit_def split: option.split_asm sum.split_asm)
  have "shelf pid s' = shelf pid s + accepted_units lines pid" for pid
    using receive_commit_goods [OF c assms(2,3) known_by_source] shelf_cong [OF s'] by simp
  then show ?thesis using po l receive_lines_ok [OF l(1)] by fastforce
qed

definition purchase_db :: db where
  "purchase_db = fst (createPurchaseOrder 7 ''po1'' ''rb1'' ''Supplier'' [(''of1'', 250)] ''boss'' supply_db)"

definition receipt_body :: "receive_line list" where
  "receipt_body = [\<lparr>rl_productId = ''of1'', rl_receiveCases = 2, rl_badCases = 1\<rparr>]"

lemma purchase_run:
  "snd (receivePurchaseOrder sample_ids ''po1'' receipt_body ''boss'' purchase_db) = Inr PurchaseCompleted"
  "distinct (map p_id (products purchase_db))" "map p_id (products purchase_db) = [''of1'', ''hq1'']"
  "shelf ''of1'' purchase_db = 240"
  "purchase_orders supply_db = []" "restock_orders supply_db = [restock1]"
  "list_all (\<lambda>i. 0 \<le> rx_cases i) (ro_items restock1)"
  by code_simp+

theorem purchases_stay_in_bounds_witness:
  "purchases_ok (fst (receivePurchaseOrder sample_ids ''po1'' receipt_body ''boss'' purchase_db))"
proof -
  have start: "purchases_ok supply_db"
    using purchase_run(7) by (simp add: purchases_ok_def purchase_run(5,6) list_all_iff)
  have one: "supply_step supply_db purchase_db"
    unfolding purchase_db_def by (rule Purchase) (simp add: purchase_run(5))
  have two: "supply_step purchase_db (fst (receivePurchaseOrder sample_ids ''po1'' receipt_body ''boss'' purchase_db))"
    by (rule Receive) (simp add: receipt_body_def)
  show ?thesis
    by (rule purchases_stay_in_bounds [OF rtranclp.rtrancl_into_rtrancl [of supply_step, OF r_into_rtranclp [of supply_step, OF one] two] start])
qed

theorem receipt_books_accepted_witness:
  "\<exists>lines. lines \<noteq> [] \<and> (\<forall>pid. shelf pid (fst (receivePurchaseOrder sample_ids ''po1'' receipt_body ''boss'' purchase_db)) =
    shelf pid purchase_db + accepted_units lines pid)"
proof -
  have "fresh_ids sample_ids purchase_db" using sample_fresh [of "[]" purchase_db] purchase_run(3) by simp
  moreover have "receivePurchaseOrder sample_ids ''po1'' receipt_body ''boss'' purchase_db =
      (fst (receivePurchaseOrder sample_ids ''po1'' receipt_body ''boss'' purchase_db), Inr PurchaseCompleted)"
    using purchase_run(1) by (metis prod.collapse)
  ultimately show ?thesis using receipt_books_accepted [OF _ purchase_run(2)] by blast
qed

end
