(* ===== verification/Access_Policy.thy ===== *)
theory Access_Policy
  imports Supply Checkout
begin

text \<open>
  The decisions of the back office's access control that read no table: matching a request against
  a permission pattern (\<open>matchUrl\<close> in \<open>src/admin/rbac/rbac.service.ts\<close>), the operations only the super
  administrator has and the patterns only a platform grant gives (\<open>access-policy.ts\<close>), the levels of
  an account and who may hand out which role, and the table of the capabilities
  (\<open>capabilities.ts\<close>). A pattern is \<open>METHOD /admin/...\<close>, a segment that starts with a colon matches any
  one segment.
\<close>

subsection \<open>Patterns\<close>

definition strip_slashes :: "string \<Rightarrow> string" where
  "strip_slashes p = rev (dropWhile (\<lambda>c. c = CHR ''/'') (rev p))"

definition segments :: "string \<Rightarrow> string list" where
  "segments p = split_on (CHR ''/'') (strip_slashes p)"

definition segment_matches :: "string \<Rightarrow> string \<Rightarrow> bool" where
  "segment_matches p s \<longleftrightarrow> take 1 p = '':'' \<or> p = s"

text \<open>A pattern at its first blank, \<open>None\<close> where it has none.\<close>

definition at_blank :: "string \<Rightarrow> (string \<times> string) option" where
  "at_blank p =
    (if CHR '' '' \<in> set p
     then Some (takeWhile (\<lambda>c. c \<noteq> CHR '' '') p, tl (dropWhile (\<lambda>c. c \<noteq> CHR '' '') p)) else None)"

definition match_one :: "string \<Rightarrow> string \<Rightarrow> string \<Rightarrow> bool" where
  "match_one m path p =
    (case at_blank p of
       None \<Rightarrow> False
     | Some (pm, pat) \<Rightarrow> pm = m \<and> list_all2 segment_matches (segments pat) (segments path))"

definition matchUrl :: "string list \<Rightarrow> string \<Rightarrow> string \<Rightarrow> bool" where
  "matchUrl patterns m path = list_ex (match_one m path) patterns"

definition GLOBAL_PREFIX :: string where
  "GLOBAL_PREFIX = ''/api/v1''"

definition begins_with :: "string \<Rightarrow> string \<Rightarrow> bool" where
  "begins_with p t \<longleftrightarrow> take (length p) t = p"

definition normalizeAdminPath :: "string \<Rightarrow> string" where
  "normalizeAdminPath path =
    (let stripped = (if begins_with GLOBAL_PREFIX path then drop (length GLOBAL_PREFIX) path else path);
         q = strip_slashes stripped
     in if q = [] then ''/'' else q)"

subsection \<open>Boundaries that no role can move\<close>

text \<open>The regular expression of a base path followed by a slash or the end.\<close>

definition at_or_below :: "string \<Rightarrow> string \<Rightarrow> bool" where
  "at_or_below base path \<longleftrightarrow>
    begins_with base path \<and> (drop (length base) path = [] \<or> hd (drop (length base) path) = CHR ''/'')"

definition isSuperOnlyOperation :: "string \<Rightarrow> string \<Rightarrow> bool" where
  "isSuperOnlyOperation m path =
    (if \<exists>b \<in> set [''menus'', ''roles'', ''permissions'', ''catalog'']. at_or_below (''/admin/rbac/'' @ b) path then True
     else if m \<noteq> ''GET'' \<and> at_or_below ''/admin/accounts'' path then True
     else m \<noteq> ''GET'' \<and> at_or_below ''/admin/organizations'' path)"

definition PLATFORM_PATTERNS :: "string list" where
  "PLATFORM_PATTERNS = [
    ''GET /admin/accounts'', ''GET /admin/rbac/accounts/:id/preview'', ''GET /admin/rbac/audit'',
    ''GET /admin/reports/hq-daily'', ''GET /admin/organizations'',
    ''GET /admin/organizations/:id'', ''GET /admin/platform-products'',
    ''POST /admin/platform-products'', ''PATCH /admin/platform-products/:id'',
    ''GET /admin/org-products'', ''POST /admin/org-products'', ''PATCH /admin/org-products/:id'',
    ''POST /admin/org-products/:id/import'', ''POST /admin/campuses'',
    ''POST /admin/restock/batches'', ''PATCH /admin/restock/batches/:id'',
    ''POST /admin/restock/batches/:id/close'', ''POST /admin/restock/orders/:id/audit'',
    ''POST /admin/restock/orders/:id/ship'',
    ''POST /admin/restock/batches/:batchId/purchase-order'', ''GET /admin/purchase/orders'',
    ''GET /admin/purchase/orders/:id'', ''POST /admin/purchase/orders/:id/receive'',
    ''POST /admin/purchase/orders/:id/close'', ''POST /admin/purchase/orders/:id/reopen'']"

definition SUPER_ROLE_CODE :: string where
  "SUPER_ROLE_CODE = ''super-admin''"

definition ADMIN_URL_WHITELIST :: "string list" where
  "ADMIN_URL_WHITELIST = [''GET /admin/rbac/me'', ''GET /admin/rbac/permmenu'', ''GET /admin/rbac/capabilities'']"

subsection \<open>Levels of accounts\<close>

datatype org_level = LPlatform | LOrg | LCampus

fun org_level_of :: "string \<Rightarrow> org_level option" where
  "org_level_of t =
    (if t = ''platform'' then Some LPlatform else if t = ''org'' then Some LOrg
     else if t = ''campus'' then Some LCampus else None)"

fun level_key :: "org_level \<Rightarrow> string" where
  "level_key LPlatform = ''platform''"
| "level_key LOrg = ''org''"
| "level_key LCampus = ''campus''"

definition resolveOrgLevel :: "ident \<Rightarrow> org_level" where
  "resolveOrgLevel campusId = (if campusId = [] \<or> campusId = HQ_CAMPUS_ID then LPlatform else LCampus)"

definition normalizeOrgLevel :: "string option \<Rightarrow> ident \<Rightarrow> org_level" where
  "normalizeOrgLevel raw campusId =
    (case Option.bind raw org_level_of of Some l \<Rightarrow> l | None \<Rightarrow> resolveOrgLevel campusId)"

record grant_actor =
  ga_id :: ident
  ga_username :: string
  ga_super :: bool
  ga_orgLevel :: "org_level option"

fun assignable_to :: "org_level \<Rightarrow> string list" where
  "assignable_to LPlatform = []"
| "assignable_to LOrg = [''org'', ''campus'']"
| "assignable_to LCampus = [''campus'']"

definition canAssignRole :: "grant_actor \<Rightarrow> string option \<Rightarrow> string option \<Rightarrow> org_level \<Rightarrow> bool" where
  "canAssignRole actor assignableBy applicableLevel targetLevel =
    (if ga_super actor then True
     else if (case assignableBy of Some t \<Rightarrow> t | None \<Rightarrow> ''platform'') \<notin>
        set (assignable_to (case ga_orgLevel actor of Some l \<Rightarrow> l | None \<Rightarrow> LPlatform)) then False
     else case applicableLevel of None \<Rightarrow> True | Some t \<Rightarrow> t = level_key targetLevel)"

subsection \<open>Capabilities\<close>

type_synonym capability_def = "string \<times> string list"

definition CAPABILITIES :: "capability_def list" where
  "CAPABILITIES = [
    (''order.cancel'', [''POST /admin/orders/:id/actions/cancel'']),
    (''order.advance'', [''POST /admin/orders/:id/actions/advance'']),
    (''order.outbound'', [''POST /admin/orders/:id/actions/outbound'']),
    (''order.exception'', [''POST /admin/orders/:id/actions/mark-exception'']),
    (''order.staff-deliver'', [''POST /admin/orders/:id/actions/staff-deliver'']),
    (''order.staff-complete'', [''POST /admin/orders/:id/actions/staff-complete'']),
    (''cost.read'', [''GET /admin/dashboard'', ''GET /admin/reports/campus-daily'', ''GET /admin/reports/hq-daily'']),
    (''cost.write'', [''PATCH /admin/products/:id/price''])]"

definition ORDER_ACTION_CAPABILITIES :: "string \<Rightarrow> string option" where
  "ORDER_ACTION_CAPABILITIES = map_of [(''cancel'', ''order.cancel''), (''advance'', ''order.advance''),
     (''outbound'', ''order.outbound''), (''mark-exception'', ''order.exception''),
     (''staff-deliver'', ''order.staff-deliver''), (''staff-complete'', ''order.staff-complete'')]"

text \<open>\<open>assertNoCapabilityOverlap\<close>: the first error of the table, if it has one. \<open>owner\<close> are the patterns
  that were declared so far, with their capabilities.\<close>

fun check_patterns :: "string \<Rightarrow> (string \<times> string) list \<Rightarrow> string list \<Rightarrow> api_error + (string \<times> string) list" where
  "check_patterns code owner [] = Inr owner"
| "check_patterns code owner (p # ps) =
    (case map_of owner p of
       Some prev \<Rightarrow>
         if prev \<noteq> code then Inl (InternalError (''capability overlap: '' @ p))
         else check_patterns code ((p, code) # owner) ps
     | None \<Rightarrow> check_patterns code ((p, code) # owner) ps)"

fun check_capabilities :: "string list \<Rightarrow> (string \<times> string) list \<Rightarrow> capability_def list \<Rightarrow> api_error option" where
  "check_capabilities seen owner [] = None"
| "check_capabilities seen owner ((code, patterns) # rest) =
    (if code \<in> set seen then Some (InternalError (''capability declared twice: '' @ code))
     else if patterns = [] then Some (InternalError (''capability without a pattern: '' @ code))
     else case check_patterns code owner patterns of
         Inl e \<Rightarrow> Some e
       | Inr owner' \<Rightarrow> check_capabilities (code # seen) owner' rest)"

definition assertNoCapabilityOverlap :: "capability_def list \<Rightarrow> api_error option" where
  "assertNoCapabilityOverlap caps = check_capabilities [] [] caps"

end
