(* ===== verification/Rbac.thy ===== *)
theory Rbac
  imports Access_Policy
begin

text \<open>
  Access control of the back office, as far as it reads (\<open>src/admin/rbac/rbac.service.ts\<close>,
  \<open>admin-auth.guard.ts\<close> and the scope helpers of \<open>src/admin/admin.controller.ts\<close>): the tables, the
  effective context of an account (\<open>getEffective\<close>) with its cache, the decision on a request
  (\<open>allow\<close>, \<open>allowCapability\<close>), the guard, and the campus a request works on. The tables of access
  control are a state of their own; the campuses and organisations are those of the shop. Rows are
  listed in the order of their creation.
\<close>

subsection \<open>Tables\<close>

record account =
  acc_id :: ident
  acc_username :: string
  acc_nickname :: string
  acc_passwordHash :: string
  acc_campusId :: ident
  acc_status :: string
  acc_sessionVersion :: int
  acc_rbacMigrated :: bool
  acc_role :: string
  acc_accesses :: "ident list"
  acc_orgLevel :: "string option"
  acc_organizationId :: "ident option"

record admin_role =
  rol_id :: ident
  rol_code :: string
  rol_name :: string
  rol_remark :: string
  rol_status :: string
  rol_builtin :: bool
  rol_seeded :: bool
  rol_menusMigrated :: bool
  rol_legacyCodes :: "string list"
  rol_assignableBy :: string
  rol_applicableLevel :: "string option"

record role_grant =
  gr_accountId :: ident
  gr_roleId :: ident
  gr_scope :: string
  gr_campusId :: "ident option"
  gr_grantedBy :: string

record admin_menu =
  mn_id :: ident
  mn_code :: string
  mn_parentId :: "ident option"
  mn_name :: string
  mn_type :: int
  mn_perms :: string
  mn_path :: string
  mn_viewPath :: string
  mn_orderNum :: int
  mn_isShow :: bool
  mn_keepAlive :: bool
  mn_icon :: string
  mn_status :: string

text \<open>\<open>rb_version\<close> and \<open>rb_menusSeeded\<close> are the row of \<open>RbacState\<close>, \<open>None\<close> while it does not exist;
  \<open>role_menus\<close> pairs role and menu. \<open>acc_role\<close> and \<open>acc_accesses\<close> are the role and campuses of an account
  before roles were tables, \<open>rol_legacyCodes\<close> the permissions and menus of a role before the menu tree.\<close>

record rbac_db =
  accounts :: "account list"
  roles :: "admin_role list"
  grants :: "role_grant list"
  menus :: "admin_menu list"
  role_menus :: "(ident \<times> ident) list"
  rb_version :: "int option"
  rb_menusSeeded :: bool
  rb_campuses :: "campus list"
  rb_organizations :: "organization list"
  rb_audits :: "audit_log list"

interpretation accounts_tbl: row_table accounts accounts_update acc_id
  by unfold_locales simp_all

interpretation roles_tbl: row_table roles roles_update rol_id
  by unfold_locales simp_all

interpretation menus_tbl: row_table menus menus_update mn_id
  by unfold_locales simp_all

subsection \<open>The effective context\<close>

record rbac_ctx =
  cx_accountId :: ident
  cx_username :: string
  cx_nickname :: string
  cx_campusId :: ident
  cx_platform :: bool
  cx_super :: bool
  cx_campuses :: "ident list"
  cx_patterns :: "string list"
  cx_platformPatterns :: "string list"
  cx_menuCodes :: "string list"
  cx_organizationId :: "ident option"
  cx_orgLevel :: org_level

text \<open>The variables of the loop over the grants, each with its role.\<close>

record grant_sum =
  gs_roleIds :: "ident list"
  gs_platformRoleIds :: "ident list"
  gs_platform :: bool
  gs_super :: bool
  gs_campuses :: "ident list"

definition add_grant :: "account \<Rightarrow> role_grant \<times> admin_role \<Rightarrow> grant_sum \<Rightarrow> grant_sum" where
  "add_grant account = (\<lambda>(g, r) a.
    if rol_status r \<noteq> ''active'' then a
    else if rol_code r = SUPER_ROLE_CODE \<and> gr_scope g = ''platform'' then a\<lparr>gs_platform := True, gs_super := True\<rparr>
    else if rol_code r = SUPER_ROLE_CODE then a
    else if gr_scope g = ''platform''
    then a\<lparr>gs_platform := True, gs_roleIds := gs_roleIds a @ [gr_roleId g],
           gs_platformRoleIds := gs_platformRoleIds a @ [gr_roleId g]\<rparr>
    else case truthy (gr_campusId g) of
        None \<Rightarrow> a
      | Some c \<Rightarrow> a\<lparr>gs_campuses := (if c \<in> set (gs_campuses a) then gs_campuses a else gs_campuses a @ [c]),
          gs_roleIds := (if c = acc_campusId account then gs_roleIds a @ [gr_roleId g] else gs_roleIds a)\<rparr>)"

definition grants_of :: "rbac_db \<Rightarrow> ident \<Rightarrow> (role_grant \<times> admin_role) list" where
  "grants_of s accountId =
    List.map_filter (\<lambda>g. map_option (\<lambda>r. (g, r)) (find_row rol_id (gr_roleId g) (roles s)))
      (filter (\<lambda>g. gr_accountId g = accountId) (grants s))"

definition sum_grants :: "rbac_db \<Rightarrow> account \<Rightarrow> grant_sum" where
  "sum_grants s account = fold (add_grant account) (grants_of s (acc_id account))
    \<lparr>gs_roleIds = [], gs_platformRoleIds = [], gs_platform = False, gs_super = False, gs_campuses = []\<rparr>"

definition has_menu :: "rbac_db \<Rightarrow> ident list \<Rightarrow> admin_menu \<Rightarrow> bool" where
  "has_menu s roleIds m \<longleftrightarrow> (\<exists>r \<in> set roleIds. (r, mn_id m) \<in> set (role_menus s))"

definition granted_menus :: "rbac_db \<Rightarrow> ident list \<Rightarrow> admin_menu list" where
  "granted_menus s roleIds = filter (\<lambda>m. mn_status m = ''active'' \<and> has_menu s roleIds m) (menus s)"

definition perms_of :: "admin_menu \<Rightarrow> string list" where
  "perms_of m = filter (\<lambda>p. p \<noteq> []) (map trim (split_on (CHR '','') (mn_perms m)))"

definition context_organization :: "rbac_db \<Rightarrow> account \<Rightarrow> bool \<Rightarrow> ident option" where
  "context_organization s account platform =
    (case truthy (acc_organizationId account) of
       Some k \<Rightarrow> Some k
     | None \<Rightarrow> if platform then None
         else Option.bind (find_row ca_id (acc_campusId account) (rb_campuses s)) ca_organizationId)"

definition effective :: "rbac_db \<Rightarrow> account \<Rightarrow> rbac_ctx" where
  "effective s account =
    (let a = sum_grants s account;
         ms = granted_menus s (gs_roleIds a)
     in \<lparr>cx_accountId = acc_id account, cx_username = acc_username account,
         cx_nickname = (if acc_nickname account = [] then acc_username account else acc_nickname account),
         cx_campusId = acc_campusId account,
         cx_platform = gs_platform a, cx_super = gs_super a, cx_campuses = gs_campuses a,
         cx_patterns = js_set (concat (map perms_of ms)),
         cx_platformPatterns = js_set (concat (map perms_of (filter (has_menu s (gs_platformRoleIds a)) ms))),
         cx_menuCodes = js_set (map mn_code (filter (\<lambda>m. mn_type m \<noteq> 2) ms)),
         cx_organizationId = context_organization s account (gs_platform a),
         cx_orgLevel = normalizeOrgLevel (acc_orgLevel account) (acc_campusId account)\<rparr>)"

subsection \<open>The cache of contexts\<close>

type_synonym cache_key = "ident \<times> int \<times> int \<times> ident"

record cache_entry =
  ce_ctx :: rbac_ctx
  ce_expiresAt :: millis

type_synonym ctx_cache = "cache_key \<rightharpoonup> cache_entry"

record rbac_service =
  rs_db :: rbac_db
  rs_cache :: ctx_cache

definition TTL_MS :: millis where
  "TTL_MS = 15000"

definition cache_key_of :: "int \<Rightarrow> account \<Rightarrow> cache_key" where
  "cache_key_of version account = (acc_id account, acc_sessionVersion account, version, acc_campusId account)"

definition getEffective :: "millis \<Rightarrow> account \<Rightarrow> (rbac_service, rbac_ctx) handler" where
  "getEffective now account s =
    (case rb_version (rs_db s) of
       None \<Rightarrow> reject (ServiceUnavailable ''the permissions are not available'') s
     | Some version \<Rightarrow>
         let key = cache_key_of version account;
             fresh = effective (rs_db s) account
         in case rs_cache s key of
              Some hit \<Rightarrow>
                if now < ce_expiresAt hit then reply (ce_ctx hit) s
                else (s\<lparr>rs_cache := (rs_cache s)(key \<mapsto> \<lparr>ce_ctx = fresh, ce_expiresAt = now + TTL_MS\<rparr>)\<rparr>, Inr fresh)
            | None \<Rightarrow>
                (s\<lparr>rs_cache := (rs_cache s)(key \<mapsto> \<lparr>ce_ctx = fresh, ce_expiresAt = now + TTL_MS\<rparr>)\<rparr>, Inr fresh))"

subsection \<open>Decisions\<close>

definition allow :: "rbac_ctx \<Rightarrow> string \<Rightarrow> string \<Rightarrow> bool" where
  "allow ctx m path =
    (if cx_super ctx then True
     else if isSuperOnlyOperation m path then False
     else if matchUrl PLATFORM_PATTERNS m path then matchUrl (cx_platformPatterns ctx) m path
     else matchUrl (cx_patterns ctx) m path)"

definition allowCapability :: "rbac_ctx \<Rightarrow> string \<Rightarrow> bool" where
  "allowCapability ctx capability =
    (case map_of CAPABILITIES capability of
       None \<Rightarrow> False
     | Some patterns \<Rightarrow>
         list_ex (\<lambda>p. case at_blank p of Some (m, path) \<Rightarrow> m \<noteq> [] \<and> allow ctx m path | None \<Rightarrow> False) patterns)"

definition listCapabilities :: "rbac_ctx option \<Rightarrow> (string \<times> string list \<times> bool) list" where
  "listCapabilities ctx =
    map (\<lambda>(code, patterns). (code, patterns, case ctx of Some c \<Rightarrow> allowCapability c code | None \<Rightarrow> False)) CAPABILITIES"

definition orderAction_gate :: "rbac_ctx \<Rightarrow> string \<Rightarrow> api_error + unit" where
  "orderAction_gate ctx action =
    (case ORDER_ACTION_CAPABILITIES action of
       None \<Rightarrow> Inl (Forbidden (''no such capability: '' @ action))
     | Some capability \<Rightarrow>
         if allowCapability ctx capability then Inr () else Inl (Forbidden ''no permission for the action''))"

subsection \<open>The guard\<close>

definition assertSession :: "account \<Rightarrow> int option \<Rightarrow> api_error + unit" where
  "assertSession account tokenSv =
    (if acc_status account \<noteq> ''active'' then Inl (Unauthorized ''the account is disabled'')
     else if (case tokenSv of Some v \<Rightarrow> v | None \<Rightarrow> 0) \<noteq> acc_sessionVersion account
     then Inl (Unauthorized ''the session has ended'') else Inr ())"

text \<open>\<open>canActivate\<close> for a request whose token is valid: \<open>userId\<close> and \<open>sv\<close> are its claims, \<open>m\<close> is the
  method in upper case. The reply is the context of the request.\<close>

definition canActivate ::
  "millis \<Rightarrow> ident \<Rightarrow> int option \<Rightarrow> string \<Rightarrow> string \<Rightarrow> (rbac_service, rbac_ctx) handler" where
  "canActivate now userId sv m rawPath s =
    (case find_row acc_id userId (accounts (rs_db s)) of
       None \<Rightarrow> reject (Forbidden ''no access to the back office'') s
     | Some account \<Rightarrow>
         (case assertSession account sv of
            Inl e \<Rightarrow> reject e s
          | Inr _ \<Rightarrow>
              and_then (getEffective now account)
              (\<lambda>ctx.
                let path = normalizeAdminPath rawPath;
                    rctx = ctx\<lparr>cx_platform := cx_super ctx \<or> matchUrl (cx_platformPatterns ctx) m path\<rparr>
                in unless (cx_super ctx \<or> \<not> isSuperOnlyOperation m path) (Forbidden ''only for the super administrator'')
                  (if m @ '' '' @ path \<in> set ADMIN_URL_WHITELIST then reply rctx
                   else unless (allow ctx m path) (Forbidden ''no permission'') (reply rctx))) s))"

subsection \<open>The campus of a request\<close>

definition known_campus :: "rbac_db \<Rightarrow> ident \<Rightarrow> bool" where
  "known_campus s c \<longleftrightarrow> c \<in> ca_id ` set (rb_campuses s)"

definition orgBounded :: "rbac_ctx \<Rightarrow> bool" where
  "orgBounded ctx \<longleftrightarrow> cx_orgLevel ctx = LOrg \<and> truthy (cx_organizationId ctx) \<noteq> None"

definition platformDataScope :: "rbac_ctx \<Rightarrow> bool" where
  "platformDataScope ctx \<longleftrightarrow> cx_super ctx \<or> cx_orgLevel ctx = LPlatform"

definition assertCampusInScope :: "rbac_db \<Rightarrow> rbac_ctx \<Rightarrow> ident \<Rightarrow> api_error + unit" where
  "assertCampusInScope s ctx campusId =
    (if \<not> orgBounded ctx then Inr ()
     else case find_row ca_id campusId (rb_campuses s) of
         None \<Rightarrow> Inl (BadRequest ''no such campus'')
       | Some c \<Rightarrow>
           if ca_organizationId c \<noteq> cx_organizationId ctx
           then Inl (Forbidden ''the campus belongs to another organisation'') else Inr ())"

definition campuses_of_org :: "rbac_db \<Rightarrow> ident option \<Rightarrow> campus list" where
  "campuses_of_org s org = filter (\<lambda>c. ca_organizationId c = org \<and> ca_status c \<noteq> ''official'') (rb_campuses s)"

definition resolveCampusInScope :: "rbac_db \<Rightarrow> rbac_ctx \<Rightarrow> ident \<Rightarrow> api_error + ident" where
  "resolveCampusInScope s ctx requestedCampus =
    (let requested = trim requestedCampus
     in if \<not> orgBounded ctx then Inr (if requested = [] then cx_campusId ctx else requested)
        else if requested \<noteq> [] then map_sum (\<lambda>e. e) (\<lambda>_. requested) (assertCampusInScope s ctx requested)
        else let own = campuses_of_org s (cx_organizationId ctx)
          in case filter (\<lambda>c. cx_campusId ctx = [] \<or> ca_id c = cx_campusId ctx) own of
               c # _ \<Rightarrow> Inr (ca_id c)
             | [] \<Rightarrow> (case own of c # _ \<Rightarrow> Inr (ca_id c) | [] \<Rightarrow> Inl (BadRequest ''the organisation has no campus'')))"

definition switchableCampuses :: "rbac_db \<Rightarrow> rbac_ctx \<Rightarrow> ident list" where
  "switchableCampuses s ctx =
    (if cx_super ctx then map ca_id (rb_campuses s)
     else if orgBounded ctx then map ca_id (campuses_of_org s (cx_organizationId ctx))
     else cx_campuses ctx)"

text \<open>The helpers of the controller; \<open>campus\<close> is the parameter of the query, empty where it is
  missing.\<close>

definition campusScope :: "rbac_db \<Rightarrow> rbac_ctx \<Rightarrow> ident \<Rightarrow> api_error + ident" where
  "campusScope s ctx campus =
    (let c = trim campus
     in if orgBounded ctx then resolveCampusInScope s ctx c
        else if cx_platform ctx
        then if c \<noteq> [] \<and> \<not> known_campus s c then Inl (BadRequest ''no such campus'') else Inr c
        else if c \<noteq> [] \<and> c \<noteq> cx_campusId ctx
        then if c \<in> set (cx_campuses ctx) then Inr c else Inl (Forbidden ''not allowed in this campus'')
        else Inr (cx_campusId ctx))"

definition scopedCampus :: "rbac_db \<Rightarrow> rbac_ctx \<Rightarrow> ident \<Rightarrow> api_error + ident" where
  "scopedCampus s ctx campus =
    (let c = trim campus
     in if orgBounded ctx then resolveCampusInScope s ctx c
        else if c = [] then Inr (cx_campusId ctx)
        else if cx_platform ctx
        then if known_campus s c then Inr c else Inl (BadRequest ''no such campus'')
        else if c \<in> set (cx_campuses ctx) then Inr c else Inl (Forbidden ''not allowed in this campus''))"

definition assertCampusAllowed :: "rbac_db \<Rightarrow> rbac_ctx \<Rightarrow> ident \<Rightarrow> api_error + ident" where
  "assertCampusAllowed s ctx campusId =
    (case (if orgBounded ctx then resolveCampusInScope s ctx campusId
           else Inr (if trim campusId = [] then cx_campusId ctx else trim campusId)) of
       Inl e \<Rightarrow> Inl e
     | Inr target \<Rightarrow>
         if target = [] then Inl (BadRequest ''no campus given'')
         else if orgBounded ctx then Inr target
         else if \<not> known_campus s target then Inl (BadRequest ''no such campus'')
         else if \<not> cx_platform ctx \<and> target \<notin> set (cx_campuses ctx)
         then Inl (Forbidden ''not allowed in this campus'') else Inr target)"

definition bannerScope :: "rbac_db \<Rightarrow> rbac_ctx \<Rightarrow> ident \<Rightarrow> api_error + ident" where
  "bannerScope s ctx campus =
    (let c = trim campus
     in if orgBounded ctx then resolveCampusInScope s ctx c
        else if c = [] then Inr (cx_campusId ctx)
        else if c \<in> set (cx_campuses ctx) then Inr c
        else if cx_platform ctx then Inr c else Inr (cx_campusId ctx))"

definition productCampus :: "rbac_ctx \<Rightarrow> string \<Rightarrow> ident \<Rightarrow> ident \<Rightarrow> ident" where
  "productCampus ctx view campus queryCampus =
    (let c = (if trim campus = [] then trim queryCampus else trim campus)
     in if cx_platform ctx
        then if view = ''campus''
          then if c \<noteq> [] then c else if cx_campusId ctx \<noteq> [] then cx_campusId ctx else OFFICIAL_CAMPUS_ID
          else OFFICIAL_CAMPUS_ID
        else if c \<noteq> [] \<and> c \<in> set (cx_campuses ctx) then c else cx_campusId ctx)"

definition orgTarget :: "rbac_ctx \<Rightarrow> string \<Rightarrow> api_error + ident" where
  "orgTarget ctx organizationId =
    (let q = trim organizationId
     in if orgBounded ctx
        then case cx_organizationId ctx of
            Some own \<Rightarrow> if q \<noteq> [] \<and> q \<noteq> own then Inl (Forbidden ''not the own organisation'') else Inr own
          | None \<Rightarrow> Inl (InternalError ''no organisation'')
        else if cx_platform ctx \<or> cx_orgLevel ctx = LPlatform
        then if q = [] then Inl (BadRequest ''no organisation given'') else Inr q
        else Inl (Forbidden ''only for the platform and organisations''))"

definition costRead :: "rbac_ctx \<Rightarrow> bool" where
  "costRead ctx = allowCapability ctx ''cost.read''"

definition grantActor :: "ident \<Rightarrow> rbac_ctx \<Rightarrow> grant_actor" where
  "grantActor userId ctx =
    \<lparr>ga_id = userId, ga_username = cx_username ctx, ga_super = cx_super ctx, ga_orgLevel = Some (cx_orgLevel ctx)\<rparr>"

end
