(* ===== verification/Registry.thy ===== *)
theory Registry
  imports Access_Policy
begin

text \<open>
  The registry of the menu tree (\<open>src/admin/rbac/registry.ts\<close>): the directories, pages and buttons
  with the permission patterns they carry, the retired role templates and the preset roles. Display
  names, icons and remarks are left out.
\<close>

record menu_def =
  nd_code :: string
  nd_type :: int
  nd_parent :: "string option"
  nd_path :: string
  nd_order :: int
  nd_perms :: "string list"

abbreviation node :: "string \<Rightarrow> int \<Rightarrow> string option \<Rightarrow> string \<Rightarrow> int \<Rightarrow> string list \<Rightarrow> menu_def" where
  "node c t p path n ps \<equiv>
    \<lparr>nd_code = c, nd_type = t, nd_parent = p, nd_path = path, nd_order = n, nd_perms = ps\<rparr>"

definition nodes_ops :: "menu_def list" where
  "nodes_ops =
   [
    node ''g.ops'' 0 None [] 1 [],
    node ''dashboard'' 1 (Some ''g.ops'') ''/'' 1 [''GET /admin/dashboard''],
    node ''orders'' 1 (Some ''g.ops'') ''/orders'' 2 [''GET /admin/orders'',
        ''GET /admin/orders/status-counts'', ''GET /admin/orders/new-order-watch'',
        ''GET /admin/orders/:id''],
    node ''orders.write'' 2 (Some ''orders'') [] 1 [''POST /admin/orders/:id/actions/:action'',
        ''POST /admin/orders/:id/status'', ''POST /admin/orders/:id/print-receipt''],
    node ''inventory.outbound'' 2 (Some ''orders'') [] 2 [
        ''POST /admin/orders/:id/actions/outbound''],
    node ''orders.cancel'' 2 (Some ''orders'') [] 3 [''POST /admin/orders/:id/actions/cancel''],
    node ''orders.advance'' 2 (Some ''orders'') [] 4 [''POST /admin/orders/:id/actions/advance''],
    node ''orders.exception'' 2 (Some ''orders'') [] 5 [
        ''POST /admin/orders/:id/actions/mark-exception''],
    node ''orders.staff-deliver'' 2 (Some ''orders'') [] 6 [
        ''POST /admin/orders/:id/actions/staff-deliver''],
    node ''orders.staff-complete'' 2 (Some ''orders'') [] 7 [
        ''POST /admin/orders/:id/actions/staff-complete''],
    node ''after-sales'' 1 (Some ''g.ops'') ''/after-sales'' 3 [''GET /admin/after-sales'',
        ''GET /admin/refunds''],
    node ''after-sales.audit'' 2 (Some ''after-sales'') [] 1 [''POST /admin/refunds/:id/audit'',
        ''POST /admin/refunds/:id/sync'', ''POST /admin/orders/:id/refunds''],
    node ''battle-map'' 1 (Some ''g.ops'') ''/battle-map'' 4 [''GET /admin/marketing/map'',
        ''GET /admin/battle-map/buildings/:buildingId'', ''GET /admin/battle-map/rooms/:roomId''],
    node ''campus-report'' 1 (Some ''g.ops'') ''/campus-report'' 5 [
        ''GET /admin/reports/campus-daily'', ''GET /admin/reports/hq-daily''],
    node ''behavior-analytics'' 1 (Some ''g.ops'') ''/behavior-analytics'' 6 [
        ''GET /admin/analytics/summary''],
    node ''transfer-logs'' 1 (Some ''g.ops'') ''/transfer-logs'' 7 [''GET /admin/transfer-logs''],
    node ''building-rank'' 1 (Some ''g.ops'') ''/building-rank'' 8 [''GET /admin/building-rank'']
   ]"

definition nodes_wh :: "menu_def list" where
  "nodes_wh =
   [
    node ''g.wh'' 0 None [] 2 [],
    node ''official-products'' 1 (Some ''g.wh'') ''/official-products'' 1 [''GET /admin/products'',
        ''GET /admin/products/status-counts'', ''GET /admin/products/official-library''],
    node ''products.official.write'' 2 (Some ''official-products'') [] 1 [''POST /admin/products'',
        ''PATCH /admin/products/:id'', ''POST /admin/products/batch-status'',
        ''POST /admin/products/:id/pull-upstream''],
    node ''platform-products'' 1 (Some ''g.wh'') ''/platform-products'' 8 [
        ''GET /admin/platform-products''],
    node ''platform-products.write'' 2 (Some ''platform-products'') [] 1 [
        ''POST /admin/platform-products'', ''PATCH /admin/platform-products/:id''],
    node ''org-products'' 1 (Some ''g.wh'') ''/org-products'' 9 [''GET /admin/org-products''],
    node ''org-products.write'' 2 (Some ''org-products'') [] 1 [''POST /admin/org-products'',
        ''PATCH /admin/org-products/:id'', ''POST /admin/org-products/:id/import''],
    node ''products'' 1 (Some ''g.wh'') ''/products'' 2 [''GET /admin/products'',
        ''GET /admin/products/status-counts'', ''POST /admin/products/barcode/lookup''],
    node ''products.write'' 2 (Some ''products'') [] 1 [''POST /admin/products'',
        ''PATCH /admin/products/:id'', ''POST /admin/products/import''],
    node ''products.price'' 2 (Some ''products'') [] 2 [''PATCH /admin/products/:id/price''],
    node ''products.status'' 2 (Some ''products'') [] 3 [''POST /admin/products/batch-status''],
    node ''categories'' 1 (Some ''g.wh'') ''/categories'' 3 [''GET /admin/categories''],
    node ''categories.write'' 2 (Some ''categories'') [] 1 [''POST /admin/categories'',
        ''PATCH /admin/categories/:id'', ''DELETE /admin/categories/:id''],
    node ''inventory'' 1 (Some ''g.wh'') ''/inventory'' 4 [''GET /admin/inventory''],
    node ''inventory.inbound'' 2 (Some ''inventory'') [] 1 [''POST /admin/inventory/stock-in''],
    node ''inventory.adjust'' 2 (Some ''inventory'') [] 2 [''POST /admin/inventory/stocktake'',
        ''POST /admin/inventory/adjust''],
    node ''warehouse-orders'' 1 (Some ''g.wh'') ''/warehouse-orders'' 5 [''GET /admin/orders'',
        ''GET /admin/orders/status-counts''],
    node ''inventory-txns'' 1 (Some ''g.wh'') ''/inventory-txns'' 6 [''GET /admin/inventory/txns''],
    node ''locations'' 1 (Some ''g.wh'') ''/locations'' 7 [''GET /admin/locations''],
    node ''locations.write'' 2 (Some ''locations'') [] 1 [''POST /admin/locations'',
        ''PATCH /admin/locations/:id'', ''DELETE /admin/locations/:id'']
   ]"

definition nodes_supply :: "menu_def list" where
  "nodes_supply =
   [
    node ''g.supply'' 0 None [] 3 [],
    node ''restock'' 1 (Some ''g.supply'') ''/restock'' 1 [''GET /admin/restock/batches'',
        ''GET /admin/restock/batches/:id'', ''GET /admin/restock/orders'',
        ''GET /admin/restock/orders/:id'', ''GET /admin/restock/orders/:id/shipment''],
    node ''restock.order'' 2 (Some ''restock'') [] 1 [''PUT /admin/restock/batches/:batchId/order'',
        ''DELETE /admin/restock/orders/:id'', ''POST /admin/restock/orders/:id/receipt''],
    node ''restock.manage'' 2 (Some ''restock'') [] 2 [''POST /admin/restock/batches'',
        ''PATCH /admin/restock/batches/:id'', ''POST /admin/restock/batches/:id/close'',
        ''POST /admin/restock/orders/:id/audit'', ''POST /admin/restock/orders/:id/ship''],
    node ''purchase'' 1 (Some ''g.supply'') ''/purchase'' 2 [''GET /admin/purchase/orders'',
        ''GET /admin/purchase/orders/:id'', ''GET /admin/reports/hq-daily''],
    node ''purchase.write'' 2 (Some ''purchase'') [] 1 [
        ''POST /admin/restock/batches/:batchId/purchase-order'',
        ''POST /admin/purchase/orders/:id/receive'', ''POST /admin/purchase/orders/:id/close'',
        ''POST /admin/purchase/orders/:id/reopen'']
   ]"

definition nodes_mkt :: "menu_def list" where
  "nodes_mkt =
   [
    node ''g.mkt'' 0 None [] 4 [],
    node ''banners'' 1 (Some ''g.mkt'') ''/banners'' 1 [''GET /admin/banners''],
    node ''banners.write'' 2 (Some ''banners'') [] 1 [''POST /admin/banners'',
        ''PATCH /admin/banners/:id'', ''DELETE /admin/banners/:id''],
    node ''pay-ads'' 1 (Some ''g.mkt'') ''/pay-ads'' 2 [''GET /admin/banners''],
    node ''coupons'' 1 (Some ''g.mkt'') ''/coupons'' 3 [''GET /admin/coupons''],
    node ''marketing.write'' 2 (Some ''coupons'') [] 1 [''POST /admin/coupons'',
        ''PATCH /admin/coupons/:id'', ''DELETE /admin/coupons/:id'',
        ''POST /admin/coupons/:id/issue''],
    node ''promotions'' 1 (Some ''g.mkt'') ''/promotions'' 4 [''GET /admin/promotions''],
    node ''promotions.write'' 2 (Some ''promotions'') [] 1 [''POST /admin/promotions'',
        ''PATCH /admin/promotions/:id''],
    node ''featured'' 1 (Some ''g.mkt'') ''/featured'' 5 [''GET /admin/featured''],
    node ''featured.write'' 2 (Some ''featured'') [] 1 [''PUT /admin/featured''],
    node ''wheel'' 1 (Some ''g.mkt'') ''/wheel'' 6 [''GET /admin/wheel''],
    node ''wheel.write'' 2 (Some ''wheel'') [] 1 [''PUT /admin/wheel''],
    node ''wechat-groups'' 1 (Some ''g.mkt'') ''/wechat-groups'' 7 [''GET /admin/wechat-groups''],
    node ''wechat-groups.write'' 2 (Some ''wechat-groups'') [] 1 [''POST /admin/wechat-groups'',
        ''DELETE /admin/wechat-groups/:id'']
   ]"

definition nodes_org :: "menu_def list" where
  "nodes_org =
   [
    node ''g.org'' 0 None [] 5 [],
    node ''staff'' 1 (Some ''g.org'') ''/staff'' 1 [''GET /admin/staff'',
        ''GET /admin/leave-requests'', ''GET /admin/dispatch-invitations''],
    node ''staff.write'' 2 (Some ''staff'') [] 1 [''POST /admin/staff'',
        ''PATCH /admin/staff/:id'', ''DELETE /admin/staff/:id'',
        ''POST /admin/dispatch-invitations'', ''POST /admin/dispatch-invitations/:id/cancel''],
    node ''recruit'' 1 (Some ''g.org'') ''/recruit'' 2 [''GET /admin/recruit-applications'',
        ''GET /admin/recruit-applications/status-counts''],
    node ''recruit.note'' 2 (Some ''recruit'') [] 1 [''PATCH /admin/recruit-applications/:id''],
    node ''recruit.interview'' 2 (Some ''recruit'') [] 2 [
        ''POST /admin/recruit-applications/:id/transition''],
    node ''recruit.approve'' 2 (Some ''recruit'') [] 3 [
        ''POST /admin/recruit-applications/:id/approve''],
    node ''recruit.reject'' 2 (Some ''recruit'') [] 4 [
        ''POST /admin/recruit-applications/:id/reject''],
    node ''recruit.idcard.read'' 2 (Some ''recruit'') [] 5 [
        ''GET /admin/recruit-applications/:id/idcard''],
    node ''recruit.idcard.write'' 2 (Some ''recruit'') [] 6 [
        ''POST /admin/recruit-applications/:id/idcard''],
    node ''buildings'' 1 (Some ''g.org'') ''/buildings'' 3 [''GET /admin/buildings'',
        ''GET /admin/buildings/:id/rooms''],
    node ''buildings.write'' 2 (Some ''buildings'') [] 1 [''POST /admin/buildings'',
        ''PATCH /admin/buildings/:id'', ''DELETE /admin/buildings/:id'',
        ''POST /admin/buildings/:id/rooms'', ''DELETE /admin/buildings/:id/rooms/:roomId'',
        ''GET /admin/buildings/:id/rooms/template'', ''POST /admin/buildings/:id/rooms/import''],
    node ''campuses'' 1 (Some ''g.org'') ''/campuses'' 4 [''GET /admin/campuses'',
        ''GET /admin/delivery-config''],
    node ''campus-config'' 1 (Some ''g.org'') ''/campus-config'' 5 [''GET /admin/campus-config''],
    node ''campus-config.slots'' 2 (Some ''campus-config'') [] 1 [''POST /admin/delivery-slots'',
        ''PATCH /admin/delivery-slots/:id'', ''DELETE /admin/delivery-slots/:id''],
    node ''campus-config.notices'' 2 (Some ''campus-config'') [] 2 [''POST /admin/notices'',
        ''PATCH /admin/notices/:id'', ''DELETE /admin/notices/:id''],
    node ''campus-config.profile'' 2 (Some ''campus-config'') [] 3 [''PATCH /admin/campuses/:id''],
    node ''campuses.config.write'' 2 (Some ''campuses'') [] 1 [''PATCH /admin/delivery-config''],
    node ''campuses.manage'' 2 (Some ''campuses'') [] 2 [''POST /admin/campuses'',
        ''PATCH /admin/campuses/:id''],
    node ''users'' 1 (Some ''g.org'') ''/users'' 5 [''GET /admin/users'',
        ''GET /admin/users/stats'', ''GET /admin/users/:id/orders''],
    node ''users.phone.reveal'' 2 (Some ''users'') [] 1 [''GET /admin/users/:id/phone''],
    node ''dispatch'' 1 (Some ''g.org'') ''/dispatch'' 6 [''GET /admin/leave-requests'',
        ''GET /admin/dispatch-invitations''],
    node ''dispatch.write'' 2 (Some ''dispatch'') [] 1 [''POST /admin/dispatch-invitations'',
        ''POST /admin/dispatch-invitations/:id/cancel'']
   ]"

definition nodes_fin :: "menu_def list" where
  "nodes_fin =
   [
    node ''g.fin'' 0 None [] 6 [],
    node ''finance'' 1 (Some ''g.fin'') ''/finance'' 1 [''GET /admin/settlements''],
    node ''finance.confirm'' 2 (Some ''finance'') [] 1 [''POST /admin/settlements/:id/confirm''],
    node ''finance.pay'' 2 (Some ''finance'') [] 2 [''POST /admin/settlements/:id/pay''],
    node ''rules'' 1 (Some ''g.fin'') ''/rules'' 2 [''GET /admin/commission-rules''],
    node ''finance.rules.write'' 2 (Some ''rules'') [] 1 [''POST /admin/commission-rules'',
        ''PATCH /admin/commission-rules/:id''],
    node ''audit'' 1 (Some ''g.fin'') ''/audit'' 3 [''GET /admin/audit-logs'']
   ]"

definition nodes_sys :: "menu_def list" where
  "nodes_sys =
   [
    node ''g.sys'' 0 None [] 7 [],
    node ''accounts'' 1 (Some ''g.sys'') ''/accounts'' 1 [''GET /admin/accounts'',
        ''GET /admin/rbac/accounts/:id/preview''],
    node ''organizations'' 1 (Some ''g.sys'') ''/organizations'' 2 [''GET /admin/organizations'',
        ''GET /admin/organizations/:id''],
    node ''organizations.write'' 2 (Some ''organizations'') [] 1 [''POST /admin/organizations'',
        ''PATCH /admin/organizations/:id'', ''POST /admin/organizations/:id/status'',
        ''POST /admin/organizations/:id/bootstrap''],
    node ''rbac.accounts.write'' 2 (Some ''accounts'') [] 1 [''POST /admin/accounts'',
        ''PATCH /admin/accounts/:id'', ''DELETE /admin/accounts/:id''],
    node ''rbac-roles'' 1 (Some ''g.sys'') ''/rbac-roles'' 2 [''GET /admin/rbac/roles'',
        ''GET /admin/rbac/menus'', ''GET /admin/rbac/permissions'', ''GET /admin/rbac/catalog''],
    node ''rbac.roles.write'' 2 (Some ''rbac-roles'') [] 1 [''POST /admin/rbac/roles'',
        ''PATCH /admin/rbac/roles/:id'', ''DELETE /admin/rbac/roles/:id''],
    node ''rbac-menus'' 1 (Some ''g.sys'') ''/rbac-menus'' 3 [''GET /admin/rbac/menus'',
        ''GET /admin/rbac/catalog''],
    node ''rbac.menus.write'' 2 (Some ''rbac-roles'') [] 2 [''POST /admin/rbac/menus'',
        ''PATCH /admin/rbac/menus/:id'', ''DELETE /admin/rbac/menus/:id''],
    node ''rbac-permissions'' 1 (Some ''g.sys'') ''/rbac-permissions'' 3 [
        ''GET /admin/rbac/permissions''],
    node ''rbac-audit'' 1 (Some ''g.sys'') ''/rbac-audit'' 4 [''GET /admin/rbac/audit''],
    node ''printers'' 1 (Some ''g.sys'') ''/printers'' 5 [''GET /admin/printers''],
    node ''printers.write'' 2 (Some ''printers'') [] 1 [''POST /admin/printers'',
        ''DELETE /admin/printers/:id'', ''POST /admin/printers/:id/test-print''],
    node ''help'' 1 (Some ''g.sys'') ''/help'' 6 [],
    node ''changelog'' 1 (Some ''g.sys'') ''/changelog'' 7 []
   ]"

definition MENU_NODES :: "menu_def list" where
  "MENU_NODES = concat [nodes_ops, nodes_wh, nodes_supply, nodes_mkt, nodes_org, nodes_fin, nodes_sys]"

definition ALL_PERM_PATTERNS :: "string list" where
  "ALL_PERM_PATTERNS = js_set (concat (map nd_perms MENU_NODES))"

text \<open>\<open>withDirs\<close> climbs from every node to its directories; the depth of the tree bounds the climb.\<close>

definition parent_code :: "string \<Rightarrow> string option" where
  "parent_code c = (case find (\<lambda>n. nd_code n = c) (rev MENU_NODES) of Some n \<Rightarrow> nd_parent n | None \<Rightarrow> None)"

fun climb :: "nat \<Rightarrow> string option \<Rightarrow> string list" where
  "climb 0 cur = []"
| "climb (Suc fuel) None = []"
| "climb (Suc fuel) (Some c) = c # climb fuel (parent_code c)"

definition withDirs :: "string list \<Rightarrow> string list" where
  "withDirs codes = js_set (codes @ concat (map (\<lambda>c. climb 3 (parent_code c)) codes))"

definition hq_director_template :: "string \<times> string list" where
  "hq_director_template = (''hq-director'', withDirs [
''dashboard'', ''orders'', ''campus-report'', ''official-products'', ''categories'',
    ''categories.write'', ''products.official.write'', ''inventory'', ''inventory.inbound'',
    ''inventory.adjust'', ''locations'', ''locations.write'', ''restock'', ''restock.manage'',
    ''purchase'', ''purchase.write'', ''campuses'', ''campuses.config.write'',
    ''campuses.manage'', ''accounts'', ''users'', ''audit''])"

definition campus_operations_template :: "string \<times> string list" where
  "campus_operations_template = (''campus-operations'', withDirs [
''dashboard'', ''orders'', ''orders.write'', ''after-sales'', ''after-sales.audit'',
    ''battle-map'', ''campus-report'', ''building-rank'', ''products'', ''products.write'',
    ''products.price'', ''products.status'', ''categories'', ''categories.write'', ''inventory'',
    ''inventory.adjust'', ''inventory.outbound'', ''warehouse-orders'', ''inventory-txns'',
    ''locations'', ''locations.write'', ''restock'', ''restock.order'', ''coupons'',
    ''marketing.write'', ''promotions'', ''promotions.write'', ''featured'', ''featured.write'',
    ''wheel'', ''wheel.write'', ''wechat-groups'', ''wechat-groups.write'', ''staff'',
    ''staff.write'', ''recruit'', ''recruit.note'', ''recruit.interview'', ''recruit.approve'',
    ''recruit.reject'', ''recruit.idcard.read'', ''recruit.idcard.write'', ''buildings'',
    ''buildings.write'', ''campuses'', ''campuses.config.write'', ''users'',
    ''users.phone.reveal'', ''dispatch'', ''dispatch.write'', ''finance'', ''rules'', ''audit''])"

definition campus_warehouse_template :: "string \<times> string list" where
  "campus_warehouse_template = (''campus-warehouse'', withDirs [
''dashboard'', ''orders'', ''after-sales'', ''products'', ''products.write'',
    ''products.price'', ''products.status'', ''categories'', ''categories.write'', ''inventory'',
    ''inventory.adjust'', ''inventory.outbound'', ''warehouse-orders'', ''inventory-txns'',
    ''locations'', ''locations.write'', ''restock'', ''restock.order''])"

definition campus_finance_template :: "string \<times> string list" where
  "campus_finance_template = (''campus-finance'', withDirs [
''dashboard'', ''orders'', ''after-sales'', ''campus-report'', ''finance'',
    ''finance.confirm'', ''finance.pay'', ''rules'', ''finance.rules.write'', ''audit''])"

definition ROLE_TEMPLATES :: "(string \<times> string list) list" where
  "ROLE_TEMPLATES = [hq_director_template, campus_operations_template, campus_warehouse_template, campus_finance_template]"

definition CAMPUS_OPERATOR_BASE :: "string list" where
  "CAMPUS_OPERATOR_BASE = snd campus_operations_template"

definition CAMPUS_ADMIN_MENUS :: "string list" where
  "CAMPUS_ADMIN_MENUS = withDirs (CAMPUS_OPERATOR_BASE @ [
''campus-config'', ''campus-config.profile'', ''campus-config.slots'',
    ''campus-config.notices'', ''banners'', ''banners.write'', ''pay-ads'', ''printers'',
    ''printers.write''])"

definition ORG_ADMIN_MENUS :: "string list" where
  "ORG_ADMIN_MENUS = withDirs [
''dashboard'', ''orders'', ''orders.write'', ''after-sales'', ''after-sales.audit'',
    ''battle-map'', ''campus-report'', ''building-rank'', ''products'', ''products.write'',
    ''products.price'', ''products.status'', ''categories'', ''categories.write'', ''inventory'',
    ''inventory.adjust'', ''restock'', ''restock.order'', ''coupons'', ''marketing.write'',
    ''promotions'', ''promotions.write'', ''featured'', ''featured.write'', ''wheel'',
    ''wheel.write'', ''wechat-groups'', ''wechat-groups.write'', ''staff'', ''staff.write'',
    ''recruit'', ''recruit.note'', ''recruit.interview'', ''recruit.approve'', ''recruit.reject'',
    ''recruit.idcard.read'', ''recruit.idcard.write'', ''buildings'', ''buildings.write'',
    ''campuses'', ''campuses.manage'', ''users'', ''users.phone.reveal'', ''dispatch'',
    ''dispatch.write'', ''finance'', ''rules'', ''audit'', ''organizations'']"


record preset_role =
  pr_code :: string
  pr_assignableBy :: string
  pr_applicableLevel :: "string option"
  pr_menuCodes :: "string list"

definition PRESET_ROLES :: "preset_role list" where
  "PRESET_ROLES = [
    \<lparr>pr_code = SUPER_ROLE_CODE, pr_assignableBy = ''platform'', pr_applicableLevel = None, pr_menuCodes = []\<rparr>,
    \<lparr>pr_code = ''org-admin'', pr_assignableBy = ''platform'', pr_applicableLevel = Some ''org'', pr_menuCodes = ORG_ADMIN_MENUS\<rparr>,
    \<lparr>pr_code = ''campus-admin'', pr_assignableBy = ''org'', pr_applicableLevel = Some ''campus'', pr_menuCodes = CAMPUS_ADMIN_MENUS\<rparr>,
    \<lparr>pr_code = ''campus-operator'', pr_assignableBy = ''campus'', pr_applicableLevel = Some ''campus'', pr_menuCodes = CAMPUS_OPERATOR_BASE\<rparr>]"

subsection \<open>The checks made when the module is loaded\<close>

definition pattern_shape :: "string \<Rightarrow> bool" where
  "pattern_shape p \<longleftrightarrow> (\<exists>m \<in> set [''GET'', ''POST'', ''PATCH'', ''PUT'', ''DELETE'']. begins_with (m @ '' /admin/'') p)"

definition registered :: "string \<Rightarrow> bool" where
  "registered c \<longleftrightarrow> c \<in> set (map nd_code MENU_NODES)"

lemma set_withDirs: "set (withDirs codes) = set codes \<union> (\<Union>c \<in> set codes. set (climb 3 (parent_code c)))"
  by (simp add: withDirs_def)

lemma codes_distinct: "distinct (map nd_code MENU_NODES)"
  by code_simp

text \<open>Directories are roots, pages hang below directories and buttons below pages, each within its
  own part of the registry.\<close>

definition below :: "menu_def list \<Rightarrow> int \<Rightarrow> string \<Rightarrow> bool" where
  "below ns t p \<longleftrightarrow> list_ex (\<lambda>d. nd_code d = p \<and> nd_type d = t) ns"

definition well_placed :: "menu_def list \<Rightarrow> menu_def \<Rightarrow> bool" where
  "well_placed ns n \<longleftrightarrow>
    (case nd_parent n of None \<Rightarrow> nd_type n = 0
     | Some p \<Rightarrow> nd_type n = 1 \<and> below ns 0 p \<or> nd_type n = 2 \<and> below ns 1 p)"

lemma groups_well_placed:
  "list_all (well_placed nodes_ops) nodes_ops" "list_all (well_placed nodes_wh) nodes_wh"
  "list_all (well_placed nodes_supply) nodes_supply" "list_all (well_placed nodes_mkt) nodes_mkt"
  "list_all (well_placed nodes_org) nodes_org" "list_all (well_placed nodes_fin) nodes_fin"
  "list_all (well_placed nodes_sys) nodes_sys"
  by code_simp+

lemma well_placed_mono: "well_placed ns n \<Longrightarrow> set ns \<subseteq> set ms \<Longrightarrow> well_placed ms n"
  by (auto simp: well_placed_def below_def list_ex_iff split: option.splits)

lemma registry_well_placed: "n \<in> set MENU_NODES \<Longrightarrow> well_placed MENU_NODES n"
  using groups_well_placed unfolding MENU_NODES_def list_all_iff
  by (auto elim!: well_placed_mono)

lemma parent_code_node:
  assumes "n \<in> set MENU_NODES"
  shows "parent_code (nd_code n) = nd_parent n"
proof -
  have "find (\<lambda>x. nd_code x = nd_code n) (rev MENU_NODES) = Some n"
    using find_row_unique [of nd_code "rev MENU_NODES" n] codes_distinct assms
    by (simp add: find_row_def rev_map [symmetric])
  then show ?thesis by (simp add: parent_code_def)
qed

lemma parent_is_node:
  assumes "n \<in> set MENU_NODES" and "nd_parent n = Some p"
  obtains d where "d \<in> set MENU_NODES" "p = nd_code d" "nd_type n = 1 \<and> nd_type d = 0 \<or> nd_type n = 2 \<and> nd_type d = 1"
  using registry_well_placed [OF assms(1)] assms(2) by (auto simp: well_placed_def below_def list_ex_iff)

lemma root_is_directory: "n \<in> set MENU_NODES \<Longrightarrow> nd_type n = 0 \<Longrightarrow> nd_parent n = None"
  using registry_well_placed [of n] by (auto simp: well_placed_def split: option.splits)

lemma parents_registered: "n \<in> set MENU_NODES \<Longrightarrow> nd_parent n = Some p \<Longrightarrow> registered p"
  by (erule (1) parent_is_node) (auto simp: registered_def)

text \<open>The climb of three steps reaches the root from every node of the registry.\<close>

lemma climb_directory: "d \<in> set MENU_NODES \<Longrightarrow> nd_type d = 0 \<Longrightarrow> length (climb (Suc k) (parent_code (nd_code d))) = 0"
  by (simp add: parent_code_node root_is_directory)

lemma climb_page:
  assumes "d \<in> set MENU_NODES" and "nd_type d = 1"
  shows "length (climb (Suc (Suc k)) (parent_code (nd_code d))) \<le> 1"
proof (cases "nd_parent d")
  case (Some p)
  obtain e where "e \<in> set MENU_NODES" "p = nd_code e" "nd_type e = 0"
    by (rule parent_is_node [OF assms(1) Some]) (use assms(2) in auto)
  then show ?thesis using climb_directory [of e k] by (simp add: parent_code_node assms(1) Some)
qed (simp add: parent_code_node assms(1))

lemma climb_enough:
  assumes "n \<in> set MENU_NODES"
  shows "length (climb 3 (parent_code (nd_code n))) < 3"
proof (cases "nd_parent n")
  case (Some p)
  obtain e where e: "e \<in> set MENU_NODES" "p = nd_code e" "nd_type e \<in> {0, 1}"
    by (rule parent_is_node [OF assms Some]) auto
  then have "length (climb 2 (parent_code p)) \<le> 1"
    using climb_directory [of e 1] climb_page [of e 0] by (auto simp: eval_nat_numeral)
  then show ?thesis using Some by (simp add: parent_code_node assms eval_nat_numeral)
qed (simp add: parent_code_node assms eval_nat_numeral)

lemma patterns_well_shaped: "list_all (\<lambda>n. list_all pattern_shape (nd_perms n)) MENU_NODES"
  by code_simp

lemma capability_patterns_found:
  "list_all (\<lambda>c. list_all (\<lambda>p. list_ex (\<lambda>n. p \<in> set (nd_perms n)) (nodes_ops @ nodes_wh)) (snd c)) CAPABILITIES"
  by code_simp

lemma capability_patterns_registered:
  "c \<in> set CAPABILITIES \<Longrightarrow> p \<in> set (snd c) \<Longrightarrow> p \<in> set ALL_PERM_PATTERNS"
  using capability_patterns_found
  by (fastforce simp: list_all_iff list_ex_iff ALL_PERM_PATTERNS_def MENU_NODES_def)

lemma capabilities_disjoint: "assertNoCapabilityOverlap CAPABILITIES = None"
  by code_simp

end
