(* ===== verification/Rbac_Admin.thy ===== *)
theory Rbac_Admin
  imports Rbac Registry
begin

text \<open>
  Access control of the back office, as far as it writes (\<open>src/admin/rbac/rbac.service.ts\<close>): the
  grants of an account, its status and password, creating, editing and deleting accounts, the menu
  tree and the roles. Every operation runs in one transaction and clears the cache of contexts after
  it. Transactions that can change who is a super administrator take one advisory lock, so they run
  one after the other. Password hashes and identities are arguments.
\<close>

subsection \<open>Shared steps\<close>

definition commit :: "(rbac_db, 'r) handler \<Rightarrow> (rbac_service, 'r) handler" where
  "commit h s =
    (case transaction h (rs_db s) of
       (d, Inl e) \<Rightarrow> (s\<lparr>rs_db := d\<rparr>, Inl e)
     | (d, Inr r) \<Rightarrow> (s\<lparr>rs_db := d, rs_cache := (\<lambda>_. None)\<rparr>, Inr r))"

definition bumpVersion :: "(rbac_db, unit) handler" where
  "bumpVersion s =
    (case rb_version s of
       None \<Rightarrow> reject (InternalError ''no state row'') s
     | Some v \<Rightarrow> (s\<lparr>rb_version := Some (v + 1)\<rparr>, Inr ()))"

definition rb_audit :: "string \<Rightarrow> string \<Rightarrow> ident \<Rightarrow> (rbac_db, unit) handler" where
  "rb_audit operator action entityId s =
    (s\<lparr>rb_audits := rb_audits s @ [\<lparr>al_operator = operator, al_action = action, al_entityId = entityId\<rparr>]\<rparr>, Inr ())"

definition set_account :: "ident \<Rightarrow> (account \<Rightarrow> account) \<Rightarrow> rbac_db \<Rightarrow> rbac_db" where
  "set_account k f s = s\<lparr>accounts := update_where (\<lambda>a. acc_id a = k) f (accounts s)\<rparr>"

definition bump_session :: "account \<Rightarrow> account" where
  "bump_session a = a\<lparr>acc_sessionVersion := acc_sessionVersion a + 1\<rparr>"

subsection \<open>The last super administrator\<close>

definition is_super_role :: "rbac_db \<Rightarrow> ident \<Rightarrow> bool" where
  "is_super_role s roleId \<longleftrightarrow>
    (case find_row rol_id roleId (roles s) of Some r \<Rightarrow> rol_code r = SUPER_ROLE_CODE | None \<Rightarrow> False)"

definition active_super_role :: "rbac_db \<Rightarrow> ident \<Rightarrow> bool" where
  "active_super_role s roleId \<longleftrightarrow>
    (case find_row rol_id roleId (roles s) of
       Some r \<Rightarrow> rol_code r = SUPER_ROLE_CODE \<and> rol_status r = ''active'' | None \<Rightarrow> False)"

definition active_account :: "rbac_db \<Rightarrow> ident \<Rightarrow> bool" where
  "active_account s accountId \<longleftrightarrow>
    (case find_row acc_id accountId (accounts s) of Some a \<Rightarrow> acc_status a = ''active'' | None \<Rightarrow> False)"

definition super_grant :: "rbac_db \<Rightarrow> role_grant \<Rightarrow> bool" where
  "super_grant s g \<longleftrightarrow> gr_scope g = ''platform'' \<and> is_super_role s (gr_roleId g)"

definition active_super_grant :: "rbac_db \<Rightarrow> role_grant \<Rightarrow> bool" where
  "active_super_grant s g \<longleftrightarrow>
    gr_scope g = ''platform'' \<and> active_super_role s (gr_roleId g) \<and> active_account s (gr_accountId g)"

definition countActiveSupers :: "rbac_db \<Rightarrow> nat" where
  "countActiveSupers s = count_where (active_super_grant s) (grants s)"

subsection \<open>Grants\<close>

record grant_input =
  gi_roleCode :: string
  gi_scope :: string
  gi_campusId :: "ident option"

definition grant_key :: "grant_input \<Rightarrow> string" where
  "grant_key g = gi_roleCode g @ '':'' @ gi_scope g @ '':'' @ (case gi_campusId g of Some c \<Rightarrow> c | None \<Rightarrow> [])"

definition single_campus_roles :: "string list" where
  "single_campus_roles = [''campus-admin'', ''campus-operator'', ''campus-operations'']"

definition granted_campuses :: "grant_input list \<Rightarrow> ident list" where
  "granted_campuses gs =
    List.map_filter (\<lambda>g. if gi_scope g = ''campus'' then truthy (gi_campusId g) else None) gs"

definition single_campus_ok :: "org_level \<Rightarrow> grant_input list \<Rightarrow> bool" where
  "single_campus_ok targetLevel gs \<longleftrightarrow>
    (if \<exists>g \<in> set gs. gi_roleCode g \<in> set single_campus_roles
     then targetLevel = LCampus \<and> (\<forall>g \<in> set gs. gi_scope g = ''campus'') \<and> length (js_set (granted_campuses gs)) = 1
     else True)"

definition find_role :: "rbac_db \<Rightarrow> string \<Rightarrow> admin_role option" where
  "find_role s code = find (\<lambda>r. rol_code r = code) (roles s)"

definition check_grant :: "rbac_db \<Rightarrow> grant_actor \<Rightarrow> org_level \<Rightarrow> grant_input \<Rightarrow> api_error option" where
  "check_grant s actor targetLevel g =
    (if gi_scope g \<noteq> ''platform'' \<and> gi_scope g \<noteq> ''campus'' then Some (BadRequest ''the scope is platform or campus'')
     else if gi_roleCode g = SUPER_ROLE_CODE then Some (BadRequest ''the super administrator is not granted'')
     else if gi_scope g = ''platform'' \<and> truthy (gi_campusId g) \<noteq> None then Some (BadRequest ''a platform grant has no campus'')
     else if gi_scope g = ''campus'' \<and> truthy (gi_campusId g) = None then Some (BadRequest ''a campus grant has a campus'')
     else case find_role s (gi_roleCode g) of
         None \<Rightarrow> Some (BadRequest (''no such role: '' @ gi_roleCode g))
       | Some role \<Rightarrow>
           if gi_scope g = ''campus'' \<and> (case gi_campusId g of Some c \<Rightarrow> \<not> known_campus s c | None \<Rightarrow> True)
           then Some (BadRequest ''no such campus'')
           else if \<not> canAssignRole actor (Some (rol_assignableBy role)) (rol_applicableLevel role) targetLevel
           then Some (Forbidden (''may not grant '' @ gi_roleCode g)) else None)"

fun check_grants :: "rbac_db \<Rightarrow> grant_actor \<Rightarrow> org_level \<Rightarrow> grant_input list \<Rightarrow> api_error option" where
  "check_grants s actor targetLevel [] = None"
| "check_grants s actor targetLevel (g # gs) =
    (case check_grant s actor targetLevel g of Some e \<Rightarrow> Some e | None \<Rightarrow> check_grants s actor targetLevel gs)"

definition grant_row :: "rbac_db \<Rightarrow> string \<Rightarrow> ident \<Rightarrow> grant_input \<Rightarrow> role_grant" where
  "grant_row s grantedBy accountId g =
    \<lparr>gr_accountId = accountId, gr_roleId = (case find_role s (gi_roleCode g) of Some r \<Rightarrow> rol_id r | None \<Rightarrow> []),
     gr_scope = gi_scope g, gr_campusId = (if gi_scope g = ''campus'' then gi_campusId g else None),
     gr_grantedBy = grantedBy\<rparr>"

definition write_grants :: "grant_actor \<Rightarrow> account \<Rightarrow> grant_input list \<Rightarrow> rbac_db \<Rightarrow> rbac_db" where
  "write_grants actor account gs s =
    s\<lparr>grants := delete_where (\<lambda>g. gr_accountId g = acc_id account) (grants s) @
        map (grant_row s (ga_username actor) (acc_id account)) gs\<rparr>"

text \<open>The account's own campus follows its grants.\<close>

definition align_campus :: "account \<Rightarrow> grant_input list \<Rightarrow> rbac_db \<Rightarrow> rbac_db" where
  "align_campus account gs s =
    (case granted_campuses gs of
       c # cs \<Rightarrow> if acc_campusId account \<notin> set (c # cs)
         then set_account (acc_id account) (\<lambda>a. a\<lparr>acc_campusId := c\<rparr>) s else s
     | [] \<Rightarrow> s)"

definition replaceAccountGrants ::
  "grant_actor \<Rightarrow> ident \<Rightarrow> grant_input list \<Rightarrow> string option option \<Rightarrow> (rbac_db, unit) handler" where
  "replaceAccountGrants actor accountId gs targetOrgLevel s =
    (case find_row acc_id accountId (accounts s) of
       None \<Rightarrow> reject (BadRequest ''no such account'') s
     | Some account \<Rightarrow>
         let targetLevel = normalizeOrgLevel (case targetOrgLevel of Some l \<Rightarrow> l | None \<Rightarrow> acc_orgLevel account)
               (acc_campusId account);
             isSuper = (\<exists>g \<in> set (grants s). gr_accountId g = accountId \<and> super_grant s g);
             keepsSuper = (\<exists>g \<in> set gs. gi_roleCode g = SUPER_ROLE_CODE \<and> gi_scope g = ''platform'')
         in unless (distinct (map grant_key gs)) (BadRequest ''a grant is listed twice'')
           (unless (length (js_set (map gi_roleCode gs)) \<le> 1) (BadRequest ''an account has one role'')
           (unless (single_campus_ok targetLevel gs) (BadRequest ''the role is for one campus'')
           (case check_grants s actor targetLevel gs of
              Some e \<Rightarrow> reject e
            | None \<Rightarrow>
                unless (\<not> (isSuper \<and> acc_status account = ''active'' \<and> \<not> keepsSuper \<and> countActiveSupers s \<le> 1))
                  (Forbidden ''one super administrator must stay'')
                (and_then (modify (write_grants actor account gs))
                (\<lambda>_. and_then (modify (align_campus account gs))
                (\<lambda>_. and_then (modify (set_account accountId (\<lambda>a. (bump_session a)\<lparr>acc_rbacMigrated := True\<rparr>)))
                (\<lambda>_. and_then bumpVersion
                (\<lambda>_. rb_audit (ga_username actor) ''rbac.grant.set'' accountId)))))))) s)"

definition setAccountRoles :: "grant_actor \<Rightarrow> ident \<Rightarrow> grant_input list \<Rightarrow> (rbac_service, unit) handler" where
  "setAccountRoles actor accountId gs = commit (replaceAccountGrants actor accountId gs None)"

subsection \<open>Accounts\<close>

definition changeAccountStatus :: "grant_actor \<Rightarrow> ident \<Rightarrow> string \<Rightarrow> (rbac_db, unit) handler" where
  "changeAccountStatus actor accountId status s =
    (case find_row acc_id accountId (accounts s) of
       None \<Rightarrow> reject (BadRequest ''no such account'') s
     | Some account \<Rightarrow>
         if acc_status account = status then reply () s
         else unless (\<not> (status = ''disabled'' \<and>
               0 < count_where (\<lambda>g. gr_accountId g = accountId \<and> super_grant s g) (grants s) \<and> countActiveSupers s \<le> 1))
             (Forbidden ''the last super administrator cannot be disabled'')
           (and_then (modify (set_account accountId (\<lambda>a. a\<lparr>acc_status := status\<rparr>)))
           (\<lambda>_. and_then (modify (set_account accountId bump_session))
           (\<lambda>_. and_then bumpVersion
           (\<lambda>_. rb_audit (ga_username actor) (''rbac.account.'' @ status) accountId)))) s)"

definition setAccountStatus :: "grant_actor \<Rightarrow> ident \<Rightarrow> string \<Rightarrow> (rbac_service, unit) handler" where
  "setAccountStatus actor accountId status = commit (changeAccountStatus actor accountId status)"

text \<open>The level and organisation of an account; the outer option of an input is whether the body has
  the field, the inner one is \<open>null\<close>.\<close>

definition resolveAccountOrgFields ::
  "rbac_db \<Rightarrow> string option option \<Rightarrow> string option option \<Rightarrow> account option \<Rightarrow>
    api_error + (string option \<times> ident option)" where
  "resolveAccountOrgFields s inLevel inOrg existing =
    (let orgLevel = (case inLevel of Some l \<Rightarrow> l | None \<Rightarrow> Option.bind existing acc_orgLevel);
         organizationId = (case inOrg of Some k \<Rightarrow> truthy (map_option trim k) | None \<Rightarrow> Option.bind existing acc_organizationId)
     in if orgLevel = Some ''org''
        then case truthy organizationId of
            None \<Rightarrow> Inl (BadRequest ''an account of an organisation names it'')
          | Some k \<Rightarrow> if find_row g_id k (rb_organizations s) = None then Inl (BadRequest ''no such organisation'')
              else Inr (orgLevel, organizationId)
        else if truthy organizationId \<noteq> None then Inl (BadRequest ''only an account of an organisation names one'')
        else Inr (orgLevel, organizationId))"

record account_input =
  ai_username :: string
  ai_nickname :: "string option"
  ai_grants :: "grant_input list option"
  ai_orgLevel :: "string option option"
  ai_organizationId :: "string option option"

definition first_campus :: "grant_input list \<Rightarrow> ident" where
  "first_campus gs =
    (case find (\<lambda>g. gi_scope g = ''campus'') gs of
       Some g \<Rightarrow> (case gi_campusId g of Some c \<Rightarrow> c | None \<Rightarrow> []) | None \<Rightarrow> [])"

definition create_account_tx ::
  "grant_actor \<Rightarrow> ident \<Rightarrow> string \<Rightarrow> account_input \<Rightarrow> string option \<times> ident option \<Rightarrow> (rbac_db, ident) handler" where
  "create_account_tx actor newId passwordHash i org s =
    unless (\<not> (\<exists>a \<in> set (accounts s). acc_username a = ai_username i)) (BadRequest ''the user name is taken'')
    (let gs = (case ai_grants i of Some gs \<Rightarrow> gs | None \<Rightarrow> []);
         row = \<lparr>acc_id = newId, acc_username = ai_username i,
           acc_nickname = (case ai_nickname i of Some t \<Rightarrow> t | None \<Rightarrow> []), acc_passwordHash = passwordHash,
           acc_campusId = first_campus gs, acc_status = ''active'', acc_sessionVersion = 0, acc_rbacMigrated = True,
           acc_role = ''rbac'', acc_accesses = [], acc_orgLevel = fst org, acc_organizationId = snd org\<rparr>
     in and_then (modify (\<lambda>s. s\<lparr>accounts := accounts s @ [row]\<rparr>))
       (\<lambda>_. and_then (replaceAccountGrants actor newId gs None)
       (\<lambda>_. and_then (rb_audit (ga_username actor) ''rbac.account.create'' newId)
       (\<lambda>_. reply newId)))) s"

definition createAccount :: "grant_actor \<Rightarrow> ident \<Rightarrow> string \<Rightarrow> account_input \<Rightarrow> (rbac_service, ident) handler" where
  "createAccount actor newId passwordHash i s =
    (case resolveAccountOrgFields (rs_db s) (ai_orgLevel i) (ai_organizationId i) None of
       Inl e \<Rightarrow> reject e s
     | Inr org \<Rightarrow> commit (create_account_tx actor newId passwordHash i org) s)"

record account_patch =
  ap_nickname :: "string option"
  ap_passwordHash :: "string option"
  ap_status :: "string option"
  ap_grants :: "grant_input list option"
  ap_orgLevel :: "string option option"
  ap_organizationId :: "string option option"

definition patch_account :: "account_patch \<Rightarrow> bool \<Rightarrow> string option \<times> ident option \<Rightarrow> account \<Rightarrow> account" where
  "patch_account p orgChanged org a =
    (let a1 = (case ap_nickname p of Some t \<Rightarrow> a\<lparr>acc_nickname := t\<rparr> | None \<Rightarrow> a);
         a2 = (if orgChanged then a1\<lparr>acc_orgLevel := fst org, acc_organizationId := snd org\<rparr> else a1);
         a3 = (case ap_passwordHash p of Some h \<Rightarrow> a2\<lparr>acc_passwordHash := h\<rparr> | None \<Rightarrow> a2)
     in if orgChanged \<or> ap_passwordHash p \<noteq> None then bump_session a3 else a3)"

definition update_account_writes ::
  "grant_actor \<Rightarrow> ident \<Rightarrow> account_patch \<Rightarrow> bool \<Rightarrow> string option \<times> ident option \<Rightarrow> (rbac_db, unit) handler" where
  "update_account_writes actor accountId p orgChanged org =
    and_then (case ap_grants p of
        Some gs \<Rightarrow> replaceAccountGrants actor accountId gs (Some (fst org)) | None \<Rightarrow> reply ())
    (\<lambda>_. and_then (case ap_status p of Some st \<Rightarrow> changeAccountStatus actor accountId st | None \<Rightarrow> reply ())
    (\<lambda>_. and_then (modify (set_account accountId (patch_account p orgChanged org)))
    (\<lambda>_. and_then (if orgChanged
        then and_then bumpVersion (\<lambda>_. rb_audit (ga_username actor) ''rbac.account.update'' accountId) else reply ())
    (\<lambda>_. if ap_nickname p \<noteq> None \<or> ap_passwordHash p \<noteq> None
        then rb_audit (ga_username actor) ''rbac.account.update'' accountId else reply ()))))"

definition update_account_tx :: "grant_actor \<Rightarrow> ident \<Rightarrow> account_patch \<Rightarrow> (rbac_db, unit) handler" where
  "update_account_tx actor accountId p s =
    (case find_row acc_id accountId (accounts s) of
       None \<Rightarrow> reject (BadRequest ''no such account'') s
     | Some before \<Rightarrow>
         unless (acc_username before \<noteq> ''admin'') (BadRequest ''the built-in account cannot be edited'')
         (case resolveAccountOrgFields s (ap_orgLevel p) (ap_organizationId p) (Some before) of
            Inl e \<Rightarrow> reject e
          | Inr org \<Rightarrow> update_account_writes actor accountId p
              (fst org \<noteq> acc_orgLevel before \<or> snd org \<noteq> acc_organizationId before) org) s)"

definition updateAccount :: "grant_actor \<Rightarrow> ident \<Rightarrow> account_patch \<Rightarrow> (rbac_service, unit) handler" where
  "updateAccount actor accountId p =
    unless (ap_nickname p \<noteq> None \<or> ap_passwordHash p \<noteq> None \<or> ap_status p \<noteq> None \<or> ap_grants p \<noteq> None \<or>
        ap_orgLevel p \<noteq> None \<or> ap_organizationId p \<noteq> None) (BadRequest ''nothing to update'')
      (commit (update_account_tx actor accountId p))"

text \<open>Deleting an account deletes its grants with it.\<close>

definition delete_account_tx :: "grant_actor \<Rightarrow> ident \<Rightarrow> (rbac_db, unit) handler" where
  "delete_account_tx actor accountId s =
    (case find_row acc_id accountId (accounts s) of
       None \<Rightarrow> reject (BadRequest ''no such account'') s
     | Some account \<Rightarrow>
         unless (acc_username account \<noteq> ''admin'') (BadRequest ''the built-in account cannot be deleted'')
         (unless (\<not> (0 < count_where (\<lambda>g. gr_accountId g = accountId \<and> gr_scope g = ''platform'' \<and>
                 active_super_role s (gr_roleId g)) (grants s) \<and>
               acc_status account = ''active'' \<and> countActiveSupers s \<le> 1))
           (Forbidden ''one super administrator must stay'')
         (and_then (modify (\<lambda>s. s\<lparr>accounts := delete_where (\<lambda>a. acc_id a = accountId) (accounts s),
             grants := delete_where (\<lambda>g. gr_accountId g = accountId) (grants s)\<rparr>))
         (\<lambda>_. and_then bumpVersion
         (\<lambda>_. rb_audit (ga_username actor) ''rbac.account.delete'' accountId)))) s)"

definition deleteAccount :: "grant_actor \<Rightarrow> ident \<Rightarrow> (rbac_service, unit) handler" where
  "deleteAccount actor accountId =
    unless (ga_id actor \<noteq> accountId) (BadRequest ''the own account cannot be deleted'')
      (commit (delete_account_tx actor accountId))"

definition reset_password_tx :: "grant_actor \<Rightarrow> ident \<Rightarrow> string \<Rightarrow> (rbac_db, unit) handler" where
  "reset_password_tx actor accountId passwordHash s =
    (case find_row acc_id accountId (accounts s) of
       None \<Rightarrow> reject (BadRequest ''no such account'') s
     | Some account \<Rightarrow>
         and_then (modify (set_account accountId (\<lambda>a. (bump_session a)\<lparr>acc_passwordHash := passwordHash\<rparr>)))
         (\<lambda>_. rb_audit (ga_username actor) ''rbac.account.reset-password'' accountId) s)"

definition resetAccountPassword ::
  "(string \<Rightarrow> string) \<Rightarrow> grant_actor \<Rightarrow> ident \<Rightarrow> string \<Rightarrow> (rbac_service, unit) handler" where
  "resetAccountPassword hash actor accountId password =
    unless (8 \<le> length password) (BadRequest ''a password has at least eight characters'')
      (commit (reset_password_tx actor accountId (hash password)))"

end
