(* ===== verification/Rbac_Menus.thy ===== *)
theory Rbac_Menus
  imports Rbac_Admin
begin

text \<open>
  The menu tree and the roles of the back office (\<open>src/admin/rbac/rbac.service.ts\<close>). A menu names its
  parent; moving one below another climbs from the new parent to the root and refuses to meet the
  moved node. The climb is a loop that ends only because the tree has no cycle, so it is a partial
  function here; deleting a node collects its subtree breadth first.
\<close>

subsection \<open>Validation\<close>

definition word_char :: "char \<Rightarrow> bool" where
  "word_char c \<longleftrightarrow> c \<in> set ''abcdefghijklmnopqrstuvwxyzABCDEFGHIJKLMNOPQRSTUVWXYZ0123456789_-''"

text \<open>The rest of a route after its first slash: words, each followed by at most one slash.\<close>

fun route_rest :: "bool \<Rightarrow> string \<Rightarrow> bool" where
  "route_rest inWord [] = True"
| "route_rest inWord (c # cs) =
    (if word_char c then route_rest True cs else c = CHR ''/'' \<and> inWord \<and> route_rest False cs)"

definition route_ok :: "string \<Rightarrow> bool" where
  "route_ok path \<longleftrightarrow> (case path of c # cs \<Rightarrow> c = CHR ''/'' \<and> route_rest False cs | [] \<Rightarrow> False)"

text \<open>\<open>https\<close>: the text parses as an address with the protocol https.\<close>

definition validateView :: "(string \<Rightarrow> bool) \<Rightarrow> int \<Rightarrow> string \<Rightarrow> string \<Rightarrow> api_error option" where
  "validateView https t path view =
    (if t \<noteq> 1 then None
     else if \<not> route_ok path \<or> path \<in> set [''/login'', ''/access-denied'']
     then Some (BadRequest ''a route is a path of the site other than the login page'')
     else if \<not> (\<exists>n \<in> set MENU_NODES. nd_type n = 1 \<and> nd_code n = view) \<and> \<not> https view
     then Some (BadRequest ''a page is a registered one or an https address'') else None)"

definition white :: "char \<Rightarrow> bool" where
  "white c \<longleftrightarrow> c \<in> {CHR '' '', CHR 0x09, CHR 0x0A, CHR 0x0B, CHR 0x0C, CHR 0x0D, CHR 0xA0}"

definition perm_pattern :: "string \<Rightarrow> bool" where
  "perm_pattern p \<longleftrightarrow>
    (\<exists>m \<in> set [''GET'', ''POST'', ''PATCH'', ''PUT'', ''DELETE''].
      begins_with (m @ '' /admin/'') p \<and> drop (length (m @ '' /admin/'')) p \<noteq> [] \<and>
      list_all (\<lambda>c. \<not> white c) (drop (length (m @ '' /admin/'')) p))"

fun join :: "string list \<Rightarrow> string" where
  "join [] = []"
| "join [p] = p"
| "join (p # ps) = p @ '','' @ join ps"

definition validatePerms :: "string list option \<Rightarrow> api_error + string option" where
  "validatePerms perms =
    (case perms of
       None \<Rightarrow> Inr None
     | Some ps \<Rightarrow>
         if \<not> list_all perm_pattern ps then Inl (BadRequest ''not a permission pattern'')
         else if \<not> list_all (\<lambda>p. p \<in> set ALL_PERM_PATTERNS) ps then Inl (BadRequest ''not a registered permission'')
         else Inr (Some (join (js_set ps))))"

subsection \<open>Creating a node\<close>

record menu_input =
  mi_name :: "string option"
  mi_type :: "int option"
  mi_parentCode :: "string option"
  mi_parentId :: "ident option option"
  mi_viewPath :: "string option"
  mi_keepAlive :: "bool option"
  mi_isShow :: "bool option"
  mi_perms :: "string list option"
  mi_path :: "string option"
  mi_icon :: "string option"
  mi_orderNum :: "int option"

definition or_else :: "'a option \<Rightarrow> 'a \<Rightarrow> 'a" where
  "or_else x d = (case x of Some v \<Rightarrow> v | None \<Rightarrow> d)"

text \<open>The parent a new node names, by its identity or else by its code.\<close>

definition create_parent :: "rbac_db \<Rightarrow> menu_input \<Rightarrow> api_error + ident option" where
  "create_parent s i =
    (let byId = Option.bind (mi_parentId i) truthy; byCode = truthy (mi_parentCode i)
     in if byId = None \<and> byCode = None then Inr None
        else case (case byId of Some k \<Rightarrow> find_row mn_id k (menus s)
             | None \<Rightarrow> find (\<lambda>m. Some (mn_code m) = byCode) (menus s)) of
            None \<Rightarrow> Inl (BadRequest ''no such parent'')
          | Some p \<Rightarrow> if mn_type p = 2 then Inl (BadRequest ''a button has no children'') else Inr (Some (mn_id p)))"

definition new_menu :: "ident \<Rightarrow> string \<Rightarrow> int \<Rightarrow> ident option \<Rightarrow> string option \<Rightarrow> menu_input \<Rightarrow> admin_menu" where
  "new_menu newId code t parentId perms i =
    \<lparr>mn_id = newId, mn_code = code, mn_parentId = parentId, mn_name = trim (or_else (mi_name i) []), mn_type = t,
     mn_perms = or_else perms [], mn_path = or_else (mi_path i) [], mn_viewPath = or_else (mi_viewPath i) [],
     mn_orderNum = or_else (mi_orderNum i) 0, mn_isShow = or_else (mi_isShow i) True,
     mn_keepAlive = or_else (mi_keepAlive i) False, mn_icon = or_else (mi_icon i) [], mn_status = ''active''\<rparr>"

definition create_menu_tx ::
  "string \<Rightarrow> ident \<Rightarrow> string \<Rightarrow> int \<Rightarrow> string option \<Rightarrow> menu_input \<Rightarrow> (rbac_db, admin_menu) handler" where
  "create_menu_tx operator newId code t perms i s =
    unless (\<not> (t = 1 \<and> (\<exists>m \<in> set (menus s). mn_type m = 1 \<and> mn_path m = or_else (mi_path i) [])))
      (BadRequest ''the route is taken'')
    (case create_parent s i of
       Inl e \<Rightarrow> reject e
     | Inr parentId \<Rightarrow>
         let row = new_menu newId code t parentId perms i
         in and_then (modify (\<lambda>s. s\<lparr>menus := menus s @ [row]\<rparr>))
           (\<lambda>_. and_then bumpVersion
           (\<lambda>_. and_then (rb_audit operator ''rbac.menu.create'' newId) (\<lambda>_. reply row)))) s"

definition createMenu ::
  "(string \<Rightarrow> bool) \<Rightarrow> string \<Rightarrow> ident \<Rightarrow> string \<Rightarrow> menu_input \<Rightarrow> (rbac_service, admin_menu) handler" where
  "createMenu https operator newId code i =
    (let t = or_else (mi_type i) (- 1)
     in unless (t \<in> {0, 1, 2}) (BadRequest ''the type is 0, 1 or 2'')
       (unless (trim (or_else (mi_name i) []) \<noteq> []) (BadRequest ''a menu has a name'')
       (case validatePerms (mi_perms i) of
          Inl e \<Rightarrow> reject e
        | Inr perms \<Rightarrow>
            (case validateView https t (or_else (mi_path i) []) (or_else (mi_viewPath i) []) of
               Some e \<Rightarrow> reject e
             | None \<Rightarrow> commit (create_menu_tx operator newId code t perms i)))))"

subsection \<open>Editing a node\<close>

text \<open>The loop that looks for \<open>k\<close> above \<open>cur\<close>; no value where it does not end.\<close>

partial_function (option) meets :: "admin_menu list \<Rightarrow> ident \<Rightarrow> ident option \<Rightarrow> bool option" where
  "meets ms k cur =
    (case truthy cur of
       None \<Rightarrow> Some False
     | Some c \<Rightarrow>
         if c = k then Some True
         else meets ms k (Option.bind (find_row mn_id c ms) mn_parentId))"

text \<open>The new parent: unchanged, or the one the body names. \<open>None\<close> where the request hangs.\<close>

definition update_parent :: "admin_menu list \<Rightarrow> ident \<Rightarrow> ident option option \<Rightarrow> (api_error + ident option option) option" where
  "update_parent ms k inParent =
    (case inParent of
       None \<Rightarrow> Some (Inr None)
     | Some p \<Rightarrow>
         (case truthy p of
            None \<Rightarrow> Some (Inr (Some None))
          | Some pid \<Rightarrow>
              (case find_row mn_id pid ms of
                 None \<Rightarrow> Some (Inl (BadRequest ''no such parent''))
               | Some parent \<Rightarrow>
                   if mn_type parent = 2 then Some (Inl (BadRequest ''a button has no children''))
                   else if mn_id parent = k then Some (Inl (BadRequest ''a node is not its own parent''))
                   else map_option (\<lambda>b. if b then Inl (BadRequest ''a node cannot move below itself'')
                       else Inr (Some (Some (mn_id parent)))) (meets ms k (mn_parentId parent)))))"

definition patch_menu :: "menu_input \<Rightarrow> string option \<Rightarrow> ident option option \<Rightarrow> admin_menu \<Rightarrow> admin_menu" where
  "patch_menu i perms parentId m =
    m\<lparr>mn_viewPath := or_else (mi_viewPath i) (mn_viewPath m), mn_keepAlive := or_else (mi_keepAlive i) (mn_keepAlive m),
      mn_name := (case mi_name i of Some t \<Rightarrow> trim t | None \<Rightarrow> mn_name m), mn_icon := or_else (mi_icon i) (mn_icon m),
      mn_orderNum := or_else (mi_orderNum i) (mn_orderNum m), mn_isShow := or_else (mi_isShow i) (mn_isShow m),
      mn_type := or_else (mi_type i) (mn_type m), mn_perms := or_else perms (mn_perms m),
      mn_path := or_else (mi_path i) (mn_path m), mn_parentId := or_else parentId (mn_parentId m)\<rparr>"

definition write_menu ::
  "string \<Rightarrow> ident \<Rightarrow> menu_input \<Rightarrow> string option \<Rightarrow> ident option option \<Rightarrow> (rbac_db, unit) handler" where
  "write_menu operator k i perms parentId =
    and_then (modify (\<lambda>s. s\<lparr>menus := update_where (\<lambda>m. mn_id m = k) (patch_menu i perms parentId) (menus s)\<rparr>))
      (\<lambda>_. and_then bumpVersion (\<lambda>_. rb_audit operator ''rbac.menu.update'' k))"

text \<open>The checks before the parent is looked at.\<close>

definition update_menu_checks :: "(string \<Rightarrow> bool) \<Rightarrow> rbac_db \<Rightarrow> ident \<Rightarrow> admin_menu \<Rightarrow> menu_input \<Rightarrow> api_error option" where
  "update_menu_checks https s k m i =
    (let t = or_else (mi_type i) (mn_type m); path = or_else (mi_path i) (mn_path m)
     in case validateView https t path (or_else (mi_viewPath i) (mn_viewPath m)) of
          Some e \<Rightarrow> Some e
        | None \<Rightarrow>
            if t = 2 \<and> (\<exists>c \<in> set (menus s). mn_parentId c = Some k)
            then Some (BadRequest ''a node with children is not a button'')
            else if t = 1 \<and> (\<exists>x \<in> set (menus s). mn_id x \<noteq> k \<and> mn_type x = 1 \<and> mn_path x = path)
            then Some (BadRequest ''the route is taken'') else None)"

definition update_menu_tx ::
  "(string \<Rightarrow> bool) \<Rightarrow> string \<Rightarrow> ident \<Rightarrow> menu_input \<Rightarrow> string option \<Rightarrow> rbac_db \<Rightarrow> (rbac_db, unit) handler option" where
  "update_menu_tx https operator k i perms s =
    (case find_row mn_id k (menus s) of
       None \<Rightarrow> Some (reject (BadRequest ''no such menu''))
     | Some m \<Rightarrow>
         (case update_menu_checks https s k m i of
            Some e \<Rightarrow> Some (reject e)
          | None \<Rightarrow>
              map_option (\<lambda>x. case x of Inl e \<Rightarrow> reject e | Inr parentId \<Rightarrow> write_menu operator k i perms parentId)
                (update_parent (menus s) k (mi_parentId i))))"

definition updateMenu ::
  "(string \<Rightarrow> bool) \<Rightarrow> string \<Rightarrow> ident \<Rightarrow> menu_input \<Rightarrow> rbac_service \<Rightarrow> (rbac_service \<times> (api_error + unit)) option" where
  "updateMenu https operator k i s =
    (if (case mi_type i of Some t \<Rightarrow> t \<notin> {0, 1, 2} | None \<Rightarrow> False)
     then Some (reject (BadRequest ''the type is 0, 1 or 2'') s)
     else case validatePerms (mi_perms i) of
         Inl e \<Rightarrow> Some (reject e s)
       | Inr perms \<Rightarrow> map_option (\<lambda>h. commit h s) (update_menu_tx https operator k i perms (rs_db s)))"

subsection \<open>Deleting a subtree\<close>

definition push_new :: "admin_menu list \<Rightarrow> admin_menu \<Rightarrow> admin_menu list" where
  "push_new sub c = (if \<exists>x \<in> set sub. mn_id x = mn_id c then sub else sub @ [c])"

definition children :: "admin_menu list \<Rightarrow> ident \<Rightarrow> admin_menu list" where
  "children ms k = filter (\<lambda>m. mn_parentId m = Some k) ms"

definition expand :: "admin_menu list \<Rightarrow> admin_menu list \<Rightarrow> admin_menu \<Rightarrow> admin_menu list" where
  "expand ms sub m = foldl push_new sub (children ms (mn_id m))"

definition unseen :: "admin_menu list \<Rightarrow> admin_menu list \<Rightarrow> nat" where
  "unseen ms sub = card (mn_id ` set ms - mn_id ` set sub)"

lemma push_new_measure:
  assumes "c \<in> set ms"
  shows "unseen ms (push_new sub c) + length (push_new sub c) \<le> unseen ms sub + length sub"
proof (cases "mn_id c \<in> mn_id ` set sub")
  case True
  then show ?thesis by (auto simp: push_new_def image_iff)
next
  case False
  then have "unseen ms (push_new sub c) = card (mn_id ` set ms - mn_id ` set sub - {mn_id c})"
    by (auto simp: push_new_def unseen_def image_iff intro!: arg_cong [where f = card])
  also have "\<dots> < card (mn_id ` set ms - mn_id ` set sub)"
    using assms False by (intro card_Diff1_less) auto
  finally have "Suc (unseen ms (push_new sub c)) \<le> unseen ms sub" by (simp add: unseen_def)
  moreover have "length (push_new sub c) \<le> Suc (length sub)" by (simp add: push_new_def)
  ultimately show ?thesis by linarith
qed

lemma expand_measure: "unseen ms (expand ms sub m) + length (expand ms sub m) \<le> unseen ms sub + length sub"
proof -
  have "set cs \<subseteq> set ms \<Longrightarrow>
      unseen ms (foldl push_new sub cs) + length (foldl push_new sub cs) \<le> unseen ms sub + length sub" for cs
  proof (induction cs arbitrary: sub)
    case (Cons c cs)
    then show ?case using push_new_measure [of c ms sub] Cons.IH [of "push_new sub c"] by fastforce
  qed simp
  then show ?thesis unfolding expand_def children_def by simp
qed

function collect :: "admin_menu list \<Rightarrow> admin_menu list \<Rightarrow> nat \<Rightarrow> admin_menu list" where
  "collect ms sub i = (if i < length sub then collect ms (expand ms sub (sub ! i)) (Suc i) else sub)"
  by auto
termination
proof (relation "measure (\<lambda>(ms, sub, i). unseen ms sub + length sub - i)")
  fix ms :: "admin_menu list" and sub :: "admin_menu list" and i
  assume "i < length sub"
  then show "((ms, expand ms sub (sub ! i), Suc i), (ms, sub, i)) \<in> measure (\<lambda>(ms, sub, i). unseen ms sub + length sub - i)"
    using expand_measure [of ms sub "sub ! i"] by simp
qed simp

declare collect.simps [simp del]

definition delete_menu_tx :: "string \<Rightarrow> ident \<Rightarrow> (rbac_db, ident list) handler" where
  "delete_menu_tx operator k s =
    (case find_row mn_id k (menus s) of
       None \<Rightarrow> reject (BadRequest ''no such menu'') s
     | Some m \<Rightarrow>
         let gone = map mn_id (collect (menus s) [m] 0)
         in and_then (modify (\<lambda>s. s\<lparr>menus := delete_where (\<lambda>x. mn_id x \<in> set gone) (menus s),
               role_menus := filter (\<lambda>(r, x). x \<notin> set gone) (role_menus s)\<rparr>))
           (\<lambda>_. and_then bumpVersion
           (\<lambda>_. and_then (rb_audit operator ''rbac.menu.delete'' k) (\<lambda>_. reply gone))) s)"

definition deleteMenu :: "string \<Rightarrow> ident \<Rightarrow> (rbac_service, ident list) handler" where
  "deleteMenu operator k = commit (delete_menu_tx operator k)"

subsection \<open>Roles\<close>

definition assertMenuCodes :: "rbac_db \<Rightarrow> string list \<Rightarrow> api_error option" where
  "assertMenuCodes s codes =
    (if \<forall>c \<in> set codes. \<exists>m \<in> set (menus s). mn_code m = c \<and> mn_status m = ''active'' then None
     else Some (BadRequest ''not a registered menu''))"

definition role_code_ok :: "string \<Rightarrow> bool" where
  "role_code_ok c \<longleftrightarrow> 2 \<le> length c \<and> length c \<le> 40 \<and>
    list_all (\<lambda>x. x \<in> set ''abcdefghijklmnopqrstuvwxyz0123456789-'') c"

definition menu_links :: "ident \<Rightarrow> string list \<Rightarrow> rbac_db \<Rightarrow> (ident \<times> ident) list" where
  "menu_links roleId codes s = map (\<lambda>m. (roleId, mn_id m)) (filter (\<lambda>m. mn_code m \<in> set codes) (menus s))"

definition create_role_tx :: "string \<Rightarrow> ident \<Rightarrow> string \<Rightarrow> string \<Rightarrow> string \<Rightarrow> string list \<Rightarrow> (rbac_db, ident) handler" where
  "create_role_tx operator newId code name remark codes s =
    unless (find_role s code = None) (BadRequest ''the role exists'')
    (case assertMenuCodes s (js_set codes) of
       Some e \<Rightarrow> reject e
     | None \<Rightarrow>
         and_then (modify (\<lambda>s. s\<lparr>roles := roles s @ [\<lparr>rol_id = newId, rol_code = code, rol_name = trim name,
               rol_remark = remark, rol_status = ''active'', rol_builtin = False, rol_seeded = True,
               rol_menusMigrated = True, rol_legacyCodes = [], rol_assignableBy = ''platform'',
               rol_applicableLevel = None\<rparr>], role_menus := role_menus s @ menu_links newId codes s\<rparr>))
         (\<lambda>_. and_then bumpVersion
         (\<lambda>_. and_then (rb_audit operator ''rbac.role.create'' newId) (\<lambda>_. reply newId)))) s"

definition createRole ::
  "string \<Rightarrow> ident \<Rightarrow> string \<Rightarrow> string \<Rightarrow> string option \<Rightarrow> string list \<Rightarrow> (rbac_service, ident) handler" where
  "createRole operator newId rawCode name remark codes =
    (let code = trim rawCode
     in unless (role_code_ok code) (BadRequest ''not a role code'')
       (unless (code \<notin> set (map fst ROLE_TEMPLATES) \<and> code \<noteq> SUPER_ROLE_CODE) (BadRequest ''the code is reserved'')
         (commit (create_role_tx operator newId code name (or_else remark []) codes))))"

record role_patch =
  rp_name :: "string option"
  rp_remark :: "string option"
  rp_status :: "string option"
  rp_menuCodes :: "string list option"

definition patch_role :: "role_patch \<Rightarrow> admin_role \<Rightarrow> admin_role" where
  "patch_role p r =
    r\<lparr>rol_menusMigrated := True, rol_name := (case truthy (rp_name p) of Some t \<Rightarrow> trim t | None \<Rightarrow> rol_name r),
      rol_remark := or_else (rp_remark p) (rol_remark r),
      rol_status := (case truthy (rp_status p) of Some t \<Rightarrow> t | None \<Rightarrow> rol_status r)\<rparr>"

definition update_role_tx :: "string \<Rightarrow> ident \<Rightarrow> role_patch \<Rightarrow> (rbac_db, unit) handler" where
  "update_role_tx operator roleId p s =
    (case (case rp_menuCodes p of Some codes \<Rightarrow> assertMenuCodes s (js_set codes) | None \<Rightarrow> None) of
       Some e \<Rightarrow> reject e
     | None \<Rightarrow>
         and_then (modify (\<lambda>s. s\<lparr>roles := update_where (\<lambda>r. rol_id r = roleId) (patch_role p) (roles s)\<rparr>))
         (\<lambda>_. and_then (modify (case rp_menuCodes p of
              Some codes \<Rightarrow> (\<lambda>s. s\<lparr>role_menus := filter (\<lambda>(r, m). r \<noteq> roleId) (role_menus s) @ menu_links roleId codes s\<rparr>)
            | None \<Rightarrow> (\<lambda>s. s)))
         (\<lambda>_. and_then bumpVersion (\<lambda>_. rb_audit operator ''rbac.role.update'' roleId)))) s"

definition updateRole :: "string \<Rightarrow> ident \<Rightarrow> role_patch \<Rightarrow> (rbac_service, unit) handler" where
  "updateRole operator roleId p s =
    (case find_row rol_id roleId (roles (rs_db s)) of
       None \<Rightarrow> reject (BadRequest ''no such role'') s
     | Some before \<Rightarrow>
         unless (\<not> rol_builtin before) (Forbidden ''the built-in role cannot be edited'')
           (commit (update_role_tx operator roleId p)) s)"

definition delete_role_tx :: "string \<Rightarrow> ident \<Rightarrow> (rbac_db, unit) handler" where
  "delete_role_tx operator roleId s =
    (case find_row rol_id roleId (roles s) of
       None \<Rightarrow> reject (BadRequest ''no such role'') s
     | Some role \<Rightarrow>
         unless (\<not> rol_builtin role) (Forbidden ''the built-in role cannot be deleted'')
         (unless (count_where (\<lambda>g. gr_roleId g = roleId) (grants s) = 0) (BadRequest ''the role is in use'')
         (and_then (modify (\<lambda>s. s\<lparr>role_menus := filter (\<lambda>(r, m). r \<noteq> roleId) (role_menus s),
              roles := delete_where (\<lambda>r. rol_id r = roleId) (roles s)\<rparr>))
         (\<lambda>_. and_then bumpVersion (\<lambda>_. rb_audit operator ''rbac.role.delete'' roleId)))) s)"

definition deleteRole :: "string \<Rightarrow> ident \<Rightarrow> (rbac_service, unit) handler" where
  "deleteRole operator roleId = commit (delete_role_tx operator roleId)"

end
