(* ===== verification/Rbac_Steps.thy ===== *)
theory Rbac_Steps
  imports Rbac_Menus Samples
begin

text \<open>
  The writes of access control as one step relation, and the life of one instance of the service: its
  own writes clear its cache, those of another instance only change the tables, requests fill the
  cache and time passes. New identities are fresh.
\<close>

subsection \<open>Writes\<close>

definition fresh :: "ident \<Rightarrow> ident list \<Rightarrow> bool" where
  "fresh k ks \<longleftrightarrow> k \<noteq> [] \<and> k \<notin> set ks"

text \<open>The status of a request is one of two (\<open>admin/dto.ts\<close>).\<close>

definition account_statuses :: "string list" where
  "account_statuses = [''active'', ''disabled'']"

definition patch_statuses_ok :: "account_patch \<Rightarrow> bool" where
  "patch_statuses_ok p \<longleftrightarrow> (case ap_status p of Some st \<Rightarrow> st \<in> set account_statuses | None \<Rightarrow> True)"

inductive rbac_write :: "rbac_service \<Rightarrow> rbac_service \<Rightarrow> bool" where
  create_menu: "fresh newId (map mn_id (menus (rs_db s))) \<Longrightarrow>
    rbac_write s (fst (createMenu https operator newId code mi s))"
| update_menu: "updateMenu https operator k mi s = Some (s', r) \<Longrightarrow> rbac_write s s'"
| delete_menu: "rbac_write s (fst (deleteMenu operator k s))"
| create_role: "fresh newId (map rol_id (roles (rs_db s))) \<Longrightarrow>
    rbac_write s (fst (createRole operator newId code name remark codes s))"
| update_role: "rbac_write s (fst (updateRole operator roleId rp s))"
| delete_role: "rbac_write s (fst (deleteRole operator roleId s))"
| set_roles: "rbac_write s (fst (setAccountRoles actor accountId gs s))"
| set_status: "status \<in> set account_statuses \<Longrightarrow> rbac_write s (fst (setAccountStatus actor accountId status s))"
| create_account: "fresh newId (map acc_id (accounts (rs_db s))) \<Longrightarrow>
    rbac_write s (fst (createAccount actor newId h ai s))"
| update_account: "patch_statuses_ok ap \<Longrightarrow> rbac_write s (fst (updateAccount actor accountId ap s))"
| delete_account: "rbac_write s (fst (deleteAccount actor accountId s))"
| reset_password: "rbac_write s (fst (resetAccountPassword hash actor accountId password s))"

subsection \<open>One instance among several\<close>

text \<open>A remote write changes the tables and not this instance's cache; the campuses belong to another
  part of the program and change without notice.\<close>

inductive node_step :: "rbac_service \<times> millis \<Rightarrow> rbac_service \<times> millis \<Rightarrow> bool" where
  local: "rbac_write s s' \<Longrightarrow> node_step (s, now) (s', now)"
| remote: "rbac_write (s\<lparr>rs_cache := c\<rparr>) s' \<Longrightarrow> node_step (s, now) (s\<lparr>rs_db := rs_db s'\<rparr>, now)"
| request: "node_step (s, now) (fst (canActivate now userId sv m path s), now)"
| campus: "node_step (s, now) (s\<lparr>rs_db := (rs_db s)\<lparr>rb_campuses := cs\<rparr>\<rparr>, now)"
| tick: "now \<le> now' \<Longrightarrow> node_step (s, now) (s, now')"

subsection \<open>Rules\<close>

lemma rs_db_commit: "rs_db (fst (commit h s)) = fst (transaction h (rs_db s))"
  by (simp add: commit_def split: prod.split sum.split)

lemma commit_keeps: "keeps I h \<Longrightarrow> I (rs_db s) \<Longrightarrow> I (rs_db (fst (commit h s)))"
  by (simp add: rs_db_commit keepsD keeps_transaction)

lemma commit_cases:
  obtains (failed) e where "commit h s = (s, Inl e)"
  | (written) d r where "h (rs_db s) = (d, Inr r)" "commit h s = (s\<lparr>rs_db := d, rs_cache := (\<lambda>_. None)\<rparr>, Inr r)"
proof (cases "h (rs_db s)")
  case (Pair d x)
  then show ?thesis using that by (cases x) (auto simp: commit_def transaction_def)
qed

text \<open>The rules of \<open>keeps\<close> at one state, for handlers that are built from the state they run in.\<close>

lemma keeps_at:
  "I s \<Longrightarrow> I (fst (reply r s))"
  "I s \<Longrightarrow> I (fst (reject e s))"
  "I s \<Longrightarrow> keeps I h \<Longrightarrow> I (fst (unless ok e h s))"
  "I s \<Longrightarrow> keeps I h \<Longrightarrow> (\<And>r. keeps I (k r)) \<Longrightarrow> I (fst (and_then h k s))"
  by (simp_all add: reply_def reject_def keepsD [OF keeps_unless] keepsD [OF keeps_and_then])

lemmas keeps_rules = keeps_reply keeps_reject keeps_unless keeps_and_then

subsection \<open>Frames\<close>

text \<open>An invariant that does not look at the counter and the log; then one that also ignores the accounts
  and grants, the roles or the menus is kept by all operations on them.\<close>

locale rbac_frame =
  fixes I :: "rbac_db \<Rightarrow> bool"
  assumes version: "I d \<Longrightarrow> I (d\<lparr>rb_version := v\<rparr>)"
    and audits: "I d \<Longrightarrow> I (d\<lparr>rb_audits := l\<rparr>)"
begin

lemmas at = keeps_at [where I = I]

lemma bumpVersion [intro]: "keeps I bumpVersion"
  by (auto simp: keeps_def bumpVersion_def reject_def intro: version split: option.split)

lemma rb_audit [intro]: "keeps I (rb_audit operator action k)"
  by (simp add: keeps_def rb_audit_def audits)

end

locale account_frame = rbac_frame +
  assumes accs: "I d \<Longrightarrow> I (d\<lparr>accounts := xs\<rparr>)"
    and grnts: "I d \<Longrightarrow> I (d\<lparr>grants := gs\<rparr>)"
begin

lemma set_account [intro]: "keeps I (modify (set_account k f))"
  by (rule keeps_modify) (simp add: set_account_def accs)

lemma write_grants [intro]: "keeps I (modify (write_grants actor account gs))"
  by (rule keeps_modify) (simp add: write_grants_def grnts)

lemma align_campus [intro]: "keeps I (modify (align_campus account gs))"
  by (rule keeps_modify) (auto simp: align_campus_def set_account_def accs split: list.split)

lemma replaceAccountGrants: "keeps I (replaceAccountGrants actor k gs l)"
proof (rule keepsI)
  fix s assume "I s"
  then show "I (fst (replaceAccountGrants actor k gs l s))"
    unfolding replaceAccountGrants_def Let_def
    by (auto split: option.split intro!: at keeps_rules)
qed

lemma changeAccountStatus: "keeps I (changeAccountStatus actor k status)"
proof (rule keepsI)
  fix s assume "I s"
  then show "I (fst (changeAccountStatus actor k status s))"
    unfolding changeAccountStatus_def
    by (auto split: option.split intro!: at keeps_rules)
qed

lemma create_account_tx: "keeps I (create_account_tx actor newId h i org)"
proof (rule keepsI)
  fix s assume "I s"
  then show "I (fst (create_account_tx actor newId h i org s))"
    unfolding create_account_tx_def Let_def
    by (auto intro!: at keeps_rules keeps_modify replaceAccountGrants accs)
qed

lemma update_account_tx: "keeps I (update_account_tx actor k p)"
proof (rule keepsI)
  fix s assume "I s"
  then show "I (fst (update_account_tx actor k p s))"
    unfolding update_account_tx_def update_account_writes_def
    by (auto split: option.split sum.split
        intro!: at keeps_rules replaceAccountGrants changeAccountStatus)
qed

lemma delete_account_tx: "keeps I (delete_account_tx actor k)"
proof (rule keepsI)
  fix s assume "I s"
  moreover have "I (d\<lparr>accounts := xs, grants := gs\<rparr>)" if "I d" for d xs gs
    using grnts [OF accs [OF that, of xs], of gs] by simp
  ultimately show "I (fst (delete_account_tx actor k s))"
    unfolding delete_account_tx_def
    by (auto split: option.split intro!: at keeps_rules keeps_modify)
qed

lemma reset_password_tx: "keeps I (reset_password_tx actor k h)"
proof (rule keepsI)
  fix s assume "I s"
  then show "I (fst (reset_password_tx actor k h s))"
    unfolding reset_password_tx_def
    by (auto split: option.split intro!: at keeps_rules)
qed

end

locale role_frame = rbac_frame +
  assumes rols: "I d \<Longrightarrow> I (d\<lparr>roles := rs\<rparr>)"
    and links: "I d \<Longrightarrow> I (d\<lparr>role_menus := ls\<rparr>)"
begin

lemma both: "I d \<Longrightarrow> I (d\<lparr>roles := rs, role_menus := ls\<rparr>)" "I d \<Longrightarrow> I (d\<lparr>role_menus := ls, roles := rs\<rparr>)"
  by (auto dest: rols links)

lemma create_role_tx: "keeps I (create_role_tx operator newId code name remark codes)"
proof (rule keepsI)
  fix s assume "I s"
  then show "I (fst (create_role_tx operator newId code name remark codes s))"
    unfolding create_role_tx_def
    by (auto split: option.split intro!: at keeps_rules keeps_modify both)
qed

lemma update_role_tx: "keeps I (update_role_tx operator k p)"
proof (rule keepsI)
  fix s assume "I s"
  then show "I (fst (update_role_tx operator k p s))"
    unfolding update_role_tx_def
    by (auto split: option.split intro!: at keeps_rules keeps_modify rols links)
qed

lemma delete_role_tx: "keeps I (delete_role_tx operator k)"
proof (rule keepsI)
  fix s assume "I s"
  then show "I (fst (delete_role_tx operator k s))"
    unfolding delete_role_tx_def
    by (auto split: option.split intro!: at keeps_rules keeps_modify both)
qed

end

lemma update_menu_tx_cases:
  assumes "update_menu_tx https operator k i perms d = Some h"
  obtains (refused) e where "h = reject e"
  | (written) m parentId where "find_row mn_id k (menus d) = Some m" "update_menu_checks https d k m i = None"
      "update_parent (menus d) k (mi_parentId i) = Some (Inr parentId)" "h = write_menu operator k i perms parentId"
proof (cases "find_row mn_id k (menus d)")
  case None
  then show ?thesis using assms refused [of "BadRequest ''no such menu''"] by (simp add: update_menu_tx_def)
next
  case (Some m)
  show ?thesis
  proof (cases "update_menu_checks https d k m i")
    case None
    then obtain x where x: "update_parent (menus d) k (mi_parentId i) = Some x"
      "h = (case x of Inl e \<Rightarrow> reject e | Inr parentId \<Rightarrow> write_menu operator k i perms parentId)"
      using assms Some by (auto simp: update_menu_tx_def)
    then show ?thesis using refused written [OF Some None] by (cases x) auto
  next
    case (Some e)
    then show ?thesis using assms refused [of e] \<open>find_row mn_id k (menus d) = Some m\<close> by (simp add: update_menu_tx_def)
  qed
qed

locale menu_frame = rbac_frame +
  assumes mns: "I d \<Longrightarrow> I (d\<lparr>menus := ms\<rparr>)"
    and links: "I d \<Longrightarrow> I (d\<lparr>role_menus := ls\<rparr>)"
begin

lemma create_menu_tx: "keeps I (create_menu_tx operator newId code t perms i)"
proof (rule keepsI)
  fix s assume "I s"
  then show "I (fst (create_menu_tx operator newId code t perms i s))"
    unfolding create_menu_tx_def Let_def
    by (auto split: sum.split intro!: at keeps_rules keeps_modify mns)
qed

lemma write_menu: "keeps I (write_menu operator k i perms parentId)"
  unfolding write_menu_def by (auto intro!: keeps_rules keeps_modify mns)

lemma update_menu_tx: "update_menu_tx https operator k i perms d = Some h \<Longrightarrow> keeps I h"
  by (erule update_menu_tx_cases) (auto intro: keeps_reject write_menu)

lemma delete_menu_tx: "keeps I (delete_menu_tx operator k)"
proof (rule keepsI)
  fix s assume "I s"
  moreover have "I (d\<lparr>menus := ms, role_menus := ls\<rparr>)" if "I d" for d ms ls
    using links [OF mns [OF that, of ms], of ls] by simp
  ultimately show "I (fst (delete_menu_tx operator k s))"
    unfolding delete_menu_tx_def Let_def
    by (auto split: option.split intro!: at keeps_rules keeps_modify)
qed

end

subsection \<open>The transactions of the writes\<close>

inductive rbac_tx :: "rbac_db \<Rightarrow> rbac_db \<Rightarrow> bool" where
  create_menu: "fresh newId (map mn_id (menus d)) \<Longrightarrow> create_menu_tx operator newId code t perms i d = (d', Inr m) \<Longrightarrow> rbac_tx d d'"
| update_menu: "update_menu_tx https operator k i perms d = Some h \<Longrightarrow> h d = (d', Inr u) \<Longrightarrow> rbac_tx d d'"
| delete_menu: "delete_menu_tx operator k d = (d', Inr ks) \<Longrightarrow> rbac_tx d d'"
| create_role: "fresh newId (map rol_id (roles d)) \<Longrightarrow> code \<noteq> SUPER_ROLE_CODE \<Longrightarrow>
    create_role_tx operator newId code name remark codes d = (d', Inr k) \<Longrightarrow> rbac_tx d d'"
| update_role: "find_row rol_id k (roles d) = Some r \<Longrightarrow> \<not> rol_builtin r \<Longrightarrow>
    update_role_tx operator k p d = (d', Inr u) \<Longrightarrow> rbac_tx d d'"
| delete_role: "delete_role_tx operator k d = (d', Inr u) \<Longrightarrow> rbac_tx d d'"
| set_roles: "replaceAccountGrants actor k gs None d = (d', Inr u) \<Longrightarrow> rbac_tx d d'"
| set_status: "status \<in> set account_statuses \<Longrightarrow> changeAccountStatus actor k status d = (d', Inr u) \<Longrightarrow> rbac_tx d d'"
| create_account: "fresh newId (map acc_id (accounts d)) \<Longrightarrow>
    resolveAccountOrgFields d (ai_orgLevel ai) (ai_organizationId ai) None = Inr org \<Longrightarrow>
    create_account_tx actor newId pw ai org d = (d', Inr k) \<Longrightarrow> rbac_tx d d'"
| update_account: "patch_statuses_ok ap \<Longrightarrow> update_account_tx actor k ap d = (d', Inr u) \<Longrightarrow> rbac_tx d d'"
| delete_account: "delete_account_tx actor k d = (d', Inr u) \<Longrightarrow> rbac_tx d d'"
| reset_password: "reset_password_tx actor k pw d = (d', Inr u) \<Longrightarrow> rbac_tx d d'"

text \<open>A write changes nothing, or it is one transaction and the cache is empty after it.\<close>

definition committed :: "rbac_service \<Rightarrow> rbac_service \<Rightarrow> bool" where
  "committed s s' \<longleftrightarrow> s' = s \<or> rbac_tx (rs_db s) (rs_db s') \<and> rs_cache s' = (\<lambda>_. None)"

lemma committedI:
  assumes "\<And>d r. h (rs_db s) = (d, Inr r) \<Longrightarrow> rbac_tx (rs_db s) d"
  shows "committed s (fst (commit h s))"
  by (cases rule: commit_cases [of h s]) (auto simp: committed_def dest: assms)

lemma committed_same [simp]: "committed s s"
  by (simp add: committed_def)

lemma write_committed: "rbac_write s s' \<Longrightarrow> committed s s'"
proof (induction rule: rbac_write.induct)
  case (create_menu newId s https operator code mi)
  then show ?case
    by (auto simp: createMenu_def Let_def unless_def reject_def split: sum.split option.split
        intro!: committedI intro: rbac_tx.create_menu)
next
  case (update_menu https operator k mi s s' r)
  show ?case
  proof (cases "validatePerms (mi_perms mi)")
    case (Inl e)
    then show ?thesis using update_menu by (auto simp: updateMenu_def reject_def split: if_splits)
  next
    case (Inr perms)
    show ?thesis
    proof (cases "case mi_type mi of Some t \<Rightarrow> t \<notin> {0, 1, 2} | None \<Rightarrow> False")
      case True
      then show ?thesis using update_menu by (simp add: updateMenu_def reject_def)
    next
      case False
      then obtain h where h: "update_menu_tx https operator k mi perms (rs_db s) = Some h" "commit h s = (s', r)"
        using update_menu Inr by (auto simp: updateMenu_def)
      have "committed s (fst (commit h s))" by (rule committedI) (rule rbac_tx.update_menu [OF h(1)])
      then show ?thesis using h(2) by simp
    qed
  qed
next
  case (delete_menu s operator k)
  then show ?case by (auto simp: deleteMenu_def intro!: committedI intro: rbac_tx.delete_menu)
next
  case (create_role newId s operator code name remark codes)
  then show ?case
    by (auto simp: createRole_def Let_def unless_def reject_def intro!: committedI intro: rbac_tx.create_role)
next
  case (update_role s operator roleId rp)
  then show ?case
    by (auto simp: updateRole_def unless_def reject_def split: option.split
        intro!: committedI intro: rbac_tx.update_role)
next
  case (delete_role s operator roleId)
  then show ?case by (auto simp: deleteRole_def intro!: committedI intro: rbac_tx.delete_role)
next
  case (set_roles s actor accountId gs)
  then show ?case by (auto simp: setAccountRoles_def intro!: committedI intro: rbac_tx.set_roles)
next
  case (set_status status s actor accountId)
  then show ?case by (auto simp: setAccountStatus_def intro!: committedI intro: rbac_tx.set_status)
next
  case (create_account newId s actor h ai)
  then show ?case
    by (auto simp: createAccount_def reject_def split: sum.split intro!: committedI intro: rbac_tx.create_account)
next
  case (update_account ap s actor accountId)
  then show ?case
    by (auto simp: updateAccount_def unless_def reject_def intro!: committedI intro: rbac_tx.update_account)
next
  case (delete_account s actor accountId)
  then show ?case
    by (auto simp: deleteAccount_def unless_def reject_def intro!: committedI intro: rbac_tx.delete_account)
next
  case (reset_password s hash actor accountId password)
  then show ?case
    by (auto simp: resetAccountPassword_def unless_def reject_def intro!: committedI intro: rbac_tx.reset_password)
qed

lemma write_invariant:
  assumes "\<And>d d'. rbac_tx d d' \<Longrightarrow> I d \<Longrightarrow> I d'" and "rbac_write\<^sup>*\<^sup>* s s'" and "I (rs_db s)"
  shows "I (rs_db s')"
  using assms(2,3)
proof (induction rule: rtranclp_induct)
  case (step s1 s2)
  then show ?case using write_committed [of s1 s2] assms(1) by (auto simp: committed_def)
qed

text \<open>Where a handler keeps an invariant, so does a successful run.\<close>

lemma keeps_ok: "h d = (d', Inr r) \<Longrightarrow> I d \<Longrightarrow> keeps I h \<Longrightarrow> I d'"
  by (metis fst_conv keepsD)

end
