(* ===== verification/Rbac_Theorems.thy ===== *)
theory Rbac_Theorems
  imports Rbac_Steps
begin

text \<open>
  What the writes of access control keep: a super administrator who can log in, no way to become
  one, and tables that agree with each other.
\<close>

subsection \<open>What a successful transaction has done\<close>

lemma bump_audit_ok [ok_simps]:
  "bumpVersion d = (d', Inr u) \<longleftrightarrow> (\<exists>v. rb_version d = Some v \<and> d' = d\<lparr>rb_version := Some (v + 1)\<rparr>)"
  "rb_audit operator action k d = (d', Inr u) \<longleftrightarrow>
    d' = d\<lparr>rb_audits := rb_audits d @ [\<lparr>al_operator = operator, al_action = action, al_entityId = k\<rparr>]\<rparr>"
  by (auto simp: bumpVersion_def reject_def rb_audit_def split: option.splits)

lemma create_role_effect:
  assumes "create_role_tx operator newId code name remark codes d = (d', Inr k)"
  shows "accounts d' = accounts d \<and> grants d' = grants d \<and> (\<exists>r. rol_id r = newId \<and> rol_code r = code \<and> roles d' = roles d @ [r])"
  using assms by (auto simp: create_role_tx_def ok_simps split: option.splits)

lemma update_role_effect:
  assumes "update_role_tx operator k p d = (d', Inr u)"
  shows "accounts d' = accounts d \<and> grants d' = grants d \<and>
    roles d' = update_where (\<lambda>r. rol_id r = k) (patch_role p) (roles d)"
  using assms by (auto simp: update_role_tx_def ok_simps split: option.splits)

lemma delete_role_effect:
  assumes "delete_role_tx operator k d = (d', Inr u)"
  shows "accounts d' = accounts d \<and> grants d' = grants d \<and> roles d' = delete_where (\<lambda>r. rol_id r = k) (roles d) \<and>
    (\<forall>g \<in> set (grants d). gr_roleId g \<noteq> k) \<and> (\<exists>r. find_row rol_id k (roles d) = Some r \<and> \<not> rol_builtin r)"
  using assms by (auto simp: delete_role_tx_def ok_simps count_where_0 split: option.splits)

text \<open>An edit of account rows that keeps what the invariants look at.\<close>

definition edits :: "(account \<Rightarrow> account) \<Rightarrow> bool" where
  "edits f \<longleftrightarrow> (\<forall>a. acc_id (f a) = acc_id a \<and> acc_username (f a) = acc_username a \<and> acc_status (f a) = acc_status a \<and>
    acc_orgLevel (f a) = acc_orgLevel a \<and> acc_organizationId (f a) = acc_organizationId a)"

lemma update_where_twice:
  assumes "\<And>a. P (f a) = P a"
  shows "update_where P g (update_where P f rows) = update_where P (\<lambda>a. g (f a)) rows"
  by (induction rows) (auto simp: assms)

definition grants_guard :: "rbac_db \<Rightarrow> account \<Rightarrow> bool" where
  "grants_guard d account \<longleftrightarrow>
    \<not> ((\<exists>g \<in> set (grants d). gr_accountId g = acc_id account \<and> super_grant d g) \<and>
      acc_status account = ''active'' \<and> countActiveSupers d \<le> 1)"

lemma check_grants_None: "check_grants d actor l gs = None \<longleftrightarrow> (\<forall>g \<in> set gs. check_grant d actor l g = None)"
  by (induction gs) (auto split: option.split)

lemma check_grant_None:
  assumes "check_grant d actor l g = None"
  shows "gi_roleCode g \<noteq> SUPER_ROLE_CODE \<and>
    (gi_scope g = ''platform'' \<and> truthy (gi_campusId g) = None \<or> gi_scope g = ''campus'' \<and> truthy (gi_campusId g) \<noteq> None) \<and>
    (\<exists>r. find_role d (gi_roleCode g) = Some r \<and>
      canAssignRole actor (Some (rol_assignableBy r)) (rol_applicableLevel r) l)"
  using assms by (auto simp: check_grant_def split: if_splits option.splits)

lemma grants_effect:
  assumes "replaceAccountGrants actor k gs lvl d = (d', Inr u)"
  shows "\<exists>account f l. find_row acc_id k (accounts d) = Some account \<and> (\<forall>g \<in> set gs. check_grant d actor l g = None) \<and>
    length (js_set (map gi_roleCode gs)) \<le> 1 \<and> grants_guard d account \<and> roles d' = roles d \<and>
    grants d' = delete_where (\<lambda>g. gr_accountId g = k) (grants d) @ map (grant_row d (ga_username actor) k) gs \<and>
    edits f \<and> accounts d' = update_where (\<lambda>a. acc_id a = k) f (accounts d)"
proof -
  have "find_row acc_id k (accounts d) \<noteq> None"
    using assms unfolding replaceAccountGrants_def by (rule contrapos_pn) (simp add: reject_def)
  then obtain account where acc: "find_row acc_id k (accounts d) = Some account" by blast
  have id: "acc_id account = k" using find_row_SomeD [OF acc] by simp
  define l where "l = normalizeOrgLevel (case lvl of Some l \<Rightarrow> l | None \<Rightarrow> acc_orgLevel account) (acc_campusId account)"
  note run = assms [unfolded replaceAccountGrants_def acc option.case Let_def, folded l_def]
  have chk: "check_grants d actor l gs = None" and one: "length (js_set (map gi_roleCode gs)) \<le> 1"
    using run by (cases "check_grants d actor l gs"; simp add: unless_ok reject_ok)+
  then have all: "\<forall>g \<in> set gs. check_grant d actor l g = None" by (simp add: check_grants_None)
  then have "\<not> (\<exists>g \<in> set gs. gi_roleCode g = SUPER_ROLE_CODE \<and> gi_scope g = ''platform'')"
    using check_grant_None by blast
  then have guard: "grants_guard d account"
    and d': "\<exists>v l. d' = (set_account k (\<lambda>a. (bump_session a)\<lparr>acc_rbacMigrated := True\<rparr>)
        (align_campus account gs (write_grants actor account gs d)))\<lparr>rb_version := v, rb_audits := l\<rparr>"
    using run unfolding chk option.case by (auto simp: ok_simps grants_guard_def id)
  define f :: "account \<Rightarrow> account" where "f = (\<lambda>a. bump_session a\<lparr>acc_rbacMigrated := True\<rparr>)"
  have "\<exists>g. edits g \<and> accounts (align_campus account gs (write_grants actor account gs d)) =
      update_where (\<lambda>a. acc_id a = k) g (accounts d)"
  proof -
    have "edits (\<lambda>a. a)" "accounts d = update_where (\<lambda>a. acc_id a = k) (\<lambda>a. a) (accounts d)"
      by (simp_all add: edits_def update_where_def)
    moreover have "edits (\<lambda>a. a\<lparr>acc_campusId := c\<rparr>)" for c by (simp add: edits_def)
    ultimately show ?thesis
      using id by (auto simp: align_campus_def set_account_def write_grants_def split: list.split)
  qed
  then obtain g where g: "edits g" "accounts (align_campus account gs (write_grants actor account gs d)) =
      update_where (\<lambda>a. acc_id a = k) g (accounts d)" by blast
  have "edits (\<lambda>a. f (g a))" using g(1) by (simp add: edits_def f_def bump_session_def)
  moreover have "accounts d' = update_where (\<lambda>a. acc_id a = k) (\<lambda>a. f (g a)) (accounts d)"
    using d' g by (auto simp: set_account_def f_def update_where_twice edits_def)
  moreover have "roles d' = roles d"
    "grants d' = delete_where (\<lambda>g. gr_accountId g = k) (grants d) @ map (grant_row d (ga_username actor) k) gs"
    using d' id by (auto simp: set_account_def align_campus_def write_grants_def split: list.splits)
  ultimately show ?thesis using acc all one guard by blast
qed

lemma status_effect:
  assumes "changeAccountStatus actor k status d = (d', Inr u)"
  shows "d' = d \<or> (\<exists>f. \<not> (status = ''disabled'' \<and> (\<exists>g \<in> set (grants d). gr_accountId g = k \<and> super_grant d g) \<and>
      countActiveSupers d \<le> 1) \<and> roles d' = roles d \<and> grants d' = grants d \<and>
    accounts d' = update_where (\<lambda>a. acc_id a = k) f (accounts d) \<and>
    (\<forall>a. acc_id (f a) = acc_id a \<and> acc_status (f a) = status \<and> acc_username (f a) = acc_username a \<and>
      acc_orgLevel (f a) = acc_orgLevel a \<and> acc_organizationId (f a) = acc_organizationId a))"
proof -
  obtain account where acc: "find_row acc_id k (accounts d) = Some account"
    using assms by (cases "find_row acc_id k (accounts d)") (simp_all add: changeAccountStatus_def reject_def)
  note run = assms [unfolded changeAccountStatus_def acc option.case]
  show ?thesis
  proof (cases "acc_status account = status")
    case True
    then show ?thesis using run by (simp add: reply_ok)
  next
    case False
    let ?f = "\<lambda>a. bump_session (a\<lparr>acc_status := status\<rparr>)"
    have "\<not> (status = ''disabled'' \<and> (\<exists>g \<in> set (grants d). gr_accountId g = k \<and> super_grant d g) \<and> countActiveSupers d \<le> 1)"
      using run False by (simp add: unless_ok count_where_gt0)
    moreover have "roles d' = roles d \<and> grants d' = grants d \<and> accounts d' = update_where (\<lambda>a. acc_id a = k) ?f (accounts d)"
      using run False by (auto simp: ok_simps set_account_def update_where_twice)
    ultimately show ?thesis by (intro disjI2 exI [of _ ?f]) (simp add: bump_session_def)
  qed
qed

lemma create_account_effect:
  assumes "create_account_tx actor newId h i org d = (d', Inr k)"
  shows "\<exists>row d2. replaceAccountGrants actor newId (case ai_grants i of Some gs \<Rightarrow> gs | None \<Rightarrow> []) None
      (d\<lparr>accounts := accounts d @ [row]\<rparr>) = (d2, Inr ()) \<and>
    acc_id row = newId \<and> acc_status row = ''active'' \<and> acc_orgLevel row = fst org \<and> acc_organizationId row = snd org \<and>
    accounts d' = accounts d2 \<and> roles d' = roles d2 \<and> grants d' = grants d2 \<and> menus d' = menus d2 \<and>
    role_menus d' = role_menus d2 \<and> rb_version d' = rb_version d2"
  using assms unfolding create_account_tx_def Let_def by (fastforce simp: ok_simps)

text \<open>An update runs the three parts one after the other.\<close>

lemma update_account_effect:
  assumes "update_account_tx actor k p d = (d', Inr u)"
  obtains before org ch d1 d2 where "find_row acc_id k (accounts d) = Some before"
    "resolveAccountOrgFields d (ap_orgLevel p) (ap_organizationId p) (Some before) = Inr org"
    "ch \<longleftrightarrow> fst org \<noteq> acc_orgLevel before \<or> snd org \<noteq> acc_organizationId before"
    "case ap_grants p of None \<Rightarrow> d1 = d | Some gs \<Rightarrow> replaceAccountGrants actor k gs (Some (fst org)) d = (d1, Inr ())"
    "case ap_status p of None \<Rightarrow> d2 = d1 | Some st \<Rightarrow> changeAccountStatus actor k st d1 = (d2, Inr ())"
    "roles d' = roles d2" "grants d' = grants d2" "menus d' = menus d2" "role_menus d' = role_menus d2"
    "accounts d' = update_where (\<lambda>a. acc_id a = k) (patch_account p ch org) (accounts d2)"
    "rb_version d' = (if ch then map_option (\<lambda>v. v + 1) (rb_version d2) else rb_version d2)"
    "ch \<Longrightarrow> rb_version d2 \<noteq> None"
proof -
  obtain before where b: "find_row acc_id k (accounts d) = Some before"
    using assms by (cases "find_row acc_id k (accounts d)") (simp_all add: update_account_tx_def reject_def)
  note run = assms [unfolded update_account_tx_def b option.case]
  obtain org where o: "resolveAccountOrgFields d (ap_orgLevel p) (ap_organizationId p) (Some before) = Inr org"
    using run by (cases "resolveAccountOrgFields d (ap_orgLevel p) (ap_organizationId p) (Some before)")
      (simp_all add: unless_ok reject_ok)
  define ch where "ch = (fst org \<noteq> acc_orgLevel before \<or> snd org \<noteq> acc_organizationId before)"
  have w: "update_account_writes actor k p ch org d = (d', Inr u)"
    using run unfolding o sum.case ch_def by (simp add: unless_ok)
  then obtain d1 d2 where 1: "(case ap_grants p of Some gs \<Rightarrow> replaceAccountGrants actor k gs (Some (fst org)) | None \<Rightarrow> reply ()) d = (d1, Inr ())"
    and 2: "(case ap_status p of Some st \<Rightarrow> changeAccountStatus actor k st | None \<Rightarrow> reply ()) d1 = (d2, Inr ())"
    and 3: "and_then (modify (set_account k (patch_account p ch org))) (\<lambda>_.
      and_then (if ch then and_then bumpVersion (\<lambda>_. rb_audit (ga_username actor) ''rbac.account.update'' k) else reply ())
      (\<lambda>_. if ap_nickname p \<noteq> None \<or> ap_passwordHash p \<noteq> None
        then rb_audit (ga_username actor) ''rbac.account.update'' k else reply ())) d2 = (d', Inr u)"
    unfolding update_account_writes_def and_then_ok by auto
  have "roles d' = roles d2" "grants d' = grants d2" "menus d' = menus d2" "role_menus d' = role_menus d2"
      "accounts d' = update_where (\<lambda>a. acc_id a = k) (patch_account p ch org) (accounts d2)"
      "rb_version d' = (if ch then map_option (\<lambda>v. v + 1) (rb_version d2) else rb_version d2)"
      "ch \<Longrightarrow> rb_version d2 \<noteq> None"
    using 3 by (auto simp: ok_simps set_account_def split: if_splits)
  moreover have "case ap_grants p of None \<Rightarrow> d1 = d | Some gs \<Rightarrow> replaceAccountGrants actor k gs (Some (fst org)) d = (d1, Inr ())"
    using 1 by (auto simp: reply_ok split: option.split)
  moreover have "case ap_status p of None \<Rightarrow> d2 = d1 | Some st \<Rightarrow> changeAccountStatus actor k st d1 = (d2, Inr ())"
    using 2 by (auto simp: reply_ok split: option.split)
  ultimately show ?thesis using that b o ch_def by blast
qed

lemma delete_account_effect:
  assumes "delete_account_tx actor k d = (d', Inr u)"
  shows "\<exists>account. find_row acc_id k (accounts d) = Some account \<and>
    \<not> ((\<exists>g \<in> set (grants d). gr_accountId g = k \<and> gr_scope g = ''platform'' \<and> active_super_role d (gr_roleId g)) \<and>
      acc_status account = ''active'' \<and> countActiveSupers d \<le> 1) \<and> roles d' = roles d \<and>
    accounts d' = delete_where (\<lambda>a. acc_id a = k) (accounts d) \<and>
    grants d' = delete_where (\<lambda>g. gr_accountId g = k) (grants d)"
proof -
  obtain account where acc: "find_row acc_id k (accounts d) = Some account"
    using assms by (cases "find_row acc_id k (accounts d)") (simp_all add: delete_account_tx_def reject_def)
  show ?thesis using assms unfolding delete_account_tx_def acc option.case
    by (auto simp: ok_simps count_where_gt0 acc)
qed

lemma edits_of_field:
  assumes "edits f"
  shows "acc_id (f a) = acc_id a" "acc_status (f a) = acc_status a"
  using assms by (simp_all add: edits_def)

subsection \<open>The super administrators\<close>

definition supers_ok :: "rbac_db \<Rightarrow> bool" where
  "supers_ok d \<longleftrightarrow> distinct (map acc_id (accounts d)) \<and> distinct (map rol_id (roles d)) \<and>
    (\<forall>r \<in> set (roles d). rol_code r = SUPER_ROLE_CODE \<longrightarrow> rol_builtin r \<and> rol_status r = ''active'') \<and>
    distinct (map gr_accountId (filter (super_grant d) (grants d))) \<and>
    (\<exists>g \<in> set (grants d). active_super_grant d g)"

text \<open>The pairs of account and role that make someone a super administrator.\<close>

definition super_holders :: "rbac_db \<Rightarrow> ident set" where
  "super_holders d = {gr_accountId g | g. g \<in> set (grants d) \<and> super_grant d g}"

lemma supers_okD:
  assumes "supers_ok d"
  shows "distinct (map acc_id (accounts d))" "distinct (map rol_id (roles d))"
    "\<And>r. r \<in> set (roles d) \<Longrightarrow> rol_code r = SUPER_ROLE_CODE \<Longrightarrow> rol_builtin r \<and> rol_status r = ''active''"
    "distinct (map gr_accountId (filter (super_grant d) (grants d)))"
    "\<exists>g \<in> set (grants d). active_super_grant d g"
  using assms by (simp_all add: supers_ok_def)

lemma is_super_active: "supers_ok d \<Longrightarrow> is_super_role d k \<Longrightarrow> active_super_role d k"
  using find_row_SomeD [of rol_id k "roles d"] supers_okD(3) [of d]
  by (auto simp: is_super_role_def active_super_role_def split: option.splits)

lemma active_is_super: "active_super_grant d g \<Longrightarrow> super_grant d g"
  by (auto simp: active_super_grant_def super_grant_def active_super_role_def is_super_role_def split: option.splits)

lemma active_super_iff:
  assumes "supers_ok d"
  shows "active_super_grant d g \<longleftrightarrow> super_grant d g \<and> active_account d (gr_accountId g)"
  using active_is_super is_super_active [OF assms] by (auto simp: active_super_grant_def super_grant_def)

text \<open>Where the count is more than one, another account than a given one is counted.\<close>

lemma another_super:
  assumes ok: "supers_ok d" and "1 < countActiveSupers d"
  shows "\<exists>g \<in> set (grants d). active_super_grant d g \<and> gr_accountId g \<noteq> k"
proof (rule ccontr)
  assume "\<not> ?thesis"
  then have "set (map gr_accountId (filter (active_super_grant d) (grants d))) \<subseteq> {k}" by auto
  moreover have "distinct (map gr_accountId (filter (active_super_grant d) (grants d)))"
  proof -
    have "filter (active_super_grant d) (grants d) = filter (active_super_grant d) (filter (super_grant d) (grants d))"
      by (auto simp: active_is_super intro!: filter_cong)
    then show ?thesis using supers_okD(4) [OF ok] by (metis distinct_map_filter)
  qed
  ultimately have "length (map gr_accountId (filter (active_super_grant d) (grants d))) \<le> card {k}"
    by (metis card_mono distinct_card finite.emptyI finite.insertI)
  then show False using assms(2) by (simp add: countActiveSupers_def count_where_def)
qed

text \<open>The roles of the super administrator are never touched.\<close>

lemma super_grant_roles:
  assumes "\<And>k. is_super_role d' k = is_super_role d k"
  shows "super_grant d' g = super_grant d g"
  using assms by (simp add: super_grant_def)

text \<open>One lemma for all transactions: no new holder, and one that is active stays.\<close>

lemma supers_step:
  assumes ok: "supers_ok d"
    and acc: "distinct (map acc_id (accounts d'))" and rol: "distinct (map rol_id (roles d'))"
    and role: "\<And>k. is_super_role d' k = is_super_role d k"
    and builtin: "\<And>r. r \<in> set (roles d') \<Longrightarrow> rol_code r = SUPER_ROLE_CODE \<Longrightarrow> rol_builtin r \<and> rol_status r = ''active''"
    and grants: "filter (super_grant d) (grants d') = filter Q (filter (super_grant d) (grants d))"
    and stays: "\<exists>g \<in> set (grants d). active_super_grant d g \<and> Q g \<and> active_account d' (gr_accountId g)"
  shows "supers_ok d' \<and> super_holders d' \<subseteq> super_holders d"
proof -
  have sg: "super_grant d' = super_grant d" by (rule ext) (rule super_grant_roles [OF role])
  have keep: "g \<in> set (filter (super_grant d) (grants d')) \<longleftrightarrow> g \<in> set (grants d) \<and> super_grant d g \<and> Q g" for g
    unfolding grants by auto
  obtain g where g: "g \<in> set (grants d)" "active_super_grant d g" "Q g" "active_account d' (gr_accountId g)"
    using stays by blast
  then have in_d': "g \<in> set (filter (super_grant d) (grants d'))" using keep active_is_super by blast
  have sup: "is_super_role d' (gr_roleId g)" "gr_scope g = ''platform''"
    using in_d' role by (auto simp: super_grant_def)
  then obtain r where r: "find_row rol_id (gr_roleId g) (roles d') = Some r" "rol_code r = SUPER_ROLE_CODE"
    by (auto simp: is_super_role_def split: option.splits)
  then have "rol_status r = ''active''" using builtin find_row_SomeD [OF r(1)] by blast
  then have "active_super_grant d' g" using r sup g(4) by (simp add: active_super_grant_def active_super_role_def)
  moreover have "distinct (map gr_accountId (filter (super_grant d') (grants d')))"
    unfolding sg grants using supers_okD(4) [OF ok] by (rule distinct_map_filter)
  moreover have "super_holders d' \<subseteq> super_holders d" using keep unfolding super_holders_def sg by auto
  ultimately show ?thesis using acc rol builtin in_d' unfolding supers_ok_def by auto
qed

lemma supers_same_roles:
  assumes ok: "supers_ok d" and rol: "roles d' = roles d" and acc: "distinct (map acc_id (accounts d'))"
    and grants: "filter (super_grant d) (grants d') = filter Q (filter (super_grant d) (grants d))"
    and stays: "\<exists>g \<in> set (grants d). active_super_grant d g \<and> Q g \<and> active_account d' (gr_accountId g)"
  shows "supers_ok d' \<and> super_holders d' \<subseteq> super_holders d"
proof (rule supers_step [OF ok acc _ _ _ grants stays])
  show "distinct (map rol_id (roles d'))" using supers_okD(2) [OF ok] by (simp add: rol)
  show "is_super_role d' k = is_super_role d k" for k by (simp add: is_super_role_def rol)
  show "rol_builtin r \<and> rol_status r = ''active''" if "r \<in> set (roles d')" "rol_code r = SUPER_ROLE_CODE" for r
    using supers_okD(3) [OF ok] that by (simp add: rol)
qed

lemma active_account_edit:
  assumes "\<And>a. acc_id (f a) = acc_id a" and "\<And>a. acc_status (f a) = acc_status a"
    and "accounts d' = update_where P f (accounts d)"
  shows "active_account d' k = active_account d k"
  unfolding active_account_def assms(3) find_row_update_where [where key = acc_id and f = f, OF assms(1)]
  by (simp add: assms(2) split: option.split)

lemma grant_row_plain:
  assumes "check_grant d actor l g = None" and "distinct (map rol_id (roles d))"
  shows "\<not> super_grant d (grant_row d by k g)"
proof -
  obtain r where r: "find_role d (gi_roleCode g) = Some r" "gi_roleCode g \<noteq> SUPER_ROLE_CODE"
    using check_grant_None [OF assms(1)] by blast
  then have "r \<in> set (roles d)" "rol_code r = gi_roleCode g" by (auto simp: find_role_def find_Some_iff)
  then show ?thesis
    using r find_row_unique [OF assms(2)] by (simp add: super_grant_def is_super_role_def grant_row_def)
qed

lemma supers_grants:
  assumes run: "replaceAccountGrants actor k gs lvl d = (d', Inr u)" and ok: "supers_ok d"
  shows "supers_ok d' \<and> super_holders d' \<subseteq> super_holders d"
proof -
  obtain account f l where acc: "find_row acc_id k (accounts d) = Some account"
    and chk: "\<forall>g \<in> set gs. check_grant d actor l g = None" and guard: "grants_guard d account"
    and rol: "roles d' = roles d"
    and gr: "grants d' = delete_where (\<lambda>g. gr_accountId g = k) (grants d) @ map (grant_row d (ga_username actor) k) gs"
    and f: "edits f" and accs: "accounts d' = update_where (\<lambda>a. acc_id a = k) f (accounts d)"
    using grants_effect [OF run] by blast
  have id: "acc_id account = k" using find_row_SomeD [OF acc] by simp
  have act: "active_account d' c = active_account d c" for c
    by (rule active_account_edit [OF _ _ accs]) (simp_all add: edits_of_field f)
  show ?thesis
  proof (rule supers_same_roles [OF ok rol, where Q = "\<lambda>g. gr_accountId g \<noteq> k"])
    show "distinct (map acc_id (accounts d'))"
      using supers_okD(1) [OF ok] f by (simp add: accs map_key_update_where edits_def)
    have "filter (super_grant d) (map (grant_row d (ga_username actor) k) gs) = []"
      using chk grant_row_plain supers_okD(2) [OF ok] by (auto simp: filter_empty_conv)
    then show "filter (super_grant d) (grants d') = filter (\<lambda>g. gr_accountId g \<noteq> k) (filter (super_grant d) (grants d))"
      by (auto simp: gr delete_where_def intro: filter_cong)
    obtain g where g: "g \<in> set (grants d)" "active_super_grant d g" using supers_okD(5) [OF ok] by blast
    have "\<exists>g \<in> set (grants d). active_super_grant d g \<and> gr_accountId g \<noteq> k"
    proof (cases "gr_accountId g = k")
      case True
      then have "acc_status account = ''active''" using g(2) acc by (simp add: active_super_grant_def active_account_def)
      then have "1 < countActiveSupers d"
        using guard g True id active_is_super unfolding grants_guard_def by force
      then show ?thesis by (rule another_super [OF ok])
    qed (use g in blast)
    then show "\<exists>g \<in> set (grants d). active_super_grant d g \<and> gr_accountId g \<noteq> k \<and> active_account d' (gr_accountId g)"
      using act by (auto simp: active_super_grant_def)
  qed
qed

lemma supers_status:
  assumes run: "changeAccountStatus actor k status d = (d', Inr u)" and ok: "supers_ok d"
    and st: "status \<in> set account_statuses"
  shows "supers_ok d' \<and> super_holders d' \<subseteq> super_holders d"
proof -
  from status_effect [OF run] consider "d' = d"
    | f where "\<not> (status = ''disabled'' \<and> (\<exists>g \<in> set (grants d). gr_accountId g = k \<and> super_grant d g) \<and> countActiveSupers d \<le> 1)"
      "roles d' = roles d" "grants d' = grants d" "accounts d' = update_where (\<lambda>a. acc_id a = k) f (accounts d)"
      "\<And>a. acc_id (f a) = acc_id a" "\<And>a. acc_status (f a) = status" by blast
  then show ?thesis
  proof cases
    case 1
    then show ?thesis using ok by simp
  next
    case (2 f)
    have act: "active_account d' c = (if c = k \<and> c \<in> acc_id ` set (accounts d) then status = ''active'' else active_account d c)" for c
      unfolding active_account_def 2(4) find_row_update_where [where key = acc_id and f = f, OF 2(5)]
      using 2(6) by (auto simp: find_row_None dest: find_row_SomeD split: option.split)
    obtain g where g: "g \<in> set (grants d)" "active_super_grant d g" using supers_okD(5) [OF ok] by blast
    have "\<exists>g \<in> set (grants d). active_super_grant d g \<and> active_account d' (gr_accountId g)"
    proof (cases "status = ''active''")
      case True
      then show ?thesis using g act by (auto simp: active_super_grant_def)
    next
      case False
      then have dis: "status = ''disabled''" using st by (simp add: account_statuses_def)
      show ?thesis
      proof (cases "gr_accountId g = k")
        case True
        then have "1 < countActiveSupers d" using 2(1) dis g active_is_super by force
        then obtain h where "h \<in> set (grants d)" "active_super_grant d h" "gr_accountId h \<noteq> k"
          using another_super [OF ok] by blast
        then show ?thesis using act by (auto simp: active_super_grant_def)
      next
        case False
        then show ?thesis using g act by (auto simp: active_super_grant_def)
      qed
    qed
    then show ?thesis
      by (intro supers_same_roles [OF ok 2(2), where Q = "\<lambda>_. True"])
        (simp_all add: 2 map_key_update_where supers_okD(1) [OF ok])
  qed
qed

text \<open>An edit of the account rows alone.\<close>

lemma supers_edit:
  assumes ok: "supers_ok d" and "roles d' = roles d" and "grants d' = grants d"
    and "accounts d' = update_where P f (accounts d)"
    and "\<And>a. acc_id (f a) = acc_id a" and "\<And>a. acc_status (f a) = acc_status a"
  shows "supers_ok d' \<and> super_holders d' \<subseteq> super_holders d"
proof -
  have "active_account d' c = active_account d c" for c by (rule active_account_edit [OF assms(5,6,4)])
  then show ?thesis using supers_okD(5) [OF ok]
    by (intro supers_same_roles [OF ok assms(2), where Q = "\<lambda>_. True"])
      (auto simp: assms(3-5) map_key_update_where supers_okD(1) [OF ok] active_super_grant_def)
qed

lemma patch_account_fields [simp]:
  "acc_id (patch_account p ch org a) = acc_id a" "acc_status (patch_account p ch org a) = acc_status a"
  "acc_username (patch_account p ch org a) = acc_username a"
  by (simp_all add: patch_account_def Let_def bump_session_def split: option.split)

lemma supers_create:
  assumes run: "create_account_tx actor newId h i org d = (d', Inr k)" and ok: "supers_ok d"
    and fresh: "fresh newId (map acc_id (accounts d))"
  shows "supers_ok d' \<and> super_holders d' \<subseteq> super_holders d"
proof -
  obtain row d2 where step: "replaceAccountGrants actor newId (case ai_grants i of Some gs \<Rightarrow> gs | None \<Rightarrow> []) None
      (d\<lparr>accounts := accounts d @ [row]\<rparr>) = (d2, Inr ())"
    and row: "acc_id row = newId" and d': "accounts d' = accounts d2" "roles d' = roles d2" "grants d' = grants d2"
    using create_account_effect [OF run] by blast
  let ?d1 = "d\<lparr>accounts := accounts d @ [row]\<rparr>"
  have "active_account ?d1 c" if "active_account d c" for c
    using that by (auto simp: active_account_def find_row_append split: option.splits)
  then have "supers_ok ?d1 \<and> super_holders ?d1 \<subseteq> super_holders d"
    using supers_okD(5) [OF ok] fresh row
    by (intro supers_same_roles [OF ok, where Q = "\<lambda>_. True"])
      (auto simp: supers_okD(1) [OF ok] active_super_grant_def fresh_def)
  then have "supers_ok d2 \<and> super_holders d2 \<subseteq> super_holders d" using supers_grants [OF step] by blast
  moreover have "supers_ok d' \<longleftrightarrow> supers_ok d2" "super_holders d' = super_holders d2"
    using d' by (auto simp: supers_ok_def super_holders_def super_grant_def is_super_role_def active_super_grant_def
        active_super_role_def active_account_def cong: filter_cong)
  ultimately show ?thesis by simp
qed

lemma find_row_deleted: "find_row key c (delete_where (\<lambda>r. key r = k) rows) = (if c = k then None else find_row key c rows)"
  by (induction rows) (auto simp: delete_where_def)

lemma supers_update:
  assumes run: "update_account_tx actor k p d = (d', Inr u)" and ok: "supers_ok d" and st: "patch_statuses_ok p"
  shows "supers_ok d' \<and> super_holders d' \<subseteq> super_holders d"
proof -
  obtain before org ch d1 d2 where
    1: "case ap_grants p of None \<Rightarrow> d1 = d | Some gs \<Rightarrow> replaceAccountGrants actor k gs (Some (fst org)) d = (d1, Inr ())"
    and 2: "case ap_status p of None \<Rightarrow> d2 = d1 | Some st \<Rightarrow> changeAccountStatus actor k st d1 = (d2, Inr ())"
    and 3: "roles d' = roles d2" "grants d' = grants d2"
      "accounts d' = update_where (\<lambda>a. acc_id a = k) (patch_account p ch org) (accounts d2)"
    using run by (rule update_account_effect) (rule that)
  have a: "supers_ok d1 \<and> super_holders d1 \<subseteq> super_holders d"
    using 1 ok supers_grants by (auto split: option.splits)
  then have b: "supers_ok d2 \<and> super_holders d2 \<subseteq> super_holders d1"
    using 2 st supers_status by (auto simp: patch_statuses_ok_def split: option.splits)
  then have "supers_ok d' \<and> super_holders d' \<subseteq> super_holders d2" by (intro supers_edit [OF _ 3]) simp_all
  then show ?thesis using a b by blast
qed

lemma supers_reset:
  assumes run: "reset_password_tx actor k pw d = (d', Inr u)" and ok: "supers_ok d"
  shows "supers_ok d' \<and> super_holders d' \<subseteq> super_holders d"
proof -
  have "roles d' = roles d" "grants d' = grants d"
    "accounts d' = update_where (\<lambda>a. acc_id a = k) (\<lambda>a. (bump_session a)\<lparr>acc_passwordHash := pw\<rparr>) (accounts d)"
    using run by (auto simp: reset_password_tx_def reject_def ok_simps set_account_def split: option.splits)
  then show ?thesis by (rule supers_edit [OF ok]) (simp_all add: bump_session_def)
qed

lemma supers_delete:
  assumes run: "delete_account_tx actor k d = (d', Inr u)" and ok: "supers_ok d"
  shows "supers_ok d' \<and> super_holders d' \<subseteq> super_holders d"
proof -
  obtain account where acc: "find_row acc_id k (accounts d) = Some account"
    and guard: "\<not> ((\<exists>g \<in> set (grants d). gr_accountId g = k \<and> gr_scope g = ''platform'' \<and> active_super_role d (gr_roleId g)) \<and>
      acc_status account = ''active'' \<and> countActiveSupers d \<le> 1)"
    and d': "roles d' = roles d" "accounts d' = delete_where (\<lambda>a. acc_id a = k) (accounts d)"
      "grants d' = delete_where (\<lambda>g. gr_accountId g = k) (grants d)"
    using delete_account_effect [OF run] by blast
  obtain g where g: "g \<in> set (grants d)" "active_super_grant d g" using supers_okD(5) [OF ok] by blast
  have "\<exists>g \<in> set (grants d). active_super_grant d g \<and> gr_accountId g \<noteq> k"
  proof (cases "gr_accountId g = k")
    case True
    then have "1 < countActiveSupers d"
      using guard g acc by (fastforce simp: active_super_grant_def active_account_def)
    then show ?thesis by (rule another_super [OF ok])
  qed (use g in blast)
  moreover have "active_account d' c = active_account d c" if "c \<noteq> k" for c
    using that by (simp add: active_account_def d' find_row_deleted)
  ultimately have stays: "\<exists>g \<in> set (grants d). active_super_grant d g \<and> gr_accountId g \<noteq> k \<and> active_account d' (gr_accountId g)"
    by (auto simp: active_super_grant_def)
  have "distinct (map acc_id (accounts d'))" using supers_okD(1) [OF ok] by (simp add: d' delete_where_def distinct_map_filter)
  then show ?thesis
    by (rule supers_same_roles [OF ok d'(1) _ _ stays]) (auto simp: d' delete_where_def intro: filter_cong)
qed

subsection \<open>Roles and super administrators\<close>

lemma supers_roles:
  assumes ok: "supers_ok d" and same: "accounts d' = accounts d" "grants d' = grants d"
    and "distinct (map rol_id (roles d'))"
    and "\<And>k. is_super_role d' k = is_super_role d k"
    and "\<And>r. r \<in> set (roles d') \<Longrightarrow> rol_code r = SUPER_ROLE_CODE \<Longrightarrow> rol_builtin r \<and> rol_status r = ''active''"
  shows "supers_ok d' \<and> super_holders d' \<subseteq> super_holders d"
proof (rule supers_step [OF ok _ assms(4-6), where Q = "\<lambda>_. True"])
  show "\<exists>g \<in> set (grants d). active_super_grant d g \<and> True \<and> active_account d' (gr_accountId g)"
    using supers_okD(5) [OF ok] by (auto simp: active_super_grant_def active_account_def same)
qed (simp_all add: same supers_okD(1) [OF ok])

lemma supers_create_role:
  assumes run: "create_role_tx operator newId code name remark codes d = (d', Inr k)" and ok: "supers_ok d"
    and fresh: "fresh newId (map rol_id (roles d))" and code: "code \<noteq> SUPER_ROLE_CODE"
  shows "supers_ok d' \<and> super_holders d' \<subseteq> super_holders d"
proof -
  obtain r where r: "rol_id r = newId" "rol_code r = code" "roles d' = roles d @ [r]"
    and same: "accounts d' = accounts d" "grants d' = grants d" using create_role_effect [OF run] by blast
  show ?thesis
  proof (rule supers_roles [OF ok same])
    show "is_super_role d' k = is_super_role d k" for k
      using r code by (auto simp: is_super_role_def find_row_append split: option.split)
    show "distinct (map rol_id (roles d'))" using r fresh supers_okD(2) [OF ok] by (auto simp: fresh_def)
  qed (use r code supers_okD(3) [OF ok] in auto)
qed

lemma supers_update_role:
  assumes run: "update_role_tx operator k p d = (d', Inr u)" and ok: "supers_ok d"
    and r: "find_row rol_id k (roles d) = Some r" "\<not> rol_builtin r"
  shows "supers_ok d' \<and> super_holders d' \<subseteq> super_holders d"
proof -
  have d': "roles d' = update_where (\<lambda>r. rol_id r = k) (patch_role p) (roles d)"
    and same: "accounts d' = accounts d" "grants d' = grants d" using update_role_effect [OF run] by auto
  have f: "rol_id (patch_role p x) = rol_id x" "rol_code (patch_role p x) = rol_code x" for x by (simp_all add: patch_role_def)
  have "x = r" if "x \<in> set (roles d)" "rol_id x = k" for x
    using that find_row_unique [OF supers_okD(2) [OF ok]] r(1) by auto
  then have plain: "rol_code x \<noteq> SUPER_ROLE_CODE" if "x \<in> set (roles d)" "rol_id x = k" for x
    using that r(2) supers_okD(3) [OF ok, of x] by blast
  show ?thesis
  proof (rule supers_roles [OF ok same])
    show "is_super_role d' c = is_super_role d c" for c
      unfolding is_super_role_def d' find_row_update_where [where key = rol_id and f = "patch_role p", OF f(1)]
      by (simp add: f split: option.split)
    show "distinct (map rol_id (roles d'))" using supers_okD(2) [OF ok] by (simp add: d' map_key_update_where f)
    show "rol_builtin x \<and> rol_status x = ''active''" if x: "x \<in> set (roles d')" "rol_code x = SUPER_ROLE_CODE" for x
      using x plain f supers_okD(3) [OF ok] unfolding d' by (auto dest!: update_whereD)
  qed
qed

lemma supers_delete_role:
  assumes run: "delete_role_tx operator k d = (d', Inr u)" and ok: "supers_ok d"
  shows "supers_ok d' \<and> super_holders d' \<subseteq> super_holders d"
proof -
  obtain r where r: "find_row rol_id k (roles d) = Some r" "\<not> rol_builtin r"
    and d': "roles d' = delete_where (\<lambda>r. rol_id r = k) (roles d)"
    and same: "accounts d' = accounts d" "grants d' = grants d" using delete_role_effect [OF run] by auto
  have "rol_code r \<noteq> SUPER_ROLE_CODE" using r supers_okD(3) [OF ok, of r] find_row_SomeD [OF r(1)] by blast
  then have plain: "\<not> is_super_role d k" using r by (simp add: is_super_role_def)
  show ?thesis
  proof (rule supers_roles [OF ok same])
    show "is_super_role d' c = is_super_role d c" for c
      using plain by (cases "c = k") (simp_all add: is_super_role_def d' find_row_deleted)
  qed (use supers_okD(2,3) [OF ok] in \<open>auto simp: d' delete_where_def distinct_map_filter\<close>)
qed

text \<open>The operations on menus do not touch accounts, roles and grants.\<close>

interpretation supers_mns: menu_frame "\<lambda>d. supers_ok d \<and> super_holders d \<subseteq> H" for H
  by unfold_locales (auto simp: supers_ok_def super_holders_def super_grant_def is_super_role_def active_super_grant_def
      active_super_role_def active_account_def cong: filter_cong)

lemma tx_supers:
  assumes "rbac_tx d d'" and ok: "supers_ok d"
  shows "supers_ok d' \<and> super_holders d' \<subseteq> super_holders d"
  using assms(1)
proof cases
  case create_menu
  show ?thesis by (rule keeps_ok [OF create_menu(2) _ supers_mns.create_menu_tx]) (simp add: ok)
next
  case (update_menu https operator k i perms h u)
  show ?thesis by (rule keeps_ok [OF update_menu(2) _ supers_mns.update_menu_tx [OF update_menu(1)]]) (simp add: ok)
next
  case delete_menu
  show ?thesis by (rule keeps_ok [OF delete_menu(1) _ supers_mns.delete_menu_tx]) (simp add: ok)
next
  case create_role
  show ?thesis by (rule supers_create_role [OF create_role(3) ok create_role(1,2)])
next
  case update_role
  show ?thesis by (rule supers_update_role [OF update_role(3) ok update_role(1,2)])
next
  case delete_role
  show ?thesis by (rule supers_delete_role [OF delete_role ok])
next
  case set_roles
  show ?thesis by (rule supers_grants [OF set_roles ok])
next
  case set_status
  show ?thesis by (rule supers_status [OF set_status(2) ok set_status(1)])
next
  case create_account
  show ?thesis by (rule supers_create [OF create_account(3) ok create_account(1)])
next
  case update_account
  show ?thesis by (rule supers_update [OF update_account(2) ok update_account(1)])
next
  case delete_account
  show ?thesis by (rule supers_delete [OF delete_account ok])
next
  case reset_password
  show ?thesis by (rule supers_reset [OF reset_password ok])
qed

subsection \<open>Tables that agree with each other\<close>

definition account_typed :: "account \<Rightarrow> bool" where
  "account_typed a \<longleftrightarrow> acc_id a \<noteq> [] \<and> acc_status a \<in> set account_statuses \<and>
    (acc_orgLevel a = Some ''org'' \<longleftrightarrow> truthy (acc_organizationId a) \<noteq> None)"

definition grant_typed :: "rbac_db \<Rightarrow> role_grant \<Rightarrow> bool" where
  "grant_typed d g \<longleftrightarrow> gr_accountId g \<in> acc_id ` set (accounts d) \<and> gr_roleId g \<in> rol_id ` set (roles d) \<and>
    (gr_scope g = ''platform'' \<and> gr_campusId g = None \<or> gr_scope g = ''campus'' \<and> truthy (gr_campusId g) \<noteq> None)"

definition rbac_typed :: "rbac_db \<Rightarrow> bool" where
  "rbac_typed d \<longleftrightarrow> distinct (map acc_id (accounts d)) \<and> (\<forall>a \<in> set (accounts d). account_typed a) \<and>
    (\<forall>g \<in> set (grants d). grant_typed d g) \<and>
    (\<forall>g \<in> set (grants d). \<forall>g' \<in> set (grants d). gr_accountId g = gr_accountId g' \<longrightarrow> gr_roleId g = gr_roleId g')"

lemma rbac_typedD:
  assumes "rbac_typed d"
  shows "distinct (map acc_id (accounts d))" "\<And>a. a \<in> set (accounts d) \<Longrightarrow> account_typed a"
    "\<And>g. g \<in> set (grants d) \<Longrightarrow> grant_typed d g"
    "\<And>g g'. g \<in> set (grants d) \<Longrightarrow> g' \<in> set (grants d) \<Longrightarrow> gr_accountId g = gr_accountId g' \<Longrightarrow> gr_roleId g = gr_roleId g'"
  using assms unfolding rbac_typed_def by blast+

lemma rbac_typedI:
  assumes "distinct (map acc_id (accounts d))" and "\<And>a. a \<in> set (accounts d) \<Longrightarrow> account_typed a"
    and "\<And>g. g \<in> set (grants d) \<Longrightarrow> grant_typed d g"
    and "\<And>g g'. g \<in> set (grants d) \<Longrightarrow> g' \<in> set (grants d) \<Longrightarrow> gr_accountId g = gr_accountId g' \<Longrightarrow> gr_roleId g = gr_roleId g'"
  shows "rbac_typed d"
  using assms unfolding rbac_typed_def by blast

lemma rbac_typed_other_fields:
  "rbac_typed (d\<lparr>rb_version := v\<rparr>) = rbac_typed d" "rbac_typed (d\<lparr>rb_audits := l\<rparr>) = rbac_typed d"
  "rbac_typed (d\<lparr>menus := ms\<rparr>) = rbac_typed d" "rbac_typed (d\<lparr>role_menus := ls\<rparr>) = rbac_typed d"
  by (simp_all add: rbac_typed_def grant_typed_def)

text \<open>The grants stay, the accounts and roles keep their identities.\<close>

lemma typed_frame:
  assumes ok: "rbac_typed d" and "grants d' = grants d" and "map acc_id (accounts d') = map acc_id (accounts d)"
    and "\<And>a. a \<in> set (accounts d') \<Longrightarrow> account_typed a"
    and "rol_id ` set (roles d) \<inter> gr_roleId ` set (grants d) \<subseteq> rol_id ` set (roles d')"
  shows "rbac_typed d'"
proof -
  have ids: "acc_id ` set (accounts d') = acc_id ` set (accounts d)" using assms(3) by (metis set_map)
  have "\<forall>g \<in> set (grants d). grant_typed d' g"
    using rbac_typedD(3) [OF ok] assms(5) unfolding grant_typed_def ids by blast
  then show ?thesis unfolding rbac_typed_def assms(2,3)
    using assms(4) rbac_typedD(1) [OF ok] rbac_typedD(4) [OF ok] by blast
qed

lemma typed_edit:
  assumes ok: "rbac_typed d" and "roles d' = roles d" and "grants d' = grants d"
    and acc: "accounts d' = update_where P f (accounts d)" and "\<And>a. acc_id (f a) = acc_id a"
    and "\<And>a. a \<in> set (accounts d) \<Longrightarrow> P a \<Longrightarrow> account_typed (f a)"
  shows "rbac_typed d'"
proof (rule typed_frame [OF ok assms(3)])
  show "map acc_id (accounts d') = map acc_id (accounts d)" by (simp add: acc map_key_update_where assms(5))
  show "account_typed a" if "a \<in> set (accounts d')" for a
    using that assms(6) rbac_typedD(2) [OF ok] unfolding acc by (auto dest!: update_whereD)
qed (simp add: assms(2))

lemma single_role:
  assumes "length (js_set xs) \<le> 1" and "x \<in> set xs" and "y \<in> set xs"
  shows "x = y"
proof -
  have "x \<in> set (js_set xs)" "y \<in> set (js_set xs)" using assms by simp_all
  then show ?thesis using assms(1) by (cases "js_set xs") auto
qed

lemma typed_grants:
  assumes run: "replaceAccountGrants actor k gs lvl d = (d', Inr u)" and ok: "rbac_typed d"
  shows "rbac_typed d'"
proof -
  obtain account f l where acc: "find_row acc_id k (accounts d) = Some account"
    and chk: "\<forall>g \<in> set gs. check_grant d actor l g = None" and one: "length (js_set (map gi_roleCode gs)) \<le> 1"
    and rol: "roles d' = roles d"
    and gr: "grants d' = delete_where (\<lambda>g. gr_accountId g = k) (grants d) @ map (grant_row d (ga_username actor) k) gs"
    and f: "edits f" and accs: "accounts d' = update_where (\<lambda>a. acc_id a = k) f (accounts d)"
    using grants_effect [OF run] by blast
  let ?new = "map (grant_row d (ga_username actor) k) gs"
  define d1 where "d1 = d\<lparr>grants := grants d'\<rparr>"
  have new: "grant_typed d1 g" if "g \<in> set ?new" for g
  proof -
    obtain i where i: "i \<in> set gs" "g = grant_row d (ga_username actor) k i" using \<open>g \<in> set ?new\<close> by auto
    then have c: "check_grant d actor l i = None" using chk by blast
    obtain r where r: "find_role d (gi_roleCode i) = Some r" using check_grant_None [OF c] by blast
    then have "r \<in> set (roles d)" by (auto simp: find_role_def find_Some_iff)
    then show ?thesis using i r check_grant_None [OF c] find_row_SomeD [OF acc]
      by (auto simp: grant_typed_def grant_row_def d1_def)
  qed
  have same: "gr_roleId g = gr_roleId g'" if g: "g \<in> set ?new" "g' \<in> set ?new" for g g'
  proof -
    obtain i j where "i \<in> set gs" "j \<in> set gs" "g = grant_row d (ga_username actor) k i" "g' = grant_row d (ga_username actor) k j"
      using g by auto
    moreover have "gi_roleCode i = gi_roleCode j" by (rule single_role [OF one]) (use calculation in auto)
    ultimately show ?thesis by (simp add: grant_row_def)
  qed
  have at: "gr_accountId g = k" if "g \<in> set ?new" for g using that by (auto simp: grant_row_def)
  have old: "g \<in> set (grants d) \<and> gr_accountId g \<noteq> k" if "g \<in> set (delete_where (\<lambda>g. gr_accountId g = k) (grants d))" for g
    using that by (simp add: delete_where_def)
  have parts: "g \<in> set ?new \<and> gr_accountId g = k \<or> g \<in> set (grants d) \<and> gr_accountId g \<noteq> k"
    if "g \<in> set (grants d1)" for g
  proof -
    have "set (grants d1) = set (delete_where (\<lambda>g. gr_accountId g = k) (grants d)) \<union> set ?new" by (simp add: d1_def gr)
    then show ?thesis using that at old by blast
  qed
  have "rbac_typed d1" unfolding rbac_typed_def
  proof (intro conjI ballI impI)
    have "grant_typed d1 g = grant_typed d g" for g by (simp add: grant_typed_def d1_def)
    then show "grant_typed d1 g" if "g \<in> set (grants d1)" for g
      using parts [OF that] new rbac_typedD(3) [OF ok] by blast
    show "gr_roleId g = gr_roleId g'" if g: "g \<in> set (grants d1)" "g' \<in> set (grants d1)" "gr_accountId g = gr_accountId g'" for g g'
    proof -
      have "g \<in> set ?new \<and> g' \<in> set ?new \<or> g \<in> set (grants d) \<and> g' \<in> set (grants d)"
        using parts [OF g(1)] parts [OF g(2)] g(3) by metis
      then show ?thesis using same rbac_typedD(4) [OF ok _ _ g(3)] by blast
    qed
  qed (simp_all add: d1_def rbac_typedD(1,2) [OF ok])
  moreover have "account_typed (f a)" if "a \<in> set (accounts d1)" for a
    using rbac_typedD(2) [OF ok, of a] that f by (simp add: d1_def account_typed_def edits_def)
  ultimately show ?thesis
    by (intro typed_edit [of d1 d' "\<lambda>a. acc_id a = k" f]) (simp_all add: d1_def rol accs edits_of_field f)
qed

lemma typed_status:
  assumes run: "changeAccountStatus actor k status d = (d', Inr u)" and ok: "rbac_typed d"
    and st: "status \<in> set account_statuses"
  shows "rbac_typed d'"
proof -
  from status_effect [OF run] consider "d' = d"
    | f where "roles d' = roles d" "grants d' = grants d" "accounts d' = update_where (\<lambda>a. acc_id a = k) f (accounts d)"
      "\<And>a. acc_id (f a) = acc_id a" "\<And>a. acc_status (f a) = status"
      "\<And>a. acc_orgLevel (f a) = acc_orgLevel a" "\<And>a. acc_organizationId (f a) = acc_organizationId a" by blast
  then show ?thesis
  proof cases
    case (2 f)
    have "account_typed (f a)" if "a \<in> set (accounts d)" for a
      using rbac_typedD(2) [OF ok that] st by (simp add: 2 account_typed_def)
    then show ?thesis by (rule typed_edit [OF ok 2(1-4)])
  qed (simp add: ok)
qed

lemma resolved_org:
  assumes "resolveAccountOrgFields d l k existing = Inr org"
  shows "fst org = Some ''org'' \<longleftrightarrow> truthy (snd org) \<noteq> None"
  using assms by (auto simp: resolveAccountOrgFields_def Let_def split: if_splits option.splits)

lemma typed_create:
  assumes run: "create_account_tx actor newId h i org d = (d', Inr k)" and ok: "rbac_typed d"
    and fresh: "fresh newId (map acc_id (accounts d))"
    and org: "resolveAccountOrgFields d (ai_orgLevel i) (ai_organizationId i) None = Inr org"
  shows "rbac_typed d'"
proof -
  obtain row d2 where step: "replaceAccountGrants actor newId (case ai_grants i of Some gs \<Rightarrow> gs | None \<Rightarrow> []) None
      (d\<lparr>accounts := accounts d @ [row]\<rparr>) = (d2, Inr ())"
    and row: "acc_id row = newId" "acc_status row = ''active''" "acc_orgLevel row = fst org" "acc_organizationId row = snd org"
    and d': "accounts d' = accounts d2" "roles d' = roles d2" "grants d' = grants d2"
    using create_account_effect [OF run] by blast
  let ?d1 = "d\<lparr>accounts := accounts d @ [row]\<rparr>"
  have "account_typed row"
    using row fresh resolved_org [OF org] by (simp add: account_typed_def account_statuses_def fresh_def)
  then have "\<forall>a \<in> set (accounts ?d1). account_typed a" using rbac_typedD(2) [OF ok] by auto
  moreover have "\<forall>g \<in> set (grants ?d1). grant_typed ?d1 g"
    using rbac_typedD(3) [OF ok] by (auto simp: grant_typed_def)
  moreover have "distinct (map acc_id (accounts ?d1))" using rbac_typedD(1) [OF ok] fresh row(1) by (auto simp: fresh_def)
  moreover have "grants ?d1 = grants d" by simp
  ultimately have "rbac_typed ?d1" using rbac_typedD(4) [OF ok] unfolding rbac_typed_def by metis
  then have "rbac_typed d2" by (rule typed_grants [OF step])
  then show ?thesis by (rule typed_edit [OF _ d'(2,3), where P = "\<lambda>_. False" and f = "\<lambda>a. a"])
    (simp_all add: d' update_where_id)
qed

lemma typed_update:
  assumes run: "update_account_tx actor k p d = (d', Inr u)" and ok: "rbac_typed d" and st: "patch_statuses_ok p"
  shows "rbac_typed d'"
proof -
  obtain before org ch d1 d2 where
    org: "resolveAccountOrgFields d (ap_orgLevel p) (ap_organizationId p) (Some before) = Inr org"
    and 1: "case ap_grants p of None \<Rightarrow> d1 = d | Some gs \<Rightarrow> replaceAccountGrants actor k gs (Some (fst org)) d = (d1, Inr ())"
    and 2: "case ap_status p of None \<Rightarrow> d2 = d1 | Some st \<Rightarrow> changeAccountStatus actor k st d1 = (d2, Inr ())"
    and 3: "roles d' = roles d2" "grants d' = grants d2"
      "accounts d' = update_where (\<lambda>a. acc_id a = k) (patch_account p ch org) (accounts d2)"
    using run by (rule update_account_effect) (rule that)
  have "rbac_typed d1" using 1 ok typed_grants by (auto split: option.splits)
  then have t: "rbac_typed d2"
    using 2 st typed_status by (auto simp: patch_statuses_ok_def split: option.splits)
  show ?thesis
  proof (rule typed_edit [OF t 3])
    show "account_typed (patch_account p ch org a)" if "a \<in> set (accounts d2)" for a
      using rbac_typedD(2) [OF t that] resolved_org [OF org]
      by (auto simp: account_typed_def patch_account_def bump_session_def Let_def split: option.splits)
  qed simp
qed

lemma typed_delete:
  assumes run: "delete_account_tx actor k d = (d', Inr u)" and ok: "rbac_typed d"
  shows "rbac_typed d'"
proof -
  have d': "roles d' = roles d" "accounts d' = delete_where (\<lambda>a. acc_id a = k) (accounts d)"
      "grants d' = delete_where (\<lambda>g. gr_accountId g = k) (grants d)"
    using delete_account_effect [OF run] by auto
  have sub: "set (grants d') \<subseteq> set (grants d)" by (auto simp: d' delete_where_def)
  have "grant_typed d' g" if g: "g \<in> set (grants d')" for g
  proof -
    have g': "g \<in> set (grants d)" "gr_accountId g \<noteq> k" using g by (simp_all add: d' delete_where_def)
    then show ?thesis using rbac_typedD(3) [OF ok g'(1)] by (auto simp: grant_typed_def d' delete_where_def)
  qed
  moreover have "account_typed a" if "a \<in> set (accounts d')" for a
    using rbac_typedD(2) [OF ok, of a] that by (simp add: d' delete_where_def)
  moreover have "distinct (map acc_id (accounts d'))"
    using rbac_typedD(1) [OF ok] by (simp add: d' delete_where_def distinct_map_filter)
  moreover have "gr_roleId g = gr_roleId g'"
    if "g \<in> set (grants d')" "g' \<in> set (grants d')" "gr_accountId g = gr_accountId g'" for g g'
    using rbac_typedD(4) [OF ok, of g g'] sub that by blast
  ultimately show ?thesis by (intro rbac_typedI)
qed

interpretation typed_mns: menu_frame rbac_typed
  by unfold_locales (simp_all only: rbac_typed_other_fields)

lemma patch_role_id: "rol_id (patch_role p r) = rol_id r"
  by (simp add: patch_role_def)

lemma tx_typed:
  assumes "rbac_tx d d'" and ok: "rbac_typed d"
  shows "rbac_typed d'"
  using assms(1)
proof cases
  case create_menu
  show ?thesis by (rule keeps_ok [OF create_menu(2) ok typed_mns.create_menu_tx])
next
  case update_menu
  show ?thesis by (rule keeps_ok [OF update_menu(2) ok typed_mns.update_menu_tx [OF update_menu(1)]])
next
  case delete_menu
  show ?thesis by (rule keeps_ok [OF delete_menu(1) ok typed_mns.delete_menu_tx])
next
  case create_role
  show ?thesis using create_role_effect [OF create_role(3)] rbac_typedD(2) [OF ok]
    by (intro typed_frame [OF ok]) auto
next
  case (update_role k r operator p)
  have "rol_id ` set (update_where Q (patch_role p) rows) = rol_id ` set rows" for Q rows
    using map_key_update_where [where key = rol_id and f = "patch_role p" and P = Q and rows = rows]
    by (metis patch_role_id set_map)
  then show ?thesis using update_role_effect [OF update_role(3)] rbac_typedD(2) [OF ok]
    by (intro typed_frame [OF ok]) auto
next
  case (delete_role operator k u)
  have d': "accounts d' = accounts d" "grants d' = grants d" "roles d' = delete_where (\<lambda>r. rol_id r = k) (roles d)"
    and unused: "\<forall>g \<in> set (grants d). gr_roleId g \<noteq> k" using delete_role_effect [OF delete_role] by auto
  have "rol_id ` set (roles d') = rol_id ` set (roles d) - {k}" by (auto simp: d' delete_where_def)
  then show ?thesis using unused rbac_typedD(2) [OF ok] by (intro typed_frame [OF ok]) (auto simp: d')
next
  case set_roles
  show ?thesis by (rule typed_grants [OF set_roles ok])
next
  case set_status
  show ?thesis by (rule typed_status [OF set_status(2) ok set_status(1)])
next
  case create_account
  show ?thesis by (rule typed_create [OF create_account(3) ok create_account(1,2)])
next
  case update_account
  show ?thesis by (rule typed_update [OF update_account(2) ok update_account(1)])
next
  case delete_account
  show ?thesis by (rule typed_delete [OF delete_account ok])
next
  case (reset_password actor k pw)
  have d': "roles d' = roles d" "grants d' = grants d"
    "accounts d' = update_where (\<lambda>a. acc_id a = k) (\<lambda>a. (bump_session a)\<lparr>acc_passwordHash := pw\<rparr>) (accounts d)"
    using reset_password by (auto simp: reset_password_tx_def reject_def ok_simps set_account_def split: option.splits)
  have "account_typed (bump_session a\<lparr>acc_passwordHash := pw\<rparr>)" if "a \<in> set (accounts d)" for a
    using rbac_typedD(2) [OF ok that] by (simp add: bump_session_def account_typed_def)
  then show ?thesis by (intro typed_edit [OF ok d']) (simp_all add: bump_session_def)
qed

end
