(* ===== verification/Menu_Theorems.thy ===== *)
theory Menu_Theorems
  imports Rbac_Steps
begin

text \<open>
  The menu tree never has a cycle: every write keeps it a forest, so moving a menu always returns and
  deleting one removes exactly its subtree.
\<close>

subsection \<open>The menu tree\<close>

definition parent_rel :: "admin_menu list \<Rightarrow> (ident \<times> ident) set" where
  "parent_rel ms = {(mn_id m, p) | m p. m \<in> set ms \<and> mn_parentId m = Some p}"

definition forest :: "admin_menu list \<Rightarrow> bool" where
  "forest ms \<longleftrightarrow> distinct (map mn_id ms) \<and> [] \<notin> mn_id ` set ms \<and> acyclic (parent_rel ms) \<and>
     (\<forall>m \<in> set ms. \<forall>p. mn_parentId m = Some p \<longrightarrow> (\<exists>q \<in> set ms. mn_id q = p \<and> mn_type q \<noteq> 2))"

lemma finite_parent_rel: "finite (parent_rel ms)"
proof -
  have "parent_rel ms \<subseteq> (\<lambda>m. (mn_id m, the (mn_parentId m))) ` set ms" by (force simp: parent_rel_def)
  then show ?thesis by (rule finite_subset) simp
qed

lemma parent_of:
  assumes "distinct (map mn_id ms)"
  shows "Option.bind (find_row mn_id c ms) mn_parentId = Some p \<longleftrightarrow> (c, p) \<in> parent_rel ms"
proof
  assume "Option.bind (find_row mn_id c ms) mn_parentId = Some p"
  then obtain m where "find_row mn_id c ms = Some m" "mn_parentId m = Some p" by (auto simp: bind_eq_Some_conv)
  then show "(c, p) \<in> parent_rel ms" using find_row_SomeD [of mn_id c ms m] by (auto simp: parent_rel_def)
next
  assume "(c, p) \<in> parent_rel ms"
  then obtain m where "m \<in> set ms" "mn_id m = c" "mn_parentId m = Some p" by (auto simp: parent_rel_def)
  then show "Option.bind (find_row mn_id c ms) mn_parentId = Some p"
    using find_row_unique [OF assms, of m] by simp
qed

lemma up_one:
  assumes "distinct (map mn_id ms)" and "Option.bind (find_row mn_id c ms) mn_parentId = Some p" and "c \<noteq> k"
  shows "(c, k) \<in> (parent_rel ms)\<^sup>* \<longleftrightarrow> (p, k) \<in> (parent_rel ms)\<^sup>*"
proof
  assume "(c, k) \<in> (parent_rel ms)\<^sup>*"
  then obtain q where "(c, q) \<in> parent_rel ms" "(q, k) \<in> (parent_rel ms)\<^sup>*"
    using assms(3) by (blast elim: converse_rtranclE)
  moreover from this(1) have "q = p" using parent_of [OF assms(1), of c q] assms(2) by simp
  ultimately show "(p, k) \<in> (parent_rel ms)\<^sup>*" by simp
next
  assume "(p, k) \<in> (parent_rel ms)\<^sup>*"
  moreover have "(c, p) \<in> parent_rel ms" using parent_of [OF assms(1)] assms(2) by blast
  ultimately show "(c, k) \<in> (parent_rel ms)\<^sup>*" by (rule converse_rtrancl_into_rtrancl [rotated])
qed

lemma forest_parent:
  assumes "forest ms" and "(c, p) \<in> parent_rel ms"
  shows "p \<noteq> []"
proof -
  obtain m where "m \<in> set ms" "mn_parentId m = Some p" using assms(2) by (auto simp: parent_rel_def)
  then obtain q where "q \<in> set ms" "mn_id q = p" using assms(1) unfolding forest_def by blast
  then show ?thesis using assms(1) unfolding forest_def by force
qed

lemma meets_root: "truthy cur = None \<Longrightarrow> meets ms k cur = Some False"
  by (subst meets.simps) simp

text \<open>In a forest the climb always ends, and tells whether the node is above.\<close>

lemma meets_forest:
  assumes f: "forest ms"
  shows "c \<noteq> [] \<Longrightarrow> meets ms k (Some c) = Some ((c, k) \<in> (parent_rel ms)\<^sup>*)"
proof -
  have wf: "wf ((parent_rel ms)\<inverse>)"
    using f finite_parent_rel by (simp add: forest_def finite_acyclic_wf_converse)
  have d: "distinct (map mn_id ms)" using f by (simp add: forest_def)
  show "c \<noteq> [] \<Longrightarrow> meets ms k (Some c) = Some ((c, k) \<in> (parent_rel ms)\<^sup>*)"
  proof (induction c rule: wf_induct_rule [OF wf])
    case (1 c)
    have t: "truthy (Some c) = Some c" using 1(2) by (cases c) (simp_all add: truthy_def)
    show ?case
    proof (cases "c = k")
      case True
      then show ?thesis using t by (subst meets.simps) (simp add: True)
    next
      case False
      show ?thesis
      proof (cases "Option.bind (find_row mn_id c ms) mn_parentId")
        case None
        then have "\<And>p. (c, p) \<notin> parent_rel ms" using parent_of [OF d, of c] by simp
        then have "(c, k) \<notin> (parent_rel ms)\<^sup>*" using False by (metis converse_rtranclE)
        moreover have "meets ms k None = Some False" by (subst meets.simps) (simp add: truthy_def)
        ultimately show ?thesis using False None t by (subst meets.simps) simp
      next
        case (Some p)
        then have r: "(c, p) \<in> parent_rel ms" using parent_of [OF d] by blast
        then have "p \<noteq> []" using forest_parent [OF f] by blast
        then have "meets ms k (Some p) = Some ((p, k) \<in> (parent_rel ms)\<^sup>*)" using 1(1) r by simp
        moreover have "(c, k) \<in> (parent_rel ms)\<^sup>* \<longleftrightarrow> (p, k) \<in> (parent_rel ms)\<^sup>*"
          by (rule up_one [OF d Some False])
        ultimately show ?thesis using False Some t by (subst meets.simps) simp
      qed
    qed
  qed
qed

lemma meets_returns:
  assumes "forest ms"
  shows "\<exists>b. meets ms k cur = Some b"
proof (cases "truthy cur")
  case None
  then show ?thesis using meets_root by blast
next
  case (Some c)
  then have "cur = Some c" "c \<noteq> []" by (auto simp: truthy_def split: option.splits list.splits)
  then show ?thesis using meets_forest [OF assms] by blast
qed

lemma update_parent_returns:
  assumes "forest ms"
  shows "\<exists>x. update_parent ms k inParent = Some x"
proof -
  have "\<exists>y. map_option f (meets ms k cur) = Some y" for cur and f :: "bool \<Rightarrow> api_error + ident option option"
    using meets_returns [OF assms, of k cur] by auto
  then show ?thesis by (simp add: update_parent_def split: option.split)
qed

text \<open>C32. Moving a menu always returns. The check that a menu does not move below itself climbs to the
  root in a loop without a bound; in every menu tree without a cycle the loop ends, whatever the body
  of the request is.\<close>

theorem menu_update_returns:
  assumes "forest (menus (rs_db s))"
  shows "\<exists>s' r. updateMenu https operator k i s = Some (s', r)"
proof -
  obtain x where "update_parent (menus (rs_db s)) k (mi_parentId i) = Some x"
    using update_parent_returns [OF assms] by blast
  then have "\<exists>h. update_menu_tx https operator k i perms (rs_db s) = Some h" for perms
    by (auto simp: update_menu_tx_def split: option.split)
  then show ?thesis
    by (auto simp: updateMenu_def split: sum.split) (metis option.simps(9) surj_pair)+
qed

subsection \<open>The tree stays a forest\<close>

lemma forest_append:
  assumes "forest ms" and "mn_id m \<notin> mn_id ` set ms" and "mn_id m \<noteq> []"
    and "\<And>p. mn_parentId m = Some p \<Longrightarrow> \<exists>q \<in> set ms. mn_id q = p \<and> mn_type q \<noteq> 2"
  shows "forest (ms @ [m])"
proof -
  have "acyclic (parent_rel (ms @ [m]))"
  proof (cases "mn_parentId m")
    case None
    then have "parent_rel (ms @ [m]) = parent_rel ms" by (auto simp: parent_rel_def)
    then show ?thesis using assms(1) by (simp add: forest_def)
  next
    case (Some p)
    then have e: "parent_rel (ms @ [m]) = insert (mn_id m, p) (parent_rel ms)" by (auto simp: parent_rel_def)
    have "(x, mn_id m) \<notin> parent_rel ms" for x
    proof
      assume "(x, mn_id m) \<in> parent_rel ms"
      then obtain q where "q \<in> set ms" "mn_id q = mn_id m"
        using assms(1) unfolding forest_def parent_rel_def by blast
      then show False using assms(2) by (metis imageI)
    qed
    moreover have "p \<noteq> mn_id m" using assms(2) assms(4) [OF Some] by (auto simp: image_iff)
    ultimately have "(p, mn_id m) \<notin> (parent_rel ms)\<^sup>*" by (blast elim: rtranclE)
    then show ?thesis using assms(1) by (simp add: e acyclic_insert forest_def)
  qed
  then show ?thesis using assms by (auto simp: forest_def)
qed

lemma forest_subset:
  assumes f: "forest ms" and sub: "set ns \<subseteq> set ms" and d: "distinct (map mn_id ns)"
    and up: "\<And>m p. m \<in> set ns \<Longrightarrow> mn_parentId m = Some p \<Longrightarrow> p \<in> mn_id ` set ns"
  shows "forest ns"
proof -
  have "parent_rel ns \<subseteq> parent_rel ms" using sub by (auto simp: parent_rel_def)
  then have "acyclic (parent_rel ns)" using f acyclic_subset by (auto simp: forest_def)
  moreover have "\<exists>q \<in> set ns. mn_id q = p \<and> mn_type q \<noteq> 2" if m: "m \<in> set ns" "mn_parentId m = Some p" for m p
  proof -
    obtain q where q: "q \<in> set ns" "mn_id q = p" using up [OF m] by auto
    obtain r where r: "r \<in> set ms" "mn_id r = p" "mn_type r \<noteq> 2" using m sub f unfolding forest_def by blast
    have "q = r" using q r sub f unique_key [of mn_id ms q r] by (auto simp: forest_def)
    then show ?thesis using q r by blast
  qed
  ultimately show ?thesis using f sub d unfolding forest_def by blast
qed

lemma forest_update:
  assumes f: "forest ms" and id: "\<And>m. mn_id (g m) = mn_id m"
    and parent: "\<And>m. m \<in> set ms \<Longrightarrow> mn_id m = k \<Longrightarrow> mn_parentId (g m) = mn_parentId m \<or> mn_parentId (g m) = None \<or>
      (\<exists>q \<in> set ms. mn_parentId (g m) = Some (mn_id q) \<and> mn_type q \<noteq> 2 \<and> (mn_id q, k) \<notin> (parent_rel ms)\<^sup>*)"
    and leaf: "\<And>m. m \<in> set ms \<Longrightarrow> mn_id m = k \<Longrightarrow> mn_type (g m) = 2 \<Longrightarrow> \<forall>c \<in> set ms. mn_parentId c \<noteq> Some k"
  shows "forest (update_where (\<lambda>m. mn_id m = k) g ms)" (is "forest ?ns")
proof (cases "k \<in> mn_id ` set ms")
  case False
  then have "?ns = ms" by (intro update_where_id) auto
  then show ?thesis using f by simp
next
  case True
  then obtain m where m: "m \<in> set ms" "mn_id m = k" by auto
  have only: "r = m" if "r \<in> set ms" "mn_id r = k" for r
    using that m f unique_key [of mn_id ms r m] by (simp add: forest_def)
  have ids: "map mn_id ?ns = map mn_id ms" by (rule map_key_update_where) (rule id)
  have rel: "parent_rel ?ns \<subseteq> parent_rel ms \<union> (case mn_parentId (g m) of Some p \<Rightarrow> {(k, p)} | None \<Rightarrow> {})"
  proof
    fix x assume "x \<in> parent_rel ?ns"
    then obtain r p where r: "r \<in> set ?ns" "mn_parentId r = Some p" "x = (mn_id r, p)" by (auto simp: parent_rel_def)
    from r(1) consider "r = g m" | "r \<in> set ms" using only by (auto dest: update_whereD)
    then show "x \<in> parent_rel ms \<union> (case mn_parentId (g m) of Some p \<Rightarrow> {(k, p)} | None \<Rightarrow> {})"
      using r m id by cases (auto simp: parent_rel_def)
  qed
  have ac: "acyclic (parent_rel ?ns)"
  proof -
    have old: "acyclic (parent_rel ms)" using f by (simp add: forest_def)
    from parent [OF m] consider "mn_parentId (g m) = mn_parentId m" | "mn_parentId (g m) = None"
      | q where "mn_parentId (g m) = Some q" "(q, k) \<notin> (parent_rel ms)\<^sup>*" by auto
    then have "acyclic (parent_rel ms \<union> (case mn_parentId (g m) of Some p \<Rightarrow> {(k, p)} | None \<Rightarrow> {}))"
    proof cases
      case 1
      then have "(case mn_parentId (g m) of Some p \<Rightarrow> {(k, p)} | None \<Rightarrow> {}) \<subseteq> parent_rel ms"
        using m by (auto simp: parent_rel_def split: option.split)
      then show ?thesis using old by (simp add: Un_absorb2)
    qed (use old in \<open>simp_all add: acyclic_insert\<close>)
    then show ?thesis using rel by (rule acyclic_subset)
  qed
  have up: "\<exists>q \<in> set ?ns. mn_id q = p \<and> mn_type q \<noteq> 2" if r: "r \<in> set ?ns" "mn_parentId r = Some p" for r p
  proof -
    have "\<exists>q \<in> set ms. mn_id q = p \<and> mn_type q \<noteq> 2"
    proof (cases "r = g m")
      case True
      have "\<exists>q \<in> set ms. mn_id q = p \<and> mn_type q \<noteq> 2" if "mn_parentId m = Some p"
        using f m(1) that unfolding forest_def by blast
      then show ?thesis using parent [OF m] r True by auto
    next
      case False
      then have "r \<in> set ms" using r(1) only by (auto dest: update_whereD)
      then show ?thesis using f r(2) unfolding forest_def by blast
    qed
    then obtain q where q: "q \<in> set ms" "mn_id q = p" "mn_type q \<noteq> 2" by blast
    show ?thesis
    proof (cases "p = k")
      case False
      then show ?thesis using q by (auto simp: set_update_where)
    next
      case True
      have "(k, k) \<notin> parent_rel ?ns" using ac by (meson acyclic_def r_into_trancl)
      then have "r \<noteq> g m" using r True id m by (auto simp: parent_rel_def)
      then have "r \<in> set ms" using r(1) only by (auto dest: update_whereD)
      then have "mn_type (g m) \<noteq> 2" using leaf [OF m] r True by blast
      then show ?thesis using True m id by (auto simp: set_update_where)
    qed
  qed
  have "[] \<notin> mn_id ` set ?ns" using f ids by (metis forest_def set_map)
  then show ?thesis using f ids ac up unfolding forest_def by auto
qed

subsection \<open>Deleting collects the subtree\<close>

lemma expand_extends:
  obtains ys where "expand ms sub m = sub @ ys" "set ys \<subseteq> set (children ms (mn_id m))"
    "mn_id ` set (children ms (mn_id m)) \<subseteq> mn_id ` set (expand ms sub m)"
proof -
  have "\<exists>ys. foldl push_new sub cs = sub @ ys \<and> set ys \<subseteq> set cs \<and> mn_id ` set cs \<subseteq> mn_id ` set (foldl push_new sub cs)" for cs
  proof (induction cs arbitrary: sub)
    case (Cons c cs)
    obtain ys where ys: "foldl push_new (push_new sub c) cs = push_new sub c @ ys" "set ys \<subseteq> set cs"
      "mn_id ` set cs \<subseteq> mn_id ` set (foldl push_new (push_new sub c) cs)" using Cons.IH by blast
    have "mn_id c \<in> mn_id ` set (push_new sub c)" by (auto simp: push_new_def) (metis imageI)
    moreover have "push_new sub c = sub \<or> push_new sub c = sub @ [c]" by (simp add: push_new_def)
    ultimately show ?case using ys by auto
  qed simp
  then show ?thesis using that unfolding expand_def by blast
qed

lemma collect_closed:
  assumes "\<And>j. j < i \<Longrightarrow> j < length sub \<Longrightarrow> mn_id ` set (children ms (mn_id (sub ! j))) \<subseteq> mn_id ` set sub"
    and "m \<in> set (collect ms sub i)"
  shows "mn_id ` set (children ms (mn_id m)) \<subseteq> mn_id ` set (collect ms sub i)"
  using assms
proof (induction ms sub i arbitrary: m rule: collect.induct)
  case (1 ms sub i)
  show ?case
  proof (cases "i < length sub")
    case False
    then show ?thesis using 1(2,3) by (auto simp: collect.simps [of ms sub i] in_set_conv_nth)
  next
    case True
    obtain ys where ys: "expand ms sub (sub ! i) = sub @ ys"
      "mn_id ` set (children ms (mn_id (sub ! i))) \<subseteq> mn_id ` set (expand ms sub (sub ! i))"
      by (rule expand_extends [of ms sub "sub ! i"])
    have e: "collect ms sub i = collect ms (expand ms sub (sub ! i)) (Suc i)"
      using True by (simp add: collect.simps [of ms sub i])
    have "mn_id ` set (children ms (mn_id (expand ms sub (sub ! i) ! j))) \<subseteq> mn_id ` set (expand ms sub (sub ! i))"
      if "j < Suc i" for j
    proof (cases "j = i")
      case True
      then show ?thesis using ys \<open>i < length sub\<close> by (simp add: nth_append)
    next
      case False
      then have "j < i" "j < length sub" using that True by auto
      then show ?thesis using 1(2) [of j] ys by (auto simp: nth_append)
    qed
    then show ?thesis using 1(1) [OF True] 1(3) e by simp
  qed
qed

lemma collect_keeps: "set sub \<subseteq> set (collect ms sub i)"
proof (induction ms sub i rule: collect.induct)
  case (1 ms sub i)
  obtain ys where "expand ms sub (sub ! i) = sub @ ys" by (rule expand_extends [of ms sub "sub ! i"])
  then show ?case using 1 by (cases "i < length sub") (auto simp: collect.simps [of ms sub i])
qed

lemma collect_below:
  assumes "\<And>x. x \<in> set sub \<Longrightarrow> x \<in> set ms \<and> (mn_id x, k) \<in> (parent_rel ms)\<^sup>*"
    and "x \<in> set (collect ms sub i)"
  shows "x \<in> set ms \<and> (mn_id x, k) \<in> (parent_rel ms)\<^sup>*"
  using assms
proof (induction ms sub i arbitrary: x rule: collect.induct)
  case (1 ms sub i)
  show ?case
  proof (cases "i < length sub")
    case False
    then show ?thesis using 1(2,3) by (simp add: collect.simps [of ms sub i])
  next
    case True
    obtain ys where ys: "expand ms sub (sub ! i) = sub @ ys" "set ys \<subseteq> set (children ms (mn_id (sub ! i)))"
      by (rule expand_extends [of ms sub "sub ! i"])
    have up: "(mn_id (sub ! i), k) \<in> (parent_rel ms)\<^sup>*" using 1(2) True by simp
    have "y \<in> set ms \<and> (mn_id y, k) \<in> (parent_rel ms)\<^sup>*" if "y \<in> set (expand ms sub (sub ! i))" for y
    proof (cases "y \<in> set sub")
      case False
      then have "y \<in> set ms" "mn_parentId y = Some (mn_id (sub ! i))" using that ys by (auto simp: children_def)
      moreover from this have "(mn_id y, mn_id (sub ! i)) \<in> parent_rel ms" by (auto simp: parent_rel_def)
      ultimately show ?thesis using up by (auto intro: converse_rtrancl_into_rtrancl)
    qed (use 1(2) in simp)
    moreover have "x \<in> set (collect ms (expand ms sub (sub ! i)) (Suc i))"
      using 1(3) True by (simp add: collect.simps [of ms sub i])
    ultimately show ?thesis by (rule 1(1) [OF True])
  qed
qed

lemma collect_subtree:
  assumes d: "distinct (map mn_id ms)" and m: "find_row mn_id k ms = Some m" and x: "x \<in> set ms"
  shows "mn_id x \<in> mn_id ` set (collect ms [m] 0) \<longleftrightarrow> (mn_id x, k) \<in> (parent_rel ms)\<^sup>*"
proof
  have mk: "m \<in> set ms" "mn_id m = k" using find_row_SomeD [OF m] by auto
  have all: "y \<in> set ms \<and> (mn_id y, k) \<in> (parent_rel ms)\<^sup>*" if "y \<in> set (collect ms [m] 0)" for y
    by (rule collect_below [OF _ that]) (use mk in auto)
  show "(mn_id x, k) \<in> (parent_rel ms)\<^sup>*" if "mn_id x \<in> mn_id ` set (collect ms [m] 0)"
    using that all by (metis imageE)
  have "mn_id ` set (children ms (mn_id y)) \<subseteq> mn_id ` set (collect ms [m] 0)" if "y \<in> set (collect ms [m] 0)" for y
    by (rule collect_closed [OF _ that]) simp
  then have next_one: "a \<in> mn_id ` set (collect ms [m] 0)" if "(a, b) \<in> parent_rel ms" "b \<in> mn_id ` set (collect ms [m] 0)" for a b
    using that by (fastforce simp: parent_rel_def children_def)
  assume "(mn_id x, k) \<in> (parent_rel ms)\<^sup>*"
  then show "mn_id x \<in> mn_id ` set (collect ms [m] 0)"
  proof (induction rule: converse_rtrancl_induct)
    case base
    show ?case using collect_keeps [of "[m]" ms 0] mk by auto
  next
    case (step a b)
    then show ?case using next_one by blast
  qed
qed

lemma collect_ids:
  assumes "distinct (map mn_id ms)" and "find_row mn_id k ms = Some m"
  shows "set (map mn_id (collect ms [m] 0)) = {mn_id x | x. x \<in> set ms \<and> (mn_id x, k) \<in> (parent_rel ms)\<^sup>*}"
proof -
  have "set (collect ms [m] 0) \<subseteq> set ms"
    using collect_below [of "[m]" ms k _ 0] find_row_SomeD [OF assms(2)] by auto
  then show ?thesis using collect_subtree [OF assms] by (auto simp: image_iff)
qed

text \<open>Deleting a menu deletes the menu and everything below it in the tree, and nothing else; the roles
  lose exactly their links to the deleted menus.\<close>

theorem delete_menu_exact:
  assumes d: "distinct (map mn_id (menus (rs_db s)))" and ok: "deleteMenu operator k s = (s', Inr gone)"
  shows "set gone = {mn_id x | x. x \<in> set (menus (rs_db s)) \<and> (mn_id x, k) \<in> (parent_rel (menus (rs_db s)))\<^sup>*} \<and>
    menus (rs_db s') = filter (\<lambda>x. (mn_id x, k) \<notin> (parent_rel (menus (rs_db s)))\<^sup>*) (menus (rs_db s)) \<and>
    role_menus (rs_db s') = filter (\<lambda>(r, x). x \<notin> set gone) (role_menus (rs_db s))"
proof -
  obtain d' where tx: "delete_menu_tx operator k (rs_db s) = (d', Inr gone)" and s': "rs_db s' = d'"
    using ok by (cases rule: commit_cases [of "delete_menu_tx operator k" s]) (auto simp: deleteMenu_def)
  obtain m where m: "find_row mn_id k (menus (rs_db s)) = Some m"
    using tx by (auto simp: delete_menu_tx_def ok_simps split: option.splits)
  have *: "gone = map mn_id (collect (menus (rs_db s)) [m] 0)"
    "menus d' = delete_where (\<lambda>x. mn_id x \<in> set gone) (menus (rs_db s))"
    "role_menus d' = filter (\<lambda>(r, x). x \<notin> set gone) (role_menus (rs_db s))"
    using tx m by (auto simp: delete_menu_tx_def ok_simps Let_def bumpVersion_def rb_audit_def split: option.splits)
  have g: "set gone = {mn_id x | x. x \<in> set (menus (rs_db s)) \<and> (mn_id x, k) \<in> (parent_rel (menus (rs_db s)))\<^sup>*}"
    using collect_ids [OF d m] *(1) by simp
  have "menus (rs_db s') = filter (\<lambda>x. (mn_id x, k) \<notin> (parent_rel (menus (rs_db s)))\<^sup>*) (menus (rs_db s))"
    unfolding s' *(2) delete_where_def g by (rule filter_cong [OF refl]) auto
  then show ?thesis using g *(3) s' by simp
qed

subsection \<open>Every write keeps the forest\<close>

interpretation forest_acc: account_frame "\<lambda>d. forest (menus d)"
  by unfold_locales simp_all

interpretation forest_rol: role_frame "\<lambda>d. forest (menus d)"
  by unfold_locales simp_all

lemma created_parent:
  assumes "create_parent d i = Inr (Some p)"
  shows "\<exists>q \<in> set (menus d). mn_id q = p \<and> mn_type q \<noteq> 2"
proof -
  define row where "row = (case Option.bind (mi_parentId i) truthy of Some k \<Rightarrow> find_row mn_id k (menus d)
    | None \<Rightarrow> find (\<lambda>m. Some (mn_code m) = truthy (mi_parentCode i)) (menus d))"
  then obtain q where q: "row = Some q" "mn_type q \<noteq> 2" "mn_id q = p"
    using assms unfolding create_parent_def Let_def row_def [symmetric]
    by (auto split: if_splits option.splits)
  then have "q \<in> set (menus d)"
    using row_def by (auto simp: find_Some_iff dest: find_row_SomeD split: option.splits)
  then show ?thesis using q by blast
qed

lemma create_menu_forest:
  assumes "forest (menus d)" and "fresh newId (map mn_id (menus d))"
    and "create_menu_tx operator newId code t perms i d = (d', Inr m)"
  shows "forest (menus d')"
proof -
  obtain parentId where p: "create_parent d i = Inr parentId"
    and d': "menus d' = menus d @ [new_menu newId code t parentId perms i]"
    using assms(3) by (auto simp: create_menu_tx_def Let_def ok_simps bumpVersion_def rb_audit_def
        split: sum.splits option.splits)
  show ?thesis unfolding d'
    by (rule forest_append) (use assms(1,2) created_parent [of d i] p in \<open>auto simp: fresh_def new_menu_def\<close>)
qed

lemma update_parent_ok:
  assumes f: "forest ms" and ok: "update_parent ms k inParent = Some (Inr (Some (Some p)))"
  shows "\<exists>q \<in> set ms. p = mn_id q \<and> mn_type q \<noteq> 2 \<and> (mn_id q, k) \<notin> (parent_rel ms)\<^sup>*"
proof -
  obtain pid where "inParent = Some pid" using ok by (auto simp: update_parent_def split: option.splits)
  then obtain t where t: "truthy pid = Some t" using ok by (auto simp: update_parent_def split: option.splits)
  then obtain q where q: "find_row mn_id t ms = Some q"
    using ok \<open>inParent = Some pid\<close> by (auto simp: update_parent_def split: option.splits)
  then have "mn_type q \<noteq> 2" "mn_id q \<noteq> k" "p = mn_id q" "meets ms k (mn_parentId q) = Some False"
    using ok \<open>inParent = Some pid\<close> t by (auto simp: update_parent_def split: if_splits)
  moreover have "q \<in> set ms" using find_row_SomeD [OF q] by simp
  moreover have "(mn_id q, k) \<notin> (parent_rel ms)\<^sup>*"
  proof (cases "mn_parentId q")
    case None
    then have "Option.bind (find_row mn_id (mn_id q) ms) mn_parentId = None"
      using f find_row_unique [of mn_id ms q] \<open>q \<in> set ms\<close> by (simp add: forest_def)
    then have "(mn_id q, r) \<notin> parent_rel ms" for r using f parent_of [of ms "mn_id q" r] by (simp add: forest_def)
    then show ?thesis using \<open>mn_id q \<noteq> k\<close> by (blast elim: converse_rtranclE)
  next
    case (Some r)
    then have r: "(mn_id q, r) \<in> parent_rel ms" using \<open>q \<in> set ms\<close> by (auto simp: parent_rel_def)
    have d: "distinct (map mn_id ms)" using f by (simp add: forest_def)
    have "meets ms k (Some r) = Some ((r, k) \<in> (parent_rel ms)\<^sup>*)"
      by (rule meets_forest [OF f forest_parent [OF f r]])
    then have "(r, k) \<notin> (parent_rel ms)\<^sup>*" using Some \<open>meets ms k (mn_parentId q) = Some False\<close> by simp
    then show ?thesis using up_one [OF d _ \<open>mn_id q \<noteq> k\<close>] parent_of [OF d] r by blast
  qed
  ultimately show ?thesis by blast
qed

lemma update_menu_forest:
  assumes f: "forest (menus d)" and "update_menu_tx https operator k i perms d = Some h" and "h d = (d', Inr u)"
  shows "forest (menus d')"
  using assms(2)
proof (cases rule: update_menu_tx_cases)
  case refused
  then show ?thesis using assms(3) by (simp add: reject_def)
next
  case (written m parentId)
  then have d': "menus d' = update_where (\<lambda>m. mn_id m = k) (patch_menu i perms parentId) (menus d)"
    using assms(3) by (auto simp: write_menu_def ok_simps bumpVersion_def rb_audit_def split: option.splits)
  have m: "x = m" if "x \<in> set (menus d)" "mn_id x = k" for x
    using that written(1) f find_row_unique [of mn_id "menus d" x] by (auto simp: forest_def)
  show ?thesis unfolding d'
  proof (rule forest_update [OF f])
    fix x assume x: "x \<in> set (menus d)" "mn_id x = k"
    show "mn_parentId (patch_menu i perms parentId x) = mn_parentId x \<or> mn_parentId (patch_menu i perms parentId x) = None \<or>
      (\<exists>q \<in> set (menus d). mn_parentId (patch_menu i perms parentId x) = Some (mn_id q) \<and> mn_type q \<noteq> 2 \<and>
        (mn_id q, k) \<notin> (parent_rel (menus d))\<^sup>*)"
    proof (cases parentId)
      case (Some p)
      then show ?thesis using update_parent_ok [OF f, of k "mi_parentId i"] written(3)
        by (cases p) (auto simp: patch_menu_def or_else_def)
    qed (simp add: patch_menu_def or_else_def)
    assume "mn_type (patch_menu i perms parentId x) = 2"
    then have "or_else (mi_type i) (mn_type m) = 2" using m [OF x] by (simp add: patch_menu_def)
    then show "\<forall>c \<in> set (menus d). mn_parentId c \<noteq> Some k"
      using written(2) by (auto simp: update_menu_checks_def Let_def split: option.splits if_splits)
  qed (simp add: patch_menu_def)
qed

lemma delete_menu_forest:
  assumes f: "forest (menus d)" and ok: "delete_menu_tx operator k d = (d', Inr gone)"
  shows "forest (menus d')"
proof -
  obtain m where m: "find_row mn_id k (menus d) = Some m" and g: "gone = map mn_id (collect (menus d) [m] 0)"
    and d': "menus d' = delete_where (\<lambda>x. mn_id x \<in> set gone) (menus d)"
    using ok by (auto simp: delete_menu_tx_def ok_simps Let_def bumpVersion_def rb_audit_def split: option.splits)
  have dist: "distinct (map mn_id (menus d))" using f by (simp add: forest_def)
  have ids: "set gone = {mn_id x | x. x \<in> set (menus d) \<and> (mn_id x, k) \<in> (parent_rel (menus d))\<^sup>*}"
    unfolding g by (rule collect_ids [OF dist m])
  show ?thesis
  proof (rule forest_subset [OF f])
    show "set (menus d') \<subseteq> set (menus d)" by (auto simp: d' delete_where_def)
    show "distinct (map mn_id (menus d'))" using dist by (simp add: d' delete_where_def distinct_map_filter)
    fix x p assume x: "x \<in> set (menus d')" "mn_parentId x = Some p"
    then have "x \<in> set (menus d)" "mn_id x \<notin> set gone" by (auto simp: d' delete_where_def)
    moreover obtain q where q: "q \<in> set (menus d)" "mn_id q = p"
      using f x(2) \<open>x \<in> set (menus d)\<close> unfolding forest_def by blast
    moreover have "(mn_id x, p) \<in> parent_rel (menus d)" using x \<open>x \<in> set (menus d)\<close> by (auto simp: parent_rel_def)
    ultimately have "p \<notin> set gone" unfolding ids by (blast intro: converse_rtrancl_into_rtrancl)
    then show "p \<in> mn_id ` set (menus d')" using q by (auto simp: d' delete_where_def)
  qed
qed

lemma tx_forest: "rbac_tx d d' \<Longrightarrow> forest (menus d) \<Longrightarrow> forest (menus d')"
proof (induction rule: rbac_tx.induct)
  case create_menu
  then show ?case using create_menu_forest by blast
next
  case update_menu
  then show ?case using update_menu_forest by blast
next
  case delete_menu
  then show ?case using delete_menu_forest by blast
qed (erule keeps_ok [where I = "\<lambda>d. forest (menus d)"], assumption, rule forest_acc.replaceAccountGrants
    forest_acc.changeAccountStatus forest_acc.create_account_tx forest_acc.update_account_tx forest_acc.delete_account_tx
    forest_acc.reset_password_tx forest_rol.create_role_tx forest_rol.update_role_tx forest_rol.delete_role_tx)+

text \<open>C31. The menus stay a forest: no sequence of requests gives the tree a cycle, a dangling parent or a
  button with children.\<close>

theorem menus_stay_a_forest:
  assumes "rbac_write\<^sup>*\<^sup>* s s'" and "forest (menus (rs_db s))"
  shows "forest (menus (rs_db s'))"
  by (rule write_invariant [where I = "\<lambda>d. forest (menus d)", OF tx_forest assms])

end
