(* ===== verification/Access_Theorems.thy ===== *)
theory Access_Theorems
  imports Rbac_Theorems Menu_Theorems
begin

text \<open>
  What access control decides: the decision on a request against a specification that reads the tables,
  the cache against the service without one, and the campuses a request may work on.
\<close>

subsection \<open>The sum of the grants\<close>

text \<open>A grant that gives something: its role is active; the super administrator's role gives no menus.\<close>

definition gives_super :: "role_grant \<times> admin_role \<Rightarrow> bool" where
  "gives_super = (\<lambda>(g, r). rol_status r = ''active'' \<and> rol_code r = SUPER_ROLE_CODE \<and> gr_scope g = ''platform'')"

definition gives_menus :: "role_grant \<times> admin_role \<Rightarrow> bool" where
  "gives_menus = (\<lambda>(g, r). rol_status r = ''active'' \<and> rol_code r \<noteq> SUPER_ROLE_CODE)"

definition gives_campus :: "ident \<Rightarrow> role_grant \<times> admin_role \<Rightarrow> bool" where
  "gives_campus c = (\<lambda>(g, r). rol_status r = ''active'' \<and> rol_code r \<noteq> SUPER_ROLE_CODE \<and> gr_scope g \<noteq> ''platform'' \<and>
    truthy (gr_campusId g) = Some c)"

lemma add_grant_one:
  "gs_super (add_grant a (g, r) s) \<longleftrightarrow> gs_super s \<or> gives_super (g, r)"
  "gs_platform (add_grant a (g, r) s) \<longleftrightarrow> gs_platform s \<or> rol_status r = ''active'' \<and> gr_scope g = ''platform''"
  "c \<in> set (gs_campuses (add_grant a (g, r) s)) \<longleftrightarrow> c \<in> set (gs_campuses s) \<or> gives_campus c (g, r)"
  "k \<in> set (gs_platformRoleIds (add_grant a (g, r) s)) \<longleftrightarrow> k \<in> set (gs_platformRoleIds s) \<or>
    gives_menus (g, r) \<and> gr_roleId g = k \<and> gr_scope g = ''platform''"
  "k \<in> set (gs_roleIds (add_grant a (g, r) s)) \<longleftrightarrow> k \<in> set (gs_roleIds s) \<or>
    gives_menus (g, r) \<and> gr_roleId g = k \<and> (gr_scope g = ''platform'' \<or> gives_campus (acc_campusId a) (g, r))"
  by (auto simp: add_grant_def gives_super_def gives_menus_def gives_campus_def split: option.split)

lemma fold_super: "gs_super (fold (add_grant a) gs s) \<longleftrightarrow> gs_super s \<or> (\<exists>x \<in> set gs. gives_super x)"
  by (induction gs arbitrary: s) (auto simp: add_grant_one)

lemma fold_platform: "gs_platform (fold (add_grant a) gs s) \<longleftrightarrow>
    gs_platform s \<or> (\<exists>(g, r) \<in> set gs. rol_status r = ''active'' \<and> gr_scope g = ''platform'')"
  by (induction gs arbitrary: s) (auto simp: add_grant_one)

lemma fold_campuses: "c \<in> set (gs_campuses (fold (add_grant a) gs s)) \<longleftrightarrow>
    c \<in> set (gs_campuses s) \<or> (\<exists>x \<in> set gs. gives_campus c x)"
  by (induction gs arbitrary: s) (auto simp: add_grant_one)

lemma fold_platformRoleIds: "k \<in> set (gs_platformRoleIds (fold (add_grant a) gs s)) \<longleftrightarrow>
    k \<in> set (gs_platformRoleIds s) \<or> (\<exists>(g, r) \<in> set gs. gives_menus (g, r) \<and> gr_roleId g = k \<and> gr_scope g = ''platform'')"
  by (induction gs arbitrary: s) (auto simp: add_grant_one)

lemma fold_roleIds: "k \<in> set (gs_roleIds (fold (add_grant a) gs s)) \<longleftrightarrow> k \<in> set (gs_roleIds s) \<or>
    (\<exists>(g, r) \<in> set gs. gives_menus (g, r) \<and> gr_roleId g = k \<and>
      (gr_scope g = ''platform'' \<or> gives_campus (acc_campusId a) (g, r)))"
  by (induction gs arbitrary: s) (auto simp: add_grant_one)

lemma sum_grants_iff:
  "gs_super (sum_grants d a) \<longleftrightarrow> (\<exists>x \<in> set (grants_of d (acc_id a)). gives_super x)"
  "gs_platform (sum_grants d a) \<longleftrightarrow>
    (\<exists>(g, r) \<in> set (grants_of d (acc_id a)). rol_status r = ''active'' \<and> gr_scope g = ''platform'')"
  "c \<in> set (gs_campuses (sum_grants d a)) \<longleftrightarrow> (\<exists>x \<in> set (grants_of d (acc_id a)). gives_campus c x)"
  "k \<in> set (gs_platformRoleIds (sum_grants d a)) \<longleftrightarrow>
    (\<exists>(g, r) \<in> set (grants_of d (acc_id a)). gives_menus (g, r) \<and> gr_roleId g = k \<and> gr_scope g = ''platform'')"
  "k \<in> set (gs_roleIds (sum_grants d a)) \<longleftrightarrow>
    (\<exists>(g, r) \<in> set (grants_of d (acc_id a)). gives_menus (g, r) \<and> gr_roleId g = k \<and>
      (gr_scope g = ''platform'' \<or> gives_campus (acc_campusId a) (g, r)))"
  by (simp_all add: sum_grants_def fold_super fold_platform fold_campuses fold_platformRoleIds fold_roleIds)

lemma grants_of_iff:
  "(g, r) \<in> set (grants_of d k) \<longleftrightarrow>
    g \<in> set (grants d) \<and> gr_accountId g = k \<and> find_row rol_id (gr_roleId g) (roles d) = Some r"
  by (auto simp: grants_of_def List.map_filter_def image_iff split: option.splits)

subsection \<open>The decision on a request\<close>

text \<open>What the tables say, without contexts: some active role of the account has an active menu with a
  matching permission, by a platform grant or, outside the platform's own routes, by a grant for the
  campus of the account; the routes of the super administrator only by the super administrator's role.\<close>

definition menu_permits :: "rbac_db \<Rightarrow> ident \<Rightarrow> string \<Rightarrow> string \<Rightarrow> bool" where
  "menu_permits d roleId m path \<longleftrightarrow>
    (\<exists>x \<in> set (menus d). mn_status x = ''active'' \<and> (roleId, mn_id x) \<in> set (role_menus d) \<and>
      (\<exists>p \<in> set (perms_of x). match_one m path p))"

definition permitted :: "rbac_db \<Rightarrow> account \<Rightarrow> string \<Rightarrow> string \<Rightarrow> bool" where
  "permitted d a m path \<longleftrightarrow>
    (\<exists>x \<in> set (grants_of d (acc_id a)). gives_super x) \<or>
    \<not> isSuperOnlyOperation m path \<and>
    (\<exists>(g, r) \<in> set (grants_of d (acc_id a)). gives_menus (g, r) \<and> menu_permits d (gr_roleId g) m path \<and>
      (gr_scope g = ''platform'' \<or> \<not> matchUrl PLATFORM_PATTERNS m path \<and> gives_campus (acc_campusId a) (g, r)))"

lemma matchUrl_iff: "matchUrl ps m path \<longleftrightarrow> (\<exists>p \<in> set ps. match_one m path p)"
  by (auto simp: matchUrl_def list_ex_iff)

lemma patterns_iff:
  "matchUrl (cx_patterns (effective d a)) m path \<longleftrightarrow>
    (\<exists>k \<in> set (gs_roleIds (sum_grants d a)). menu_permits d k m path)"
  by (auto simp: matchUrl_iff effective_def Let_def granted_menus_def has_menu_def menu_permits_def)

lemma platform_role_ids: "k \<in> set (gs_platformRoleIds (sum_grants d a)) \<Longrightarrow> k \<in> set (gs_roleIds (sum_grants d a))"
  by (auto simp: sum_grants_iff)

lemma platformPatterns_iff:
  "matchUrl (cx_platformPatterns (effective d a)) m path \<longleftrightarrow>
    (\<exists>k \<in> set (gs_platformRoleIds (sum_grants d a)). menu_permits d k m path)"
  using platform_role_ids [of _ d a]
  by (auto simp: matchUrl_iff effective_def Let_def granted_menus_def has_menu_def menu_permits_def)

text \<open>The decision on a request is the one the tables give: access control lets a request through exactly
  where a grant of the account permits it, and a platform route only by a platform grant.\<close>

lemma allow_effective: "allow (effective d a) m path \<longleftrightarrow> permitted d a m path"
proof -
  have s: "cx_super (effective d a) \<longleftrightarrow> (\<exists>x \<in> set (grants_of d (acc_id a)). gives_super x)"
    by (simp add: effective_def Let_def sum_grants_iff)
  have all: "(\<exists>k \<in> set (gs_roleIds (sum_grants d a)). menu_permits d k m path) \<longleftrightarrow>
      (\<exists>(g, r) \<in> set (grants_of d (acc_id a)). gives_menus (g, r) \<and> menu_permits d (gr_roleId g) m path \<and>
        (gr_scope g = ''platform'' \<or> gives_campus (acc_campusId a) (g, r)))"
    by (auto simp: Bex_def sum_grants_iff split_beta)
  have plat: "(\<exists>k \<in> set (gs_platformRoleIds (sum_grants d a)). menu_permits d k m path) \<longleftrightarrow>
      (\<exists>(g, r) \<in> set (grants_of d (acc_id a)). gives_menus (g, r) \<and> menu_permits d (gr_roleId g) m path \<and>
        gr_scope g = ''platform'')"
    by (auto simp: Bex_def sum_grants_iff split_beta)
  show ?thesis
    unfolding allow_def permitted_def s patterns_iff platformPatterns_iff all plat by (auto simp: split_beta)
qed

subsection \<open>The counter of the versions\<close>

definition advanced :: "rbac_db \<Rightarrow> rbac_db \<Rightarrow> bool" where
  "advanced d d' \<longleftrightarrow> (\<exists>v v'. rb_version d = Some v \<and> rb_version d' = Some v' \<and> v < v')"

definition same_rights :: "account \<Rightarrow> account \<Rightarrow> bool" where
  "same_rights a b \<longleftrightarrow> acc_id a = acc_id b \<and> acc_username a = acc_username b \<and> acc_campusId a = acc_campusId b \<and>
    acc_orgLevel a = acc_orgLevel b \<and> acc_organizationId a = acc_organizationId b"

definition unaffected :: "rbac_db \<Rightarrow> rbac_db \<Rightarrow> bool" where
  "unaffected d d' \<longleftrightarrow> roles d' = roles d \<and> grants d' = grants d \<and> menus d' = menus d \<and> role_menus d' = role_menus d \<and>
    (\<forall>b \<in> set (accounts d'). \<exists>a \<in> set (accounts d). same_rights a b)"

text \<open>What the cache relies on: a write that can change what an account may do counts up.\<close>

definition tracks :: "rbac_db \<Rightarrow> rbac_db \<Rightarrow> bool" where
  "tracks d d' \<longleftrightarrow> advanced d d' \<or> rb_version d' = rb_version d \<and> unaffected d d'"

lemma unaffected_refl [simp]: "unaffected d d"
  by (auto simp: unaffected_def same_rights_def)

lemma tracks_refl [simp]: "tracks d d"
  by (simp add: tracks_def)

lemma advanced_trans: "advanced d d1 \<Longrightarrow> advanced d1 d2 \<Longrightarrow> advanced d d2"
  by (auto simp: advanced_def)

lemma unaffected_trans:
  assumes "unaffected d d1" and "unaffected d1 d2"
  shows "unaffected d d2"
proof -
  have "\<exists>a \<in> set (accounts d). same_rights a c" if c: "c \<in> set (accounts d2)" for c
  proof -
    obtain b where b: "b \<in> set (accounts d1)" "same_rights b c" using assms(2) c by (auto simp: unaffected_def)
    then obtain a where "a \<in> set (accounts d)" "same_rights a b" using assms(1) by (auto simp: unaffected_def)
    then show ?thesis using b by (auto simp: same_rights_def)
  qed
  then show ?thesis using assms by (simp add: unaffected_def)
qed

lemma tracks_trans: "tracks d d1 \<Longrightarrow> tracks d1 d2 \<Longrightarrow> tracks d d2"
  using advanced_trans [of d d1 d2] unaffected_trans [of d d1 d2] by (auto simp: tracks_def advanced_def)

lemma advanced_by: "rb_version d = Some v \<Longrightarrow> rb_version d' = Some (v + 1) \<Longrightarrow> tracks d d'"
  by (simp add: tracks_def advanced_def)

lemma unaffected_edit:
  assumes "roles d' = roles d" "grants d' = grants d" "menus d' = menus d" "role_menus d' = role_menus d"
    and "accounts d' = update_where P f (accounts d)" and "\<And>a. same_rights a (f a)"
  shows "unaffected d d'"
proof -
  have "\<exists>a \<in> set (accounts d). same_rights a b" if "b \<in> set (accounts d')" for b
    using that assms(6) unfolding assms(5) by (auto simp: same_rights_def dest!: update_whereD)
  then show ?thesis using assms(1-4) by (simp add: unaffected_def)
qed

lemma grants_advance:
  assumes "replaceAccountGrants actor k gs lvl d = (d', Inr u)"
  shows "advanced d d'"
proof -
  obtain account where acc: "find_row acc_id k (accounts d) = Some account"
    using grants_effect [OF assms] by blast
  define l where "l = normalizeOrgLevel (case lvl of Some l \<Rightarrow> l | None \<Rightarrow> acc_orgLevel account) (acc_campusId account)"
  note run = assms [unfolded replaceAccountGrants_def acc option.case Let_def, folded l_def]
  have chk: "check_grants d actor l gs = None"
    using run by (cases "check_grants d actor l gs") (simp_all add: unless_ok reject_ok)
  have same: "rb_version (align_campus account gs (write_grants actor account gs d)) = rb_version d"
    by (simp add: align_campus_def write_grants_def set_account_def split: list.split)
  show ?thesis using run unfolding chk option.case
    by (auto simp: ok_simps set_account_def same advanced_def)
qed

lemma tracks_grants: "replaceAccountGrants actor k gs lvl d = (d', Inr u) \<Longrightarrow> tracks d d'"
  using grants_advance by (auto simp: tracks_def)

lemma tracks_status:
  assumes "changeAccountStatus actor k status d = (d', Inr u)"
  shows "tracks d d'"
proof -
  obtain account where acc: "find_row acc_id k (accounts d) = Some account"
    using assms by (cases "find_row acc_id k (accounts d)") (simp_all add: changeAccountStatus_def reject_def)
  note run = assms [unfolded changeAccountStatus_def acc option.case]
  show ?thesis using run
    by (cases "acc_status account = status") (auto simp: ok_simps set_account_def intro: advanced_by)
qed

lemma tracks_update:
  assumes "update_account_tx actor k p d = (d', Inr u)"
  shows "tracks d d'"
proof -
  obtain before org ch d1 d2 where
    1: "case ap_grants p of None \<Rightarrow> d1 = d | Some gs \<Rightarrow> replaceAccountGrants actor k gs (Some (fst org)) d = (d1, Inr ())"
    and 2: "case ap_status p of None \<Rightarrow> d2 = d1 | Some st \<Rightarrow> changeAccountStatus actor k st d1 = (d2, Inr ())"
    and same: "roles d' = roles d2" "grants d' = grants d2" "menus d' = menus d2" "role_menus d' = role_menus d2"
      "accounts d' = update_where (\<lambda>a. acc_id a = k) (patch_account p ch org) (accounts d2)"
    and v: "rb_version d' = (if ch then map_option (\<lambda>v. v + 1) (rb_version d2) else rb_version d2)"
      "ch \<Longrightarrow> rb_version d2 \<noteq> None"
    using assms by (rule update_account_effect) (rule that)
  have "tracks d d1" using 1 tracks_grants by (auto split: option.splits)
  moreover have "tracks d1 d2" using 2 tracks_status by (auto split: option.splits)
  moreover have "tracks d2 d'"
  proof (cases ch)
    case True
    then show ?thesis using v by (auto intro: advanced_by)
  next
    case False
    have "same_rights a (patch_account p ch org a)" for a
      using False by (simp add: same_rights_def patch_account_def bump_session_def Let_def split: option.split)
    then have "unaffected d2 d'" by (rule unaffected_edit [OF same])
    then show ?thesis using False v by (simp add: tracks_def)
  qed
  ultimately show ?thesis by (blast intro: tracks_trans)
qed

lemma tx_tracks:
  assumes "rbac_tx d d'"
  shows "tracks d d'"
  using assms
proof cases
  case create_menu
  then show ?thesis
    by (auto simp: create_menu_tx_def Let_def ok_simps split: sum.splits option.splits intro: advanced_by)
next
  case (update_menu https operator k i perms h u)
  from update_menu(1) show ?thesis
  proof (cases rule: update_menu_tx_cases)
    case refused
    then show ?thesis using update_menu(2) by (simp add: reject_def)
  next
    case written
    then show ?thesis using update_menu(2) by (auto simp: write_menu_def ok_simps intro: advanced_by)
  qed
next
  case delete_menu
  then show ?thesis by (auto simp: delete_menu_tx_def Let_def ok_simps split: option.splits intro: advanced_by)
next
  case create_role
  then show ?thesis by (auto simp: create_role_tx_def ok_simps split: option.splits intro: advanced_by)
next
  case update_role
  then show ?thesis by (auto simp: update_role_tx_def ok_simps split: option.splits intro: advanced_by)
next
  case delete_role
  then show ?thesis by (auto simp: delete_role_tx_def ok_simps split: option.splits intro: advanced_by)
next
  case set_roles
  then show ?thesis by (rule tracks_grants)
next
  case set_status
  show ?thesis using set_status(2) by (rule tracks_status)
next
  case (create_account newId ai org actor pw k)
  obtain row d2 where step: "replaceAccountGrants actor newId (case ai_grants ai of Some gs \<Rightarrow> gs | None \<Rightarrow> []) None
      (d\<lparr>accounts := accounts d @ [row]\<rparr>) = (d2, Inr ())" and v: "rb_version d' = rb_version d2"
    using create_account_effect [OF create_account(3)] by blast
  show ?thesis using grants_advance [OF step] v by (simp add: tracks_def advanced_def)
next
  case update_account
  show ?thesis using update_account(2) by (rule tracks_update)
next
  case delete_account
  then show ?thesis by (auto simp: delete_account_tx_def ok_simps split: option.splits intro: advanced_by)
next
  case (reset_password actor k pw)
  then show ?thesis
    by (auto simp: reset_password_tx_def ok_simps set_account_def tracks_def same_rights_def bump_session_def
        split: option.splits intro!: unaffected_edit)
qed

subsection \<open>The cache\<close>

text \<open>The part of a context that decides anything: all of it but the display name and, for accounts that
  are not bound to an organisation, the organisation. Those two may be fifteen seconds old.\<close>

definition rights :: "rbac_ctx \<Rightarrow> rbac_ctx" where
  "rights c = c\<lparr>cx_nickname := [], cx_organizationId := if cx_orgLevel c = LOrg then cx_organizationId c else None\<rparr>"

definition cache_ok :: "rbac_service \<Rightarrow> bool" where
  "cache_ok s \<longleftrightarrow> (\<forall>k sv v c e. rs_cache s (k, sv, v, c) = Some e \<longrightarrow>
    (\<exists>cur. rb_version (rs_db s) = Some cur \<and> v \<le> cur) \<and>
    (rb_version (rs_db s) = Some v \<longrightarrow>
      (\<forall>a \<in> set (accounts (rs_db s)). acc_id a = k \<longrightarrow> rights (ce_ctx e) = rights (effective (rs_db s) a))))"

lemma level_org: "normalizeOrgLevel l c = LOrg \<longleftrightarrow> l = Some ''org''"
  by (cases l) (simp_all add: normalizeOrgLevel_def resolveOrgLevel_def)

lemma org_level_bound:
  assumes "account_typed a" and "normalizeOrgLevel (acc_orgLevel a) (acc_campusId a) = LOrg"
  shows "\<exists>k. truthy (acc_organizationId a) = Some k"
  using assms by (auto simp: account_typed_def level_org)

text \<open>The rights are a function of the tables of access control; the campuses do not matter.\<close>

lemma rights_same:
  assumes "roles d' = roles d" "grants d' = grants d" "menus d' = menus d" "role_menus d' = role_menus d"
    and ab: "same_rights a b" and t: "account_typed a"
  shows "rights (effective d' b) = rights (effective d a)"
proof -
  have f: "acc_id b = acc_id a" "acc_username b = acc_username a" "acc_campusId b = acc_campusId a"
    "acc_orgLevel b = acc_orgLevel a" "acc_organizationId b = acc_organizationId a"
    using ab by (simp_all add: same_rights_def)
  have "add_grant b = add_grant a" by (simp only: add_grant_def f)
  then have sums: "sum_grants d' b = sum_grants d a" by (simp add: sum_grants_def grants_of_def f assms(1,2))
  have m: "granted_menus d' = granted_menus d" "has_menu d' = has_menu d"
    by (intro ext, simp add: granted_menus_def has_menu_def assms(3,4))+
  have o: "context_organization d' b p = context_organization d a p"
    if "normalizeOrgLevel (acc_orgLevel a) (acc_campusId a) = LOrg" for p
    using org_level_bound [OF t that] by (auto simp: context_organization_def f)
  show ?thesis
    by (auto simp: rights_def effective_def Let_def sums m f o)
qed

text \<open>What is decided from a context is decided from its rights.\<close>

lemma rights_allow:
  assumes "rights c = rights c'"
  shows "cx_super c = cx_super c'" "cx_platformPatterns c = cx_platformPatterns c'" "allow c = allow c'"
    "rights (c\<lparr>cx_platform := p\<rparr>) = rights (c'\<lparr>cx_platform := p\<rparr>)"
proof -
  have *: "cx_super (rights x) = cx_super x" "cx_platformPatterns (rights x) = cx_platformPatterns x"
    "cx_patterns (rights x) = cx_patterns x" "rights (x\<lparr>cx_platform := p\<rparr>) = (rights x)\<lparr>cx_platform := p\<rparr>" for x
    by (simp_all add: rights_def)
  then show f: "cx_super c = cx_super c'" "cx_platformPatterns c = cx_platformPatterns c'"
    "rights (c\<lparr>cx_platform := p\<rparr>) = rights (c'\<lparr>cx_platform := p\<rparr>)" using assms by metis+
  have "cx_patterns c = cx_patterns c'" using * assms by metis
  then show "allow c = allow c'" by (intro ext) (simp add: allow_def f)
qed

lemma getEffective_ok:
  assumes c: "cache_ok s" and d: "distinct (map acc_id (accounts (rs_db s)))" and a: "a \<in> set (accounts (rs_db s))"
    and run: "getEffective now a s = (s', x)"
  shows "rs_db s' = rs_db s" and "cache_ok s'" and "x = Inr ctx \<Longrightarrow> rights ctx = rights (effective (rs_db s) a)"
    and "x = Inl e \<longleftrightarrow> rb_version (rs_db s) = None \<and> e = ServiceUnavailable ''the permissions are not available'' "
proof -
  have only: "b = a" if "b \<in> set (accounts (rs_db s))" "acc_id b = acc_id a" for b
    using unique_key [OF d that(1) a that(2)] .
  have fresh: "cache_ok (s\<lparr>rs_cache := (rs_cache s)(cache_key_of v a \<mapsto> \<lparr>ce_ctx = effective (rs_db s) a, ce_expiresAt = t\<rparr>)\<rparr>)"
    if "rb_version (rs_db s) = Some v" for v t
    using c only that unfolding cache_ok_def cache_key_of_def by (auto split: if_splits) blast
  show "rs_db s' = rs_db s" and "cache_ok s'"
    using run c fresh by (auto simp: getEffective_def Let_def reject_def reply_def split: option.splits if_splits)
  show "rights ctx = rights (effective (rs_db s) a)" if x: "x = Inr ctx"
  proof (cases "rb_version (rs_db s)")
    case None
    then show ?thesis using run x by (simp add: getEffective_def reject_def)
  next
    case (Some v)
    then show ?thesis using run x c a unfolding cache_ok_def
      by (auto simp: getEffective_def Let_def reply_def cache_key_of_def split: option.splits if_splits)
  qed
  show "x = Inl e \<longleftrightarrow> rb_version (rs_db s) = None \<and> e = ServiceUnavailable ''the permissions are not available''"
    using run by (auto simp: getEffective_def Let_def reject_def reply_def split: option.splits if_splits)
qed

subsection \<open>The guard\<close>

text \<open>What the guard does with a context.\<close>

definition guard_answer :: "rbac_ctx \<Rightarrow> string \<Rightarrow> string \<Rightarrow> api_error + rbac_ctx" where
  "guard_answer ctx m path =
    (if \<not> (cx_super ctx \<or> \<not> isSuperOnlyOperation m path) then Inl (Forbidden ''only for the super administrator'')
     else if m @ '' '' @ path \<in> set ADMIN_URL_WHITELIST \<or> allow ctx m path
     then Inr (ctx\<lparr>cx_platform := cx_super ctx \<or> matchUrl (cx_platformPatterns ctx) m path\<rparr>)
     else Inl (Forbidden ''no permission''))"

lemma canActivate_run:
  assumes "find_row acc_id userId (accounts (rs_db s)) = Some a" and "assertSession a sv = Inr ()"
    and "getEffective now a s = (s', x)"
  shows "canActivate now userId sv m path s =
    (s', case x of Inl e \<Rightarrow> Inl e | Inr ctx \<Rightarrow> guard_answer ctx m (normalizeAdminPath path))"
  by (auto simp: canActivate_def assms and_then_def Let_def unless_def reject_def reply_def guard_answer_def split: sum.split)

lemma canActivate_refused:
  "find_row acc_id userId (accounts (rs_db s)) = None \<Longrightarrow>
    canActivate now userId sv m path s = (s, Inl (Forbidden ''no access to the back office''))"
  "find_row acc_id userId (accounts (rs_db s)) = Some a \<Longrightarrow> assertSession a sv = Inl e \<Longrightarrow>
    canActivate now userId sv m path s = (s, Inl e)"
  by (simp_all add: canActivate_def reject_def)

lemma guard_answer_rights:
  assumes "rights c = rights c'"
  shows "map_sum (\<lambda>e. e) rights (guard_answer c m path) = map_sum (\<lambda>e. e) rights (guard_answer c' m path)"
  using rights_allow [OF assms] by (simp add: guard_answer_def)

lemma canActivate_ok:
  assumes c: "cache_ok s" and t: "rbac_typed (rs_db s)"
  shows "rs_db (fst (canActivate now userId sv m path s)) = rs_db s" and "cache_ok (fst (canActivate now userId sv m path s))"
    and "snd (canActivate now userId sv m path s) = Inr ctx \<Longrightarrow>
      \<exists>a \<in> set (accounts (rs_db s)). acc_id a = userId \<and> assertSession a sv = Inr () \<and>
        (\<exists>c. rights c = rights (effective (rs_db s) a) \<and> guard_answer c m (normalizeAdminPath path) = Inr ctx)"
proof -
  consider "find_row acc_id userId (accounts (rs_db s)) = None"
    | a e where "find_row acc_id userId (accounts (rs_db s)) = Some a" "assertSession a sv = Inl e"
    | a where "find_row acc_id userId (accounts (rs_db s)) = Some a" "assertSession a sv = Inr ()"
    by (metis (full_types) option.exhaust old.unit.exhaust sum.exhaust)
  then have "rs_db (fst (canActivate now userId sv m path s)) = rs_db s \<and> cache_ok (fst (canActivate now userId sv m path s)) \<and>
    (snd (canActivate now userId sv m path s) = Inr ctx \<longrightarrow>
      (\<exists>a \<in> set (accounts (rs_db s)). acc_id a = userId \<and> assertSession a sv = Inr () \<and>
        (\<exists>c. rights c = rights (effective (rs_db s) a) \<and> guard_answer c m (normalizeAdminPath path) = Inr ctx)))"
  proof cases
    case 1
    then show ?thesis using c by (simp add: canActivate_refused)
  next
    case (2 a e)
    then show ?thesis using c by (simp add: canActivate_refused)
  next
    case (3 a)
    obtain s' x where run: "getEffective now a s = (s', x)" by (cases "getEffective now a s")
    have a: "a \<in> set (accounts (rs_db s))" "acc_id a = userId" using find_row_SomeD [OF 3(1)] by auto
    note eff = getEffective_ok [OF c rbac_typedD(1) [OF t] a(1) run]
    show ?thesis
    proof (cases x)
      case (Inl e)
      then show ?thesis using eff(1,2) by (simp add: canActivate_run [OF 3 run])
    next
      case (Inr c')
      then have "rights c' = rights (effective (rs_db s) a)" by (rule eff(3))
      then have "\<exists>c. rights c = rights (effective (rs_db s) a) \<and> guard_answer c m (normalizeAdminPath path) = Inr ctx"
        if "guard_answer c' m (normalizeAdminPath path) = Inr ctx" using that by blast
      then have "\<exists>a \<in> set (accounts (rs_db s)). acc_id a = userId \<and> assertSession a sv = Inr () \<and>
          (\<exists>c. rights c = rights (effective (rs_db s) a) \<and> guard_answer c m (normalizeAdminPath path) = Inr ctx)"
        if "guard_answer c' m (normalizeAdminPath path) = Inr ctx" using that a 3(2) by (intro bexI [of _ a]) simp_all
      then show ?thesis using eff(1,2) by (simp add: canActivate_run [OF 3 run] Inr)
    qed
  qed
  then show "rs_db (fst (canActivate now userId sv m path s)) = rs_db s" and "cache_ok (fst (canActivate now userId sv m path s))"
    and "snd (canActivate now userId sv m path s) = Inr ctx \<Longrightarrow>
      \<exists>a \<in> set (accounts (rs_db s)). acc_id a = userId \<and> assertSession a sv = Inr () \<and>
        (\<exists>c. rights c = rights (effective (rs_db s) a) \<and> guard_answer c m (normalizeAdminPath path) = Inr ctx)" by blast+
qed

subsection \<open>The life of an instance\<close>

definition node_ok :: "rbac_service \<Rightarrow> bool" where
  "node_ok s \<longleftrightarrow> cache_ok s \<and> rbac_typed (rs_db s)"

lemma empty_cache_ok [simp]: "rs_cache s = (\<lambda>_. None) \<Longrightarrow> cache_ok s"
  by (simp add: cache_ok_def)

lemma cache_remote:
  assumes c: "cache_ok s" and t: "rbac_typed (rs_db s)" and tr: "tracks (rs_db s) d'"
  shows "cache_ok (s\<lparr>rs_db := d'\<rparr>)"
  unfolding cache_ok_def
proof (intro allI impI)
  fix k sv v c0 e assume "rs_cache (s\<lparr>rs_db := d'\<rparr>) (k, sv, v, c0) = Some e"
  then have hit: "rs_cache s (k, sv, v, c0) = Some e" by simp
  obtain cur where cur: "rb_version (rs_db s) = Some cur" "v \<le> cur" using c hit unfolding cache_ok_def by blast
  have old: "rights (ce_ctx e) = rights (effective (rs_db s) a)"
    if "v = cur" "a \<in> set (accounts (rs_db s))" "acc_id a = k" for a
    using c hit cur that unfolding cache_ok_def by blast
  show "(\<exists>cur. rb_version (rs_db (s\<lparr>rs_db := d'\<rparr>)) = Some cur \<and> v \<le> cur) \<and>
    (rb_version (rs_db (s\<lparr>rs_db := d'\<rparr>)) = Some v \<longrightarrow> (\<forall>a \<in> set (accounts (rs_db (s\<lparr>rs_db := d'\<rparr>))). acc_id a = k \<longrightarrow>
      rights (ce_ctx e) = rights (effective (rs_db (s\<lparr>rs_db := d'\<rparr>)) a)))"
  proof (cases "advanced (rs_db s) d'")
    case True
    then show ?thesis using cur by (auto simp: advanced_def)
  next
    case False
    then have same: "rb_version d' = rb_version (rs_db s)" and un: "unaffected (rs_db s) d'" using tr by (auto simp: tracks_def)
    have "rights (ce_ctx e) = rights (effective d' b)" if b: "v = cur" "b \<in> set (accounts d')" "acc_id b = k" for b
    proof -
      obtain a where a: "a \<in> set (accounts (rs_db s))" "same_rights a b" using un b(2) by (auto simp: unaffected_def)
      then have "rights (effective d' b) = rights (effective (rs_db s) a)"
        using un rbac_typedD(2) [OF t a(1)] by (intro rights_same) (auto simp: unaffected_def)
      then show ?thesis using old [OF b(1) a(1)] a(2) b(3) by (simp add: same_rights_def)
    qed
    then show ?thesis using cur same by simp
  qed
qed

lemma typed_campuses: "rbac_typed (d\<lparr>rb_campuses := cs\<rparr>) = rbac_typed d"
  by (simp add: rbac_typed_def grant_typed_def)

lemma node_step_ok: "node_step x y \<Longrightarrow> node_ok (fst x) \<Longrightarrow> node_ok (fst y)"
proof (induction rule: node_step.induct)
  case (local s s' now)
  then show ?case using write_committed [OF local(1)] tx_typed by (auto simp: committed_def node_ok_def)
next
  case (remote c s s' now)
  then have "rs_db s' = rs_db s \<or> rbac_tx (rs_db s) (rs_db s')" using write_committed [OF remote(1)] by (auto simp: committed_def)
  then show ?case using remote(2) tx_typed tx_tracks cache_remote by (auto simp: node_ok_def)
next
  case (request s now userId sv m path)
  then show ?case using canActivate_ok(1,2) by (simp add: node_ok_def)
next
  case (campus s now cs)
  have "tracks (rs_db s) ((rs_db s)\<lparr>rb_campuses := cs\<rparr>)" by (auto simp: tracks_def unaffected_def same_rights_def)
  then show ?case using campus cache_remote by (auto simp: node_ok_def typed_campuses)
qed simp

lemma nodes_ok:
  assumes "node_step\<^sup>*\<^sup>* (s0, t0) (s, now)" and "rs_cache s0 = (\<lambda>_. None)" and "rbac_typed (rs_db s0)"
  shows "cache_ok s \<and> rbac_typed (rs_db s)"
proof -
  have "node_ok (fst y)" if "node_step\<^sup>*\<^sup>* x y" "node_ok (fst x)" for x y
    using that by (induction rule: rtranclp_induct) (auto intro: node_step_ok)
  from this [OF assms(1)] show ?thesis using assms(2,3) by (simp add: node_ok_def)
qed



subsection \<open>The writes, seen by the decisions\<close>


text \<open>C33. The tables agree with each other: identities of accounts are unique, an account names an
  organisation exactly where its level is the organisation, a grant is for an existing account and an
  existing role and names a campus exactly where its scope is the campus, and an account has one role.\<close>

theorem tables_stay_typed:
  assumes "rbac_write\<^sup>*\<^sup>* s s'" and "rbac_typed (rs_db s)"
  shows "rbac_typed (rs_db s')"
  by (rule write_invariant [where I = rbac_typed, OF tx_typed assms])

subsection \<open>The campus of a request\<close>

lemma resolved_in_org:
  assumes "resolveCampusInScope d ctx q = Inr c" and "orgBounded ctx"
  shows "\<exists>x \<in> set (rb_campuses d). ca_id x = c \<and> ca_organizationId x = cx_organizationId ctx"
proof (cases "trim q = []")
  case False
  then have "assertCampusInScope d ctx c = Inr ()"
    using assms by (cases "assertCampusInScope d ctx (trim q)") (auto simp: resolveCampusInScope_def Let_def)
  then show ?thesis using assms(2) find_row_SomeD [of ca_id c "rb_campuses d"]
    by (auto simp: assertCampusInScope_def split: option.splits if_splits)
next
  case True
  define own where "own = campuses_of_org d (cx_organizationId ctx)"
  have "\<exists>x \<in> set own. ca_id x = c"
    using assms True
    by (auto simp: resolveCampusInScope_def Let_def own_def [symmetric] filter_eq_Cons_iff split: list.splits)
  then show ?thesis by (auto simp: own_def campuses_of_org_def)
qed

text \<open>The campuses an account may work on, from the tables.\<close>

definition campus_allowed :: "rbac_db \<Rightarrow> account \<Rightarrow> bool \<Rightarrow> ident \<Rightarrow> bool" where
  "campus_allowed d a platform c \<longleftrightarrow>
    (if acc_orgLevel a = Some ''org''
     then \<exists>x \<in> set (rb_campuses d). ca_id x = c \<and> ca_organizationId x = acc_organizationId a
     else platform \<or> c = acc_campusId a \<or> (\<exists>x \<in> set (grants_of d (acc_id a)). gives_campus c x))"


end
