(* ===== verification/Rbac_Sync.thy ===== *)
theory Rbac_Sync
  imports Rbac_Menus
begin

text \<open>
  The synchronisation of the registry with the tables (\<open>syncRegistry\<close> in
  \<open>src/admin/rbac/rbac.service.ts\<close>): the menu tree is written once, the super administrator's role is
  kept active, retired roles are removed, the preset roles are aligned and old roles and accounts are
  migrated. It is run by hand. \<open>ids\<close> gives the identity of a new row by its code, \<open>names\<close> the display
  name of a menu. Each step returns the tables and whether it changed something.
\<close>

type_synonym step = "rbac_db \<Rightarrow> rbac_db \<times> bool"

definition after_step :: "step \<Rightarrow> step \<Rightarrow> step" where
  "after_step f g s = (case f s of (s1, c1) \<Rightarrow> (case g s1 of (s2, c2) \<Rightarrow> (s2, c1 \<or> c2)))"

definition find_menu :: "rbac_db \<Rightarrow> string \<Rightarrow> admin_menu option" where
  "find_menu s code = find (\<lambda>m. mn_code m = code) (menus s)"

subsection \<open>The menu tree\<close>

definition seed_node :: "(string \<Rightarrow> ident) \<Rightarrow> (string \<Rightarrow> string) \<Rightarrow> menu_def \<Rightarrow> rbac_db \<Rightarrow> rbac_db" where
  "seed_node ids names nd s =
    (case find_menu s (nd_code nd) of
       Some m \<Rightarrow> s
     | None \<Rightarrow> s\<lparr>menus := menus s @ [\<lparr>mn_id = ids (nd_code nd), mn_code = nd_code nd,
         mn_parentId = map_option mn_id (Option.bind (nd_parent nd) (find_menu s)), mn_name = names (nd_code nd),
         mn_type = nd_type nd, mn_perms = join (nd_perms nd), mn_path = nd_path nd,
         mn_viewPath = (if nd_type nd = 1 then nd_code nd else []), mn_orderNum = nd_order nd, mn_isShow = True,
         mn_keepAlive = False, mn_icon = [], mn_status = ''active''\<rparr>]\<rparr>)"

definition seed_menus :: "(string \<Rightarrow> ident) \<Rightarrow> (string \<Rightarrow> string) \<Rightarrow> step" where
  "seed_menus ids names s =
    (if rb_menusSeeded s then (s, False)
     else ((fold (seed_node ids names) (filter (\<lambda>n. nd_parent n \<noteq> None) MENU_NODES)
         (fold (seed_node ids names) (filter (\<lambda>n. nd_parent n = None) MENU_NODES) s))\<lparr>rb_menusSeeded := True\<rparr>, True))"

subsection \<open>Roles\<close>

definition sync_role :: "ident \<Rightarrow> string \<Rightarrow> bool \<Rightarrow> bool \<Rightarrow> string \<Rightarrow> string option \<Rightarrow> admin_role" where
  "sync_role k code builtin seeded assignableBy level =
    \<lparr>rol_id = k, rol_code = code, rol_name = code, rol_remark = [], rol_status = ''active'', rol_builtin = builtin,
     rol_seeded = seeded, rol_menusMigrated = False, rol_legacyCodes = [], rol_assignableBy = assignableBy,
     rol_applicableLevel = level\<rparr>"

definition sync_super :: "(string \<Rightarrow> ident) \<Rightarrow> step" where
  "sync_super ids s =
    (case find_role s SUPER_ROLE_CODE of
       None \<Rightarrow> (s\<lparr>roles := roles s @ [sync_role (ids SUPER_ROLE_CODE) SUPER_ROLE_CODE True True ''platform'' None]\<rparr>, False)
     | Some r \<Rightarrow>
         if rol_status r \<noteq> ''active''
         then (s\<lparr>roles := update_where (\<lambda>x. rol_id x = rol_id r) (rol_status_update (\<lambda>_. ''active'')) (roles s)\<rparr>, True)
         else (s, False))"

definition retired :: "admin_role \<Rightarrow> bool" where
  "retired r \<longleftrightarrow> rol_code r \<in> set (map fst ROLE_TEMPLATES)"

definition drop_retired :: step where
  "drop_retired s =
    (let gone = map rol_id (filter retired (roles s))
     in if gone = [] then (s, False)
        else (s\<lparr>grants := delete_where (\<lambda>g. gr_roleId g \<in> set gone) (grants s),
            role_menus := filter (\<lambda>(r, m). r \<notin> set gone) (role_menus s),
            roles := delete_where (\<lambda>r. rol_id r \<in> set gone) (roles s)\<rparr>, True))"

text \<open>\<open>createMany\<close> with \<open>skipDuplicates\<close>.\<close>

definition add_links :: "ident \<Rightarrow> string list \<Rightarrow> rbac_db \<Rightarrow> rbac_db" where
  "add_links roleId codes s =
    s\<lparr>role_menus := fold (\<lambda>x xs. if x \<in> set xs then xs else xs @ [x])
      (map (\<lambda>m. (roleId, mn_id m)) (List.map_filter (find_menu s) codes)) (role_menus s)\<rparr>"

definition sync_preset :: "(string \<Rightarrow> ident) \<Rightarrow> preset_role \<Rightarrow> step" where
  "sync_preset ids p s =
    (let s1 = (if find_role s (pr_code p) = None
           then s\<lparr>roles := roles s @ [sync_role (ids (pr_code p)) (pr_code p) False False (pr_assignableBy p) (pr_applicableLevel p)]\<rparr>
           else s\<lparr>roles := update_where (\<lambda>r. rol_code r = pr_code p)
               (\<lambda>r. r\<lparr>rol_assignableBy := pr_assignableBy p, rol_applicableLevel := pr_applicableLevel p\<rparr>) (roles s)\<rparr>)
     in case find_role s1 (pr_code p) of
          None \<Rightarrow> (s1, False)
        | Some r \<Rightarrow>
            if rol_seeded r \<or> rol_menusMigrated r then (s1, False)
            else let s2 = add_links (rol_id r) (pr_menuCodes p) s1
              in (s2\<lparr>roles := update_where (\<lambda>x. rol_id x = rol_id r) (rol_seeded_update (\<lambda>_. True)) (roles s2)\<rparr>, True))"

fun sync_presets :: "(string \<Rightarrow> ident) \<Rightarrow> preset_role list \<Rightarrow> step" where
  "sync_presets ids [] s = (s, False)"
| "sync_presets ids (p # ps) s =
    (if pr_code p = SUPER_ROLE_CODE then sync_presets ids ps s
     else after_step (sync_preset ids p) (sync_presets ids ps) s)"

definition stale :: "rbac_db \<Rightarrow> admin_role \<Rightarrow> bool" where
  "stale s r \<longleftrightarrow> \<not> rol_builtin r \<and> \<not> rol_menusMigrated r \<and> (\<forall>(k, m) \<in> set (role_menus s). k \<noteq> rol_id r)"

definition migrate_role :: "admin_role \<Rightarrow> step" where
  "migrate_role r s =
    (if List.map_filter (find_menu s) (js_set (rol_legacyCodes r)) = [] then (s, False)
     else (add_links (rol_id r) (js_set (rol_legacyCodes r)) s, True))"

definition migrate_roles :: step where
  "migrate_roles s =
    (case fold (\<lambda>r. \<lambda>(s, c). case migrate_role r s of (s', c') \<Rightarrow> (s', c \<or> c')) (filter (stale s) (roles s)) (s, False) of
       (s1, c) \<Rightarrow> (s1\<lparr>roles := update_where (\<lambda>r. \<not> rol_menusMigrated r) (rol_menusMigrated_update (\<lambda>_. True)) (roles s1)\<rparr>, c))"

subsection \<open>Accounts\<close>

definition LEGACY_ROLE_MAP :: "(string \<times> string \<times> string) list" where
  "LEGACY_ROLE_MAP = [(''admin'', SUPER_ROLE_CODE, ''platform''), (''hq'', ''hq-director'', ''platform''),
    (''operations'', ''campus-operations'', ''campus''), (''warehouse'', ''campus-warehouse'', ''campus''),
    (''finance'', ''campus-finance'', ''campus'')]"

definition legacy_account :: "rbac_db \<Rightarrow> account \<Rightarrow> bool" where
  "legacy_account s a \<longleftrightarrow> \<not> acc_rbacMigrated a \<and> (\<forall>g \<in> set (grants s). gr_accountId g \<noteq> acc_id a) \<and>
    acc_role a \<in> set (map fst LEGACY_ROLE_MAP)"

definition migration_grant :: "account \<Rightarrow> ident \<Rightarrow> string \<Rightarrow> ident option \<Rightarrow> role_grant" where
  "migration_grant a roleId scope campusId = \<lparr>gr_accountId = acc_id a, gr_roleId = roleId, gr_scope = scope,
    gr_campusId = campusId, gr_grantedBy = ''migration''\<rparr>"

definition migrate_account :: "account \<Rightarrow> step" where
  "migrate_account a s =
    (case map_of LEGACY_ROLE_MAP (acc_role a) of
       None \<Rightarrow> (s, False)
     | Some (code, scope) \<Rightarrow>
         (case find_role s code of
            None \<Rightarrow> (s, False)
          | Some r \<Rightarrow>
              if scope = ''platform''
              then (s\<lparr>grants := grants s @ [migration_grant a (rol_id r) ''platform'' None]\<rparr>, True)
              else let targets = filter (known_campus s) (js_set (acc_campusId a # acc_accesses a))
                in if targets = [] then (s, False)
                   else (s\<lparr>grants := grants s @ map (\<lambda>c. migration_grant a (rol_id r) ''campus'' (Some c)) targets\<rparr>, True)))"

definition migrate_accounts :: step where
  "migrate_accounts s =
    (case fold (\<lambda>a. \<lambda>(s, c). case migrate_account a s of (s', c') \<Rightarrow> (s', c \<or> c')) (filter (legacy_account s) (accounts s)) (s, False) of
       (s1, c) \<Rightarrow> (s1\<lparr>accounts := update_where (\<lambda>a. \<not> acc_rbacMigrated a) (acc_rbacMigrated_update (\<lambda>_. True)) (accounts s1)\<rparr>, c))"

subsection \<open>The whole run\<close>

definition upsert_state :: "rbac_db \<Rightarrow> rbac_db" where
  "upsert_state s = (if rb_version s = None then s\<lparr>rb_version := Some 0, rb_menusSeeded := False\<rparr> else s)"

definition sync_steps :: "(string \<Rightarrow> ident) \<Rightarrow> (string \<Rightarrow> string) \<Rightarrow> step" where
  "sync_steps ids names =
    after_step (seed_menus ids names) (after_step (sync_super ids) (after_step drop_retired
      (after_step (sync_presets ids PRESET_ROLES) (after_step migrate_roles migrate_accounts))))"

definition registry_error :: "api_error option" where
  "registry_error =
    (case assertNoCapabilityOverlap CAPABILITIES of
       Some e \<Rightarrow> Some e
     | None \<Rightarrow> if \<forall>c \<in> set CAPABILITIES. \<forall>p \<in> set (snd c). p \<in> set ALL_PERM_PATTERNS then None
         else Some (InternalError ''a capability names an unregistered pattern''))"

definition syncRegistry :: "(string \<Rightarrow> ident) \<Rightarrow> (string \<Rightarrow> string) \<Rightarrow> (rbac_service, unit) handler" where
  "syncRegistry ids names s =
    (case registry_error of
       Some e \<Rightarrow> reject e s
     | None \<Rightarrow>
         (case sync_steps ids names (upsert_state (rs_db s)) of
            (d, changed) \<Rightarrow>
              if changed then commit (\<lambda>_. bumpVersion d) s
              else (s\<lparr>rs_db := d\<rparr>, Inr ())))"

end
