(* ===== verification/Sync_Theorems.thy ===== *)
theory Sync_Theorems
  imports Rbac_Sync Rbac_Steps
begin

text \<open>
  The synchronisation of the registry settles: a second run finds nothing to do. And what it does to
  accounts from before the roles were tables.
\<close>

subsection \<open>The settled state\<close>

text \<open>The roles after a run, for the presets \<open>ps\<close> that were aligned.\<close>

definition role_ok :: "preset_role list \<Rightarrow> admin_role \<Rightarrow> bool" where
  "role_ok ps r \<longleftrightarrow> (rol_code r = SUPER_ROLE_CODE \<longrightarrow> rol_status r = ''active'') \<and> \<not> retired r \<and>
    (\<forall>p \<in> set ps. rol_code r = pr_code p \<longrightarrow> rol_assignableBy r = pr_assignableBy p \<and> rol_applicableLevel r = pr_applicableLevel p)"

definition roles_ok :: "preset_role list \<Rightarrow> admin_role list \<Rightarrow> bool" where
  "roles_ok ps rs \<longleftrightarrow> SUPER_ROLE_CODE \<in> rol_code ` set rs \<and> (\<forall>p \<in> set ps. pr_code p \<in> rol_code ` set rs) \<and>
    (\<forall>r \<in> set rs. role_ok ps r)"

definition presets :: "preset_role list" where
  "presets = filter (\<lambda>p. pr_code p \<noteq> SUPER_ROLE_CODE) PRESET_ROLES"

definition settled :: "rbac_db \<Rightarrow> bool" where
  "settled d \<longleftrightarrow> rb_version d \<noteq> None \<and> rb_menusSeeded d \<and> roles_ok presets (roles d) \<and>
    (\<forall>r \<in> set (roles d). rol_menusMigrated r) \<and> (\<forall>a \<in> set (accounts d). acc_rbacMigrated a)"

lemma find_role_None: "find_role d c = None \<longleftrightarrow> c \<notin> rol_code ` set (roles d)"
  by (auto simp: find_role_def find_None_iff)

lemma find_role_absent: "find_role d c = None \<Longrightarrow> r \<in> set (roles d) \<Longrightarrow> rol_code r \<noteq> c"
  using find_role_None [of d c] by (metis imageI)

lemma find_role_SomeD: "find_role d c = Some r \<Longrightarrow> r \<in> set (roles d) \<and> rol_code r = c"
  by (auto simp: find_role_def find_Some_iff)

text \<open>An edit of roles that keeps what \<open>role_ok\<close> looks at.\<close>

lemma roles_ok_edit:
  assumes "roles_ok ps rs" and f: "\<And>r. rol_code (f r) = rol_code r"
    and "\<And>r. r \<in> set rs \<Longrightarrow> P r \<Longrightarrow> role_ok ps r \<Longrightarrow> role_ok ps (f r)"
  shows "roles_ok ps (update_where P f rs)"
proof -
  have codes: "rol_code ` set (update_where P f rs) = rol_code ` set rs"
    using map_key_update_where [where key = rol_code and f = f, OF f] by (metis set_map)
  have "role_ok ps r" if "r \<in> set (update_where P f rs)" for r
    using update_whereD [OF that] assms(1,3) by (auto simp: roles_ok_def)
  then show ?thesis using assms(1) by (simp add: roles_ok_def codes)
qed

lemma update_where_noop: "(\<And>r. r \<in> set rows \<Longrightarrow> P r \<Longrightarrow> f r = r) \<Longrightarrow> update_where P f rows = rows"
  by (induction rows) auto

subsection \<open>A settled state is left alone\<close>

lemma preset_settled:
  assumes ok: "roles_ok ps (roles d)" and p: "p \<in> set ps" and m: "\<forall>r \<in> set (roles d). rol_menusMigrated r"
  shows "sync_preset ids p d = (d, False)"
proof -
  have "pr_code p \<in> rol_code ` set (roles d)" using ok p by (simp add: roles_ok_def)
  then obtain r where r: "find_role d (pr_code p) = Some r" using find_role_None [of d "pr_code p"] by blast
  have "update_where (\<lambda>r. rol_code r = pr_code p)
      (\<lambda>r. r\<lparr>rol_assignableBy := pr_assignableBy p, rol_applicableLevel := pr_applicableLevel p\<rparr>) (roles d) = roles d"
  proof (rule update_where_noop)
    fix r assume "r \<in> set (roles d)" "rol_code r = pr_code p"
    then have "rol_assignableBy r = pr_assignableBy p" "rol_applicableLevel r = pr_applicableLevel p"
      using ok p by (auto simp: roles_ok_def role_ok_def)
    then show "r\<lparr>rol_assignableBy := pr_assignableBy p, rol_applicableLevel := pr_applicableLevel p\<rparr> = r" by simp
  qed
  moreover have "rol_menusMigrated r" using find_role_SomeD [OF r] m by blast
  ultimately show ?thesis using r by (simp add: sync_preset_def)
qed

lemma presets_settled:
  assumes "roles_ok ps (roles d)" and "\<forall>r \<in> set (roles d). rol_menusMigrated r"
    and "\<forall>p \<in> set qs. pr_code p \<noteq> SUPER_ROLE_CODE \<longrightarrow> p \<in> set ps"
  shows "sync_presets ids qs d = (d, False)"
  using assms(3) by (induction qs) (auto simp: after_step_def preset_settled [OF assms(1) _ assms(2)])

lemma settled_steps:
  assumes "settled d"
  shows "sync_steps ids names (upsert_state d) = (d, False)"
proof -
  have up: "upsert_state d = d" using assms by (simp add: settled_def upsert_state_def)
  have ok: "roles_ok presets (roles d)" and m: "\<forall>r \<in> set (roles d). rol_menusMigrated r"
    and a: "\<forall>a \<in> set (accounts d). acc_rbacMigrated a" using assms by (auto simp: settled_def)
  have "SUPER_ROLE_CODE \<in> rol_code ` set (roles d)" using ok by (simp add: roles_ok_def)
  then obtain r where r: "find_role d SUPER_ROLE_CODE = Some r" using find_role_None [of d SUPER_ROLE_CODE] by blast
  have 1: "seed_menus ids names d = (d, False)" using assms by (simp add: seed_menus_def settled_def)
  have 2: "sync_super ids d = (d, False)"
    using r ok find_role_SomeD [OF r] by (auto simp: sync_super_def roles_ok_def role_ok_def)
  have "filter retired (roles d) = []" using ok by (auto simp: roles_ok_def role_ok_def filter_empty_conv)
  then have 3: "drop_retired d = (d, False)" by (simp add: drop_retired_def)
  have 4: "sync_presets ids PRESET_ROLES d = (d, False)"
    by (rule presets_settled [OF ok m]) (simp add: presets_def)
  have "filter (stale d) (roles d) = []" using m by (auto simp: stale_def filter_empty_conv)
  moreover have "update_where (\<lambda>r. \<not> rol_menusMigrated r) (rol_menusMigrated_update (\<lambda>_. True)) (roles d) = roles d"
    using m by (intro update_where_noop) auto
  ultimately have 5: "migrate_roles d = (d, False)" by (simp add: migrate_roles_def)
  have "filter (legacy_account d) (accounts d) = []" using a by (auto simp: legacy_account_def filter_empty_conv)
  moreover have "update_where (\<lambda>a. \<not> acc_rbacMigrated a) (acc_rbacMigrated_update (\<lambda>_. True)) (accounts d) = accounts d"
    using a by (intro update_where_noop) auto
  ultimately have 6: "migrate_accounts d = (d, False)" by (simp add: migrate_accounts_def)
  show ?thesis by (simp add: up sync_steps_def after_step_def 1 2 3 4 5 6)
qed

subsection \<open>A run settles\<close>

text \<open>What a run leaves alone until the last steps.\<close>

definition same_frame :: "rbac_db \<Rightarrow> rbac_db \<Rightarrow> bool" where
  "same_frame d d' \<longleftrightarrow> rb_version d' = rb_version d \<and> rb_menusSeeded d' = rb_menusSeeded d"

lemma same_frame_refl: "same_frame d d"
  by (simp add: same_frame_def)

lemma same_frame_trans: "same_frame a b \<Longrightarrow> same_frame b c \<Longrightarrow> same_frame a c"
  by (simp add: same_frame_def)

lemma seed_node_frame [simp]:
  "roles (seed_node ids names n d) = roles d" "rb_version (seed_node ids names n d) = rb_version d"
  by (simp_all add: seed_node_def split: option.split)

lemma seed_nodes_frame [simp]:
  "roles (fold (seed_node ids names) ns d) = roles d" "rb_version (fold (seed_node ids names) ns d) = rb_version d"
  by (induction ns arbitrary: d) simp_all

lemma seeded:
  "roles (fst (seed_menus ids names d)) = roles d" "rb_version (fst (seed_menus ids names d)) = rb_version d"
  "rb_menusSeeded (fst (seed_menus ids names d))"
  by (simp_all add: seed_menus_def)

lemma super_synced:
  assumes "distinct (map rol_code (roles d))"
  shows "SUPER_ROLE_CODE \<in> rol_code ` set (roles (fst (sync_super ids d)))"
    and "\<forall>r \<in> set (roles (fst (sync_super ids d))). rol_code r = SUPER_ROLE_CODE \<longrightarrow> rol_status r = ''active''"
    and "same_frame d (fst (sync_super ids d))"
    and "distinct (map rol_id (roles d)) \<Longrightarrow> ids SUPER_ROLE_CODE \<notin> rol_id ` set (roles d) \<Longrightarrow>
      distinct (map rol_id (roles (fst (sync_super ids d))))"
proof -
  have "SUPER_ROLE_CODE \<in> rol_code ` set (roles (fst (sync_super ids d))) \<and>
    (\<forall>r \<in> set (roles (fst (sync_super ids d))). rol_code r = SUPER_ROLE_CODE \<longrightarrow> rol_status r = ''active'') \<and>
    same_frame d (fst (sync_super ids d)) \<and> (distinct (map rol_id (roles d)) \<longrightarrow> ids SUPER_ROLE_CODE \<notin> rol_id ` set (roles d) \<longrightarrow>
      distinct (map rol_id (roles (fst (sync_super ids d)))))"
  proof (cases "find_role d SUPER_ROLE_CODE")
    case None
    then show ?thesis using find_role_absent [OF None]
      by (auto simp: sync_super_def sync_role_def same_frame_def)
  next
    case (Some r)
    have r: "r \<in> set (roles d)" "rol_code r = SUPER_ROLE_CODE" using find_role_SomeD [OF Some] by auto
    have only: "x = r" if "x \<in> set (roles d)" "rol_code x = SUPER_ROLE_CODE" for x
      using unique_key [OF assms that(1) r(1)] that(2) r(2) by simp
    show ?thesis
    proof (cases "rol_status r = ''active''")
      case True
      then have "\<forall>x \<in> set (roles d). rol_code x = SUPER_ROLE_CODE \<longrightarrow> rol_status x = ''active''" using only by blast
      moreover have "SUPER_ROLE_CODE \<in> rol_code ` set (roles d)" using r by (metis imageI)
      ultimately show ?thesis using True Some by (simp add: sync_super_def same_frame_def)
    next
      case False
      have e: "sync_super ids d = (d\<lparr>roles := update_where (\<lambda>x. rol_id x = rol_id r) (rol_status_update (\<lambda>_. ''active'')) (roles d)\<rparr>, True)"
        using Some False by (simp add: sync_super_def)
      have "rol_status x = ''active''"
        if "x \<in> set (update_where (\<lambda>x. rol_id x = rol_id r) (rol_status_update (\<lambda>_. ''active'')) (roles d))" "rol_code x = SUPER_ROLE_CODE" for x
        using update_whereD [OF that(1)] that(2) only by auto
      moreover have "map rol_code (update_where (\<lambda>x. rol_id x = rol_id r) (rol_status_update (\<lambda>_. ''active'')) (roles d)) = map rol_code (roles d)"
        by (rule map_key_update_where) simp
      then have "SUPER_ROLE_CODE \<in> rol_code ` set (update_where (\<lambda>x. rol_id x = rol_id r) (rol_status_update (\<lambda>_. ''active'')) (roles d))"
        using r by (metis imageI set_map)
      moreover have "map rol_id (update_where (\<lambda>x. rol_id x = rol_id r) (rol_status_update (\<lambda>_. ''active'')) (roles d)) = map rol_id (roles d)"
        by (rule map_key_update_where) simp
      ultimately show ?thesis by (simp add: e same_frame_def del: set_map)
    qed
  qed
  then show "SUPER_ROLE_CODE \<in> rol_code ` set (roles (fst (sync_super ids d)))"
    and "\<forall>r \<in> set (roles (fst (sync_super ids d))). rol_code r = SUPER_ROLE_CODE \<longrightarrow> rol_status r = ''active''"
    and "same_frame d (fst (sync_super ids d))"
    and "distinct (map rol_id (roles d)) \<Longrightarrow> ids SUPER_ROLE_CODE \<notin> rol_id ` set (roles d) \<Longrightarrow>
      distinct (map rol_id (roles (fst (sync_super ids d))))" by blast+
qed

lemma retired_dropped:
  assumes "distinct (map rol_id (roles d))"
  shows "roles (fst (drop_retired d)) = filter (\<lambda>r. \<not> retired r) (roles d)" and "same_frame d (fst (drop_retired d))"
proof -
  have "rol_id r \<in> rol_id ` set (filter retired (roles d)) \<longleftrightarrow> retired r" if "r \<in> set (roles d)" for r
    using unique_key [OF assms that] that by auto
  then have "delete_where (\<lambda>r. rol_id r \<in> rol_id ` set (filter retired (roles d))) (roles d) = filter (\<lambda>r. \<not> retired r) (roles d)"
    unfolding delete_where_def by (intro filter_cong) auto
  moreover have "filter (\<lambda>r. \<not> retired r) (roles d) = roles d" if "filter retired (roles d) = []"
    using that by (simp add: filter_empty_conv filter_id_conv)
  ultimately show "roles (fst (drop_retired d)) = filter (\<lambda>r. \<not> retired r) (roles d)"
    by (auto simp: drop_retired_def Let_def)
  show "same_frame d (fst (drop_retired d))" by (simp add: drop_retired_def Let_def same_frame_def)
qed

lemma super_not_retired: "SUPER_ROLE_CODE \<notin> set (map fst ROLE_TEMPLATES)"
  by (simp add: ROLE_TEMPLATES_def SUPER_ROLE_CODE_def hq_director_template_def campus_operations_template_def
      campus_warehouse_template_def campus_finance_template_def)

lemma presets_not_retired: "p \<in> set presets \<Longrightarrow> pr_code p \<notin> set (map fst ROLE_TEMPLATES)"
  by (auto simp: presets_def PRESET_ROLES_def ROLE_TEMPLATES_def SUPER_ROLE_CODE_def hq_director_template_def
      campus_operations_template_def campus_warehouse_template_def campus_finance_template_def)

lemma presets_distinct: "distinct (map pr_code PRESET_ROLES)"
  by (simp add: PRESET_ROLES_def SUPER_ROLE_CODE_def)

lemma add_links_frame [simp]:
  "roles (add_links k cs d) = roles d" "rb_version (add_links k cs d) = rb_version d"
  "rb_menusSeeded (add_links k cs d) = rb_menusSeeded d" "accounts (add_links k cs d) = accounts d"
  by (simp_all add: add_links_def)

lemma preset_synced:
  assumes ok: "roles_ok ps (roles d)" and new: "\<forall>q \<in> set ps. pr_code q \<noteq> pr_code p"
    and p: "pr_code p \<noteq> SUPER_ROLE_CODE" "pr_code p \<notin> set (map fst ROLE_TEMPLATES)"
  shows "roles_ok (p # ps) (roles (fst (sync_preset ids p d)))" and "same_frame d (fst (sync_preset ids p d))"
proof -
  define rs where "rs = (if find_role d (pr_code p) = None
     then roles d @ [sync_role (ids (pr_code p)) (pr_code p) False False (pr_assignableBy p) (pr_applicableLevel p)]
     else update_where (\<lambda>r. rol_code r = pr_code p)
       (\<lambda>r. r\<lparr>rol_assignableBy := pr_assignableBy p, rol_applicableLevel := pr_applicableLevel p\<rparr>) (roles d))"
  have rs: "roles_ok (p # ps) rs"
  proof (cases "find_role d (pr_code p) = None")
    case True
    then have none: "\<forall>r \<in> set (roles d). rol_code r \<noteq> pr_code p" using find_role_absent by blast
    have "role_ok (p # ps) (sync_role (ids (pr_code p)) (pr_code p) False False (pr_assignableBy p) (pr_applicableLevel p))"
      using p new by (auto simp: role_ok_def sync_role_def retired_def)
    moreover have "role_ok (p # ps) r" if "r \<in> set (roles d)" for r
      using ok none that by (auto simp: roles_ok_def role_ok_def)
    ultimately show ?thesis using ok True by (auto simp: rs_def roles_ok_def sync_role_def)
  next
    case False
    then have code: "pr_code p \<in> rol_code ` set (roles d)" using find_role_None [of d "pr_code p"] by simp
    let ?f = "\<lambda>r. r\<lparr>rol_assignableBy := pr_assignableBy p, rol_applicableLevel := pr_applicableLevel p\<rparr>"
    have "map rol_code rs = map rol_code (roles d)" using False by (simp add: rs_def map_key_update_where)
    then have codes: "rol_code ` set rs = rol_code ` set (roles d)" by (metis set_map)
    have "role_ok (p # ps) r" if "r \<in> set rs" for r
    proof -
      from that False consider x where "x \<in> set (roles d)" "rol_code x = pr_code p" "r = ?f x"
        | "r \<in> set (roles d)" "rol_code r \<noteq> pr_code p" unfolding rs_def by (auto dest!: update_whereD)
      then show ?thesis
      proof cases
        case (1 x)
        have "role_ok ps x" using ok 1(1) by (simp add: roles_ok_def)
        then show ?thesis using 1 new by (auto simp: role_ok_def retired_def)
      next
        case 2
        then show ?thesis using ok by (auto simp: roles_ok_def role_ok_def)
      qed
    qed
    then show ?thesis using ok code by (simp add: roles_ok_def codes)
  qed
  define d1 where "d1 = d\<lparr>roles := rs\<rparr>"
  have d1: "(if find_role d (pr_code p) = None
       then d\<lparr>roles := roles d @ [sync_role (ids (pr_code p)) (pr_code p) False False (pr_assignableBy p) (pr_applicableLevel p)]\<rparr>
       else d\<lparr>roles := update_where (\<lambda>r. rol_code r = pr_code p)
         (\<lambda>r. r\<lparr>rol_assignableBy := pr_assignableBy p, rol_applicableLevel := pr_applicableLevel p\<rparr>) (roles d)\<rparr>) = d1"
    by (simp add: d1_def rs_def)
  have "roles_ok (p # ps) (update_where (\<lambda>x. rol_id x = k) (rol_seeded_update (\<lambda>_. True)) rs)" for k
    by (rule roles_ok_edit [OF rs]) (simp_all add: role_ok_def retired_def)
  then show "roles_ok (p # ps) (roles (fst (sync_preset ids p d)))" "same_frame d (fst (sync_preset ids p d))"
    using rs unfolding sync_preset_def d1 Let_def
    by (auto simp: d1_def same_frame_def split: option.split)
qed

lemma presets_synced:
  assumes "roles_ok ps (roles d)" and "distinct (map pr_code qs)"
    and "\<forall>p \<in> set qs. pr_code p \<noteq> SUPER_ROLE_CODE \<longrightarrow> pr_code p \<notin> pr_code ` set ps \<and> pr_code p \<notin> set (map fst ROLE_TEMPLATES)"
  shows "roles_ok (rev (filter (\<lambda>p. pr_code p \<noteq> SUPER_ROLE_CODE) qs) @ ps) (roles (fst (sync_presets ids qs d))) \<and>
    same_frame d (fst (sync_presets ids qs d))"
  using assms
proof (induction qs arbitrary: ps d)
  case Nil
  then show ?case by (simp add: same_frame_def)
next
  case (Cons q qs)
  show ?case
  proof (cases "pr_code q = SUPER_ROLE_CODE")
    case True
    then show ?thesis using Cons by simp
  next
    case False
    have q: "\<forall>p \<in> set ps. pr_code p \<noteq> pr_code q" "pr_code q \<notin> set (map fst ROLE_TEMPLATES)"
      using Cons.prems(3) False by (auto simp: image_iff)
    note one = preset_synced [OF Cons.prems(1) q(1) False q(2), of ids]
    have "roles_ok (rev (filter (\<lambda>p. pr_code p \<noteq> SUPER_ROLE_CODE) qs) @ q # ps)
        (roles (fst (sync_presets ids qs (fst (sync_preset ids q d))))) \<and>
      same_frame (fst (sync_preset ids q d)) (fst (sync_presets ids qs (fst (sync_preset ids q d))))"
      by (rule Cons.IH [OF one(1)]) (use Cons.prems(2,3) in \<open>auto simp: image_iff\<close>)
    then show ?thesis using False one(2)
      by (auto simp: after_step_def same_frame_def split: prod.split)
  qed
qed

lemma migrate_role_frame:
  "roles (fst (migrate_role r d)) = roles d" "same_frame d (fst (migrate_role r d))"
  by (simp_all add: migrate_role_def same_frame_def)

lemma fold_steps_frame:
  assumes "\<And>x d. P d (fst (f x d))" and "\<And>d. P d d" and "\<And>a b c. P a b \<Longrightarrow> P b c \<Longrightarrow> P a c"
  shows "P d (fst (fold (\<lambda>x. \<lambda>(s, c). case f x s of (s', c') \<Rightarrow> (s', c \<or> c')) xs (d, b)))"
proof (induction xs arbitrary: d b)
  case (Cons x xs)
  obtain d1 b1 where e: "f x d = (d1, b1)" by (cases "f x d")
  have "P d d1" using assms(1) [of d x] e by simp
  moreover have "P d1 (fst (fold (\<lambda>x. \<lambda>(s, c). case f x s of (s', c') \<Rightarrow> (s', c \<or> c')) xs (d1, b \<or> b1)))" by (rule Cons.IH)
  ultimately show ?case using assms(3) by (simp add: e)
qed (simp add: assms(2))

lemma roles_migrated:
  "roles (fst (migrate_roles d)) = update_where (\<lambda>r. \<not> rol_menusMigrated r) (rol_menusMigrated_update (\<lambda>_. True)) (roles d) \<and>
    same_frame d (fst (migrate_roles d))"
proof -
  have "roles (fst (fold (\<lambda>r. \<lambda>(s, c). case migrate_role r s of (s', c') \<Rightarrow> (s', c \<or> c')) rs (d, b))) = roles d \<and>
      same_frame d (fst (fold (\<lambda>r. \<lambda>(s, c). case migrate_role r s of (s', c') \<Rightarrow> (s', c \<or> c')) rs (d, b)))" for rs b
    by (rule fold_steps_frame [where P = "\<lambda>d d'. roles d' = roles d \<and> same_frame d d'"])
      (auto simp: migrate_role_frame same_frame_refl intro: same_frame_trans)
  then show ?thesis by (simp add: migrate_roles_def same_frame_def split: prod.split) (metis fst_conv)
qed

lemma migrate_account_frame:
  "roles (fst (migrate_account a d)) = roles d" "same_frame d (fst (migrate_account a d))"
  by (simp_all add: migrate_account_def same_frame_def Let_def split: option.split)

lemma accounts_migrated:
  "roles (fst (migrate_accounts d)) = roles d \<and> same_frame d (fst (migrate_accounts d)) \<and>
    (\<forall>a \<in> set (accounts (fst (migrate_accounts d))). acc_rbacMigrated a)"
proof -
  have "roles (fst (fold (\<lambda>a. \<lambda>(s, c). case migrate_account a s of (s', c') \<Rightarrow> (s', c \<or> c')) xs (d, b))) = roles d \<and>
      same_frame d (fst (fold (\<lambda>a. \<lambda>(s, c). case migrate_account a s of (s', c') \<Rightarrow> (s', c \<or> c')) xs (d, b)))" for xs b
    by (rule fold_steps_frame [where P = "\<lambda>d d'. roles d' = roles d \<and> same_frame d d'"])
      (auto simp: migrate_account_frame same_frame_refl intro: same_frame_trans)
  from this [of "filter (legacy_account d) (accounts d)" False] show ?thesis
    by (auto simp: migrate_accounts_def same_frame_def dest!: update_whereD split: prod.split)
qed

text \<open>The whole run, on tables whose roles have unique identities and codes; new identities are fresh.\<close>

lemma run_settles:
  assumes run: "sync_steps ids names d = (d', c)" and v: "rb_version d \<noteq> None"
    and ids: "distinct (map rol_id (roles d))" and codes: "distinct (map rol_code (roles d))"
    and new: "ids SUPER_ROLE_CODE \<notin> rol_id ` set (roles d)"
  shows "settled d'"
proof -
  define d1 where "d1 = fst (seed_menus ids names d)"
  define d2 where "d2 = fst (sync_super ids d1)"
  define d3 where "d3 = fst (drop_retired d2)"
  define d4 where "d4 = fst (sync_presets ids PRESET_ROLES d3)"
  define d5 where "d5 = fst (migrate_roles d4)"
  have d': "d' = fst (migrate_accounts d5)"
    using run by (simp add: sync_steps_def after_step_def d1_def d2_def d3_def d4_def d5_def split: prod.splits)
  have 1: "roles d1 = roles d" "rb_version d1 = rb_version d" "rb_menusSeeded d1" by (simp_all add: d1_def seeded)
  note 2 = super_synced [of d1 ids, folded d2_def, unfolded 1, OF codes]
  note 3 = retired_dropped [of d2, folded d3_def, OF 2(4) [OF ids new]]
  obtain r where "r \<in> set (roles d2)" "rol_code r = SUPER_ROLE_CODE" using 2(1) by auto
  then have "r \<in> set (roles d3)" using super_not_retired by (simp add: 3(1) retired_def)
  then have "SUPER_ROLE_CODE \<in> rol_code ` set (roles d3)" using \<open>rol_code r = SUPER_ROLE_CODE\<close> by (metis imageI)
  then have "roles_ok [] (roles d3)" using 2(2) by (auto simp: roles_ok_def role_ok_def 3(1))
  then have 4: "roles_ok (rev presets) (roles d4) \<and> same_frame d3 d4"
    unfolding presets_def d4_def
    using presets_synced [OF _ presets_distinct, of "[]" d3 ids] presets_not_retired by (simp add: presets_def)
  have "roles_ok (rev presets) (roles d5)" unfolding d5_def roles_migrated [THEN conjunct1]
    by (rule roles_ok_edit) (use 4 in \<open>auto simp: role_ok_def retired_def\<close>)
  then have "roles_ok presets (roles d5)" by (simp add: roles_ok_def role_ok_def)
  moreover have "\<forall>r \<in> set (roles d5). rol_menusMigrated r" unfolding d5_def roles_migrated [THEN conjunct1]
    by (auto dest!: update_whereD)
  moreover have "rb_version d' \<noteq> None \<and> rb_menusSeeded d'"
    using 1 2(3) 3(2) 4 roles_migrated [of d4] accounts_migrated [of d5] v
    by (simp add: d' d5_def [symmetric] same_frame_def)
  ultimately show ?thesis using accounts_migrated [of d5] by (simp add: settled_def d')
qed

text \<open>C35. The synchronisation is idempotent. A run that ends leaves tables on which a second run, even with
  other identities and display names, changes nothing: no row, not the version and so no cached context.\<close>

theorem sync_idempotent:
  assumes "syncRegistry ids names s = (s1, Inr ())"
    and "distinct (map rol_id (roles (rs_db s)))" and "distinct (map rol_code (roles (rs_db s)))"
    and "ids SUPER_ROLE_CODE \<notin> rol_id ` set (roles (rs_db s))"
  shows "syncRegistry ids' names' s1 = (s1, Inr ())"
proof -
  have e: "registry_error = None" using assms(1) by (auto simp: syncRegistry_def reject_def split: option.splits)
  obtain d c where run: "sync_steps ids names (upsert_state (rs_db s)) = (d, c)" by fastforce
  have up: "roles (upsert_state (rs_db s)) = roles (rs_db s)" "rb_version (upsert_state (rs_db s)) \<noteq> None"
    by (simp_all add: upsert_state_def)
  have ok: "settled d"
    using run_settles [OF run up(2)] assms(2-4) by (simp add: up)
  have "settled (rs_db s1)"
  proof (cases c)
    case True
    then have "commit (\<lambda>_. bumpVersion d) s = (s1, Inr ())" using assms(1) e run by (simp add: syncRegistry_def)
    then have "bumpVersion d = (rs_db s1, Inr ())"
      by (cases rule: commit_cases [of "\<lambda>_. bumpVersion d" s]) auto
    then have "\<exists>v. rs_db s1 = d\<lparr>rb_version := Some (v + 1)\<rparr>"
      by (cases "rb_version d") (simp_all add: bumpVersion_def reject_def, metis)
    then obtain v where "rs_db s1 = d\<lparr>rb_version := Some (v + 1)\<rparr>" by blast
    then show ?thesis using ok by (simp add: settled_def)
  next
    case False
    then show ?thesis using assms(1) e run ok by (auto simp: syncRegistry_def)
  qed
  then show ?thesis by (simp add: syncRegistry_def e settled_steps)
qed

subsection \<open>A run always ends well\<close>

lemma registry_ok: "registry_error = None"
  using capability_patterns_registered by (auto simp: registry_error_def capabilities_disjoint)

lemma sync_ends:
  assumes "distinct (map rol_id (roles (rs_db s)))" and "distinct (map rol_code (roles (rs_db s)))"
    and "ids SUPER_ROLE_CODE \<notin> rol_id ` set (roles (rs_db s))"
  shows "\<exists>s1. syncRegistry ids names s = (s1, Inr ())"
proof -
  obtain d c where run: "sync_steps ids names (upsert_state (rs_db s)) = (d, c)" by fastforce
  have "settled d" by (rule run_settles [OF run]) (use assms in \<open>simp_all add: upsert_state_def\<close>)
  then show ?thesis
    using run by (auto simp: syncRegistry_def registry_ok settled_def commit_def transaction_def bumpVersion_def)
qed

text \<open>The roles that the old accounts were to be given are retired: once they are gone, only the accounts of
  the old role \<open>admin\<close> still get a grant, all others are marked as migrated without one.\<close>

lemma old_accounts_get_nothing:
  assumes "roles_ok ps (roles d)" and "acc_role a \<noteq> ''admin''"
  shows "migrate_account a d = (d, False)"
proof -
  have gone: "find_role d code = None" if "code \<in> set (map fst ROLE_TEMPLATES)" for code
  proof (cases "find_role d code")
    case (Some r)
    then have "retired r" using find_role_SomeD [OF Some] that by (simp add: retired_def)
    then show ?thesis using assms(1) find_role_SomeD [OF Some] by (auto simp: roles_ok_def role_ok_def)
  qed
  have codes: "code \<in> set (map fst ROLE_TEMPLATES)" if "map_of LEGACY_ROLE_MAP (acc_role a) = Some (code, scope)" for code scope
    using that assms(2)
    by (auto simp: LEGACY_ROLE_MAP_def ROLE_TEMPLATES_def hq_director_template_def campus_operations_template_def
        campus_warehouse_template_def campus_finance_template_def split: if_splits)
  show ?thesis
  proof (cases "map_of LEGACY_ROLE_MAP (acc_role a)")
    case (Some x)
    then obtain code scope where "map_of LEGACY_ROLE_MAP (acc_role a) = Some (code, scope)" by (cases x) auto
    then show ?thesis using gone [OF codes] by (simp add: migrate_account_def)
  qed (simp add: migrate_account_def)
qed

end
