(* ===== verification/Rbac_Samples.thy ===== *)
theory Rbac_Samples
  imports Access_Theorems Sync_Theorems
begin

text \<open>
  Small tables of access control on which the theorems are applied: a super administrator,
  a campus administrator and an account of an organisation; one role with a page and a button.
\<close>

definition root_account :: account where
  "root_account = \<lparr>acc_id = ''a1'', acc_username = ''root'', acc_nickname = [], acc_passwordHash = ''h'',
    acc_campusId = ''ca1'', acc_status = ''active'', acc_sessionVersion = 0, acc_rbacMigrated = True, acc_role = ''rbac'', acc_accesses = [],
    acc_orgLevel = Some ''platform'', acc_organizationId = None\<rparr>"

definition clerk_account :: account where
  "clerk_account = root_account\<lparr>acc_id := ''a2'', acc_username := ''clerk'', acc_orgLevel := Some ''campus''\<rparr>"

definition org_account :: account where
  "org_account = root_account\<lparr>acc_id := ''a3'', acc_username := ''org'', acc_orgLevel := Some ''org'',
    acc_organizationId := Some ''g1''\<rparr>"

definition super_role :: admin_role where
  "super_role = \<lparr>rol_id = ''r1'', rol_code = ''super-admin'', rol_name = [], rol_remark = [], rol_status = ''active'',
    rol_builtin = True, rol_seeded = True, rol_menusMigrated = True, rol_legacyCodes = [], rol_assignableBy = ''platform'', rol_applicableLevel = None\<rparr>"

definition clerk_role :: admin_role where
  "clerk_role = super_role\<lparr>rol_id := ''r2'', rol_code := ''campus-admin'', rol_builtin := False, rol_assignableBy := ''org''\<rparr>"

definition root_menu :: admin_menu where
  "root_menu = \<lparr>mn_id = ''m1'', mn_code = ''ops'', mn_parentId = None, mn_name = ''Ops'', mn_type = 0, mn_perms = [],
    mn_path = [], mn_viewPath = [], mn_orderNum = 0, mn_isShow = True, mn_keepAlive = False, mn_icon = [],
    mn_status = ''active''\<rparr>"

definition page_menu :: admin_menu where
  "page_menu = root_menu\<lparr>mn_id := ''m2'', mn_code := ''orders'', mn_parentId := Some ''m1'', mn_type := 1,
    mn_perms := ''GET /admin/orders'', mn_path := ''/orders'', mn_viewPath := ''dashboard''\<rparr>"

definition rbac0 :: rbac_db where
  "rbac0 = \<lparr>accounts = [root_account, clerk_account, org_account], roles = [super_role, clerk_role],
    grants = [\<lparr>gr_accountId = ''a1'', gr_roleId = ''r1'', gr_scope = ''platform'', gr_campusId = None, gr_grantedBy = []\<rparr>,
      \<lparr>gr_accountId = ''a2'', gr_roleId = ''r2'', gr_scope = ''campus'', gr_campusId = Some ''ca1'', gr_grantedBy = []\<rparr>],
    menus = [root_menu, page_menu], role_menus = [(''r2'', ''m2'')], rb_version = Some 1, rb_menusSeeded = True, rb_campuses = [campus1],
    rb_organizations = [org1], rb_audits = []\<rparr>"

definition service0 :: rbac_service where
  "service0 = \<lparr>rs_db = rbac0, rs_cache = (\<lambda>_. None)\<rparr>"

definition actor0 :: grant_actor where
  "actor0 = \<lparr>ga_id = ''a1'', ga_username = ''root'', ga_super = True, ga_orgLevel = Some LPlatform\<rparr>"

lemmas rbac_samples = root_account_def clerk_account_def org_account_def super_role_def clerk_role_def root_menu_def
  page_menu_def rbac0_def service0_def actor0_def

lemma db_service0 [simp]: "rs_db service0 = rbac0" "rs_cache service0 = (\<lambda>_. None)"
  by (simp_all add: service0_def)

lemma menus_rbac0: "menus rbac0 = [root_menu, page_menu]"
  by (simp add: rbac0_def)

lemma sample_forest: "forest (menus rbac0)"
proof -
  have "forest []" by (simp add: forest_def parent_rel_def acyclic_def)
  then have "forest ([] @ [root_menu])" by (rule forest_append) (simp_all add: rbac_samples)
  then have "forest (([] @ [root_menu]) @ [page_menu])" by (rule forest_append) (simp_all add: rbac_samples)
  then show ?thesis by (simp add: menus_rbac0)
qed

lemma sample_typed: "rbac_typed rbac0"
  by (simp add: rbac_typed_def account_typed_def grant_typed_def account_statuses_def rbac_samples truthy_def)

lemma sample_supers: "supers_ok rbac0"
  by (simp add: supers_ok_def super_grant_def is_super_role_def active_super_grant_def active_super_role_def
      active_account_def rbac_samples SUPER_ROLE_CODE_def)

definition empty_input :: menu_input where
  "empty_input = \<lparr>mi_name = Some ''Page'', mi_type = None, mi_parentCode = None, mi_parentId = None, mi_viewPath = None,
    mi_keepAlive = None, mi_isShow = None, mi_perms = None, mi_path = None, mi_icon = None, mi_orderNum = None\<rparr>"

theorem menu_update_returns_witness:
  "\<exists>s' r. updateMenu (\<lambda>_. False) ''root'' ''m2'' (empty_input\<lparr>mi_parentId := Some (Some ''m1'')\<rparr>) service0 = Some (s', r)"
  by (rule menu_update_returns) (simp add: sample_forest)

theorem delete_menu_exact_witness:
  "\<exists>s'. deleteMenu ''root'' ''m1'' service0 = (s', Inr [''m1'', ''m2'']) \<and>
    set [''m1'', ''m2''] = {mn_id x | x. x \<in> set (menus rbac0) \<and> (mn_id x, ''m1'') \<in> (parent_rel (menus rbac0))\<^sup>*}"
proof -
  have "collect (menus rbac0) [root_menu] 0 = [root_menu, page_menu]"
    by (simp add: collect.simps expand_def children_def push_new_def rbac_samples)
  then have "snd (deleteMenu ''root'' ''m1'' service0) = Inr [''m1'', ''m2'']"
    by (simp add: deleteMenu_def commit_def transaction_def delete_menu_tx_def rbac_samples and_then_def modify_def
        bumpVersion_def rb_audit_def reply_def)
  then obtain s' where run: "deleteMenu ''root'' ''m1'' service0 = (s', Inr [''m1'', ''m2''])"
    by (metis prod.collapse)
  have "distinct (map mn_id (menus (rs_db service0)))" by (simp add: rbac_samples)
  from delete_menu_exact [OF this run] run show ?thesis by simp
qed

theorem menus_stay_a_forest_witness:
  "forest (menus (rs_db (fst (createMenu (\<lambda>_. True) ''root'' ''m3'' ''code'' empty_input service0))))"
proof -
  have "fresh ''m3'' (map mn_id (menus (rs_db service0)))" by (simp add: fresh_def rbac_samples)
  then show ?thesis
    by (rule menus_stay_a_forest [OF r_into_rtranclp [of rbac_write, OF rbac_write.create_menu]])
      (simp add: sample_forest)
qed


definition orders_answer :: "api_error + rbac_ctx" where
  "orders_answer = snd (canActivate 0 ''a2'' (Some 0) ''GET'' ''/api/v1/admin/orders'' service0)"

lemma orders_allowed: "case orders_answer of Inr ctx \<Rightarrow> \<not> cx_platform ctx | Inl e \<Rightarrow> False"
  by code_simp



theorem tables_stay_typed_witness: "rbac_typed (rs_db (fst (deleteAccount actor0 ''a2'' service0)))"
  by (rule tables_stay_typed [OF r_into_rtranclp [of rbac_write, OF rbac_write.delete_account]]) (simp add: sample_typed)


theorem sync_idempotent_witness:
  "\<exists>s1. syncRegistry (\<lambda>c. ''x'' @ c) (\<lambda>c. c) service0 = (s1, Inr ()) \<and>
    syncRegistry (\<lambda>c. ''y'' @ c) (\<lambda>c. c) s1 = (s1, Inr ())"
proof -
  have r: "distinct (map rol_id (roles (rs_db service0)))" "distinct (map rol_code (roles (rs_db service0)))"
    "''x'' @ SUPER_ROLE_CODE \<notin> rol_id ` set (roles (rs_db service0))"
    by (simp_all add: rbac_samples SUPER_ROLE_CODE_def)
  obtain s1 where run: "syncRegistry (\<lambda>c. ''x'' @ c) (\<lambda>c. c) service0 = (s1, Inr ())"
    using sync_ends [of service0 "\<lambda>c. ''x'' @ c" "\<lambda>c. c"] r by auto
  from sync_idempotent [OF run r] run show ?thesis by blast
qed

end
