(* ===== verification/Order_Admin.thy ===== *)
theory Order_Admin
  imports Refunds
begin

text \<open>
  What the back office does to an order, from \<open>src/admin/admin.service.ts\<close>: \<open>order\<close> (the order of the
  campus), \<open>orderAction\<close> (cancel, advance, outbound, mark as an exception, delivery by own staff) and
  \<open>updateOrderStatus\<close>, the change of a status by hand. Pushes and the formatting of the reply are left
  out; \<open>[]\<close> as the campus is the back office of all campuses.
\<close>

definition find_admin_order :: "db \<Rightarrow> ident \<Rightarrow> ident \<Rightarrow> order_row option" where
  "find_admin_order s orderId campusId =
    find (\<lambda>o'. o_id o' = orderId \<and> (campusId = [] \<or> o_campusId o' = campusId)) (orders s)"

subsection \<open>Actions on an order (orderAction)\<close>

fun STAFF_DELIVERY_ACTIONS :: "string \<Rightarrow> order_status \<Rightarrow> order_status option" where
  "STAFF_DELIVERY_ACTIONS action st =
    (if action = ''staff-deliver'' then (if st = WaitingFirstMile then Some FirstMile else None)
     else if action = ''staff-complete'' then (if st \<in> {FirstMile, LastMile} then Some Delivered else None)
     else None)"

definition staff_commit :: "millis \<Rightarrow> order_row \<Rightarrow> order_status \<Rightarrow> (db, order_row option) handler" where
  "staff_commit now o' next =
    and_then
      (claim_order (o_id o') (o_status o')
        (\<lambda>x. x\<lparr>o_status := next, o_statusText := status_text next,
           o_timeline := markTimelineStep now (o_timeline o') next\<rparr>)
        (BadRequest ''the order status has changed''))
    (\<lambda>_. read (\<lambda>s. find_row o_id (o_id o') (orders s)))"

definition staff_delivery :: "millis \<Rightarrow> string \<Rightarrow> order_row \<Rightarrow> (db, order_row option) handler" where
  "staff_delivery now action o' s =
    unless (campusStaffDelivery s (Some (o_campusId o'))) (BadRequest ''the campus delivers by riders'')
      (case STAFF_DELIVERY_ACTIONS action (o_status o') of
         None \<Rightarrow> reject (BadRequest (if o_status o' \<in> {Paid, Picking} then ''the order has not left the warehouse''
           else ''cannot do this in status '' @ o_statusText o'))
       | Some next \<Rightarrow> staff_commit now o' next) s"

text \<open>\<open>order.update({where: {id}})\<close>: the status is not looked at.\<close>

definition mark_exception :: "ident \<Rightarrow> (db, order_row option) handler" where
  "mark_exception orderId =
    and_then
      (modify (\<lambda>s. s\<lparr>orders := update_where (\<lambda>x. o_id x = orderId)
         (\<lambda>x. x\<lparr>o_status := Exception, o_statusText := ''marked as an exception''\<rparr>) (orders s)\<rparr>))
    (\<lambda>_. read (\<lambda>s. find_row o_id orderId (orders s)))"

definition orderAction ::
  "millis \<Rightarrow> ident \<Rightarrow> ident \<Rightarrow> string \<Rightarrow> string \<Rightarrow> ident \<Rightarrow> (db, order_row option) handler" where
  "orderAction now noteId orderId action operator campusId s =
    (case find_admin_order s orderId campusId of
       None \<Rightarrow> reject (NotFound ''no such order'') s
     | Some o' \<Rightarrow>
         and_then
           (if action = ''cancel'' then cancel (o_userId o') orderId
            else if action = ''advance'' then advance now noteId (o_userId o') orderId
            else if action = ''outbound'' then outbound now noteId orderId operator
            else if action = ''mark-exception'' then mark_exception orderId
            else if action \<in> {''staff-deliver'', ''staff-complete''} then staff_delivery now action o'
            else reject (BadRequest ''no such action''))
         (\<lambda>result. and_then (audit operator (''order.'' @ action) orderId) (\<lambda>_. reply result)) s)"

subsection \<open>A status by hand (updateOrderStatus)\<close>

definition FROZEN_BEFORE_STATUSES :: "order_status list" where
  "FROZEN_BEFORE_STATUSES = [PendingPayment, Cancelled, Refunded, Completed, AfterSales]"

definition by_hand_row :: "millis \<Rightarrow> order_row \<Rightarrow> order_status \<Rightarrow> order_row \<Rightarrow> order_row" where
  "by_hand_row now before status x =
    x\<lparr>o_status := status,
      o_statusText := (if status = Delivered then ''delivered, waiting for the receipt'' else status_text status),
      o_timeline := markTimelineStep now (o_timeline before) status\<rparr>"

definition by_hand_commit :: "millis \<Rightarrow> order_row \<Rightarrow> order_status \<Rightarrow> (db, order_row option) handler" where
  "by_hand_commit now before status =
    transaction (and_then
      (claim_order (o_id before) (o_status before) (by_hand_row now before status)
        (BadRequest ''the order status has changed''))
    (\<lambda>_. and_then
      (modify (case truthy (o_couponId before) of
         Some k \<Rightarrow> if status = Cancelled then set_holding k [HLocked, HUsed] HReleased else (\<lambda>s. s)
       | None \<Rightarrow> (\<lambda>s. s)))
    (\<lambda>_. and_then
      (modify (if status \<in> {Delivered, Completed} then recordForDelivered now (before\<lparr>o_status := status\<rparr>)
        else (\<lambda>s. s)))
    (\<lambda>_. read (\<lambda>s. find_row o_id (o_id before) (orders s))))))"

definition updateOrderStatus ::
  "millis \<Rightarrow> ident \<Rightarrow> order_status \<Rightarrow> string option \<Rightarrow> string \<Rightarrow> ident \<Rightarrow> (db, order_row option) handler" where
  "updateOrderStatus now orderId status reason operator campusId s =
    (case find_admin_order s orderId campusId of
       None \<Rightarrow> reject (NotFound ''no such order'') s
     | Some before \<Rightarrow>
         unless (status \<in> set ORDER_STATUSES) (BadRequest ''no such status'')
         (unless (o_status before \<notin> set FROZEN_BEFORE_STATUSES) (BadRequest ''the status cannot be changed now'')
         (unless (status \<in> {Delivered, Completed} \<longrightarrow> trim (case reason of Some t \<Rightarrow> t | None \<Rightarrow> []) \<noteq> [])
           (BadRequest ''a reason is required'')
         (if o_status before = status then reply (Some before)
          else and_then (by_hand_commit now before status)
            (\<lambda>after. and_then (audit operator ''order.manual-status'' orderId) (\<lambda>_. reply after))))) s)"

lemma find_admin_orderD:
  assumes "find_admin_order s orderId campusId = Some raw"
  shows "raw \<in> set (orders s)" and "o_id raw = orderId" and "campusId \<noteq> [] \<Longrightarrow> o_campusId raw = campusId"
  using assms by (auto simp: find_admin_order_def find_Some_iff in_set_conv_nth)

lemma find_admin_order_row:
  assumes "distinct (map o_id (orders s))" and "raw \<in> set (orders s)" and "campusId \<in> {[], o_campusId raw}"
  shows "find_admin_order s (o_id raw) campusId = Some raw"
proof -
  have "find_admin_order s (o_id raw) campusId \<noteq> None"
    using assms(2,3) by (auto simp: find_admin_order_def find_None_iff)
  then obtain x where "find_admin_order s (o_id raw) campusId = Some x" by blast
  then show ?thesis using unique_key [OF assms(1) _ assms(2)] find_admin_orderD by metis
qed

end
