(* ===== verification/Order_Frames.thy ===== *)
theory Order_Frames
  imports Order_Admin Task_Actions Payments
begin

text \<open>
  What every operation of the program leaves of an order, stated as two interfaces. An invariant of the
  first kind (\<open>deal_frame\<close>) may depend on anything but the progress of the orders: every operation keeps
  it. One of the second kind (\<open>order_frame\<close>) may also depend on the orders that are closed; all
  operations keep it but the ones that book money, and the marking of an exception.
\<close>

definition closed_statuses :: "order_status set" where
  "closed_statuses = {Cancelled, Refunded}"

text \<open>What was agreed when the order was placed: whose it is, where it goes and what it costs.\<close>

definition deal :: "order_row \<Rightarrow>
  (ident \<times> string \<times> ident \<times> ident) \<times> (address \<times> string \<times> ident option \<times> millis) \<times> cents list" where
  "deal x = ((o_id x, o_orderNo x, o_userId x, o_campusId x),
    (o_address x, o_deliveryMode x, o_couponId x, o_createdAt x),
    [o_productAmount x, o_deliveryFee x, o_discount x, o_payableAmount x])"

lemma deal_updates [simp]:
  "deal (x\<lparr>o_status := st\<rparr>) = deal x" "deal (x\<lparr>o_statusText := t\<rparr>) = deal x"
  "deal (x\<lparr>o_timeline := steps\<rparr>) = deal x" "deal (x\<lparr>o_package := p\<rparr>) = deal x"
  "deal (x\<lparr>o_riderId := r\<rparr>) = deal x" "deal (x\<lparr>o_items := ls\<rparr>) = deal x"
  "deal (x\<lparr>o_paidAt := pt\<rparr>) = deal x" "deal (x\<lparr>o_stockRestored := b\<rparr>) = deal x"
  by (simp_all add: deal_def)

lemma deal_id: "deal x = deal y \<Longrightarrow> o_id x = o_id y"
  by (simp add: deal_def)

locale order_frame =
  fixes I :: "db \<Rightarrow> bool"
  assumes rest: "I s \<Longrightarrow> orders s' = orders s \<Longrightarrow> I s'"
    and place: "I s \<Longrightarrow> o_id x \<notin> o_id ` set (orders s) \<Longrightarrow> I (s\<lparr>orders := orders s @ [x]\<rparr>)"
    and edit: "I s \<Longrightarrow> (\<And>x. x \<in> set (orders s) \<Longrightarrow> P x \<Longrightarrow> o_status x \<notin> closed_statuses) \<Longrightarrow>
      (\<And>x. deal (f x) = deal x) \<Longrightarrow> I (s\<lparr>orders := update_where P f (orders s)\<rparr>)"
begin

lemma rest_run: "(\<And>s. orders (fst (h s)) = orders s) \<Longrightarrow> keeps I h"
  using rest by (blast intro: keepsI)

lemma rest_modify: "(\<And>s. orders (g s) = orders s) \<Longrightarrow> keeps I (modify g)"
  by (rule rest_run) (simp add: modify_def)

lemma claim_run:
  assumes "\<And>x. P x \<Longrightarrow> o_status x \<notin> closed_statuses" and "\<And>x. deal (f x) = deal x"
  shows "keeps I (claim_or orders orders_update P f e)"
proof (rule keepsI)
  fix s assume "I s"
  from edit [OF this, of P f] assms have "I (s\<lparr>orders := update_where P f (orders s)\<rparr>)" by blast
  then show "I (fst (claim_or orders orders_update P f e s))"
    unfolding claim_or_def update_many_def by (subst table_updates(1)) simp
qed

lemma claim_order_run:
  assumes "st \<notin> closed_statuses" and "\<And>x. deal (f x) = deal x"
  shows "keeps I (claim_order k st f e)"
  unfolding claim_order_def by (rule claim_run) (use assms in auto)

lemma audit_run: "keeps I (audit operator action k)"
  by (rule rest_run) (simp add: audit_def)

lemma read_run: "keeps I (read f)"
  by (rule keeps_read)

lemmas run = keeps_and_then [where I = I] keeps_transaction [where I = I] keeps_reply [where I = I]
  keeps_reject [where I = I] keeps_unless [where I = I] read_run audit_run

subsection \<open>The users\<close>

lemma createOrder_frame:
  assumes "I s" and "newId \<notin> o_id ` set (orders s)"
  shows "I (fst (createOrder tz now newId no u c dto s))"
proof -
  have lock: "orders (fst (lock_coupon u k s)) = orders s" for k s
    unfolding lock_coupon_def claim_or_def update_many_def
    by (subst table_updates(4)) (simp add: reply_def split: option.split)
  obtain s' y where out: "createOrder tz now newId no u c dto s = (s', y)" by force
  show ?thesis
  proof (cases y)
    case (Inl e)
    with out have "s' = s" using atomicD [OF atomic_createOrder] by blast
    then show ?thesis using out assms(1) by simp
  next
    case (Inr r)
    then obtain t1 ct a t2 st s1 o' where q: "validateQuote tz now u c dto s = (t1, Inr (ct, a))"
      and co: "checkout tz now u c dto t1 = (t2, Inr st)" and o': "o' = new_order newId no now u a dto st"
      and l: "lock_coupon u (dt_couponId dto) t2 = (s1, Inr ())" and s': "s' = s1\<lparr>orders := orders s1 @ [o']\<rparr>"
      using out by (auto simp: createOrder_def ok_simps Let_def)
    have "orders s1 = orders s"
      using lock [of "dt_couponId dto" t2] l readsD [OF reads_validateQuote q] readsD [OF reads_checkout co] by simp
    then show ?thesis
      using place [OF rest [OF assms(1)], of s1 o'] assms(2) by (simp add: s' o' out new_order_def)
  qed
qed

lemma close_one_frame: "I s \<Longrightarrow> I (close_one oc s)"
proof -
  let ?P = "\<lambda>x. o_id x = fst oc \<and> o_status x = PendingPayment"
  let ?f = "\<lambda>x. x\<lparr>o_status := Cancelled, o_statusText := ''payment timed out, closed''\<rparr>"
  assume "I s"
  from edit [OF this, of ?P ?f] have e: "I (s\<lparr>orders := update_where ?P ?f (orders s)\<rparr>)"
    by (auto simp: closed_statuses_def)
  show "I (close_one oc s)"
    by (rule rest [OF e]) (simp add: close_one_def Let_def split: option.split)
qed

lemma close_fold_frame: "I s \<Longrightarrow> I (fold close_one ocs s)"
  by (induction ocs arbitrary: s) (simp_all add: close_one_frame)

lemma expire_frame: "I s \<Longrightarrow> I (fst (expireAllPendingOrders now s))"
  by (simp add: expireAllPendingOrders_def closeStalePendingOrders_def Let_def close_fold_frame)

lemma expire_user_frame: "I s \<Longrightarrow> I (expirePendingOrders now u s)"
  by (simp add: expirePendingOrders_def closeStalePendingOrders_def close_fold_frame)

lemma sell_orders: "orders (fst (sell l s)) = orders s"
  unfolding sell_def claim_or_def update_many_def by (subst table_updates(2)) simp

lemma pay_commit_frame: "keeps I (pay_commit b now ids k raw items)"
proof -
  have "keeps I (claim_order (o_id raw) PendingPayment (paid_row now k raw items) e)" for e
    by (rule claim_order_run) (simp_all add: closed_statuses_def paid_row_def)
  moreover have "keeps I (for_each sell items)"
    by (rule keeps_for_each) (rule rest_run, rule sell_orders)
  ultimately show ?thesis
    unfolding pay_commit_def by (intro run rest_modify) simp_all
qed

lemma pay_frame: "keeps I (pay tz b now ids k u oid)"
proof (rule keepsI)
  fix s assume I: "I s"
  obtain s' x where out: "pay tz b now ids k u oid s = (s', x)" by force
  show "I (fst (pay tz b now ids k u oid s))"
  proof (cases x)
    case (Inl e)
    with out have "s' = s" using atomicD [OF atomic_pay] by blast
    then show ?thesis using out I by simp
  next
    case (Inr r)
    with out obtain raw items where "s' = s \<or> pay_commit b now ids k raw items s = (s', Inr r)"
      using pay_cases [of tz b now ids k u oid s s' r] by blast
    then show ?thesis using out I keepsD [OF pay_commit_frame I] by (metis fst_conv)
  qed
qed

lemma advance_frame: "keeps I (advance now n u oid)"
proof -
  have "keeps I (advance_commit now n raw st t)" if "ADVANCE_MAP (o_status raw) = Some (st, t)" for raw st t
  proof -
    have "o_status raw \<notin> closed_statuses" using that by (auto simp: closed_statuses_def)
    then show ?thesis unfolding advance_commit_def by (intro run rest_modify claim_order_run) simp_all
  qed
  then show ?thesis
    unfolding keeps_def advance_def by (auto simp: reject_def split: option.split)
qed

lemma outbound_frame: "keeps I (outbound now n oid operator)"
proof -
  have "keeps I (outbound_commit now n operator m raw)" if "o_status raw \<in> {Paid, Picking}" for m raw
    unfolding outbound_commit_def Let_def
    by (intro run rest_modify claim_order_run) (use that in \<open>auto simp: closed_statuses_def\<close>)
  then show ?thesis
    unfolding keeps_def outbound_def by (auto simp: reject_def unless_def split: option.split)
qed

lemma receipt_frame: "keeps I (confirmReceipt now u oid)"
proof -
  have "keeps I (receipt_commit now raw)" for raw
    unfolding receipt_commit_def by (intro run claim_order_run) (simp_all add: closed_statuses_def)
  then show ?thesis
    unfolding keeps_def confirmReceipt_def by (auto simp: reject_def reply_def unless_def split: option.split)
qed

lemma cancel_frame: "keeps I (cancel u oid)"
proof -
  have "keeps I (cancel_commit raw)" if "o_status raw = PendingPayment" for raw
    unfolding cancel_commit_def
    by (intro run rest_modify claim_order_run) (simp_all add: that closed_statuses_def split: option.split)
  then show ?thesis
    unfolding cancel_def
    by (intro keeps_transaction) (auto simp: keeps_def reject_def unless_def split: option.split)
qed

lemma lock_order_run: "o_status x \<notin> closed_statuses \<Longrightarrow> keeps I (lock_order x t e)"
  unfolding lock_order_def by (rule claim_order_run) simp_all

lemma insert_refund_orders: "orders (insert_refund r items s) = orders s"
  by (simp add: insert_refund_def)

lemma createRefund_frame: "o_status x \<notin> closed_statuses \<Longrightarrow> keeps I (createRefund now ids x i)"
  unfolding createRefund_def createRefund_commit_def Let_def
  by (intro run lock_order_run rest_modify insert_refund_orders)

lemma createAfterSales_frame: "keeps I (createAfterSales now ids u oid d ps)"
proof (rule keepsI)
  fix s assume "I s"
  then show "I (fst (createAfterSales now ids u oid d ps s))"
    using keepsD [OF createRefund_frame]
    by (auto simp: createAfterSales_def reject_def unless_def closed_statuses_def split: option.split sum.split)
qed

lemma applyPreDelivery_frame: "keeps I (applyPreDeliveryRefund now ids u oid m)"
proof (rule keepsI)
  fix s assume "I s"
  then show "I (fst (applyPreDeliveryRefund now ids u oid m s))"
    using keepsD [OF createRefund_frame]
    by (auto simp: applyPreDeliveryRefund_def reject_def unless_def closed_statuses_def Let_def split: option.split)
qed

lemma restore_run: "keeps I (modify (restore_order oid target t))"
proof (rule keeps_modify)
  fix s assume "I s"
  from edit [OF this, of "\<lambda>x. o_id x = oid \<and> o_status x = AfterSales"
    "\<lambda>x. x\<lparr>o_status := target, o_statusText := t\<rparr>"]
  show "I (restore_order oid target t s)" by (auto simp: restore_order_def closed_statuses_def)
qed

lemma withdraw_frame: "keeps I (cancelAfterSale now u k)"
proof -
  have "keeps I (cancelAfterSale_commit now r)" for r
    unfolding cancelAfterSale_commit_def restoreOrderFromRefund_user_def Let_def
    by (intro run rest_modify restore_run) (simp add: set_refund_def)
  then show ?thesis
    unfolding keeps_def cancelAfterSale_def by (auto simp: reject_def unless_def split: option.split)
qed

subsection \<open>The riders and the building managers\<close>

lemma profile_run: "keeps I (profile k)"
  by (rule rest_run) (simp add: profile_def reject_def reply_def unless_def split: option.split)

lemma transfer_run: "keeps I (transfer now st raw)"
  unfolding transfer_def unless_def
  by (auto simp: transfer_commit_def closed_statuses_def
    intro!: keeps_reject [where I = I] keeps_and_then [where I = I] claim_run rest_modify)

lemma rule_not_closed:
  "task_rule st raw a = Some (status, t, from) \<Longrightarrow> set from \<inter> closed_statuses = {}"
  by (cases a) (auto simp: task_rule_def closed_statuses_def split: if_splits)

lemma record_orders: "orders (recordForDelivered now x s) = orders s"
  by (simp add: recordForDelivered_def)

lemma step_run:
  assumes "o_status raw \<notin> closed_statuses"
  shows "keeps I (step_commit now st a p raw status t)"
proof -
  have "keeps I (if a = Deliver then modify (recordForDelivered now x) else reply ())" for x
    by (cases "a = Deliver") (simp_all add: rest_modify record_orders keeps_reply)
  moreover have "keeps I (claim_or orders orders_update
      (\<lambda>x. o_id x = o_id raw \<and> o_status x = o_status raw \<and> (is_manager st \<or> o_riderId x = Some (s_id st)))
      (step_row now a p raw status t) e)" for e
    by (rule claim_run) (use assms in \<open>auto simp: step_row_def\<close>)
  ultimately show ?thesis unfolding step_commit_def by (intro keeps_and_then [where I = I])
qed

lemma accept_run: "keeps I (accept_commit k raw)"
  unfolding accept_commit_def by (rule claim_run) (auto simp: closed_statuses_def)

lemma run_action_run: "keeps I (run_action now st a p raw)"
proof (cases "task_rule st raw a")
  case None
  then show ?thesis by (simp add: run_action_def Let_def keeps_reject)
next
  case (Some q)
  obtain status t "from" where q: "q = (status, t, from)" by (cases q)
  have "keeps I (step_commit now st a p raw status t)" if "o_status raw \<in> set from"
    by (rule step_run) (use rule_not_closed [OF Some [unfolded q]] that in blast)
  then show ?thesis
    by (simp add: run_action_def Let_def Some q unless_def keeps_reject accept_run)
qed

lemma task_frame: "keeps I (updateTask now k tid a p)"
proof -
  have "keeps I (task_transaction now st oid b p)" for st oid b
    unfolding task_transaction_def
    by (intro keeps_transaction) (auto simp: keeps_def reject_def unless_def
      keepsD [OF transfer_run] keepsD [OF run_action_run] split: option.split)
  then show ?thesis
    unfolding updateTask_def
    by (intro keeps_and_then profile_run keeps_read keeps_unless)
      (auto intro!: keeps_and_then keeps_reject reads_keeps [OF reads_task_of] split: option.split)
qed

lemma scan_frame: "keeps I (scanArrive decode now k no)"
proof -
  have "keeps I (claim_or orders orders_update
      (\<lambda>x. o_id x = o_id raw \<and> o_status x = WaitingFirstMile \<and> o_riderId x = Some k)
      (\<lambda>x. x\<lparr>o_status := Arrived, o_statusText := t, o_timeline := tl'\<rparr>) e)" for raw t tl' e
    by (rule claim_run) (auto simp: closed_statuses_def)
  then show ?thesis
    unfolding scanArrive_def Let_def
    by (intro keeps_unless keeps_and_then profile_run keeps_read)
      (auto intro!: keeps_and_then keeps_reject keeps_unless keeps_reply split: option.split)
qed

subsection \<open>The back office\<close>

lemma staff_delivery_frame: "keeps I (staff_delivery now action raw)"
proof -
  have "keeps I (staff_commit now raw next)" if "STAFF_DELIVERY_ACTIONS action (o_status raw) = Some next" for "next"
  proof -
    have "o_status raw \<notin> closed_statuses" using that by (auto simp: closed_statuses_def split: if_splits)
    then show ?thesis unfolding staff_commit_def by (intro run claim_order_run) simp_all
  qed
  then show ?thesis
    unfolding keeps_def staff_delivery_def unless_def
    by (auto simp: reject_def simp del: STAFF_DELIVERY_ACTIONS.simps split: option.split)
qed

lemma orderAction_frame:
  assumes "action \<noteq> ''mark-exception''"
  shows "keeps I (orderAction now n oid action operator c)"
proof -
  have "keeps I (and_then
      (if action = ''cancel'' then cancel (o_userId x) oid
       else if action = ''advance'' then advance now n (o_userId x) oid
       else if action = ''outbound'' then outbound now n oid operator
       else if action = ''mark-exception'' then mark_exception oid
       else if action \<in> {''staff-deliver'', ''staff-complete''} then staff_delivery now action x
       else reject (BadRequest ''no such action''))
      (\<lambda>result. and_then (audit operator (''order.'' @ action) oid) (\<lambda>_. reply result)))" for x
    using assms by (intro run) (simp add: cancel_frame advance_frame outbound_frame staff_delivery_frame keeps_reject)
  then show ?thesis
    unfolding keeps_def orderAction_def by (auto simp: reject_def split: option.split)
qed

lemma by_hand_frame: "keeps I (updateOrderStatus now oid st reason operator c)"
proof -
  have "keeps I (by_hand_commit now raw st)" if "o_status raw \<notin> set FROZEN_BEFORE_STATUSES" for raw
  proof -
    have "keeps I (claim_order (o_id raw) (o_status raw) (by_hand_row now raw st) e)" for e
      by (rule claim_order_run)
        (use that in \<open>auto simp: closed_statuses_def FROZEN_BEFORE_STATUSES_def by_hand_row_def\<close>)
    then show ?thesis
      unfolding by_hand_commit_def
      by (intro run rest_modify) (auto simp: record_orders split: option.split)
  qed
  then have "keeps I (and_then (by_hand_commit now raw st)
      (\<lambda>after. and_then (audit operator ''order.manual-status'' oid) (\<lambda>_. reply after)))"
    if "o_status raw \<notin> set FROZEN_BEFORE_STATUSES" for raw
    using that by (intro run) auto
  then show ?thesis
    unfolding keeps_def updateOrderStatus_def unless_def by (auto simp: reject_def reply_def split: option.split)
qed

end

subsection \<open>Invariants that do not look at the progress of an order\<close>

locale deal_frame =
  fixes I :: "db \<Rightarrow> bool"
  assumes others: "I s \<Longrightarrow> orders s' = orders s \<Longrightarrow> I s'"
    and place_any: "I s \<Longrightarrow> o_id x \<notin> o_id ` set (orders s) \<Longrightarrow> I (s\<lparr>orders := orders s @ [x]\<rparr>)"
    and edit_any: "I s \<Longrightarrow> (\<And>x. deal (f x) = deal x) \<Longrightarrow> I (s\<lparr>orders := update_where P f (orders s)\<rparr>)"

sublocale deal_frame \<subseteq> order_frame
  by unfold_locales (use others place_any edit_any in blast)+

context deal_frame
begin

lemma edit_modify: "(\<And>x. deal (f x) = deal x) \<Longrightarrow> keeps I (modify (\<lambda>s. s\<lparr>orders := update_where P f (orders s)\<rparr>))"
  using edit_any by (blast intro: keeps_modify)

lemma claim_any:
  assumes "\<And>x. deal (f x) = deal x"
  shows "keeps I (claim_or orders orders_update P f e)"
proof (rule keepsI)
  fix s assume "I s"
  from edit_any [OF this, of f P] assms have "I (s\<lparr>orders := update_where P f (orders s)\<rparr>)" by blast
  then show "I (fst (claim_or orders orders_update P f e s))"
    unfolding claim_or_def update_many_def by (subst table_updates(1)) simp
qed

lemma exception_frame: "keeps I (orderAction now n oid ''mark-exception'' operator c)"
proof -
  have "keeps I (and_then (mark_exception oid)
      (\<lambda>result. and_then (audit operator (''order.'' @ ''mark-exception'') oid) (\<lambda>_. reply result)))"
    unfolding mark_exception_def by (intro run edit_modify) simp
  then show ?thesis
    unfolding keeps_def orderAction_def by (auto simp: reject_def split: option.split)
qed

lemma freeze_frame: "I s \<Longrightarrow> I (freeze_order n x s)"
proof -
  let ?P = "\<lambda>y. o_id y = o_id x \<and> o_status y \<in> {PendingPayment, Cancelled}"
  let ?f = "\<lambda>y. y\<lparr>o_status := Exception, o_statusText := ''paid, but the order needs support''\<rparr>"
  assume "I s"
  from edit_any [OF this, of ?f ?P] have e: "I (s\<lparr>orders := update_where ?P ?f (orders s)\<rparr>)" by simp
  show "I (freeze_order n x s)"
    by (rule others [OF e]) (simp add: freeze_order_def Let_def)
qed

lemma payment_frame: "I s \<Longrightarrow> I (applyPayment tz b now ids k n x s)"
  using keepsD [OF pay_frame] freeze_frame
  by (simp add: applyPayment_def split: prod.split sum.split) (metis fst_conv)

subsection \<open>The review and the booking of refunds\<close>

lemma set_refund_run: "keeps I (modify (set_refund now k f))"
  by (rule rest_modify) (simp add: set_refund_def)

lemma row_of_run: "keeps I (row_of k)"
  by (rule rest_run) (simp add: row_of_def reply_def reject_def split: option.split)

lemma restore_admin_run: "keeps I (modify (restoreOrderFromRefund_admin oid before))"
  unfolding restoreOrderFromRefund_admin_def Let_def by (rule restore_run)

lemma lock_any: "keeps I (lock_order x t e)"
  unfolding lock_order_def claim_order_def by (rule claim_any) simp

lemma give_back_run: "keeps I (modify (give_back x y))"
proof (rule keeps_modify)
  fix s assume I: "I s"
  have "I (give_back_stock x y s)"
  proof (cases "o_stockRestored y")
    case False
    have "I (s\<lparr>orders := update_where (\<lambda>z. o_id z = o_id x) (\<lambda>z. z\<lparr>o_stockRestored := True\<rparr>) (orders s)\<rparr>)"
      by (rule edit_any [OF I]) simp
    then show ?thesis by (rule others) (simp add: give_back_stock_def False)
  qed (simp add: give_back_stock_def I)
  then show "I (give_back x y s)"
    by (rule others) (simp add: give_back_def give_back_coupon_def split: option.split)
qed

lemmas refund_run = run set_refund_run row_of_run restore_admin_run lock_any give_back_run

lemma finish_commit_run: "keeps I (finish_commit now r x w)"
proof -
  have "keeps I (modify (if b then give_back x c else (\<lambda>s. s)))" for b c
    by (cases b) (simp_all add: give_back_run rest_modify)
  moreover have "keeps I (claim_or orders orders_update P (finished_patch f r) e)" for P f e
    by (rule claim_any) (simp add: finished_patch_def)
  ultimately have "keeps I (finish_writes now r x w cr cur t f)" for cr cur t f
    unfolding finish_writes_def by (intro refund_run)
  then show ?thesis
    unfolding finish_commit_def
    by (intro keeps_transaction) (auto simp: keeps_def reject_def reply_def Let_def split: option.split)
qed

lemma refundAdjust_orders: "orders (refundAdjust now k m ratio s) = orders s"
  by (simp add: refundAdjust_def Let_def)

lemma finish_tail_run: "keeps I (finish_tail now r x operator res)"
  unfolding finish_tail_def Let_def
  by (auto intro!: refund_run rest_modify simp: refundAdjust_orders)

lemma finishRefund_run: "keeps I (finishRefund now r w operator)"
proof -
  have "keeps I (and_then (finish_commit now r x w) (finish_tail now r x operator))" for x
    by (intro refund_run finish_commit_run finish_tail_run)
  then show ?thesis
    by (auto simp: keeps_def finishRefund_def reject_def reply_def split: option.split)
qed

lemma book_unknown_run: "keeps I (book_unknown now operator k)"
  unfolding book_unknown_def by (intro refund_run)

lemma book_refused_run: "keeps I (book_refused now operator r m)"
  unfolding book_refused_def by (intro refund_run)

lemma book_outcome_run: "keeps I (book_outcome now operator r fin applied)"
proof (rule keepsI)
  fix s assume I: "I s"
  have "keeps I (and_then (modify (set_refund now (r_id r) f))
      (\<lambda>_. and_then (row_of (r_id r)) (\<lambda>row. and_then (audit operator a (r_id r)) (\<lambda>_. reply row))))" for f a
    by (intro refund_run)
  moreover have "I s'" if "finishRefund now fin w operator s = (s', x)" for w s' x
    using keepsD [OF finishRefund_run I] that by (metis fst_conv)
  ultimately show "I (fst (book_outcome now operator r fin applied s))"
    using keepsD [OF book_unknown_run] keepsD [OF book_refused_run] I
    by (auto simp: book_outcome_def keeps_def split: wx_outcome.split prod.split sum.split)
qed

lemma approve_commit_run: "keeps I (approve_commit now operator m as fee r x)"
proof -
  have "keeps I (claim_or refunds refunds_update P f e)" for P f e
    unfolding claim_or_def update_many_def by (rule rest_run) (subst table_updates(5), simp)
  moreover have "keeps I (modify (fold write_amount as))"
  proof (rule rest_modify)
    show "orders (fold write_amount as s) = orders s" for s
      by (induction as arbitrary: s) (simp_all add: write_amount_def)
  qed
  moreover have "keeps I (approve_amount now fee r x)"
    using keepsD [OF set_refund_run] keepsD [OF row_of_run]
    by (intro keepsI) (auto simp: approve_amount_def reject_def unless_def and_then_def modify_def split: sum.split)
  ultimately show ?thesis
    unfolding approve_commit_def
    by (cases "o_status x = AfterSales") (simp_all, (intro refund_run; simp)+)
qed

lemma reject_run: "keeps I (reject_refund now operator m r)"
  unfolding reject_refund_def reject_commit_def by (intro refund_run)

lemma review_frame: "keeps I (auditRefund pay' now k act operator scope m amounts flag)"
proof -
  have ok: "keeps I (and_then (approve_commit now operator m as fee r x)
      (\<lambda>fin. book_outcome now operator r fin (g fin)))" for as fee r x g
    by (intro refund_run approve_commit_run book_outcome_run)
  have "I (fst (approve_refund pay' now operator m as fee r x s))" if "I s" for as fee r x s
    using keepsD [OF ok that]
    by (auto simp: approve_refund_def unless_def reject_def that split: option.split)
  then show ?thesis
    using keepsD [OF reject_run]
    by (intro keepsI) (auto simp: auditRefund_def reject_def split: option.split prod.split audit_action.split)
qed

lemma reconcile_run: "keeps I (reconcileWechatRefundStatus now k st w operator scope)"
proof -
  have "keeps I (book_processing now w' r x)" for w' r x
    unfolding book_processing_def by (intro refund_run edit_modify) simp
  moreover have "keeps I (book_closed now st w' r)" for w' r
    unfolding book_closed_def by (intro refund_run)
  ultimately have ok: "keeps I (and_then (audit operator ''refund.sync'' k)
      (\<lambda>_. if r_status r = RRefunded then reply r
        else if st = ''SUCCESS'' then finishRefund now r w'' operator
        else if st = ''PROCESSING'' then book_processing now w r x
        else if st \<in> {''CLOSED'', ''ABNORMAL''} then book_closed now st w r else reply r))" for r x w''
    by (intro refund_run) (simp add: finishRefund_run keeps_reply)
  show ?thesis
  proof (rule keepsI)
    fix s assume "I s"
    then show "I (fst (reconcileWechatRefundStatus now k st w operator scope s))"
      unfolding reconcileWechatRefundStatus_def
      by (cases "scoped_refund s k scope")
        (simp_all only: option.case prod.case reject_def fst_conv keepsD [OF ok] split: prod.split, simp)
  qed
qed

lemma sync_frame: "keeps I (syncRefund query now k operator scope)"
  using keepsD [OF reconcile_run]
  by (intro keepsI) (auto simp: syncRefund_def reject_def unless_def split: option.split sum.split)

lemma unshipped_run: "keeps I (createUnshippedFullRefund now k x m operator)"
proof (rule keepsI)
  fix s assume "I s"
  moreover have "keeps I (and_then (modify (insert_refund r []))
      (\<lambda>_. and_then (audit operator a oid) (\<lambda>_. reply r)))" for r a oid
    by (intro refund_run rest_modify) (simp add: insert_refund_def)
  ultimately show "I (fst (createUnshippedFullRefund now k x m operator s))"
    by (simp add: createUnshippedFullRefund_def unless_def reject_def Let_def keepsD)
qed

lemma office_frame: "keeps I (createAndApproveRefund pay' now ids oid b operator scope)"
proof (rule keepsI)
  fix s assume I: "I s"
  have ok: "keeps I (and_then (createApproved_commit now ids x items amount m operator)
      (\<lambda>r. auditRefund pay' now (r_id r) Approve operator sc m' None None))" for x items amount m m' sc pay'
    unfolding createApproved_commit_def Let_def
    by (intro refund_run review_frame rest_modify insert_refund_orders)
  have no: "I (fst (reject e s))" for e :: api_error by (simp add: reject_def I)
  show "I (fst (createAndApproveRefund pay' now ids oid b operator scope s))"
    unfolding createAndApproveRefund_def unless_def Let_def
    by (simp add: no keepsD [OF unshipped_run I] keepsD [OF ok I] split: option.split sum.split)
qed

end

end
