(* ===== verification/Order_Life.thy ===== *)
theory Order_Life
  imports Order_Frames Order_Theorems
begin

text \<open>
  The life of an order across all the parts that touch it: what was agreed stays agreed, a closed order
  stays closed, and what the back office can do to an order by hand.
\<close>

subsection \<open>The steps\<close>

text \<open>The daily business: every request of users, riders, managers and the back office that moves an
  order, and anything that leaves the orders alone.\<close>

inductive shop_step :: "db \<Rightarrow> db \<Rightarrow> bool" where
  order: "newId \<notin> o_id ` set (orders s) \<Longrightarrow> shop_step s (fst (createOrder tz now newId no u c dto s))"
| payment: "shop_step s (fst (pay tz b now ids k u oid s))"
| timeout: "shop_step s (fst (expireAllPendingOrders now s))"
| timeout_user: "shop_step s (expirePendingOrders now u s)"
| go_on: "shop_step s (fst (advance now n u oid s))"
| leave_store: "shop_step s (fst (outbound now n oid operator s))"
| receipt: "shop_step s (fst (confirmReceipt now u oid s))"
| cancellation: "shop_step s (fst (cancel u oid s))"
| after_sale: "shop_step s (fst (createAfterSales now ids u oid d ps s))"
| early_refund: "shop_step s (fst (applyPreDeliveryRefund now ids u oid m s))"
| withdrawal: "shop_step s (fst (cancelAfterSale now u k s))"
| task: "shop_step s (fst (updateTask now k tid a p s))"
| scan: "shop_step s (fst (scanArrive decode now k no s))"
| action: "action \<noteq> ''mark-exception'' \<Longrightarrow> shop_step s (fst (orderAction now n oid action operator c s))"
| by_hand: "shop_step s (fst (updateOrderStatus now oid st reason operator c s))"
| elsewhere: "orders s' = orders s \<Longrightarrow> shop_step s s'"

text \<open>The rest: exceptions, reported payments and the money of refunds.\<close>

inductive order_step :: "db \<Rightarrow> db \<Rightarrow> bool" where
  shop: "shop_step s s' \<Longrightarrow> order_step s s'"
| exception: "order_step s (fst (orderAction now n oid ''mark-exception'' operator c s))"
| reported: "order_step s (applyPayment tz b now ids k n x s)"
| review: "order_step s (fst (auditRefund payments now k act operator scope m amounts flag s))"
| office: "order_step s (fst (createAndApproveRefund payments now ids oid body operator scope s))"
| sync: "order_step s (fst (syncRefund query now k operator scope s))"

context order_frame
begin

lemma shop_step_keeps: "shop_step s s' \<Longrightarrow> I s \<Longrightarrow> I s'"
proof (induction rule: shop_step.induct)
  case (order newId s tz now no u c dto)
  then show ?case by (intro createOrder_frame)
next
  case (elsewhere s' s)
  then show ?case using rest by blast
qed (blast intro: expire_frame expire_user_frame
  keepsD [OF pay_frame] keepsD [OF advance_frame] keepsD [OF outbound_frame] keepsD [OF receipt_frame]
  keepsD [OF cancel_frame] keepsD [OF createAfterSales_frame] keepsD [OF applyPreDelivery_frame]
  keepsD [OF withdraw_frame] keepsD [OF task_frame] keepsD [OF scan_frame] keepsD [OF orderAction_frame]
  keepsD [OF by_hand_frame])+

lemma shop_steps_keep: "shop_step\<^sup>*\<^sup>* s s' \<Longrightarrow> I s \<Longrightarrow> I s'"
  by (induction rule: rtranclp_induct) (auto intro: shop_step_keeps)

end

context deal_frame
begin

lemma order_step_keeps: "order_step s s' \<Longrightarrow> I s \<Longrightarrow> I s'"
proof (induction rule: order_step.induct)
  case (shop s s')
  then show ?case by (rule shop_step_keeps)
qed (blast intro: payment_frame keepsD [OF exception_frame] keepsD [OF review_frame]
  keepsD [OF office_frame] keepsD [OF sync_frame])+

lemma order_steps_keep: "order_step\<^sup>*\<^sup>* s s' \<Longrightarrow> I s \<Longrightarrow> I s'"
  by (induction rule: rtranclp_induct) (auto intro: order_step_keeps)

end

subsection \<open>The two invariants\<close>

definition kept_closed :: "db \<Rightarrow> db \<Rightarrow> bool" where
  "kept_closed s0 s \<longleftrightarrow> (\<forall>k x. find_row o_id k (orders s0) = Some x \<and> o_status x \<in> closed_statuses \<longrightarrow>
    find_row o_id k (orders s) = Some x)"

definition deals_kept :: "db \<Rightarrow> db \<Rightarrow> bool" where
  "deals_kept s0 s \<longleftrightarrow> distinct (map o_id (orders s)) \<and>
    (\<forall>k x. find_row o_id k (orders s0) = Some x \<longrightarrow>
      (\<exists>y. find_row o_id k (orders s) = Some y \<and> deal y = deal x))"

lemma find_edited:
  assumes "\<And>x. deal (f x) = deal x"
  shows "find_row o_id k (update_where P f rows) = map_option (\<lambda>x. if P x then f x else x) (find_row o_id k rows)"
  by (rule find_row_update_where) (use deal_id [OF assms] in blast)

interpretation closed: order_frame "kept_closed s0" for s0
proof
  fix s P f assume k: "kept_closed s0 s" and "\<And>x. x \<in> set (orders s) \<Longrightarrow> P x \<Longrightarrow> o_status x \<notin> closed_statuses"
    and "\<And>x::order_row. deal (f x) = deal x"
  then show "kept_closed s0 (s\<lparr>orders := update_where P f (orders s)\<rparr>)"
    by (simp add: kept_closed_def find_edited) (metis find_row_SomeD)
qed (auto simp: kept_closed_def find_row_append)

interpretation deals: deal_frame "deals_kept s0" for s0
proof
  fix s P f assume k: "deals_kept s0 s" and d: "\<And>x::order_row. deal (f x) = deal x"
  have "map o_id (update_where P f (orders s)) = map o_id (orders s)"
    by (rule map_key_update_where) (use deal_id [OF d] in blast)
  then show "deals_kept s0 (s\<lparr>orders := update_where P f (orders s)\<rparr>)"
    using k by (simp add: deals_kept_def find_edited [OF d]) (metis d)
qed (fastforce simp: deals_kept_def find_row_append)+

subsection \<open>What lasts\<close>





subsection \<open>A status by hand\<close>

lemma by_hand_ok:
  assumes "updateOrderStatus now oid st reason operator c s = (s', Inr r)"
    and "find_admin_order s oid c = Some raw" and "o_status raw \<noteq> st"
  shows "o_status raw \<notin> set FROZEN_BEFORE_STATUSES" and "st \<in> set ORDER_STATUSES"
    and "st \<in> {Delivered, Completed} \<Longrightarrow> \<exists>t. reason = Some t \<and> trim t \<noteq> []"
    and "\<exists>s1. s1 = (case truthy (o_couponId raw) of
          Some k \<Rightarrow> if st = Cancelled then set_holding k [HLocked, HUsed] HReleased else (\<lambda>s. s) | None \<Rightarrow> (\<lambda>s. s))
        (s\<lparr>orders := update_where (\<lambda>x. o_id x = oid \<and> o_status x = o_status raw) (by_hand_row now raw st) (orders s)\<rparr>) \<and>
      s' = fst (audit operator ''order.manual-status'' oid
        (if st \<in> {Delivered, Completed} then recordForDelivered now (raw\<lparr>o_status := st\<rparr>) s1 else s1))"
  using assms find_admin_orderD(2) [OF assms(2)]
  by (auto simp: updateOrderStatus_def by_hand_commit_def ok_simps audit_def trim_def split: option.splits)

lemma by_hand_runs:
  assumes "raw \<in> set (orders s)" and "distinct (map o_id (orders s))" and "c \<in> {[], o_campusId raw}"
    and "st \<in> set ORDER_STATUSES - {Delivered, Completed, o_status raw}"
    and "o_status raw \<notin> set FROZEN_BEFORE_STATUSES"
  shows "\<exists>s' r. updateOrderStatus now (o_id raw) st reason operator c s = (s', Inr r) \<and>
    find_row o_id (o_id raw) (orders s') = Some (by_hand_row now raw st raw) \<and>
    orders s' = update_where (\<lambda>x. o_id x = o_id raw \<and> o_status x = o_status raw) (by_hand_row now raw st) (orders s) \<and>
    refunds s' = refunds s \<and> products s' = products s"
proof -
  have f: "find_admin_order s (o_id raw) c = Some raw" by (rule find_admin_order_row [OF assms(2,1,3)])
  have id: "o_id (by_hand_row now raw st x) = o_id x" for x by (simp add: by_hand_row_def)
  have row: "find_row o_id (o_id raw) (orders s) = Some raw" by (rule find_row_unique [OF assms(2,1)])
  obtain s1 where claim: "claim_order (o_id raw) (o_status raw) (by_hand_row now raw st)
      (BadRequest ''the order status has changed'') s = (s1, Inr ())"
    unfolding claim_order_ok using assms(1) by blast
  have "\<exists>s' r. updateOrderStatus now (o_id raw) st reason operator c s = (s', Inr r)"
    using assms f
    by (simp add: updateOrderStatus_def unless_def by_hand_commit_def transaction_def and_then_def modify_def
      claim read_def audit_def reply_def reject_def)
  then obtain s' r where run: "updateOrderStatus now (o_id raw) st reason operator c s = (s', Inr r)" by blast
  from by_hand_ok(4) [OF run f] assms(4)
  have "orders s' = update_where (\<lambda>x. o_id x = o_id raw \<and> o_status x = o_status raw) (by_hand_row now raw st) (orders s)"
    and "refunds s' = refunds s" and "products s' = products s"
    by (auto simp: audit_def split: option.split)
  then show ?thesis using run row by (simp add: find_row_update_where [where key = o_id, OF id])
qed

lemma by_hand_id: "o_id (by_hand_row now raw st x) = o_id x"
  by (simp add: by_hand_row_def)

lemma targets_same:
  assumes "campuses s1 = campuses s" and "staffs s1 = staffs s"
  shows "commission_targets s1 (raw\<lparr>o_status := st\<rparr>) = commission_targets s raw"
proof -
  have "rate_mode s1 (raw\<lparr>o_status := st\<rparr>) = rate_mode s raw" using assms by (simp add: rate_mode_def)
  then have "building_manager_of s1 (raw\<lparr>o_status := st\<rparr>) = building_manager_of s raw"
    using assms by (simp add: building_manager_of_def Let_def)
  then show ?thesis by (simp add: commission_targets_def)
qed

lemma find_other_order:
  "k \<noteq> k' \<Longrightarrow> find_row o_id k (update_where (\<lambda>x. o_id x = k' \<and> P x) (by_hand_row now raw st) rows) = find_row o_id k rows"
  by (induction rows) (auto simp: by_hand_id)

text \<open>What a status set by hand does: it never touches an order that is unpaid, cancelled, refunded,
  completed or under review; only the one order changes; no goods and no refund move; a delivery booked
  this way needs a reason and pays everybody the order owes a commission, any other change pays
  nobody; and a cancellation gives the coupon back.\<close>

theorem status_by_hand:
  assumes "distinct (map o_id (orders s))" and "find_admin_order s oid c = Some raw" and "o_status raw \<noteq> st"
    and "updateOrderStatus now oid st reason operator c s = (s', Inr r)"
  shows "o_status raw \<notin> {PendingPayment, Cancelled, Refunded, Completed, AfterSales} \<and>
    find_row o_id oid (orders s') = Some (by_hand_row now raw st raw) \<and>
    (\<forall>k. k \<noteq> oid \<longrightarrow> find_row o_id k (orders s') = find_row o_id k (orders s)) \<and>
    products s' = products s \<and> refunds s' = refunds s \<and>
    (if st \<in> {Delivered, Completed}
     then (\<exists>t. reason = Some t \<and> trim t \<noteq> []) \<and> (\<forall>k \<in> set (commission_targets s raw).
       \<exists>x \<in> set (commissions s'). is_commission_of oid x \<and> cm_staffId x = k)
     else commissions s' = commissions s) \<and>
    (st = Cancelled \<longrightarrow> (\<forall>u \<in> set (user_coupons s').
       truthy (o_couponId raw) = Some (uc_id u) \<longrightarrow> uc_status u \<notin> {HLocked, HUsed}))"
proof -
  note raw = find_admin_orderD [OF assms(2)]
  note ok = by_hand_ok [OF assms(4,2,3)]
  define s0 where "s0 = s\<lparr>orders := update_where (\<lambda>x. o_id x = oid \<and> o_status x = o_status raw) (by_hand_row now raw st) (orders s)\<rparr>"
  define s1 where "s1 = (case truthy (o_couponId raw) of
      Some k \<Rightarrow> if st = Cancelled then set_holding k [HLocked, HUsed] HReleased else (\<lambda>s. s) | None \<Rightarrow> (\<lambda>s. s)) s0"
  have s': "s' = fst (audit operator ''order.manual-status'' oid
      (if st \<in> {Delivered, Completed} then recordForDelivered now (raw\<lparr>o_status := st\<rparr>) s1 else s1))"
    using ok(4) by (simp add: s1_def s0_def)
  have frame: "campuses s1 = campuses s" "staffs s1 = staffs s" "orders s1 = orders s0" "commissions s1 = commissions s"
    "products s1 = products s" "refunds s1 = refunds s"
    by (simp_all add: s1_def s0_def set_holding_def split: option.split)
  have rest: "orders s' = orders s0" "products s' = products s" "refunds s' = refunds s" "user_coupons s' = user_coupons s1"
    by (simp_all add: s' audit_def recordForDelivered_def frame)
  have "find_row o_id oid (orders s) = Some raw" using find_row_unique [OF assms(1) raw(1)] raw(2) by simp
  then have row: "find_row o_id oid (orders s') = Some (by_hand_row now raw st raw)"
    using raw(2) by (simp add: rest s0_def find_row_update_where [where key = o_id, OF by_hand_id])
  have paid: "\<exists>x \<in> set (commissions s'). is_commission_of oid x \<and> cm_staffId x = k"
    if "st \<in> {Delivered, Completed}" "k \<in> set (commission_targets s raw)" for k
    using recordForDelivered_present [of k s1 "raw\<lparr>o_status := st\<rparr>" now] that(2) raw(2)
    unfolding s' if_P [OF that(1)] by (simp add: targets_same [OF frame(1,2)] audit_def)
  have "uc_status u \<notin> {HLocked, HUsed}"
    if "st = Cancelled" "u \<in> set (user_coupons s')" "truthy (o_couponId raw) = Some (uc_id u)" for u
    using that set_holding_done [of u "uc_id u" "[HLocked, HUsed]" HReleased s0] by (simp add: rest s1_def)
  moreover have "commissions s' = commissions s" if "st \<notin> {Delivered, Completed}"
    using that by (simp add: s' audit_def frame)
  ultimately show ?thesis
    using ok(1,3) row rest paid find_other_order by (auto simp: FROZEN_BEFORE_STATUSES_def s0_def)
qed

theorem status_by_hand_witness:
  "\<exists>s' r. updateOrderStatus 9 ''o1'' Delivered (Some ''left at the door'') ''adm'' ''ca1'' (db_at FirstMile (Some ''s1'')) = (s', Inr r) \<and>
    (\<exists>x \<in> set (commissions s'). is_commission_of ''o1'' x \<and> cm_staffId x = ''s1'')"
proof -
  let ?s = "db_at FirstMile (Some ''s1'')" and ?raw = "order1\<lparr>o_status := FirstMile, o_riderId := Some ''s1''\<rparr>"
  let ?run = "updateOrderStatus 9 ''o1'' Delivered (Some ''left at the door'') ''adm'' ''ca1'' ?s"
  have "case snd ?run of Inr x \<Rightarrow> True | Inl y \<Rightarrow> False" by code_simp
  then obtain s' r where run: "?run = (s', Inr r)" by (cases ?run) (auto split: sum.splits)
  have "distinct (map o_id (orders ?s))" "find_admin_order ?s ''o1'' ''ca1'' = Some ?raw" "o_status ?raw \<noteq> Delivered"
    "''s1'' \<in> set (commission_targets ?s ?raw)"
    by code_simp+
  from status_by_hand [OF this(1-3) run] this(4) have "\<exists>x \<in> set (commissions s'). is_commission_of ''o1'' x \<and> cm_staffId x = ''s1''"
    by simp
  with run show ?thesis by blast
qed

lemma exception_result:
  fixes now :: millis and n :: ident and operator :: string
  assumes "distinct (map o_id (orders s))" and "raw \<in> set (orders s)" and "c \<in> {[], o_campusId raw}"
  defines "s1 \<equiv> fst (orderAction now n (o_id raw) ''mark-exception'' operator c s)"
  shows "orders s1 = update_where (\<lambda>x. o_id x = o_id raw)
      (\<lambda>x. x\<lparr>o_status := Exception, o_statusText := ''marked as an exception''\<rparr>) (orders s)"
    and "refunds s1 = refunds s" and "products s1 = products s"
  unfolding s1_def orderAction_def find_admin_order_row [OF assms(1-3)]
  by (simp_all add: mark_exception_def and_then_def modify_def read_def audit_def reply_def)

text \<open>The guard on closed orders can be walked around: marking an order as an exception does not look
  at its status, and from there every status can be set by hand. So a cancelled or refunded order comes
  back to life, as paid or on its way, while its refund stays booked.\<close>

theorem exception_reopens_closed:
  fixes now :: millis and n :: ident and operator :: string
  assumes "distinct (map o_id (orders s))" and "raw \<in> set (orders s)" and "c \<in> {[], o_campusId raw}"
    and "st \<in> set ORDER_STATUSES - {Delivered, Completed, Exception}"
  defines "s1 \<equiv> fst (orderAction now n (o_id raw) ''mark-exception'' operator c s)"
  shows "\<exists>s2 r y. updateOrderStatus now' (o_id raw) st reason operator c s1 = (s2, Inr r) \<and>
    find_row o_id (o_id raw) (orders s2) = Some y \<and> o_status y = st \<and> deal y = deal raw \<and>
    refunds s2 = refunds s"
proof -
  let ?x = "raw\<lparr>o_status := Exception, o_statusText := ''marked as an exception''\<rparr>"
  note s1 = exception_result [OF assms(1-3), of now n operator, folded s1_def]
  have "?x \<in> set (orders s1)" using assms(2) by (auto simp: s1(1) set_update_where)
  moreover have "distinct (map o_id (orders s1))"
    using assms(1) unfolding s1(1) by (subst map_key_update_where) simp_all
  ultimately obtain s2 r where "updateOrderStatus now' (o_id ?x) st reason operator c s1 = (s2, Inr r)"
    "find_row o_id (o_id ?x) (orders s2) = Some (by_hand_row now' ?x st ?x)" "refunds s2 = refunds s1"
    using by_hand_runs [of ?x s1 c st now' reason operator] assms(3,4) by (auto simp: FROZEN_BEFORE_STATUSES_def)
  then show ?thesis using s1(2) by (auto simp: by_hand_row_def)
qed

theorem exception_reopens_closed_witness:
  "\<exists>s2 r y. updateOrderStatus 9 ''o1'' Paid None ''adm'' ''ca1''
      (fst (orderAction 8 ''n'' ''o1'' ''mark-exception'' ''adm'' ''ca1'' (db_at Refunded None))) = (s2, Inr r) \<and>
    find_row o_id ''o1'' (orders s2) = Some y \<and> o_status y = Paid"
proof -
  let ?raw = "order1\<lparr>o_status := Refunded, o_riderId := None\<rparr>"
  have "distinct (map o_id (orders (db_at Refunded None)))" "?raw \<in> set (orders (db_at Refunded None))"
    "''ca1'' \<in> {[], o_campusId ?raw}" "Paid \<in> set ORDER_STATUSES - {Delivered, Completed, Exception}"
    by (simp_all add: db_at_def order1_def ORDER_STATUSES_def)
  from exception_reopens_closed [OF this, of 9 None "''adm''" 8 "''n''"] show ?thesis by (auto simp: order1_def)
qed

text \<open>An order that was paid can be put back to waiting for its payment by hand. The timer then closes
  it as unpaid: it ends cancelled although its payment was received, no refund is made and the goods it
  took from the stock are not given back.\<close>

theorem paid_order_expires:
  fixes now :: millis and operator :: string and reason :: "string option"
  assumes "distinct (map o_id (orders s))" and "raw \<in> set (orders s)" and "c \<in> {[], o_campusId raw}"
    and "o_status raw \<in> set DELIVERING_STATUSES" and "o_createdAt raw < later - PAYMENT_TIMEOUT_MS"
  defines "s1 \<equiv> fst (updateOrderStatus now (o_id raw) PendingPayment reason operator c s)"
  shows "\<exists>s2 n y. expireAllPendingOrders later s1 = (s2, Inr n) \<and> find_row o_id (o_id raw) (orders s2) = Some y \<and>
    o_status y = Cancelled \<and> o_paidAt y = o_paidAt raw \<and> o_stockRestored y = o_stockRestored raw \<and>
    products s2 = products s \<and> refunds s1 = refunds s"
proof -
  let ?y = "by_hand_row now raw PendingPayment raw"
  have "PendingPayment \<in> set ORDER_STATUSES - {Delivered, Completed, o_status raw}"
    and "o_status raw \<notin> set FROZEN_BEFORE_STATUSES"
    using assms(4) by (auto simp: ORDER_STATUSES_def DELIVERING_STATUSES_def FROZEN_BEFORE_STATUSES_def)
  from by_hand_runs [OF assms(2,1,3) this, of now reason operator]
  have row: "find_row o_id (o_id raw) (orders s1) = Some ?y"
    and os: "orders s1 = update_where (\<lambda>x. o_id x = o_id raw \<and> o_status x = o_status raw)
      (by_hand_row now raw PendingPayment) (orders s)"
    and r: "refunds s1 = refunds s" and p: "products s1 = products s"
    by (auto simp: s1_def)
  have "distinct (map o_id (orders s1))"
    using assms(1) map_key_update_where [where key = o_id, OF by_hand_id] by (simp add: os)
  from expire_closes_stale [OF this, of later] obtain s2 n where run: "expireAllPendingOrders later s1 = (s2, Inr n)"
    and o2: "orders s2 = update_where (is_stale later) closed_row (orders s1)" and p2: "products s2 = products s1"
    by (auto simp: update_where_def)
  have "is_stale later ?y" using assms(5) by (simp add: is_stale_def by_hand_row_def)
  then have "find_row o_id (o_id raw) (orders s2) = Some (closed_row ?y)"
    unfolding o2 by (subst find_row_update_where) (simp_all add: row closed_row_def)
  then show ?thesis using run p p2 r by (auto simp: closed_row_def by_hand_row_def)
qed

theorem paid_order_expires_witness:
  "\<exists>s2 n y. expireAllPendingOrders 2000000
      (fst (updateOrderStatus 9 ''o1'' PendingPayment None ''adm'' ''ca1'' (db_at Paid None))) = (s2, Inr n) \<and>
    find_row o_id ''o1'' (orders s2) = Some y \<and> o_status y = Cancelled"
proof -
  let ?raw = "order1\<lparr>o_status := Paid, o_riderId := None\<rparr>"
  have "distinct (map o_id (orders (db_at Paid None)))" "?raw \<in> set (orders (db_at Paid None))"
    "''ca1'' \<in> {[], o_campusId ?raw}" "o_status ?raw \<in> set DELIVERING_STATUSES"
    "o_createdAt ?raw < 2000000 - PAYMENT_TIMEOUT_MS"
    by (simp_all add: db_at_def order1_def DELIVERING_STATUSES_def PAYMENT_TIMEOUT_MS_def)
  from paid_order_expires [OF this, of 9 None "''adm''"] show ?thesis by (auto simp: order1_def)
qed

subsection \<open>Delivery by own staff\<close>

lemma staff_action_result:
  assumes "distinct (map o_id (orders s))" and "raw \<in> set (orders s)" and "c \<in> {[], o_campusId raw}"
    and "action \<in> {''staff-deliver'', ''staff-complete''}" and "campusStaffDelivery s (Some (o_campusId raw))"
    and "STAFF_DELIVERY_ACTIONS action (o_status raw) = Some next"
  shows "\<exists>s' r y. orderAction now n (o_id raw) action operator c s = (s', Inr r) \<and> y \<in> set (orders s') \<and>
    o_id y = o_id raw \<and> o_status y = next \<and> o_campusId y = o_campusId raw \<and> distinct (map o_id (orders s')) \<and>
    commissions s' = commissions s \<and> campuses s' = campuses s \<and> organizations s' = organizations s \<and>
    find_row o_id (o_id raw) (orders s') = Some y"
proof -
  let ?f = "\<lambda>x. x\<lparr>o_status := next, o_statusText := status_text next,
    o_timeline := markTimelineStep now (o_timeline raw) next\<rparr>"
  let ?P = "\<lambda>x. o_id x = o_id raw \<and> o_status x = o_status raw"
  obtain s1 where claim: "claim_order (o_id raw) (o_status raw) ?f (BadRequest ''the order status has changed'') s = (s1, Inr ())"
    unfolding claim_order_ok using assms(2) by blast
  then have s1: "s1 = s\<lparr>orders := update_where ?P ?f (orders s)\<rparr>" by (simp add: claim_order_ok)
  have run: "orderAction now n (o_id raw) action operator c s =
      (fst (audit operator (''order.'' @ action) (o_id raw) s1), Inr (find_row o_id (o_id raw) (orders s1)))"
    using assms(4,6) unfolding orderAction_def find_admin_order_row [OF assms(1-3)]
    by (auto simp: staff_delivery_def staff_commit_def assms(5) unless_def and_then_def claim read_def audit_def reply_def
      simp del: STAFF_DELIVERY_ACTIONS.simps)
  have y: "?f raw \<in> set (orders s1)" and d: "distinct (map o_id (orders s1))"
    using assms(1,2) by (auto simp: s1 set_update_where map_key_update_where [where key = o_id])
  then have "find_row o_id (o_id raw) (orders s1) = Some (?f raw)"
    using find_row_unique [OF d y] by simp
  then show ?thesis using run y d by (auto simp: audit_def s1 intro!: bexI [of _ "?f raw"])
qed

text \<open>Delivery by the campus's own staff: in a campus of an organisation that delivers this way the two
  actions of the back office bring an order that left the warehouse to its door, in two steps that cannot
  be repeated and without any commission.\<close>

theorem staff_delivery_runs:
  fixes now :: millis and n :: ident and operator :: string
  assumes "distinct (map o_id (orders s))" and "raw \<in> set (orders s)" and "c \<in> {[], o_campusId raw}"
    and "campusStaffDelivery s (Some (o_campusId raw))" and "o_status raw = WaitingFirstMile"
  defines "s1 \<equiv> fst (orderAction now n (o_id raw) ''staff-deliver'' operator c s)"
  shows "\<exists>s2 r y. orderAction now' n' (o_id raw) ''staff-complete'' operator c s1 = (s2, Inr r) \<and>
    find_row o_id (o_id raw) (orders s2) = Some y \<and> o_status y = Delivered \<and> commissions s2 = commissions s \<and>
    (\<exists>e. orderAction now' n' (o_id raw) ''staff-deliver'' operator c s1 = (s1, Inl e))"
proof -
  have "STAFF_DELIVERY_ACTIONS ''staff-deliver'' (o_status raw) = Some FirstMile" using assms(5) by simp
  from staff_action_result [OF assms(1-3) _ assms(4) this, of now n operator]
  obtain x where x: "x \<in> set (orders s1)" "o_id x = o_id raw" "o_status x = FirstMile" "o_campusId x = o_campusId raw"
    and d: "distinct (map o_id (orders s1))" and c1: "commissions s1 = commissions s"
    and cs: "campuses s1 = campuses s" "organizations s1 = organizations s"
    by (auto simp: s1_def)
  have c: "c \<in> {[], o_campusId x}" using assms(3) x(4) by simp
  have mode: "campusStaffDelivery s1 (Some (o_campusId x))"
    using assms(4) unfolding campusStaffDelivery_def campusOrganizationId_def x(4) cs .
  have "STAFF_DELIVERY_ACTIONS ''staff-complete'' (o_status x) = Some Delivered" using x(3) by simp
  from staff_action_result [OF d x(1) c _ mode this, of now' n' operator] x(2) c1
  obtain s2 r y where "orderAction now' n' (o_id raw) ''staff-complete'' operator c s1 = (s2, Inr r)"
    "find_row o_id (o_id raw) (orders s2) = Some y" "o_status y = Delivered" "commissions s2 = commissions s"
    by auto
  moreover have "\<exists>e. orderAction now' n' (o_id raw) ''staff-deliver'' operator c s1 = (s1, Inl e)"
    using find_admin_order_row [OF d x(1) c] x(2,3)
    by (auto simp: orderAction_def staff_delivery_def mode unless_def reject_def and_then_def)
  ultimately show ?thesis by blast
qed

definition staff_db :: db where
  "staff_db = (db_at WaitingFirstMile None)\<lparr>organizations := [org1\<lparr>g_deliveryMode := ''staff_delivery''\<rparr>]\<rparr>"

theorem staff_delivery_runs_witness:
  "\<exists>s2 r y. orderAction 9 ''n'' ''o1'' ''staff-complete'' ''adm'' ''ca1''
      (fst (orderAction 8 ''n'' ''o1'' ''staff-deliver'' ''adm'' ''ca1'' staff_db)) = (s2, Inr r) \<and>
    find_row o_id ''o1'' (orders s2) = Some y \<and> o_status y = Delivered"
proof -
  let ?raw = "order1\<lparr>o_status := WaitingFirstMile, o_riderId := None\<rparr>"
  have "distinct (map o_id (orders staff_db))" "?raw \<in> set (orders staff_db)" "''ca1'' \<in> {[], o_campusId ?raw}"
    "o_status ?raw = WaitingFirstMile"
    by (simp_all add: staff_db_def db_at_def order1_def)
  moreover have "campusStaffDelivery staff_db (Some (o_campusId ?raw))" by code_simp
  ultimately show ?thesis
    using staff_delivery_runs [of staff_db ?raw "''ca1''" 9 "''n''" "''adm''" 8 "''n''"] by (auto simp: order1_def)
qed

end
