(* ===== verification/Settlement.thy ===== *)
theory Settlement
  imports Refunds Samples
begin

text \<open>
  The monthly bills of the staff, from \<open>src/admin/admin.service.ts\<close>: \<open>settlements\<close> sums the commissions of
  a month into bills that wait for review, \<open>confirmSettlement\<close> fixes a bill and \<open>paySettlement\<close> pays it.
  A bill has one row per person and month. Joined display columns of the reply are left out.
\<close>

interpretation bills_tbl: row_table bills bills_update bb_id
  by unfold_locales simp_all

subsection \<open>The operations\<close>

text \<open>The pattern of four digits, a hyphen and two digits, read as year and month.\<close>

definition parse_month :: "string \<Rightarrow> period option" where
  "parse_month t =
    (if length t = 7 \<and> list_all is_digit (take 4 t) \<and> t ! 4 = CHR ''-'' \<and> list_all is_digit (drop 5 t)
     then Some (number_or_0 (take 4 t), number_or_0 (drop 5 t)) else None)"

fun bill_status_text :: "bill_status \<Rightarrow> string" where
  "bill_status_text PendingReview = ''pending-review''"
| "bill_status_text Confirmed = ''confirmed''"
| "bill_status_text PaidOut = ''paid''"

definition manager_salary :: "db \<Rightarrow> ident \<Rightarrow> cents" where
  "manager_salary s campusId =
    (case find_row ca_id campusId (campuses s) of Some c \<Rightarrow> ca_buildingManagerBaseSalary c | None \<Rightarrow> 0)"

definition find_bill :: "db \<Rightarrow> ident \<Rightarrow> period \<Rightarrow> bm_bill option" where
  "find_bill s staffId period = find (\<lambda>b. bb_staffId b = staffId \<and> bb_period b = period) (bills s)"

definition price_bill :: "cents \<Rightarrow> cents \<Rightarrow> cents \<Rightarrow> bm_bill \<Rightarrow> bm_bill" where
  "price_bill base gained adjustment b =
    b\<lparr>bb_baseSalary := base, bb_commissionTotal := gained, bb_adjustment := adjustment,
      bb_payable := base + gained + adjustment\<rparr>"

text \<open>One turn of the loop over the staff; \<open>newId\<close> is the identity of a bill that is created.\<close>

definition settle_one :: "bool \<Rightarrow> cents \<Rightarrow> period \<Rightarrow> ident \<Rightarrow> ident \<times> staff \<Rightarrow> db \<Rightarrow> db" where
  "settle_one isCurrent salary period campusId p s =
    (let newId = fst p; st = snd p;
         (records, gained, adjustment) = monthly s (s_id st) period;
         base = (if s_role st = BuildingManager then salary else 0)
     in case find_bill s (s_id st) period of
          None \<Rightarrow>
            if \<not> isCurrent \<and> gained = 0 \<and> adjustment = 0 then s
            else s\<lparr>bills := bills s @ [price_bill base gained adjustment
              \<lparr>bb_id = newId, bb_staffId = s_id st, bb_campusId = campusId, bb_period = period, bb_baseSalary = 0,
                bb_commissionTotal = 0, bb_adjustment = 0, bb_payable = 0, bb_status = PendingReview,
                bb_confirmedAt = None, bb_paidAt = None\<rparr>]\<rparr>
        | Some b \<Rightarrow>
            if bb_status b = PendingReview
            then s\<lparr>bills := update_where (\<lambda>x. bb_id x = bb_id b) (price_bill base gained adjustment) (bills s)\<rparr>
            else s)"

definition settled_staff :: "db \<Rightarrow> ident \<Rightarrow> staff list" where
  "settled_staff s campusId = filter (\<lambda>x. s_campusId x = campusId \<and> s_status x \<noteq> ''deleted'') (staffs s)"

definition settlements ::
  "millis \<Rightarrow> (nat \<Rightarrow> ident) \<Rightarrow> ident \<Rightarrow> string option \<Rightarrow> string option \<Rightarrow> (db, bm_bill list) handler" where
  "settlements now ids campusId month status s =
    (case (case month of None \<Rightarrow> Some (period_of now) | Some t \<Rightarrow> parse_month t) of
       None \<Rightarrow> reject (BadRequest ''the month is not well formed'') s
     | Some period \<Rightarrow>
         let rows = settled_staff s campusId;
             s' = fold (settle_one (period = period_of now) (manager_salary s campusId) period campusId)
               (zip (map ids [0..<length rows]) rows) s
         in reply (filter (\<lambda>b. bb_campusId b = campusId \<and> bb_period b = period \<and>
             (case truthy status of None \<Rightarrow> True | Some t \<Rightarrow> bill_status_text (bb_status b) = t)) (bills s')) s')"

definition find_campus_bill :: "db \<Rightarrow> ident \<Rightarrow> ident \<Rightarrow> bm_bill option" where
  "find_campus_bill s k campusId = find (\<lambda>b. bb_id b = k \<and> bb_campusId b = campusId) (bills s)"

definition confirmSettlement :: "millis \<Rightarrow> ident \<Rightarrow> string \<Rightarrow> ident \<Rightarrow> (db, bm_bill option) handler" where
  "confirmSettlement now k operator campusId s =
    (case find_campus_bill s k campusId of
       None \<Rightarrow> reject (NotFound ''no such bill'') s
     | Some b \<Rightarrow>
         and_then
           (claim_or bills bills_update (\<lambda>x. bb_id x = k \<and> bb_status x = PendingReview)
             (\<lambda>x. x\<lparr>bb_status := Confirmed, bb_confirmedAt := Some now\<rparr>) (BadRequest ''the bill is confirmed or paid''))
         (\<lambda>_. and_then (audit operator ''settlement.confirm'' k) (\<lambda>_. read (\<lambda>s. find_row bb_id k (bills s)))) s)"

definition settle_commissions :: "bm_bill \<Rightarrow> db \<Rightarrow> db" where
  "settle_commissions b s =
    s\<lparr>commissions := update_where
       (\<lambda>c. cm_staffId c = bb_staffId b \<and> cm_period c = bb_period b \<and> cm_status c = CPending)
       (\<lambda>c. c\<lparr>cm_status := CSettled\<rparr>) (commissions s)\<rparr>"

definition pay_bill :: "millis \<Rightarrow> bm_bill \<Rightarrow> (db, bm_bill option) handler" where
  "pay_bill now b =
    transaction (and_then
      (claim_or bills bills_update (\<lambda>x. bb_id x = bb_id b \<and> bb_status x = Confirmed)
        (\<lambda>x. x\<lparr>bb_status := PaidOut, bb_paidAt := Some now\<rparr>) (BadRequest ''the bill is not confirmed or paid''))
      (\<lambda>_. and_then (modify (settle_commissions b)) (\<lambda>_. read (\<lambda>s. find_row bb_id (bb_id b) (bills s)))))"

definition paySettlement :: "millis \<Rightarrow> ident \<Rightarrow> string \<Rightarrow> ident \<Rightarrow> (db, bm_bill option) handler" where
  "paySettlement now k operator campusId s =
    (case find_campus_bill s k campusId of
       None \<Rightarrow> reject (NotFound ''no such bill'') s
     | Some b \<Rightarrow>
         and_then (pay_bill now b) (\<lambda>paid. and_then (audit operator ''settlement.pay'' k) (\<lambda>_. reply paid)) s)"

subsection \<open>The sums of a month\<close>

lemma monthly_sum: "monthly s k p = (records, gained, adjustment) \<Longrightarrow>
    gained + adjustment = sum_where (\<lambda>c. cm_staffId c = k \<and> cm_period c = p) cm_amount (commissions s)"
proof -
  have "sum_where (\<lambda>c. 0 < cm_amount c) cm_amount rows + sum_where (\<lambda>c. cm_amount c < 0) cm_amount rows =
      sum_list (map cm_amount rows)" for rows
    by (induction rows) auto
  then show "monthly s k p = (records, gained, adjustment) \<Longrightarrow> ?thesis"
    by (auto simp: monthly_def Let_def sum_where_def [of "\<lambda>c. cm_staffId c = k \<and> cm_period c = p"])
qed

subsection \<open>The rows of the bills\<close>

definition bill_key :: "bm_bill \<Rightarrow> ident \<times> period" where
  "bill_key b = (bb_staffId b, bb_period b)"

definition bills_ok :: "db \<Rightarrow> bool" where
  "bills_ok s \<longleftrightarrow> distinct (map bb_id (bills s)) \<and> distinct (map bill_key (bills s))"

text \<open>What may become of a bill: as long as it waits for review it may be priced anew; after that only
  its payment is noted.\<close>

inductive bill_becomes :: "bm_bill \<Rightarrow> bm_bill \<Rightarrow> bool" where
  same: "bill_becomes b b"
| priced: "bb_status b = PendingReview \<Longrightarrow> bill_becomes b (price_bill x y z b)"
| confirmed: "bb_status b = PendingReview \<Longrightarrow> bill_becomes b (b\<lparr>bb_status := Confirmed, bb_confirmedAt := Some t\<rparr>)"
| paid: "bb_status b = Confirmed \<Longrightarrow> bill_becomes b (b\<lparr>bb_status := PaidOut, bb_paidAt := Some t\<rparr>)"

inductive_cases bill_becomesE: "bill_becomes b b'"

lemma bill_becomes_key: "bill_becomes b b' \<Longrightarrow> bb_id b' = bb_id b \<and> bill_key b' = bill_key b"
  by (erule bill_becomesE) (simp_all add: price_bill_def bill_key_def)

lemma bill_becomes_locked: "bill_becomes b b' \<Longrightarrow> bb_status b \<noteq> PendingReview \<Longrightarrow>
    bb_status b' \<noteq> PendingReview \<and> bb_payable b' = bb_payable b \<and> (bb_status b = PaidOut \<longrightarrow> b' = b)"
  by (erule bill_becomesE) auto

text \<open>One change of the table: every bill becomes something, and new bills have new keys.\<close>

definition bills_step :: "db \<Rightarrow> db \<Rightarrow> bool" where
  "bills_step s s' \<longleftrightarrow> (bills_ok s \<longrightarrow> bills_ok s' \<and>
    (\<forall>b \<in> set (bills s). \<exists>b' \<in> set (bills s'). bill_becomes\<^sup>*\<^sup>* b b'))"

lemma bills_step_refl: "bills s' = bills s \<Longrightarrow> bills_step s s'"
  by (auto simp: bills_step_def bills_ok_def)

lemma bills_step_trans: "bills_step s t \<Longrightarrow> bills_step t u \<Longrightarrow> bills_step s u"
  unfolding bills_step_def by (meson rtranclp_trans)

lemma bills_step_update:
  assumes "bills s' = update_where P f (bills s)" and "\<And>b. b \<in> set (bills s) \<Longrightarrow> P b \<Longrightarrow> bill_becomes b (f b)"
  shows "bills_step s s'"
proof -
  have key: "bb_id (f b) = bb_id b" "bill_key (f b) = bill_key b" if "b \<in> set (bills s)" "P b" for b
    using bill_becomes_key [OF assms(2) [OF that]] by auto
  have "map bb_id (bills s') = map bb_id (bills s)" and "map bill_key (bills s') = map bill_key (bills s)"
    using key by (simp_all add: assms(1) update_where_def)
  moreover have "\<exists>b' \<in> set (bills s'). bill_becomes\<^sup>*\<^sup>* b b'" if "b \<in> set (bills s)" for b
  proof (cases "P b")
    case True
    then show ?thesis using assms(2) [OF that True] that by (auto simp: assms(1) set_update_where)
  next
    case False
    then show ?thesis using that by (auto simp: assms(1) set_update_where intro!: rev_image_eqI [OF that])
  qed
  ultimately show ?thesis by (simp add: bills_step_def bills_ok_def)
qed

lemma find_bill_some: "find_bill s k p = Some b \<Longrightarrow> b \<in> set (bills s) \<and> bill_key b = (k, p)"
  by (auto simp: find_bill_def find_Some_iff bill_key_def in_set_conv_nth)

lemma find_bill_none: "find_bill s k p = None \<longleftrightarrow> (k, p) \<notin> bill_key ` set (bills s)"
  by (auto simp: find_bill_def find_None_iff bill_key_def)

lemma bills_step_append:
  assumes "bills s' = bills s @ [b]" and "bb_id b \<notin> bb_id ` set (bills s)" and "bill_key b \<notin> bill_key ` set (bills s)"
  shows "bills_step s s'"
  using assms by (auto simp: bills_step_def bills_ok_def)

lemma settle_one_step:
  assumes ok: "bills_ok s" and new: "fst p \<notin> bb_id ` set (bills s)"
  shows "bills_step s (settle_one cur salary period c p s)"
proof -
  obtain records gained adj where m: "monthly s (s_id (snd p)) period = (records, gained, adj)" by (cases "monthly s (s_id (snd p)) period")
  show ?thesis
  proof (cases "find_bill s (s_id (snd p)) period")
    case None
    show ?thesis
    proof (cases "\<not> cur \<and> gained = 0 \<and> adj = 0")
      case True
      then show ?thesis using None m by (intro bills_step_refl) (simp add: settle_one_def)
    next
      case False
      show ?thesis
        by (rule bills_step_append [where b = "price_bill (if s_role (snd p) = BuildingManager then salary else 0) gained adj
            \<lparr>bb_id = fst p, bb_staffId = s_id (snd p), bb_campusId = c, bb_period = period, bb_baseSalary = 0,
              bb_commissionTotal = 0, bb_adjustment = 0, bb_payable = 0, bb_status = PendingReview,
              bb_confirmedAt = None, bb_paidAt = None\<rparr>"])
          (use False None m new find_bill_none [of s "s_id (snd p)" period] in
            \<open>auto simp: settle_one_def price_bill_def bill_key_def Let_def\<close>)
    qed
  next
    case (Some b)
    note b = find_bill_some [OF Some]
    show ?thesis
    proof (cases "bb_status b = PendingReview")
      case True
      have "x = b" if "x \<in> set (bills s)" "bb_id x = bb_id b" for x
        using unique_key [OF _ that(1)] b that(2) ok by (auto simp: bills_ok_def)
      then show ?thesis
        by (intro bills_step_update [where P = "\<lambda>x. bb_id x = bb_id b" and
            f = "price_bill (if s_role (snd p) = BuildingManager then salary else 0) gained adj"])
          (use True Some m in \<open>auto simp: settle_one_def Let_def intro: bill_becomes.priced\<close>)
    next
      case False
      then show ?thesis using Some m by (intro bills_step_refl) (simp add: settle_one_def Let_def)
    qed
  qed
qed

lemma settle_one_ids: "bb_id ` set (bills (settle_one cur salary period c p s)) \<subseteq> insert (fst p) (bb_id ` set (bills s))"
proof -
  have priced: "bb_id (price_bill x y z b) = bb_id b" for x y z b by (simp add: price_bill_def)
  then have "bb_id ` set (update_where P (price_bill x y z) rows) = bb_id ` set rows" for P x y z rows
    using map_key_update_where [where key = bb_id and f = "price_bill x y z" and P = P and rows = rows] by (metis set_map)
  with priced show ?thesis by (auto simp: settle_one_def Let_def split: option.split prod.split)
qed

lemma disjoint_insert_mono: "A \<subseteq> insert x B \<Longrightarrow> x \<notin> C \<Longrightarrow> C \<inter> B = {} \<Longrightarrow> C \<inter> A = {}"
  by blast

lemma settle_loop_step:
  assumes "bills_ok s" and "distinct (map fst ps)" and "set (map fst ps) \<inter> bb_id ` set (bills s) = {}"
  shows "bills_step s (fold (settle_one cur salary period c) ps s)"
  using assms
proof (induction ps arbitrary: s)
  case (Cons p ps)
  let ?s = "settle_one cur salary period c p s"
  have one: "bills_step s ?s" using Cons.prems by (intro settle_one_step) auto
  have "set (map fst ps) \<inter> bb_id ` set (bills ?s) = {}"
  proof -
    have "fst p \<notin> set (map fst ps)" and "set (map fst ps) \<inter> bb_id ` set (bills s) = {}"
      using Cons.prems(2,3) by auto
    with settle_one_ids [of cur salary period c p s] show ?thesis by (rule disjoint_insert_mono)
  qed
  then have "bills_step ?s (fold (settle_one cur salary period c) ps ?s)"
    using Cons.prems one by (intro Cons.IH) (auto simp: bills_step_def)
  then show ?case using bills_step_trans [OF one] by simp
qed (simp add: bills_step_refl)

lemma monthly_bills [simp]: "monthly (s\<lparr>bills := bs\<rparr>) k p = monthly s k p"
  by (simp add: monthly_def)

lemma settle_one_commissions [simp]: "commissions (settle_one cur salary period c p s) = commissions s"
  by (simp add: settle_one_def Let_def split: option.split prod.split)

text \<open>What a bill should come to.\<close>

definition owed :: "db \<Rightarrow> cents \<Rightarrow> period \<Rightarrow> staff \<Rightarrow> cents" where
  "owed s salary period st = (if s_role st = BuildingManager then salary else 0) +
    sum_where (\<lambda>c. cm_staffId c = s_id st \<and> cm_period c = period) cm_amount (commissions s)"

lemma owed_settled [simp]: "owed (settle_one cur salary period c p s) = owed s"
  by (intro ext) (simp add: owed_def)

lemma settle_one_cases:
  fixes s :: db and period :: period and p :: "ident \<times> staff" and cur :: bool and salary :: cents and c :: ident
  defines "s' \<equiv> settle_one cur salary period c p s" and "key \<equiv> (s_id (snd p), period)"
  obtains (skip) "bills s' = bills s" and "\<And>b. b \<in> set (bills s) \<Longrightarrow> bills_ok s \<Longrightarrow> bill_key b = key \<Longrightarrow> bb_status b \<noteq> PendingReview"
  | (new) b where "bills s' = bills s @ [b]" and "key \<notin> bill_key ` set (bills s)" and "bill_key b = key"
      and "bb_payable b = owed s salary period (snd p)"
  | (priced) b f where "b \<in> set (bills s)" and "bill_key b = key"
      and "bills s' = update_where (\<lambda>x. bb_id x = bb_id b) f (bills s)"
      and "\<And>x. bill_key (f x) = bill_key x" and "\<And>x. bb_payable (f x) = owed s salary period (snd p)"
proof -
  obtain records gained adj where m: "monthly s (s_id (snd p)) period = (records, gained, adj)"
    by (cases "monthly s (s_id (snd p)) period")
  let ?f = "price_bill (if s_role (snd p) = BuildingManager then salary else 0) gained adj"
  have f: "bb_payable (?f y) = owed s salary period (snd p)" "bill_key (?f y) = bill_key y" for y
    using monthly_sum [OF m] by (simp_all add: price_bill_def owed_def bill_key_def)
  show ?thesis
  proof (cases "find_bill s (s_id (snd p)) period")
    case None
    then have none: "key \<notin> bill_key ` set (bills s)" by (simp add: find_bill_none key_def)
    show ?thesis
    proof (cases "\<not> cur \<and> gained = 0 \<and> adj = 0")
      case True
      then show ?thesis using None m none by (intro skip) (auto simp: s'_def settle_one_def Let_def)
    next
      case False
      show ?thesis
        by (rule new [OF _ none, of "?f \<lparr>bb_id = fst p, bb_staffId = s_id (snd p), bb_campusId = c, bb_period = period,
            bb_baseSalary = 0, bb_commissionTotal = 0, bb_adjustment = 0, bb_payable = 0, bb_status = PendingReview,
            bb_confirmedAt = None, bb_paidAt = None\<rparr>"])
          (use False None m f in \<open>auto simp: s'_def key_def settle_one_def Let_def bill_key_def\<close>)
    qed
  next
    case (Some b)
    note b = find_bill_some [OF Some]
    show ?thesis
    proof (cases "bb_status b = PendingReview")
      case True
      then show ?thesis
        using b f Some m by (intro priced [of b ?f]) (simp_all add: s'_def key_def settle_one_def Let_def)
    next
      case False
      have "x = b" if "x \<in> set (bills s)" "bills_ok s" "bill_key x = key" for x
        using unique_key [of bill_key "bills s" x b] that b by (simp add: bills_ok_def key_def)
      then show ?thesis using False Some m by (intro skip) (auto simp: s'_def settle_one_def Let_def)
    qed
  qed
qed

lemma settle_one_exact:
  assumes "bills_ok s" and "x \<in> set (bills (settle_one cur salary period c p s))"
    and "bill_key x = (s_id (snd p), period)" and "bb_status x = PendingReview"
  shows "bb_payable x = owed s salary period (snd p)"
proof (rule settle_one_cases [of cur salary period c p s])
  fix b assume "bills (settle_one cur salary period c p s) = bills s @ [b]"
    "(s_id (snd p), period) \<notin> bill_key ` set (bills s)" "bb_payable b = owed s salary period (snd p)"
  then show ?thesis using assms(2,3) by force
next
  fix b f assume b: "b \<in> set (bills s)" "bill_key b = (s_id (snd p), period)"
    and u: "bills (settle_one cur salary period c p s) = update_where (\<lambda>x. bb_id x = bb_id b) f (bills s)"
    and f: "\<And>x. bb_payable (f x) = owed s salary period (snd p)"
  from update_whereD [OF assms(2) [unfolded u]] show ?thesis
    using f unique_key [of bill_key "bills s" x b] assms(1,3) b by (auto simp: bills_ok_def)
qed (use assms in auto)

lemma settle_one_other:
  assumes "bills_ok s" and "x \<in> set (bills (settle_one cur salary period c p s))"
    and "bill_key x \<noteq> (s_id (snd p), period)"
  shows "x \<in> set (bills s)"
proof (rule settle_one_cases [of cur salary period c p s])
  fix b f assume b: "b \<in> set (bills s)" "bill_key b = (s_id (snd p), period)"
    and u: "bills (settle_one cur salary period c p s) = update_where (\<lambda>x. bb_id x = bb_id b) f (bills s)"
    and f: "\<And>x. bill_key (f x) = bill_key x"
  from update_whereD [OF assms(2) [unfolded u]] show ?thesis
    using f unique_key [of bb_id "bills s" _ b] assms(1,3) b by (metis bills_ok_def)
qed (use assms in auto)

text \<open>The precondition of the loop: the identities drawn for new bills are fresh.\<close>

definition settle_ready :: "(ident \<times> staff) list \<Rightarrow> db \<Rightarrow> bool" where
  "settle_ready ps s \<longleftrightarrow> bills_ok s \<and> distinct (map fst ps) \<and> set (map fst ps) \<inter> bb_id ` set (bills s) = {}"

lemma settle_ready_next: "settle_ready (p # ps) s \<Longrightarrow> settle_ready ps (settle_one cur salary period c p s)"
  unfolding settle_ready_def
  using settle_one_step [of s p cur salary period c] disjoint_insert_mono [OF settle_one_ids [of cur salary period c p s], of "set (map fst ps)"]
  by (simp add: bills_step_def)

lemma settle_loop_other:
  assumes "settle_ready ps s" and "x \<in> set (bills (fold (settle_one cur salary period c) ps s))"
    and "\<forall>p \<in> set ps. bill_key x \<noteq> (s_id (snd p), period)"
  shows "x \<in> set (bills s)"
  using assms
proof (induction ps arbitrary: s)
  case (Cons p ps)
  have "x \<in> set (bills (settle_one cur salary period c p s))"
    by (rule Cons.IH [OF settle_ready_next [OF Cons.prems(1)]]) (use Cons.prems(2,3) in simp_all)
  then show ?case using settle_one_other Cons.prems(1,3) by (simp add: settle_ready_def)
qed simp

lemma settle_loop_exact:
  assumes "settle_ready ps s" and "distinct (map (s_id \<circ> snd) ps)"
    and "x \<in> set (bills (fold (settle_one cur salary period c) ps s))"
    and "bb_status x = PendingReview" and "p \<in> set ps" and "bill_key x = (s_id (snd p), period)"
  shows "bb_payable x = owed s salary period (snd p)"
  using assms
proof (induction ps arbitrary: s)
  case (Cons q ps)
  let ?s = "settle_one cur salary period c q s"
  note ready = settle_ready_next [OF Cons.prems(1), of cur salary period c]
  have x: "x \<in> set (bills (fold (settle_one cur salary period c) ps ?s))" using Cons.prems(3) by simp
  show ?case
  proof (cases "p \<in> set ps")
    case True
    have "bb_payable x = owed ?s salary period (snd p)"
      by (rule Cons.IH [OF ready _ x Cons.prems(4) True Cons.prems(6)]) (use Cons.prems(2) in simp)
    then show ?thesis by simp
  next
    case False
    then have p: "p = q" using Cons.prems(5) by simp
    have "x \<in> set (bills ?s)"
      by (rule settle_loop_other [OF ready x]) (use Cons.prems(2,6) p in \<open>auto simp: image_iff\<close>)
    then show ?thesis using settle_one_exact Cons.prems(1,4,6) p by (simp add: settle_ready_def)
  qed
qed simp

subsection \<open>What the bills guarantee\<close>

lemma settlements_run:
  assumes "settlements now ids c month status s = (s', Inr out)"
  obtains period where "(case month of None \<Rightarrow> Some (period_of now) | Some t \<Rightarrow> parse_month t) = Some period"
    and "s' = fold (settle_one (period = period_of now) (manager_salary s c) period c)
      (zip (map ids [0..<length (settled_staff s c)]) (settled_staff s c)) s"
  using assms by (auto simp: settlements_def Let_def reply_def reject_def split: option.splits)

lemma staff_pairs_ready:
  assumes "bills_ok s" and "inj ids" and "range ids \<inter> bb_id ` set (bills s) = {}"
  shows "settle_ready (zip (map ids [0..<length rows]) rows) s"
proof -
  have "set (map ids [0..<length rows]) \<subseteq> range ids" by auto
  then have "set (map ids [0..<length rows]) \<inter> bb_id ` set (bills s) = {}" using assms(3) by blast
  moreover have "distinct (map ids [0..<length rows])"
    using assms(2) by (simp add: distinct_map inj_on_def)
  ultimately show ?thesis using assms(1) by (simp add: settle_ready_def)
qed

lemma settle_ready_step: "settle_ready ps s \<Longrightarrow> bills_step s (fold (settle_one cur salary period c) ps s)"
  unfolding settle_ready_def by (blast intro: settle_loop_step)

inductive settle_step :: "db \<Rightarrow> db \<Rightarrow> bool" where
  compute: "inj ids \<Longrightarrow> range ids \<inter> bb_id ` set (bills s) = {} \<Longrightarrow>
    settle_step s (fst (settlements now ids c month status s))"
| confirm: "settle_step s (fst (confirmSettlement now k operator c s))"
| payout: "settle_step s (fst (paySettlement now k operator c s))"
| elsewhere: "bills s' = bills s \<Longrightarrow> settle_step s s'"

lemma claim_bills_step:
  assumes "\<And>b. P b \<Longrightarrow> bill_becomes b (f b)"
  shows "bills_step s (fst (claim_or bills bills_update P f e s))"
  unfolding claim_or_def update_many_def
  by (rule bills_step_update [where P = P and f = f]) (use assms in auto)

lemma bills_step_then:
  assumes "bills_step s (fst (h s))" and "\<And>r t. bills (fst (k r t)) = bills t"
  shows "bills_step s (fst (and_then h k s))"
proof (cases "h s")
  case (Pair t x)
  have "bills_step t (fst (k r t))" for r by (rule bills_step_refl) (rule assms(2))
  then show ?thesis
    using assms(1) Pair bills_step_trans by (cases x) (auto simp: and_then_def)
qed

lemma settle_step_bills: "settle_step s s' \<Longrightarrow> bills_step s s'"
proof (induction rule: settle_step.induct)
  case (compute ids s now c month status)
  obtain s' x where out: "settlements now ids c month status s = (s', x)" by force
  show ?case
  proof (cases "bills_ok s \<and> (\<exists>r. x = Inr r)")
    case True
    then obtain r where "settlements now ids c month status s = (s', Inr r)" using out by auto
    then obtain period where "s' = fold (settle_one (period = period_of now) (manager_salary s c) period c)
        (zip (map ids [0..<length (settled_staff s c)]) (settled_staff s c)) s"
      by (rule settlements_run)
    then show ?thesis
      using settle_ready_step [OF staff_pairs_ready [OF _ compute]] True out by simp
  next
    case False
    then show ?thesis
      using out by (cases x)
        (auto simp: bills_step_def settlements_def Let_def reply_def reject_def split: option.splits)
  qed
next
  case (confirm s now k operator c)
  have "bills_step s (fst (and_then (claim_or bills bills_update (\<lambda>x. bb_id x = k \<and> bb_status x = PendingReview)
      (\<lambda>x. x\<lparr>bb_status := Confirmed, bb_confirmedAt := Some now\<rparr>) e)
      (\<lambda>_. and_then (audit operator a k) (\<lambda>_. read g)) s))"
    for e a and g :: "db \<Rightarrow> bm_bill option"
    by (rule bills_step_then [OF claim_bills_step])
      (auto simp: and_then_def audit_def read_def intro: bill_becomes.confirmed)
  then show ?case
    by (simp add: confirmSettlement_def reject_def bills_step_refl split: option.split)
next
  case (payout s now k operator c)
  have "bills_step s (fst (pay_bill now b s))" for b
  proof -
    let ?P = "\<lambda>x. bb_id x = bb_id b \<and> bb_status x = Confirmed"
    let ?f = "\<lambda>x. x\<lparr>bb_status := PaidOut, bb_paidAt := Some now\<rparr>"
    have claim: "bills_step s (fst (claim_or bills bills_update ?P ?f e s))" for e
      by (rule claim_bills_step) (blast intro: bill_becomes.paid)
    obtain s1 x where c1: "claim_or bills bills_update ?P ?f (BadRequest ''the bill is not confirmed or paid'') s = (s1, x)"
      by force
    have "bills_step s s1"
      using claim [of "BadRequest ''the bill is not confirmed or paid''"] unfolding c1 by simp
    then have "bills_step s (settle_commissions b s1)"
      by (rule bills_step_trans) (rule bills_step_refl, simp add: settle_commissions_def)
    then show ?thesis
      by (cases x) (simp_all add: pay_bill_def transaction_def and_then_def c1 modify_def read_def bills_step_refl)
  qed
  then have "bills_step s (fst (and_then (pay_bill now b) (\<lambda>paid. and_then (audit operator a k) (\<lambda>_. reply paid)) s))" for b a
    by (rule bills_step_then) (simp add: and_then_def audit_def reply_def)
  then show ?case
    by (simp add: paySettlement_def reject_def bills_step_refl split: option.split)
next
  case (elsewhere s' s)
  then show ?case by (rule bills_step_refl)
qed

lemma settle_steps_bills: "settle_step\<^sup>*\<^sup>* s s' \<Longrightarrow> bills_step s s'"
  by (induction rule: rtranclp_induct) (auto intro: bills_step_refl bills_step_trans settle_step_bills)

lemma bill_history:
  assumes "bill_becomes\<^sup>*\<^sup>* b b'"
  shows "bb_id b' = bb_id b \<and> bill_key b' = bill_key b \<and> (bb_status b \<noteq> PendingReview \<longrightarrow>
    bb_status b' \<noteq> PendingReview \<and> bb_payable b' = bb_payable b \<and> (bb_status b = PaidOut \<longrightarrow> b' = b))"
  using assms
proof (induction rule: rtranclp_induct)
  case (step y z)
  then show ?case using bill_becomes_key [OF step(2)] bill_becomes_locked [OF step(2)] by auto
qed simp

text \<open>C37. A confirmed bill is final: through any sequence of computing months, confirming and paying, its amount
  never changes and it never waits for review again, a paid bill does not change at all, and every person
  keeps at most one bill for a month.\<close>

theorem settled_bills_locked:
  assumes "bills_ok s" and "settle_step\<^sup>*\<^sup>* s s'" and "b \<in> set (bills s)" and "bb_status b \<noteq> PendingReview"
  shows "bills_ok s' \<and> (\<exists>b' \<in> set (bills s'). bb_id b' = bb_id b \<and> bill_key b' = bill_key b \<and>
    bb_payable b' = bb_payable b \<and> bb_status b' \<noteq> PendingReview \<and> (bb_status b = PaidOut \<longrightarrow> b' = b))"
proof -
  from settle_steps_bills [OF assms(2)] assms(1,3)
  obtain b' where "bills_ok s'" "b' \<in> set (bills s')" "bill_becomes\<^sup>*\<^sup>* b b'"
    by (auto simp: bills_step_def)
  then show ?thesis using bill_history [of b b'] assms(4) by blast
qed


text \<open>What is delivered after a bill was confirmed is never paid: paying the bill pays the amount fixed at
  the confirmation, but marks every commission of the month as settled, also those recorded since; the
  bill is final then, whatever is computed later.\<close>

theorem late_commission_unpaid:
  fixes now :: millis and operator :: string
  assumes "bills_ok s" and "b \<in> set (bills s)" and "bb_status b = Confirmed"
    and "bb_payable b = bb_baseSalary b +
      sum_where (\<lambda>x. cm_staffId x = bb_staffId b \<and> cm_period x = bb_period b) cm_amount (commissions s)"
    and "cm_staffId late = bb_staffId b" and "cm_period late = bb_period b" and "0 < cm_amount late"
  defines "s1 \<equiv> s\<lparr>commissions := commissions s @ [late]\<rparr>"
  shows "\<exists>s2 paid. paySettlement now (bb_id b) operator (bb_campusId b) s1 = (s2, Inr (Some paid)) \<and>
    bb_payable paid < bb_baseSalary paid + sum_where
      (\<lambda>x. cm_staffId x = bb_staffId b \<and> cm_period x = bb_period b) cm_amount (commissions s2) \<and>
    (\<forall>x \<in> set (commissions s2). cm_staffId x = bb_staffId b \<and> cm_period x = bb_period b \<longrightarrow> cm_status x \<noteq> CPending) \<and>
    (\<forall>s3. settle_step\<^sup>*\<^sup>* s2 s3 \<longrightarrow> paid \<in> set (bills s3))"
proof -
  let ?P = "\<lambda>x. bb_id x = bb_id b \<and> bb_status x = Confirmed"
  let ?f = "\<lambda>x. x\<lparr>bb_status := PaidOut, bb_paidAt := Some now\<rparr>"
  let ?s2 = "settle_commissions b (bills_update (update_where ?P ?f) s1)"
  have d: "distinct (map bb_id (bills s))" using assms(1) by (simp add: bills_ok_def)
  have "find_campus_bill s1 (bb_id b) (bb_campusId b) \<noteq> None"
    using assms(2) by (auto simp: s1_def find_campus_bill_def find_None_iff)
  then obtain x where x: "find_campus_bill s1 (bb_id b) (bb_campusId b) = Some x" by blast
  then have "x \<in> set (bills s)" "bb_id x = bb_id b"
    by (auto simp: s1_def find_campus_bill_def find_Some_iff in_set_conv_nth)
  with x have f: "find_campus_bill s1 (bb_id b) (bb_campusId b) = Some b"
    using unique_key [OF d _ assms(2)] by metis
  have claim: "claim_or bills bills_update ?P ?f e s1 = (bills_update (update_where ?P ?f) s1, Inr ())" for e
    unfolding claim_or_ok using assms(2,3) by (auto simp: s1_def)
  have "find_row bb_id (bb_id b) (update_where ?P ?f (bills s1)) = Some (?f b)"
    using find_row_unique [OF d assms(2)] assms(3) by (simp add: find_row_update_where s1_def)
  then have run: "paySettlement now (bb_id b) operator (bb_campusId b) s1 =
      (fst (audit operator ''settlement.pay'' (bb_id b) ?s2), Inr (Some (?f b)))"
    by (simp add: paySettlement_def f pay_bill_def transaction_def and_then_def claim modify_def read_def audit_def
      reply_def settle_commissions_def)
  have sums: "sum_where Q cm_amount (update_where R (\<lambda>c. c\<lparr>cm_status := CSettled\<rparr>) rows) = sum_where Q cm_amount rows"
    if "\<And>c. Q (c\<lparr>cm_status := CSettled\<rparr>) = Q c" for Q R rows
    using that by (induction rows) auto
  let ?t = "fst (audit operator ''settlement.pay'' (bb_id b) ?s2)"
  have ok: "bills_ok ?t" and mem: "?f b \<in> set (bills ?t)"
  proof -
    have "bills_step s1 ?t"
      by (rule bills_step_update [where P = ?P and f = ?f])
        (auto simp: audit_def settle_commissions_def intro: bill_becomes.paid)
    then show "bills_ok ?t" using assms(1) by (simp add: bills_step_def bills_ok_def s1_def)
    show "?f b \<in> set (bills ?t)"
      using assms(2,3) by (auto simp: audit_def settle_commissions_def s1_def set_update_where)
  qed
  have "?f b \<in> set (bills s3)" if "settle_step\<^sup>*\<^sup>* ?t s3" for s3
    using settle_steps_bills [OF that] ok mem bill_history [of "?f b"] by (fastforce simp: bills_step_def)
  then show ?thesis
    using run assms(4-7)
    by (auto simp: audit_def settle_commissions_def s1_def sums set_update_where split: if_splits)
qed

subsection \<open>Witnesses\<close>

definition bill1 :: bm_bill where
  "bill1 = \<lparr>bb_id = ''bill1'', bb_staffId = ''s1'', bb_campusId = ''ca1'', bb_period = (1970, 1), bb_baseSalary = 0,
     bb_commissionTotal = 0, bb_adjustment = 0, bb_payable = 0, bb_status = Confirmed, bb_confirmedAt = Some 5, bb_paidAt = None\<rparr>"

definition late_row :: commission where
  "late_row = \<lparr>cm_staffId = ''s1'', cm_orderId = ''o1'', cm_campusId = ''ca1'', cm_amount = 400, cm_kind = KCommission,
     cm_status = CPending, cm_fallback = False, cm_period = (1970, 1), cm_remark = []\<rparr>"

definition bill_db :: db where
  "bill_db = db0\<lparr>bills := [bill1]\<rparr>"

theorem settled_bills_locked_witness:
  "\<exists>b' \<in> set (bills (fst (settlements 9 (\<lambda>n. ''n'' @ replicate n (CHR ''i'')) ''ca1'' None None
      (bill_db\<lparr>commissions := [late_row]\<rparr>)))). bb_id b' = ''bill1'' \<and> bb_payable b' = 0"
proof -
  let ?ids = "\<lambda>n. ''n'' @ replicate n (CHR ''i'')" and ?s = "bill_db\<lparr>commissions := [late_row]\<rparr>"
  have "inj ?ids" by (rule injI) (metis append_same_eq length_replicate append_Cons append_Nil list.inject)
  moreover have "range ?ids \<inter> bb_id ` set (bills ?s) = {}" by (auto simp: bill_db_def bill1_def)
  ultimately have "settle_step\<^sup>*\<^sup>* ?s (fst (settlements 9 ?ids ''ca1'' None None ?s))"
    by (meson settle_step.compute r_into_rtranclp)
  moreover have "bills_ok ?s" "bill1 \<in> set (bills ?s)" "bb_status bill1 \<noteq> PendingReview"
    by (simp_all add: bills_ok_def bill_db_def bill1_def)
  ultimately have "\<exists>b' \<in> set (bills (fst (settlements 9 ?ids ''ca1'' None None ?s))).
      bb_id b' = bb_id bill1 \<and> bb_payable b' = bb_payable bill1"
    using settled_bills_locked [of ?s _ bill1] by blast
  then show ?thesis by (simp add: bill1_def)
qed


theorem late_commission_unpaid_witness:
  "\<exists>s2 paid. paySettlement 9 ''bill1'' ''adm'' ''ca1'' (bill_db\<lparr>commissions := [late_row]\<rparr>) = (s2, Inr (Some paid)) \<and>
    bb_payable paid < bb_baseSalary paid +
      sum_where (\<lambda>x. cm_staffId x = ''s1'' \<and> cm_period x = (1970, 1)) cm_amount (commissions s2)"
proof -
  have "bills_ok bill_db" "bill1 \<in> set (bills bill_db)" "bb_status bill1 = Confirmed" "commissions bill_db = []"
    by (simp_all add: bills_ok_def bill_db_def bill1_def db0_def)
  moreover have "bb_id bill1 = ''bill1''" "bb_campusId bill1 = ''ca1''" "bb_staffId bill1 = ''s1''"
    "bb_period bill1 = (1970, 1)" "bb_payable bill1 = 0" "bb_baseSalary bill1 = 0"
    "cm_staffId late_row = ''s1''" "cm_period late_row = (1970, 1)" "0 < cm_amount late_row"
    by (simp_all add: bill1_def late_row_def)
  ultimately show ?thesis using late_commission_unpaid [of bill_db bill1 late_row 9 "''adm''"] by auto
qed

end
