(* ===== verification/Staff_Admin.thy ===== *)
theory Staff_Admin
  imports Refunds Samples Rbac "HOL-Library.Char_ord" "HOL-Library.List_Lexorder"
begin

text \<open>
  The people of a campus. From \<open>src/admin/admin.service.ts\<close>: \<open>createStaff\<close>, \<open>updateStaff\<close>, \<open>deleteStaff\<close>
  and the back-office side of the recruiting of building managers (\<open>updateRecruitApplication\<close>,
  \<open>recruitTransition\<close>, \<open>recruitReject\<close>, \<open>recruitApprove\<close>); from \<open>src/business/business.service.ts\<close> the side of
  the candidate (\<open>recruitApplication\<close>, \<open>recruitApply\<close>, \<open>recruitUpdate\<close>). The constraints of the tables
  (\<open>staffNo @unique\<close>, the reference to a building) are checks whose failure is an internal error.
\<close>

interpretation staff_tbl: row_table staffs staffs_update s_id
  by unfold_locales simp_all

interpretation recruit_tbl: row_table recruits recruits_update ra_id
  by unfold_locales simp_all

subsection \<open>Reading\<close>

definition resolveStaffCampus :: "ident option \<Rightarrow> ident \<Rightarrow> (db, campus) handler" where
  "resolveStaffCampus requested fallback s =
    (case find (\<lambda>c. ca_id c = (case truthy requested of Some k \<Rightarrow> k | None \<Rightarrow> fallback) \<and> ca_type c = ''campus'')
       (campuses s) of
       None \<Rightarrow> reject (BadRequest ''no such campus'') s
     | Some c \<Rightarrow> reply c s)"

definition is_rider :: "staff_role \<Rightarrow> bool" where
  "is_rider role \<longleftrightarrow> role \<in> {FulltimeRider, ParttimeRider}"

text \<open>A formal manager in office at a building, other than \<open>self\<close>.\<close>

definition manager_clash :: "db \<Rightarrow> ident \<Rightarrow> ident option \<Rightarrow> bool" where
  "manager_clash s buildingId self \<longleftrightarrow>
    (\<exists>x \<in> set (staffs s). s_buildingId x = Some buildingId \<and> s_role x = BuildingManager \<and>
      s_status x \<noteq> ''deleted'' \<and> Some (s_id x) \<noteq> self)"

definition staffNo_taken :: "db \<Rightarrow> string \<Rightarrow> bool" where
  "staffNo_taken s no \<longleftrightarrow> (\<exists>x \<in> set (staffs s). s_staffNo x = no)"

definition campus_building :: "db \<Rightarrow> ident \<Rightarrow> campus \<Rightarrow> building option" where
  "campus_building s k target = find (\<lambda>b. b_id b = k \<and> b_campusId b = ca_id target) (buildings s)"

definition role_label :: "string \<Rightarrow> staff_role \<Rightarrow> string" where
  "role_label buildingName role =
    (if role = BuildingManager then buildingName @ '' manager''
     else if role = InternBuildingManager then buildingName @ '' intern manager''
     else if role = FulltimeRider then ''full-time rider'' else ''part-time rider'')"

subsection \<open>createStaff\<close>

record staff_input =
  si_name :: string
  si_role :: staff_role
  si_staffNo :: string
  si_phone :: "string option"
  si_buildingId :: "ident option"
  si_status :: "string option"
  si_campusId :: "ident option"

definition check_new_staff :: "db \<Rightarrow> staff_input \<Rightarrow> api_error option" where
  "check_new_staff s body =
    (if staffNo_taken s (si_staffNo body) then Some (BadRequest ''the staff number exists'')
     else if is_rider (si_role body) \<and> truthy (si_buildingId body) \<noteq> None
       then Some (BadRequest ''a rider has no building'')
     else if si_role body \<in> {BuildingManager, InternBuildingManager}
       then (case truthy (si_buildingId body) of
               None \<Rightarrow> Some (BadRequest ''a manager needs a building'')
             | Some k \<Rightarrow>
                 if si_role body = BuildingManager \<and> manager_clash s k None
                 then Some (BadRequest ''the building has a manager'') else None)
     else None)"

definition new_staff :: "ident \<Rightarrow> campus \<Rightarrow> string \<Rightarrow> staff_input \<Rightarrow> staff" where
  "new_staff newId target buildingName body =
    \<lparr>s_id = newId, s_campusId = ca_id target, s_name = si_name body, s_role = si_role body,
     s_roleText = role_label buildingName (si_role body), s_staffNo = si_staffNo body,
     s_phone = (case si_phone body of Some t \<Rightarrow> t | None \<Rightarrow> []), s_buildingId = si_buildingId body,
     s_building = buildingName, s_status = (case si_status body of Some t \<Rightarrow> t | None \<Rightarrow> ''online''),
     s_notifyQuota = 0, s_notifyQuotaFailedAt = None, s_gzhOpenid = None\<rparr>"

text \<open>\<open>staff.create\<close> under the constraints of the table.\<close>

definition building_known :: "db \<Rightarrow> ident option \<Rightarrow> bool" where
  "building_known s k \<longleftrightarrow> (case k of None \<Rightarrow> True | Some b \<Rightarrow> \<exists>x \<in> set (buildings s). b_id x = b)"

definition insert_staff :: "staff \<Rightarrow> (db, unit) handler" where
  "insert_staff row s =
    unless (\<not> staffNo_taken s (s_staffNo row)) (InternalError ''unique constraint'')
      (unless (building_known s (s_buildingId row)) (InternalError ''foreign key'')
        (modify (\<lambda>s. s\<lparr>staffs := staffs s @ [row]\<rparr>))) s"

definition createStaff :: "ident \<Rightarrow> staff_input \<Rightarrow> string \<Rightarrow> ident \<Rightarrow> (db, staff) handler" where
  "createStaff newId body operator campusId =
    and_then (resolveStaffCampus (si_campusId body) campusId) (\<lambda>target s.
      (case check_new_staff s body of
         Some e \<Rightarrow> reject e s
       | None \<Rightarrow>
           (case (case truthy (si_buildingId body) of
                    None \<Rightarrow> Some (ca_name target)
                  | Some k \<Rightarrow> map_option b_name (campus_building s k target)) of
              None \<Rightarrow> reject (BadRequest ''no such building'') s
            | Some buildingName \<Rightarrow>
                and_then (insert_staff (new_staff newId target buildingName body))
                  (\<lambda>_. and_then (audit operator ''staff.create'' newId)
                  (\<lambda>_. reply (new_staff newId target buildingName body))) s)))"

subsection \<open>updateStaff and deleteStaff\<close>

text \<open>A field the request leaves out is \<open>None\<close>; \<open>Some None\<close> is an explicit \<open>null\<close>.\<close>

record staff_patch =
  sp_name :: "string option"
  sp_role :: "staff_role option"
  sp_staffNo :: "string option"
  sp_phone :: "string option option"
  sp_buildingId :: "ident option option"
  sp_status :: "string option"
  sp_campusId :: "ident option"

definition find_staff :: "db \<Rightarrow> ident \<Rightarrow> ident option \<Rightarrow> staff option" where
  "find_staff s k campusId =
    (case find (\<lambda>x. s_id x = k \<and> (case campusId of None \<Rightarrow> True | Some c \<Rightarrow> s_campusId x = c)) (staffs s) of
       Some x \<Rightarrow> if s_status x = ''deleted'' then None else Some x
     | None \<Rightarrow> None)"

definition given :: "'a option \<Rightarrow> 'a \<Rightarrow> 'a" where
  "given x y = (case x of Some v \<Rightarrow> v | None \<Rightarrow> y)"

text \<open>Moving a person to another campus without naming a building clears the building.\<close>

definition building_patch :: "campus \<Rightarrow> staff \<Rightarrow> staff_patch \<Rightarrow> ident option option" where
  "building_patch target before body =
    (if ca_id target \<noteq> s_campusId before \<and> sp_buildingId body = None then Some None else sp_buildingId body)"

definition unassign :: "campus \<Rightarrow> staff \<Rightarrow> staff_patch \<Rightarrow> bool" where
  "unassign target before body \<longleftrightarrow>
    (sp_role body \<noteq> None \<or> building_patch target before body \<noteq> None) \<and>
    is_rider (given (sp_role body) (s_role before)) \<and>
    truthy (given (building_patch target before body) (s_buildingId before)) \<noteq> None"

definition update_clash :: "db \<Rightarrow> campus \<Rightarrow> staff \<Rightarrow> staff_patch \<Rightarrow> bool" where
  "update_clash s target before body \<longleftrightarrow>
    (sp_role body \<noteq> None \<or> building_patch target before body \<noteq> None) \<and>
    given (sp_role body) (s_role before) = BuildingManager \<and>
    (case truthy (given (building_patch target before body) (s_buildingId before)) of
       None \<Rightarrow> False
     | Some k \<Rightarrow>
         (Some k \<noteq> s_buildingId before \<or> given (sp_role body) (s_role before) \<noteq> s_role before) \<and>
         manager_clash s k (Some (s_id before)))"

text \<open>The building afterwards: its id and the name that is stored with the person.\<close>

definition next_building :: "db \<Rightarrow> campus \<Rightarrow> staff \<Rightarrow> staff_patch \<Rightarrow> (ident option \<times> string) option" where
  "next_building s target before body =
    (case building_patch target before body of
       None \<Rightarrow> Some (if unassign target before body then (None, ca_name target)
         else (s_buildingId before, s_building before))
     | Some None \<Rightarrow> Some (None, ''to be assigned'')
     | Some (Some k) \<Rightarrow> map_option (\<lambda>b. (Some (b_id b), b_name b)) (campus_building s k target))"

definition updated_staff :: "campus \<Rightarrow> staff \<Rightarrow> staff_patch \<Rightarrow> ident option \<times> string \<Rightarrow> staff \<Rightarrow> staff" where
  "updated_staff target before body b x =
    x\<lparr>s_name := given (sp_name body) (s_name x), s_role := given (sp_role body) (s_role x),
      s_staffNo := given (sp_staffNo body) (s_staffNo x),
      s_phone := (case sp_phone body of None \<Rightarrow> s_phone x | Some None \<Rightarrow> [] | Some (Some t) \<Rightarrow> t),
      s_status := given (sp_status body) (s_status x), s_campusId := ca_id target,
      s_buildingId := fst b, s_building := snd b,
      s_roleText := (if sp_role body \<noteq> None \<or> building_patch target before body \<noteq> None
        then role_label (snd b) (given (sp_role body) (s_role before)) else s_roleText x)\<rparr>"

definition store_staff :: "campus \<Rightarrow> staff \<Rightarrow> staff_patch \<Rightarrow> ident option \<times> string \<Rightarrow> (db, staff option) handler" where
  "store_staff target before body b s =
    unless (\<forall>no. sp_staffNo body = Some no \<longrightarrow>
        (\<forall>x \<in> set (staffs s). s_staffNo x = no \<longrightarrow> s_id x = s_id before)) (InternalError ''unique constraint'')
      (and_then
        (claim_or staffs staffs_update (\<lambda>x. s_id x = s_id before \<and> s_campusId x = s_campusId before)
          (updated_staff target before body b) (NotFound ''record to update''))
      (\<lambda>_. read (\<lambda>s. find_row s_id (s_id before) (staffs s)))) s"

definition updateStaff :: "ident \<Rightarrow> staff_patch \<Rightarrow> string \<Rightarrow> ident option \<Rightarrow> (db, staff option) handler" where
  "updateStaff k body operator campusId s =
    (case find_staff s k campusId of
       None \<Rightarrow> reject (NotFound ''no such staff'') s
     | Some before \<Rightarrow>
         unless (\<not> (\<exists>no. truthy (sp_staffNo body) = Some no \<and> no \<noteq> s_staffNo before \<and> staffNo_taken s no))
             (BadRequest ''the staff number exists'')
           (and_then (resolveStaffCampus (sp_campusId body) (s_campusId before)) (\<lambda>target s.
             unless (\<not> update_clash s target before body) (BadRequest ''the building has a manager'')
               (\<lambda>s. case next_building s target before body of
                  None \<Rightarrow> reject (BadRequest ''no such building'') s
                | Some b \<Rightarrow>
                    and_then (store_staff target before body b)
                      (\<lambda>after. and_then (audit operator ''staff.update'' k) (\<lambda>_. reply after)) s) s)) s)"

definition deleteStaff :: "ident \<Rightarrow> string \<Rightarrow> ident option \<Rightarrow> (db, unit) handler" where
  "deleteStaff k operator campusId s =
    (case find_staff s k campusId of
       None \<Rightarrow> reject (NotFound ''no such staff'') s
     | Some before \<Rightarrow>
         and_then
           (claim_or staffs staffs_update (\<lambda>x. s_id x = k \<and> s_campusId x = s_campusId before)
             (\<lambda>x. x\<lparr>s_status := ''deleted''\<rparr>) (NotFound ''record to update''))
         (\<lambda>_. audit operator ''staff.delete'' k) s)"

end
