(* ===== verification/Recruiting.thy ===== *)
theory Recruiting
  imports Staff_Admin
begin

text \<open>
  The recruiting of building managers: the candidate's side from \<open>src/business/business.service.ts\<close>
  (\<open>recruitApplication\<close>, \<open>recruitApply\<close>, \<open>recruitUpdate\<close>) and the back office's side from
  \<open>src/admin/admin.service.ts\<close> (\<open>updateRecruitApplication\<close>, \<open>recruitTransition\<close>, \<open>recruitReject\<close>,
  \<open>recruitApprove\<close>). Identity card images are URLs; the temporary signing of their addresses is left out.
\<close>

subsection \<open>The candidate\<close>

definition OPEN_APPLICATIONS :: "string list" where
  "OPEN_APPLICATIONS = [''pending'', ''interviewing'', ''approved'']"

definition active_application :: "db \<Rightarrow> ident \<Rightarrow> recruit_application option" where
  "active_application s userId =
    find (\<lambda>a. ra_userId a = userId \<and> ra_status a \<in> set OPEN_APPLICATIONS) (recruits s)"

text \<open>The newest application: rows are in the order of their creation.\<close>

definition latest_application :: "db \<Rightarrow> ident \<Rightarrow> recruit_application option" where
  "latest_application s userId = find (\<lambda>a. ra_userId a = userId) (rev (recruits s))"

text \<open>What a candidate sees: the columns of the identity card and of the staff's remark are taken out.\<close>

record recruit_view =
  rv_id :: ident
  rv_campusId :: ident
  rv_buildingId :: ident
  rv_buildingName :: string
  rv_name :: string
  rv_phone :: string
  rv_note :: string
  rv_status :: string
  rv_rejectReason :: string
  rv_staffNo :: string

definition recruitApplication :: "db \<Rightarrow> ident \<Rightarrow> recruit_view option" where
  "recruitApplication s userId =
    map_option (\<lambda>a.
      \<lparr>rv_id = ra_id a, rv_campusId = ra_campusId a, rv_buildingId = ra_buildingId a,
       rv_buildingName = ra_buildingName a, rv_name = ra_name a, rv_phone = ra_phone a, rv_note = ra_note a,
       rv_status = ra_status a, rv_rejectReason = ra_rejectReason a,
       rv_staffNo = (if ra_status a = ''approved''
         then (case truthy (ra_staffId a) of
                 None \<Rightarrow> []
               | Some k \<Rightarrow> (case find_row s_id k (staffs s) of Some x \<Rightarrow> s_staffNo x | None \<Rightarrow> []))
         else [])\<rparr>) (latest_application s userId)"

record recruit_input =
  ri_campusId :: ident
  ri_buildingId :: ident
  ri_name :: string
  ri_phone :: string
  ri_note :: "string option"

text \<open>The campus is open, the building belongs to it, and there is a name.\<close>

definition check_recruit :: "recruit_input \<Rightarrow> (db, building) handler" where
  "check_recruit body s =
    unless (\<exists>c \<in> set (campuses s). ca_id c = ri_campusId body \<and> ca_status c = ''active'')
        (BadRequest ''no such campus'')
      (case find (\<lambda>b. b_id b = ri_buildingId body \<and> b_campusId b = ri_campusId body \<and> b_status b = ''active'')
         (buildings s) of
         None \<Rightarrow> reject (BadRequest ''no such building'')
       | Some b \<Rightarrow> unless (trim (ri_name body) \<noteq> []) (BadRequest ''a name is needed'') (reply b)) s"

definition note_text :: "string option \<Rightarrow> string" where
  "note_text note = take 200 (trim (case note of Some t \<Rightarrow> t | None \<Rightarrow> []))"

definition new_application :: "ident \<Rightarrow> ident \<Rightarrow> recruit_input \<Rightarrow> building \<Rightarrow> recruit_application" where
  "new_application newId userId body b =
    \<lparr>ra_id = newId, ra_userId = userId, ra_campusId = ri_campusId body, ra_buildingId = b_id b,
     ra_buildingName = b_name b, ra_name = trim (ri_name body), ra_phone = trim (ri_phone body),
     ra_note = note_text (ri_note body), ra_status = ''pending'', ra_rejectReason = [], ra_staffId = None,
     ra_auditBy = [], ra_auditByName = [], ra_auditedAt = None, ra_idCardNo = [], ra_idCardImages = None,
     ra_staffRemark = []\<rparr>"

definition recruitApply :: "ident \<Rightarrow> ident \<Rightarrow> recruit_input \<Rightarrow> (db, recruit_application) handler" where
  "recruitApply newId userId body s =
    (case active_application s userId of
       Some a \<Rightarrow> reject (BadRequest (if ra_status a = ''approved'' then ''you are a manager already''
         else ''an application is under way'')) s
     | None \<Rightarrow>
         and_then (check_recruit body) (\<lambda>b.
         and_then (modify (\<lambda>s. s\<lparr>recruits := recruits s @ [new_application newId userId body b]\<rparr>))
           (\<lambda>_. reply (new_application newId userId body b))) s)"

definition recruitUpdate :: "ident \<Rightarrow> recruit_input \<Rightarrow> (db, recruit_application option) handler" where
  "recruitUpdate userId body s =
    (case latest_application s userId of
       None \<Rightarrow> reject (BadRequest ''cannot be changed now'') s
     | Some a \<Rightarrow>
         unless (ra_status a \<in> {''pending'', ''interviewing''}) (BadRequest ''cannot be changed now'')
           (and_then (check_recruit body) (\<lambda>b.
            and_then (modify (\<lambda>s. s\<lparr>recruits := update_where (\<lambda>x. ra_id x = ra_id a)
              (\<lambda>x. x\<lparr>ra_campusId := ri_campusId body, ra_buildingId := b_id b, ra_buildingName := b_name b,
                 ra_name := trim (ri_name body), ra_phone := trim (ri_phone body),
                 ra_note := note_text (ri_note body)\<rparr>) (recruits s)\<rparr>))
            (\<lambda>_. read (\<lambda>s. find_row ra_id (ra_id a) (recruits s))))) s)"

subsection \<open>The back office\<close>

text \<open>\<open>[]\<close> as the campus is the back office of all campuses.\<close>

definition find_application :: "db \<Rightarrow> ident \<Rightarrow> ident \<Rightarrow> recruit_application option" where
  "find_application s k campusId =
    find (\<lambda>a. ra_id a = k \<and> (campusId = [] \<or> ra_campusId a = campusId)) (recruits s)"

definition write_application :: "ident \<Rightarrow> (recruit_application \<Rightarrow> recruit_application) \<Rightarrow> (db, recruit_application option) handler" where
  "write_application k f =
    and_then (modify (\<lambda>s. s\<lparr>recruits := update_where (\<lambda>x. ra_id x = k) f (recruits s)\<rparr>))
      (\<lambda>_. read (\<lambda>s. find_row ra_id k (recruits s)))"

definition updateRecruitApplication ::
  "ident \<Rightarrow> string option \<Rightarrow> string list option \<Rightarrow> string option \<Rightarrow> string \<Rightarrow> ident \<Rightarrow>
    (db, recruit_application option) handler" where
  "updateRecruitApplication k idCardNo images remark operator campusId s =
    (case find_application s k campusId of
       None \<Rightarrow> reject (NotFound ''no such application'') s
     | Some found \<Rightarrow>
         and_then (write_application k (\<lambda>x. x\<lparr>
             ra_idCardNo := (case idCardNo of Some t \<Rightarrow> trim t | None \<Rightarrow> ra_idCardNo x),
             ra_idCardImages := (case images of Some t \<Rightarrow> Some t | None \<Rightarrow> ra_idCardImages x),
             ra_staffRemark := (case remark of Some t \<Rightarrow> trim t | None \<Rightarrow> ra_staffRemark x)\<rparr>))
           (\<lambda>updated. and_then (audit operator ''recruit.update'' k) (\<lambda>_. reply updated)) s)"

definition recruitTransition :: "ident \<Rightarrow> string \<Rightarrow> ident \<Rightarrow> (db, recruit_application option) handler" where
  "recruitTransition k operator campusId s =
    (case find_application s k campusId of
       None \<Rightarrow> reject (NotFound ''no such application'') s
     | Some found \<Rightarrow>
         unless (ra_status found = ''pending'') (BadRequest ''only a pending application can be interviewed'')
           (and_then (write_application k (\<lambda>x. x\<lparr>ra_status := ''interviewing''\<rparr>))
             (\<lambda>updated. and_then (audit operator ''recruit.interview'' k) (\<lambda>_. reply updated))) s)"

text \<open>\<open>row.nickname || row.username\<close> of the account of the operator.\<close>

definition operator_name :: "account list \<Rightarrow> ident \<Rightarrow> string" where
  "operator_name accs k =
    (case find_row acc_id k accs of
       Some a \<Rightarrow> if acc_nickname a = [] then acc_username a else acc_nickname a
     | None \<Rightarrow> [])"

text \<open>The writing half of \<open>recruitReject\<close>, which does not look at the status again.\<close>

definition recruit_reject_commit ::
  "millis \<Rightarrow> account list \<Rightarrow> ident \<Rightarrow> string \<Rightarrow> string \<Rightarrow> (db, recruit_application option) handler" where
  "recruit_reject_commit now accs k reason operator =
    and_then (write_application k (\<lambda>x. x\<lparr>ra_status := ''rejected'', ra_rejectReason := trim reason,
        ra_auditBy := operator, ra_auditByName := operator_name accs operator, ra_auditedAt := Some now\<rparr>))
      (\<lambda>updated. and_then (audit operator ''recruit.reject'' k) (\<lambda>_. reply updated))"

definition recruitReject ::
  "millis \<Rightarrow> account list \<Rightarrow> ident \<Rightarrow> string \<Rightarrow> string \<Rightarrow> ident \<Rightarrow> (db, recruit_application option) handler" where
  "recruitReject now accs k reason operator campusId s =
    unless (trim reason \<noteq> []) (BadRequest ''a reason is needed'')
      (case find_application s k campusId of
         None \<Rightarrow> reject (NotFound ''no such application'')
       | Some found \<Rightarrow>
           unless (ra_status found \<in> {''pending'', ''interviewing''}) (BadRequest ''the application is closed'')
             (recruit_reject_commit now accs k reason operator)) s"

subsection \<open>The staff number of a new manager\<close>

fun decimal :: "nat \<Rightarrow> string" where
  "decimal n = (if n < 10 then [] else decimal (n div 10)) @ [char_of (48 + n mod 10)]"

text \<open>\<open>Number(t)\<close> for plain decimal digits; the empty text is 0, any other text counts as \<open>NaN\<close>.\<close>

definition js_number :: "string \<Rightarrow> nat option" where
  "js_number t = (if t = [] then Some 0 else if list_all is_digit t then Some (nat (number_or_0 t)) else None)"

definition pad3 :: "string \<Rightarrow> string" where
  "pad3 t = replicate (3 - length t) (CHR ''0'') @ t"

definition IBM_PREFIX :: string where
  "IBM_PREFIX = ''IBM-''"

text \<open>\<open>findFirst({where: {staffNo: {startsWith: 'IBM-'}}, orderBy: {staffNo: 'desc'}})\<close>: the greatest text.\<close>

definition last_intern_no :: "db \<Rightarrow> string option" where
  "last_intern_no s =
    (case filter (\<lambda>t. take 4 t = IBM_PREFIX) (map s_staffNo (staffs s)) of
       [] \<Rightarrow> None
     | t # ts \<Rightarrow> Some (fold max ts t))"

definition next_intern_no :: "db \<Rightarrow> string" where
  "next_intern_no s =
    IBM_PREFIX @ pad3 (case last_intern_no s of
      None \<Rightarrow> decimal 1
    | Some t \<Rightarrow> (case js_number (drop 4 t) of Some n \<Rightarrow> decimal (n + 1) | None \<Rightarrow> ''NaN''))"

subsection \<open>recruitApprove\<close>

definition intern_of :: "ident \<Rightarrow> string \<Rightarrow> recruit_application \<Rightarrow> staff" where
  "intern_of newId staffNo found =
    \<lparr>s_id = newId, s_campusId = ra_campusId found, s_name = ra_name found, s_role = InternBuildingManager,
     s_roleText = ra_buildingName found @ '' intern manager'', s_staffNo = staffNo, s_phone = [],
     s_buildingId = Some (ra_buildingId found), s_building = ra_buildingName found, s_status = ''online'',
     s_notifyQuota = 0, s_notifyQuotaFailedAt = None, s_gzhOpenid = None\<rparr>"

definition approve_tx ::
  "millis \<Rightarrow> account list \<Rightarrow> ident \<Rightarrow> ident \<Rightarrow> string \<Rightarrow> ident \<Rightarrow> (db, recruit_application option \<times> staff) handler" where
  "approve_tx now accs newId k operator campusId =
    transaction (\<lambda>s.
      case find_application s k campusId of
        None \<Rightarrow> reject (NotFound ''no such application'') s
      | Some found \<Rightarrow>
          unless (ra_status found \<noteq> ''approved'') (BadRequest ''approved already'')
          (unless (ra_status found \<noteq> ''rejected'') (BadRequest ''rejected already'')
          (and_then (insert_staff (intern_of newId (next_intern_no s) found)) (\<lambda>_.
           and_then (write_application k (\<lambda>x. x\<lparr>ra_status := ''approved'', ra_staffId := Some newId,
             ra_auditBy := operator, ra_auditByName := operator_name accs operator, ra_auditedAt := Some now\<rparr>))
           (\<lambda>a. reply (a, intern_of newId (next_intern_no s) found))))) s)"

definition recruitApprove ::
  "millis \<Rightarrow> account list \<Rightarrow> ident \<Rightarrow> ident \<Rightarrow> string \<Rightarrow> ident \<Rightarrow> (db, recruit_application option \<times> staff) handler" where
  "recruitApprove now accs newId k operator campusId =
    and_then (approve_tx now accs newId k operator campusId)
      (\<lambda>r. and_then (audit operator ''recruit.approve'' k) (\<lambda>_. reply r))"

end
