(* ===== verification/Staff_Theorems.thy ===== *)
theory Staff_Theorems
  imports Recruiting
begin

text \<open>
  What the administration of staff and the recruiting keep true. \<open>people_step\<close> is the abstract
  specification: the seven things that may happen to the tables of staff and applications, each with
  what the code has checked before. Every handler is shown to do one of them, and the invariant is
  proved once over the specification.
\<close>

subsection \<open>The abstract specification\<close>

definition located :: "db \<Rightarrow> ident \<Rightarrow> ident \<Rightarrow> bool" where
  "located s k campusId \<longleftrightarrow> (\<exists>b \<in> set (buildings s). b_id b = k \<and> b_campusId b = campusId)"

definition staff_located :: "db \<Rightarrow> staff \<Rightarrow> bool" where
  "staff_located s x \<longleftrightarrow> (\<forall>k. s_buildingId x = Some k \<longrightarrow> located s k (s_campusId x))"

definition no_rival :: "db \<Rightarrow> staff \<Rightarrow> ident option \<Rightarrow> bool" where
  "no_rival s x self \<longleftrightarrow>
    (\<forall>k. s_buildingId x = Some k \<and> s_role x = BuildingManager \<longrightarrow> \<not> manager_clash s k self)"

definition may_hire :: "db \<Rightarrow> staff \<Rightarrow> bool" where
  "may_hire s x \<longleftrightarrow> s_id x \<notin> s_id ` set (staffs s) \<and> s_staffNo x \<notin> s_staffNo ` set (staffs s) \<and>
    staff_located s x \<and> no_rival s x None"

definition may_amend :: "db \<Rightarrow> staff \<Rightarrow> staff \<Rightarrow> bool" where
  "may_amend s x y \<longleftrightarrow> x \<in> set (staffs s) \<and> s_status x \<noteq> ''deleted'' \<and> s_id y = s_id x \<and>
    (\<forall>z \<in> set (staffs s). s_staffNo z = s_staffNo y \<longrightarrow> s_id z = s_id x) \<and> staff_located s y \<and>
    (no_rival s y (Some (s_id x)) \<or> s_role y = s_role x \<and> s_buildingId y = s_buildingId x)"

definition is_open :: "recruit_application \<Rightarrow> bool" where
  "is_open a \<longleftrightarrow> ra_status a \<in> {''pending'', ''interviewing'', ''approved''}"

definition known_status :: "recruit_application \<Rightarrow> bool" where
  "known_status a \<longleftrightarrow> is_open a \<or> ra_status a = ''rejected''"

definition may_apply :: "db \<Rightarrow> recruit_application \<Rightarrow> bool" where
  "may_apply s a \<longleftrightarrow> ra_id a \<notin> ra_id ` set (recruits s) \<and> ra_status a = ''pending'' \<and>
    (\<forall>x \<in> set (recruits s). ra_userId x = ra_userId a \<longrightarrow> \<not> is_open x) \<and>
    located s (ra_buildingId a) (ra_campusId a)"

definition may_revise :: "db \<Rightarrow> recruit_application \<Rightarrow> recruit_application \<Rightarrow> bool" where
  "may_revise s a a' \<longleftrightarrow> a \<in> set (recruits s) \<and> ra_id a' = ra_id a \<and> ra_userId a' = ra_userId a \<and>
    ra_staffId a' = ra_staffId a \<and> located s (ra_buildingId a') (ra_campusId a') \<and>
    (ra_status a' = ra_status a \<or>
     ra_status a \<in> {''pending'', ''interviewing''} \<and> ra_status a' \<in> {''interviewing'', ''rejected''})"

definition may_accept :: "db \<Rightarrow> recruit_application \<Rightarrow> recruit_application \<Rightarrow> staff \<Rightarrow> bool" where
  "may_accept s a a' x \<longleftrightarrow> a \<in> set (recruits s) \<and> ra_status a \<notin> {''approved'', ''rejected''} \<and>
    ra_id a' = ra_id a \<and> ra_userId a' = ra_userId a \<and> ra_buildingId a' = ra_buildingId a \<and>
    ra_campusId a' = ra_campusId a \<and> ra_status a' = ''approved'' \<and> ra_staffId a' = Some (s_id x) \<and> may_hire s x"

definition swap_row :: "('r \<Rightarrow> ident) \<Rightarrow> 'r \<Rightarrow> 'r list \<Rightarrow> 'r list" where
  "swap_row key y rows = update_where (\<lambda>x. key x = key y) (\<lambda>_. y) rows"

inductive people_step :: "db \<Rightarrow> db \<Rightarrow> bool" where
  same: "\<lbrakk>buildings s' = buildings s; staffs s' = staffs s; recruits s' = recruits s\<rbrakk> \<Longrightarrow> people_step s s'"
| hire: "\<lbrakk>buildings s' = buildings s; staffs s' = staffs s @ [x]; recruits s' = recruits s; may_hire s x\<rbrakk>
    \<Longrightarrow> people_step s s'"
| amend: "\<lbrakk>buildings s' = buildings s; staffs s' = swap_row s_id y (staffs s); recruits s' = recruits s;
    may_amend s x y\<rbrakk> \<Longrightarrow> people_step s s'"
| apply_for: "\<lbrakk>buildings s' = buildings s; staffs s' = staffs s; recruits s' = recruits s @ [a]; may_apply s a\<rbrakk>
    \<Longrightarrow> people_step s s'"
| revise: "\<lbrakk>buildings s' = buildings s; staffs s' = staffs s; recruits s' = swap_row ra_id a' (recruits s);
    may_revise s a a'\<rbrakk> \<Longrightarrow> people_step s s'"
| accept: "\<lbrakk>buildings s' = buildings s; staffs s' = staffs s @ [x]; recruits s' = swap_row ra_id a' (recruits s);
    may_accept s a a' x\<rbrakk> \<Longrightarrow> people_step s s'"

subsection \<open>The invariant\<close>

definition buildings_ok :: "db \<Rightarrow> bool" where
  "buildings_ok s \<longleftrightarrow> distinct (map b_id (buildings s)) \<and> [] \<notin> b_id ` set (buildings s)"

definition managers_ok :: "db \<Rightarrow> bool" where
  "managers_ok s \<longleftrightarrow> (\<forall>x \<in> set (staffs s). \<forall>y \<in> set (staffs s). \<forall>k.
    s_role x = BuildingManager \<and> s_role y = BuildingManager \<and> s_status x \<noteq> ''deleted'' \<and> s_status y \<noteq> ''deleted'' \<and>
    s_buildingId x = Some k \<and> s_buildingId y = Some k \<longrightarrow> s_id x = s_id y)"

definition staff_ok :: "db \<Rightarrow> bool" where
  "staff_ok s \<longleftrightarrow> distinct (map s_id (staffs s)) \<and> distinct (map s_staffNo (staffs s)) \<and>
    (\<forall>x \<in> set (staffs s). staff_located s x) \<and> managers_ok s"

definition one_open :: "db \<Rightarrow> bool" where
  "one_open s \<longleftrightarrow> (\<forall>a \<in> set (recruits s). \<forall>b \<in> set (recruits s).
    ra_userId a = ra_userId b \<and> is_open a \<and> is_open b \<longrightarrow> ra_id a = ra_id b)"

definition recruits_ok :: "db \<Rightarrow> bool" where
  "recruits_ok s \<longleftrightarrow> distinct (map ra_id (recruits s)) \<and>
    (\<forall>a \<in> set (recruits s). located s (ra_buildingId a) (ra_campusId a) \<and>
      known_status a) \<and> one_open s"

text \<open>Every approved application has a member of staff of its own.\<close>

definition own_staff :: "db \<Rightarrow> bool" where
  "own_staff s \<longleftrightarrow> (\<forall>a \<in> set (recruits s). \<forall>b \<in> set (recruits s). ra_status a = ''approved'' \<and> ra_status b = ''approved'' \<and>
      ra_staffId a = ra_staffId b \<longrightarrow> ra_id a = ra_id b)"

definition hired_ok :: "db \<Rightarrow> bool" where
  "hired_ok s \<longleftrightarrow>
    (\<forall>a \<in> set (recruits s). ra_status a = ''approved'' \<longrightarrow> (\<exists>x \<in> set (staffs s). ra_staffId a = Some (s_id x))) \<and>
    own_staff s"

definition people_ok :: "db \<Rightarrow> bool" where
  "people_ok s \<longleftrightarrow> buildings_ok s \<and> staff_ok s \<and> recruits_ok s \<and> hired_ok s"

lemma located_cong: "buildings s' = buildings s \<Longrightarrow> located s' k c = located s k c"
  by (simp add: located_def)

lemma staff_located_cong: "buildings s' = buildings s \<Longrightarrow> staff_located s' x = staff_located s x"
  by (simp add: staff_located_def located_def)

lemma set_swap_row: "set (swap_row key y rows) \<subseteq> insert y (set rows)"
  by (auto simp: swap_row_def set_update_where)

lemma in_swap_rowD: "x \<in> set (swap_row key y rows) \<Longrightarrow> x = y \<or> x \<in> set rows \<and> key x \<noteq> key y"
  by (auto simp: swap_row_def set_update_where)

lemma swap_row_keys: "map key (swap_row key y rows) = map key rows"
  by (induction rows) (simp_all add: swap_row_def)

lemma distinct_swap:
  assumes "distinct (map g rows)" and "distinct (map key rows)" and "\<forall>z \<in> set rows. g z = g y \<longrightarrow> key z = key y"
  shows "distinct (map g (swap_row key y rows))"
  using assms
proof (induction rows)
  case (Cons r rows)
  have "g y \<notin> g ` set (swap_row key y rows)" if "key r = key y"
  proof -
    have "swap_row key y rows = rows" using Cons.prems(2) that
      by (auto simp: swap_row_def image_iff intro!: update_where_id)
    then show ?thesis using Cons.prems that by (force simp: image_iff)
  qed
  moreover have "g r \<notin> g ` set (swap_row key y rows)" if "key r \<noteq> key y"
    using Cons.prems that by (auto dest!: in_swap_rowD)
  ultimately show ?case using Cons by (auto simp: swap_row_def)
qed (simp add: swap_row_def)

lemma managers_hire: "managers_ok s \<Longrightarrow> no_rival s x None \<Longrightarrow> staffs s' = staffs s @ [x] \<Longrightarrow> managers_ok s'"
  unfolding managers_ok_def no_rival_def manager_clash_def by auto

lemma managers_amend:
  assumes "managers_ok s" and "may_amend s x y" and "staffs s' = swap_row s_id y (staffs s)"
  shows "managers_ok s'"
proof -
  have y: "s_id y = s_id x" "x \<in> set (staffs s)" "s_status x \<noteq> ''deleted''"
    using assms(2) by (simp_all add: may_amend_def)
  have rival: "False" if "z \<in> set (staffs s)" "s_id z \<noteq> s_id y" "s_role z = BuildingManager" "s_role y = BuildingManager"
      "s_status z \<noteq> ''deleted''" "s_buildingId z = Some k" "s_buildingId y = Some k" for z k
  proof -
    consider "no_rival s y (Some (s_id x))" | "s_role y = s_role x" "s_buildingId y = s_buildingId x"
      using assms(2) by (auto simp: may_amend_def)
    then show ?thesis
    proof cases
      case 1
      then show ?thesis using that y by (auto simp: no_rival_def manager_clash_def)
    next
      case 2
      then show ?thesis using that y assms(1) by (metis managers_ok_def)
    qed
  qed
  show ?thesis
    unfolding managers_ok_def assms(3)
  proof (intro ballI allI impI)
    fix u v k
    assume uv: "u \<in> set (swap_row s_id y (staffs s))" "v \<in> set (swap_row s_id y (staffs s))"
      and c: "s_role u = BuildingManager \<and> s_role v = BuildingManager \<and> s_status u \<noteq> ''deleted'' \<and>
        s_status v \<noteq> ''deleted'' \<and> s_buildingId u = Some k \<and> s_buildingId v = Some k"
    from in_swap_rowD [OF uv(1)] in_swap_rowD [OF uv(2)] show "s_id u = s_id v"
      using rival [of u k] rival [of v k] c assms(1) unfolding managers_ok_def by metis
  qed
qed

lemma staff_step_hire:
  assumes "staff_ok s" and "may_hire s x" and "staffs s' = staffs s @ [x]" and "buildings s' = buildings s"
  shows "staff_ok s'"
  using assms managers_hire [of s x s']
  by (auto simp: staff_ok_def may_hire_def staff_located_cong [OF assms(4)])

lemma staff_step_amend:
  assumes "staff_ok s" and "may_amend s x y" and "staffs s' = swap_row s_id y (staffs s)" and "buildings s' = buildings s"
  shows "staff_ok s'"
proof -
  have "distinct (map s_staffNo (staffs s'))"
    unfolding assms(3) by (rule distinct_swap) (use assms(1,2) in \<open>auto simp: staff_ok_def may_amend_def\<close>)
  moreover have "distinct (map s_id (staffs s'))"
    using assms(1) by (simp add: assms(3) swap_row_keys staff_ok_def)
  moreover have "staff_located s' z" if "z \<in> set (staffs s')" for z
    using in_swap_rowD [OF that [unfolded assms(3)]] assms(1,2)
    by (auto simp: staff_located_cong [OF assms(4)] staff_ok_def may_amend_def)
  ultimately show ?thesis
    using managers_amend [OF _ assms(2,3)] assms(1) by (simp add: staff_ok_def)
qed

lemma buildings_cong: "buildings s' = buildings s \<Longrightarrow> buildings_ok s' = buildings_ok s"
  by (simp only: buildings_ok_def)

lemma staff_cong: "staffs s' = staffs s \<Longrightarrow> buildings s' = buildings s \<Longrightarrow> staff_ok s' = staff_ok s"
  by (simp only: staff_ok_def managers_ok_def staff_located_def located_def)

lemma recruits_cong: "recruits s' = recruits s \<Longrightarrow> buildings s' = buildings s \<Longrightarrow> recruits_ok s' = recruits_ok s"
  by (simp only: recruits_ok_def one_open_def located_def)

lemma hired_cong: "staffs s' = staffs s \<Longrightarrow> recruits s' = recruits s \<Longrightarrow> hired_ok s' = hired_ok s"
  by (simp only: hired_ok_def own_staff_def)

lemma pairs_append:
  assumes "\<forall>a \<in> set xs. \<forall>b \<in> set xs. P a b \<longrightarrow> f a = f b" and "\<And>a. a \<in> set xs \<Longrightarrow> \<not> P a x \<and> \<not> P x a"
  shows "\<forall>a \<in> set (xs @ [x]). \<forall>b \<in> set (xs @ [x]). P a b \<longrightarrow> f a = f b"
  using assms by (metis Un_iff empty_iff insert_iff list.set(1) list.set(2) set_append)

lemma recruits_apply:
  assumes "recruits_ok s" and "may_apply s a" and "recruits s' = recruits s @ [a]" and "buildings s' = buildings s"
  shows "recruits_ok s'"
proof -
  have "known_status a" using assms(2) by (simp add: may_apply_def known_status_def is_open_def)
  moreover have "one_open s'"
    unfolding one_open_def assms(3)
  proof (rule pairs_append)
    show "\<forall>a \<in> set (recruits s). \<forall>b \<in> set (recruits s).
        ra_userId a = ra_userId b \<and> is_open a \<and> is_open b \<longrightarrow> ra_id a = ra_id b"
      using assms(1) unfolding recruits_ok_def one_open_def by blast
    show "\<not> (ra_userId b = ra_userId a \<and> is_open b \<and> is_open a) \<and> \<not> (ra_userId a = ra_userId b \<and> is_open a \<and> is_open b)"
      if "b \<in> set (recruits s)" for b
      using assms(2) that unfolding may_apply_def by metis
  qed
  ultimately show ?thesis
    using assms(1,2) by (simp add: recruits_ok_def may_apply_def assms(3) located_cong [OF assms(4)])
qed

lemma recruits_swap:
  assumes "recruits_ok s" and "a \<in> set (recruits s)" and "ra_id a' = ra_id a" and "ra_userId a' = ra_userId a"
    and "is_open a' \<longrightarrow> is_open a" and "located s (ra_buildingId a') (ra_campusId a')"
    and "known_status a'"
    and "recruits s' = swap_row ra_id a' (recruits s)" and "buildings s' = buildings s"
  shows "recruits_ok s'"
proof -
  have "distinct (map ra_id (recruits s'))" using assms(1) by (simp add: assms(8) swap_row_keys recruits_ok_def)
  moreover have "located s' (ra_buildingId b) (ra_campusId b) \<and>
      known_status b" if "b \<in> set (recruits s')" for b
    using in_swap_rowD [OF that [unfolded assms(8)]] assms(1,6,7)
    unfolding located_cong [OF assms(9)] recruits_ok_def by metis
  moreover have "one_open s'"
    unfolding one_open_def
  proof (intro ballI impI)
    fix b c assume bc: "b \<in> set (recruits s')" "c \<in> set (recruits s')"
      and "ra_userId b = ra_userId c \<and> is_open b \<and> is_open c"
    then show "ra_id b = ra_id c"
      using in_swap_rowD [OF bc(1) [unfolded assms(8)]] in_swap_rowD [OF bc(2) [unfolded assms(8)]] assms(1-5)
      unfolding recruits_ok_def one_open_def by metis
  qed
  ultimately show ?thesis by (simp add: recruits_ok_def)
qed

lemma people_step_ok:
  assumes "people_step s s'" and "people_ok s"
  shows "people_ok s'"
proof -
  have ok: "buildings_ok s" "staff_ok s" "recruits_ok s" "hired_ok s" using assms(2) by (simp_all add: people_ok_def)
  show ?thesis
    using assms(1)
  proof cases
    case same
    then show ?thesis using ok by (simp add: people_ok_def buildings_cong [OF same(1)] staff_cong [OF same(2,1)] recruits_cong [OF same(3,1)] hired_cong [OF same(2,3)])
  next
    case (hire x)
    have "own_staff s' = own_staff s" by (simp only: own_staff_def hire(3))
    then have "hired_ok s'" using ok(4) by (auto simp: hired_ok_def hire(2,3))
    then show ?thesis
      using ok staff_step_hire [OF ok(2) hire(4,2,1)] by (simp add: people_ok_def buildings_cong [OF hire(1)] recruits_cong [OF hire(3,1)])
  next
    case (amend y x)
    have "s_id ` set (staffs s') = s_id ` set (staffs s)" by (metis amend(2) set_map swap_row_keys)
    moreover have "(\<exists>x \<in> A. k = Some (s_id x)) \<longleftrightarrow> k \<in> Some ` s_id ` A" for k and A :: "staff set" by blast
    ultimately have ids: "(\<exists>x \<in> set (staffs s'). k = Some (s_id x)) \<longleftrightarrow> (\<exists>x \<in> set (staffs s). k = Some (s_id x))" for k
      by (simp only:)
    have "hired_ok s'" using ok(4) unfolding hired_ok_def own_staff_def amend(3) ids .
    then show ?thesis
      using ok staff_step_amend [OF ok(2) amend(4,2,1)] by (simp add: people_ok_def buildings_cong [OF amend(1)] recruits_cong [OF amend(3,1)])
  next
    case (apply_for a)
    have "ra_status a \<noteq> ''approved''" using apply_for(4) by (simp add: may_apply_def)
    moreover have "own_staff s'"
      unfolding own_staff_def apply_for(3)
      by (rule pairs_append) (use ok(4) calculation in \<open>unfold hired_ok_def own_staff_def, blast+\<close>)
    ultimately have "hired_ok s'" using ok(4) by (auto simp: hired_ok_def apply_for(2,3))
    then show ?thesis
      using ok recruits_apply [OF ok(3) apply_for(4,3,1)]
      by (simp add: people_ok_def buildings_cong [OF apply_for(1)] staff_cong [OF apply_for(2,1)])
  next
    case (revise a' a)
    note r = revise(4) [unfolded may_revise_def]
    have "known_status a" using r ok(3) by (auto simp: recruits_ok_def)
    then have "known_status a'" "is_open a' \<longrightarrow> is_open a" and kept: "ra_status a' = ''approved'' \<longrightarrow> ra_status a = ''approved''"
      using r by (auto simp: known_status_def is_open_def)
    then have "recruits_ok s'" using recruits_swap [OF ok(3), of a a' s'] r revise(1,3) by blast
    moreover have "hired_ok s'"
      using ok(4) r kept unfolding hired_ok_def own_staff_def revise(2,3) by (metis in_swap_rowD)
    ultimately show ?thesis using ok by (simp add: people_ok_def buildings_cong [OF revise(1)] staff_cong [OF revise(2,1)])
  next
    case (accept x a' a)
    note a = accept(4) [unfolded may_accept_def]
    have "known_status a" "located s (ra_buildingId a) (ra_campusId a)" using a ok(3) by (auto simp: recruits_ok_def)
    then have "is_open a" "known_status a'" using a by (auto simp: known_status_def is_open_def)
    then have "recruits_ok s'"
      using recruits_swap [OF ok(3), of a a' s'] a accept(1,3) \<open>located s _ _\<close> by metis
    moreover have "hired_ok s'"
    proof -
      have new: "s_id x \<notin> s_id ` set (staffs s)" using a by (simp add: may_hire_def)
      have old: "\<exists>z \<in> set (staffs s). ra_staffId b = Some (s_id z)" "ra_staffId b \<noteq> ra_staffId a'"
        if "b \<in> set (recruits s)" "ra_status b = ''approved''" for b
        using ok(4) that a new by (auto simp: hired_ok_def image_iff) (metis option.inject)+
      show ?thesis unfolding hired_ok_def own_staff_def
      proof (intro conjI ballI impI)
        fix b assume "b \<in> set (recruits s')" "ra_status b = ''approved''"
        then show "\<exists>z \<in> set (staffs s'). ra_staffId b = Some (s_id z)"
          using in_swap_rowD [of b ra_id a' "recruits s"] old a by (auto simp: accept(2,3))
      next
        fix b c assume "b \<in> set (recruits s')" "c \<in> set (recruits s')"
          and "ra_status b = ''approved'' \<and> ra_status c = ''approved'' \<and> ra_staffId b = ra_staffId c"
        then show "ra_id b = ra_id c"
          using in_swap_rowD [of b ra_id a' "recruits s"] in_swap_rowD [of c ra_id a' "recruits s"] old ok(4)
          unfolding accept(3) hired_ok_def own_staff_def by metis
      qed
    qed
    ultimately show ?thesis
      using ok a staff_step_hire [of s x s'] accept(1,2) by (simp add: people_ok_def buildings_cong [OF accept(1)])
  qed
qed

subsection \<open>Handlers that do one step\<close>

definition moves :: "db \<Rightarrow> (db, 'r) handler \<Rightarrow> bool" where
  "moves s h \<longleftrightarrow> people_step s (fst (h s))"

definition quiet_people :: "(db, 'r) handler \<Rightarrow> bool" where
  "quiet_people h \<longleftrightarrow> (\<forall>s. buildings (fst (h s)) = buildings s \<and> staffs (fst (h s)) = staffs s \<and>
    recruits (fst (h s)) = recruits s)"

named_theorems moves_intros \<open>rules that reduce a handler to its one step\<close>

lemma quiet_reads: "reads h \<Longrightarrow> quiet_people h"
  by (simp add: quiet_people_def reads_def)

lemmas quiet_basic [moves_intros] = quiet_reads [OF reads_reply] quiet_reads [OF reads_reject] quiet_reads [OF reads_read]

lemma quiet_audited [moves_intros]: "quiet_people (audit u a k)"
  by (simp add: quiet_people_def audit_def)

lemma quiet_and_then [moves_intros]: "quiet_people h \<Longrightarrow> (\<And>r. quiet_people (k r)) \<Longrightarrow> quiet_people (and_then h k)"
  by (auto simp: quiet_people_def and_then_def split: prod.splits sum.splits) (metis fst_conv)+

lemma moves_quiet: "quiet_people h \<Longrightarrow> moves s h"
  by (simp add: moves_def quiet_people_def people_step.same)

lemma moves_reject [moves_intros]: "moves s (reject e)"
  by (simp add: moves_def reject_def people_step.same)

lemma moves_unless: "(ok \<Longrightarrow> moves s h) \<Longrightarrow> moves s (unless ok e h)"
  by (simp add: unless_def moves_reject)

lemma moves_apply: "moves s h \<Longrightarrow> h s = g s \<Longrightarrow> moves s g"
  by (simp add: moves_def)

lemma people_step_target:
  assumes "people_step s s1" and "buildings s2 = buildings s1" and "staffs s2 = staffs s1" and "recruits s2 = recruits s1"
  shows "people_step s s2"
  using assms(1)
proof cases
  case same then show ?thesis using assms by (intro people_step.same) simp_all
next
  case (hire x) then show ?thesis using assms by (intro people_step.hire [of s2 s x]) simp_all
next
  case (amend y x) then show ?thesis using assms by (intro people_step.amend [of s2 s y x]) simp_all
next
  case (apply_for a) then show ?thesis using assms by (intro people_step.apply_for [of s2 s a]) simp_all
next
  case (revise a' a) then show ?thesis using assms by (intro people_step.revise [of s2 s a' a]) simp_all
next
  case (accept x a' a) then show ?thesis using assms by (intro people_step.accept [of s2 s x a' a]) simp_all
qed

lemma moves_then_quiet: "moves s h \<Longrightarrow> (\<And>r. quiet_people (k r)) \<Longrightarrow> moves s (and_then h k)"
  unfolding moves_def and_then_def quiet_people_def
  by (auto split: prod.splits sum.splits) (metis fst_conv people_step_target)

lemma moves_after_read:
  assumes "reads h" and "\<And>r. h s = (s, Inr r) \<Longrightarrow> moves s (k r)"
  shows "moves s (and_then h k)"
proof (cases "h s")
  case (Pair s1 x)
  then have "s1 = s" using readsD [OF assms(1)] by blast
  then show ?thesis using Pair assms(2) by (cases x) (auto simp: moves_def and_then_def people_step.same)
qed

lemma update_where_swap:
  assumes "distinct (map key rows)" and "r \<in> set rows" and "P r" and "\<And>x. P x \<Longrightarrow> key x = key r"
    and "key (f r) = key r"
  shows "update_where P f rows = swap_row key (f r) rows"
proof -
  have "(if P x then f x else x) = (if key x = key (f r) then f r else x)" if "x \<in> set rows" for x
    using unique_key [OF assms(1) that assms(2)] assms(3-5) by metis
  then show ?thesis by (simp add: update_where_def swap_row_def)
qed

lemma reads_resolve: "reads (resolveStaffCampus k c)"
  by (simp add: reads_def resolveStaffCampus_def reject_def reply_def split: option.split)

lemma reads_check_recruit: "reads (check_recruit body)"
  by (simp add: reads_def check_recruit_def reject_def reply_def unless_def split: option.split)

lemma find_building: "campus_building s k target = Some b \<Longrightarrow> b \<in> set (buildings s) \<and> b_id b = k \<and> b_campusId b = ca_id target"
  by (auto simp: campus_building_def find_Some_iff)

lemma truthy_given: "truthy x = Some k \<Longrightarrow> x = Some k \<and> k \<noteq> []"
  by (auto simp: truthy_def split: option.splits list.splits)

lemma truthy_absent: "truthy x = None \<longleftrightarrow> x = None \<or> x = Some []"
  by (auto simp: truthy_def split: option.splits list.splits)

lemma moves_insert_staff:
  assumes "s_id x \<notin> s_id ` set (staffs s)" and "staff_located s x" and "no_rival s x None"
  shows "moves s (insert_staff x)"
proof (cases "staffNo_taken s (s_staffNo x) \<or> \<not> building_known s (s_buildingId x)")
  case True
  then show ?thesis by (auto simp: moves_def insert_staff_def unless_def reject_def intro: people_step.same)
next
  case False
  then have "may_hire s x" using assms by (auto simp: may_hire_def staffNo_taken_def image_iff)
  then show ?thesis using False
    by (auto simp: moves_def insert_staff_def unless_def modify_def intro: people_step.hire)
qed

lemma createStaff_moves:
  assumes "people_ok s" and "newId \<notin> s_id ` set (staffs s)"
  shows "moves s (createStaff newId body operator campusId)"
proof -
  have step: "moves s (insert_staff (new_staff newId target name body))"
    if none: "check_new_staff s body = None"
      and name: "(case truthy (si_buildingId body) of None \<Rightarrow> Some (ca_name target)
        | Some k \<Rightarrow> map_option b_name (campus_building s k target)) = Some name" for target name
  proof (cases "building_known s (si_buildingId body)")
    case False
    then show ?thesis
      by (simp add: moves_def insert_staff_def unless_def reject_def new_staff_def people_step.same)
  next
    case True
    let ?x = "new_staff newId target name body"
    have no_empty: "si_buildingId body \<noteq> Some []"
      using True assms(1) by (force simp: building_known_def people_ok_def buildings_ok_def)
    have "staff_located s ?x"
      unfolding staff_located_def located_def
    proof (intro allI impI)
      fix k assume "s_buildingId ?x = Some k"
      then have "truthy (si_buildingId body) = Some k"
        using no_empty by (auto simp: new_staff_def truthy_def split: list.split)
      then show "\<exists>b \<in> set (buildings s). b_id b = k \<and> b_campusId b = s_campusId ?x"
        using name find_building [of s k target] by (auto simp: new_staff_def)
    qed
    moreover have "no_rival s ?x None"
      using none no_empty
      by (auto simp: no_rival_def new_staff_def check_new_staff_def truthy_def split: if_splits list.splits option.splits)
    ultimately show ?thesis using assms(2) by (intro moves_insert_staff) (simp_all add: new_staff_def)
  qed
  show ?thesis
    unfolding createStaff_def
  proof (rule moves_after_read [OF reads_resolve])
    fix target
    let ?name = "case truthy (si_buildingId body) of None \<Rightarrow> Some (ca_name target)
        | Some k \<Rightarrow> map_option b_name (campus_building s k target)"
    show "moves s (\<lambda>s. case check_new_staff s body of
         Some e \<Rightarrow> reject e s
       | None \<Rightarrow>
           (case (case truthy (si_buildingId body) of
                    None \<Rightarrow> Some (ca_name target)
                  | Some k \<Rightarrow> map_option b_name (campus_building s k target)) of
              None \<Rightarrow> reject (BadRequest ''no such building'') s
            | Some buildingName \<Rightarrow>
                and_then (insert_staff (new_staff newId target buildingName body))
                  (\<lambda>_. and_then (audit operator ''staff.create'' newId)
                  (\<lambda>_. reply (new_staff newId target buildingName body))) s))"
    proof (cases "check_new_staff s body")
      case (Some e)
      show ?thesis by (rule moves_apply [OF moves_reject [of s e]]) (simp add: Some)
    next
      case None
      note none = None
      show ?thesis
      proof (cases ?name)
        case None
        show ?thesis by (rule moves_apply [OF moves_reject [of s "BadRequest ''no such building''"]]) (simp add: none None)
      next
        case (Some name)
        show ?thesis
          by (rule moves_apply [OF moves_then_quiet [OF step [OF none Some],
                of "\<lambda>_. and_then (audit operator ''staff.create'' newId) (\<lambda>_. reply (new_staff newId target name body))"]])
            (auto simp: none Some intro!: moves_intros)
      qed
    qed
  qed
qed

lemma find_staff_some:
  "find_staff s k c = Some x \<Longrightarrow> x \<in> set (staffs s) \<and> s_id x = k \<and> s_status x \<noteq> ''deleted''"
  by (auto simp: find_staff_def find_Some_iff split: option.splits if_splits)

lemma moves_amend:
  assumes "people_ok s" and "may_amend s x (f x)"
  shows "moves s (claim_or staffs staffs_update (\<lambda>z. s_id z = s_id x \<and> s_campusId z = s_campusId x) f e)"
proof -
  have x: "x \<in> set (staffs s)" "s_id (f x) = s_id x" using assms(2) by (simp_all add: may_amend_def)
  have rows: "update_where (\<lambda>z. s_id z = s_id x \<and> s_campusId z = s_campusId x) f (staffs s) = swap_row s_id (f x) (staffs s)"
    by (rule update_where_swap) (use assms(1) x in \<open>auto simp: people_ok_def staff_ok_def\<close>)
  have "people_step s (staffs_update (update_where (\<lambda>z. s_id z = s_id x \<and> s_campusId z = s_campusId x) f) s)"
    by (rule people_step.amend [OF _ _ _ assms(2)]) (simp_all add: rows)
  then show ?thesis by (simp add: moves_def claim_or_def update_many_def)
qed

lemma deleteStaff_moves:
  assumes "people_ok s"
  shows "moves s (deleteStaff k operator campusId)"
proof (cases "find_staff s k campusId")
  case None
  show ?thesis by (rule moves_apply [OF moves_reject [of s "NotFound ''no such staff''"]]) (simp add: deleteStaff_def None)
next
  case (Some x)
  note x = find_staff_some [OF Some]
  have "may_amend s x (x\<lparr>s_status := ''deleted''\<rparr>)"
    using x assms unique_key [of s_staffNo "staffs s"]
    by (fastforce simp: may_amend_def people_ok_def staff_ok_def staff_located_def)
  from moves_amend [where f = "\<lambda>z. z\<lparr>s_status := ''deleted''\<rparr>", OF assms this] show ?thesis using x
    by (intro moves_apply [OF moves_then_quiet [of s _ "\<lambda>_. audit operator ''staff.delete'' k"]])
      (auto simp: deleteStaff_def Some quiet_audited)
qed

text \<open>An update keeps the numbers unique, puts a person into a building of the own campus only, and does
  not make a second manager.\<close>

lemma update_may_amend:
  assumes "people_ok s" and "x \<in> set (staffs s)" and "s_status x \<noteq> ''deleted''"
    and "\<not> update_clash s target x body" and "next_building s target x body = Some b"
    and "\<forall>no. sp_staffNo body = Some no \<longrightarrow> (\<forall>z \<in> set (staffs s). s_staffNo z = no \<longrightarrow> s_id z = s_id x)"
  shows "may_amend s x (updated_staff target x body b x)"
proof -
  let ?y = "updated_staff target x body b x"
  have here: "staff_located s x" and nos: "distinct (map s_staffNo (staffs s))"
    and named: "\<And>z. z \<in> set (buildings s) \<Longrightarrow> b_id z \<noteq> []"
    using assms(1,2) by (auto simp: people_ok_def staff_ok_def buildings_ok_def) (metis image_eqI)
  have campus: "s_campusId x = ca_id target" if "building_patch target x body = None"
    using that by (auto simp: building_patch_def split: if_splits)
  have y: "s_role ?y = given (sp_role body) (s_role x)" "s_buildingId ?y = fst b" "s_campusId ?y = ca_id target"
    "s_id ?y = s_id x" "s_staffNo ?y = given (sp_staffNo body) (s_staffNo x)"
    by (simp_all add: updated_staff_def)
  have "s_id z = s_id x" if "z \<in> set (staffs s)" "s_staffNo z = s_staffNo ?y" for z
  proof (cases "sp_staffNo body")
    case None
    then show ?thesis using unique_key [OF nos that(1) assms(2)] that(2) by (simp add: y given_def)
  next
    case (Some no)
    then show ?thesis using assms(6) that by (simp add: y given_def)
  qed
  moreover have loc: "staff_located s ?y"
    using assms(5) here campus find_building [of s _ target]
    by (auto simp: next_building_def staff_located_def located_def y split: option.splits if_splits) blast
  moreover have "no_rival s ?y (Some (s_id x)) \<or> s_role ?y = s_role x \<and> s_buildingId ?y = s_buildingId x"
  proof (cases "\<exists>k. fst b = Some k \<and> given (sp_role body) (s_role x) = BuildingManager")
    case False
    then show ?thesis by (auto simp: no_rival_def y)
  next
    case True
    then obtain k where k: "fst b = Some k" "given (sp_role body) (s_role x) = BuildingManager" by blast
    have "k \<noteq> []" using loc k named by (auto simp: staff_located_def located_def y)
    have patched: "given (building_patch target x body) (s_buildingId x) = Some k"
      using assms(5) k find_building [of s _ target]
      by (auto simp: next_building_def given_def unassign_def is_rider_def split: option.splits if_splits)
    show ?thesis
    proof (cases "sp_role body \<noteq> None \<or> building_patch target x body \<noteq> None")
      case True
      then have "Some k \<noteq> s_buildingId x \<or> given (sp_role body) (s_role x) \<noteq> s_role x \<Longrightarrow> \<not> manager_clash s k (Some (s_id x))"
        using assms(4) k patched \<open>k \<noteq> []\<close> by (auto simp: update_clash_def truthy_def split: list.splits)
      then show ?thesis using k by (auto simp: no_rival_def y)
    next
      case False
      then show ?thesis using patched k by (auto simp: y given_def)
    qed
  qed
  ultimately show ?thesis using assms(2,3) y by (auto simp: may_amend_def)
qed

lemma updateStaff_moves:
  assumes "people_ok s"
  shows "moves s (updateStaff k body operator campusId)"
proof (cases "find_staff s k campusId")
  case None
  show ?thesis by (rule moves_apply [OF moves_reject [of s "NotFound ''no such staff''"]]) (simp add: updateStaff_def None)
next
  case (Some x)
  note x = find_staff_some [OF Some]
  let ?unique = "\<forall>no. sp_staffNo body = Some no \<longrightarrow> (\<forall>z \<in> set (staffs s). s_staffNo z = no \<longrightarrow> s_id z = s_id x)"
  have store: "moves s (store_staff target x body b)"
    if "\<not> update_clash s target x body" "next_building s target x body = Some b" for target b
  proof (cases ?unique)
    case True
    from moves_amend [where f = "updated_staff target x body b", OF assms update_may_amend [OF assms _ _ that True]] x
    have "moves s (claim_or staffs staffs_update (\<lambda>z. s_id z = s_id x \<and> s_campusId z = s_campusId x)
        (updated_staff target x body b) (NotFound ''record to update''))" by blast
    then show ?thesis
      by (intro moves_apply [OF moves_then_quiet [of s _ "\<lambda>_. read (\<lambda>s. find_row s_id (s_id x) (staffs s))"]])
        (auto simp: store_staff_def True unless_def intro!: moves_intros)
  next
    case False
    then show ?thesis
      by (intro moves_apply [OF moves_reject [of s "InternalError ''unique constraint''"]]) (auto simp: store_staff_def unless_def)
  qed
  have rest: "moves s (\<lambda>s. unless (\<not> update_clash s target x body) (BadRequest ''the building has a manager'')
      (\<lambda>s. case next_building s target x body of
         None \<Rightarrow> reject (BadRequest ''no such building'') s
       | Some b \<Rightarrow> and_then (store_staff target x body b)
           (\<lambda>after. and_then (audit operator ''staff.update'' k) (\<lambda>_. reply after)) s) s)" for target
  proof (cases "update_clash s target x body \<or> next_building s target x body = None")
    case True
    then show ?thesis
      by (auto simp: moves_def unless_def reject_def split: option.split intro: people_step.same)
  next
    case False
    then obtain b where b: "next_building s target x body = Some b" by blast
    show ?thesis
      by (rule moves_apply [OF moves_then_quiet [OF store, of target b
            "\<lambda>after. and_then (audit operator ''staff.update'' k) (\<lambda>_. reply after)"]])
        (use False b in \<open>auto simp: unless_def intro!: moves_intros\<close>)
  qed
  have "moves s (unless (\<not> (\<exists>no. truthy (sp_staffNo body) = Some no \<and> no \<noteq> s_staffNo x \<and> staffNo_taken s no))
     (BadRequest ''the staff number exists'')
     (and_then (resolveStaffCampus (sp_campusId body) (s_campusId x)) (\<lambda>target s.
        unless (\<not> update_clash s target x body) (BadRequest ''the building has a manager'')
        (\<lambda>s. case next_building s target x body of
           None \<Rightarrow> reject (BadRequest ''no such building'') s
         | Some b \<Rightarrow> and_then (store_staff target x body b)
             (\<lambda>after. and_then (audit operator ''staff.update'' k) (\<lambda>_. reply after)) s) s)))"
    by (intro moves_unless moves_after_read [OF reads_resolve] rest)
  then show ?thesis by (rule moves_apply) (simp add: updateStaff_def Some)
qed

lemma find_application_some:
  "find_application s k c = Some a \<Longrightarrow> a \<in> set (recruits s) \<and> ra_id a = k"
  by (auto simp: find_application_def find_Some_iff)

lemma latest_application_some:
  "latest_application s u = Some a \<Longrightarrow> a \<in> set (recruits s) \<and> ra_userId a = u"
  by (auto simp: latest_application_def find_Some_iff) (metis diff_Suc_less length_rev nth_mem set_rev)

lemma check_recruit_ok:
  "check_recruit body s = (s', Inr b) \<Longrightarrow> s' = s \<and> located s (b_id b) (ri_campusId body)"
  by (auto simp: check_recruit_def unless_def reject_def reply_def located_def find_Some_iff
      split: if_splits option.splits)

lemma swap_application:
  assumes "people_ok s" and "a \<in> set (recruits s)" and "ra_id (f a) = ra_id a"
  shows "update_where (\<lambda>x. ra_id x = ra_id a) f (recruits s) = swap_row ra_id (f a) (recruits s)"
  by (rule update_where_swap) (use assms in \<open>auto simp: people_ok_def recruits_ok_def\<close>)

lemma moves_write:
  assumes "people_ok s" and "may_revise s a (f a)"
  shows "moves s (write_application (ra_id a) f)"
proof -
  have "people_step s (s\<lparr>recruits := update_where (\<lambda>x. ra_id x = ra_id a) f (recruits s)\<rparr>)"
    by (rule people_step.revise [OF _ _ _ assms(2)])
      (use assms swap_application [of s a f] in \<open>simp_all add: may_revise_def\<close>)
  then have "moves s (modify (\<lambda>s. s\<lparr>recruits := update_where (\<lambda>x. ra_id x = ra_id a) f (recruits s)\<rparr>))"
    by (simp add: moves_def modify_def)
  then show ?thesis unfolding write_application_def by (rule moves_then_quiet) (rule moves_intros)
qed

lemma recruitApply_moves:
  assumes "people_ok s" and "newId \<notin> ra_id ` set (recruits s)"
  shows "moves s (recruitApply newId userId body)"
proof (cases "active_application s userId")
  case (Some a)
  then show ?thesis by (simp add: moves_def recruitApply_def reject_def people_step.same)
next
  case None
  let ?store = "\<lambda>b. and_then (modify (\<lambda>s. s\<lparr>recruits := recruits s @ [new_application newId userId body b]\<rparr>))
    (\<lambda>_. reply (new_application newId userId body b))"
  have "moves s (and_then (check_recruit body) ?store)"
  proof (rule moves_after_read [OF reads_check_recruit])
    fix b assume b: "check_recruit body s = (s, Inr b)"
    have "may_apply s (new_application newId userId body b)"
      using None assms(2) check_recruit_ok [OF b]
      by (auto simp: may_apply_def new_application_def active_application_def find_None_iff OPEN_APPLICATIONS_def is_open_def)
    then have "people_step s (s\<lparr>recruits := recruits s @ [new_application newId userId body b]\<rparr>)"
      by (intro people_step.apply_for) auto
    then show "moves s (?store b)"
      by (intro moves_then_quiet) (auto simp: moves_def modify_def intro: moves_intros)
  qed
  then show ?thesis by (rule moves_apply) (simp add: recruitApply_def None)
qed

lemma recruitUpdate_moves:
  assumes "people_ok s"
  shows "moves s (recruitUpdate userId body)"
proof (cases "latest_application s userId")
  case None
  then show ?thesis by (simp add: moves_def recruitUpdate_def reject_def people_step.same)
next
  case (Some a)
  note a = latest_application_some [OF Some]
  let ?f = "\<lambda>b x. x\<lparr>ra_campusId := ri_campusId body, ra_buildingId := b_id b, ra_buildingName := b_name b,
    ra_name := trim (ri_name body), ra_phone := trim (ri_phone body), ra_note := note_text (ri_note body)\<rparr>"
  have "moves s (unless (ra_status a \<in> {''pending'', ''interviewing''}) (BadRequest ''cannot be changed now'')
      (and_then (check_recruit body) (\<lambda>b. write_application (ra_id a) (?f b))))"
  proof (intro moves_unless moves_after_read [OF reads_check_recruit])
    fix b assume b: "check_recruit body s = (s, Inr b)"
    have "may_revise s a (?f b a)" using a check_recruit_ok [OF b] by (simp add: may_revise_def)
    from moves_write [where f = "?f b", OF assms this] show "moves s (write_application (ra_id a) (?f b))" .
  qed
  then show ?thesis by (rule moves_apply) (simp add: recruitUpdate_def Some write_application_def)
qed

text \<open>The writes of the back office on one application.\<close>

lemma moves_office:
  assumes "people_ok s" and "find_application s k campusId = Some a" and "ok \<Longrightarrow> may_revise s a (f a)"
    and "\<And>r. quiet_people (g r)" and "h s = unless ok e (and_then (write_application k f) g) s"
  shows "moves s h"
proof -
  have k: "ra_id a = k" using find_application_some [OF assms(2)] by simp
  have "moves s (unless ok e (and_then (write_application k f) g))"
    by (intro moves_unless moves_then_quiet) (use moves_write [where f = f, OF assms(1,3)] k assms(4) in auto)
  then show ?thesis by (rule moves_apply) (simp add: assms(5))
qed

lemma application_located: "people_ok s \<Longrightarrow> find_application s k campusId = Some a \<Longrightarrow> a \<in> set (recruits s) \<and>
    located s (ra_buildingId a) (ra_campusId a)"
  using find_application_some [of s k campusId a] by (auto simp: people_ok_def recruits_ok_def)

lemma recruitTransition_moves:
  assumes "people_ok s"
  shows "moves s (recruitTransition k operator campusId)"
proof (cases "find_application s k campusId")
  case None
  then show ?thesis by (simp add: moves_def recruitTransition_def reject_def people_step.same)
next
  case (Some a)
  show ?thesis
    by (rule moves_office [OF assms Some, of "ra_status a = ''pending''" "\<lambda>x. x\<lparr>ra_status := ''interviewing''\<rparr>"])
      (use application_located [OF assms Some] in \<open>auto simp: may_revise_def recruitTransition_def Some intro!: moves_intros\<close>)
qed

lemma recruitReject_moves:
  assumes "people_ok s"
  shows "moves s (recruitReject now accs k reason operator campusId)"
proof (cases "find_application s k campusId")
  case None
  then show ?thesis by (simp add: moves_def recruitReject_def reject_def unless_def people_step.same)
next
  case (Some a)
  let ?f = "\<lambda>x. x\<lparr>ra_status := ''rejected'', ra_rejectReason := trim reason,
        ra_auditBy := operator, ra_auditByName := operator_name accs operator, ra_auditedAt := Some now\<rparr>"
  have "moves s (\<lambda>s. unless (ra_status a \<in> {''pending'', ''interviewing''}) (BadRequest ''the application is closed'')
     (recruit_reject_commit now accs k reason operator) s)"
    by (rule moves_office [OF assms Some, of "ra_status a \<in> {''pending'', ''interviewing''}" ?f])
      (use application_located [OF assms Some] in \<open>auto simp: may_revise_def recruit_reject_commit_def intro!: moves_intros\<close>)
  then show ?thesis by (auto simp: moves_def recruitReject_def Some unless_def reject_def intro: people_step.same)
qed

lemma updateRecruitApplication_moves:
  assumes "people_ok s"
  shows "moves s (updateRecruitApplication k no images remark operator campusId)"
proof (cases "find_application s k campusId")
  case None
  then show ?thesis by (simp add: moves_def updateRecruitApplication_def reject_def people_step.same)
next
  case (Some a)
  let ?f = "\<lambda>x. x\<lparr>ra_idCardNo := (case no of Some t \<Rightarrow> trim t | None \<Rightarrow> ra_idCardNo x),
     ra_idCardImages := (case images of Some t \<Rightarrow> Some t | None \<Rightarrow> ra_idCardImages x),
     ra_staffRemark := (case remark of Some t \<Rightarrow> trim t | None \<Rightarrow> ra_staffRemark x)\<rparr>"
  show ?thesis
    by (rule moves_office [OF assms Some, of True ?f])
      (use application_located [OF assms Some] in \<open>auto simp: may_revise_def unless_def updateRecruitApplication_def Some intro!: moves_intros\<close>)
qed

end
