(* ===== verification/People_Theorems.thy ===== *)
theory People_Theorems
  imports Staff_Theorems
begin

text \<open>
  What holds for the people of a campus after any sequence of requests: one formal manager per
  building, one application per candidate, a member of staff for every approval; what an approval
  does, and where the code falls short.
\<close>

subsection \<open>Approving an application\<close>

lemma insert_staff_ok: "insert_staff x s = (s1, Inr ()) \<longleftrightarrow>
    \<not> staffNo_taken s (s_staffNo x) \<and> building_known s (s_buildingId x) \<and> s1 = s\<lparr>staffs := staffs s @ [x]\<rparr>"
  by (auto simp: insert_staff_def unless_def modify_def reject_def)

definition approved_row :: "millis \<Rightarrow> account list \<Rightarrow> ident \<Rightarrow> string \<Rightarrow> recruit_application \<Rightarrow> recruit_application" where
  "approved_row now accs newId operator x = x\<lparr>ra_status := ''approved'', ra_staffId := Some newId,
     ra_auditBy := operator, ra_auditByName := operator_name accs operator, ra_auditedAt := Some now\<rparr>"

definition hired_state ::
  "millis \<Rightarrow> account list \<Rightarrow> ident \<Rightarrow> string \<Rightarrow> recruit_application \<Rightarrow> db \<Rightarrow> db" where
  "hired_state now accs newId operator a s =
    s\<lparr>staffs := staffs s @ [intern_of newId (next_intern_no s) a],
      recruits := update_where (\<lambda>x. ra_id x = ra_id a) (approved_row now accs newId operator) (recruits s)\<rparr>"

lemma approve_tx_cases:
  assumes "find_application s k c = Some a"
  shows "approve_tx now accs newId k operator c s =
    (if ra_status a = ''approved'' then (s, Inl (BadRequest ''approved already''))
     else if ra_status a = ''rejected'' then (s, Inl (BadRequest ''rejected already''))
     else if staffNo_taken s (next_intern_no s) then (s, Inl (InternalError ''unique constraint''))
     else if \<not> building_known s (Some (ra_buildingId a)) then (s, Inl (InternalError ''foreign key''))
     else (hired_state now accs newId operator a s,
       Inr (find_row ra_id k (recruits (hired_state now accs newId operator a s)), intern_of newId (next_intern_no s) a)))"
proof -
  have "ra_id a = k" using find_application_some [OF assms] by simp
  then show ?thesis
    by (simp add: approve_tx_def assms transaction_def unless_def reject_def and_then_def insert_staff_def intern_of_def
      modify_def write_application_def read_def reply_def hired_state_def approved_row_def [abs_def])
qed

lemma recruitApprove_moves:
  assumes "people_ok s" and "newId \<notin> s_id ` set (staffs s)"
  shows "moves s (recruitApprove now accs newId k operator campusId)"
  unfolding recruitApprove_def
proof (rule moves_then_quiet)
  show "moves s (approve_tx now accs newId k operator campusId)"
  proof (cases "find_application s k campusId")
    case None
    then show ?thesis by (simp add: moves_def approve_tx_def transaction_def reject_def people_step.same)
  next
    case (Some a)
    note cases = approve_tx_cases [OF Some, of now accs newId operator]
    have loc: "a \<in> set (recruits s)" "located s (ra_buildingId a) (ra_campusId a)"
      using application_located [OF assms(1) Some] by auto
    show ?thesis
    proof (cases "ra_status a \<in> {''approved'', ''rejected''} \<or> staffNo_taken s (next_intern_no s) \<or>
        \<not> building_known s (Some (ra_buildingId a))")
      case True
      then show ?thesis by (auto simp: moves_def cases people_step.same)
    next
      case False
      let ?x = "intern_of newId (next_intern_no s) a"
      have rows: "update_where (\<lambda>x. ra_id x = ra_id a) (approved_row now accs newId operator) (recruits s) =
          swap_row ra_id (approved_row now accs newId operator a) (recruits s)"
        by (rule swap_application [OF assms(1) loc(1)]) (simp add: approved_row_def)
      have "may_hire s ?x"
        using False assms(2) loc
        by (auto simp: may_hire_def intern_of_def staffNo_taken_def staff_located_def no_rival_def image_iff)
      then have "may_accept s a (approved_row now accs newId operator a) ?x"
        using False loc by (auto simp: may_accept_def approved_row_def intern_of_def)
      then have "people_step s (hired_state now accs newId operator a s)"
        by (intro people_step.accept) (auto simp: hired_state_def rows)
      then show ?thesis using False by (auto simp: moves_def cases)
    qed
  qed
qed (rule moves_intros | assumption)+

subsection \<open>Sequences of requests\<close>

text \<open>\<open>newId\<close> is the fresh identity the database gives to a new row.\<close>

inductive people_run :: "db \<Rightarrow> db \<Rightarrow> bool" where
  create: "newId \<notin> s_id ` set (staffs s) \<Longrightarrow> people_run s (fst (createStaff newId body operator campusId s))"
| update: "people_run s (fst (updateStaff k patch operator scope s))"
| delete: "people_run s (fst (deleteStaff k operator scope s))"
| applied: "newId \<notin> ra_id ` set (recruits s) \<Longrightarrow> people_run s (fst (recruitApply newId userId input s))"
| edited: "people_run s (fst (recruitUpdate userId input s))"
| noted: "people_run s (fst (updateRecruitApplication k no images remark operator campusId s))"
| called: "people_run s (fst (recruitTransition k operator campusId s))"
| refused: "people_run s (fst (recruitReject now accs k reason operator campusId s))"
| taken: "newId \<notin> s_id ` set (staffs s) \<Longrightarrow> people_run s (fst (recruitApprove now accs newId k operator campusId s))"

lemma people_run_step: "people_run s s' \<Longrightarrow> people_ok s \<Longrightarrow> people_step s s'"
proof (induction rule: people_run.induct)
  case (create newId s body operator campusId)
  then show ?case using createStaff_moves by (simp add: moves_def)
next
  case (update s k patch operator scope)
  then show ?case using updateStaff_moves by (simp add: moves_def)
next
  case (delete s k operator scope)
  then show ?case using deleteStaff_moves by (simp add: moves_def)
next
  case (applied newId s userId input)
  then show ?case using recruitApply_moves by (simp add: moves_def)
next
  case (edited s userId input)
  then show ?case using recruitUpdate_moves by (simp add: moves_def)
next
  case (noted s k no images remark operator campusId)
  then show ?case using updateRecruitApplication_moves by (simp add: moves_def)
next
  case (called s k operator campusId)
  then show ?case using recruitTransition_moves by (simp add: moves_def)
next
  case (refused s now accs k reason operator campusId)
  then show ?case using recruitReject_moves by (simp add: moves_def)
next
  case (taken newId s now accs k operator campusId)
  then show ?case using recruitApprove_moves by (simp add: moves_def)
qed

lemma people_runs_ok: "people_run\<^sup>*\<^sup>* s s' \<Longrightarrow> people_ok s \<Longrightarrow> people_ok s'"
  by (induction rule: rtranclp_induct) (auto intro: people_step_ok people_run_step)

subsection \<open>Staff numbers\<close>

text \<open>The value of a run of digits, and the order of texts.\<close>

primrec digits_value :: "string \<Rightarrow> int" where
  "digits_value [] = 0"
| "digits_value (c # cs) = digit_value c * 10 ^ length cs + digits_value cs"

lemma foldl_digits: "foldl (\<lambda>n c. 10 * n + digit_value c) n t = n * 10 ^ length t + digits_value t"
  by (induction t arbitrary: n) (simp_all add: algebra_simps)

lemma number_digits: "list_all is_digit t \<Longrightarrow> number_or_0 t = digits_value t"
  by (simp add: number_or_0_def foldl_digits)

lemma digits_bounds: "list_all is_digit t \<Longrightarrow> 0 \<le> digits_value t \<and> digits_value t < 10 ^ length t"
proof (induction t)
  case (Cons c t)
  then have "0 \<le> digit_value c" "digit_value c \<le> 9" "0 \<le> digits_value t" "digits_value t < 10 ^ length t"
    by (simp_all add: is_digit_def)
  moreover have "digit_value c * 10 ^ length t \<le> 9 * 10 ^ length t" using calculation(2) by simp
  ultimately have "digit_value c * 10 ^ length t + digits_value t < 10 * 10 ^ length t" by linarith
  then show ?case using \<open>0 \<le> digit_value c\<close> \<open>0 \<le> digits_value t\<close> by simp
qed simp

lemma char_digit_less: "c < d \<longleftrightarrow> digit_value c < digit_value d"
  by (simp add: less_char_def digit_value_def)

lemma char_digit_eq: "c = d \<longleftrightarrow> digit_value c = digit_value d"
  by (simp add: digit_value_def)

lemma digits_order:
  assumes "length t = length u" and "list_all is_digit t" and "list_all is_digit u"
  shows "t \<le> u \<longleftrightarrow> digits_value t \<le> digits_value u"
  using assms
proof (induction t u rule: list_induct2)
  case (Cons c t d u)
  let ?n = "10 ^ length u :: int"
  have b: "0 \<le> digits_value t" "digits_value t < ?n" "0 \<le> digits_value u" "digits_value u < ?n"
    using Cons digits_bounds [of t] digits_bounds [of u] by simp_all
  consider (less) "digit_value c < digit_value d" | (same) "digit_value c = digit_value d" | (more) "digit_value d < digit_value c"
    by linarith
  then show ?case
  proof cases
    case less
    then have "digit_value c * ?n + ?n \<le> digit_value d * ?n"
      using mult_right_mono [of "digit_value c + 1" "digit_value d" ?n] by (simp add: algebra_simps)
    then show ?thesis using b less Cons.hyps by (simp add: char_digit_less)
  next
    case same
    then have "c = d" by (simp add: char_digit_eq)
    then show ?thesis using Cons by simp
  next
    case more
    then have "digit_value d * ?n + ?n \<le> digit_value c * ?n"
      using mult_right_mono [of "digit_value d + 1" "digit_value c" ?n] by (simp add: algebra_simps)
    moreover have "\<not> c < d" "c \<noteq> d" using more by (auto simp: char_digit_less char_digit_eq)
    ultimately show ?thesis using b Cons.hyps by simp
  qed
qed simp

lemma digit_char: "k < 10 \<Longrightarrow> digit_value (char_of (48 + k)) = int k"
  by (simp add: digit_value_def)

declare decimal.simps [simp del]

lemma decimal_digits: "list_all is_digit (decimal n) \<and> digits_value (decimal n) = int n"
proof (induction n rule: decimal.induct)
  case (1 n)
  have app: "digits_value (t @ [c]) = 10 * digits_value t + digit_value c" for t c
    by (induction t) (simp_all add: algebra_simps)
  show ?case
  proof (cases "n < 10")
    case True
    then show ?thesis by (simp add: decimal.simps [of n] is_digit_def digit_char)
  next
    case False
    have "int n = 10 * int (n div 10) + int (n mod 10)" by presburger
    moreover have "n mod 10 < 10" by simp
    ultimately show ?thesis using 1 False by (simp add: decimal.simps [of n] app is_digit_def digit_char)
  qed
qed

lemma decimal_short: "n < 1000 \<Longrightarrow> length (decimal n) \<le> 3"
  by (subst decimal.simps, subst decimal.simps, subst decimal.simps) auto

lemma pad3_digits: "list_all is_digit (pad3 (decimal n)) \<and> digits_value (pad3 (decimal n)) = int n"
proof -
  have zero: "digits_value (replicate k (CHR ''0'') @ t) = digits_value t" for k t
    by (induction k) (simp_all add: digit_value_def)
  have "is_digit (CHR ''0'')" by (simp add: is_digit_def digit_value_def)
  then show ?thesis using decimal_digits [of n] zero by (auto simp: pad3_def list_all_iff)
qed

lemma length_pad3: "n < 1000 \<Longrightarrow> length (pad3 (decimal n)) = 3"
  using decimal_short [of n] by (simp add: pad3_def)

lemma prefix_order: "IBM_PREFIX @ t \<le> IBM_PREFIX @ u \<longleftrightarrow> t \<le> u"
  by (simp add: IBM_PREFIX_def)

definition intern_nos :: "db \<Rightarrow> string set" where
  "intern_nos s = {t \<in> s_staffNo ` set (staffs s). take 4 t = IBM_PREFIX}"

lemma last_intern_no_Max: "last_intern_no s = (if intern_nos s = {} then None else Some (Max (intern_nos s)))"
proof -
  have set: "set (filter (\<lambda>t. take 4 t = IBM_PREFIX) (map s_staffNo (staffs s))) = intern_nos s"
    by (auto simp: intern_nos_def)
  show ?thesis
  proof (cases "filter (\<lambda>t. take 4 t = IBM_PREFIX) (map s_staffNo (staffs s))")
    case Nil
    then show ?thesis using set by (simp add: last_intern_no_def)
  next
    case (Cons t ts)
    then have "intern_nos s = set (t # ts)" using set by simp
    then show ?thesis using Cons by (simp add: last_intern_no_def Max.set_eq_fold del: list.set)
  qed
qed

text \<open>As long as the numbers have three digits.\<close>

definition three_digits :: "db \<Rightarrow> bool" where
  "three_digits s \<longleftrightarrow> (\<forall>t \<in> intern_nos s. length t = 7 \<and> list_all is_digit (drop 4 t))"

lemma intern_no_form: "t \<in> intern_nos s \<Longrightarrow> t = IBM_PREFIX @ drop 4 t"
  by (auto simp: intern_nos_def) (metis append_take_drop_id)

lemma three_digits_order:
  assumes "three_digits s" and "t \<in> intern_nos s" and "u \<in> intern_nos s"
  shows "t \<le> u \<longleftrightarrow> digits_value (drop 4 t) \<le> digits_value (drop 4 u)"
  using assms digits_order [of "drop 4 t" "drop 4 u"] prefix_order [of "drop 4 t" "drop 4 u"]
    intern_no_form [of t s] intern_no_form [of u s] by (simp add: three_digits_def)

lemma next_intern_no_fresh:
  assumes "three_digits s"
  shows "\<not> staffNo_taken s (next_intern_no s)"
proof
  assume taken: "staffNo_taken s (next_intern_no s)"
  have "next_intern_no s \<in> intern_nos s"
    using taken by (force simp: staffNo_taken_def intern_nos_def next_intern_no_def IBM_PREFIX_def)
  moreover have fin: "finite (intern_nos s)" by (simp add: intern_nos_def)
  moreover define top where "top = Max (intern_nos s)"
  ultimately have top: "top \<in> intern_nos s" "next_intern_no s \<le> top"
    by (auto simp: top_def intro: Max_in Max_ge)
  have last: "last_intern_no s = Some top" using top(1) by (auto simp: last_intern_no_Max top_def)
  define n where "n = nat (digits_value (drop 4 top))"
  have digits: "list_all is_digit (drop 4 top)" "drop 4 top \<noteq> []" using assms top(1) by (auto simp: three_digits_def)
  then have "js_number (drop 4 top) = Some n" by (simp add: js_number_def number_digits n_def)
  then have next_no: "next_intern_no s = IBM_PREFIX @ pad3 (decimal (n + 1))" by (simp add: next_intern_no_def last)
  have "digits_value (drop 4 (next_intern_no s)) \<le> digits_value (drop 4 top)"
    using three_digits_order [OF assms \<open>next_intern_no s \<in> _\<close> top(1)] top(2) by simp
  moreover have "digits_value (drop 4 (next_intern_no s)) = int (n + 1)"
    using pad3_digits [of "n + 1"] by (simp add: next_no IBM_PREFIX_def)
  ultimately show False using digits_bounds [OF digits(1)] by (simp add: n_def)
qed

subsection \<open>The invariants\<close>

text \<open>C13. Whatever the back office does to its staff and to the applications, a building never has two formal
  managers in office, and a person who is bound to a building is bound to one of the own campus.\<close>

theorem one_manager_per_building:
  assumes "people_ok s" and "people_run\<^sup>*\<^sup>* s s'" and "x \<in> set (staffs s')" and "s_buildingId x = Some k"
  shows "(\<exists>b \<in> set (buildings s'). b_id b = k \<and> b_campusId b = s_campusId x) \<and>
    (s_role x = BuildingManager \<and> s_status x \<noteq> ''deleted'' \<longrightarrow>
      {y \<in> set (staffs s'). s_role y = BuildingManager \<and> s_status y \<noteq> ''deleted'' \<and> s_buildingId y = Some k} = {x})"
proof -
  have ok: "staff_ok s'" using people_runs_ok [OF assms(2,1)] by (simp add: people_ok_def)
  have "y = x" if "y \<in> set (staffs s')" "s_role y = BuildingManager" "s_status y \<noteq> ''deleted''" "s_buildingId y = Some k"
      "s_role x = BuildingManager" "s_status x \<noteq> ''deleted''" for y
    using ok that assms(3,4) unique_key [of s_id "staffs s'" y x] unfolding staff_ok_def managers_ok_def by blast
  moreover have "\<exists>b \<in> set (buildings s'). b_id b = k \<and> b_campusId b = s_campusId x"
    using ok assms(3,4) by (auto simp: staff_ok_def staff_located_def located_def)
  ultimately show ?thesis using assms(3,4) by auto
qed

text \<open>C14. A candidate has at most one application that is pending, in interview or approved, and every approved
  application has a member of staff of its own.\<close>

theorem one_application_per_user:
  assumes "people_ok s" and "people_run\<^sup>*\<^sup>* s s'" and "a \<in> set (recruits s')" and "is_open a"
  shows "{b \<in> set (recruits s'). ra_userId b = ra_userId a \<and> is_open b} = {a} \<and>
    (ra_status a = ''approved'' \<longrightarrow> (\<exists>x \<in> set (staffs s'). ra_staffId a = Some (s_id x) \<and>
      {b \<in> set (recruits s'). ra_status b = ''approved'' \<and> ra_staffId b = Some (s_id x)} = {a}))"
proof -
  have ok: "recruits_ok s'" "hired_ok s'" using people_runs_ok [OF assms(2,1)] by (simp_all add: people_ok_def)
  have same: "b = a" if "b \<in> set (recruits s')" "ra_id b = ra_id a" for b
    using ok(1) that assms(3) unique_key [of ra_id "recruits s'" b a] by (simp add: recruits_ok_def)
  have one: "b = a" if "b \<in> set (recruits s')" "ra_userId b = ra_userId a" "is_open b" for b
    using ok(1) that assms(3,4) same unfolding recruits_ok_def one_open_def by blast
  have own: "b = a" if "b \<in> set (recruits s')" "ra_status b = ''approved''" "ra_status a = ''approved''"
      "ra_staffId b = ra_staffId a" for b
    using ok(2) that assms(3) same unfolding hired_ok_def own_staff_def by blast
  show ?thesis
  proof (intro conjI impI)
    show "{b \<in> set (recruits s'). ra_userId b = ra_userId a \<and> is_open b} = {a}" using one assms(3,4) by blast
    assume approved: "ra_status a = ''approved''"
    then obtain x where x: "x \<in> set (staffs s')" "ra_staffId a = Some (s_id x)"
      using ok(2) assms(3) unfolding hired_ok_def by blast
    have "{b \<in> set (recruits s'). ra_status b = ''approved'' \<and> ra_staffId b = Some (s_id x)} = {a}"
      unfolding x(2) [symmetric] using own approved assms(3) by blast
    then show "\<exists>x \<in> set (staffs s'). ra_staffId a = Some (s_id x) \<and>
        {b \<in> set (recruits s'). ra_status b = ''approved'' \<and> ra_staffId b = Some (s_id x)} = {a}"
      using x by blast
  qed
qed

text \<open>C39. What an approval does: as long as the numbers of the interns have three digits, approving an open
  application succeeds; it adds exactly one intern manager with a number nobody has, at the campus and the
  building of the application, and closes the application with the name of that person.\<close>

theorem approval_hires:
  assumes "people_ok s" and "three_digits s" and "find_application s k campusId = Some a"
    and "ra_status a \<in> {''pending'', ''interviewing''}"
  shows "\<exists>s' a' x. recruitApprove now accs newId k operator campusId s = (s', Inr (Some a', x)) \<and>
    staffs s' = staffs s @ [x] \<and> s_id x = newId \<and> s_role x = InternBuildingManager \<and>
    s_campusId x = ra_campusId a \<and> s_buildingId x = Some (ra_buildingId a) \<and>
    s_staffNo x \<notin> s_staffNo ` set (staffs s) \<and>
    a' = a\<lparr>ra_status := ''approved'', ra_staffId := Some newId, ra_auditBy := operator,
      ra_auditByName := operator_name accs operator, ra_auditedAt := Some now\<rparr> \<and>
    recruits s' = update_where (\<lambda>b. ra_id b = k) (\<lambda>_. a') (recruits s)"
proof -
  note a = application_located [OF assms(1,3)]
  have k: "ra_id a = k" and d: "distinct (map ra_id (recruits s))"
    using find_application_some [OF assms(3)] assms(1) by (simp_all add: people_ok_def recruits_ok_def)
  have "building_known s (Some (ra_buildingId a))" using a by (auto simp: building_known_def located_def)
  moreover have fresh: "\<not> staffNo_taken s (next_intern_no s)" using assms(2) by (rule next_intern_no_fresh)
  moreover have "ra_status a \<noteq> ''approved''" "ra_status a \<noteq> ''rejected''" using assms(4) by auto
  ultimately have tx: "approve_tx now accs newId k operator campusId s = (hired_state now accs newId operator a s,
      Inr (find_row ra_id k (recruits (hired_state now accs newId operator a s)), intern_of newId (next_intern_no s) a))"
    by (simp add: approve_tx_cases [OF assms(3)])
  have same: "b = a" if "b \<in> set (recruits s)" "ra_id b = k" for b
    using unique_key [OF d that(1), of a] a that(2) k by simp
  let ?a' = "approved_row now accs newId operator a"
  have rows: "recruits (hired_state now accs newId operator a s) = update_where (\<lambda>b. ra_id b = k) (\<lambda>_. ?a') (recruits s)"
    using same by (auto simp: hired_state_def k update_where_def)
  have "find_row ra_id k (recruits s) = Some a" using find_row_unique [OF d, of a] a k by simp
  then have "find_row ra_id k (recruits (hired_state now accs newId operator a s)) = Some ?a'"
    by (simp add: hired_state_def k approved_row_def find_row_update_where)
  then show ?thesis
    using fresh rows
    by (simp add: recruitApprove_def and_then_def tx audit_def reply_def hired_state_def intern_of_def approved_row_def
      staffNo_taken_def image_iff) metis
qed

text \<open>The thousandth intern is the last one: when IBM-999 is in use, the next approval gives IBM-1000 out,
  and from then on every approval of an open application fails with an internal error and changes nothing,
  because the greatest number in the order of texts is still IBM-999.\<close>

theorem approvals_stop:
  assumes "three_digits s" and "''IBM-999'' \<in> s_staffNo ` set (staffs s)"
    and "approve_tx now accs newId k operator campusId s = (s1, Inr r)"
    and "s_staffNo ` set (staffs s2) = s_staffNo ` set (staffs s1)"
    and "find_application s2 k2 campus2 = Some a" and "ra_status a \<in> {''pending'', ''interviewing''}"
  shows "s_staffNo (snd r) = ''IBM-1000'' \<and>
    recruitApprove now2 accs2 newId2 k2 operator2 campus2 s2 = (s2, Inl (InternalError ''unique constraint''))"
proof -
  have top: "Max (intern_nos s) = ''IBM-999''"
  proof (rule Max_eqI)
    show nine: "''IBM-999'' \<in> intern_nos s" using assms(2) by (simp add: intern_nos_def IBM_PREFIX_def)
    fix t assume t: "t \<in> intern_nos s"
    have "digits_value (drop 4 t) < 10 ^ length (drop 4 t)"
      using assms(1) t digits_bounds [of "drop 4 t"] by (simp add: three_digits_def)
    moreover have "length (drop 4 t) = 3" using assms(1) t by (simp add: three_digits_def)
    moreover have "digits_value (drop 4 ''IBM-999'') = 999" by (simp add: digit_value_def)
    ultimately show "t \<le> ''IBM-999''" using three_digits_order [OF assms(1) t nine] by simp
  qed (simp add: intern_nos_def)
  have number: "next_intern_no t = ''IBM-1000''" if "intern_nos t \<noteq> {}" "Max (intern_nos t) = ''IBM-999''" for t
  proof -
    have "js_number ''999'' = Some 999" by code_simp
    moreover have "IBM_PREFIX @ pad3 (decimal (999 + 1)) = ''IBM-1000''" by code_simp
    ultimately show ?thesis using that by (simp add: next_intern_no_def last_intern_no_Max)
  qed
  obtain b where b: "find_application s k campusId = Some b"
    using assms(3) by (cases "find_application s k campusId") (simp_all add: approve_tx_def transaction_def reject_def)
  have nine: "''IBM-999'' \<in> intern_nos s" using assms(2) by (simp add: intern_nos_def IBM_PREFIX_def)
  then have new: "next_intern_no s = ''IBM-1000''" using top number [of s] by blast
  then have x: "snd r = intern_of newId ''IBM-1000'' b" and s1: "s1 = hired_state now accs newId operator b s"
    using assms(3) by (auto simp: approve_tx_cases [OF b] split: if_splits)
  have "intern_nos s2 = insert ''IBM-1000'' (intern_nos s)"
    unfolding intern_nos_def assms(4) s1 by (auto simp: hired_state_def new intern_of_def IBM_PREFIX_def)
  moreover have "Max (insert ''IBM-1000'' (intern_nos s)) = max ''IBM-1000'' (Max (intern_nos s))"
  proof (rule Max_insert)
    show "finite (intern_nos s)" by (simp add: intern_nos_def)
    show "intern_nos s \<noteq> {}" using nine by blast
  qed
  moreover have "max ''IBM-1000'' ''IBM-999'' = ''IBM-999''" by code_simp
  ultimately have "Max (intern_nos s2) = ''IBM-999''" and "''IBM-1000'' \<in> intern_nos s2" and "intern_nos s2 \<noteq> {}"
    using top by simp_all
  then have "next_intern_no s2 = ''IBM-1000''" and "staffNo_taken s2 ''IBM-1000''"
    using number [of s2] by (auto simp: intern_nos_def staffNo_taken_def)
  then have "approve_tx now2 accs2 newId2 k2 operator2 campus2 s2 = (s2, Inl (InternalError ''unique constraint''))"
    using assms(6) by (auto simp: approve_tx_cases [OF assms(5)])
  then show ?thesis using x by (simp add: recruitApprove_def and_then_def intern_of_def)
qed

subsection \<open>Overlapping requests and a forgotten case\<close>

text \<open>A rejection that read the application before it was approved still writes: the candidate is told that the
  application was rejected and may apply again, but the intern manager stays in office.\<close>

theorem late_rejection_keeps_intern:
  assumes "people_ok s" and "find_application s k campusId = Some a"
    and "ra_status a \<in> {''pending'', ''interviewing''}"
    and "recruitApprove now accs newId k operator campusId s = (s1, Inr r)"
  shows "\<exists>s2 a2. recruit_reject_commit now2 accs2 k reason operator2 s1 = (s2, Inr (Some a2)) \<and>
    ra_status a2 = ''rejected'' \<and> snd r \<in> set (staffs s2) \<and> s_status (snd r) = ''online'' \<and>
    active_application s2 (ra_userId a) = None"
proof -
  note a = application_located [OF assms(1,2)]
  have k: "ra_id a = k" and ok: "distinct (map ra_id (recruits s))" "one_open s"
    using find_application_some [OF assms(2)] assms(1) by (simp_all add: people_ok_def recruits_ok_def)
  obtain s0 where "approve_tx now accs newId k operator campusId s = (s0, Inr r)" and s1: "recruits s1 = recruits s0" "staffs s1 = staffs s0"
    using assms(4) by (auto simp: recruitApprove_def and_then_ok reply_def audit_def)
  then have s0: "s0 = hired_state now accs newId operator a s" and r: "snd r = intern_of newId (next_intern_no s) a"
    using assms(3) by (auto simp: approve_tx_cases [OF assms(2)] split: if_splits)
  define f where "f = (\<lambda>x :: recruit_application. x\<lparr>ra_status := ''rejected'', ra_rejectReason := trim reason, ra_auditBy := operator2,
    ra_auditByName := operator_name accs2 operator2, ra_auditedAt := Some now2\<rparr>)"
  have f: "ra_id (f x) = ra_id x" "ra_userId (f x) = ra_userId x" "ra_status (f x) = ''rejected''" for x
    by (simp_all add: f_def)
  define rows where "rows = update_where (\<lambda>x. ra_id x = k) f (recruits s1)"
  have keyed: "ra_id (approved_row now accs newId operator x) = ra_id x"
    "ra_userId (approved_row now accs newId operator x) = ra_userId x" for x by (simp_all add: approved_row_def)
  have "find_row ra_id k (recruits s) = Some a" using find_row_unique [OF ok(1), of a] a k by simp
  then have found: "find_row ra_id k rows = Some (f (approved_row now accs newId operator a))"
    by (simp add: rows_def s1 s0 hired_state_def find_row_update_where f keyed k)
  have "ra_status x \<notin> set OPEN_APPLICATIONS" if "x \<in> set rows" "ra_userId x = ra_userId a" for x
  proof (cases "ra_id x = k")
    case True
    then have "ra_status x = ''rejected''"
      using that(1) f by (auto simp: rows_def set_update_where split: if_splits)
    then show ?thesis by (simp add: OPEN_APPLICATIONS_def)
  next
    case False
    then have "x \<in> set (recruits s)"
      using that(1) f keyed k by (auto simp: rows_def set_update_where s1 s0 hired_state_def split: if_splits)
    moreover have "is_open a" using assms(3) by (auto simp: is_open_def)
    ultimately have "\<not> is_open x" using ok(2) a that(2) False k unfolding one_open_def by metis
    then show ?thesis by (auto simp: is_open_def OPEN_APPLICATIONS_def)
  qed
  then have "find (\<lambda>x. ra_userId x = ra_userId a \<and> ra_status x \<in> set OPEN_APPLICATIONS) rows = None"
    by (auto simp: find_None_iff)
  moreover have "snd r \<in> set (staffs s1)" by (simp add: s1 s0 hired_state_def r)
  ultimately show ?thesis using found f
    by (simp add: recruit_reject_commit_def write_application_def and_then_def modify_def read_def audit_def reply_def
      active_application_def flip: f_def rows_def) (simp add: r intern_of_def)
qed

text \<open>A manager who is made a rider keeps the building when the request names it: the branch that releases the
  building is overwritten by the one that binds it, although a rider must not be created with a building.\<close>

theorem rider_keeps_building:
  assumes "people_ok s" and "find_staff s k scope = Some x" and "s_buildingId x = Some b"
    and "find (\<lambda>c. ca_id c = s_campusId x \<and> ca_type c = ''campus'') (campuses s) = Some c"
  shows "\<exists>s' y. updateStaff k \<lparr>sp_name = None, sp_role = Some FulltimeRider, sp_staffNo = None, sp_phone = None,
      sp_buildingId = Some (Some b), sp_status = None, sp_campusId = None\<rparr> operator scope s = (s', Inr (Some y)) \<and>
    s_role y = FulltimeRider \<and> s_buildingId y = Some b"
proof -
  let ?body = "\<lparr>sp_name = None, sp_role = Some FulltimeRider, sp_staffNo = None, sp_phone = None,
      sp_buildingId = Some (Some b), sp_status = None, sp_campusId = None\<rparr>"
  note x = find_staff_some [OF assms(2)]
  have c: "ca_id c = s_campusId x" using assms(4) by (auto simp: find_Some_iff)
  have staff: "staff_ok s" using assms(1) by (simp add: people_ok_def)
  have row: "find_row s_id k (staffs s) = Some x"
    using find_row_unique [of s_id "staffs s" x] staff x by (simp add: staff_ok_def)
  have target: "resolveStaffCampus None (s_campusId x) s = (s, Inr c)"
    using assms(4) by (simp add: resolveStaffCampus_def truthy_def reply_def)
  have "staff_located s x" using staff x by (simp add: staff_ok_def)
  then obtain z where "campus_building s b c = Some z" and z: "b_id z = b"
    using assms(3) c by (cases "campus_building s b c")
      (auto simp: staff_located_def located_def campus_building_def find_None_iff find_Some_iff)
  then have next_b: "next_building s c x ?body = Some (Some b, b_name z)"
    by (simp add: next_building_def building_patch_def)
  have "\<not> update_clash s c x ?body" by (simp add: update_clash_def given_def)
  then show ?thesis
    using x row next_b
    by (simp add: updateStaff_def assms(2) unless_def and_then_def target store_staff_def claim_or_def update_many_def
      count_where_0 read_def audit_def reply_def find_row_update_where updated_staff_def given_def truthy_def)
      (metis)
qed

subsection \<open>Witnesses\<close>

definition application1 :: recruit_application where
  "application1 = \<lparr>ra_id = ''r1'', ra_userId = ''u1'', ra_campusId = ''ca1'', ra_buildingId = ''b1'',
     ra_buildingName = ''Building 1'', ra_name = ''Wang'', ra_phone = ''13900000000'', ra_note = [], ra_status = ''pending'',
     ra_rejectReason = [], ra_staffId = None, ra_auditBy = [], ra_auditByName = [], ra_auditedAt = None, ra_idCardNo = [],
     ra_idCardImages = None, ra_staffRemark = []\<rparr>"

definition application2 :: recruit_application where
  "application2 = application1\<lparr>ra_id := ''r2'', ra_userId := ''u2''\<rparr>"

definition people_db :: db where
  "people_db = db0\<lparr>recruits := [application1, application2]\<rparr>"

text \<open>The same people with the number IBM-999 in use.\<close>

definition full_db :: db where
  "full_db = people_db\<lparr>staffs := [rider1\<lparr>s_role := InternBuildingManager, s_staffNo := ''IBM-999''\<rparr>]\<rparr>"

lemma people_db_ok: "people_ok people_db" and full_db_ok: "three_digits full_db"
proof -
  have rows: "buildings people_db = [\<lparr>b_id = ''b1'', b_campusId = ''ca1'', b_name = ''Building 1'', b_status = ''active''\<rparr>]"
    "staffs people_db = [rider1, rider2, manager1]" "recruits people_db = [application1, application2]"
    by (simp_all add: people_db_def db0_def)
  have r: "is_open application1" "is_open application2" "known_status application1" "known_status application2"
    "ra_id application1 = ''r1''" "ra_id application2 = ''r2''" "ra_userId application1 = ''u1''"
    "ra_userId application2 = ''u2''" "ra_status application1 = ''pending''" "ra_status application2 = ''pending''"
    "ra_buildingId application1 = ''b1''" "ra_buildingId application2 = ''b1''"
    "ra_campusId application1 = ''ca1''" "ra_campusId application2 = ''ca1''"
    by (simp_all add: is_open_def known_status_def application1_def application2_def)
  show "people_ok people_db"
    unfolding people_ok_def
    by (intro conjI)
      (simp_all add: buildings_ok_def staff_ok_def managers_ok_def staff_located_def located_def recruits_ok_def one_open_def
        hired_ok_def own_staff_def rows r rider1_def rider2_def manager1_def)
  have "intern_nos full_db = {''IBM-999''}"
    by (auto simp: intern_nos_def full_db_def rider1_def IBM_PREFIX_def)
  then show "three_digits full_db" by (simp add: three_digits_def is_digit_def digit_value_def)
qed

theorem one_manager_per_building_witness:
  "{y \<in> set (staffs (fst (deleteStaff ''s1'' ''boss'' None people_db))).
     s_role y = BuildingManager \<and> s_status y \<noteq> ''deleted'' \<and> s_buildingId y = Some ''b1''} = {manager1}"
proof -
  let ?s = "fst (deleteStaff ''s1'' ''boss'' None people_db)"
  have "people_run\<^sup>*\<^sup>* people_db ?s" by (intro r_into_rtranclp people_run.delete)
  moreover have "manager1 \<in> set (staffs ?s)" by code_simp
  moreover have "s_buildingId manager1 = Some ''b1''" "s_role manager1 = BuildingManager" "s_status manager1 \<noteq> ''deleted''"
    by code_simp+
  ultimately show ?thesis using one_manager_per_building [OF people_db_ok] by blast
qed

theorem one_application_per_user_witness:
  "{b \<in> set (recruits (fst (recruitTransition ''r1'' ''boss'' ''ca1'' people_db))). ra_userId b = ''u1'' \<and> is_open b} =
   {application1\<lparr>ra_status := ''interviewing''\<rparr>}"
proof -
  let ?s = "fst (recruitTransition ''r1'' ''boss'' ''ca1'' people_db)" and ?a = "application1\<lparr>ra_status := ''interviewing''\<rparr>"
  have run: "people_run\<^sup>*\<^sup>* people_db ?s" by (intro r_into_rtranclp people_run.called)
  have "?a \<in> set (recruits ?s)" "is_open ?a" by code_simp+
  from one_application_per_user [OF people_db_ok run this] show ?thesis by (simp add: application1_def)
qed

theorem approval_hires_witness:
  "\<exists>s' x. recruitApprove 5 [] ''s9'' ''r1'' ''boss'' ''ca1'' people_db =
      (s', Inr (Some (application1\<lparr>ra_status := ''approved'', ra_staffId := Some ''s9'', ra_auditBy := ''boss'',
        ra_auditByName := [], ra_auditedAt := Some 5\<rparr>), x)) \<and>
    staffs s' = staffs people_db @ [x] \<and> s_role x = InternBuildingManager \<and> s_buildingId x = Some ''b1''"
proof -
  have "intern_nos people_db = {}"
    by (auto simp: intern_nos_def people_db_def db0_def rider1_def rider2_def manager1_def IBM_PREFIX_def)
  then have "three_digits people_db" by (simp add: three_digits_def)
  moreover have "find_application people_db ''r1'' ''ca1'' = Some application1" by code_simp
  moreover have "ra_status application1 \<in> {''pending'', ''interviewing''}" by code_simp
  ultimately obtain s' a' x where "recruitApprove 5 [] ''s9'' ''r1'' ''boss'' ''ca1'' people_db = (s', Inr (Some a', x))"
    "staffs s' = staffs people_db @ [x]" "s_role x = InternBuildingManager"
    "s_buildingId x = Some (ra_buildingId application1)"
    "a' = application1\<lparr>ra_status := ''approved'', ra_staffId := Some ''s9'', ra_auditBy := ''boss'',
        ra_auditByName := operator_name [] ''boss'', ra_auditedAt := Some 5\<rparr>"
    using approval_hires [OF people_db_ok, of "''r1''" "''ca1''" application1 5 "[]" "''s9''" "''boss''"] by blast
  then show ?thesis by (simp add: operator_name_def application1_def)
qed

theorem approvals_stop_witness:
  "\<exists>s1 r. approve_tx 5 [] ''s9'' ''r1'' ''boss'' ''ca1'' full_db = (s1, Inr r) \<and> s_staffNo (snd r) = ''IBM-1000'' \<and>
    recruitApprove 6 [] ''s10'' ''r2'' ''boss'' ''ca1'' s1 = (s1, Inl (InternalError ''unique constraint''))"
proof -
  let ?s1 = "hired_state 5 [] ''s9'' ''boss'' application1 full_db"
  have found: "find_application full_db ''r1'' ''ca1'' = Some application1" by code_simp
  have "ra_status application1 = ''pending''" "building_known full_db (Some (ra_buildingId application1))" by code_simp+
  then obtain r where tx: "approve_tx 5 [] ''s9'' ''r1'' ''boss'' ''ca1'' full_db = (?s1, Inr r)"
    using next_intern_no_fresh [OF full_db_ok] by (simp add: approve_tx_cases [OF found])
  have "''IBM-999'' \<in> s_staffNo ` set (staffs full_db)" by code_simp
  moreover have "find_application ?s1 ''r2'' ''ca1'' = Some application2"
    by (simp add: find_application_def hired_state_def full_db_def people_db_def application1_def application2_def approved_row_def)
  moreover have "ra_status application2 \<in> {''pending'', ''interviewing''}" by code_simp
  ultimately show ?thesis
    using approvals_stop [OF full_db_ok _ tx refl, of "''r2''" "''ca1''" application2 6 "[]" "''s10''" "''boss''"] tx by blast
qed

end
