(* ===== verification/Product_Admin.thy ===== *)
theory Product_Admin
  imports Supply Checkout Samples
begin

text \<open>
  The administration of products, from \<open>src/admin/admin.service.ts\<close>: \<open>createProduct\<close>, \<open>updateProduct\<close>,
  \<open>batchUpdateProductStatus\<close>, the featured products, and the categories (\<open>createCategory\<close>,
  \<open>updateCategory\<close>, \<open>deleteCategory\<close>, \<open>remapCategoryToCampus\<close>). The time stamps that only drive the badge
  for changed originals (\<open>sourceSyncedAt\<close>, \<open>updatedAt\<close>) are left out.
\<close>

interpretation products_tbl: row_table products products_update p_id
  by unfold_locales simp_all

interpretation categories_tbl: row_table categories categories_update cat_id
  by unfold_locales simp_all

definition patched :: "'a option \<Rightarrow> 'a \<Rightarrow> 'a" where
  "patched x y = (case x of Some v \<Rightarrow> v | None \<Rightarrow> y)"

subsection \<open>Categories\<close>

definition createCategory ::
  "ident \<Rightarrow> string \<Rightarrow> int option \<Rightarrow> string option \<Rightarrow> bool option \<Rightarrow> string \<Rightarrow> ident \<Rightarrow> (db, category) handler" where
  "createCategory newId name rank picture hidden operator campusId s =
    unless (\<not> (\<exists>c \<in> set (categories s). cat_name c = name \<and> cat_campusId c = campusId))
        (BadRequest ''the name of the category exists'')
      (let row = \<lparr>cat_id = newId, cat_campusId = campusId, cat_name = name, cat_sort = patched rank 0,
           cat_image = patched picture [], cat_hidden = patched hidden False\<rparr>
       in and_then (modify (\<lambda>s. s\<lparr>categories := categories s @ [row]\<rparr>))
          (\<lambda>_. and_then (audit operator ''category.create'' newId) (\<lambda>_. reply row))) s"

definition updateCategory ::
  "ident \<Rightarrow> string option \<Rightarrow> int option \<Rightarrow> string option \<Rightarrow> bool option \<Rightarrow> string \<Rightarrow> ident \<Rightarrow> (db, category option) handler" where
  "updateCategory k name rank picture hidden operator campusId s =
    (case find_row cat_id k (categories s) of
       None \<Rightarrow> reject (NotFound ''no such category'') s
     | Some found \<Rightarrow>
         unless (cat_campusId found = campusId) (NotFound ''no such category'')
         (unless (\<not> (\<exists>t. truthy name = Some t \<and> t \<noteq> cat_name found \<and>
             (\<exists>c \<in> set (categories s). cat_name c = t \<and> cat_campusId c = campusId \<and> cat_id c \<noteq> k)))
           (BadRequest ''the name of the category exists'')
         (and_then (modify (\<lambda>s. s\<lparr>categories := update_where (\<lambda>c. cat_id c = k)
             (\<lambda>c. c\<lparr>cat_name := patched name (cat_name c), cat_sort := patched rank (cat_sort c),
                cat_image := patched picture (cat_image c), cat_hidden := patched hidden (cat_hidden c)\<rparr>)
             (categories s)\<rparr>))
         (\<lambda>_. and_then (audit operator ''category.update'' k)
         (\<lambda>_. read (\<lambda>s. find_row cat_id k (categories s)))))) s)"

text \<open>Only the products of the own campus are counted; a product of another campus in the category makes the
  removal fail at the foreign key.\<close>

definition deleteCategory :: "ident \<Rightarrow> string \<Rightarrow> ident \<Rightarrow> (db, unit) handler" where
  "deleteCategory k operator campusId s =
    (case find_row cat_id k (categories s) of
       None \<Rightarrow> reject (NotFound ''no such category'') s
     | Some found \<Rightarrow>
         unless (cat_campusId found = campusId) (NotFound ''no such category'')
         (unless (\<not> (\<exists>p \<in> set (products s). p_categoryId p = k \<and> p_campusId p = campusId))
           (BadRequest ''the category has products'')
         (unless (\<not> (\<exists>p \<in> set (products s). p_categoryId p = k)) (InternalError ''foreign key'')
         (and_then (modify (\<lambda>s. s\<lparr>categories := delete_where (\<lambda>c. cat_id c = k) (categories s)\<rparr>))
           (\<lambda>_. audit operator ''category.delete'' k)))) s)"

text \<open>The category of the same name at the campus; it is made where it is missing. \<open>newId\<close> is the identity of
  a new one.\<close>

definition remapCategoryToCampus :: "ident \<Rightarrow> ident \<Rightarrow> ident \<Rightarrow> (db, ident) handler" where
  "remapCategoryToCampus newId officialCategoryId campusId s =
    (case find_row cat_id officialCategoryId (categories s) of
       None \<Rightarrow> reply officialCategoryId s
     | Some t \<Rightarrow>
         (case find (\<lambda>c. cat_campusId c = campusId \<and> cat_name c = cat_name t) (categories s) of
            Some c \<Rightarrow> reply (cat_id c) s
          | None \<Rightarrow>
              (s\<lparr>categories := categories s @ [\<lparr>cat_id = newId, cat_campusId = campusId, cat_name = cat_name t,
                 cat_sort = cat_sort t, cat_image = cat_image t, cat_hidden = False\<rparr>]\<rparr>, Inr newId)))"

subsection \<open>createProduct\<close>

text \<open>The body of the request; \<open>description\<close>, \<open>locationCode\<close> and \<open>purchaseLimit\<close> are accepted and not stored.\<close>

record product_input =
  pi_barcode :: "string option"
  pi_name :: string
  pi_subtitle :: "string option"
  pi_categoryId :: ident
  pi_price :: cents
  pi_originalPrice :: "cents option"
  pi_costPrice :: "cents option"
  pi_wholesalePrice :: "cents option"
  pi_localPurchasePrice :: "cents option"
  pi_stock :: int
  pi_tag :: "string option"
  pi_image :: "string option"
  pi_images :: "string list option"
  pi_weight :: "rat option"
  pi_location :: "string option"
  pi_locationCode :: "string option"
  pi_retailUnit :: "string option"
  pi_wholesaleUnit :: "string option"
  pi_unitsPerCase :: "int option"
  pi_description :: "string option"
  pi_purchaseLimit :: "string option"

definition unit_or_case :: "string option \<Rightarrow> string" where
  "unit_or_case x = patched (truthy (map_option trim x)) ''case''"

text \<open>What rows of every scope have in common.\<close>

definition input_row :: "ident \<Rightarrow> ident \<Rightarrow> product_input \<Rightarrow> product" where
  "input_row newId campusId body =
    \<lparr>p_id = newId, p_campusId = campusId, p_name = pi_name body, p_price = pi_price body,
     p_originalPrice = patched (pi_originalPrice body) (pi_price body), p_costPrice = 0, p_wholesalePrice = 0,
     p_procurementMode = None, p_localPurchasePrice = None, p_purchaseLimit = ''none'', p_purchaseLimitQty = 1,
     p_stock = pi_stock body, p_lockedStock = 0, p_sales = 0, p_weight = patched (pi_weight body) 0,
     p_status = ''off-sale'', p_unitsPerCase = patched (pi_unitsPerCase body) 1, p_sourceProductId = None,
     p_organizationId = None, p_barcode = pi_barcode body, p_catalogScope = ''campus'', p_orgCatalogId = None,
     p_supplyMode = None, p_categoryId = pi_categoryId body, p_subtitle = patched (pi_subtitle body) [],
     p_tag = patched (pi_tag body) ''new'', p_image = patched (pi_image body) [], p_images = pi_images body,
     p_description = None, p_location = patched (pi_location body) [], p_locationCode = [],
     p_retailUnit = trim (patched (pi_retailUnit body) []), p_wholesaleUnit = unit_or_case (pi_wholesaleUnit body),
     p_featured = False, p_featuredSort = 0\<rparr>"

definition created_product :: "ident \<Rightarrow> ident \<Rightarrow> product_input \<Rightarrow> product" where
  "created_product newId campusId body =
    (if campusId = OFFICIAL_CAMPUS_ID
     then (input_row newId campusId body)\<lparr>p_catalogScope := ''platform'', p_status := ''off-sale'',
       p_costPrice := patched (pi_costPrice body) 0,
       p_wholesalePrice := patched (pi_wholesalePrice body) (pi_price body), p_procurementMode := Some ''HQ''\<rparr>
     else (input_row newId campusId body)\<lparr>p_status := ''on-sale'', p_procurementMode := Some ''LOCAL'',
       p_localPurchasePrice := pi_localPurchasePrice body,
       p_wholesalePrice := patched (pi_wholesalePrice body) 0\<rparr>)"

definition barcode_used :: "db \<Rightarrow> ident \<Rightarrow> string option \<Rightarrow> bool" where
  "barcode_used s campusId code \<longleftrightarrow>
    code \<noteq> None \<and> (\<exists>p \<in> set (products s). p_barcode p = code \<and> p_campusId p = campusId)"

definition category_exists :: "db \<Rightarrow> ident \<Rightarrow> bool" where
  "category_exists s k \<longleftrightarrow> find_row cat_id k (categories s) \<noteq> None"

definition createProduct :: "ident \<Rightarrow> product_input \<Rightarrow> string \<Rightarrow> ident \<Rightarrow> (db, product) handler" where
  "createProduct newId body operator campusId s =
    unless (campusId = OFFICIAL_CAMPUS_ID \<or> pi_localPurchasePrice body \<noteq> None)
        (BadRequest ''a locally bought product needs its purchase price'')
    (unless (\<not> barcode_used s campusId (pi_barcode body)) (BadRequest ''the bar code exists'')
    (unless (category_exists s (pi_categoryId body)) (BadRequest ''no such category'')
    (and_then (modify (\<lambda>s. s\<lparr>products := products s @ [created_product newId campusId body]\<rparr>))
    (\<lambda>_. and_then (audit operator ''product.create'' newId)
    (\<lambda>_. reply (created_product newId campusId body)))))) s"

subsection \<open>updateProduct\<close>

text \<open>A field left out is \<open>None\<close>; the local purchase price may be an explicit \<open>null\<close>.\<close>

record product_patch =
  up_price :: "cents option"
  up_stock :: "int option"
  up_status :: "string option"
  up_costPrice :: "cents option"
  up_wholesalePrice :: "cents option"
  up_procurementMode :: "string option"
  up_localPurchasePrice :: "cents option option"
  up_name :: "string option"
  up_subtitle :: "string option"
  up_originalPrice :: "cents option"
  up_tag :: "string option"
  up_weight :: "rat option"
  up_categoryId :: "ident option"
  up_image :: "string option"
  up_images :: "string list option"
  up_location :: "string option"
  up_locationCode :: "string option"
  up_retailUnit :: "string option"
  up_wholesaleUnit :: "string option"
  up_unitsPerCase :: "int option"
  up_description :: "string option"
  up_purchaseLimit :: "string option"

definition apply_patch :: "product_patch \<Rightarrow> product \<Rightarrow> product" where
  "apply_patch d p =
    p\<lparr>p_price := patched (up_price d) (p_price p), p_stock := patched (up_stock d) (p_stock p),
      p_status := patched (up_status d) (p_status p), p_costPrice := patched (up_costPrice d) (p_costPrice p),
      p_wholesalePrice := patched (up_wholesalePrice d) (p_wholesalePrice p),
      p_procurementMode := (case up_procurementMode d of Some m \<Rightarrow> Some m | None \<Rightarrow> p_procurementMode p),
      p_localPurchasePrice := patched (up_localPurchasePrice d) (p_localPurchasePrice p),
      p_name := patched (up_name d) (p_name p), p_subtitle := patched (up_subtitle d) (p_subtitle p),
      p_originalPrice := patched (up_originalPrice d) (p_originalPrice p), p_tag := patched (up_tag d) (p_tag p),
      p_weight := patched (up_weight d) (p_weight p), p_categoryId := patched (up_categoryId d) (p_categoryId p),
      p_image := patched (up_image d) (p_image p),
      p_images := (case up_images d of Some x \<Rightarrow> Some x | None \<Rightarrow> p_images p),
      p_location := patched (up_location d) (p_location p),
      p_locationCode := patched (up_locationCode d) (p_locationCode p),
      p_retailUnit := patched (up_retailUnit d) (p_retailUnit p),
      p_wholesaleUnit := patched (up_wholesaleUnit d) (p_wholesaleUnit p),
      p_unitsPerCase := patched (up_unitsPerCase d) (p_unitsPerCase p),
      p_description := (case up_description d of Some x \<Rightarrow> Some x | None \<Rightarrow> p_description p),
      p_purchaseLimit := patched (up_purchaseLimit d) (p_purchaseLimit p)\<rparr>"

text \<open>What may be written: cost and wholesale price only in the official catalogue, the units not on an
  imported row.\<close>

definition writable :: "ident \<Rightarrow> product \<Rightarrow> product_patch \<Rightarrow> product_patch" where
  "writable campusId before body =
    (if campusId = OFFICIAL_CAMPUS_ID then body
     else if truthy (p_sourceProductId before) \<noteq> None
       then body\<lparr>up_costPrice := None, up_wholesalePrice := None, up_retailUnit := None, up_wholesaleUnit := None,
         up_unitsPerCase := None\<rparr>
     else body\<lparr>up_costPrice := None, up_wholesalePrice := None\<rparr>)"

definition find_editable :: "db \<Rightarrow> ident \<Rightarrow> ident \<Rightarrow> product option" where
  "find_editable s k campusId =
    find (\<lambda>p. p_id p = k \<and> p_campusId p = campusId \<and>
      (campusId = OFFICIAL_CAMPUS_ID \<longrightarrow> p_organizationId p = None)) (products s)"

definition switches :: "product \<Rightarrow> product_patch \<Rightarrow> bool" where
  "switches before body \<longleftrightarrow> up_procurementMode body \<noteq> None \<and> up_procurementMode body \<noteq> p_procurementMode before"

definition open_requests :: "db \<Rightarrow> product \<Rightarrow> ident \<Rightarrow> bool" where
  "open_requests s before campusId \<longleftrightarrow>
    (\<exists>q \<in> set (purchase_requests s). pq_productId q = p_id before \<and> pq_status q = ''pending'') \<or>
    (\<exists>o' \<in> set (restock_orders s). ro_campusId o' = campusId \<and> ro_status o' \<in> {Submitted, OrderConfirmed, Shipped} \<and>
      (\<exists>i \<in> set (ro_items o'). Some (rx_productId i) = p_sourceProductId before))"

definition check_switch :: "db \<Rightarrow> product \<Rightarrow> product_patch \<Rightarrow> ident \<Rightarrow> api_error option" where
  "check_switch s before body campusId =
    (if p_procurementMode before \<noteq> None \<and> 0 < p_stock before
       then Some (BadRequest ''there is stock left, the procurement cannot be switched'')
     else if up_procurementMode body = Some ''LOCAL'' \<and> up_localPurchasePrice body \<in> {None, Some None} \<and>
         p_localPurchasePrice before = None
       then Some (BadRequest ''a locally bought product needs its purchase price'')
     else if open_requests s before campusId
       then Some (BadRequest ''open purchases or orders, the procurement cannot be switched'')
     else None)"

definition check_update :: "db \<Rightarrow> product \<Rightarrow> product_patch \<Rightarrow> ident \<Rightarrow> api_error option" where
  "check_update s before body campusId =
    (if up_stock body \<noteq> None \<and> up_stock body \<noteq> Some (p_stock before)
       then Some (BadRequest ''the stock is changed in the warehouse only'')
     else case (if switches before body then check_switch s before body campusId else None) of
       Some e \<Rightarrow> Some e
     | None \<Rightarrow>
         if (case up_procurementMode body of Some m \<Rightarrow> Some m | None \<Rightarrow> p_procurementMode before) = Some ''LOCAL'' \<and>
             up_localPurchasePrice body = Some None
           then Some (BadRequest ''a locally bought product needs its purchase price'')
         else if (\<exists>t. up_name body = Some t \<and> trim t = []) then Some (BadRequest ''the name is empty'')
         else if (\<exists>c. up_categoryId body = Some c \<and> c \<noteq> p_categoryId before \<and> \<not> category_exists s c)
           then Some (BadRequest ''no such category'')
         else if (\<exists>n. up_unitsPerCase (writable campusId before body) = Some n \<and> n < 1)
           then Some (BadRequest ''a case holds at least one unit'')
         else None)"

definition trimmed_name :: "product_patch \<Rightarrow> product_patch" where
  "trimmed_name body = body\<lparr>up_name := map_option trim (up_name body)\<rparr>"

text \<open>The writes of the update, for the row that was read before. A switch of the procurement is conditional on
  the row as it was read and on an empty shelf.\<close>

definition update_commit :: "product \<Rightarrow> product_patch \<Rightarrow> string \<Rightarrow> ident \<Rightarrow> (db, product option) handler" where
  "update_commit before body operator campusId =
    (let d = writable campusId before (trimmed_name body)
     in and_then
          (if switches before body
           then claim_or products products_update
             (\<lambda>p. p_id p = p_id before \<and> p_procurementMode p = p_procurementMode before \<and>
               (p_procurementMode before \<noteq> None \<longrightarrow> p_stock p = 0 \<and> p_lockedStock p = 0))
             (apply_patch d) (BadRequest ''the stock or the procurement has changed'')
           else modify (\<lambda>s. s\<lparr>products := update_where (\<lambda>p. p_id p = p_id before) (apply_patch d) (products s)\<rparr>))
        (\<lambda>_. and_then (read (\<lambda>s. find_row p_id (p_id before) (products s)))
        (\<lambda>after. and_then
          (if campusId = OFFICIAL_CAMPUS_ID \<and> up_costPrice body \<noteq> None \<and> up_costPrice body \<noteq> Some (p_costPrice before)
           then modify (\<lambda>s. s\<lparr>products := update_where (\<lambda>p. p_sourceProductId p = Some (p_id before))
             (\<lambda>p. p\<lparr>p_costPrice := patched (up_costPrice body) 0\<rparr>) (products s)\<rparr>)
           else reply ())
        (\<lambda>_. and_then (audit operator ''product.update'' (p_id before))
        (\<lambda>_. and_then
          (if switches before body then audit operator ''product.procurement-switch'' (p_id before) else reply ())
        (\<lambda>_. reply after))))))"

definition updateProduct :: "ident \<Rightarrow> product_patch \<Rightarrow> string \<Rightarrow> ident \<Rightarrow> (db, product option) handler" where
  "updateProduct k body operator campusId s =
    (case find_editable s k campusId of
       None \<Rightarrow> reject (NotFound ''no such product'') s
     | Some before \<Rightarrow>
         (case check_update s before body campusId of
            Some e \<Rightarrow> reject e s
          | None \<Rightarrow> update_commit before body operator campusId s))"

subsection \<open>Many products at once\<close>

definition batchUpdateProductStatus :: "ident list \<Rightarrow> string \<Rightarrow> string \<Rightarrow> ident \<Rightarrow> (db, nat) handler" where
  "batchUpdateProductStatus ids status operator campusId s =
    (if ids = [] then reply 0 s
     else
       let here = (\<lambda>p. p_id p \<in> set ids \<and> p_campusId p = campusId \<and>
             (campusId = OFFICIAL_CAMPUS_ID \<longrightarrow> p_organizationId p = None))
       in and_then (modify (\<lambda>s. s\<lparr>products := update_where here (\<lambda>p. p\<lparr>p_status := status\<rparr>) (products s)\<rparr>))
          (\<lambda>_. and_then (audit operator ''product.batch-status'' ''batch'')
          (\<lambda>_. reply (count_where here (products s)))) s)"

text \<open>The featured products of a campus, in the order of the request.\<close>

definition feature_row :: "ident \<times> nat \<Rightarrow> product list \<Rightarrow> product list" where
  "feature_row kn = update_where (\<lambda>p. p_id p = fst kn)
    (\<lambda>p. p\<lparr>p_featured := True, p_featuredSort := int (snd kn) + 1\<rparr>)"

definition saveFeatured :: "ident list \<Rightarrow> ident \<Rightarrow> (db, nat) handler" where
  "saveFeatured ids campusId s =
    (let valid = filter (\<lambda>k. \<exists>p \<in> set (products s). p_id p = k \<and> p_campusId p = campusId) ids
     in and_then (modify (\<lambda>s. s\<lparr>products := fold feature_row (zip valid [0..<length valid])
          (update_where (\<lambda>p. p_campusId p = campusId \<and> p_featured p)
            (\<lambda>p. p\<lparr>p_featured := False, p_featuredSort := 0\<rparr>) (products s))\<rparr>))
        (\<lambda>_. reply (length valid)) s)"

end
