(* ===== verification/Product_Import.thy ===== *)
theory Product_Import
  imports Product_Admin
begin

text \<open>
  Products that come from a catalogue above, from \<open>src/admin/admin.service.ts\<close>: the import of official
  products into a campus (\<open>importProducts\<close>, \<open>pullUpstream\<close>) and the catalogue of an organisation
  (\<open>createOrgProduct\<close>, \<open>updateOrgProduct\<close>, \<open>importOrgProduct\<close>). A chain of rows leads from a campus to its
  organisation (\<open>orgCatalogId\<close>) or to the platform (\<open>sourceProductId\<close>).
\<close>

subsection \<open>importProducts\<close>

text \<open>The row a campus gets; an organisation's row fills \<open>orgCatalogId\<close>, an official one \<open>sourceProductId\<close>.\<close>

definition imported_row :: "ident \<Rightarrow> ident \<Rightarrow> ident \<Rightarrow> product \<Rightarrow> product" where
  "imported_row newId campusId categoryId p =
    \<lparr>p_id = newId, p_campusId = campusId, p_name = p_name p, p_price = p_price p,
     p_originalPrice = p_originalPrice p, p_costPrice = p_costPrice p, p_wholesalePrice = p_price p,
     p_procurementMode = Some ''HQ'', p_localPurchasePrice = None, p_purchaseLimit = ''none'',
     p_purchaseLimitQty = 1, p_stock = 0, p_lockedStock = 0, p_sales = 0, p_weight = p_weight p,
     p_status = ''off-sale'', p_unitsPerCase = p_unitsPerCase p, p_sourceProductId = None, p_organizationId = None,
     p_barcode = p_barcode p, p_catalogScope = ''campus'', p_orgCatalogId = None, p_supplyMode = None,
     p_categoryId = categoryId, p_subtitle = p_subtitle p, p_tag = p_tag p, p_image = p_image p,
     p_images = p_images p, p_description = p_description p, p_location = [], p_locationCode = [],
     p_retailUnit = p_retailUnit p, p_wholesaleUnit = p_wholesaleUnit p, p_featured = False, p_featuredSort = 0\<rparr>"

definition importable :: "db \<Rightarrow> ident list \<Rightarrow> ident \<Rightarrow> product option" where
  "importable s productIds k =
    find (\<lambda>p. p_id p = k \<and> k \<in> set productIds \<and> p_campusId p = OFFICIAL_CAMPUS_ID \<and>
      p_catalogScope p = ''platform'' \<and> p_status p = ''on-sale'') (products s)"

text \<open>The loop keeps the sources and bar codes the campus has, the rows it made, and why it left out others.\<close>

record import_run =
  im_sources :: "ident set"
  im_barcodes :: "string set"
  im_imported :: "ident list"
  im_skipped :: "(ident \<times> msg) list"

definition skip :: "ident \<Rightarrow> msg \<Rightarrow> import_run \<Rightarrow> (db, import_run) handler" where
  "skip k why run = reply (run\<lparr>im_skipped := im_skipped run @ [(k, why)]\<rparr>)"

definition note_import :: "ident \<Rightarrow> product \<Rightarrow> import_run \<Rightarrow> import_run" where
  "note_import newId official run =
    run\<lparr>im_sources := insert (p_id official) (im_sources run),
      im_barcodes := (case truthy (p_barcode official) of Some b \<Rightarrow> insert b (im_barcodes run) | None \<Rightarrow> im_barcodes run),
      im_imported := im_imported run @ [newId]\<rparr>"

definition import_one ::
  "(ident \<Rightarrow> product option) \<Rightarrow> ident \<Rightarrow> string \<Rightarrow> ident \<times> ident \<times> ident \<Rightarrow> import_run \<Rightarrow> (db, import_run) handler" where
  "import_one officials campusId operator = (\<lambda>(newId, newCategory, k) run.
    case officials k of
      None \<Rightarrow> skip k ''not in the official catalogue'' run
    | Some official \<Rightarrow>
        if p_id official \<in> im_sources run then skip k ''imported already'' run
        else if (\<exists>b. truthy (p_barcode official) = Some b \<and> b \<in> im_barcodes run)
        then skip k ''the bar code is in use'' run
        else
          and_then (remapCategoryToCampus newCategory (p_categoryId official) campusId) (\<lambda>cat.
          and_then (modify (\<lambda>s. s\<lparr>products := products s @
            [(imported_row newId campusId cat official)\<lparr>p_sourceProductId := Some (p_id official)\<rparr>]\<rparr>)) (\<lambda>_.
          and_then (audit operator ''product.import'' newId) (\<lambda>_. reply (note_import newId official run)))))"

primrec import_all ::
  "(ident \<Rightarrow> product option) \<Rightarrow> ident \<Rightarrow> string \<Rightarrow> (ident \<times> ident \<times> ident) list \<Rightarrow> import_run \<Rightarrow> (db, import_run) handler" where
  "import_all officials campusId operator [] run = reply run"
| "import_all officials campusId operator (x # xs) run =
    and_then (import_one officials campusId operator x run) (import_all officials campusId operator xs)"

definition campus_sources :: "db \<Rightarrow> ident \<Rightarrow> ident set" where
  "campus_sources s campusId =
    {k. k \<noteq> [] \<and> (\<exists>p \<in> set (products s). p_campusId p = campusId \<and> p_sourceProductId p = Some k)}"

definition campus_barcodes :: "db \<Rightarrow> ident \<Rightarrow> string set" where
  "campus_barcodes s campusId =
    {b. b \<noteq> [] \<and> (\<exists>p \<in> set (products s). p_campusId p = campusId \<and> p_barcode p = Some b)}"

definition start_run :: "db \<Rightarrow> ident \<Rightarrow> import_run" where
  "start_run s campusId = \<lparr>im_sources = campus_sources s campusId, im_barcodes = campus_barcodes s campusId,
     im_imported = [], im_skipped = []\<rparr>"

text \<open>\<open>ids\<close> gives the identities of the new rows: even numbers to products, odd ones to categories.\<close>

definition import_jobs :: "(nat \<Rightarrow> ident) \<Rightarrow> ident list \<Rightarrow> (ident \<times> ident \<times> ident) list" where
  "import_jobs ids ks = map (\<lambda>(n, k). (ids (2 * n), ids (2 * n + 1), k)) (enumerate 0 ks)"

definition importProducts :: "(nat \<Rightarrow> ident) \<Rightarrow> ident list \<Rightarrow> string \<Rightarrow> ident \<Rightarrow> (db, import_run) handler" where
  "importProducts ids productIds operator campusId s =
    unless (campusId \<noteq> OFFICIAL_CAMPUS_ID) (BadRequest ''the platform is not a target of an import'')
      (import_all (importable s productIds) campusId operator (import_jobs ids productIds) (start_run s campusId)) s"

subsection \<open>pullUpstream\<close>

definition pulled_row :: "product \<Rightarrow> product \<Rightarrow> product" where
  "pulled_row official p =
    p\<lparr>p_name := p_name official, p_subtitle := p_subtitle official, p_originalPrice := p_originalPrice official,
      p_wholesalePrice := p_price official, p_costPrice := p_costPrice official, p_tag := p_tag official,
      p_image := p_image official, p_images := (case p_images official of Some x \<Rightarrow> Some x | None \<Rightarrow> p_images p),
      p_description := p_description official, p_categoryId := p_categoryId official, p_weight := p_weight official,
      p_retailUnit := p_retailUnit official, p_wholesaleUnit := p_wholesaleUnit official,
      p_unitsPerCase := p_unitsPerCase official\<rparr>"

definition pullUpstream :: "ident \<Rightarrow> string \<Rightarrow> ident \<Rightarrow> (db, product option) handler" where
  "pullUpstream k operator campusId s =
    (case find (\<lambda>p. p_id p = k \<and> p_campusId p = campusId) (products s) of
       None \<Rightarrow> reject (NotFound ''no such product'') s
     | Some local \<Rightarrow>
         (case truthy (p_sourceProductId local) of
            None \<Rightarrow> reject (BadRequest ''the product has no original'') s
          | Some source \<Rightarrow>
              (case find (\<lambda>p. p_id p = source \<and> p_campusId p = OFFICIAL_CAMPUS_ID) (products s) of
                 None \<Rightarrow> reject (BadRequest ''the original has been removed'') s
               | Some official \<Rightarrow>
                   and_then (modify (\<lambda>s. s\<lparr>products := update_where (\<lambda>p. p_id p = k) (pulled_row official) (products s)\<rparr>))
                   (\<lambda>_. and_then (audit operator ''product.pull-upstream'' k)
                   (\<lambda>_. read (\<lambda>s. find_row p_id k (products s)))) s)))"

subsection \<open>The catalogue of an organisation\<close>

definition assertOrganization :: "ident \<Rightarrow> (db, unit) handler" where
  "assertOrganization k s =
    unless (\<exists>g \<in> set (organizations s). g_id g = k) (BadRequest (''no such organisation: '' @ k)) (reply ()) s"

definition org_row :: "ident \<Rightarrow> ident \<Rightarrow> string \<Rightarrow> product_input \<Rightarrow> product" where
  "org_row newId organizationId supplyMode body =
    (input_row newId OFFICIAL_CAMPUS_ID body)\<lparr>p_catalogScope := ''org'', p_organizationId := Some organizationId,
      p_supplyMode := Some supplyMode, p_costPrice := patched (pi_costPrice body) 0,
      p_wholesalePrice := patched (pi_wholesalePrice body) 0, p_stock := 0,
      p_purchaseLimit := patched (pi_purchaseLimit body) ''none'', p_status := ''off-sale''\<rparr>"

definition createOrgProduct ::
  "ident \<Rightarrow> product_input \<Rightarrow> string option \<Rightarrow> string \<Rightarrow> ident \<Rightarrow> (db, product) handler" where
  "createOrgProduct newId body mode operator organizationId =
    and_then (assertOrganization organizationId) (\<lambda>_ s.
      let supplyMode = patched mode ''platform'';
          row = org_row newId organizationId supplyMode body
      in unless (supplyMode = ''local'' \<longrightarrow> pi_costPrice body \<noteq> None)
           (BadRequest ''a product bought by the organisation needs its cost price'')
         (unless (\<not> barcode_used s OFFICIAL_CAMPUS_ID (pi_barcode body)) (BadRequest ''the bar code exists'')
         (unless (category_exists s (pi_categoryId body)) (BadRequest ''no such category'')
         (and_then (modify (\<lambda>s. s\<lparr>products := products s @ [row]\<rparr>))
         (\<lambda>_. and_then (audit operator ''product.create'' newId) (\<lambda>_. reply row))))) s)"

definition find_org_product :: "db \<Rightarrow> ident \<Rightarrow> ident \<Rightarrow> product option" where
  "find_org_product s k organizationId =
    find (\<lambda>p. p_id p = k \<and> p_organizationId p = Some organizationId \<and> p_catalogScope p = ''org'') (products s)"

text \<open>The fields an organisation may write: neither stock nor the procurement of a campus.\<close>

definition org_patch :: "product_patch \<Rightarrow> product_patch" where
  "org_patch body = body\<lparr>up_stock := None, up_procurementMode := None, up_localPurchasePrice := None\<rparr>"

definition updateOrgProduct ::
  "ident \<Rightarrow> product_patch \<Rightarrow> string option \<Rightarrow> string \<Rightarrow> ident \<Rightarrow> (db, product option) handler" where
  "updateOrgProduct k body mode operator organizationId s =
    (case find_org_product s k organizationId of
       None \<Rightarrow> reject (NotFound ''no such product'') s
     | Some before \<Rightarrow>
         unless (\<not> (mode \<noteq> None \<and> mode \<noteq> Some (patched (p_supplyMode before) ''platform'') \<and> mode = Some ''local'' \<and>
             up_costPrice body = None))
           (BadRequest ''a product bought by the organisation needs its cost price'')
         (unless (\<not> (\<exists>t. up_name body = Some t \<and> trim t = [])) (BadRequest ''the name is empty'')
         (unless (\<not> (\<exists>c. up_categoryId body = Some c \<and> c \<noteq> p_categoryId before \<and> \<not> category_exists s c))
           (BadRequest ''no such category'')
         (unless (\<not> (\<exists>n. up_unitsPerCase body = Some n \<and> n < 1)) (BadRequest ''a case holds at least one unit'')
         (and_then (modify (\<lambda>s. s\<lparr>products := update_where (\<lambda>p. p_id p = k)
             (\<lambda>p. (apply_patch (org_patch (trimmed_name body)) p)\<lparr>p_supplyMode :=
               (case mode of Some m \<Rightarrow> Some m | None \<Rightarrow> p_supplyMode p)\<rparr>) (products s)\<rparr>))
         (\<lambda>_. and_then (audit operator ''product.update'' k)
         (\<lambda>_. read (\<lambda>s. find_row p_id k (products s)))))))) s)"

text \<open>The reply: whether a row was made, why not, and the row of the campus.\<close>

type_synonym org_import = "bool \<times> msg \<times> ident option"

definition import_org_row :: "ident \<Rightarrow> ident \<Rightarrow> product \<Rightarrow> ident \<Rightarrow> string \<Rightarrow> (db, org_import) handler" where
  "import_org_row newId newCategory org campusId operator =
    and_then (remapCategoryToCampus newCategory (p_categoryId org) campusId) (\<lambda>cat.
    and_then (modify (\<lambda>s. s\<lparr>products := products s @
      [(imported_row newId campusId cat org)\<lparr>p_orgCatalogId := Some (p_id org)\<rparr>]\<rparr>)) (\<lambda>_.
    and_then (audit operator ''product.import'' newId) (\<lambda>_. reply (True, [], Some newId))))"

definition importOrgProduct ::
  "ident \<Rightarrow> ident \<Rightarrow> ident \<Rightarrow> ident \<Rightarrow> string \<Rightarrow> ident \<Rightarrow> (db, org_import) handler" where
  "importOrgProduct newId newCategory k campusId operator organizationId =
    and_then (assertOrganization organizationId) (\<lambda>_ s.
      (case find_row ca_id campusId (campuses s) of
         None \<Rightarrow> reject (BadRequest ''no such campus'') s
       | Some c \<Rightarrow>
           unless (ca_organizationId c = Some organizationId) (Forbidden ''the campus is not of the organisation'')
           (\<lambda>s. case find_org_product s k organizationId of
              None \<Rightarrow> reject (NotFound ''no such product'') s
            | Some org \<Rightarrow>
                unless (p_status org = ''on-sale'') (BadRequest ''only a released product can be imported'')
                (case find (\<lambda>p. p_campusId p = campusId \<and> p_orgCatalogId p = Some k) (products s) of
                   Some there \<Rightarrow> reply (False, ''imported already'', Some (p_id there))
                 | None \<Rightarrow>
                     if truthy (p_barcode org) \<noteq> None \<and>
                       (\<exists>p \<in> set (products s). p_campusId p = campusId \<and> p_barcode p = p_barcode org)
                     then reply (False, ''the bar code is in use'', None)
                     else import_org_row newId newCategory org campusId operator) s) s))"

end
