(* ===== verification/Promotion_Admin.thy ===== *)
theory Promotion_Admin
  imports Checkout Coupon_Admin Samples
begin

text \<open>
  The administration of promotions, from \<open>src/admin/admin.service.ts\<close>: \<open>assertPromotionWindowFree\<close>,
  \<open>createPromotion\<close> and \<open>updatePromotion\<close>, and what follows for the prices of \<open>Catalog\<close>. A date of a
  request is \<open>None\<close> when it is not a valid date; the comparisons of the code are false for it.
\<close>

interpretation promotions_tbl: row_table promotions promotions_update pm_id
  by unfold_locales simp_all

subsection \<open>The operations\<close>

definition later :: "millis option \<Rightarrow> millis option \<Rightarrow> bool" where
  "later a b = (case (a, b) of (Some x, Some y) \<Rightarrow> y < x | _ \<Rightarrow> False)"

definition assertPromotionWindowFree ::
  "ident \<Rightarrow> millis \<Rightarrow> millis \<Rightarrow> ident option \<Rightarrow> (db, unit) handler" where
  "assertPromotionWindowFree productId startsAt endsAt selfId s =
    unless (\<not> (\<exists>r \<in> set (promotions s). pm_productId r = productId \<and> pm_status r = ''active'' \<and>
        (case truthy selfId of None \<Rightarrow> True | Some k \<Rightarrow> pm_id r \<noteq> k) \<and> pm_startsAt r < endsAt \<and> startsAt < pm_endsAt r))
      (BadRequest ''another promotion of the product is active in this time'') (reply ()) s"

definition create_promotion_row ::
  "millis \<Rightarrow> ident \<Rightarrow> ident \<Rightarrow> string \<Rightarrow> cents \<Rightarrow> millis \<Rightarrow> millis \<Rightarrow> promotion" where
  "create_promotion_row now newId productId kind price startsAt endsAt =
    \<lparr>pm_id = newId, pm_productId = productId, pm_type = kind, pm_price = price, pm_startsAt = startsAt,
     pm_endsAt = endsAt, pm_status = ''active'', pm_createdAt = now\<rparr>"

definition createPromotion ::
  "millis \<Rightarrow> ident \<Rightarrow> ident \<Rightarrow> string \<Rightarrow> cents \<Rightarrow> millis option \<Rightarrow> millis option \<Rightarrow> string \<Rightarrow> ident \<Rightarrow> (db, promotion) handler" where
  "createPromotion now newId productId kind price startsAt endsAt operator campusId s =
    (case find (\<lambda>p. p_id p = productId \<and> p_campusId p = campusId) (products s) of
       None \<Rightarrow> reject (BadRequest ''the product is not on sale'') s
     | Some p \<Rightarrow>
         unless (p_status p = ''on-sale'') (BadRequest ''the product is not on sale'')
         (case (startsAt, endsAt) of
            (Some a, Some b) \<Rightarrow>
              unless (a < b) (BadRequest ''the end is not after the start'')
              (unless (now < b) (BadRequest ''the end is not in the future'')
              (unless (price < p_price p) (BadRequest ''the price is not below the price of the product'')
              (and_then (assertPromotionWindowFree productId a b None) (\<lambda>_.
               and_then (modify (\<lambda>s. s\<lparr>promotions := promotions s @
                 [create_promotion_row now newId productId kind price a b]\<rparr>)) (\<lambda>_.
               and_then (audit operator ''promotion.create'' newId) (\<lambda>_.
               reply (create_promotion_row now newId productId kind price a b)))))))
          | _ \<Rightarrow> reject (BadRequest ''the end is not after the start'')) s)"

text \<open>A request to change: a field left out is \<open>None\<close>.\<close>

record promotion_patch =
  pp_price :: "cents option"
  pp_startsAt :: "millis option option"
  pp_endsAt :: "millis option option"
  pp_status :: "string option"

definition or_old :: "'a option \<Rightarrow> 'a \<Rightarrow> 'a" where
  "or_old x y = (case x of Some v \<Rightarrow> v | None \<Rightarrow> y)"

definition find_campus_promotion :: "db \<Rightarrow> ident \<Rightarrow> ident \<Rightarrow> (promotion \<times> product) option" where
  "find_campus_promotion s k campusId =
    (case find_row pm_id k (promotions s) of
       None \<Rightarrow> None
     | Some r \<Rightarrow>
         (case find_row p_id (pm_productId r) (products s) of
            Some p \<Rightarrow> if p_campusId p = campusId then Some (r, p) else None
          | None \<Rightarrow> None))"

definition patch_promotion :: "promotion_patch \<Rightarrow> millis \<Rightarrow> millis \<Rightarrow> promotion \<Rightarrow> promotion" where
  "patch_promotion body a b x =
    x\<lparr>pm_price := or_old (pp_price body) (pm_price x),
      pm_startsAt := (if pp_startsAt body \<noteq> None then a else pm_startsAt x),
      pm_endsAt := (if pp_endsAt body \<noteq> None then b else pm_endsAt x),
      pm_status := or_old (pp_status body) (pm_status x)\<rparr>"

definition updatePromotion ::
  "millis \<Rightarrow> ident \<Rightarrow> promotion_patch \<Rightarrow> string \<Rightarrow> ident \<Rightarrow> (db, promotion option) handler" where
  "updatePromotion now k body operator campusId s =
    (case find_campus_promotion s k campusId of
       None \<Rightarrow> reject (NotFound ''no such promotion'') s
     | Some (found, p) \<Rightarrow>
         let a = or_old (pp_startsAt body) (Some (pm_startsAt found));
             b = or_old (pp_endsAt body) (Some (pm_endsAt found));
             moved = (pp_startsAt body \<noteq> None \<or> pp_endsAt body \<noteq> None)
         in unless (now < pm_endsAt found) (BadRequest ''an ended promotion cannot be changed'')
            (unless (moved \<longrightarrow> later b a) (BadRequest ''the end is not after the start'')
            (unless (moved \<longrightarrow> later b (Some now)) (BadRequest ''the end is not in the future'')
            (unless (pp_price body \<noteq> None \<longrightarrow> or_old (pp_price body) 0 < p_price p)
              (BadRequest ''the price is not below the price of the product'')
            (and_then
              (if pp_status body = Some ''active'' \<or> moved
               then assertPromotionWindowFree (pm_productId found) (or_old a 0) (or_old b 0) (Some k) else reply ())
            (\<lambda>_. and_then
              (modify (\<lambda>s. s\<lparr>promotions := update_where (\<lambda>x. pm_id x = k)
                 (patch_promotion body (or_old a 0) (or_old b 0)) (promotions s)\<rparr>))
            (\<lambda>_. and_then (audit operator ''promotion.update'' k)
            (\<lambda>_. read (\<lambda>s. find_row pm_id k (promotions s))))))))) s)"

subsection \<open>Windows never overlap\<close>

definition overlap :: "promotion \<Rightarrow> promotion \<Rightarrow> bool" where
  "overlap p q \<longleftrightarrow> pm_productId p = pm_productId q \<and> pm_status p = ''active'' \<and> pm_status q = ''active'' \<and>
    pm_startsAt p < pm_endsAt q \<and> pm_startsAt q < pm_endsAt p"

definition apart :: "promotion list \<Rightarrow> bool" where
  "apart rows \<longleftrightarrow> (\<forall>p \<in> set rows. \<forall>q \<in> set rows. overlap p q \<longrightarrow> pm_id p = pm_id q)"

definition windows_ok :: "db \<Rightarrow> bool" where
  "windows_ok s \<longleftrightarrow> distinct (map pm_id (promotions s)) \<and> apart (promotions s)"

lemma overlap_sym: "overlap p q \<longleftrightarrow> overlap q p"
  by (auto simp: overlap_def)

lemma windows_append:
  assumes "windows_ok s" and "pm_id r \<notin> pm_id ` set (promotions s)" and "\<And>q. q \<in> set (promotions s) \<Longrightarrow> \<not> overlap q r"
    and "promotions s' = promotions s @ [r]"
  shows "windows_ok s'"
proof -
  have "apart (promotions s')"
    unfolding apart_def assms(4) using assms(1,3) overlap_sym unfolding windows_ok_def apart_def
    by (metis Un_iff empty_iff insert_iff list.set(1) list.set(2) set_append)
  then show ?thesis using assms(1,2,4) by (simp add: windows_ok_def)
qed

lemma windows_update:
  assumes "windows_ok s" and "found \<in> set (promotions s)" and "\<And>x. pm_id (f x) = pm_id x"
    and "\<And>q. q \<in> set (promotions s) \<Longrightarrow> pm_id q \<noteq> pm_id found \<Longrightarrow> \<not> overlap q (f found)"
    and "promotions s' = update_where (\<lambda>x. pm_id x = pm_id found) f (promotions s)"
  shows "windows_ok s'"
proof -
  have d: "distinct (map pm_id (promotions s))" and ap: "apart (promotions s)" using assms(1) by (simp_all add: windows_ok_def)
  have row: "p = f found \<or> p \<in> set (promotions s) \<and> pm_id p \<noteq> pm_id found" if "p \<in> set (promotions s')" for p
    using that unique_key [OF d _ assms(2)] by (auto simp: assms(5) set_update_where)
  have "apart (promotions s')"
    unfolding apart_def
  proof (intro ballI impI)
    fix p q assume "p \<in> set (promotions s')" "q \<in> set (promotions s')" "overlap p q"
    then show "pm_id p = pm_id q"
      using row [of p] row [of q] assms(4) overlap_sym ap unfolding apart_def by metis
  qed
  moreover have "distinct (map pm_id (promotions s'))"
    using d map_key_update_where [of pm_id f] assms(3) by (simp add: assms(5))
  ultimately show ?thesis by (simp add: windows_ok_def)
qed

lemma audit_windows: "windows_ok (fst (audit u a k s)) = windows_ok s"
  by (simp add: windows_ok_def audit_def)

lemma window_free_ok: "assertPromotionWindowFree pid a b self s = (s', r) \<Longrightarrow> s' = s \<and>
    (r = Inr () \<longrightarrow> (\<forall>q \<in> set (promotions s). pm_productId q = pid \<longrightarrow> pm_status q = ''active'' \<longrightarrow>
      (\<forall>k. self = Some k \<longrightarrow> pm_id q \<noteq> k) \<longrightarrow> \<not> (pm_startsAt q < b \<and> a < pm_endsAt q)))"
  by (auto simp: assertPromotionWindowFree_def unless_def reject_def reply_def truthy_def split: if_splits option.splits list.splits)

lemma createPromotion_windows:
  assumes "windows_ok s" and "newId \<notin> pm_id ` set (promotions s)"
  shows "windows_ok (fst (createPromotion now newId productId kind price startsAt endsAt operator campusId s))"
proof (cases "createPromotion now newId productId kind price startsAt endsAt operator campusId s")
  case (Pair s' r)
  consider "promotions s' = promotions s"
    | a b where "promotions s' = promotions s @ [create_promotion_row now newId productId kind price a b]"
      "assertPromotionWindowFree productId a b None s = (s, Inr ())"
    using Pair
    by (auto simp: createPromotion_def and_then_def unless_def reject_def reply_def modify_def audit_def
        split: option.splits if_splits prod.splits sum.splits dest: window_free_ok)
      (blast dest: window_free_ok)+
  then show ?thesis
  proof cases
    case 1
    then show ?thesis using assms(1) Pair by (simp add: windows_ok_def)
  next
    case 2
    have "windows_ok s'"
      by (rule windows_append [OF assms(1) _ _ 2(1)])
        (use assms(2) window_free_ok [OF 2(2)] in \<open>auto simp: create_promotion_row_def overlap_def\<close>)
    then show ?thesis using Pair by simp
  qed
qed

lemma find_campus_promotion_some:
  "find_campus_promotion s k c = Some (r, p) \<Longrightarrow> r \<in> set (promotions s) \<and> pm_id r = k"
  by (auto simp: find_campus_promotion_def dest: find_row_SomeD split: option.splits if_splits)

lemma updatePromotion_windows:
  assumes "windows_ok s"
  shows "windows_ok (fst (updatePromotion now k body operator campusId s))"
proof (cases "find_campus_promotion s k campusId")
  case None
  then show ?thesis using assms by (simp add: updatePromotion_def reject_def)
next
  case (Some fp)
  obtain found p where fp: "fp = (found, p)" by force
  note f = find_campus_promotion_some [OF Some [unfolded fp]]
  define a where "a = or_old (pp_startsAt body) (Some (pm_startsAt found))"
  define b where "b = or_old (pp_endsAt body) (Some (pm_endsAt found))"
  define moved where "moved \<longleftrightarrow> pp_startsAt body \<noteq> None \<or> pp_endsAt body \<noteq> None"
  let ?rows = "update_where (\<lambda>x. pm_id x = k) (patch_promotion body (or_old a 0) (or_old b 0)) (promotions s)"
  let ?check = "if pp_status body = Some ''active'' \<or> moved
    then assertPromotionWindowFree (pm_productId found) (or_old a 0) (or_old b 0) (Some k) else reply ()"
  obtain s' r where run: "updatePromotion now k body operator campusId s = (s', r)" by force
  obtain t c where tc: "?check s = (t, c)" by force
  then have "t = s" using window_free_ok by (auto simp: reply_def split: if_splits)
  with tc have check: "?check s = (s, c)" by simp
  have body: "updatePromotion now k body operator campusId s =
      unless (now < pm_endsAt found) (BadRequest ''an ended promotion cannot be changed'')
      (unless (moved \<longrightarrow> later b a) (BadRequest ''the end is not after the start'')
      (unless (moved \<longrightarrow> later b (Some now)) (BadRequest ''the end is not in the future'')
      (unless (pp_price body \<noteq> None \<longrightarrow> or_old (pp_price body) 0 < p_price p)
         (BadRequest ''the price is not below the price of the product'')
      (and_then ?check (\<lambda>_. and_then (modify (\<lambda>s. s\<lparr>promotions := update_where (\<lambda>x. pm_id x = k)
                 (patch_promotion body (or_old a 0) (or_old b 0)) (promotions s)\<rparr>))
            (\<lambda>_. and_then (audit operator ''promotion.update'' k)
            (\<lambda>_. read (\<lambda>s. find_row pm_id k (promotions s))))))))) s"
    by (simp only: updatePromotion_def Some fp a_def b_def moved_def Let_def option.case prod.case)
  have "promotions (fst (and_then ?check (\<lambda>_. and_then (modify (\<lambda>s. s\<lparr>promotions := update_where (\<lambda>x. pm_id x = k)
                 (patch_promotion body (or_old a 0) (or_old b 0)) (promotions s)\<rparr>))
            (\<lambda>_. and_then (audit operator ''promotion.update'' k)
            (\<lambda>_. read (\<lambda>s. find_row pm_id k (promotions s))))) s)) = (if c = Inr () then ?rows else promotions s)"
    by (cases c) (simp_all add: and_then_def [of ?check] check, simp add: and_then_def modify_def audit_def read_def)
  then consider "promotions s' = promotions s" | "promotions s' = ?rows" "c = Inr ()"
    using run unfolding body by (auto simp: unless_def reject_def split: if_splits)
  then show ?thesis
  proof cases
    case 1
    then show ?thesis using assms run by (simp add: windows_ok_def)
  next
    case 2
    let ?y = "patch_promotion body (or_old a 0) (or_old b 0) found"
    have y: "pm_startsAt ?y = or_old a 0" "pm_endsAt ?y = or_old b 0" "pm_productId ?y = pm_productId found"
      "pm_status ?y = or_old (pp_status body) (pm_status found)"
      by (auto simp: patch_promotion_def a_def b_def or_old_def split: option.splits)
    have "\<not> overlap q ?y" if "q \<in> set (promotions s)" "pm_id q \<noteq> pm_id found" for q
    proof (cases "pp_status body = Some ''active'' \<or> moved")
      case True
      then have "assertPromotionWindowFree (pm_productId found) (or_old a 0) (or_old b 0) (Some k) s = (s, Inr ())"
        using check 2(2) by simp
      then show ?thesis using window_free_ok that f by (fastforce simp: overlap_def y)
    next
      case False
      then have "or_old a 0 = pm_startsAt found" "or_old b 0 = pm_endsAt found"
        by (simp_all add: moved_def a_def b_def or_old_def)
      moreover have "\<not> overlap q found" using assms that f unfolding windows_ok_def apart_def by blast
      moreover have "pm_status ?y = ''active'' \<Longrightarrow> pm_status found = ''active''"
        using False unfolding y(4) by (simp add: or_old_def split: option.splits)
      ultimately show ?thesis unfolding overlap_def using y(1-3) by metis
    qed
    then have "windows_ok s'"
      using windows_update [OF assms, of found "patch_promotion body (or_old a 0) (or_old b 0)" s'] f 2(1)
      by (simp add: patch_promotion_def)
    then show ?thesis using run by simp
  qed
qed

inductive promo_run :: "db \<Rightarrow> db \<Rightarrow> bool" where
  created: "newId \<notin> pm_id ` set (promotions s) \<Longrightarrow>
    promo_run s (fst (createPromotion now newId productId kind price startsAt endsAt operator campusId s))"
| changed: "promo_run s (fst (updatePromotion now k patch operator campusId s))"

lemma promo_runs_windows: "promo_run\<^sup>*\<^sup>* s s' \<Longrightarrow> windows_ok s \<Longrightarrow> windows_ok s'"
  by (induction rule: rtranclp_induct)
    (auto elim!: promo_run.cases intro: createPromotion_windows updatePromotion_windows)

lemma live_promotion_only:
  assumes "windows_ok s" and "r \<in> set (promotions s)" and "promo_live now r"
    and "q \<in> set (promotions s)" and "pm_productId q = pm_productId r" and "promo_live now q"
  shows "q = r"
proof -
  have "overlap q r" using assms(3,5,6) by (auto simp: overlap_def promo_live_def)
  then have "pm_id q = pm_id r" using assms(1,2,4) unfolding windows_ok_def apart_def by blast
  then show ?thesis using assms(1) unique_key [of pm_id "promotions s" q r] assms(2,4) by (simp add: windows_ok_def)
qed

lemma live_promotion_found:
  assumes "windows_ok s" and "r \<in> set (promotions s)" and "promo_live now r"
  shows "promotionMap s [pm_productId r] now False (pm_productId r) = Some r"
proof -
  have "promotionMap s [pm_productId r] now False (pm_productId r) \<noteq> None"
    using assms(2,3) by (auto simp: promotionMap_def first_of_product_None)
  then obtain q where q: "promotionMap s [pm_productId r] now False (pm_productId r) = Some q" by blast
  from first_of_product_spec [OF q [unfolded promotionMap_def]] have "q = r"
    using live_promotion_only [OF assms] by auto
  with q show ?thesis by simp
qed



end
