(* ===== verification/Product_Theorems.thy ===== *)
theory Product_Theorems
  imports Product_Import Promotion_Admin
begin

text \<open>
  What the administration of products keeps true. \<open>cat_step\<close> is its abstract specification: a row is edited
  within \<open>row_edit\<close>, or one row is added that does not clash with a row of its campus.
\<close>

subsection \<open>The abstract specification\<close>

text \<open>An edit keeps what belongs to the warehouse and to the identity of a row, and changes the way a product is
  procured only when nothing of it is left.\<close>

definition row_edit :: "product \<Rightarrow> product \<Rightarrow> bool" where
  "row_edit p q \<longleftrightarrow> p_id q = p_id p \<and> p_campusId q = p_campusId p \<and> p_stock q = p_stock p \<and>
    p_lockedStock q = p_lockedStock p \<and> p_sales q = p_sales p \<and> p_barcode q = p_barcode p \<and>
    p_sourceProductId q = p_sourceProductId p \<and> p_orgCatalogId q = p_orgCatalogId p \<and>
    p_organizationId q = p_organizationId p \<and> p_catalogScope q = p_catalogScope p \<and>
    (p_procurementMode q = p_procurementMode p \<or> p_procurementMode p = None \<or> p_stock p = 0 \<and> p_lockedStock p = 0)"

lemma row_edit_refl [simp]: "row_edit p p"
  by (simp add: row_edit_def)

lemma row_edit_trans: "row_edit p q \<Longrightarrow> row_edit q r \<Longrightarrow> row_edit p r"
  unfolding row_edit_def by metis

text \<open>Two rows of a campus that stand for the same thing.\<close>

definition shares_key :: "product \<Rightarrow> product \<Rightarrow> bool" where
  "shares_key p q \<longleftrightarrow> p_campusId p = p_campusId q \<and>
    ((\<exists>b. p_barcode p = Some b \<and> p_barcode q = Some b \<and> b \<noteq> []) \<or>
     (\<exists>k. p_sourceProductId p = Some k \<and> p_sourceProductId q = Some k \<and> k \<noteq> []) \<or>
     (\<exists>k. p_orgCatalogId p = Some k \<and> p_orgCatalogId q = Some k \<and> k \<noteq> []))"

lemma same_key_sym: "shares_key p q \<longleftrightarrow> shares_key q p"
  by (auto simp: shares_key_def)

lemma same_key_edit: "row_edit p p' \<Longrightarrow> row_edit q q' \<Longrightarrow> shares_key p' q' = shares_key p q"
  by (simp add: shares_key_def row_edit_def)

definition catalog_ok :: "db \<Rightarrow> bool" where
  "catalog_ok s \<longleftrightarrow> distinct (map p_id (products s)) \<and>
    (\<forall>p \<in> set (products s). \<forall>q \<in> set (products s). shares_key p q \<longrightarrow> p_id p = p_id q)"

inductive cat_step :: "db \<Rightarrow> db \<Rightarrow> bool" where
  edit: "\<lbrakk>products s' = map f (products s); \<And>p. p \<in> set (products s) \<Longrightarrow> row_edit p (f p)\<rbrakk> \<Longrightarrow> cat_step s s'"
| add: "\<lbrakk>products s' = products s @ [r]; p_id r \<notin> p_id ` set (products s);
    \<And>p. p \<in> set (products s) \<Longrightarrow> \<not> shares_key p r\<rbrakk> \<Longrightarrow> cat_step s s'"

lemma cat_same: "products s' = products s \<Longrightarrow> cat_step s s'"
  by (rule cat_step.edit [where f = "\<lambda>p. p"]) simp_all

lemma cat_step_ok:
  assumes "cat_step s s'" and "catalog_ok s"
  shows "catalog_ok s'"
  using assms(1)
proof cases
  case (edit f)
  have "map p_id (products s') = map p_id (products s)" using edit by (simp add: row_edit_def)
  then have "distinct (map p_id (products s'))" using assms(2) by (simp add: catalog_ok_def)
  moreover have "p_id (f p) = p_id (f q)" if "p \<in> set (products s)" "q \<in> set (products s)" "shares_key (f p) (f q)" for p q
  proof -
    have "shares_key p q" using that same_key_edit edit(2) by blast
    then have "p_id p = p_id q" using assms(2) that unfolding catalog_ok_def by blast
    then show ?thesis using edit(2) that by (simp add: row_edit_def)
  qed
  ultimately show ?thesis unfolding catalog_ok_def edit(1) set_map by blast
next
  case (add r)
  have "p_id p = p_id q" if "p \<in> set (products s')" "q \<in> set (products s')" "shares_key p q" for p q
    using that assms(2) add(3) same_key_sym unfolding add(1) catalog_ok_def
    by (metis Un_iff empty_iff insert_iff list.set(1) list.set(2) set_append)
  moreover have "distinct (map p_id (products s'))" using assms(2) add by (simp add: catalog_ok_def)
  ultimately show ?thesis unfolding catalog_ok_def by blast
qed

lemma cat_steps_ok: "cat_step\<^sup>*\<^sup>* s s' \<Longrightarrow> catalog_ok s \<Longrightarrow> catalog_ok s'"
  by (induction rule: rtranclp_induct) (auto intro: cat_step_ok)

lemma cat_step_row:
  assumes "cat_step s s'" and "p \<in> set (products s)"
  shows "\<exists>q \<in> set (products s'). row_edit p q"
  using assms(1) by cases (use assms(2) row_edit_refl in \<open>auto intro: bexI [of _ p]\<close>)

lemma cat_steps_row:
  assumes "cat_step\<^sup>*\<^sup>* s s'" and "p \<in> set (products s)"
  shows "\<exists>q \<in> set (products s'). row_edit p q"
  using assms
proof (induction rule: rtranclp_induct)
  case (step t u)
  then show ?case using cat_step_row row_edit_trans by meson
qed (use row_edit_refl in blast)

subsection \<open>Every handler is a sequence of such steps\<close>

definition catalogs :: "db \<Rightarrow> (db, 'r) handler \<Rightarrow> bool" where
  "catalogs s h \<longleftrightarrow> cat_step\<^sup>*\<^sup>* s (fst (h s))"

definition shelfless :: "(db, 'r) handler \<Rightarrow> bool" where
  "shelfless h \<longleftrightarrow> (\<forall>s. products (fst (h s)) = products s)"

named_theorems shelfless_intros \<open>handlers that do not touch the products\<close>

lemma shelfless_basic [shelfless_intros]: "shelfless (reply r)" "shelfless (reject e)" "shelfless (read f)" "shelfless (audit u a k)"
  by (simp_all add: shelfless_def reply_def reject_def read_def audit_def)

lemma shelfless_and_then [shelfless_intros]: "shelfless h \<Longrightarrow> (\<And>r. shelfless (k r)) \<Longrightarrow> shelfless (and_then h k)"
  by (auto simp: shelfless_def and_then_def split: prod.splits sum.splits) (metis fst_conv)+

lemma shelfless_if [shelfless_intros]: "shelfless h \<Longrightarrow> shelfless g \<Longrightarrow> shelfless (if b then h else g)"
  by simp

lemma shelfless_unless [shelfless_intros]: "shelfless h \<Longrightarrow> shelfless (unless ok e h)"
  by (simp add: unless_def shelfless_basic)

lemma shelfless_remap [shelfless_intros]: "shelfless (remapCategoryToCampus n k c)"
  by (simp add: shelfless_def remapCategoryToCampus_def reply_def split: option.split)

lemma shelfless_organization [shelfless_intros]: "shelfless (assertOrganization k)"
  by (simp add: shelfless_def assertOrganization_def unless_def reject_def reply_def)

lemma catalogs_shelfless: "shelfless h \<Longrightarrow> catalogs s h"
  unfolding catalogs_def shelfless_def by (rule r_into_rtranclp) (simp add: cat_same)

lemma catalogs_unless: "(ok \<Longrightarrow> catalogs s h) \<Longrightarrow> catalogs s (unless ok e h)"
  by (simp add: unless_def catalogs_shelfless shelfless_basic)

lemma catalogs_apply: "catalogs s h \<Longrightarrow> h s = g s \<Longrightarrow> catalogs s g"
  by (simp add: catalogs_def)

lemma catalogs_and_then:
  assumes "catalogs s h" and "\<And>s1 r. h s = (s1, Inr r) \<Longrightarrow> catalogs s1 (k r)"
  shows "catalogs s (and_then h k)"
proof (cases "h s")
  case (Pair s1 x)
  then show ?thesis
    using assms by (cases x) (auto simp: catalogs_def and_then_def intro: rtranclp_trans)
qed

lemma catalogs_then_shelfless: "catalogs s h \<Longrightarrow> (\<And>r. shelfless (k r)) \<Longrightarrow> catalogs s (and_then h k)"
  by (rule catalogs_and_then) (simp_all add: catalogs_shelfless)

lemma catalogs_edit:
  assumes "\<And>p. p \<in> set (products s) \<Longrightarrow> P p \<Longrightarrow> row_edit p (f p)"
  shows "catalogs s (modify (\<lambda>s. s\<lparr>products := update_where P f (products s)\<rparr>))"
  unfolding catalogs_def modify_def update_where_def
  by (rule r_into_rtranclp, rule cat_step.edit [where f = "\<lambda>r. if P r then f r else r"]) (use assms in auto)

lemma catalogs_claim:
  assumes "\<And>p. p \<in> set (products s) \<Longrightarrow> P p \<Longrightarrow> row_edit p (f p)"
  shows "catalogs s (claim_or products products_update P f e)"
  unfolding catalogs_def claim_or_def update_many_def
  by (rule r_into_rtranclp, rule cat_step.edit [where f = "\<lambda>r. if P r then f r else r"])
    (use assms in \<open>auto simp: update_where_def\<close>)

lemma catalogs_add:
  assumes "p_id r \<notin> p_id ` set (products s)" and "\<And>p. p \<in> set (products s) \<Longrightarrow> \<not> shares_key p r"
  shows "catalogs s (modify (\<lambda>s. s\<lparr>products := products s @ [r]\<rparr>))"
  unfolding catalogs_def modify_def by (rule r_into_rtranclp, rule cat_step.add [where r = r]) (use assms in auto)

lemma createProduct_catalogs:
  assumes "newId \<notin> p_id ` set (products s)"
  shows "catalogs s (createProduct newId body operator campusId)"
proof -
  have r: "p_barcode (created_product newId campusId body) = pi_barcode body" "p_campusId (created_product newId campusId body) = campusId"
    "p_sourceProductId (created_product newId campusId body) = None" "p_orgCatalogId (created_product newId campusId body) = None"
    "p_id (created_product newId campusId body) = newId"
    by (simp_all add: created_product_def input_row_def)
  have "catalogs s (unless (campusId = OFFICIAL_CAMPUS_ID \<or> pi_localPurchasePrice body \<noteq> None)
        (BadRequest ''a locally bought product needs its purchase price'')
    (unless (\<not> barcode_used s campusId (pi_barcode body)) (BadRequest ''the bar code exists'')
    (unless (category_exists s (pi_categoryId body)) (BadRequest ''no such category'')
    (and_then (modify (\<lambda>s. s\<lparr>products := products s @ [created_product newId campusId body]\<rparr>))
    (\<lambda>_. and_then (audit operator ''product.create'' newId)
    (\<lambda>_. reply (created_product newId campusId body)))))))"
    by (intro catalogs_unless catalogs_then_shelfless catalogs_add shelfless_intros)
      (use assms in \<open>auto simp: r shares_key_def barcode_used_def\<close>)
  then show ?thesis by (rule catalogs_apply) (simp add: createProduct_def)
qed

lemma createOrgProduct_catalogs:
  assumes "newId \<notin> p_id ` set (products s)"
  shows "catalogs s (createOrgProduct newId body mode operator organizationId)"
  unfolding createOrgProduct_def
proof (rule catalogs_and_then)
  show "catalogs s (assertOrganization organizationId)" by (intro catalogs_shelfless shelfless_intros)
next
  fix s1 r assume "assertOrganization organizationId s = (s1, Inr r)"
  then have s1: "s1 = s" by (simp add: assertOrganization_def unless_ok reply_ok)
  define supplyMode where "supplyMode = patched mode ''platform''"
  define row where "row = org_row newId organizationId supplyMode body"
  have r: "p_barcode row = pi_barcode body" "p_campusId row = OFFICIAL_CAMPUS_ID"
    "p_sourceProductId row = None" "p_orgCatalogId row = None" "p_id row = newId"
    by (simp_all add: row_def org_row_def input_row_def)
  have "catalogs s1 (unless (supplyMode = ''local'' \<longrightarrow> pi_costPrice body \<noteq> None)
           (BadRequest ''a product bought by the organisation needs its cost price'')
         (unless (\<not> barcode_used s1 OFFICIAL_CAMPUS_ID (pi_barcode body)) (BadRequest ''the bar code exists'')
         (unless (category_exists s1 (pi_categoryId body)) (BadRequest ''no such category'')
         (and_then (modify (\<lambda>s. s\<lparr>products := products s @ [row]\<rparr>))
         (\<lambda>_. and_then (audit operator ''product.create'' newId) (\<lambda>_. reply row))))))"
    by (intro catalogs_unless catalogs_then_shelfless catalogs_add shelfless_intros)
      (use assms in \<open>auto simp: r shares_key_def barcode_used_def s1\<close>)
  then show "catalogs s1 (\<lambda>s. let supplyMode = patched mode ''platform''; row = org_row newId organizationId supplyMode body
      in unless (supplyMode = ''local'' \<longrightarrow> pi_costPrice body \<noteq> None)
           (BadRequest ''a product bought by the organisation needs its cost price'')
         (unless (\<not> barcode_used s OFFICIAL_CAMPUS_ID (pi_barcode body)) (BadRequest ''the bar code exists'')
         (unless (category_exists s (pi_categoryId body)) (BadRequest ''no such category'')
         (and_then (modify (\<lambda>s. s\<lparr>products := products s @ [row]\<rparr>))
         (\<lambda>_. and_then (audit operator ''product.create'' newId) (\<lambda>_. reply row))))) s)"
    by (rule catalogs_apply) (simp add: supplyMode_def row_def Let_def)
qed

lemma apply_patch_edit:
  assumes "up_stock d \<in> {None, Some (p_stock p)}"
    and "up_procurementMode d = None \<or> up_procurementMode d = p_procurementMode p \<or> p_procurementMode p = None \<or>
      p_stock p = 0 \<and> p_lockedStock p = 0"
  shows "row_edit p (apply_patch d p)"
  using assms by (auto simp: row_edit_def apply_patch_def patched_def split: option.splits)

lemma writable_frame [simp]: "up_stock (writable c b d) = up_stock d" "up_procurementMode (writable c b d) = up_procurementMode d"
  "up_stock (trimmed_name d) = up_stock d" "up_procurementMode (trimmed_name d) = up_procurementMode d"
  by (simp_all add: writable_def trimmed_name_def)

lemma find_editable_some: "find_editable s k c = Some p \<Longrightarrow> p \<in> set (products s) \<and> p_id p = k \<and> p_campusId p = c"
  by (auto simp: find_editable_def find_Some_iff)

lemma check_update_stock: "check_update s before body c = None \<Longrightarrow> up_stock body \<in> {None, Some (p_stock before)}"
  by (auto simp: check_update_def split: if_splits)

lemma updateProduct_catalogs:
  assumes "catalog_ok s"
  shows "catalogs s (updateProduct k body operator campusId)"
proof (cases "find_editable s k campusId")
  case None
  then show ?thesis by (intro catalogs_apply [OF catalogs_shelfless [OF shelfless_basic(2)]]) (simp add: updateProduct_def)
next
  case (Some before)
  note b = find_editable_some [OF Some]
  show ?thesis
  proof (cases "check_update s before body campusId")
    case (Some e)
    then show ?thesis using \<open>find_editable s k campusId = Some before\<close>
      by (intro catalogs_apply [OF catalogs_shelfless [OF shelfless_basic(2)]]) (simp add: updateProduct_def)
  next
    case None
    define d where "d = writable campusId before (trimmed_name body)"
    have d: "up_stock d \<in> {None, Some (p_stock before)}" "up_procurementMode d = up_procurementMode body"
      using check_update_stock [OF None] by (simp_all add: d_def)
    have same: "p = before" if "p \<in> set (products s)" "p_id p = p_id before" for p
      using unique_key [of p_id "products s" p before] that b assms by (simp add: catalog_ok_def)
    define step :: "(db, unit) handler" where "step = (if switches before body
           then claim_or products products_update
             (\<lambda>p. p_id p = p_id before \<and> p_procurementMode p = p_procurementMode before \<and>
               (p_procurementMode before \<noteq> None \<longrightarrow> p_stock p = 0 \<and> p_lockedStock p = 0))
             (apply_patch d) (BadRequest ''the stock or the procurement has changed'')
           else modify (\<lambda>s. s\<lparr>products := update_where (\<lambda>p. p_id p = p_id before) (apply_patch d) (products s)\<rparr>))"
    define spread :: "(db, unit) handler" where "spread = (if campusId = OFFICIAL_CAMPUS_ID \<and> up_costPrice body \<noteq> None \<and> up_costPrice body \<noteq> Some (p_costPrice before)
           then modify (\<lambda>s. s\<lparr>products := update_where (\<lambda>p. p_sourceProductId p = Some (p_id before))
             (\<lambda>p. p\<lparr>p_costPrice := patched (up_costPrice body) 0\<rparr>) (products s)\<rparr>)
           else reply ())"
    have "catalogs s step"
    proof (cases "switches before body")
      case True
      then show ?thesis
        unfolding step_def by (simp only: if_True, intro catalogs_claim apply_patch_edit) (use d same in auto)
    next
      case False
      then show ?thesis
        unfolding step_def
        by (simp only: if_False, intro catalogs_edit apply_patch_edit) (use d same False in \<open>auto simp: switches_def\<close>)
    qed
    moreover have "catalogs t spread" for t
      unfolding spread_def by (auto intro!: catalogs_edit intro: catalogs_shelfless [OF shelfless_basic(1)] simp: row_edit_def)
    ultimately have "catalogs s (and_then step (\<lambda>_. and_then (read (\<lambda>s. find_row p_id (p_id before) (products s)))
        (\<lambda>after. and_then spread
        (\<lambda>_. and_then (audit operator ''product.update'' (p_id before))
        (\<lambda>_. and_then
          (if switches before body then audit operator ''product.procurement-switch'' (p_id before) else reply ())
        (\<lambda>_. reply after))))))"
      by (intro catalogs_and_then [of s step] catalogs_and_then [of _ "read f" for f] catalogs_then_shelfless shelfless_intros)
        (auto intro: catalogs_shelfless shelfless_intros)
    then have "catalogs s (update_commit before body operator campusId)"
      by (simp only: update_commit_def Let_def step_def spread_def d_def)
    then show ?thesis by (rule catalogs_apply) (simp add: updateProduct_def Some None)
  qed
qed

lemma batchUpdateProductStatus_catalogs: "catalogs s (batchUpdateProductStatus ids status operator campusId)"
proof (cases "ids = []")
  case True
  then show ?thesis by (intro catalogs_apply [OF catalogs_shelfless [OF shelfless_basic(1)]]) (simp add: batchUpdateProductStatus_def)
next
  case False
  define here where "here = (\<lambda>p :: product. p_id p \<in> set ids \<and> p_campusId p = campusId \<and>
             (campusId = OFFICIAL_CAMPUS_ID \<longrightarrow> p_organizationId p = None))"
  have "catalogs s (and_then (modify (\<lambda>s. s\<lparr>products := update_where here (\<lambda>p. p\<lparr>p_status := status\<rparr>) (products s)\<rparr>))
          (\<lambda>_. and_then (audit operator ''product.batch-status'' ''batch'') (\<lambda>_. reply (count_where here (products s)))))"
    by (intro catalogs_then_shelfless catalogs_edit shelfless_intros) (simp add: row_edit_def)
  then show ?thesis by (rule catalogs_apply) (simp add: batchUpdateProductStatus_def False here_def Let_def)
qed

lemma feature_row_edits: "\<exists>f. fold feature_row xs rows = map f rows \<and> (\<forall>p. row_edit p (f p))"
proof (induction xs arbitrary: rows)
  case Nil
  then show ?case by (intro exI [of _ "\<lambda>p. p"]) simp
next
  case (Cons x xs)
  define g where "g = (\<lambda>p :: product. if p_id p = fst x then p\<lparr>p_featured := True, p_featuredSort := int (snd x) + 1\<rparr> else p)"
  have g: "feature_row x rows = map g rows" "\<And>p. row_edit p (g p)"
    by (simp_all add: feature_row_def update_where_def g_def row_edit_def)
  obtain f where f: "fold feature_row xs (map g rows) = map f (map g rows)" "\<forall>p. row_edit p (f p)"
    using Cons.IH by blast
  then show ?case
    by (intro exI [of _ "f \<circ> g"]) (auto simp: g(1) intro: row_edit_trans [OF g(2)])
qed

lemma saveFeatured_catalogs: "catalogs s (saveFeatured ids campusId)"
proof -
  define valid where "valid = filter (\<lambda>k. \<exists>p \<in> set (products s). p_id p = k \<and> p_campusId p = campusId) ids"
  define clear where "clear = (\<lambda>p :: product. if p_campusId p = campusId \<and> p_featured p
    then p\<lparr>p_featured := False, p_featuredSort := 0\<rparr> else p)"
  have clear: "row_edit p (clear p)" for p by (simp add: clear_def row_edit_def)
  obtain f where f: "fold feature_row (zip valid [0..<length valid]) (map clear (products s)) = map f (map clear (products s))"
    "\<And>p. row_edit p (f p)" using feature_row_edits by blast
  have "cat_step s (fst (saveFeatured ids campusId s))"
    by (rule cat_step.edit [where f = "f \<circ> clear"])
      (use f row_edit_trans [OF clear f(2)] in
        \<open>auto simp: saveFeatured_def Let_def and_then_def modify_def reply_def update_where_def valid_def clear_def\<close>)
  then show ?thesis by (simp add: catalogs_def r_into_rtranclp)
qed

lemma pullUpstream_catalogs: "catalogs s (pullUpstream k operator campusId)"
proof -
  have edit: "catalogs s (and_then (modify (\<lambda>s. s\<lparr>products := update_where (\<lambda>p. p_id p = k) (pulled_row official) (products s)\<rparr>))
      (\<lambda>_. and_then (audit operator ''product.pull-upstream'' k) (\<lambda>_. read (\<lambda>s. find_row p_id k (products s)))))" for official
    by (intro catalogs_then_shelfless catalogs_edit shelfless_intros) (simp add: row_edit_def pulled_row_def)
  then show ?thesis
    by (auto simp: catalogs_def pullUpstream_def reject_def split: option.split)
qed

lemma updateOrgProduct_catalogs: "catalogs s (updateOrgProduct k body mode operator organizationId)"
proof -
  have edit: "catalogs s (and_then (modify (\<lambda>s. s\<lparr>products := update_where (\<lambda>p. p_id p = k)
             (\<lambda>p. (apply_patch (org_patch (trimmed_name body)) p)\<lparr>p_supplyMode :=
               (case mode of Some m \<Rightarrow> Some m | None \<Rightarrow> p_supplyMode p)\<rparr>) (products s)\<rparr>))
         (\<lambda>_. and_then (audit operator ''product.update'' k) (\<lambda>_. read (\<lambda>s. find_row p_id k (products s)))))"
    by (intro catalogs_then_shelfless catalogs_edit shelfless_intros)
      (simp add: row_edit_def apply_patch_def org_patch_def patched_def)
  then show ?thesis
    by (auto simp: catalogs_def updateOrgProduct_def reject_def unless_def split: option.split)
qed

subsection \<open>Imports\<close>

definition covered :: "import_run \<Rightarrow> product \<Rightarrow> bool" where
  "covered run p \<longleftrightarrow> p_id p \<in> im_sources run \<or> (\<exists>b. truthy (p_barcode p) = Some b \<and> b \<in> im_barcodes run)"

definition copy_for :: "ident \<Rightarrow> ident \<Rightarrow> ident \<Rightarrow> product \<Rightarrow> product" where
  "copy_for n c cat p = (imported_row n c cat p)\<lparr>p_sourceProductId := Some (p_id p)\<rparr>"

lemma copy_for_simps [simp]:
  "p_id (copy_for n c cat p) = n" "p_campusId (copy_for n c cat p) = c" "p_barcode (copy_for n c cat p) = p_barcode p"
  "p_sourceProductId (copy_for n c cat p) = Some (p_id p)" "p_orgCatalogId (copy_for n c cat p) = None"
  by (simp_all add: copy_for_def imported_row_def)

lemma remap_ok:
  obtains s1 cat where "remapCategoryToCampus n k c s = (s1, Inr cat)" "products s1 = products s"
proof -
  have "\<exists>s1 cat. remapCategoryToCampus n k c s = (s1, Inr cat) \<and> products s1 = products s"
    by (simp add: remapCategoryToCampus_def reply_def split: option.split)
  then show ?thesis using that by blast
qed

lemma import_one_run:
  obtains (skipped) why where
      "import_one officials c operator (n, nc, k) run s = (s, Inr (run\<lparr>im_skipped := im_skipped run @ [(k, why)]\<rparr>))"
      "\<And>p. officials k = Some p \<Longrightarrow> covered run p"
    | (made) p cat s' where "officials k = Some p" "\<not> covered run p"
      "import_one officials c operator (n, nc, k) run s = (s', Inr (note_import n p run))"
      "products s' = products s @ [copy_for n c cat p]"
proof (cases "officials k")
  case None
  then show ?thesis by (intro skipped) (auto simp: import_one_def skip_def reply_def)
next
  case (Some p)
  show ?thesis
  proof (cases "covered run p")
    case True
    then have "\<exists>why. import_one officials c operator (n, nc, k) run s = (s, Inr (run\<lparr>im_skipped := im_skipped run @ [(k, why)]\<rparr>))"
      using Some by (auto simp: import_one_def skip_def reply_def covered_def)
    then show ?thesis using True Some skipped by auto
  next
    case False
    obtain s1 cat where r: "remapCategoryToCampus nc (p_categoryId p) c s = (s1, Inr cat)" "products s1 = products s"
      by (rule remap_ok)
    show ?thesis
      by (rule made [OF Some False]) (use False Some r in
        \<open>auto simp: import_one_def covered_def and_then_def modify_def audit_def reply_def copy_for_def\<close>)
  qed
qed

definition run_covers :: "db \<Rightarrow> ident \<Rightarrow> import_run \<Rightarrow> bool" where
  "run_covers s c run \<longleftrightarrow> campus_sources s c \<subseteq> im_sources run \<and> campus_barcodes s c \<subseteq> im_barcodes run"

definition run_within :: "db \<Rightarrow> ident \<Rightarrow> import_run \<Rightarrow> bool" where
  "run_within s c run \<longleftrightarrow> im_sources run \<subseteq> campus_sources s c \<and> im_barcodes run \<subseteq> campus_barcodes s c"

lemma campus_keys_append:
  assumes "products s' = products s @ [copy_for n c cat p]"
  shows "campus_sources s' c = campus_sources s c \<union> (if p_id p = [] then {} else {p_id p})"
    and "campus_barcodes s' c = campus_barcodes s c \<union> (case truthy (p_barcode p) of None \<Rightarrow> {} | Some b \<Rightarrow> {b})"
  by (auto simp: campus_sources_def campus_barcodes_def assms truthy_def split: option.splits list.splits)

lemma note_import_keys:
  "im_sources (note_import n p run) = insert (p_id p) (im_sources run)"
  "im_barcodes (note_import n p run) = im_barcodes run \<union> (case truthy (p_barcode p) of None \<Rightarrow> {} | Some b \<Rightarrow> {b})"
  by (auto simp: note_import_def split: option.split)

lemma import_all_catalogs:
  assumes "distinct (map fst jobs)" and "set (map fst jobs) \<inter> p_id ` set (products s) = {}" and "run_covers s c run"
  shows "catalogs s (import_all officials c operator jobs run)"
  using assms
proof (induction jobs arbitrary: s run)
  case Nil
  then show ?case by (simp add: catalogs_shelfless shelfless_basic)
next
  case (Cons job jobs)
  obtain n nc k where job: "job = (n, nc, k)" by (cases job) auto
  show ?case
  proof (cases rule: import_one_run [of officials c operator n nc k run s])
    case (skipped why)
    have "run_covers s c (run\<lparr>im_skipped := im_skipped run @ [(k, why)]\<rparr>)" using Cons.prems(3) by (simp add: run_covers_def)
    then have "catalogs s (import_all officials c operator jobs (run\<lparr>im_skipped := im_skipped run @ [(k, why)]\<rparr>))"
      using Cons.prems by (intro Cons.IH) auto
    then show ?thesis by (simp add: catalogs_def and_then_def job skipped(1))
  next
    case (made p cat s')
    have clash: "\<not> shares_key q (copy_for n c cat p)" if "q \<in> set (products s)" for q
    proof
      assume "shares_key q (copy_for n c cat p)"
      then have "(\<exists>b. truthy (p_barcode p) = Some b \<and> b \<in> campus_barcodes s c) \<or> p_id p \<in> campus_sources s c"
        using that by (auto simp: shares_key_def campus_barcodes_def campus_sources_def truthy_def split: list.split)
      then show False using made(2) Cons.prems(3) by (auto simp: covered_def run_covers_def)
    qed
    have "n \<notin> p_id ` set (products s)" using Cons.prems(2) job by auto
    then have one: "cat_step s s'" using clash by (intro cat_step.add [OF made(4)]) auto
    have "run_covers s' c (note_import n p run)"
      using Cons.prems(3) unfolding run_covers_def campus_keys_append [OF made(4)] note_import_keys by auto
    then have "catalogs s' (import_all officials c operator jobs (note_import n p run))"
      using Cons.prems(1,2) job by (intro Cons.IH) (auto simp: made(4))
    then show ?thesis using one
      by (auto simp: catalogs_def and_then_def job made(3) intro: converse_rtranclp_into_rtranclp)
  qed
qed

lemma import_jobs_ids:
  assumes "inj ids"
  shows "distinct (map fst (import_jobs ids ks))" and "set (map fst (import_jobs ids ks)) \<subseteq> range ids"
proof -
  have "map fst (import_jobs ids ks) = map (\<lambda>n. ids (2 * n)) [0..<length ks]"
    by (rule nth_equalityI) (simp_all add: import_jobs_def enumerate_eq_zip)
  moreover have "inj_on (\<lambda>n. ids (2 * n)) A" for A
    by (rule inj_onI) (use injD [OF assms] in fastforce)
  ultimately show "distinct (map fst (import_jobs ids ks))" "set (map fst (import_jobs ids ks)) \<subseteq> range ids"
    by (auto simp: distinct_map)
qed

lemma importProducts_catalogs:
  assumes "inj ids" and "range ids \<inter> p_id ` set (products s) = {}"
  shows "catalogs s (importProducts ids productIds operator campusId)"
proof -
  have "catalogs s (unless (campusId \<noteq> OFFICIAL_CAMPUS_ID) (BadRequest ''the platform is not a target of an import'')
      (import_all (importable s productIds) campusId operator (import_jobs ids productIds) (start_run s campusId)))"
    by (intro catalogs_unless import_all_catalogs)
      (use import_jobs_ids [OF assms(1), of productIds] assms(2) in \<open>auto simp: run_covers_def start_run_def\<close>)
  then show ?thesis by (rule catalogs_apply) (simp add: importProducts_def)
qed

lemma importOrgProduct_catalogs:
  assumes "newId \<notin> p_id ` set (products s)"
  shows "catalogs s (importOrgProduct newId newCategory k campusId operator organizationId)"
proof -
  have row: "catalogs s (import_org_row newId newCategory org campusId operator)"
    if "find_org_product s k organizationId = Some org" "find (\<lambda>p. p_campusId p = campusId \<and> p_orgCatalogId p = Some k) (products s) = None"
      "\<not> (truthy (p_barcode org) \<noteq> None \<and> (\<exists>p \<in> set (products s). p_campusId p = campusId \<and> p_barcode p = p_barcode org))" for org
    unfolding import_org_row_def
  proof (rule catalogs_and_then)
    show "catalogs s (remapCategoryToCampus newCategory (p_categoryId org) campusId)"
      by (intro catalogs_shelfless shelfless_intros)
  next
    fix s1 cat assume "remapCategoryToCampus newCategory (p_categoryId org) campusId s = (s1, Inr cat)"
    then have s1: "products s1 = products s" using shelfless_remap unfolding shelfless_def by (metis fst_conv)
    have "p_id org = k" using that(1) by (auto simp: find_org_product_def find_Some_iff)
    then have "\<not> shares_key p ((imported_row newId campusId cat org)\<lparr>p_orgCatalogId := Some (p_id org)\<rparr>)"
      if "p \<in> set (products s)" for p
      using that \<open>find _ _ = None\<close> \<open>\<not> (truthy _ \<noteq> None \<and> _)\<close>
      by (auto simp: shares_key_def imported_row_def find_None_iff truthy_def split: option.splits list.splits)
    then show "catalogs s1 (and_then (modify (\<lambda>s. s\<lparr>products := products s @
        [(imported_row newId campusId cat org)\<lparr>p_orgCatalogId := Some (p_id org)\<rparr>]\<rparr>)) (\<lambda>_.
      and_then (audit operator ''product.import'' newId) (\<lambda>_. reply (True, [], Some newId))))"
      by (intro catalogs_then_shelfless catalogs_add shelfless_intros) (use assms in \<open>auto simp: s1 imported_row_def\<close>)
  qed
  show ?thesis
    using row by (auto simp: catalogs_def importOrgProduct_def and_then_def assertOrganization_def unless_def reject_def reply_def
      split: option.split if_splits)
qed

subsection \<open>Sequences of requests\<close>

text \<open>\<open>newId\<close> and \<open>ids\<close> are fresh identities.\<close>

inductive catalog_run :: "db \<Rightarrow> db \<Rightarrow> bool" where
  create: "newId \<notin> p_id ` set (products s) \<Longrightarrow> catalog_run s (fst (createProduct newId body operator c s))"
| update: "catalog_run s (fst (updateProduct k patch operator c s))"
| batch: "catalog_run s (fst (batchUpdateProductStatus ks status operator c s))"
| feature: "catalog_run s (fst (saveFeatured ks c s))"
| import: "inj ids \<Longrightarrow> range ids \<inter> p_id ` set (products s) = {} \<Longrightarrow> catalog_run s (fst (importProducts ids ks operator c s))"
| pull: "catalog_run s (fst (pullUpstream k operator c s))"
| create_org: "newId \<notin> p_id ` set (products s) \<Longrightarrow> catalog_run s (fst (createOrgProduct newId body mode operator g s))"
| update_org: "catalog_run s (fst (updateOrgProduct k patch mode operator g s))"
| import_org: "newId \<notin> p_id ` set (products s) \<Longrightarrow> catalog_run s (fst (importOrgProduct newId newCategory k c operator g s))"

lemma catalog_run_steps: "catalog_run s s' \<Longrightarrow> catalog_ok s \<Longrightarrow> cat_step\<^sup>*\<^sup>* s s'"
proof (induction rule: catalog_run.induct)
  case create
  then show ?case using createProduct_catalogs by (simp add: catalogs_def)
next
  case update
  then show ?case using updateProduct_catalogs by (simp add: catalogs_def)
next
  case batch
  then show ?case using batchUpdateProductStatus_catalogs by (simp add: catalogs_def)
next
  case feature
  then show ?case using saveFeatured_catalogs by (simp add: catalogs_def)
next
  case import
  then show ?case using importProducts_catalogs by (simp add: catalogs_def)
next
  case pull
  then show ?case using pullUpstream_catalogs by (simp add: catalogs_def)
next
  case create_org
  then show ?case using createOrgProduct_catalogs by (simp add: catalogs_def)
next
  case update_org
  then show ?case using updateOrgProduct_catalogs by (simp add: catalogs_def)
next
  case import_org
  then show ?case using importOrgProduct_catalogs by (simp add: catalogs_def)
qed

lemma catalog_runs_steps: "catalog_run\<^sup>*\<^sup>* s s' \<Longrightarrow> catalog_ok s \<Longrightarrow> cat_step\<^sup>*\<^sup>* s s'"
proof (induction rule: rtranclp_induct)
  case (step t u)
  then show ?case using cat_steps_ok catalog_run_steps by (meson rtranclp_trans)
qed simp

text \<open>C15. The administration of products never touches the shelf: through any sequence of creating, editing,
  releasing, featuring, importing and pulling, every row keeps its campus, its stock, what is locked and what was sold,
  and its way of procurement changes only when it had none or nothing of it is left.\<close>

theorem catalogue_keeps_stock:
  assumes "catalog_ok s" and "catalog_run\<^sup>*\<^sup>* s s'" and "p \<in> set (products s)"
  shows "\<exists>q \<in> set (products s'). p_id q = p_id p \<and> p_campusId q = p_campusId p \<and> p_stock q = p_stock p \<and>
    p_lockedStock q = p_lockedStock p \<and> p_sales q = p_sales p \<and>
    (p_procurementMode q \<noteq> p_procurementMode p \<longrightarrow>
      p_procurementMode p = None \<or> p_stock p = 0 \<and> p_lockedStock p = 0)"
  using cat_steps_row [OF catalog_runs_steps [OF assms(2,1)] assms(3)] by (auto simp: row_edit_def)


subsection \<open>Importing twice\<close>

lemma import_jobs_asked: "map (\<lambda>x. snd (snd x)) (import_jobs ids ks) = ks"
  by (rule nth_equalityI) (simp_all add: import_jobs_def enumerate_eq_zip)

lemma import_all_covered:
  assumes "\<And>job p. job \<in> set jobs \<Longrightarrow> officials (snd (snd job)) = Some p \<Longrightarrow> covered run p"
  shows "\<exists>run'. import_all officials c operator jobs run s = (s, Inr run') \<and> im_imported run' = im_imported run"
  using assms
proof (induction jobs arbitrary: run)
  case Nil
  then show ?case by (simp add: reply_def)
next
  case (Cons job jobs)
  obtain n nc k where job: "job = (n, nc, k)" by (cases job) auto
  show ?case
  proof (cases rule: import_one_run [of officials c operator n nc k run s])
    case (skipped why)
    let ?run = "run\<lparr>im_skipped := im_skipped run @ [(k, why)]\<rparr>"
    have same: "covered ?run p = covered run p" for p by (simp add: covered_def)
    have "\<exists>run'. import_all officials c operator jobs ?run s = (s, Inr run') \<and> im_imported run' = im_imported ?run"
      by (rule Cons.IH, unfold same, rule Cons.prems) auto
    then show ?thesis by (simp add: job and_then_def skipped(1))
  next
    case (made p cat s')
    then show ?thesis using Cons.prems [of job p] job by simp
  qed
qed

lemma import_all_covers:
  assumes "import_all officials c operator jobs run s = (s', Inr run')" and "run_within s c run"
    and "\<forall>k p. officials k = Some p \<longrightarrow> p_id p \<noteq> []"
  shows "(\<exists>new. products s' = products s @ new \<and> (\<forall>r \<in> set new. p_campusId r = c)) \<and> run_within s' c run' \<and>
    (\<forall>p. covered run p \<longrightarrow> covered run' p) \<and>
    (\<forall>job \<in> set jobs. \<forall>p. officials (snd (snd job)) = Some p \<longrightarrow> covered run' p) \<and>
    length (im_imported run') + length (im_skipped run') = length (im_imported run) + length (im_skipped run) + length jobs"
  using assms
proof (induction jobs arbitrary: s run)
  case Nil
  then show ?case by (simp add: reply_def)
next
  case (Cons job jobs)
  obtain n nc k where job: "job = (n, nc, k)" by (cases job) auto
  show ?case
  proof (cases rule: import_one_run [of officials c operator n nc k run s])
    case (skipped why)
    let ?run = "run\<lparr>im_skipped := im_skipped run @ [(k, why)]\<rparr>"
    have same: "covered ?run p = covered run p" for p by (simp add: covered_def)
    have "import_all officials c operator jobs ?run s = (s', Inr run')"
      using Cons.prems(1) by (simp add: job and_then_def skipped(1))
    moreover have "run_within s c ?run" using Cons.prems(2) by (simp add: run_within_def)
    ultimately show ?thesis using Cons.IH [OF _ _ Cons.prems(3)] skipped(2) by (auto simp: job same)
  next
    case (made p cat s1)
    let ?run = "note_import n p run"
    have "import_all officials c operator jobs ?run s1 = (s', Inr run')"
      using Cons.prems(1) by (simp add: job and_then_def made(3))
    moreover have "run_within s1 c ?run"
      using Cons.prems(2,3) made(1)
      unfolding run_within_def campus_keys_append [OF made(4)] note_import_keys by auto
    ultimately have ih: "(\<exists>new. products s' = products s1 @ new \<and> (\<forall>r \<in> set new. p_campusId r = c)) \<and> run_within s' c run' \<and>
        (\<forall>p. covered ?run p \<longrightarrow> covered run' p) \<and>
        (\<forall>job \<in> set jobs. \<forall>p. officials (snd (snd job)) = Some p \<longrightarrow> covered run' p) \<and>
        length (im_imported run') + length (im_skipped run') = length (im_imported ?run) + length (im_skipped ?run) + length jobs"
      using Cons.IH [OF _ _ Cons.prems(3)] by blast
    have grow: "covered ?run q" if "covered run q" for q
      using that by (auto simp: covered_def note_import_keys)
    have "covered ?run p" by (simp add: covered_def note_import_keys)
    then show ?thesis using ih grow made(1) by (auto simp: job made(4) note_import_def)
  qed
qed


subsection \<open>Where the code falls short\<close>

text \<open>A form that sends the stock it was shown writes that stock: what was sold between the check and the write
  of \<open>updateProduct\<close> is on the shelf again.\<close>

theorem stale_stock_written:
  assumes "catalog_ok s" and "find_editable s k c = Some before" and "c \<noteq> OFFICIAL_CAMPUS_ID"
    and "up_stock body = Some (p_stock before)" and "up_procurementMode body = None"
    and "products s' = update_where (\<lambda>p. p_id p = k) (add_stock (- n)) (products s)"
  shows "\<exists>s'' after. update_commit before body operator c s' = (s'', Inr (Some after)) \<and> p_stock after = p_stock before"
proof -
  note b = find_editable_some [OF assms(2)]
  define d where "d = writable c before (trimmed_name body)"
  have frame: "p_id (add_stock (- n) p) = p_id p" "p_id (apply_patch d p) = p_id p" for p
    by (simp_all add: add_stock_def apply_patch_def)
  have "find_row p_id k (products s) = Some before"
    using find_row_unique [of p_id "products s" before] assms(1) b by (simp add: catalog_ok_def)
  then have "find_row p_id k (update_where (\<lambda>p. p_id p = k) (apply_patch d) (products s')) =
      Some (apply_patch d (add_stock (- n) before))"
    using b frame by (simp add: assms(6) find_row_update_where)
  moreover have "p_stock (apply_patch d p) = p_stock before" for p
    using assms(4) by (simp add: apply_patch_def d_def patched_def)
  ultimately show ?thesis
    using b assms(3,5) by (simp add: update_commit_def Let_def switches_def and_then_def modify_def read_def audit_def reply_def
      flip: d_def)
qed

text \<open>A promotion must be below the price of its product when it is made, but nothing stops the price from being
  lowered afterwards: the promotion then is dearer than the product, and customers pay it.\<close>

theorem promotion_above_price:
  assumes "find_editable s k c = Some p" and "c \<noteq> OFFICIAL_CAMPUS_ID" and "catalog_ok s" and "windows_ok s"
    and "r \<in> set (promotions s)" and "pm_productId r = k" and "promo_live now r" and "price < pm_price r"
  defines "patch \<equiv> \<lparr>up_price = Some price, up_stock = None, up_status = None, up_costPrice = None,
    up_wholesalePrice = None, up_procurementMode = None, up_localPurchasePrice = None, up_name = None,
    up_subtitle = None, up_originalPrice = None, up_tag = None, up_weight = None, up_categoryId = None,
    up_image = None, up_images = None, up_location = None, up_locationCode = None, up_retailUnit = None,
    up_wholesaleUnit = None, up_unitsPerCase = None, up_description = None, up_purchaseLimit = None\<rparr>"
  shows "\<exists>s' q. updateProduct k patch operator c s = (s', Inr (Some q)) \<and> p_price q = price \<and>
    promotionMap s' [k] now False k = Some r \<and> p_price q < pm_price r"
proof -
  note b = find_editable_some [OF assms(1)]
  have row: "find_row p_id k (products s) = Some p"
    using find_row_unique [of p_id "products s" p] assms(3) b by (simp add: catalog_ok_def)
  define s1 where "s1 = s\<lparr>products := update_where (\<lambda>x. p_id x = k) (apply_patch patch) (products s)\<rparr>"
  have patch: "writable c p (trimmed_name patch) = patch" "switches p patch = False" "check_update s p patch c = None"
    "up_costPrice patch = None"
    by (simp_all add: patch_def writable_def trimmed_name_def switches_def check_update_def assms(2))
  have keyed: "p_id (apply_patch patch x) = p_id x" "p_price (apply_patch patch x) = price" for x
    by (simp_all add: apply_patch_def patch_def patched_def)
  have run: "updateProduct k patch operator c s = (fst (audit operator ''product.update'' k s1), Inr (Some (apply_patch patch p)))"
    using b by (simp add: updateProduct_def assms(1) patch update_commit_def and_then_def modify_def read_def audit_def reply_def
      find_row_update_where keyed row s1_def)
  have same: "promotions (fst (audit operator ''product.update'' k s1)) = promotions s" by (simp add: audit_def s1_def)
  have ok: "windows_ok (fst (audit operator ''product.update'' k s1))" using assms(4) same by (simp add: windows_ok_def)
  have "promotionMap (fst (audit operator ''product.update'' k s1)) [k] now False k = Some r"
    using live_promotion_found [OF ok, of r now] assms(5-7) same by simp
  then show ?thesis using run keyed assms(8) by simp
qed

subsection \<open>Witnesses\<close>

definition official2 :: product where
  "official2 = product1\<lparr>p_id := ''of1'', p_campusId := OFFICIAL_CAMPUS_ID, p_name := ''Juice'', p_barcode := Some ''69001234'',
     p_catalogScope := ''platform''\<rparr>"

definition shop_db :: db where
  "shop_db = db0\<lparr>products := [product1, official2]\<rparr>"

definition shop_ids :: "nat \<Rightarrow> ident" where
  "shop_ids n = ''n'' @ replicate n (CHR ''i'')"

lemma shop_db_ok: "catalog_ok shop_db" "inj shop_ids" "range shop_ids \<inter> p_id ` set (products shop_db) = {}"
proof -
  show "catalog_ok shop_db"
    by (simp add: catalog_ok_def shop_db_def official2_def product1_def shares_key_def OFFICIAL_CAMPUS_ID_def)
  show "inj shop_ids"
    by (rule injI, unfold shop_ids_def, metis append_Cons append_Nil length_replicate list.inject)
  show "range shop_ids \<inter> p_id ` set (products shop_db) = {}"
    by (auto simp: shop_ids_def shop_db_def official2_def product1_def)
qed

theorem catalogue_keeps_stock_witness:
  "\<exists>q \<in> set (products (fst (batchUpdateProductStatus [''p1''] ''off-sale'' ''boss'' ''ca1'' shop_db))).
     p_id q = ''p1'' \<and> p_stock q = 10"
proof -
  let ?s = "fst (batchUpdateProductStatus [''p1''] ''off-sale'' ''boss'' ''ca1'' shop_db)"
  have "catalog_run\<^sup>*\<^sup>* shop_db ?s" by (intro r_into_rtranclp catalog_run.batch)
  moreover have "product1 \<in> set (products shop_db)" by (simp add: shop_db_def)
  ultimately have "\<exists>q \<in> set (products ?s). p_id q = p_id product1 \<and> p_stock q = p_stock product1"
    using catalogue_keeps_stock [OF shop_db_ok(1)] by blast
  then show ?thesis by (simp add: product1_def)
qed

lemma shop_import:
  obtains s1 run cat where "importProducts shop_ids [''of1''] ''boss'' ''ca1'' shop_db = (s1, Inr run)"
    "products s1 = products shop_db @ [copy_for (shop_ids 0) ''ca1'' cat official2]"
proof -
  let ?run = "importProducts shop_ids [''of1''] ''boss'' ''ca1'' shop_db"
  have imp: "importable shop_db [''of1''] ''of1'' = Some official2"
    by (simp add: importable_def shop_db_def official2_def product1_def OFFICIAL_CAMPUS_ID_def)
  have start: "start_run shop_db ''ca1'' = \<lparr>im_sources = {}, im_barcodes = {}, im_imported = [], im_skipped = []\<rparr>"
    by (auto simp: start_run_def campus_sources_def campus_barcodes_def shop_db_def official2_def product1_def OFFICIAL_CAMPUS_ID_def)
  show ?thesis
  proof (cases rule: import_one_run [of "importable shop_db [''of1'']" "''ca1''" "''boss''" "shop_ids 0" "shop_ids 1" "''of1''"
        "start_run shop_db ''ca1''" shop_db])
    case (skipped why)
    then show ?thesis using imp by (simp add: covered_def start)
  next
    case (made p cat s')
    have "?run = (s', Inr (note_import (shop_ids 0) p (start_run shop_db ''ca1'')))"
      using made(3) by (simp add: importProducts_def unless_def OFFICIAL_CAMPUS_ID_def import_jobs_def and_then_def reply_def)
    then show ?thesis using that made(1,4) imp by simp
  qed
qed



end
