(* ===== verification/Admin_Session.thy ===== *)
theory Admin_Session
  imports Rbac_Steps
begin

text \<open>
  Sessions of the back office (\<open>src/auth/auth.controller.ts\<close>): sign-in with a password (\<open>adminLogin\<close>), the
  change of the own password (\<open>changePassword\<close>), the campuses an account may work on (\<open>adminCampuses\<close>) and
  the change between them (\<open>selectAdminCampus\<close>). The comparison of a password with its hash and the hash
  itself (package \<open>bcryptjs\<close>) are the arguments \<open>matches\<close> and \<open>hash\<close>; \<open>single\<close> says that
  \<open>ADMIN_SINGLE_SESSION\<close> is set. A handler replies with the claims it has signed.
\<close>

subsection \<open>Claims of a token\<close>

record auth_claims =
  cl_id :: ident
  cl_campusId :: ident
  cl_role :: string
  cl_organizationId :: "ident option"
  cl_appKind :: "string option"
  cl_sv :: "int option"

record session_reply =
  sr_claims :: auth_claims
  sr_nickname :: string

definition admin_claims :: "account \<Rightarrow> ident \<Rightarrow> auth_claims" where
  "admin_claims a campusId =
    \<lparr>cl_id = acc_id a, cl_campusId = campusId, cl_role = acc_role a, cl_organizationId = None, cl_appKind = None,
     cl_sv = Some (acc_sessionVersion a)\<rparr>"

definition admin_reply :: "account \<Rightarrow> ident \<Rightarrow> session_reply" where
  "admin_reply a campusId =
    \<lparr>sr_claims = admin_claims a campusId,
     sr_nickname = (if acc_nickname a = [] then acc_username a else acc_nickname a)\<rparr>"

subsection \<open>Sign-in\<close>

text \<open>The part that reads: unknown name and wrong password give the same answer.\<close>

definition login_read :: "(string \<Rightarrow> string \<Rightarrow> bool) \<Rightarrow> string \<Rightarrow> string \<Rightarrow> (rbac_db, account) handler" where
  "login_read matches username password d =
    (case find (\<lambda>a. acc_username a = trim username) (accounts d) of
       None \<Rightarrow> reject (Unauthorized ''the name or the password is wrong'') d
     | Some a \<Rightarrow>
         unless (matches password (acc_passwordHash a)) (Unauthorized ''the name or the password is wrong'')
           (unless (acc_status a \<noteq> ''disabled'') (Unauthorized ''the account is disabled'') (reply a)) d)"

text \<open>The conditional update of the single session: the row must still have the verified hash and be
  active.\<close>

definition still_verified :: "account \<Rightarrow> account \<Rightarrow> bool" where
  "still_verified a b \<longleftrightarrow> acc_id b = acc_id a \<and> acc_passwordHash b = acc_passwordHash a \<and> acc_status b = ''active''"

definition open_single :: "account \<Rightarrow> (rbac_db, account) handler" where
  "open_single a d =
    (case find (still_verified a) (accounts d) of
       None \<Rightarrow> reject (Unauthorized ''the account has changed'') d
     | Some b \<Rightarrow> (d\<lparr>accounts := update_where (still_verified a) bump_session (accounts d)\<rparr>, Inr (bump_session b)))"

definition campus_grants :: "rbac_db \<Rightarrow> ident \<Rightarrow> ident list" where
  "campus_grants d accountId =
    List.map_filter gr_campusId
      (filter (\<lambda>g. gr_accountId g = accountId \<and> gr_scope g = ''campus'' \<and> gr_campusId g \<noteq> None) (grants d))"

definition login_campus :: "rbac_db \<Rightarrow> account \<Rightarrow> ident" where
  "login_campus d a =
    (case campus_grants d (acc_id a) of
       [] \<Rightarrow> acc_campusId a
     | c # cs \<Rightarrow> if acc_role a = ''rbac'' \<and> acc_campusId a \<notin> set (c # cs) then c else acc_campusId a)"

definition settle_campus :: "account \<Rightarrow> (rbac_db, session_reply) handler" where
  "settle_campus a d =
    (let c = login_campus d a
     in (if c = acc_campusId a then d else set_account (acc_id a) (\<lambda>b. b\<lparr>acc_campusId := c\<rparr>) d, Inr (admin_reply a c)))"

definition login_finish :: "bool \<Rightarrow> account \<Rightarrow> (rbac_db, session_reply) handler" where
  "login_finish single a = and_then (if single then open_single a else reply a) settle_campus"

definition adminLogin ::
  "(string \<Rightarrow> string \<Rightarrow> bool) \<Rightarrow> bool \<Rightarrow> string \<Rightarrow> string \<Rightarrow> (rbac_db, session_reply) handler" where
  "adminLogin matches single username password = and_then (login_read matches username password) (login_finish single)"

subsection \<open>The own password\<close>

definition changePassword ::
  "(string \<Rightarrow> string \<Rightarrow> bool) \<Rightarrow> (string \<Rightarrow> string) \<Rightarrow> ident \<Rightarrow> int option \<Rightarrow> string \<Rightarrow> string \<Rightarrow> (rbac_db, ident) handler" where
  "changePassword matches hash userId sv old new d =
    (case find_row acc_id userId (accounts d) of
       None \<Rightarrow> reject (BadRequest ''this kind of account has no password'') d
     | Some a \<Rightarrow>
         (case assertSession a sv of
            Inl e \<Rightarrow> reject e d
          | Inr _ \<Rightarrow>
              unless (matches old (acc_passwordHash a)) (Unauthorized ''the old password is wrong'')
              (\<lambda>d. (set_account (acc_id a) (\<lambda>b. (bump_session b)\<lparr>acc_passwordHash := hash new\<rparr>) d, Inr (acc_id a))) d))"

subsection \<open>The campus to work on\<close>

definition all_campuses :: "rbac_ctx \<Rightarrow> bool \<Rightarrow> bool" where
  "all_campuses ctx forFilter \<longleftrightarrow>
    \<not> orgBounded ctx \<and> (cx_super ctx \<or> cx_orgLevel ctx = LPlatform \<or> forFilter \<and> cx_platform ctx)"

definition listed_campuses :: "rbac_db \<Rightarrow> rbac_ctx \<Rightarrow> bool \<Rightarrow> campus list" where
  "listed_campuses d ctx forFilter =
    (if \<not> all_campuses ctx forFilter \<and> \<not> orgBounded ctx \<and> cx_campuses ctx = [] then []
     else filter (\<lambda>c.
       (orgBounded ctx \<longrightarrow> ca_organizationId c = cx_organizationId ctx) \<and>
       (all_campuses ctx forFilter \<or> orgBounded ctx \<or> ca_id c \<in> set (cx_campuses ctx)) \<and>
       ca_status c = ''active'') (rb_campuses d))"

text \<open>The reply lists each campus with the mark of the current one.\<close>

definition adminCampuses ::
  "millis \<Rightarrow> ident \<Rightarrow> int option \<Rightarrow> string option \<Rightarrow> (rbac_service, (campus \<times> bool) list) handler" where
  "adminCampuses now userId sv purpose s =
    (case find_row acc_id userId (accounts (rs_db s)) of
       None \<Rightarrow> reply [] s
     | Some a \<Rightarrow>
         (case assertSession a sv of
            Inl e \<Rightarrow> reject e s
          | Inr _ \<Rightarrow>
              and_then (getEffective now a)
              (\<lambda>ctx s. reply (map (\<lambda>c. (c, ca_id c = acc_campusId a))
                (listed_campuses (rs_db s) ctx (purpose = Some ''filter''))) s) s))"

definition may_select :: "rbac_ctx \<Rightarrow> campus \<Rightarrow> bool" where
  "may_select ctx c \<longleftrightarrow>
    cx_super ctx \<or> cx_orgLevel ctx = LPlatform \<or> ca_id c \<in> set (cx_campuses ctx) \<or>
    cx_orgLevel ctx = LOrg \<and> truthy (cx_organizationId ctx) \<noteq> None \<and> ca_organizationId c = cx_organizationId ctx"

definition open_campus :: "rbac_db \<Rightarrow> ident \<Rightarrow> campus option" where
  "open_campus d campusId = find (\<lambda>c. ca_id c = campusId \<and> ca_status c = ''active'') (rb_campuses d)"

definition enter_campus :: "account \<Rightarrow> ident \<Rightarrow> (rbac_service, session_reply) handler" where
  "enter_campus a campusId s =
    (if campusId = acc_campusId a then s
     else s\<lparr>rs_db := set_account (acc_id a) (\<lambda>b. b\<lparr>acc_campusId := campusId\<rparr>) (rs_db s)\<rparr>,
     Inr (admin_reply a campusId))"

definition selectAdminCampus ::
  "millis \<Rightarrow> ident \<Rightarrow> int option \<Rightarrow> string \<Rightarrow> (rbac_service, session_reply) handler" where
  "selectAdminCampus now userId sv target s =
    (case find_row acc_id userId (accounts (rs_db s)) of
       None \<Rightarrow> reject (Forbidden ''this account has no campuses'') s
     | Some a \<Rightarrow>
         (case assertSession a sv of
            Inl e \<Rightarrow> reject e s
          | Inr _ \<Rightarrow>
              and_then (getEffective now a)
              (\<lambda>ctx s.
                (case open_campus (rs_db s) (trim target) of
                   None \<Rightarrow> reject (BadRequest ''no such campus, or it is closed'') s
                 | Some c \<Rightarrow>
                     unless (may_select ctx c) (Forbidden ''no permission for the campus'')
                       (enter_campus a (trim target)) s)) s))"

end
