(* ===== verification/Session_Theorems.thy ===== *)
theory Session_Theorems
  imports Admin_Session Rbac_Samples
begin

text \<open>
  Sessions of the back office: what a sign-in opens, what a change of the password or a second sign-in
  ends, that an ended session never comes back, and that the campuses an account is offered are campuses
  it can enter.
\<close>

subsection \<open>Versions of sessions only grow\<close>

definition token_version :: "int option \<Rightarrow> int" where
  "token_version sv = (case sv of Some v \<Rightarrow> v | None \<Rightarrow> 0)"

text \<open>Every token of the account \<open>k\<close> up to version \<open>v\<close> is void.\<close>

definition voided :: "ident \<Rightarrow> int \<Rightarrow> rbac_db \<Rightarrow> bool" where
  "voided k v d \<longleftrightarrow> (\<forall>a \<in> set (accounts d). acc_id a = k \<longrightarrow> v < acc_sessionVersion a)"

definition grows :: "(account \<Rightarrow> account) \<Rightarrow> bool" where
  "grows f \<longleftrightarrow> (\<forall>a. acc_id (f a) = acc_id a \<and> acc_sessionVersion a \<le> acc_sessionVersion (f a))"

lemma grows_bump [simp]: "grows bump_session"
  by (simp add: grows_def bump_session_def)

lemma grows_patch: "grows (patch_account p c org)"
  by (simp add: grows_def patch_account_def bump_session_def Let_def split: option.split)

text \<open>An invariant that allows the version of an account to grow is kept by all writes to existing
  accounts.\<close>

locale session_frame = rbac_frame +
  assumes sets: "grows f \<Longrightarrow> I d \<Longrightarrow> I (d\<lparr>accounts := update_where P f (accounts d)\<rparr>)"
    and removes: "I d \<Longrightarrow> I (d\<lparr>accounts := delete_where P (accounts d), grants := gs\<rparr>)"
    and grnts: "I d \<Longrightarrow> I (d\<lparr>grants := gs\<rparr>)"
begin

lemma set_account: "grows f \<Longrightarrow> keeps I (modify (set_account k f))"
  by (rule keeps_modify) (simp add: set_account_def sets)

lemma write_grants: "keeps I (modify (write_grants actor account gs))"
  by (rule keeps_modify) (simp add: write_grants_def grnts)

lemma align_campus: "keeps I (modify (align_campus account gs))"
  by (rule keeps_modify) (auto simp: align_campus_def set_account_def grows_def intro: sets split: list.split)

lemma replaceAccountGrants: "keeps I (replaceAccountGrants actor k gs l)"
proof (rule keepsI)
  fix s assume "I s"
  then show "I (fst (replaceAccountGrants actor k gs l s))"
    unfolding replaceAccountGrants_def Let_def
    by (auto simp: grows_def bump_session_def split: option.split
        intro!: at keeps_rules set_account write_grants align_campus)
qed

lemma changeAccountStatus: "keeps I (changeAccountStatus actor k status)"
proof (rule keepsI)
  fix s assume "I s"
  then show "I (fst (changeAccountStatus actor k status s))"
    unfolding changeAccountStatus_def
    by (auto simp: grows_def bump_session_def split: option.split intro!: at keeps_rules set_account)
qed

lemma update_account_tx: "keeps I (update_account_tx actor k p)"
proof (rule keepsI)
  fix s assume "I s"
  then show "I (fst (update_account_tx actor k p s))"
    unfolding update_account_tx_def update_account_writes_def
    by (auto split: option.split sum.split
        intro!: at keeps_rules replaceAccountGrants changeAccountStatus set_account grows_patch)
qed

lemma delete_account_tx: "keeps I (delete_account_tx actor k)"
proof (rule keepsI)
  fix s assume "I s"
  then show "I (fst (delete_account_tx actor k s))"
    unfolding delete_account_tx_def
    by (auto split: option.split intro!: at keeps_rules keeps_modify removes)
qed

lemma reset_password_tx: "keeps I (reset_password_tx actor k h)"
proof (rule keepsI)
  fix s assume "I s"
  then show "I (fst (reset_password_tx actor k h s))"
    unfolding reset_password_tx_def
    by (auto simp: grows_def bump_session_def split: option.split intro!: at keeps_rules set_account)
qed

lemma adminLogin: "keeps I (adminLogin matches single username password)"
proof (rule keepsI)
  fix d assume "I d"
  moreover have "keeps I (login_finish single a)" for a
    unfolding login_finish_def
    by (rule keeps_and_then)
      (auto simp: keeps_def open_single_def settle_campus_def set_account_def reply_def reject_def Let_def grows_def
        bump_session_def intro: sets split: option.split)
  ultimately show "I (fst (adminLogin matches single username password d))"
    unfolding adminLogin_def
    by (intro at) (auto simp: keeps_def login_read_def unless_def reply_def reject_def split: option.split)
qed

lemma changePassword: "keeps I (changePassword matches hash userId sv old new)"
  by (auto simp: keeps_def changePassword_def set_account_def unless_def reject_def grows_def bump_session_def
      intro!: sets split: option.split sum.split)

end

lemma voided_grows:
  assumes "grows f" and "voided k v d"
  shows "voided k v (d\<lparr>accounts := update_where P f (accounts d)\<rparr>)"
  unfolding voided_def
proof (intro ballI impI)
  fix a assume a: "a \<in> set (accounts (d\<lparr>accounts := update_where P f (accounts d)\<rparr>))" "acc_id a = k"
  then consider a0 where "a0 \<in> set (accounts d)" "a = f a0" | "a \<in> set (accounts d)"
    by (auto dest: update_whereD)
  then show "v < acc_sessionVersion a"
  proof cases
    case 1
    then have "acc_id a0 = k" "acc_sessionVersion a0 \<le> acc_sessionVersion a"
      using assms(1) a(2) by (auto simp: grows_def)
    then show ?thesis using 1 assms(2) by (auto simp: voided_def intro: less_le_trans)
  next
    case 2
    then show ?thesis using a(2) assms(2) by (simp add: voided_def)
  qed
qed

interpretation voided: session_frame "voided k v" for k v
  by unfold_locales (use voided_grows in \<open>auto simp: voided_def delete_where_def\<close>)

interpretation voided_roles: role_frame "voided k v" for k v
  by unfold_locales (simp_all add: voided_def)

interpretation voided_menus: menu_frame "voided k v" for k v
  by unfold_locales (simp_all add: voided_def)

lemma voided_bumped:
  assumes "\<And>b. b \<in> set (accounts d) \<Longrightarrow> acc_id b = k \<Longrightarrow> P b \<and> v \<le> acc_sessionVersion b"
    and "\<And>b. acc_id (f b) = acc_id b \<and> acc_sessionVersion b < acc_sessionVersion (f b)"
  shows "voided k v (d\<lparr>accounts := update_where P f (accounts d)\<rparr>)"
  unfolding voided_def
proof (intro ballI impI)
  fix a assume a: "a \<in> set (accounts (d\<lparr>accounts := update_where P f (accounts d)\<rparr>))" "acc_id a = k"
  then consider b where "b \<in> set (accounts d)" "a = f b" | "a \<in> set (accounts d)" "\<not> P a"
    by (auto dest: update_whereD)
  then show "v < acc_sessionVersion a"
  proof cases
    case (1 b)
    then have "v \<le> acc_sessionVersion b" using assms a(2) by metis
    then show ?thesis using 1 assms(2) [of b] by simp
  next
    case 2
    then show ?thesis using assms(1) a(2) by blast
  qed
qed

lemma voided_append: "voided k v d \<Longrightarrow> acc_id a \<noteq> k \<Longrightarrow> voided k v (d\<lparr>accounts := accounts d @ [a]\<rparr>)"
  by (simp add: voided_def)

lemma voided_enter: "voided k v d \<Longrightarrow> voided k v (set_account j (\<lambda>b. b\<lparr>acc_campusId := c\<rparr>) d)"
  by (simp add: set_account_def voided_grows grows_def)

lemma voided_create:
  assumes "newId \<noteq> k"
  shows "keeps (voided k v) (create_account_tx actor newId pw ai org)"
proof (rule keepsI)
  fix d assume "voided k v d"
  then show "voided k v (fst (create_account_tx actor newId pw ai org d))"
    unfolding create_account_tx_def Let_def using assms
    by (auto intro!: voided.at keeps_rules keeps_modify voided.replaceAccountGrants voided.rb_audit voided_append)
qed

lemma tx_voided:
  assumes "rbac_tx d d'" and ok: "voided k v d" and reuse: "k \<in> acc_id ` set (accounts d') \<Longrightarrow> k \<in> acc_id ` set (accounts d)"
  shows "voided k v d'"
  using assms(1)
proof cases
  case create_menu
  show ?thesis by (rule keeps_ok [OF create_menu(2) ok voided_menus.create_menu_tx])
next
  case update_menu
  show ?thesis by (rule keeps_ok [OF update_menu(2) ok voided_menus.update_menu_tx [OF update_menu(1)]])
next
  case delete_menu
  show ?thesis by (rule keeps_ok [OF delete_menu(1) ok voided_menus.delete_menu_tx])
next
  case create_role
  show ?thesis by (rule keeps_ok [OF create_role(3) ok voided_roles.create_role_tx])
next
  case update_role
  show ?thesis by (rule keeps_ok [OF update_role(3) ok voided_roles.update_role_tx])
next
  case delete_role
  show ?thesis by (rule keeps_ok [OF delete_role ok voided_roles.delete_role_tx])
next
  case set_roles
  show ?thesis by (rule keeps_ok [OF set_roles ok voided.replaceAccountGrants])
next
  case set_status
  show ?thesis by (rule keeps_ok [OF set_status(2) ok voided.changeAccountStatus])
next
  case (create_account newId ai org actor pw k')
  show ?thesis
  proof (cases "newId = k")
    case True
    then have "k \<notin> acc_id ` set (accounts d')" using reuse create_account(1) by (auto simp: fresh_def)
    then show ?thesis by (auto simp: voided_def)
  next
    case False
    then show ?thesis by (rule keeps_ok [OF create_account(3) ok voided_create])
  qed
next
  case update_account
  show ?thesis by (rule keeps_ok [OF update_account(2) ok voided.update_account_tx])
next
  case delete_account
  show ?thesis by (rule keeps_ok [OF delete_account ok voided.delete_account_tx])
next
  case reset_password
  show ?thesis by (rule keeps_ok [OF reset_password ok voided.reset_password_tx])
qed

subsection \<open>What happens between two requests of an account\<close>

text \<open>The service writes accounts, roles and menus, accounts sign in, change their password and their campus, and
  requests come in; the identity \<open>k\<close> of a deleted account is not given out again.\<close>

inductive session_step :: "ident \<Rightarrow> rbac_service \<Rightarrow> rbac_service \<Rightarrow> bool" for k :: ident where
  admin: "rbac_write s s' \<Longrightarrow>
    (k \<in> acc_id ` set (accounts (rs_db s')) \<Longrightarrow> k \<in> acc_id ` set (accounts (rs_db s))) \<Longrightarrow> session_step k s s'"
| login: "session_step k s (s\<lparr>rs_db := fst (adminLogin matches single username password (rs_db s))\<rparr>)"
| password: "session_step k s (s\<lparr>rs_db := fst (changePassword matches hash userId sv old new (rs_db s))\<rparr>)"
| select: "session_step k s (fst (selectAdminCampus now userId sv target s))"
| request: "session_step k s (fst (canActivate now userId sv m path s))"

lemma getEffective_db [simp]: "rs_db (fst (getEffective now a s)) = rs_db s"
  by (simp add: getEffective_def Let_def reply_def reject_def split: option.split)

lemma canActivate_db [simp]: "rs_db (fst (canActivate now userId sv m path s)) = rs_db s"
proof -
  have same: "keeps (\<lambda>s'. rs_db s' = rs_db s) (getEffective now a)" for a by (simp add: keeps_def)
  show ?thesis
    unfolding canActivate_def
    by (auto simp: Let_def split: option.split sum.split
        intro!: keeps_at [where I = "\<lambda>s'. rs_db s' = rs_db s"] same keeps_rules keeps_if)
qed

lemma selectAdminCampus_db:
  "rs_db (fst (selectAdminCampus now userId sv target s)) = rs_db s \<or>
   (\<exists>j. rs_db (fst (selectAdminCampus now userId sv target s)) = set_account j (\<lambda>b. b\<lparr>acc_campusId := trim target\<rparr>) (rs_db s))"
proof -
  have db: "rs_db s1 = rs_db s" if "getEffective now a s = (s1, x)" for a s1 x
    using getEffective_db [of now a s] that by simp
  show ?thesis
    by (auto simp: selectAdminCampus_def and_then_def unless_def reject_def enter_campus_def dest!: db
        split: option.split sum.split prod.split)
qed

lemma session_step_voided: "session_step k s s' \<Longrightarrow> voided k v (rs_db s) \<Longrightarrow> voided k v (rs_db s')"
proof (induction rule: session_step.induct)
  case (admin s s')
  then show ?case using write_committed [of s s'] tx_voided by (auto simp: committed_def)
next
  case (login s matches single username password)
  then show ?case by (simp add: keepsD [OF voided.adminLogin])
next
  case (password s matches hash userId sv old new)
  then show ?case by (simp add: keepsD [OF voided.changePassword])
next
  case (select s now userId sv target)
  then show ?case
    using selectAdminCampus_db [of now userId sv target s]
    by (auto simp: voided_enter)
next
  case (request s now userId sv m path)
  then show ?case by simp
qed

lemma session_steps_voided: "(session_step k)\<^sup>*\<^sup>* s s' \<Longrightarrow> voided k v (rs_db s) \<Longrightarrow> voided k v (rs_db s')"
  by (induction rule: rtranclp_induct) (blast intro: session_step_voided)+

lemma voided_refused:
  assumes "voided k v (rs_db s)" and "token_version sv \<le> v"
  shows "\<exists>e. snd (canActivate now k sv m path s) = Inl e"
proof (cases "find_row acc_id k (accounts (rs_db s))")
  case None
  then show ?thesis by (simp add: canActivate_def reject_def)
next
  case (Some a)
  then have "v < acc_sessionVersion a" using assms(1) find_row_SomeD [OF Some] by (auto simp: voided_def)
  then have "\<exists>e. assertSession a sv = Inl e"
    using assms(2) by (auto simp: assertSession_def token_version_def)
  then show ?thesis using Some by (auto simp: canActivate_def reject_def)
qed

subsection \<open>The session a sign-in opens\<close>

lemma find_SomeD: "find P xs = Some x \<Longrightarrow> x \<in> set xs \<and> P x"
  by (induction xs) (auto split: if_splits)

lemma login_readD:
  assumes "login_read matches username password d = (d', Inr a)"
  shows "d' = d" and "a \<in> set (accounts d)" and "acc_username a = trim username"
    and "matches password (acc_passwordHash a)" and "acc_status a \<noteq> ''disabled''"
  using assms find_SomeD [of "\<lambda>a. acc_username a = trim username" "accounts d"]
  by (auto simp: login_read_def unless_def reply_def reject_def split: option.splits if_splits)

lemma open_singleD:
  assumes "open_single a d = (d', Inr b)"
  obtains b0 where "b0 \<in> set (accounts d)" "still_verified a b0" "b = bump_session b0"
    "d' = d\<lparr>accounts := update_where (still_verified a) bump_session (accounts d)\<rparr>"
  using assms that find_SomeD [of "still_verified a" "accounts d"]
  by (auto simp: open_single_def reject_def split: option.splits)

text \<open>The row an update of one account leaves.\<close>

lemma row_updated:
  assumes "b \<in> set (accounts d)" and "P b"
  shows "f b \<in> set (accounts (d\<lparr>accounts := update_where P f (accounts d)\<rparr>))"
  using assms by (auto simp: set_update_where image_iff)

lemma map_acc_id_update: "(\<And>a. acc_id (f a) = acc_id a) \<Longrightarrow>
  map acc_id (update_where P f rows) = map acc_id rows"
  by (rule map_key_update_where)

lemma login_campus_bump: "login_campus d (bump_session b) = login_campus d b"
  by (cases "campus_grants d (acc_id b)") (simp_all add: login_campus_def bump_session_def)

lemma login_finishD:
  assumes run: "login_finish single a d = (d', Inr r)" and a: "single \<or> a \<in> set (accounts d)"
  obtains b where "b \<in> set (accounts d')" "acc_id b = acc_id a" "cl_id (sr_claims r) = acc_id a"
    "cl_sv (sr_claims r) = Some (acc_sessionVersion b)" "cl_campusId (sr_claims r) = acc_campusId b"
    "single \<Longrightarrow> acc_status b = ''active''" "\<not> single \<Longrightarrow> acc_status b = acc_status a"
    "\<exists>b0 \<in> set (accounts d). acc_id b0 = acc_id a \<and> acc_campusId b = login_campus d b0"
proof -
  obtain d1 b1 where 1: "(if single then open_single a else reply a) d = (d1, Inr b1)"
    and 2: "settle_campus b1 d1 = (d', Inr r)"
    using run by (auto simp: login_finish_def and_then_def split: prod.splits sum.splits)
  have b1: "b1 \<in> set (accounts d1)" "acc_id b1 = acc_id a" "single \<Longrightarrow> acc_status b1 = ''active''"
    "\<not> single \<Longrightarrow> b1 = a" "grants d1 = grants d"
      "\<exists>b0 \<in> set (accounts d). acc_id b0 = acc_id a \<and> (b1 = b0 \<or> b1 = bump_session b0)"
    using 1 a by (auto simp: reply_def bump_session_def still_verified_def split: if_splits
        elim!: open_singleD dest: row_updated [of _ d "still_verified a" bump_session])
  have same: "login_campus d1 b1 = login_campus d b1" by (simp add: login_campus_def campus_grants_def b1(5))
  let ?c = "login_campus d b1"
  have own: "\<exists>b0 \<in> set (accounts d). acc_id b0 = acc_id a \<and> ?c = login_campus d b0"
    using b1(6) login_campus_bump by auto
  have r: "r = admin_reply b1 ?c" using 2 by (simp add: settle_campus_def Let_def same)
  have "b1\<lparr>acc_campusId := ?c\<rparr> \<in> set (accounts d')"
  proof (cases "?c = acc_campusId b1")
    case True
    then have "b1\<lparr>acc_campusId := ?c\<rparr> = b1" by simp
    then show ?thesis using 2 b1(1) True by (simp add: settle_campus_def Let_def same)
  next
    case False
    then show ?thesis using 2 b1(1) row_updated [of b1 d1 "\<lambda>b. acc_id b = acc_id b1"]
      by (auto simp: settle_campus_def Let_def same set_account_def)
  qed
  then show ?thesis
    using b1 own by (intro that [of "b1\<lparr>acc_campusId := ?c\<rparr>"]) (auto simp: r admin_reply_def admin_claims_def)
qed


text \<open>C11. A revoked token stays revoked. Once an account has changed its password, no token issued for it before
  gets a request through, whatever accounts, roles and menus are then edited, whoever signs in, changes passwords
  or campuses, and whatever the caches hold; the identity of a deleted account is taken not to be given out
  again.\<close>

theorem revoked_stays_revoked:
  assumes change: "changePassword matches hash k sv old new (rs_db s0) = (d, Inr x)"
    and ids: "distinct (map acc_id (accounts (rs_db s0)))"
    and steps: "(session_step k)\<^sup>*\<^sup>* (s0\<lparr>rs_db := d\<rparr>) s"
    and old: "token_version sv' \<le> token_version sv"
  shows "\<exists>e. snd (canActivate now k sv' m path s) = Inl e"
proof (rule voided_refused [OF session_steps_voided [OF steps] old])
  obtain a where a: "find_row acc_id k (accounts (rs_db s0)) = Some a" "assertSession a sv = Inr ()"
    and d: "d = set_account (acc_id a) (\<lambda>b. (bump_session b)\<lparr>acc_passwordHash := hash new\<rparr>) (rs_db s0)"
    using change by (auto simp: changePassword_def unless_def reject_def split: option.splits sum.splits if_splits)
  have k: "a \<in> set (accounts (rs_db s0))" "acc_id a = k" using find_row_SomeD [OF a(1)] by auto
  have v: "acc_sessionVersion a = token_version sv"
    using a(2) by (auto simp: assertSession_def token_version_def split: if_splits)
  have "token_version sv \<le> acc_sessionVersion b" if "b \<in> set (accounts (rs_db s0))" "acc_id b = k" for b
    using unique_key [OF ids that(1) k(1)] that(2) k(2) v by simp
  then show "voided k (token_version sv) (rs_db (s0\<lparr>rs_db := d\<rparr>))"
    unfolding d set_account_def using k by (auto simp: bump_session_def intro!: voided_bumped)
qed

text \<open>The same for a sign-in under the policy of one session, also where the account was changed between
  the check of the password and the update.\<close>

theorem single_session_wins:
  assumes checked: "login_read matches username password d0 = (d0, Inr a)"
    and opened: "login_finish True a (rs_db s0) = (d, Inr r)"
    and ids: "distinct (map acc_id (accounts (rs_db s0)))"
    and steps: "(session_step (acc_id a))\<^sup>*\<^sup>* (s0\<lparr>rs_db := d\<rparr>) s"
    and old: "token_version sv < token_version (cl_sv (sr_claims r))"
  shows "(\<exists>b \<in> set (accounts (rs_db s0)). acc_id b = acc_id a \<and> matches password (acc_passwordHash b) \<and>
      acc_status b = ''active'') \<and> (\<exists>e. snd (canActivate now (acc_id a) sv m path s) = Inl e)"
proof -
  obtain d1 b1 where 1: "open_single a (rs_db s0) = (d1, Inr b1)" and 2: "settle_campus b1 d1 = (d, Inr r)"
    using opened by (auto simp: login_finish_def and_then_def split: prod.splits sum.splits)
  from 1 obtain b0 where b0: "b0 \<in> set (accounts (rs_db s0))" "still_verified a b0" "b1 = bump_session b0"
    and d1: "d1 = (rs_db s0)\<lparr>accounts := update_where (still_verified a) bump_session (accounts (rs_db s0))\<rparr>"
    by (rule open_singleD)
  have v: "token_version (cl_sv (sr_claims r)) = acc_sessionVersion b0 + 1"
    using 2 b0(3) by (auto simp: settle_campus_def Let_def admin_reply_def admin_claims_def token_version_def bump_session_def)
  have b: "still_verified a b \<and> acc_sessionVersion b0 \<le> acc_sessionVersion b"
    if "b \<in> set (accounts (rs_db s0))" "acc_id b = acc_id a" for b
    using unique_key [OF ids that(1) b0(1)] that(2) b0(2) by (auto simp: still_verified_def)
  have "voided (acc_id a) (acc_sessionVersion b0) d1"
    unfolding d1 using b by (auto simp: bump_session_def intro!: voided_bumped)
  then have "voided (acc_id a) (acc_sessionVersion b0) d"
    using 2 by (auto simp: settle_campus_def Let_def voided_enter split: if_splits)
  then have "\<exists>e. snd (canActivate now (acc_id a) sv m path s) = Inl e"
    using old v by (intro voided_refused [OF session_steps_voided [OF steps]]) auto
  moreover have "matches password (acc_passwordHash b0)" using login_readD(4) [OF checked] b0(2)
    by (simp add: still_verified_def)
  ultimately show ?thesis using b0(1,2) by (auto simp: still_verified_def)
qed

subsection \<open>Campuses to work on\<close>

lemma getEffective_again:
  assumes "getEffective now a s = (s1, Inr ctx)"
  shows "getEffective now a s1 = (s1, Inr ctx)"
  using assms by (auto simp: getEffective_def Let_def reply_def reject_def TTL_MS_def split: option.splits if_splits)

lemma listed_may_select:
  assumes "c \<in> set (listed_campuses d ctx False)"
  shows "c \<in> set (rb_campuses d)" and "ca_status c = ''active''" and "may_select ctx c"
  using assms by (auto simp: listed_campuses_def all_campuses_def orgBounded_def may_select_def split: if_splits)

lemma open_campus_row:
  assumes "distinct (map ca_id cs)" and "c \<in> set cs" and "ca_status c = ''active''"
  shows "find (\<lambda>x. ca_id x = ca_id c \<and> ca_status x = ''active'') cs = Some c"
  using assms by (induction cs) (auto simp: image_iff)

text \<open>Every campus an account is offered is one it can enter; the token it gets then is for that campus, and
  so is the row of the account.\<close>

theorem listed_campus_selectable:
  assumes list: "adminCampuses now userId sv None s = (s1, Inr xs)" and c: "(c, current) \<in> set xs"
    and ids: "distinct (map ca_id (rb_campuses (rs_db s)))" and "trim (ca_id c) = ca_id c"
  shows "\<exists>s2 r. selectAdminCampus now userId sv (ca_id c) s1 = (s2, Inr r) \<and>
    cl_campusId (sr_claims r) = ca_id c \<and>
    (\<exists>a \<in> set (accounts (rs_db s2)). acc_id a = userId \<and> acc_campusId a = ca_id c \<and> assertSession a (cl_sv (sr_claims r)) = Inr ())"
proof -
  obtain a ctx where a: "find_row acc_id userId (accounts (rs_db s)) = Some a" "assertSession a sv = Inr ()"
    and eff: "getEffective now a s = (s1, Inr ctx)"
    and xs: "xs = map (\<lambda>c. (c, ca_id c = acc_campusId a)) (listed_campuses (rs_db s1) ctx False)"
    using list c by (auto simp: adminCampuses_def and_then_def reply_def reject_def
        split: option.splits sum.splits prod.splits)
  have db: "rs_db s1 = rs_db s" using getEffective_db [of now a s] eff by simp
  have lc: "c \<in> set (listed_campuses (rs_db s1) ctx False)" using c xs by auto
  note l = listed_may_select [OF lc]
  have "open_campus (rs_db s1) (ca_id c) = Some c"
    unfolding open_campus_def by (rule open_campus_row [OF _ l(1,2)]) (simp add: db ids)
  then have run: "selectAdminCampus now userId sv (ca_id c) s1 = enter_campus a (ca_id c) s1"
    using a getEffective_again [OF eff] l(3) assms(4)
    by (simp add: selectAdminCampus_def db and_then_def unless_def)
  let ?a = "a\<lparr>acc_campusId := ca_id c\<rparr>" and ?s = "fst (enter_campus a (ca_id c) s1)"
  have row: "a \<in> set (accounts (rs_db s1))" "acc_id a = userId" using find_row_SomeD [OF a(1)] db by auto
  have "?a \<in> set (accounts (rs_db ?s))"
  proof (cases "ca_id c = acc_campusId a")
    case True
    then have "?a = a" by simp
    then show ?thesis using row(1) True by (simp add: enter_campus_def)
  next
    case False
    then show ?thesis
      using row_updated [OF row(1), of "\<lambda>b. acc_id b = acc_id a" "\<lambda>b. b\<lparr>acc_campusId := ca_id c\<rparr>"]
      by (simp add: enter_campus_def set_account_def)
  qed
  moreover have "assertSession ?a (Some (acc_sessionVersion a)) = Inr ()"
    using a(2) by (simp add: assertSession_def split: if_splits)
  moreover have "enter_campus a (ca_id c) s1 = (?s, Inr (admin_reply a (ca_id c)))" by (simp add: enter_campus_def)
  ultimately show ?thesis using row(2) unfolding run
    by (intro exI [of _ ?s] exI [of _ "admin_reply a (ca_id c)"] conjI bexI [of _ ?a])
      (simp_all add: admin_reply_def admin_claims_def)
qed

subsection \<open>Examples\<close>


theorem revoked_stays_revoked_witness:
  "\<exists>e. snd (canActivate 0 ''a2'' (Some 0) ''GET'' ''/api/v1/admin/orders''
    (service0\<lparr>rs_db := fst (changePassword (=) (\<lambda>p. p) ''a2'' (Some 0) ''h'' ''new'' rbac0)\<rparr>)) = Inl e"
proof -
  have "snd (changePassword (=) (\<lambda>p. p) ''a2'' (Some 0) ''h'' ''new'' rbac0) = Inr ''a2''" by code_simp
  then have run: "changePassword (=) (\<lambda>p. p) ''a2'' (Some 0) ''h'' ''new'' (rs_db service0) =
      (fst (changePassword (=) (\<lambda>p. p) ''a2'' (Some 0) ''h'' ''new'' rbac0), Inr ''a2'')"
    by (simp add: prod_eq_iff)
  show ?thesis
    by (rule revoked_stays_revoked [OF run _ rtranclp.rtrancl_refl order_refl]) (simp add: rbac_samples)
qed

end
