(* ===== verification/Spec2Isabelle.thy ===== *)
theory Spec2Isabelle
  imports Order_Theorems Task_Theorems Commission_Theorems Coupon_Theorems Shop_Theorems
    Refund_Theorems Payment_Theorems Supply_Theorems Rbac_Samples Order_Life Settlement People_Theorems Product_Theorems
    Session_Theorems
begin

text \<open>
  A verification development for the back end of a campus shop: a NestJS program under \<open>src/src\<close> over a
  relational database (\<open>src/prisma/schema.prisma\<close>). Users of a mini program fill a cart, redeem coupons
  and pay; a rider brings the goods from the warehouse to a building and the building's manager to the
  door; the back office reviews refunds, replenishes the stock and administers coupons, accounts and
  roles; a payment service reports payments and refunds by signed callbacks.

  Shape of the model. A table is a list of records, one record per Prisma model, and the database is a
  record of tables (\<open>db\<close> in \<open>Store\<close> for the shop, \<open>rbac_db\<close> in \<open>Access_Policy\<close> and \<open>Rbac\<close> for access
  control). An operation has the type \<open>('s, 'a) handler = 's \<Rightarrow> 's \<times> (api_error + 'a)\<close>: the state it leaves and
  either the exception it throws or its result. \<open>transaction\<close> (\<open>Prelude\<close>) is \<open>db.$transaction\<close>: an
  exception restores the state. A \<open>findFirst\<close> is \<open>find_row\<close>, a conditional \<open>updateMany\<close> is \<open>update_where\<close>
  with its \<open>count_where\<close>. The clock, the time zone of the server, random numbers, fresh identities and
  password hashes are arguments. Amounts are integers in cents (\<open>cents\<close>), as in the code; JavaScript
  numbers that may be fractions are rationals and \<open>Math.round\<close> is \<open>js_round\<close>. Texts shown to people are
  rendered in English, one text per text of the code.

  Theories and the code they model.
  \<^item> \<open>Prelude\<close>: results, handlers, transactions, tables with keys (locale \<open>row_table\<close>, which every table of
    the model interprets), the predicate \<open>keeps\<close> of handlers that preserve an invariant.
  \<^item> \<open>Order_State\<close> (\<open>common/order-state.ts\<close>), \<open>Clock\<close> (calendar and opening hours of
    \<open>business/business.service.ts\<close>), \<open>Pricing\<close> (\<open>common/product-units.ts\<close>, \<open>common/pagination.ts\<close>,
    \<open>admin/refund-amount.ts\<close>, rule matching of \<open>commission/commission.service.ts\<close>), \<open>Store\<close> (tables),
    \<open>Capability\<close> (\<open>common/organization.ts\<close>, \<open>common/capability.ts\<close>), \<open>Samples\<close> (a small database for the witnesses).
  \<^item> \<open>Catalog\<close>, \<open>Coupons\<close>, \<open>Cart\<close>, \<open>Checkout\<close>, \<open>Orders\<close>, \<open>Refunds\<close>: the users' side,
    \<open>business/business.service.ts\<close>; \<open>Coupon_Admin\<close>, \<open>Refund_Admin\<close>, \<open>Supply\<close>: the back office,
    \<open>admin/admin.service.ts\<close>.
  \<^item> \<open>Payments\<close>: \<open>payments/payments.service.ts\<close>, \<open>common/wechat-org.ts\<close> and the two timed jobs
    \<open>payments/order-timeout.service.ts\<close> and \<open>payments/refund-sync.service.ts\<close>.
  \<^item> \<open>Fulfillment\<close> (cards, lists, dispatch) and \<open>Task_Actions\<close> (the writes):
    \<open>fulfillment/fulfillment.service.ts\<close>. \<open>Commission\<close>: \<open>commission/commission.service.ts\<close>.
  \<^item> \<open>Access_Policy\<close>, \<open>Registry\<close>, \<open>Rbac\<close>, \<open>Rbac_Admin\<close>, \<open>Rbac_Menus\<close>, \<open>Rbac_Sync\<close>:
    \<open>admin/rbac/access-policy.ts\<close>, \<open>capabilities.ts\<close>, \<open>registry.ts\<close>, \<open>rbac.service.ts\<close>,
    \<open>admin-auth.guard.ts\<close> and the scope helpers of \<open>admin/admin.controller.ts\<close>. \<open>Rbac_Steps\<close> collects the
    writes as step relations and states, as the locales \<open>rbac_frame\<close>, \<open>account_frame\<close>, \<open>role_frame\<close> and
    \<open>menu_frame\<close>, what an invariant has to promise so that all writes of one kind keep it.

  How the parts interact. Every part works on the same tables. \<open>Checkout\<close> turns a cart (\<open>Cart\<close>) priced by
  \<open>Catalog\<close> and a holding of \<open>Coupons\<close> into an order; \<open>Orders\<close> and \<open>Payments\<close> settle it (stock down,
  coupon used) or close it (coupon back); \<open>Task_Actions\<close> moves it along the edges of \<open>task_edge\<close> and calls
  \<open>Commission\<close> on delivery; \<open>Refunds\<close> reserves money for a request, \<open>Refund_Admin\<close> orders it at the payment
  service and books it, which restores stock and coupon and calls \<open>Commission\<close> again; \<open>Supply\<close> moves
  goods from the headquarters into campus stock. Access control has tables of its own; a request of the back
  office passes \<open>canActivate\<close> and the scope helpers before it reaches any of the operations above.

  What the groups of theorems show.
  \<^item> \<open>Order_Theorems\<close>: the quote of a new order, the settlement on payment, who wins when payment and
    closing meet, and which orders closing and cancelling touch.
  \<^item> \<open>Payment_Theorems\<close>: a callback needs a valid signature; a payment once received stays booked.
  \<^item> \<open>Coupon_Theorems\<close>: the counters of coupons never exceed their totals over every channel; the wheel
    draws every prize with its share of the weights.
  \<^item> \<open>Refund_Theorems\<close>: money on its way back never exceeds the payment; one approval and one booking per
    refund; a booked refund undoes the sale, a withdrawn one leaves the order as it was; and the places where
    the code falls short of this.
  \<^item> \<open>Task_Theorems\<close>: who may move an order and along which edge, that an offered action runs, one rider
    per order, evidence of delivery.
  \<^item> \<open>Commission_Theorems\<close>: one commission per person and order, and refunds take back their share.
  \<^item> \<open>Supply_Theorems\<close>: goods are neither made nor lost between supplier, headquarters and campus.
  \<^item> \<open>Shop_Theorems\<close>: carts stay well formed; matching of commission rules finds a best rule.
  \<^item> \<open>Rbac_Theorems\<close>, \<open>Menu_Theorems\<close>, \<open>Access_Theorems\<close>, \<open>Sync_Theorems\<close>: a super administrator always
    survives, tables stay typed, the menu tree stays a forest (so the climbs of the code end), a request
    passes only with a grant, the cached service refines the one without a cache, a campus account works on
    its own campus only, the synchronisation is idempotent. Their witnesses are in \<open>Rbac_Samples\<close>.

  Interleaving. A handler is one run without interruption. Where the code reads before its transaction and
  writes inside it, the two halves are separate definitions (\<open>pay_commit\<close>, \<open>receipt_commit\<close>, the receipt of a
  shipment and others), and theorems about overlapping requests compose the halves in the interleaved order.
  A transaction of the database is taken to be serialisable, and the effective context of an account is
  read in one step.

  Bounds and fuel. \<open>climb\<close> in \<open>Registry\<close> has fuel 3, and \<open>climb_enough\<close> shows that the registry's tree is not
  deeper. \<open>meets\<close> in \<open>Rbac_Menus\<close> is a loop that ends only in a forest: it is a partial function whose \<open>None\<close>
  is not returning, and \<open>menu_update_returns\<close> shows that it returns in every reachable state. \<open>collect\<close>, the
  removal of a subtree, ends by its measure. All other recursions are structural.

  Not modelled. Pushes (\<open>notifications/notifications.service.ts\<close>) and the receipt printer's transport are sent
  after the transaction and their outcome is ignored. Sign-in (\<open>auth/auth.controller.ts\<close>), the signature of
  tokens, the cryptography of the payment callbacks and the download of certificates are arguments or left
  out. The listing endpoints and reports only read. Controllers unpack requests; the bounds their DTO
  classes check are hypotheses. Not reached yet: the administration of products and content, of staff,
  campuses and organisations, and local procurement.
\<close>

end
